(* ===== verification/Prelude.thy ===== *)
theory Prelude
  imports Main "HOL-Library.AList" "HOL-Library.Sublist"
begin

text \<open>
  What every component of the development shares: the types of instants and durations, Go's
  machine integers where their width matters, Go maps as association lists, and the collections
  of facts that carry the component proofs.

  Instants (\<open>time.Time\<close>) are nanoseconds since the zero instant of Go, 1 January of year 1
  UTC, so that the zero value of a \<open>time.Time\<close> field is \<open>0\<close> and \<open>IsZero\<close> is equality with it.
  Durations (\<open>time.Duration\<close>) are nanoseconds too. The clock is never read by a definition: the
  instant a \<open>time.Now()\<close> returns is an argument.
\<close>

named_theorems frame \<open>what an operation leaves as it was\<close>
named_theorems inv_intros \<open>operations that keep a component's invariant\<close>

type_synonym time = int
type_synonym duration = int

abbreviation second :: duration where "second \<equiv> 1000000000"
abbreviation minute :: duration where "minute \<equiv> 60 * second"
abbreviation hour :: duration where "hour \<equiv> 60 * minute"

abbreviation max_i64 :: int where "max_i64 \<equiv> 9223372036854775807"
abbreviation min_i64 :: int where "min_i64 \<equiv> -9223372036854775808"

text \<open>Two's complement wrap-around of a 64-bit \<open>int\<close>, \<open>int64\<close> or \<open>time.Duration\<close>.\<close>

definition wrap_i64 :: "int \<Rightarrow> int" where
  "wrap_i64 x = (x + 2 ^ 63) mod 2 ^ 64 - 2 ^ 63"

text \<open>\<open>Time.Sub\<close> saturates at the bounds of a duration; \<open>After\<close> and \<open>Before\<close> compare.\<close>

definition time_sub :: "time \<Rightarrow> time \<Rightarrow> duration" where
  "time_sub a b = max min_i64 (min max_i64 (a - b))"

definition time_after :: "time \<Rightarrow> time \<Rightarrow> bool" where
  "time_after a b \<longleftrightarrow> b < a"

definition time_before :: "time \<Rightarrow> time \<Rightarrow> bool" where
  "time_before a b \<longleftrightarrow> a < b"

definition is_zero_time :: "time \<Rightarrow> bool" where
  "is_zero_time t \<longleftrightarrow> t = 0"

lemma wrap_i64_id [simp]: "min_i64 \<le> x \<Longrightarrow> x \<le> max_i64 \<Longrightarrow> wrap_i64 x = x"
  by (simp add: wrap_i64_def)

lemma wrap_i64_bounds: "min_i64 \<le> wrap_i64 x" "wrap_i64 x \<le> max_i64"
proof -
  have "0 \<le> (x + 2 ^ 63) mod 2 ^ 64" "(x + 2 ^ 63) mod 2 ^ 64 < 2 ^ 64" by simp_all
  then show "min_i64 \<le> wrap_i64 x" "wrap_i64 x \<le> max_i64"
    by (simp_all add: wrap_i64_def)
qed

lemma time_sub_gt_iff: "min_i64 \<le> d \<Longrightarrow> d < max_i64 \<Longrightarrow> time_sub a b > d \<longleftrightarrow> a - b > d"
  by (auto simp: time_sub_def)

lemma time_sub_less_iff: "min_i64 < d \<Longrightarrow> d \<le> max_i64 \<Longrightarrow> time_sub a b < d \<longleftrightarrow> a - b < d"
  by (auto simp: time_sub_def)

subsection \<open>Go maps with a range loop, as association lists\<close>

text \<open>
  A Go map that the code iterates over is an association list with distinct keys; its order
  stands for one of the iteration orders Go may choose. \<open>AList.update\<close> and \<open>AList.delete\<close> are the
  assignment and \<open>delete\<close>, \<open>map_of\<close> is the lookup.
\<close>

definition distinct_keys :: "('k \<times> 'v) list \<Rightarrow> bool" where
  "distinct_keys m \<longleftrightarrow> distinct (map fst m)"

lemma distinct_keys_Nil [simp, inv_intros]: "distinct_keys []"
  by (simp add: distinct_keys_def)

lemma distinct_keys_update [simp, inv_intros]:
  "distinct_keys m \<Longrightarrow> distinct_keys (AList.update k v m)"
  by (simp add: distinct_keys_def distinct_update)

lemma distinct_keys_delete [simp, inv_intros]:
  "distinct_keys m \<Longrightarrow> distinct_keys (AList.delete k m)"
  by (simp add: distinct_keys_def distinct_delete)

lemma distinct_keys_filter: "distinct_keys m \<Longrightarrow> distinct_keys (filter P m)"
  by (induction m) (auto simp: distinct_keys_def)

lemma map_of_in_set: "distinct_keys m \<Longrightarrow> map_of m k = Some v \<longleftrightarrow> (k, v) \<in> set m"
  by (simp add: distinct_keys_def)

lemma map_of_update_iff: "map_of (AList.update k v m) x = (if x = k then Some v else map_of m x)"
  by (simp add: update_conv')

lemma map_of_delete_iff: "map_of (AList.delete k m) x = (if x = k then None else map_of m x)"
  by (simp add: delete_conv')

lemma set_update_distinct:
  "distinct_keys m \<Longrightarrow> set (AList.update k v m) = insert (k, v) {x \<in> set m. fst x \<noteq> k}"
  by (induction m) (auto simp: distinct_keys_def intro: rev_image_eqI)

lemma set_delete_eq: "set (AList.delete k m) = {x \<in> set m. fst x \<noteq> k}"
  by (auto simp: AList.delete_eq)

lemma length_filter_one:
  assumes "x \<in> set xs" and "P x" and "length (filter P xs) \<le> 1" and "y \<in> set xs" and "P y"
  shows "y = x"
proof (rule ccontr)
  assume "y \<noteq> x"
  have "{x, y} \<subseteq> set (filter P xs)" using assms by auto
  then have "card {x, y} \<le> card (set (filter P xs))" by (intro card_mono) auto
  also have "\<dots> \<le> length (filter P xs)" by (rule card_length)
  finally show False using assms(3) \<open>y \<noteq> x\<close> by simp
qed

lemma sorted_snoc_last:
  "sorted (t # xs @ [y]) \<Longrightarrow> sorted (t # xs) \<and> last (t # xs) \<le> (y::'a::linorder)"
  by (cases xs rule: rev_cases) (auto simp: sorted_append)

subsection \<open>Errors\<close>

text \<open>
  The error values the modelled code distinguishes. \<open>ErrIO\<close> is any failure of the operating
  system the code does not tell apart; \<open>ErrMsg\<close> is \<open>errors.New\<close> or \<open>fmt.Errorf\<close>. \<open>OutOfFuel\<close> is no error of the
  program: it marks a recursion cut off before its end.
\<close>

datatype err =
    ErrNotExist | ErrExist | ErrNotDir | ErrIsDir | ErrInvalid | ErrNotEmpty | ErrIO
  | ErrOutsideRoot
  | ErrInvalidUsername | ErrLastAdmin
  | ErrNotFound | ErrDenied | ErrExpired | ErrDisabled
  | ErrMsg string
  | ErrJoin err err
  | OutOfFuel

fun is_Inr :: "'a + 'b \<Rightarrow> bool" where
  "is_Inr (Inl _) = False"
| "is_Inr (Inr _) = True"

lemma is_Inr_iff: "is_Inr r \<longleftrightarrow> (\<exists>x. r = Inr x)"
  by (cases r) auto

text \<open>Length bounds of a list kept to its last elements.\<close>

definition take_last :: "nat \<Rightarrow> 'a list \<Rightarrow> 'a list" where
  "take_last n xs = drop (length xs - n) xs"

lemma length_take_last [simp]: "length (take_last n xs) = min n (length xs)"
  by (simp add: take_last_def)

lemma take_last_all: "length xs \<le> n \<Longrightarrow> take_last n xs = xs"
  by (simp add: take_last_def)

lemma take_last_snoc: "take_last n (take_last n xs @ [x]) = take_last n (xs @ [x])"
proof (cases "length xs \<le> n")
  case True
  then show ?thesis by (simp add: take_last_all)
next
  case False
  then have "length xs - n + (Suc n - n) = Suc (length xs) - n" by simp
  with False show ?thesis by (cases n) (auto simp: take_last_def drop_Suc Suc_diff_le)
qed

lemma set_take_last: "set (take_last n xs) \<subseteq> set xs"
  by (simp add: take_last_def set_drop_subset)

lemma sorted_wrt_take_last: "sorted_wrt P xs \<Longrightarrow> sorted_wrt P (take_last n xs)"
  by (simp add: take_last_def sorted_wrt_drop)

end
