(* ===== verification/RateLimit.thy ===== *)
theory RateLimit
  imports Prelude
begin

text \<open>
  The failed-attempt limiter of \<open>internal/ratelimit/ratelimit.go\<close>: a map from keys (client
  address and user name, or client address and share id) to failure records, a fixed failure
  window, a lockout period, and a lazy sweep of stale records. The mutex makes every method
  atomic, so a method is a function from the limiter to the limiter; the instant of its
  \<open>time.Now()\<close> is its first argument.

  The locale \<open>rate_limiter\<close> states what the FTP and HTTP login code relies on; the guarded
  attempt of the clients is analysed once inside it and the limiter is shown to be an instance.
\<close>

record entry =
  Failures :: int
  FirstFailed :: time
  LockedUntil :: time
  LastSeen :: time

record Limiter =
  l_entries :: "string \<Rightarrow> entry option"
  l_limit :: int
  l_window :: duration
  l_lockout :: duration
  l_lastTrim :: time

definition zero_entry :: entry where
  "zero_entry = \<lparr>Failures = 0, FirstFailed = 0, LockedUntil = 0, LastSeen = 0\<rparr>"

text \<open>A map read yields the zero value for a missing key.\<close>

definition entry_at :: "Limiter \<Rightarrow> string \<Rightarrow> entry" where
  "entry_at l key = (case l_entries l key of None \<Rightarrow> zero_entry | Some e \<Rightarrow> e)"

definition New_limiter :: "int \<Rightarrow> duration \<Rightarrow> duration \<Rightarrow> Limiter" where
  "New_limiter limit window lockout =
     \<lparr>l_entries = Map.empty,
      l_limit = (if limit \<le> 0 then 5 else limit),
      l_window = (if window \<le> 0 then 10 * minute else window),
      l_lockout = (if lockout \<le> 0 then 5 * minute else lockout),
      l_lastTrim = 0\<rparr>"

definition trimLocked :: "time \<Rightarrow> Limiter \<Rightarrow> Limiter" where
  "trimLocked now l =
     (if time_sub now (l_lastTrim l) < minute then l
      else l\<lparr>l_entries := (\<lambda>key. case l_entries l key of
                 None \<Rightarrow> None
               | Some e \<Rightarrow>
                   if time_sub now (LastSeen e) > wrap_i64 (l_window l + l_lockout l)
                   then None else Some e),
             l_lastTrim := now\<rparr>)"

definition Allow :: "time \<Rightarrow> string \<Rightarrow> Limiter \<Rightarrow> bool \<times> Limiter" where
  "Allow now key l0 =
     (let l = trimLocked now l0; e = entry_at l key
      in if time_after now (LockedUntil e) then (True, l)
         else (False, l\<lparr>l_entries := (l_entries l)(key \<mapsto> e\<lparr>LastSeen := now\<rparr>)\<rparr>))"

definition Fail :: "time \<Rightarrow> string \<Rightarrow> Limiter \<Rightarrow> Limiter" where
  "Fail now key l0 =
     (let l = trimLocked now l0;
          e0 = entry_at l key;
          e1 = (if is_zero_time (FirstFailed e0) \<or> time_sub now (FirstFailed e0) > l_window l
                then zero_entry\<lparr>FirstFailed := now\<rparr> else e0);
          e2 = e1\<lparr>Failures := Failures e1 + 1, LastSeen := now\<rparr>;
          e3 = (if Failures e2 \<ge> l_limit l then e2\<lparr>LockedUntil := now + l_lockout l\<rparr> else e2)
      in l\<lparr>l_entries := (l_entries l)(key \<mapsto> e3)\<rparr>)"

definition Reset :: "string \<Rightarrow> Limiter \<Rightarrow> Limiter" where
  "Reset key l = l\<lparr>l_entries := (l_entries l)(key := None)\<rparr>"

subsection \<open>The interface the login code relies on\<close>

text \<open>
  \<open>deadline s k\<close> is the instant up to which key \<open>k\<close> is locked, and \<open>invar t s\<close> says the state is
  well formed and was last written no later than \<open>t\<close>. A state never forgets a deadline that has
  not passed, except by a failure or a reset of that very key.
\<close>

locale rate_limiter =
  fixes allow :: "time \<Rightarrow> 'k \<Rightarrow> 's \<Rightarrow> bool \<times> 's"
    and fail :: "time \<Rightarrow> 'k \<Rightarrow> 's \<Rightarrow> 's"
    and reset :: "'k \<Rightarrow> 's \<Rightarrow> 's"
    and deadline :: "'s \<Rightarrow> 'k \<Rightarrow> time"
    and invar :: "time \<Rightarrow> 's \<Rightarrow> bool"
  assumes allow_inv: "invar t s \<Longrightarrow> t \<le> now \<Longrightarrow> invar now (snd (allow now k s))"
    and fail_inv: "invar t s \<Longrightarrow> t \<le> now \<Longrightarrow> invar now (fail now k s)"
    and reset_inv: "invar t s \<Longrightarrow> invar t (reset k s)"
    and allow_iff: "invar t s \<Longrightarrow> t \<le> now \<Longrightarrow> fst (allow now k s) \<longleftrightarrow> deadline s k < now"
    and allow_deadline:
      "invar t s \<Longrightarrow> t \<le> now \<Longrightarrow> now \<le> deadline s j \<Longrightarrow>
         deadline (snd (allow now k s)) j = deadline s j"
    and fail_deadline:
      "invar t s \<Longrightarrow> t \<le> now \<Longrightarrow> now \<le> deadline s j \<Longrightarrow> j \<noteq> k \<Longrightarrow>
         deadline (fail now k s) j = deadline s j"
    and reset_deadline: "j \<noteq> k \<Longrightarrow> deadline (reset k s) j = deadline s j"

text \<open>
  The protocol of \<open>authenticateRequest\<close>, \<open>login\<close>, \<open>verifySharePassword\<close> and the FTP \<open>PASS\<close>
  command: ask the limiter, check the credentials, report the outcome to the limiter.
\<close>

datatype outcome = Limited | Rejected | Accepted

definition guarded_attempt ::
  "(time \<Rightarrow> 'k \<Rightarrow> 's \<Rightarrow> bool \<times> 's) \<Rightarrow> (time \<Rightarrow> 'k \<Rightarrow> 's \<Rightarrow> 's) \<Rightarrow> ('k \<Rightarrow> 's \<Rightarrow> 's) \<Rightarrow>
     time \<Rightarrow> 'k \<Rightarrow> bool \<Rightarrow> 's \<Rightarrow> outcome \<times> 's" where
  "guarded_attempt allow fail reset now k good s =
     (case allow now k s of
        (False, s1) \<Rightarrow> (Limited, s1)
      | (True, s1) \<Rightarrow> if good then (Accepted, reset k s1) else (Rejected, fail now k s1))"

fun guarded_attempts ::
  "(time \<Rightarrow> 'k \<Rightarrow> 's \<Rightarrow> bool \<times> 's) \<Rightarrow> (time \<Rightarrow> 'k \<Rightarrow> 's \<Rightarrow> 's) \<Rightarrow> ('k \<Rightarrow> 's \<Rightarrow> 's) \<Rightarrow>
     (time \<times> 'k \<times> bool) list \<Rightarrow> 's \<Rightarrow> outcome list \<times> 's" where
  "guarded_attempts allow fail reset [] s = ([], s)"
| "guarded_attempts allow fail reset ((now, k, good) # as) s =
     (case guarded_attempt allow fail reset now k good s of
        (out, s1) \<Rightarrow>
          (case guarded_attempts allow fail reset as s1 of (outs, s2) \<Rightarrow> (out # outs, s2)))"

context rate_limiter
begin

lemma attempt_locked:
  assumes "invar t s" and "t \<le> now" and "now \<le> deadline s k"
  shows "fst (guarded_attempt allow fail reset now k good s) = Limited"
  using allow_iff[OF assms(1,2), of k] assms(3)
  by (auto simp: guarded_attempt_def split: prod.splits bool.splits)

lemma attempt_inv:
  assumes "invar t s" and "t \<le> now"
  shows "invar now (snd (guarded_attempt allow fail reset now k good s))"
proof -
  obtain b s1 where a: "allow now k s = (b, s1)" by force
  with allow_inv[OF assms, of k] have "invar now s1" by simp
  then show ?thesis
    by (auto simp: guarded_attempt_def a intro: reset_inv fail_inv split: bool.splits)
qed

lemma attempt_keeps_deadline:
  assumes "invar t s" and "t \<le> now" and "now \<le> deadline s j"
  shows "deadline (snd (guarded_attempt allow fail reset now k good s)) j = deadline s j"
proof -
  obtain b s1 where a: "allow now k s = (b, s1)" by force
  with allow_inv[OF assms(1,2), of k] have i: "invar now s1" by simp
  from a allow_deadline[OF assms, of k] have d: "deadline s1 j = deadline s j" by simp
  show ?thesis
  proof (cases b)
    case False
    then show ?thesis by (simp add: guarded_attempt_def a d)
  next
    case True
    with a allow_iff[OF assms(1,2), of k] assms(3) have "j \<noteq> k" by auto
    with True show ?thesis
      using fail_deadline[OF i order_refl, of j k] d assms(3)
      by (auto simp: guarded_attempt_def a reset_deadline)
  qed
qed

lemma locked_out:
  assumes "invar t s" and "sorted (t # map fst as)" and "\<forall>a \<in> set as. fst a \<le> deadline s j"
    and "guarded_attempts allow fail reset as s = (outs, s')" and "i < length as"
    and "fst (snd (as ! i)) = j"
  shows "outs ! i = Limited"
  using assms
proof (induction as arbitrary: t s outs i)
  case (Cons a as)
  obtain now k good where a: "a = (now, k, good)" by (cases a) auto
  obtain out s1 where g: "guarded_attempt allow fail reset now k good s = (out, s1)" by force
  obtain outs1 where outs: "outs = out # outs1"
    and rest: "guarded_attempts allow fail reset as s1 = (outs1, s')"
    using Cons.prems(4) by (auto simp: a g split: prod.splits)
  have t: "t \<le> now" and d: "now \<le> deadline s j" using Cons.prems(2,3) by (auto simp: a)
  show ?case
  proof (cases i)
    case 0
    with Cons.prems(6) have "k = j" by (simp add: a)
    with attempt_locked[OF Cons.prems(1) t, of k good] d 0 g show ?thesis by (simp add: outs)
  next
    case (Suc i')
    have "deadline s1 j = deadline s j"
      using attempt_keeps_deadline[OF Cons.prems(1) t d, of k good] by (simp add: g)
    moreover have "invar now s1"
      using attempt_inv[OF Cons.prems(1) t, of k good] by (simp add: g)
    ultimately have "outs1 ! i' = Limited"
      using Cons.IH[of now s1 outs1 i'] Cons.prems(2,3,5,6) rest Suc by (auto simp: a)
    with Suc outs show ?thesis by simp
  qed
qed simp

end


subsection \<open>The limiter implements the interface\<close>

definition lim_deadline :: "Limiter \<Rightarrow> string \<Rightarrow> time" where
  "lim_deadline l k = LockedUntil (entry_at l k)"

definition entry_ok :: "time \<Rightarrow> duration \<Rightarrow> entry \<Rightarrow> bool" where
  "entry_ok t lockout e \<longleftrightarrow>
     0 < FirstFailed e \<and> FirstFailed e \<le> LastSeen e \<and> LastSeen e \<le> t \<and>
     LockedUntil e \<le> LastSeen e + lockout"

definition lim_inv :: "time \<Rightarrow> Limiter \<Rightarrow> bool" where
  "lim_inv t l \<longleftrightarrow>
     0 < t \<and> 0 < l_limit l \<and> 0 < l_window l \<and> 0 < l_lockout l \<and>
     l_window l + l_lockout l < max_i64 \<and>
     (\<forall>k e. l_entries l k = Some e \<longrightarrow> entry_ok t (l_lockout l) e)"

lemma entry_at_None [simp]: "l_entries l k = None \<Longrightarrow> entry_at l k = zero_entry"
  by (simp add: entry_at_def)

lemma entry_at_Some [simp]: "l_entries l k = Some e \<Longrightarrow> entry_at l k = e"
  by (simp add: entry_at_def)

lemma zero_entry_simps [simp]:
  "Failures zero_entry = 0" "FirstFailed zero_entry = 0" "LockedUntil zero_entry = 0"
  "LastSeen zero_entry = 0"
  by (simp_all add: zero_entry_def)

lemma trim_params [simp]:
  "l_limit (trimLocked now l) = l_limit l" "l_window (trimLocked now l) = l_window l"
  "l_lockout (trimLocked now l) = l_lockout l"
  by (simp_all add: trimLocked_def)

lemma trim_entries:
  assumes "lim_inv t l"
  shows "l_entries (trimLocked now l) k =
    (case l_entries l k of None \<Rightarrow> None
     | Some e \<Rightarrow> if minute \<le> time_sub now (l_lastTrim l) \<and>
                    l_window l + l_lockout l < now - LastSeen e then None else Some e)"
  using assms
  by (auto simp: trimLocked_def lim_inv_def time_sub_gt_iff split: option.splits)

text \<open>The sweep keeps every record whose lock has not run out.\<close>

lemma trim_keeps_locked:
  assumes "lim_inv t l" and "now \<le> lim_deadline l k" and "t \<le> now"
  shows "l_entries (trimLocked now l) k = l_entries l k"
  using assms unfolding trim_entries[OF assms(1)]
  by (fastforce simp: lim_deadline_def lim_inv_def entry_ok_def split: option.splits)

lemma lim_inv_mono: "lim_inv t l \<Longrightarrow> t \<le> t' \<Longrightarrow> lim_inv t' l"
  by (fastforce simp: lim_inv_def entry_ok_def)

lemma trim_inv: "lim_inv t l \<Longrightarrow> t \<le> now \<Longrightarrow> lim_inv now (trimLocked now l)"
  using lim_inv_mono[of t l now]
  by (auto simp: lim_inv_def trim_entries split: option.splits if_splits)

lemma trim_deadline:
  "lim_inv t l \<Longrightarrow> t \<le> now \<Longrightarrow>
     lim_deadline (trimLocked now l) k < now \<longleftrightarrow> lim_deadline l k < now"
  using trim_keeps_locked[of t l now k]
  by (cases "now \<le> lim_deadline l k")
     (auto simp: lim_deadline_def entry_at_def trim_entries lim_inv_def split: option.splits)

lemma Fail_entry:
  "l_entries (Fail now k l) k' =
    (if k' = k then
       (let e0 = entry_at (trimLocked now l) k;
            fresh = (is_zero_time (FirstFailed e0) \<or> time_sub now (FirstFailed e0) > l_window l);
            f = (if fresh then now else FirstFailed e0);
            n = (if fresh then 1 else Failures e0 + 1);
            d = (if fresh then 0 else LockedUntil e0)
        in Some \<lparr>Failures = n, FirstFailed = f,
                 LockedUntil = (if n \<ge> l_limit l then now + l_lockout l else d),
                 LastSeen = now\<rparr>)
     else l_entries (trimLocked now l) k')"
  by (simp add: Fail_def Let_def zero_entry_def)

lemma Fail_params [simp]:
  "l_limit (Fail now k l) = l_limit l" "l_window (Fail now k l) = l_window l"
  "l_lockout (Fail now k l) = l_lockout l"
  by (simp_all add: Fail_def Let_def)

lemma Allow_entry:
  "l_entries (snd (Allow now k l)) k' =
    (if k' = k \<and> now \<le> lim_deadline (trimLocked now l) k
     then Some ((entry_at (trimLocked now l) k)\<lparr>LastSeen := now\<rparr>)
     else l_entries (trimLocked now l) k')"
  by (auto simp: Allow_def Let_def time_after_def lim_deadline_def)

lemma Allow_params [simp]:
  "l_limit (snd (Allow now k l)) = l_limit l" "l_window (snd (Allow now k l)) = l_window l"
  "l_lockout (snd (Allow now k l)) = l_lockout l"
  by (simp_all add: Allow_def Let_def)

lemma Fail_inv:
  assumes "lim_inv t l" and "t \<le> now"
  shows "lim_inv now (Fail now k l)"
proof -
  have i: "lim_inv now (trimLocked now l)" by (rule trim_inv[OF assms])
  show ?thesis
    unfolding lim_inv_def
  proof (intro conjI allI impI)
    fix k' e assume e: "l_entries (Fail now k l) k' = Some e"
    have ok: "entry_ok now (l_lockout l) a" if "l_entries (trimLocked now l) j = Some a" for j a
      using i that by (auto simp: lim_inv_def)
    show "entry_ok now (l_lockout (Fail now k l)) e"
    proof (cases "l_entries (trimLocked now l) k")
      case None
      with e ok[of k'] i show ?thesis
        by (auto simp: Fail_entry entry_ok_def lim_inv_def Let_def is_zero_time_def
              split: if_splits)
    next
      case (Some a)
      from ok[OF Some] e ok[of k'] i show ?thesis
        by (auto simp: Fail_entry entry_ok_def lim_inv_def Let_def is_zero_time_def Some
              split: if_splits)
    qed
  qed (use i in \<open>auto simp: lim_inv_def\<close>)
qed

lemma locked_has_entry:
  "0 < now \<Longrightarrow> now \<le> lim_deadline l k \<Longrightarrow> \<exists>e. l_entries l k = Some e"
  by (cases "l_entries l k") (auto simp: lim_deadline_def)

lemma Allow_inv:
  assumes "lim_inv t l" and "t \<le> now"
  shows "lim_inv now (snd (Allow now k l))"
proof -
  have i: "lim_inv now (trimLocked now l)" by (rule trim_inv[OF assms])
  show ?thesis
    unfolding lim_inv_def
  proof (intro conjI allI impI)
    fix k' e assume "l_entries (snd (Allow now k l)) k' = Some e"
    then show "entry_ok now (l_lockout (snd (Allow now k l))) e"
      using i locked_has_entry[of now "trimLocked now l" k]
      by (fastforce simp: Allow_entry lim_inv_def entry_ok_def split: if_splits)
  qed (use i in \<open>auto simp: lim_inv_def\<close>)
qed

lemma Allow_iff:
  assumes "lim_inv t l" and "t \<le> now"
  shows "fst (Allow now k l) \<longleftrightarrow> lim_deadline l k < now"
  using trim_deadline[OF assms, of k]
  by (simp add: Allow_def Let_def time_after_def lim_deadline_def)

lemma Allow_deadline:
  assumes "lim_inv t l" and "t \<le> now" and "now \<le> lim_deadline l j"
  shows "lim_deadline (snd (Allow now k l)) j = lim_deadline l j"
  using trim_keeps_locked[OF assms(1,3,2)]
  by (auto simp: lim_deadline_def entry_at_def Allow_entry split: option.splits)

lemma Fail_deadline_other:
  assumes "lim_inv t l" and "t \<le> now" and "now \<le> lim_deadline l j" and "j \<noteq> k"
  shows "lim_deadline (Fail now k l) j = lim_deadline l j"
  using trim_keeps_locked[OF assms(1,3,2)] assms(4)
  by (simp add: lim_deadline_def entry_at_def Fail_entry)

interpretation lim: rate_limiter Allow Fail Reset lim_deadline lim_inv
proof unfold_locales
  fix t s and k :: string
  show "lim_inv t s \<Longrightarrow> lim_inv t (Reset k s)"
    by (auto simp: lim_inv_def Reset_def split: if_splits)
next
  fix j k :: string and s
  show "j \<noteq> k \<Longrightarrow> lim_deadline (Reset k s) j = lim_deadline s j"
    by (simp add: lim_deadline_def entry_at_def Reset_def)
qed (rule Allow_inv Fail_inv Allow_iff Allow_deadline Fail_deadline_other; assumption)+


subsection \<open>When a key is locked\<close>

datatype lim_event = EvAllow time string | EvFail time string | EvReset time string

fun ev_time :: "lim_event \<Rightarrow> time" where
  "ev_time (EvAllow now k) = now"
| "ev_time (EvFail now k) = now"
| "ev_time (EvReset now k) = now"

fun lim_step :: "lim_event \<Rightarrow> Limiter \<Rightarrow> Limiter" where
  "lim_step (EvAllow now k) l = snd (Allow now k l)"
| "lim_step (EvFail now k) l = Fail now k l"
| "lim_step (EvReset now k) l = Reset k l"

definition lim_run :: "lim_event list \<Rightarrow> Limiter \<Rightarrow> Limiter" where
  "lim_run evs l = fold lim_step evs l"

fun fail_times :: "string \<Rightarrow> lim_event list \<Rightarrow> time list" where
  "fail_times k [] = []"
| "fail_times k (EvFail now j # evs) = (if j = k then now # fail_times k evs else fail_times k evs)"
| "fail_times k (_ # evs) = fail_times k evs"

fun resets :: "string \<Rightarrow> lim_event \<Rightarrow> bool" where
  "resets k (EvReset now j) \<longleftrightarrow> j = k"
| "resets k _ \<longleftrightarrow> False"

definition tracked :: "string \<Rightarrow> time list \<Rightarrow> Limiter \<Rightarrow> bool" where
  "tracked k ts l \<longleftrightarrow>
     (case l_entries l k of
        None \<Rightarrow> ts = []
      | Some e \<Rightarrow> ts \<noteq> [] \<and> Failures e = int (length ts) \<and> FirstFailed e = hd ts \<and>
          LockedUntil e = (if int (length ts) < l_limit l then 0 else last ts + l_lockout l))"

lemma fail_times_append [simp]: "fail_times k (a @ b) = fail_times k a @ fail_times k b"
  by (induction k a rule: fail_times.induct) auto

lemma tracked_trim:
  assumes "tracked k ts l" and "lim_inv t l" and "t \<le> now"
    and "ts \<noteq> [] \<Longrightarrow> now \<le> hd ts + l_window l"
  shows "l_entries (trimLocked now l) k = l_entries l k"
  using assms unfolding trim_entries[OF assms(2)]
  by (fastforce simp: tracked_def lim_inv_def entry_ok_def split: option.splits)

lemma lim_step_params [simp]:
  "l_limit (lim_step ev l) = l_limit l" "l_window (lim_step ev l) = l_window l"
  "l_lockout (lim_step ev l) = l_lockout l"
  by (cases ev; simp add: Reset_def)+

lemma lim_step_inv: "lim_inv t l \<Longrightarrow> t \<le> ev_time ev \<Longrightarrow> lim_inv (ev_time ev) (lim_step ev l)"
  by (cases ev) (auto intro: Allow_inv Fail_inv lim.reset_inv lim_inv_mono)

lemma tracked_step:
  assumes "tracked k ts l" and "lim_inv t l" and "t \<le> ev_time ev" and "\<not> resets k ev"
    and "ts \<noteq> [] \<Longrightarrow> ev_time ev \<le> hd ts + l_window l"
  shows "tracked k (ts @ fail_times k [ev]) (lim_step ev l)"
proof -
  have trim: "l_entries (trimLocked (ev_time ev) l) k = l_entries l k"
    by (rule tracked_trim[OF assms(1-3,5)])
  show ?thesis
  proof (cases ev)
    case (EvAllow now j)
    then show ?thesis
      using assms(1,2,3) trim locked_has_entry[of now "trimLocked now l" k]
      by (fastforce simp: tracked_def Allow_entry lim_inv_def split: option.splits)
  next
    case (EvReset now j)
    then show ?thesis using assms(1,4) by (auto simp: tracked_def Reset_def split: option.splits)
  next
    case (EvFail now j)
    show ?thesis
    proof (cases "j = k")
      case False
      with EvFail assms(1) trim show ?thesis
        by (auto simp: tracked_def Fail_entry split: option.splits)
    next
      case True
      note ev = EvFail True
      show ?thesis
      proof (cases "l_entries l k")
        case None
        with assms(1,2) ev trim show ?thesis
          by (simp add: tracked_def Fail_entry is_zero_time_def lim_inv_def)
      next
        case (Some e)
        from assms(2) Some have ok: "entry_ok t (l_lockout l) e" by (auto simp: lim_inv_def)
        have "\<not> time_sub now (FirstFailed e) > l_window l"
          using assms(1,2,5) Some ev
          by (auto simp: tracked_def time_sub_gt_iff lim_inv_def)
        then show ?thesis
          using assms(1,2) Some ev trim ok
          by (auto simp: tracked_def Fail_entry is_zero_time_def entry_ok_def)
      qed
    qed
  qed
qed

lemma lim_run_tracked:
  assumes "lim_inv t l" and "l_entries l k = None" and "sorted (t # map ev_time evs)"
    and "\<forall>ev \<in> set evs. \<not> resets k ev"
    and "\<forall>ev \<in> set evs. fail_times k evs \<noteq> [] \<longrightarrow> ev_time ev \<le> hd (fail_times k evs) + l_window l"
  shows "tracked k (fail_times k evs) (lim_run evs l) \<and>
    lim_inv (last (t # map ev_time evs)) (lim_run evs l) \<and>
    l_limit (lim_run evs l) = l_limit l \<and> l_window (lim_run evs l) = l_window l \<and>
    l_lockout (lim_run evs l) = l_lockout l"
  using assms
proof (induction evs rule: rev_induct)
  case Nil
  then show ?case by (simp add: tracked_def lim_run_def)
next
  case (snoc ev evs)
  let ?l = "lim_run evs l" and ?t = "last (t # map ev_time evs)"
  have bound: "\<forall>e \<in> set evs. fail_times k evs \<noteq> [] \<longrightarrow>
      ev_time e \<le> hd (fail_times k evs) + l_window l"
    using snoc.prems(5) by (auto simp: hd_append)
  have srt: "sorted (t # map ev_time evs)" "?t \<le> ev_time ev"
    using sorted_snoc_last[of t "map ev_time evs" "ev_time ev"] snoc.prems(3) by simp_all
  from snoc.IH[OF snoc.prems(1,2) srt(1) _ bound] snoc.prems(4)
  have IH: "tracked k (fail_times k evs) ?l" "lim_inv ?t ?l" "l_limit ?l = l_limit l"
    "l_window ?l = l_window l" "l_lockout ?l = l_lockout l" by auto
  have "fail_times k evs \<noteq> [] \<Longrightarrow> ev_time ev \<le> hd (fail_times k evs) + l_window ?l"
    using snoc.prems(5) IH(4) by (auto simp: hd_append)
  from tracked_step[OF IH(1,2) srt(2) _ this] snoc.prems(4)
  have "tracked k (fail_times k evs @ fail_times k [ev]) (lim_step ev ?l)" by simp
  with IH lim_step_inv[OF IH(2) srt(2)] show ?case by (simp add: lim_run_def)
qed

lemma tracked_deadline:
  "tracked k ts l \<Longrightarrow> lim_inv t l \<Longrightarrow>
     lim_deadline l k = (if int (length ts) < l_limit l then 0 else last ts + l_lockout l)"
  by (auto simp: tracked_def lim_deadline_def entry_at_def lim_inv_def split: option.splits)

subsection \<open>Properties\<close>

text \<open>C25: the lockout is exact. From a state with no record of a key, after any sequence of
  limiter calls in time order, for this key and others, that neither resets the key nor
  outlasts one failure window, the key is locked exactly when it failed at least \<open>limit\<close> times, and
  then until the lockout period after its last failure: \<open>Allow\<close> answers no up to that
  instant and yes after it.\<close>

theorem lockout_exact:
  assumes "lim_inv t l" and "l_entries l k = None" and "sorted (t # map ev_time evs @ [now])"
    and "\<forall>ev \<in> set evs. \<not> resets k ev"
    and "\<forall>ev \<in> set evs. fail_times k evs \<noteq> [] \<longrightarrow> ev_time ev \<le> hd (fail_times k evs) + l_window l"
  shows "fst (Allow now k (lim_run evs l)) \<longleftrightarrow>
    int (length (fail_times k evs)) < l_limit l \<or> last (fail_times k evs) + l_lockout l < now"
proof -
  let ?l = "lim_run evs l" and ?t = "last (t # map ev_time evs)"
  have srt: "sorted (t # map ev_time evs)" "?t \<le> now"
    using sorted_snoc_last[OF assms(3)] by simp_all
  from lim_run_tracked[OF assms(1,2) srt(1) assms(4,5)]
  have tr: "tracked k (fail_times k evs) ?l" and inv: "lim_inv ?t ?l"
    and par: "l_limit ?l = l_limit l" "l_lockout ?l = l_lockout l" by auto
  from tracked_deadline[OF tr inv] Allow_iff[OF inv srt(2), of k] par inv srt(2)
  show ?thesis by (auto simp: lim_inv_def)
qed

theorem lockout_exact_witness:
  "\<not> fst (Allow (3 * minute) ''k'' (lim_run
      [EvFail 1 ''k'', EvFail 2 ''j'', EvFail 3 ''k''] (New_limiter 2 (10 * minute) (5 * minute))))"
proof -
  have "lim_inv 1 (New_limiter 2 (10 * minute) (5 * minute))"
    "l_entries (New_limiter 2 (10 * minute) (5 * minute)) ''k'' = None"
    by (simp_all add: lim_inv_def New_limiter_def)
  from lockout_exact[OF this, of "[EvFail 1 ''k'', EvFail 2 ''j'', EvFail 3 ''k'']" "3 * minute"]
  show ?thesis by (simp add: New_limiter_def)
qed

text \<open>C26: brute force is stopped. Once a key is locked, every guarded attempt on it up to the
  deadline is refused as limited, with right or wrong credentials, whatever attempts on other
  keys run in between: the limiter as used by the login handlers satisfies the contract of
  \<open>rate_limiter\<close>.\<close>

theorem locked_attempts_refused:
  assumes "lim_inv t l" and "sorted (t # map fst as)"
    and "\<forall>a \<in> set as. fst a \<le> lim_deadline l j"
    and "i < length as" and "fst (snd (as ! i)) = j"
  shows "fst (guarded_attempts Allow Fail Reset as l) ! i = Limited"
proof -
  obtain outs l' where g: "guarded_attempts Allow Fail Reset as l = (outs, l')" by force
  from lim.locked_out[OF assms(1,2,3) g assms(4,5)] show ?thesis by (simp add: g)
qed

theorem locked_attempts_refused_witness:
  "fst (guarded_attempts Allow Fail Reset [(5, ''j'', True), (6, ''k'', True)]
     (Fail 3 ''k'' (New_limiter 1 (10 * minute) (5 * minute)))) ! 1 = Limited"
proof -
  have "lim_inv 3 (New_limiter 1 (10 * minute) (5 * minute))"
    by (simp add: lim_inv_def New_limiter_def)
  then have i: "lim_inv 3 (Fail 3 ''k'' (New_limiter 1 (10 * minute) (5 * minute)))"
    by (rule Fail_inv) simp
  have d: "lim_deadline (Fail 3 ''k'' (New_limiter 1 (10 * minute) (5 * minute))) ''k''
      = 3 + 5 * minute"
    by (simp add: lim_deadline_def entry_at_def Fail_entry New_limiter_def trimLocked_def
        is_zero_time_def time_sub_def)
  show ?thesis
    by (rule locked_attempts_refused[OF i]) (use d in \<open>auto simp: less_Suc_eq\<close>)
qed

end
