(* ===== verification/StatusTracker.thy ===== *)
theory StatusTracker
  imports Prelude "HOL-Library.Multiset"
begin

text \<open>
  The live-session tracker of \<open>internal/status/status.go\<close>: sessions by identifier, identifiers
  handed out by a counter. Each method holds the lock, so it is one function on the state; the
  callback of \<open>Update\<close> is a function on the session.
\<close>

record Session =
  st_ID :: int
  st_Protocol :: string
  st_User :: string
  st_Remote :: string
  st_StartedAt :: time
  st_UpdatedAt :: time
  st_Secure :: bool
  st_Mode :: string
  st_Action :: string
  st_Path :: string
  st_Bytes :: int

record Tracker =
  tr_nextID :: int
  tr_sessions :: "(int \<times> Session) list"

definition New_tracker :: Tracker where
  "New_tracker = \<lparr>tr_nextID = 0, tr_sessions = []\<rparr>"

definition Tracker_Add :: "time \<Rightarrow> string \<Rightarrow> string \<Rightarrow> Tracker \<Rightarrow> int \<times> Tracker" where
  "Tracker_Add now protocol remote t =
     (let i = tr_nextID t + 1;
          s = \<lparr>st_ID = i, st_Protocol = protocol, st_User = [], st_Remote = remote,
               st_StartedAt = now, st_UpdatedAt = now, st_Secure = False, st_Mode = [],
               st_Action = [], st_Path = [], st_Bytes = 0\<rparr>
      in (i, t\<lparr>tr_nextID := i, tr_sessions := AList.update i s (tr_sessions t)\<rparr>))"

definition Tracker_Update :: "time \<Rightarrow> int \<Rightarrow> (Session \<Rightarrow> Session) \<Rightarrow> Tracker \<Rightarrow> Tracker" where
  "Tracker_Update now i mutate t =
     (case map_of (tr_sessions t) i of
        None \<Rightarrow> t
      | Some s \<Rightarrow>
          t\<lparr>tr_sessions := AList.update i ((mutate s)\<lparr>st_UpdatedAt := now\<rparr>) (tr_sessions t)\<rparr>)"

definition Tracker_Remove :: "int \<Rightarrow> Tracker \<Rightarrow> Tracker" where
  "Tracker_Remove i t = t\<lparr>tr_sessions := AList.delete i (tr_sessions t)\<rparr>"

definition Snapshot :: "Tracker \<Rightarrow> Session list" where
  "Snapshot t = sort_key st_StartedAt (map snd (tr_sessions t))"

subsection \<open>Sessions keep their identity\<close>

datatype tracker_op =
    OpAdd time string string
  | OpUpdate time int "Session \<Rightarrow> Session"
  | OpRemove int

fun tracker_step :: "tracker_op \<Rightarrow> Tracker \<Rightarrow> Tracker" where
  "tracker_step (OpAdd now p r) t = snd (Tracker_Add now p r t)"
| "tracker_step (OpUpdate now i f) t = Tracker_Update now i f t"
| "tracker_step (OpRemove i) t = Tracker_Remove i t"

text \<open>Every callback the servers pass leaves the identifier alone.\<close>

fun keeps_identity :: "tracker_op \<Rightarrow> bool" where
  "keeps_identity (OpUpdate now i f) \<longleftrightarrow> (\<forall>s. st_ID (f s) = st_ID s)"
| "keeps_identity _ \<longleftrightarrow> True"

definition tracker_inv :: "Tracker \<Rightarrow> bool" where
  "tracker_inv t \<longleftrightarrow> distinct_keys (tr_sessions t) \<and>
     (\<forall>(i, s) \<in> set (tr_sessions t). st_ID s = i \<and> 0 < i \<and> i \<le> tr_nextID t) \<and> 0 \<le> tr_nextID t"

lemma tracker_step_inv:
  assumes "tracker_inv t" and "keeps_identity op"
  shows "tracker_inv (tracker_step op t)"
proof (cases op)
  case (OpAdd now p r)
  with assms show ?thesis
    by (fastforce simp: tracker_inv_def Tracker_Add_def Let_def set_update_distinct)
next
  case (OpUpdate now i f)
  show ?thesis
  proof (cases "map_of (tr_sessions t) i")
    case None
    with OpUpdate assms show ?thesis by (simp add: Tracker_Update_def)
  next
    case (Some s)
    then have "(i, s) \<in> set (tr_sessions t)" by (rule map_of_SomeD)
    with OpUpdate Some assms show ?thesis
      by (fastforce simp: tracker_inv_def Tracker_Update_def set_update_distinct)
  qed
next
  case (OpRemove i)
  with assms show ?thesis
    by (auto simp: tracker_inv_def Tracker_Remove_def set_delete_eq)
qed

lemma New_tracker_inv: "tracker_inv New_tracker"
  by (simp add: tracker_inv_def New_tracker_def)

lemma tracker_run_inv:
  "tracker_inv t \<Longrightarrow> \<forall>op \<in> set ops. keeps_identity op \<Longrightarrow> tracker_inv (fold tracker_step ops t)"
  by (induction ops arbitrary: t) (auto intro: tracker_step_inv)

lemma distinct_Snapshot_ids:
  assumes "tracker_inv t"
  shows "distinct (map st_ID (Snapshot t))"
proof -
  have eq: "map st_ID (map snd (tr_sessions t)) = map fst (tr_sessions t)"
    using assms by (auto simp: tracker_inv_def)
  have d: "distinct (map st_ID (map snd (tr_sessions t)))"
    unfolding eq using assms by (simp add: tracker_inv_def distinct_keys_def)
  have "mset (map st_ID (Snapshot t)) = mset (map st_ID (map snd (tr_sessions t)))"
    by (simp only: Snapshot_def mset_map mset_sort)
  with d show ?thesis by (metis mset_eq_imp_distinct_iff)
qed

text \<open>The session list is consistent. After any sequence of tracker calls from
  the empty tracker whose callbacks do not rewrite identifiers, the snapshot lists every live
  session once, under the identifier it was given, in order of its start.\<close>

theorem snapshot_consistent:
  assumes "\<forall>op \<in> set ops. keeps_identity op" and "t = fold tracker_step ops New_tracker"
  shows "distinct (map st_ID (Snapshot t)) \<and> sorted (map st_StartedAt (Snapshot t)) \<and>
    (\<forall>i s. map_of (tr_sessions t) i = Some s \<longleftrightarrow> s \<in> set (Snapshot t) \<and> st_ID s = i)"
proof -
  have inv: "tracker_inv t" using tracker_run_inv[OF New_tracker_inv assms(1)] assms(2) by simp
  then have "map_of (tr_sessions t) i = Some s \<longleftrightarrow> s \<in> set (Snapshot t) \<and> st_ID s = i" for i s
    by (force simp: tracker_inv_def map_of_in_set Snapshot_def)
  with distinct_Snapshot_ids[OF inv] show ?thesis by (simp add: Snapshot_def)
qed

theorem snapshot_consistent_witness:
  "map st_ID (Snapshot (fold tracker_step
      [OpAdd 9 ''ftp'' ''a'', OpAdd 5 ''ftp'' ''b'', OpAdd 7 ''http'' ''c'', OpRemove 1,
       OpUpdate 9 3 (\<lambda>s. s\<lparr>st_Secure := True\<rparr>)] New_tracker)) = [2, 3] \<and>
   distinct (map st_ID (Snapshot (fold tracker_step
      [OpAdd 9 ''ftp'' ''a'', OpAdd 5 ''ftp'' ''b'', OpAdd 7 ''http'' ''c'', OpRemove 1,
       OpUpdate 9 3 (\<lambda>s. s\<lparr>st_Secure := True\<rparr>)] New_tracker)))"
  using snapshot_consistent[of "[OpAdd 9 ''ftp'' ''a'', OpAdd 5 ''ftp'' ''b'',
      OpAdd 7 ''http'' ''c'', OpRemove 1, OpUpdate 9 3 (\<lambda>s. s\<lparr>st_Secure := True\<rparr>)]", OF _ refl]
  by (simp add: New_tracker_def Tracker_Add_def Tracker_Remove_def Tracker_Update_def Let_def
      Snapshot_def)

end
