(* ===== verification/GoStrings.thy ===== *)
theory GoStrings
  imports Prelude "HOL-Library.Char_ord" "HOL-Library.List_Lexorder"
begin

text \<open>
  The part of Go's packages \<open>strings\<close>, \<open>strconv\<close> and \<open>fmt\<close> that the code uses. A Go string is
  its list of bytes, so \<open>length\<close> is \<open>len\<close>, and the order of strings is the byte order.

  Functions that look at runes are stated on the UTF-8 bytes. \<open>TrimSpace\<close> knows every space of
  \<open>unicode.IsSpace\<close>. \<open>ToLower\<close> and \<open>ToUpper\<close> map ASCII letters and the two letters outside ASCII
  whose mapping is an ASCII letter; other letters outside ASCII are left as they are. The code
  only filters the result to ASCII, compares it with ASCII literals, searches it for them, or
  uses it as a key.
\<close>

subsection \<open>Prefixes, suffixes, searching\<close>

definition HasPrefix :: "string \<Rightarrow> string \<Rightarrow> bool" where
  "HasPrefix s p \<longleftrightarrow> take (length p) s = p"

definition HasSuffix :: "string \<Rightarrow> string \<Rightarrow> bool" where
  "HasSuffix s p \<longleftrightarrow> length p \<le> length s \<and> drop (length s - length p) s = p"

definition TrimPrefix :: "string \<Rightarrow> string \<Rightarrow> string" where
  "TrimPrefix s p = (if HasPrefix s p then drop (length p) s else s)"

definition TrimSuffix :: "string \<Rightarrow> string \<Rightarrow> string" where
  "TrimSuffix s p = (if HasSuffix s p then take (length s - length p) s else s)"

fun Contains :: "string \<Rightarrow> string \<Rightarrow> bool" where
  "Contains [] p \<longleftrightarrow> p = []"
| "Contains (c # s) p \<longleftrightarrow> HasPrefix (c # s) p \<or> Contains s p"

lemma HasPrefix_iff: "HasPrefix s p \<longleftrightarrow> prefix p s"
  by (metis HasPrefix_def append_eq_conv_conj prefix_def)

lemma HasPrefix_append [simp]: "HasPrefix (p @ s) p"
  by (simp add: HasPrefix_def)

lemma HasPrefix_Nil [simp]: "HasPrefix s []"
  by (simp add: HasPrefix_def)

lemma HasPrefix_Cons [simp]: "HasPrefix (c # s) (d # p) \<longleftrightarrow> c = d \<and> HasPrefix s p"
  by (auto simp: HasPrefix_def)

lemma HasPrefix_Nil_Cons [simp]: "\<not> HasPrefix [] (d # p)"
  by (simp add: HasPrefix_def)

lemma TrimPrefix_append [simp]: "TrimPrefix (p @ s) p = s"
  by (simp add: TrimPrefix_def)

lemma Contains_single: "Contains s [c] \<longleftrightarrow> c \<in> set s"
  by (induction s) auto

subsection \<open>Splitting and joining at one byte\<close>

text \<open>\<open>strings.Split(s, sep)\<close> for a one-byte separator; the result is never empty.\<close>

fun Split :: "string \<Rightarrow> char \<Rightarrow> string list" where
  "Split [] c = [[]]"
| "Split (x # xs) c =
     (if x = c then [] # Split xs c
      else (case Split xs c of [] \<Rightarrow> [[x]] | y # ys \<Rightarrow> (x # y) # ys))"

fun Join :: "string list \<Rightarrow> string \<Rightarrow> string" where
  "Join [] sep = []"
| "Join [x] sep = x"
| "Join (x # y # ys) sep = x @ sep @ Join (y # ys) sep"

text \<open>\<open>strings.Cut(s, sep)\<close> for a one-byte separator: before, after, found.\<close>

fun Cut :: "string \<Rightarrow> char \<Rightarrow> string \<times> string \<times> bool" where
  "Cut [] c = ([], [], False)"
| "Cut (x # xs) c =
     (if x = c then ([], xs, True)
      else (case Cut xs c of (a, b, ok) \<Rightarrow> (x # a, b, ok)))"

lemma Split_neq_Nil [simp]: "Split s c \<noteq> []"
  by (induction s) (auto split: list.splits)

lemma Split_no_sep: "x \<in> set (Split s c) \<Longrightarrow> c \<notin> set x"
proof (induction s arbitrary: x)
  case (Cons a s)
  then show ?case
    by (cases "Split s c") (auto split: if_splits)
qed simp

lemma Join_Split: "Join (Split s c) [c] = s"
proof (induction s)
  case (Cons a s)
  then show ?case
  proof (cases "Split s c")
    case (Cons y ys)
    with Cons.IH show ?thesis by (cases ys) auto
  qed simp
qed simp

lemma Split_fresh: "c \<notin> set s \<Longrightarrow> Split s c = [s]"
  by (induction s) auto

lemma Split_append_sep: "c \<notin> set x \<Longrightarrow> Split (x @ c # s) c = x # Split s c"
  by (induction x) auto

lemma Join_Cons: "xs \<noteq> [] \<Longrightarrow> Join (x # xs) sep = x @ sep @ Join xs sep"
  by (cases xs) auto

lemma Split_Join:
  assumes "xs \<noteq> []" and "\<forall>x \<in> set xs. c \<notin> set x"
  shows "Split (Join xs [c]) c = xs"
  using assms
proof (induction xs rule: list_nonempty_induct)
  case (single x)
  then show ?case by (simp add: Split_fresh)
next
  case (cons x xs)
  then show ?case by (simp add: Join_Cons Split_append_sep)
qed

lemma Cut_not_found: "c \<notin> set s \<Longrightarrow> Cut s c = (s, [], False)"
  by (induction s) auto

lemma Cut_found: "c \<notin> set a \<Longrightarrow> Cut (a @ c # b) c = (a, b, True)"
  by (induction a) auto

lemma set_Join: "set (Join xs sep) \<subseteq> (\<Union>x \<in> set xs. set x) \<union> set sep"
  by (induction xs sep rule: Join.induct) auto

subsection \<open>Character classes\<close>

definition is_digit :: "char \<Rightarrow> bool" where
  "is_digit c \<longleftrightarrow> (let n = of_char c :: nat in 48 \<le> n \<and> n \<le> 57)"

definition is_lower :: "char \<Rightarrow> bool" where
  "is_lower c \<longleftrightarrow> (let n = of_char c :: nat in 97 \<le> n \<and> n \<le> 122)"

definition is_upper :: "char \<Rightarrow> bool" where
  "is_upper c \<longleftrightarrow> (let n = of_char c :: nat in 65 \<le> n \<and> n \<le> 90)"

definition to_lower_char :: "char \<Rightarrow> char" where
  "to_lower_char c = (if is_upper c then char_of (of_char c + 32 :: nat) else c)"

definition to_upper_char :: "char \<Rightarrow> char" where
  "to_upper_char c = (if is_lower c then char_of (of_char c - 32 :: nat) else c)"

text \<open>
  \<open>strings.ToLower\<close>: the Kelvin sign (bytes E2 84 AA) becomes k, the dotted capital I (bytes
  C4 B0) becomes i. \<open>strings.ToUpper\<close>: the dotless i (C4 B1) becomes I, the long s (C5 BF)
  becomes S. \<open>strings.EqualFold\<close> identifies k with the Kelvin sign and s with the long s.
\<close>

fun ToLower :: "string \<Rightarrow> string" where
  "ToLower [] = []"
| "ToLower (c # cs) =
     (if take 3 (c # cs) = [CHR 0xE2, CHR 0x84, CHR 0xAA] then CHR ''k'' # ToLower (drop 2 cs)
      else if take 2 (c # cs) = [CHR 0xC4, CHR 0xB0] then CHR ''i'' # ToLower (drop 1 cs)
      else to_lower_char c # ToLower cs)"

fun ToUpper :: "string \<Rightarrow> string" where
  "ToUpper [] = []"
| "ToUpper (c # cs) =
     (if take 2 (c # cs) = [CHR 0xC4, CHR 0xB1] then CHR ''I'' # ToUpper (drop 1 cs)
      else if take 2 (c # cs) = [CHR 0xC5, CHR 0xBF] then CHR ''S'' # ToUpper (drop 1 cs)
      else to_upper_char c # ToUpper cs)"

fun fold_case :: "string \<Rightarrow> string" where
  "fold_case [] = []"
| "fold_case (c # cs) =
     (if take 3 (c # cs) = [CHR 0xE2, CHR 0x84, CHR 0xAA] then CHR ''k'' # fold_case (drop 2 cs)
      else if take 2 (c # cs) = [CHR 0xC5, CHR 0xBF] then CHR ''s'' # fold_case (drop 1 cs)
      else to_lower_char c # fold_case cs)"

definition EqualFold :: "string \<Rightarrow> string \<Rightarrow> bool" where
  "EqualFold s t \<longleftrightarrow> fold_case s = fold_case t"

definition replace_char :: "char \<Rightarrow> char \<Rightarrow> string \<Rightarrow> string" where
  "replace_char a b s = map (\<lambda>c. if c = a then b else c) s"

lemma is_lower_not_upper: "is_lower c \<Longrightarrow> \<not> is_upper c"
  by (simp add: is_lower_def is_upper_def Let_def)

lemma to_lower_char_id: "\<not> is_upper c \<Longrightarrow> to_lower_char c = c"
  by (simp add: to_lower_char_def)

subsection \<open>Trimming\<close>

definition TrimLeft :: "string \<Rightarrow> string \<Rightarrow> string" where
  "TrimLeft s cs = dropWhile (\<lambda>c. c \<in> set cs) s"

definition TrimRight :: "string \<Rightarrow> string \<Rightarrow> string" where
  "TrimRight s cs = rev (dropWhile (\<lambda>c. c \<in> set cs) (rev s))"

definition Trim :: "string \<Rightarrow> string \<Rightarrow> string" where
  "Trim s cs = TrimRight (TrimLeft s cs) cs"

text \<open>The UTF-8 encodings of the spaces of \<open>unicode.IsSpace\<close>.\<close>

definition unicode_spaces :: "string list" where
  "unicode_spaces =
     [[CHR 0x09], [CHR 0x0A], [CHR 0x0B], [CHR 0x0C], [CHR 0x0D], [CHR 0x20],
      [CHR 0xC2, CHR 0x85], [CHR 0xC2, CHR 0xA0], [CHR 0xE1, CHR 0x9A, CHR 0x80],
      [CHR 0xE2, CHR 0x80, CHR 0x80], [CHR 0xE2, CHR 0x80, CHR 0x81],
      [CHR 0xE2, CHR 0x80, CHR 0x82], [CHR 0xE2, CHR 0x80, CHR 0x83],
      [CHR 0xE2, CHR 0x80, CHR 0x84], [CHR 0xE2, CHR 0x80, CHR 0x85],
      [CHR 0xE2, CHR 0x80, CHR 0x86], [CHR 0xE2, CHR 0x80, CHR 0x87],
      [CHR 0xE2, CHR 0x80, CHR 0x88], [CHR 0xE2, CHR 0x80, CHR 0x89],
      [CHR 0xE2, CHR 0x80, CHR 0x8A], [CHR 0xE2, CHR 0x80, CHR 0xA8],
      [CHR 0xE2, CHR 0x80, CHR 0xA9], [CHR 0xE2, CHR 0x80, CHR 0xAF],
      [CHR 0xE2, CHR 0x81, CHR 0x9F], [CHR 0xE3, CHR 0x80, CHR 0x80]]"

definition space_width :: "string list \<Rightarrow> string \<Rightarrow> nat" where
  "space_width ws s = (case filter (HasPrefix s) ws of [] \<Rightarrow> 0 | w # _ \<Rightarrow> length w)"

fun drop_spaces :: "string list \<Rightarrow> string \<Rightarrow> string" where
  "drop_spaces ws [] = []"
| "drop_spaces ws (c # cs) =
     (case space_width ws (c # cs) of 0 \<Rightarrow> c # cs | Suc n \<Rightarrow> drop_spaces ws (drop n cs))"

text \<open>Scanning from the end reads the reversed string against the reversed encodings.\<close>

definition TrimSpace :: "string \<Rightarrow> string" where
  "TrimSpace s =
     rev (drop_spaces (map rev unicode_spaces) (rev (drop_spaces unicode_spaces s)))"

text \<open>\<open>strings.Fields\<close>: the maximal runs of bytes between spaces.\<close>

fun Fields_aux :: "string \<Rightarrow> string \<Rightarrow> string list" where
  "Fields_aux acc [] = (if acc = [] then [] else [rev acc])"
| "Fields_aux acc (c # cs) =
     (case space_width unicode_spaces (c # cs) of
        0 \<Rightarrow> Fields_aux (c # acc) cs
      | Suc n \<Rightarrow> (if acc = [] then [] else [rev acc]) @ Fields_aux [] (drop n cs))"

definition Fields :: "string \<Rightarrow> string list" where
  "Fields s = Fields_aux [] s"

lemma set_drop_spaces: "set (drop_spaces ws s) \<subseteq> set s"
proof (induction ws s rule: drop_spaces.induct)
  case (2 ws c cs)
  show ?case
  proof (cases "space_width ws (c # cs)")
    case 0
    then show ?thesis by simp
  next
    case (Suc n)
    with 2[OF Suc] show ?thesis using set_drop_subset[of n cs] by auto
  qed
qed simp

lemma set_TrimSpace: "set (TrimSpace s) \<subseteq> set s"
  using set_drop_spaces[of unicode_spaces s]
    set_drop_spaces[of "map rev unicode_spaces" "rev (drop_spaces unicode_spaces s)"]
  by (auto simp: TrimSpace_def)

subsection \<open>Numbers\<close>

definition digit_val :: "char \<Rightarrow> nat" where
  "digit_val c = of_char c - 48"

definition digits_val :: "string \<Rightarrow> nat" where
  "digits_val s = foldl (\<lambda>a c. 10 * a + digit_val c) 0 s"

text \<open>
  \<open>strconv.ParseInt(s, 10, 64)\<close>, and \<open>strconv.Atoi\<close> on a 64-bit platform: an optional sign, at
  least one digit, nothing else, and a value in the range of \<open>int64\<close>; \<open>None\<close> is the error.
\<close>

definition parse_digits :: "string \<Rightarrow> nat option" where
  "parse_digits s = (if s \<noteq> [] \<and> list_all is_digit s then Some (digits_val s) else None)"

definition ParseInt :: "string \<Rightarrow> int option" where
  "ParseInt s =
     (let neg = (s \<noteq> [] \<and> hd s = CHR ''-'');
          body = (if s \<noteq> [] \<and> (hd s = CHR ''-'' \<or> hd s = CHR ''+'') then tl s else s)
      in case parse_digits body of
           None \<Rightarrow> None
         | Some n \<Rightarrow> (let v = (if neg then - int n else int n)
                    in if min_i64 \<le> v \<and> v \<le> max_i64 then Some v else None))"

text \<open>
  \<open>fmt.Sscanf(s, "%d", &n)\<close>: leading spaces (not newlines), an optional sign, the longest run of
  digits, which must not be empty; what follows is not read.
\<close>

definition Sscanf_d :: "string \<Rightarrow> int option" where
  "Sscanf_d s =
     (let t = drop_spaces (filter (\<lambda>w. w \<noteq> [CHR 0x0A]) unicode_spaces) s;
          sgn = (if t \<noteq> [] \<and> (hd t = CHR ''-'' \<or> hd t = CHR ''+'') then [hd t] else [])
      in ParseInt (sgn @ takeWhile is_digit (drop (length sgn) t)))"

text \<open>\<open>%d\<close> and \<open>strconv.Itoa\<close>.\<close>

definition digit_char :: "nat \<Rightarrow> char" where
  "digit_char d = char_of (48 + d)"

fun show_nat :: "nat \<Rightarrow> string" where
  "show_nat n = (if n < 10 then [digit_char n] else show_nat (n div 10) @ [digit_char (n mod 10)])"

declare show_nat.simps [simp del]

definition Itoa :: "int \<Rightarrow> string" where
  "Itoa i = (if i < 0 then CHR ''-'' # show_nat (nat (- i)) else show_nat (nat i))"

text \<open>\<open>%0wd\<close> of a number that is not negative.\<close>

definition show_pad :: "nat \<Rightarrow> nat \<Rightarrow> string" where
  "show_pad w n = (let s = show_nat n in replicate (w - length s) (CHR ''0'') @ s)"

lemma is_digit_digit_char [simp]: "d < 10 \<Longrightarrow> is_digit (digit_char d)"
  by (simp add: is_digit_def digit_char_def)

lemma digit_val_digit_char [simp]: "d < 10 \<Longrightarrow> digit_val (digit_char d) = d"
  by (simp add: digit_val_def digit_char_def)

lemma show_nat_not_Nil [simp]: "show_nat n \<noteq> []"
  by (subst show_nat.simps) simp

lemma show_nat_digits: "list_all is_digit (show_nat n)"
proof (induction n rule: show_nat.induct)
  case (1 n)
  then show ?case by (subst show_nat.simps) simp
qed

lemma digits_val_snoc [simp]: "digits_val (s @ [c]) = 10 * digits_val s + digit_val c"
  by (simp add: digits_val_def)

lemma digits_val_show_nat [simp]: "digits_val (show_nat n) = n"
proof (induction n rule: show_nat.induct)
  case (1 n)
  show ?case
  proof (cases "n < 10")
    case True
    then show ?thesis by (subst show_nat.simps) (simp add: digits_val_def)
  next
    case False
    with 1 show ?thesis by (subst show_nat.simps) simp
  qed
qed

lemma is_digit_not_sign: "is_digit c \<Longrightarrow> c \<noteq> CHR ''-'' \<and> c \<noteq> CHR ''+''"
  by (auto simp: is_digit_def)

lemma hd_show_nat_digit: "is_digit (hd (show_nat n))"
  using show_nat_digits[of n] by (cases "show_nat n") auto

lemma ParseInt_digits:
  assumes "s \<noteq> []" and "list_all is_digit s" and "int (digits_val s) \<le> max_i64"
  shows "ParseInt s = Some (int (digits_val s))"
proof -
  have "is_digit (hd s)" using assms by (cases s) auto
  then have "hd s \<noteq> CHR ''-'' \<and> hd s \<noteq> CHR ''+''" by (rule is_digit_not_sign)
  with assms show ?thesis by (simp add: ParseInt_def parse_digits_def)
qed

lemma ParseInt_show_nat: "int n \<le> max_i64 \<Longrightarrow> ParseInt (show_nat n) = Some (int n)"
  using ParseInt_digits[of "show_nat n"] show_nat_digits[of n] by simp

lemma ParseInt_range: "ParseInt s = Some v \<Longrightarrow> min_i64 \<le> v \<and> v \<le> max_i64"
  by (auto simp: ParseInt_def Let_def split: option.splits if_splits)

lemma ParseInt_Nil [simp]: "ParseInt [] = None"
  by (simp add: ParseInt_def parse_digits_def)

lemma ParseInt_Itoa: "min_i64 \<le> i \<Longrightarrow> i \<le> max_i64 \<Longrightarrow> ParseInt (Itoa i) = Some i"
proof (cases "i < 0")
  case True
  moreover assume "min_i64 \<le> i" "i \<le> max_i64"
  ultimately show ?thesis
    using show_nat_digits[of "nat (- i)"]
    by (simp add: Itoa_def ParseInt_def parse_digits_def)
next
  case False
  moreover assume "min_i64 \<le> i" "i \<le> max_i64"
  ultimately show ?thesis by (simp add: Itoa_def ParseInt_show_nat)
qed


subsection \<open>Strings the case mappings and trimmings leave alone\<close>

text \<open>Printable ASCII without capitals and without the space.\<close>

definition plain_char :: "char \<Rightarrow> bool" where
  "plain_char c \<longleftrightarrow> (let n = of_char c :: nat in 32 < n \<and> n < 127) \<and> \<not> is_upper c"

lemma ToLower_plain: "list_all plain_char s \<Longrightarrow> ToLower s = s"
proof (induction s rule: ToLower.induct)
  case (2 c cs)
  then have "c \<noteq> CHR 0xE2" "c \<noteq> CHR 0xC4" "\<not> is_upper c"
    by (auto simp: plain_char_def)
  with 2 show ?case by (simp add: to_lower_char_def)
qed simp

lemma plain_not_space: "plain_char c \<Longrightarrow> w \<in> set unicode_spaces \<Longrightarrow> c \<notin> set w"
  by (auto simp: plain_char_def unicode_spaces_def)

lemma spaces_not_Nil: "w \<in> set unicode_spaces \<Longrightarrow> w \<noteq> []"
  by (auto simp: unicode_spaces_def)

lemma space_width_fresh:
  assumes "\<forall>w \<in> set ws. w \<noteq> [] \<and> c \<notin> set w"
  shows "space_width ws (c # cs) = 0"
proof -
  have "\<not> HasPrefix (c # cs) w" if "w \<in> set ws" for w
    using assms that by (cases w) auto
  then have "filter (HasPrefix (c # cs)) ws = []" by (simp add: filter_empty_conv)
  then show ?thesis by (simp add: space_width_def)
qed

lemma drop_spaces_fresh:
  assumes "s \<noteq> [] \<longrightarrow> (\<forall>w \<in> set ws. w \<noteq> [] \<and> hd s \<notin> set w)"
  shows "drop_spaces ws s = s"
  using assms by (cases s) (auto simp: space_width_fresh)

lemma TrimSpace_plain: "list_all plain_char s \<Longrightarrow> TrimSpace s = s"
proof -
  assume a: "list_all plain_char s"
  have p: "drop_spaces unicode_spaces s = s"
    by (rule drop_spaces_fresh)
       (use a in \<open>cases s; auto simp: plain_not_space spaces_not_Nil\<close>)
  have "drop_spaces (map rev unicode_spaces) (rev s) = rev s"
  proof (rule drop_spaces_fresh, intro impI ballI)
    fix w assume "rev s \<noteq> []" "w \<in> set (map rev unicode_spaces)"
    then obtain v where v: "w = rev v" "v \<in> set unicode_spaces" by auto
    have "hd (rev s) \<in> set s" using \<open>rev s \<noteq> []\<close> hd_in_set[of "rev s"] by simp
    with a have "plain_char (hd (rev s))" by (auto simp: list_all_iff)
    with v show "w \<noteq> [] \<and> hd (rev s) \<notin> set w"
      by (auto simp: spaces_not_Nil plain_not_space)
  qed
  with p show ?thesis by (simp add: TrimSpace_def)
qed

lemma digit_plain: "is_digit c \<Longrightarrow> plain_char c"
  by (auto simp: is_digit_def plain_char_def is_upper_def Let_def)

lemma lower_plain: "is_lower c \<Longrightarrow> plain_char c"
  by (auto simp: is_lower_def plain_char_def is_upper_def Let_def)

lemma takeWhile_all: "list_all P s \<Longrightarrow> takeWhile P s = s"
  by (induction s) auto

lemma Sscanf_d_show_nat:
  assumes "int n \<le> max_i64"
  shows "Sscanf_d (show_nat n) = Some (int n)"
proof -
  let ?ws = "filter (\<lambda>w. w \<noteq> [CHR 0x0A]) unicode_spaces"
  have "drop_spaces ?ws (show_nat n) = show_nat n"
    by (rule drop_spaces_fresh)
       (use hd_show_nat_digit[of n] in \<open>auto simp: spaces_not_Nil plain_not_space digit_plain\<close>)
  moreover have "hd (show_nat n) \<noteq> CHR ''-'' \<and> hd (show_nat n) \<noteq> CHR ''+''"
    by (rule is_digit_not_sign) (rule hd_show_nat_digit)
  ultimately show ?thesis
    using assms by (simp add: Sscanf_d_def takeWhile_all show_nat_digits ParseInt_show_nat)
qed

end
