(* ===== verification/ActivityLog.thy ===== *)
theory ActivityLog
  imports GoStrings
begin

text \<open>
  The activity log of \<open>internal/activity/activity.go\<close>: a bounded in-memory history of events and
  an append-only file of JSON lines. A line of the file is the event it decodes to, or \<open>None\<close> when
  it does not decode. The methods accept a nil store, here \<open>None\<close>.
\<close>

record Event =
  e_ID :: int
  e_Time :: time
  e_Type :: string
  e_Protocol :: string
  e_Actor :: string
  e_Remote :: string
  e_Referrer :: string
  e_Action :: string
  e_Outcome :: string
  e_Path :: string
  e_DestPath :: string
  e_Bytes :: int
  e_Detail :: string
  e_Message :: string

record PathStats =
  ps_Path :: string
  ps_Downloads :: nat
  ps_LastDownloadAt :: time
  ps_Referrers :: "string \<Rightarrow> nat option"
  ps_Recent :: "Event list"

record State =
  s_Count :: nat
  s_Capacity :: nat
  s_OldestID :: int
  s_NewestID :: int
  s_OldestTime :: time
  s_NewestTime :: time

record Store =
  a_nextID :: int
  a_limit :: nat
  a_path :: string
  a_events :: "Event list"
  a_file :: "Event option list"

definition New_log :: "int \<Rightarrow> Store" where
  "New_log limit =
     \<lparr>a_nextID = 0, a_limit = (if limit \<le> 0 then 1000 else nat limit), a_path = [],
      a_events = [], a_file = []\<rparr>"

definition humanMessage :: "Event \<Rightarrow> string" where
  "humanMessage e =
     (let actor = (if e_Actor e = [] then ''someone'' else e_Actor e);
          action = (if e_Action e = [] then e_Type e else e_Action e);
          subject = (if e_Path e = [] then e_Detail e else e_Path e)
      in if e_Outcome e \<in> {''failed'', ''denied'', ''limited''} then
           (if subject \<noteq> [] then actor @ '' '' @ action @ '' failed for '' @ subject
            else actor @ '' '' @ action @ '' failed'')
         else if e_Outcome e \<in> {''canceled'', ''cancelled''} then
           (if subject \<noteq> [] then actor @ '' '' @ action @ '' canceled for '' @ subject
            else actor @ '' '' @ action @ '' canceled'')
         else if e_DestPath e \<noteq> [] \<and> subject \<noteq> [] then
           actor @ '' '' @ action @ '' '' @ subject @ '' to '' @ e_DestPath e
         else if subject \<noteq> [] then actor @ '' '' @ action @ '' '' @ subject
         else actor @ '' '' @ action)"

text \<open>The fields \<open>Add\<close> fills in before it takes the lock.\<close>

definition complete_event :: "time \<Rightarrow> Event \<Rightarrow> Event" where
  "complete_event now e0 =
     (let e1 = (if is_zero_time (e_Time e0) then e0\<lparr>e_Time := now\<rparr> else e0);
          e2 = e1\<lparr>e_Type := TrimSpace (e_Type e1), e_Protocol := TrimSpace (e_Protocol e1),
                  e_Actor := TrimSpace (e_Actor e1), e_Remote := TrimSpace (e_Remote e1),
                  e_Referrer := TrimSpace (e_Referrer e1), e_Action := TrimSpace (e_Action e1),
                  e_Outcome := TrimSpace (e_Outcome e1)\<rparr>;
          e3 = (if e_Outcome e2 = [] then e2\<lparr>e_Outcome := ''ok''\<rparr> else e2)
      in if e_Message e3 = [] then e3\<lparr>e_Message := humanMessage e3\<rparr> else e3)"

definition keep_last :: "nat \<Rightarrow> Event list \<Rightarrow> Event list" where
  "keep_last n evs = (if length evs > n then drop (length evs - n) evs else evs)"

text \<open>
  The outcome of \<open>appendEvent\<close> is ignored by the code; \<open>written\<close> says whether the line reached
  the file.
\<close>

definition Add_event :: "time \<Rightarrow> bool \<Rightarrow> Event \<Rightarrow> Store option \<Rightarrow> Event \<times> Store option" where
  "Add_event now written e0 st =
     (case st of
        None \<Rightarrow> (e0, None)
      | Some s \<Rightarrow>
          (let i = wrap_i64 (a_nextID s + 1);
               e = (complete_event now e0)\<lparr>e_ID := i\<rparr>;
               s1 = s\<lparr>a_nextID := i, a_events := keep_last (a_limit s) (a_events s @ [e])\<rparr>;
               s2 = (if a_path s \<noteq> [] \<and> written then s1\<lparr>a_file := a_file s @ [Some e]\<rparr> else s1)
           in (e, Some s2)))"

fun recent_loop :: "int \<Rightarrow> nat \<Rightarrow> Event list \<Rightarrow> Event list" where
  "recent_loop afterID n [] = []"
| "recent_loop afterID 0 (e # es) = []"
| "recent_loop afterID (Suc n) (e # es) =
     (if afterID > 0 \<and> e_ID e \<le> afterID then recent_loop afterID (Suc n) es
      else e # recent_loop afterID n es)"

definition Recent :: "int \<Rightarrow> int \<Rightarrow> Store option \<Rightarrow> Event list" where
  "Recent limit afterID st =
     (case st of
        None \<Rightarrow> []
      | Some s \<Rightarrow>
          recent_loop afterID (nat (if limit \<le> 0 then 100 else limit)) (rev (a_events s)))"

definition State_of :: "Store option \<Rightarrow> State" where
  "State_of st =
     (let z = \<lparr>s_Count = 0, s_Capacity = 0, s_OldestID = 0, s_NewestID = 0, s_OldestTime = 0,
               s_NewestTime = 0\<rparr>
      in case st of
           None \<Rightarrow> z
         | Some s \<Rightarrow>
             (let z1 = z\<lparr>s_Count := length (a_events s), s_Capacity := a_limit s\<rparr>
              in case a_events s of
                   [] \<Rightarrow> z1
                 | e # es \<Rightarrow>
                     z1\<lparr>s_OldestID := e_ID e, s_NewestID := e_ID (last (e # es)),
                        s_OldestTime := e_Time e, s_NewestTime := e_Time (last (e # es))\<rparr>))"

definition counts_as_download :: "string \<Rightarrow> Event \<Rightarrow> bool" where
  "counts_as_download p e \<longleftrightarrow>
     \<not> (e_Path e \<noteq> p \<or> e_Outcome e \<noteq> ''ok'' \<or> e_Action e \<noteq> ''download'') \<and>
     \<not> (e_Type e \<noteq> ''public_download'' \<and> e_Type e \<noteq> ''share_download'')"

definition stats_step :: "string \<Rightarrow> nat \<Rightarrow> Event \<Rightarrow> PathStats \<Rightarrow> PathStats" where
  "stats_step p limit e s =
     (if \<not> counts_as_download p e then s
      else (let s1 = s\<lparr>ps_Downloads := ps_Downloads s + 1\<rparr>;
                s2 = (if is_zero_time (ps_LastDownloadAt s1)
                      then s1\<lparr>ps_LastDownloadAt := e_Time e\<rparr> else s1);
                r = ps_Referrers s2;
                s3 = (if e_Referrer e \<noteq> []
                      then s2\<lparr>ps_Referrers := r(e_Referrer e \<mapsto>
                              (case r (e_Referrer e) of None \<Rightarrow> 0 | Some n \<Rightarrow> n) + 1)\<rparr> else s2)
            in if length (ps_Recent s3) < limit then s3\<lparr>ps_Recent := ps_Recent s3 @ [e]\<rparr> else s3))"

definition StatsForPath :: "string \<Rightarrow> int \<Rightarrow> Store option \<Rightarrow> PathStats" where
  "StatsForPath p limit st =
     (let z = \<lparr>ps_Path = p, ps_Downloads = 0, ps_LastDownloadAt = 0, ps_Referrers = Map.empty,
               ps_Recent = []\<rparr>
      in case st of
           None \<Rightarrow> z
         | Some s \<Rightarrow>
             fold (stats_step p (nat (if limit \<le> 0 \<or> limit > 100 then 20 else limit)))
               (rev (a_events s)) z)"

text \<open>
  Loading reads the lines the scanner yields; a line that does not decode is skipped.
  \<open>scan_error\<close> is what \<open>scanner.Err()\<close> returns when a line outgrew the scanner's buffer or the
  read failed.
\<close>

definition load_line :: "Event option \<Rightarrow> Store \<Rightarrow> Store" where
  "load_line line s =
     (case line of
        None \<Rightarrow> s
      | Some e \<Rightarrow>
          s\<lparr>a_nextID := (if e_ID e > a_nextID s then e_ID e else a_nextID s),
            a_events := keep_last (a_limit s) (a_events s @ [e])\<rparr>)"

definition load_log :: "Event option list \<Rightarrow> err option \<Rightarrow> Store \<Rightarrow> err + Store" where
  "load_log lines scan_error s =
     (let s1 = fold load_line lines s
      in case scan_error of None \<Rightarrow> Inr s1 | Some er \<Rightarrow> Inl er)"

text \<open>
  \<open>NewFile\<close>: \<open>file\<close> is what the open of the path gives, \<open>None\<close> when there is no such file;
  \<open>mkdir_error\<close> is the outcome of creating the directory.
\<close>

definition NewFile ::
  "int \<Rightarrow> string \<Rightarrow> err option \<Rightarrow> (err + Event option list \<times> err option) option \<Rightarrow> err + Store" where
  "NewFile limit p mkdir_error file =
     (let s = (New_log limit)\<lparr>a_path := TrimSpace p\<rparr>
      in if a_path s = [] then Inr s
         else case mkdir_error of
                Some er \<Rightarrow> Inl er
              | None \<Rightarrow>
                  (case file of
                     None \<Rightarrow> Inr s
                   | Some (Inl er) \<Rightarrow> Inl er
                   | Some (Inr (lines, scan_error)) \<Rightarrow>
                       load_log lines scan_error (s\<lparr>a_file := lines\<rparr>)))"


subsection \<open>The bounded history\<close>

text \<open>
  \<open>add_all\<close> runs \<open>Add\<close> on a list of events with their instants and write outcomes and collects
  the stored events: the unbounded history of which the log keeps the end.
\<close>

fun add_all :: "(time \<times> bool \<times> Event) list \<Rightarrow> Store \<Rightarrow> Event list \<times> Store" where
  "add_all [] s = ([], s)"
| "add_all ((now, written, e) # es) s =
     (case Add_event now written e (Some s) of
        (e', Some s1) \<Rightarrow> (case add_all es s1 of (hist, s2) \<Rightarrow> (e' # hist, s2))
      | (e', None) \<Rightarrow> ([e'], s))"

lemma keep_last_eq: "keep_last n evs = take_last n evs"
  by (simp add: keep_last_def take_last_def)

lemma complete_event_ID [simp]: "e_ID (complete_event now e) = e_ID e"
  by (simp add: complete_event_def Let_def)

lemma Add_event_Some:
  "Add_event now w e (Some s) =
    (let e' = (complete_event now e)\<lparr>e_ID := wrap_i64 (a_nextID s + 1)\<rparr>
     in (e', Some (s\<lparr>a_nextID := wrap_i64 (a_nextID s + 1),
                     a_events := take_last (a_limit s) (a_events s @ [e']),
                     a_file := a_file s @ (if a_path s \<noteq> [] \<and> w then [Some e'] else [])\<rparr>)))"
  by (simp add: Add_event_def Let_def keep_last_eq)

lemma take_last_append_take_last:
  "take_last n (take_last n xs @ ys) = take_last n (xs @ ys)"
proof (induction ys rule: rev_induct)
  case (snoc y ys)
  then show ?case by (metis append_assoc take_last_snoc)
qed (simp add: take_last_all)

lemma add_all_store:
  assumes "add_all es s = (hist, s')" and "length (a_events s) \<le> a_limit s"
  shows "a_events s' = take_last (a_limit s) (a_events s @ hist) \<and>
    a_limit s' = a_limit s \<and> a_path s' = a_path s"
  using assms
proof (induction es arbitrary: s hist)
  case (Cons x es)
  obtain now w e where x: "x = (now, w, e)" by (cases x) auto
  let ?e = "(complete_event now e)\<lparr>e_ID := wrap_i64 (a_nextID s + 1)\<rparr>"
  obtain hist1 where hist: "hist = ?e # hist1"
    and rest: "add_all es (s\<lparr>a_nextID := wrap_i64 (a_nextID s + 1),
                     a_events := take_last (a_limit s) (a_events s @ [?e]),
                     a_file := a_file s @ (if a_path s \<noteq> [] \<and> w then [Some ?e] else [])\<rparr>)
      = (hist1, s')"
    using Cons.prems(1) by (auto simp: x Add_event_Some Let_def split: prod.splits)
  from Cons.IH[OF rest] show ?case
    by (simp add: hist take_last_append_take_last)
qed (simp add: take_last_all)

lemma add_all_ids:
  assumes "add_all es s = (hist, s')" and "0 \<le> a_nextID s"
    and "a_nextID s + int (length es) \<le> max_i64"
  shows "map e_ID hist = map (\<lambda>i. a_nextID s + 1 + int i) [0..<length es] \<and>
    a_nextID s' = a_nextID s + int (length es)"
  using assms
proof (induction es arbitrary: s hist)
  case (Cons x es)
  obtain now w e where x: "x = (now, w, e)" by (cases x) auto
  have nx: "wrap_i64 (a_nextID s + 1) = a_nextID s + 1"
    using Cons.prems(2,3) by simp
  let ?e = "(complete_event now e)\<lparr>e_ID := a_nextID s + 1\<rparr>"
  obtain hist1 where hist: "hist = ?e # hist1"
    and rest: "add_all es (s\<lparr>a_nextID := a_nextID s + 1,
                     a_events := take_last (a_limit s) (a_events s @ [?e]),
                     a_file := a_file s @ (if a_path s \<noteq> [] \<and> w then [Some ?e] else [])\<rparr>)
      = (hist1, s')"
    using Cons.prems(1) by (auto simp: x Add_event_Some Let_def nx split: prod.splits)
  have "map (\<lambda>i. a_nextID s + 1 + int i) [0..<Suc (length es)] =
      (a_nextID s + 1) # map (\<lambda>i. a_nextID s + 2 + int i) [0..<length es]"
    by (simp add: upt_conv_Cons del: upt_Suc flip: map_Suc_upt)
  with Cons.IH[OF rest] Cons.prems(2,3) show ?case
    by (auto simp: hist add.assoc)
qed simp

lemma recent_loop_eq:
  "recent_loop a n es = take n (filter (\<lambda>e. \<not> (a > 0 \<and> e_ID e \<le> a)) es)"
  by (induction a n es rule: recent_loop.induct) auto

lemma Recent_eq:
  "Recent limit a (Some s) =
    take (nat (if limit \<le> 0 then 100 else limit))
      (filter (\<lambda>e. \<not> (a > 0 \<and> e_ID e \<le> a)) (rev (a_events s)))"
  by (simp add: Recent_def recent_loop_eq)

lemma sorted_ids_upt: "sorted_wrt (<) (map (\<lambda>i. c + int i) [0..<n])"
  by (induction n) (auto simp: sorted_wrt_append)

lemma take_last_map: "map f (take_last n xs) = take_last n (map f xs)"
  by (simp add: take_last_def drop_map)

text \<open>C36: the activity history is a window on everything that was logged. Starting
  from an empty log, after any number of \<open>Add\<close> calls the stored events are the last \<open>limit\<close> of all
  events ever added, in order, and their identifiers count up by one, so an identifier is never
  reused and polling with \<open>afterID\<close> misses nothing that is still held.\<close>

theorem log_is_window:
  assumes "add_all es (New_log limit) = (hist, s)" and "int (length es) \<le> max_i64"
  shows "a_events s = take_last (a_limit s) hist \<and>
    length (a_events s) \<le> a_limit s \<and>
    map e_ID hist = map (\<lambda>i. 1 + int i) [0..<length es] \<and>
    sorted_wrt (<) (map e_ID (a_events s))"
proof -
  have st: "a_events s = take_last (a_limit s) hist"
    using add_all_store[OF assms(1)] by (simp add: New_log_def)
  have ids: "map e_ID hist = map (\<lambda>i. 1 + int i) [0..<length es]"
    using add_all_ids[OF assms(1)] assms(2) by (simp add: New_log_def)
  show ?thesis
    unfolding st take_last_map ids
    by (simp add: ids sorted_wrt_take_last sorted_ids_upt)
qed

definition sample_event :: "string \<Rightarrow> string \<Rightarrow> Event" where
  "sample_event typ p =
     \<lparr>e_ID = 0, e_Time = 0, e_Type = typ, e_Protocol = ''ftp'', e_Actor = ''sam'', e_Remote = [],
      e_Referrer = [], e_Action = ''download'', e_Outcome = [], e_Path = p, e_DestPath = [],
      e_Bytes = 3, e_Detail = [], e_Message = []\<rparr>"

theorem log_is_window_witness:
  "\<exists>hist s. add_all [(5, True, sample_event ''x'' ''a''), (6, True, sample_event ''x'' ''b''),
      (7, True, sample_event ''x'' ''c'')] (New_log 2) = (hist, s) \<and>
    a_events s = take_last (a_limit s) hist"
  using log_is_window[of "[(5, True, sample_event ''x'' ''a''), (6, True, sample_event ''x'' ''b''),
      (7, True, sample_event ''x'' ''c'')]" 2]
  by (cases "add_all [(5, True, sample_event ''x'' ''a''), (6, True, sample_event ''x'' ''b''),
      (7, True, sample_event ''x'' ''c'')] (New_log 2)") simp


text \<open>C37: polling is exact. For a positive \<open>afterID\<close>, \<open>Recent\<close> returns, newest first,
  the events still held whose identifier exceeds \<open>afterID\<close>, the newest \<open>limit\<close> of them when there
  are more (100 when the limit is not positive); it returns nothing else.\<close>

theorem recent_polling:
  assumes "0 < after"
  shows "Recent limit after (Some s) =
    take (nat (if limit \<le> 0 then 100 else limit))
      (rev (filter (\<lambda>e. after < e_ID e) (a_events s)))"
  using assms by (simp add: Recent_eq rev_filter not_le)

theorem recent_polling_witness:
  "map e_ID (Recent 1 1 (Some ((New_log 5)\<lparr>a_events := map (\<lambda>i. (sample_event ''x'' ''a'')\<lparr>e_ID := i\<rparr>)
      [1, 2, 3]\<rparr>))) = [3]"
  by (subst recent_polling) (simp_all add: sample_event_def New_log_def)

subsection \<open>Restart\<close>

lemma fold_load_line:
  assumes "length (a_events s) \<le> a_limit s"
  shows "fold load_line (map Some es) s =
    s\<lparr>a_nextID := fold (\<lambda>e n. max n (e_ID e)) es (a_nextID s),
      a_events := take_last (a_limit s) (a_events s @ es)\<rparr>"
  using assms
proof (induction es arbitrary: s)
  case (Cons e es)
  have "length (a_events (load_line (Some e) s)) \<le> a_limit (load_line (Some e) s)"
    by (simp add: load_line_def keep_last_eq)
  from Cons.IH[OF this] show ?case
    by (simp add: load_line_def keep_last_eq take_last_append_take_last max_def)
qed (simp add: take_last_all)

lemma fold_max_upto:
  "map e_ID es = map (\<lambda>i. c + 1 + int i) [0..<length es] \<Longrightarrow>
    fold (\<lambda>e n. max n (e_ID e)) es c = c + int (length es)"
proof (induction es arbitrary: c)
  case (Cons e es)
  have "map e_ID (e # es) = (c + 1) # map (\<lambda>i. c + 1 + 1 + int i) [0..<length es]"
    unfolding Cons.prems
    by (simp add: upt_conv_Cons del: upt_Suc flip: map_Suc_upt)
  then have "e_ID e = c + 1" "map e_ID es = map (\<lambda>i. (c + 1) + 1 + int i) [0..<length es]"
    by simp_all
  with Cons.IH[of "c + 1"] show ?case by simp
qed simp

lemma add_all_file:
  assumes "add_all es s = (hist, s')" and "a_path s \<noteq> []" and "\<forall>(now, w, e) \<in> set es. w"
  shows "a_file s' = a_file s @ map Some hist"
  using assms
proof (induction es arbitrary: s hist)
  case (Cons x es)
  obtain now w e where x: "x = (now, w, e)" by (cases x) auto
  let ?e = "(complete_event now e)\<lparr>e_ID := wrap_i64 (a_nextID s + 1)\<rparr>"
  obtain hist1 where hist: "hist = ?e # hist1"
    and rest: "add_all es (s\<lparr>a_nextID := wrap_i64 (a_nextID s + 1),
                     a_events := take_last (a_limit s) (a_events s @ [?e]),
                     a_file := a_file s @ [Some ?e]\<rparr>) = (hist1, s')"
    using Cons.prems by (auto simp: x Add_event_Some Let_def split: prod.splits)
  from Cons.IH[OF rest] Cons.prems(2,3) show ?case by (simp add: hist)
qed simp



subsection \<open>Download statistics\<close>

lemma stats_fold:
  "fold (stats_step p n) es z =
    z\<lparr>ps_Downloads := ps_Downloads z + length (filter (counts_as_download p) es),
      ps_LastDownloadAt := ps_LastDownloadAt (fold (stats_step p n) es z),
      ps_Referrers := ps_Referrers (fold (stats_step p n) es z),
      ps_Recent := ps_Recent z @ take (n - length (ps_Recent z)) (filter (counts_as_download p) es)\<rparr>"
proof (induction es arbitrary: z)
  case (Cons e es)
  show ?case
    unfolding fold.simps comp_def
    by (subst Cons.IH) (auto simp: stats_step_def Let_def take_Cons' split: if_splits)
qed simp

lemma stats_referrers:
  assumes "\<And>r. ps_Referrers z r \<noteq> Some 0"
  shows "ps_Referrers (fold (stats_step p n) es z) r =
    (let c = (case ps_Referrers z r of None \<Rightarrow> 0 | Some m \<Rightarrow> m) +
             count_list (map e_Referrer (filter (counts_as_download p) es)) r
     in if r = [] then ps_Referrers z r else if c = 0 then None else Some c)"
  using assms
proof (induction es arbitrary: z)
  case Nil
  then show ?case by (auto simp: Let_def split: option.splits)
next
  case (Cons e es)
  have "\<And>r. ps_Referrers (stats_step p n e z) r \<noteq> Some 0"
    using Cons.prems by (auto simp: stats_step_def Let_def split: option.splits)
  from Cons.IH[OF this] show ?case
    by (auto simp: stats_step_def Let_def split: option.splits)
qed

lemma stats_last:
  assumes "\<forall>e \<in> set es. e_Time e \<noteq> 0"
  shows "ps_LastDownloadAt (fold (stats_step p n) es z) =
    (if ps_LastDownloadAt z \<noteq> 0 then ps_LastDownloadAt z
     else (case filter (counts_as_download p) es of [] \<Rightarrow> 0 | e # _ \<Rightarrow> e_Time e))"
  using assms
  by (induction es arbitrary: z) (auto simp: stats_step_def Let_def is_zero_time_def)

text \<open>The download statistics of a path are those of the held completed downloads:
  their number, the newest of them up to the limit, the time of the newest, and for each
  referrer how many came from it. Probes, failures and cancelled transfers do not count.\<close>

theorem stats_exact:
  assumes "\<forall>e \<in> set (a_events s). e_Time e \<noteq> 0" and "0 < limit" and "limit \<le> 100"
  shows "let ds = filter (counts_as_download p) (rev (a_events s));
             st = StatsForPath p limit (Some s)
         in ps_Downloads st = length ds \<and> ps_Recent st = take (nat limit) ds \<and>
            ps_LastDownloadAt st = (case ds of [] \<Rightarrow> 0 | e # _ \<Rightarrow> e_Time e) \<and>
            (\<forall>r. ps_Referrers st r =
               (if r = [] \<or> r \<notin> e_Referrer ` set ds then None
                else Some (count_list (map e_Referrer ds) r)))"
proof -
  let ?z = "\<lparr>ps_Path = p, ps_Downloads = 0, ps_LastDownloadAt = 0, ps_Referrers = Map.empty,
             ps_Recent = []\<rparr>"
  let ?es = "rev (a_events s)"
  have eq: "StatsForPath p limit (Some s) = fold (stats_step p (nat limit)) ?es ?z"
    using assms(2,3) by (simp add: StatsForPath_def Let_def)
  have ref: "ps_Referrers (fold (stats_step p (nat limit)) ?es ?z) r =
      (if r = [] \<or> r \<notin> e_Referrer ` set (filter (counts_as_download p) ?es) then None
       else Some (count_list (map e_Referrer (filter (counts_as_download p) ?es)) r))" for r
    by (subst stats_referrers) (auto simp: Let_def count_list_0_iff image_iff)
  show ?thesis
    unfolding Let_def eq ref
    by (subst (1 2) stats_fold) (use assms(1) in \<open>simp add: stats_last\<close>)
qed

theorem stats_exact_witness:
  "ps_Downloads (StatsForPath ''/p'' 8 (Some ((New_log 5)\<lparr>a_events :=
     [(sample_event ''public_download'' ''/p'')\<lparr>e_Time := 4, e_Outcome := ''ok''\<rparr>,
      (sample_event ''public_download'' ''/q'')\<lparr>e_Time := 5, e_Outcome := ''ok''\<rparr>]\<rparr>))) = 1"
  using stats_exact[of "(New_log 5)\<lparr>a_events :=
     [(sample_event ''public_download'' ''/p'')\<lparr>e_Time := 4, e_Outcome := ''ok''\<rparr>,
      (sample_event ''public_download'' ''/q'')\<lparr>e_Time := 5, e_Outcome := ''ok''\<rparr>]\<rparr>" 8 "''/p''"]
  by (simp add: Let_def counts_as_download_def sample_event_def)

subsection \<open>Calls of the log\<close>

text \<open>
  What any sequence of \<open>Add\<close> calls keeps: the limit and the file, and that the log is the end of what
  was logged.
\<close>

definition log_call :: "Store option \<Rightarrow> Store option \<Rightarrow> bool" where
  "log_call s s' \<longleftrightarrow> (\<exists>t w e. s' = snd (Add_event t w e s))"

lemma log_callI: "log_call s (snd (Add_event t w e s))"
  unfolding log_call_def by blast

lemma log_calls_window:
  assumes "log_call\<^sup>*\<^sup>* (Some s) l" and "length (a_events s) \<le> a_limit s"
  shows "\<exists>s' added. l = Some s' \<and> a_limit s' = a_limit s \<and> a_path s' = a_path s \<and>
    a_events s' = take_last (a_limit s) (a_events s @ added)"
  using assms(1)
proof (induction rule: rtranclp_induct)
  case base
  show ?case using assms(2) by (intro exI[of _ s] exI[of _ "[]"]) (simp add: take_last_all)
next
  case (step l m)
  then obtain s' added where s': "l = Some s'" "a_limit s' = a_limit s" "a_path s' = a_path s"
      "a_events s' = take_last (a_limit s) (a_events s @ added)" by blast
  from step(2) obtain t w e where "m = snd (Add_event t w e (Some s'))" by (auto simp: log_call_def s'(1))
  then show ?case
    by (auto simp: Add_event_Some Let_def s' take_last_append_take_last intro!: exI[of _ "added @ _"])
qed

end
