(* ===== verification/GoBase64.thy ===== *)
theory GoBase64
  imports GoStrings
begin

text \<open>
  \<open>encoding/base64\<close> without padding, for the standard and the URL alphabet
  (\<open>RawStdEncoding\<close>, \<open>RawURLEncoding\<close>). The decoder skips carriage returns and line feeds, ignores
  the unused low bits of the last character and refuses any other byte outside the alphabet and a
  lone last character.
\<close>

definition b64_common :: string where
  "b64_common = ''ABCDEFGHIJKLMNOPQRSTUVWXYZabcdefghijklmnopqrstuvwxyz0123456789''"

definition std_alphabet :: string where "std_alphabet = b64_common @ ''+/''"
definition url_alphabet :: string where "url_alphabet = b64_common @ ''-_''"

definition b64_alphabet :: "string \<Rightarrow> bool" where
  "b64_alphabet al \<longleftrightarrow> distinct al \<and> length al = 64 \<and> CHR 0x0A \<notin> set al \<and> CHR 0x0D \<notin> set al"

fun b64_sextets :: "nat list \<Rightarrow> nat list" where
  "b64_sextets [] = []"
| "b64_sextets [a] = [a div 4, a mod 4 * 16]"
| "b64_sextets [a, b] = [a div 4, a mod 4 * 16 + b div 16, b mod 16 * 4]"
| "b64_sextets (a # b # c # r) =
     a div 4 # (a mod 4 * 16 + b div 16) # (b mod 16 * 4 + c div 64) # (c mod 64) # b64_sextets r"

fun b64_octets :: "nat list \<Rightarrow> nat list option" where
  "b64_octets [] = Some []"
| "b64_octets [x] = None"
| "b64_octets [x, y] = Some [x * 4 + y div 16]"
| "b64_octets [x, y, z] = Some [x * 4 + y div 16, y mod 16 * 16 + z div 4]"
| "b64_octets (x # y # z # w # r) =
     map_option (\<lambda>bs. (x * 4 + y div 16) # (y mod 16 * 16 + z div 4) # (z mod 4 * 64 + w) # bs)
       (b64_octets r)"

definition b64_encode :: "string \<Rightarrow> string \<Rightarrow> string" where
  "b64_encode al bs = map (\<lambda>n. al ! n) (b64_sextets (map of_char bs))"

definition b64_index :: "string \<Rightarrow> char \<Rightarrow> nat option" where
  "b64_index al c = map_of (zip al [0..<length al]) c"

definition b64_decode :: "string \<Rightarrow> string \<Rightarrow> string option" where
  "b64_decode al s =
     (let ds = map (b64_index al) (filter (\<lambda>c. c \<noteq> CHR 0x0A \<and> c \<noteq> CHR 0x0D) s)
      in if None \<in> set ds then None
         else map_option (map char_of) (b64_octets (map the ds)))"

lemma b64_sextets_bound: "\<forall>b \<in> set bs. b < 256 \<Longrightarrow> \<forall>x \<in> set (b64_sextets bs). x < 64"
proof (induction bs rule: b64_sextets.induct)
  case (2 a)
  then show ?case by auto
next
  case (3 a b)
  then have "a mod 4 * 16 + b div 16 < 64" "b mod 16 * 4 < 64" "a div 4 < 64" "a mod 4 * 16 < 64"
    by auto
  then show ?case by simp
next
  case (4 a b c r)
  then have "a mod 4 * 16 + b div 16 < 64" "b mod 16 * 4 + c div 64 < 64" "a div 4 < 64" by auto
  with 4 show ?case by simp
qed simp

lemma b64_octets_sextets: "\<forall>b \<in> set bs. b < 256 \<Longrightarrow> b64_octets (b64_sextets bs) = Some bs"
proof (induction bs rule: b64_sextets.induct)
  case (2 a)
  then show ?case by (simp add: mult.commute)
next
  case (3 a b)
  have "a div 4 * 4 + (a mod 4 * 16 + b div 16) div 16 = a" using 3 by auto
  moreover have "(a mod 4 * 16 + b div 16) mod 16 * 16 + (b mod 16 * 4) div 4 = b" using 3 by auto
  ultimately show ?case by simp
next
  case (4 a b c r)
  have "a div 4 * 4 + (a mod 4 * 16 + b div 16) div 16 = a" using 4 by auto
  moreover have "(a mod 4 * 16 + b div 16) mod 16 * 16 + (b mod 16 * 4 + c div 64) div 4 = b"
    using 4 by auto
  moreover have "(b mod 16 * 4 + c div 64) mod 4 * 64 + c mod 64 = c" using 4 by auto
  ultimately show ?case using 4 by simp
qed simp

lemma b64_index_nth: "distinct al \<Longrightarrow> n < length al \<Longrightarrow> b64_index al (al ! n) = Some n"
proof -
  assume a: "distinct al" "n < length al"
  then have "(al ! n, n) \<in> set (zip al [0..<length al])"
    by (auto simp: set_zip)
  with a show ?thesis by (simp add: b64_index_def)
qed

lemma set_b64_encode:
  assumes "length al = 64"
  shows "set (b64_encode al bs) \<subseteq> set al"
proof -
  have "\<forall>x \<in> set (b64_sextets (map of_char bs)). x < 64"
    by (rule b64_sextets_bound) auto
  with assms show ?thesis by (auto simp: b64_encode_def)
qed

lemma b64_roundtrip:
  assumes "b64_alphabet al"
  shows "b64_decode al (b64_encode al bs) = Some bs"
proof -
  let ?ns = "map of_char bs :: nat list"
  let ?xs = "b64_sextets ?ns"
  have small: "\<forall>b \<in> set ?ns. b < 256" by auto
  have bound: "\<forall>x \<in> set ?xs. x < 64" by (rule b64_sextets_bound[OF small])
  have keep: "filter (\<lambda>c. c \<noteq> CHR 0x0A \<and> c \<noteq> CHR 0x0D) (b64_encode al bs) = b64_encode al bs"
    using set_b64_encode[of al bs] assms by (auto simp: filter_id_conv b64_alphabet_def)
  have ds: "map (b64_index al) (b64_encode al bs) = map Some ?xs"
    using bound assms by (auto simp: b64_encode_def b64_index_nth b64_alphabet_def)
  have "None \<notin> set (map Some ?xs)" by auto
  then show ?thesis
    unfolding b64_decode_def Let_def keep ds
    by (simp add: b64_octets_sextets[OF small] comp_def)
qed

lemma std_alphabet: "b64_alphabet std_alphabet"
  by code_simp

lemma url_alphabet: "b64_alphabet url_alphabet"
  by code_simp

end
