(* ===== verification/AuthStore.thy ===== *)
theory AuthStore
  imports GoBase64
begin

text \<open>
  Users, groups, permissions and passwords: \<open>internal/auth/auth.go\<close>.

  The database is held in memory and written out after every change. \<open>as_disk\<close> is the database
  the file decodes to, \<open>None\<close> when there is no file; \<open>saveLocked\<close> writes a temporary file and
  renames it, so the file is replaced or left alone, and its outcome is an argument. Random bytes
  are arguments too (\<open>None\<close> when the system has none). The key derivation of
  \<open>golang.org/x/crypto/pbkdf2\<close> is a parameter \<open>kdf password salt iterations length\<close>.
\<close>

record PermissionSet =
  p_List :: bool
  p_Download :: bool
  p_Upload :: bool
  p_Delete :: bool
  p_Mkdir :: bool
  p_Rename :: bool
  p_Admin :: bool
  p_Public :: bool
  p_Dropbox :: bool

definition no_permissions :: PermissionSet where
  "no_permissions = \<lparr>p_List = False, p_Download = False, p_Upload = False, p_Delete = False,
     p_Mkdir = False, p_Rename = False, p_Admin = False, p_Public = False, p_Dropbox = False\<rparr>"

definition AdminPermissions :: PermissionSet where
  "AdminPermissions = \<lparr>p_List = True, p_Download = True, p_Upload = True, p_Delete = True,
     p_Mkdir = True, p_Rename = True, p_Admin = True, p_Public = True, p_Dropbox = True\<rparr>"

definition ReadOnlyPermissions :: PermissionSet where
  "ReadOnlyPermissions = no_permissions\<lparr>p_List := True, p_Download := True, p_Public := True\<rparr>"

definition Merge :: "PermissionSet \<Rightarrow> PermissionSet \<Rightarrow> PermissionSet" where
  "Merge p q = \<lparr>p_List = p_List p \<or> p_List q, p_Download = p_Download p \<or> p_Download q,
     p_Upload = p_Upload p \<or> p_Upload q, p_Delete = p_Delete p \<or> p_Delete q,
     p_Mkdir = p_Mkdir p \<or> p_Mkdir q, p_Rename = p_Rename p \<or> p_Rename q,
     p_Admin = p_Admin p \<or> p_Admin q, p_Public = p_Public p \<or> p_Public q,
     p_Dropbox = p_Dropbox p \<or> p_Dropbox q\<rparr>"

record User =
  u_Username :: string
  u_PasswordHash :: string
  u_Groups :: "string list"
  u_Home :: string
  u_Disabled :: bool
  u_Permissions :: PermissionSet

record Group =
  g_Name :: string
  g_Home :: string
  g_Permissions :: PermissionSet

record Database =
  db_Users :: "(string \<times> User) list"
  db_Groups :: "(string \<times> Group) list"

record AuthStore =
  as_db :: Database
  as_disk :: "Database option"

definition empty_db :: Database where
  "empty_db = \<lparr>db_Users = [], db_Groups = []\<rparr>"

subsection \<open>Names\<close>

definition name_char :: "char \<Rightarrow> bool" where
  "name_char c \<longleftrightarrow> is_lower c \<or> is_digit c \<or> c = CHR ''_'' \<or> c = CHR ''-'' \<or> c = CHR ''.''"

text \<open>
  \<open>strings.Map\<close> drops the runes outside the set; on bytes, that drops every byte outside it.
\<close>

definition NormalizeName :: "string \<Rightarrow> string" where
  "NormalizeName name = filter name_char (TrimSpace (ToLower name))"

text \<open>\<open>^[a-z0-9][a-z0-9_.-]{0,63}$\<close>\<close>

definition ValidateName :: "string \<Rightarrow> err option" where
  "ValidateName name =
     (case name of
        [] \<Rightarrow> Some ErrInvalidUsername
      | c # cs \<Rightarrow>
          if (is_lower c \<or> is_digit c) \<and> length cs \<le> 63 \<and> list_all name_char cs then None
          else Some ErrInvalidUsername)"

subsection \<open>Passwords\<close>

type_synonym kdf = "string \<Rightarrow> string \<Rightarrow> nat \<Rightarrow> nat \<Rightarrow> string"

definition hashIterations :: nat where "hashIterations = 210000"
definition hashKeyBytes :: nat where "hashKeyBytes = 32"

definition HashPassword :: "kdf \<Rightarrow> string option \<Rightarrow> string \<Rightarrow> err + string" where
  "HashPassword kdf random password =
     (case random of
        None \<Rightarrow> Inl ErrIO
      | Some salt \<Rightarrow>
          let key = kdf password salt hashIterations hashKeyBytes
          in Inr (''pbkdf2-sha256$'' @ show_nat hashIterations @ ''$'' @
                  b64_encode std_alphabet salt @ ''$'' @ b64_encode std_alphabet key))"

definition VerifyPassword :: "kdf \<Rightarrow> string \<Rightarrow> string \<Rightarrow> bool" where
  "VerifyPassword kdf encoded password =
     (case Split encoded (CHR ''$'') of
        [algo, iters, salt64, key64] \<Rightarrow>
          if algo \<noteq> ''pbkdf2-sha256'' then False
          else (case Sscanf_d iters of
             None \<Rightarrow> False
           | Some iterations \<Rightarrow>
               if iterations \<le> 0 then False
               else (case b64_decode std_alphabet salt64 of
                  None \<Rightarrow> False
                | Some salt \<Rightarrow>
                    (case b64_decode std_alphabet key64 of
                       None \<Rightarrow> False
                     | Some expected \<Rightarrow>
                         kdf password salt (nat iterations) (length expected) = expected)))
      | _ \<Rightarrow> False)"

definition randomBootstrapPassword :: "string option \<Rightarrow> string" where
  "randomBootstrapPassword random =
     (case random of None \<Rightarrow> ''change-me-now'' | Some buf \<Rightarrow> b64_encode url_alphabet buf)"

subsection \<open>The store\<close>

definition permissionsLocked :: "AuthStore \<Rightarrow> User \<Rightarrow> PermissionSet" where
  "permissionsLocked s user =
     fold (\<lambda>groupName merged.
             case map_of (db_Groups (as_db s)) (NormalizeName groupName) of
               None \<Rightarrow> merged
             | Some grp \<Rightarrow> Merge merged (g_Permissions grp))
       (u_Groups user) (u_Permissions user)"

definition userWouldBeAdminLocked :: "AuthStore \<Rightarrow> User \<Rightarrow> bool" where
  "userWouldBeAdminLocked s user =
     (if u_Disabled user then False else p_Admin (permissionsLocked s user))"

definition isLastAdminLocked :: "AuthStore \<Rightarrow> string \<Rightarrow> bool" where
  "isLastAdminLocked s username =
     (case map_of (db_Users (as_db s)) username of
        None \<Rightarrow> False
      | Some user \<Rightarrow>
          if \<not> userWouldBeAdminLocked s user then False
          else length (filter (\<lambda>(_, candidate). userWouldBeAdminLocked s candidate)
                         (db_Users (as_db s))) \<le> 1)"

text \<open>\<open>save_error\<close> is the first of the four file operations to fail, if one does.\<close>

definition saveLocked :: "err option \<Rightarrow> AuthStore \<Rightarrow> err option \<times> AuthStore" where
  "saveLocked save_error s =
     (case save_error of
        Some e \<Rightarrow> (Some e, s)
      | None \<Rightarrow> (None, s\<lparr>as_disk := Some (as_db s)\<rparr>))"

definition set_user :: "string \<Rightarrow> User \<Rightarrow> AuthStore \<Rightarrow> AuthStore" where
  "set_user k u s = s\<lparr>as_db := (as_db s)\<lparr>db_Users := AList.update k u (db_Users (as_db s))\<rparr>\<rparr>"

definition set_group :: "string \<Rightarrow> Group \<Rightarrow> AuthStore \<Rightarrow> AuthStore" where
  "set_group k g s = s\<lparr>as_db := (as_db s)\<lparr>db_Groups := AList.update k g (db_Groups (as_db s))\<rparr>\<rparr>"

text \<open>
  \<open>load\<close>: \<open>file\<close> is the outcome of reading and decoding the file, \<open>None\<close> when it does not exist.
\<close>

definition load_store ::
  "(err + Database) option \<Rightarrow> err option \<Rightarrow> AuthStore \<Rightarrow> err option \<times> AuthStore" where
  "load_store file save_error s =
     (let s0 = s\<lparr>as_db := empty_db\<rparr>
      in case file of
           None \<Rightarrow> saveLocked save_error s0
         | Some (Inl e) \<Rightarrow> (Some e, s0)
         | Some (Inr db) \<Rightarrow> (None, s0\<lparr>as_db := db\<rparr>))"

definition Open_store :: "(err + Database) option \<Rightarrow> err option \<Rightarrow> err + AuthStore" where
  "Open_store file save_error =
     (case load_store file save_error
             \<lparr>as_db = empty_db, as_disk = (case file of Some (Inr db) \<Rightarrow> Some db | _ \<Rightarrow> None)\<rparr> of
        (Some e, s) \<Rightarrow> Inl e
      | (None, s) \<Rightarrow> Inr s)"

definition BootstrapAdmin ::
  "kdf \<Rightarrow> string option \<Rightarrow> string option \<Rightarrow> err option \<Rightarrow> string \<Rightarrow> string \<Rightarrow> AuthStore
     \<Rightarrow> err option \<times> AuthStore" where
  "BootstrapAdmin kdf random_pw random_salt save_error username0 password0 s =
     (let n = NormalizeName username0;
          username = (if n = [] then ''admin'' else n)
      in case ValidateName username of
           Some e \<Rightarrow> (Some e, s)
         | None \<Rightarrow>
             if map_of (db_Users (as_db s)) username \<noteq> None then (None, s)
             else (let password = (if password0 = [] then randomBootstrapPassword random_pw
                                   else password0)
                   in case HashPassword kdf random_salt password of
                        Inl e \<Rightarrow> (Some e, s)
                      | Inr hash \<Rightarrow>
                          (let u = \<lparr>u_Username = username, u_PasswordHash = hash,
                                    u_Groups = [''admins''], u_Home = ''/'', u_Disabled = False,
                                    u_Permissions = AdminPermissions\<rparr>;
                               g = \<lparr>g_Name = ''admins'', g_Home = ''/'',
                                    g_Permissions = AdminPermissions\<rparr>
                           in saveLocked save_error (set_group ''admins'' g (set_user username u s)))))"

definition Authenticate ::
  "kdf \<Rightarrow> AuthStore \<Rightarrow> string \<Rightarrow> string \<Rightarrow> (User \<times> PermissionSet) option" where
  "Authenticate kdf s username password =
     (case map_of (db_Users (as_db s)) (NormalizeName username) of
        None \<Rightarrow> None
      | Some user \<Rightarrow>
          if u_Disabled user \<or> u_PasswordHash user = [] then None
          else if \<not> VerifyPassword kdf (u_PasswordHash user) password then None
          else Some (user, permissionsLocked s user))"

definition Permissions_of :: "AuthStore \<Rightarrow> string \<Rightarrow> (User \<times> PermissionSet) option" where
  "Permissions_of s username =
     (case map_of (db_Users (as_db s)) (NormalizeName username) of
        None \<Rightarrow> None
      | Some user \<Rightarrow> if u_Disabled user then None else Some (user, permissionsLocked s user))"

definition ListUsers :: "AuthStore \<Rightarrow> User list" where
  "ListUsers s =
     sort_key u_Username (map (\<lambda>(_, user). user\<lparr>u_PasswordHash := []\<rparr>) (db_Users (as_db s)))"

definition UpsertUser ::
  "kdf \<Rightarrow> string option \<Rightarrow> err option \<Rightarrow> User \<Rightarrow> string \<Rightarrow> AuthStore
     \<Rightarrow> err option \<times> AuthStore" where
  "UpsertUser kdf random save_error user0 password s =
     (let user1 = user0\<lparr>u_Username := NormalizeName (u_Username user0)\<rparr>
      in case ValidateName (u_Username user1) of
           Some e \<Rightarrow> (Some e, s)
         | None \<Rightarrow>
             (let user2 = (if u_Home user1 = [] then user1\<lparr>u_Home := ''/'' @ u_Username user1\<rparr>
                           else user1);
                  user3 = user2\<lparr>u_PasswordHash := []\<rparr>;
                  old = map_of (db_Users (as_db s)) (u_Username user3);
                  user4 = (case old of
                             Some o' \<Rightarrow> if password = []
                                       then user3\<lparr>u_PasswordHash := u_PasswordHash o'\<rparr> else user3
                           | None \<Rightarrow> user3);
                  hashed = (if password = [] then Inr user4
                            else case HashPassword kdf random password of
                                   Inl e \<Rightarrow> Inl e
                                 | Inr hash \<Rightarrow> Inr (user4\<lparr>u_PasswordHash := hash\<rparr>))
              in case hashed of
                   Inl e \<Rightarrow> (Some e, s)
                 | Inr user \<Rightarrow>
                     if u_PasswordHash user = []
                     then (Some (ErrMsg ''password is required for new user''), s)
                     else if (case old of
                                None \<Rightarrow> False
                              | Some o' \<Rightarrow> isLastAdminLocked s (u_Username o') \<and>
                                          \<not> userWouldBeAdminLocked s user)
                     then (Some ErrLastAdmin, s)
                     else saveLocked save_error (set_user (u_Username user) user s)))"

definition DeleteUser :: "err option \<Rightarrow> string \<Rightarrow> AuthStore \<Rightarrow> err option \<times> AuthStore" where
  "DeleteUser save_error username0 s =
     (let username = NormalizeName username0
      in case ValidateName username of
           Some e \<Rightarrow> (Some e, s)
         | None \<Rightarrow>
             if isLastAdminLocked s username then (Some ErrLastAdmin, s)
             else saveLocked save_error
                    (s\<lparr>as_db := (as_db s)\<lparr>db_Users := AList.delete username (db_Users (as_db s))\<rparr>\<rparr>))"

definition ListGroups :: "AuthStore \<Rightarrow> Group list" where
  "ListGroups s = sort_key g_Name (map snd (db_Groups (as_db s)))"

definition UpsertGroup :: "err option \<Rightarrow> Group \<Rightarrow> AuthStore \<Rightarrow> err option \<times> AuthStore" where
  "UpsertGroup save_error grp0 s =
     (let grp = grp0\<lparr>g_Name := NormalizeName (g_Name grp0)\<rparr>
      in case ValidateName (g_Name grp) of
           Some e \<Rightarrow> (Some e, s)
         | None \<Rightarrow> saveLocked save_error (set_group (g_Name grp) grp s))"


subsection \<open>Permissions form a join semilattice\<close>

instantiation PermissionSet_ext :: (bounded_semilattice_sup_bot) bounded_semilattice_sup_bot
begin

definition less_eq_PermissionSet_ext ::
  "'a PermissionSet_scheme \<Rightarrow> 'a PermissionSet_scheme \<Rightarrow> bool" where
  "less_eq_PermissionSet_ext p q \<longleftrightarrow>
     p_List p \<le> p_List q \<and> p_Download p \<le> p_Download q \<and> p_Upload p \<le> p_Upload q \<and>
     p_Delete p \<le> p_Delete q \<and> p_Mkdir p \<le> p_Mkdir q \<and> p_Rename p \<le> p_Rename q \<and>
     p_Admin p \<le> p_Admin q \<and> p_Public p \<le> p_Public q \<and> p_Dropbox p \<le> p_Dropbox q \<and>
     PermissionSet.more p \<le> PermissionSet.more q"

definition less_PermissionSet_ext ::
  "'a PermissionSet_scheme \<Rightarrow> 'a PermissionSet_scheme \<Rightarrow> bool" where
  "less_PermissionSet_ext p q \<longleftrightarrow> p \<le> q \<and> \<not> q \<le> p"

definition sup_PermissionSet_ext ::
  "'a PermissionSet_scheme \<Rightarrow> 'a PermissionSet_scheme \<Rightarrow> 'a PermissionSet_scheme" where
  "sup_PermissionSet_ext p q = \<lparr>p_List = p_List p \<or> p_List q,
     p_Download = p_Download p \<or> p_Download q, p_Upload = p_Upload p \<or> p_Upload q,
     p_Delete = p_Delete p \<or> p_Delete q, p_Mkdir = p_Mkdir p \<or> p_Mkdir q,
     p_Rename = p_Rename p \<or> p_Rename q, p_Admin = p_Admin p \<or> p_Admin q,
     p_Public = p_Public p \<or> p_Public q, p_Dropbox = p_Dropbox p \<or> p_Dropbox q,
     \<dots> = sup (PermissionSet.more p) (PermissionSet.more q)\<rparr>"

definition bot_PermissionSet_ext :: "'a PermissionSet_scheme" where
  "bot_PermissionSet_ext = \<lparr>p_List = False, p_Download = False, p_Upload = False,
     p_Delete = False, p_Mkdir = False, p_Rename = False, p_Admin = False, p_Public = False,
     p_Dropbox = False, \<dots> = bot\<rparr>"

lemma le_more: "p \<le> q \<Longrightarrow> PermissionSet.more p \<le> PermissionSet.more (q :: 'a PermissionSet_scheme)"
  by (simp add: less_eq_PermissionSet_ext_def)

instance
proof
  fix x y z :: "'a PermissionSet_scheme"
  show "x < y \<longleftrightarrow> x \<le> y \<and> \<not> y \<le> x" by (rule less_PermissionSet_ext_def)
  show "x \<le> x" by (simp add: less_eq_PermissionSet_ext_def)
  show "x \<le> z" if "x \<le> y" and "y \<le> z"
    using that order_trans[OF le_more[OF that(1)] le_more[OF that(2)]]
    by (simp add: less_eq_PermissionSet_ext_def)
  show "x = y" if "x \<le> y" and "y \<le> x"
  proof (rule PermissionSet.equality)
  qed (use that in \<open>simp_all only: less_eq_PermissionSet_ext_def, simp_all only: order_eq_iff simp_thms\<close>)
  show "x \<le> sup x y" "y \<le> sup x y"
    by (simp_all add: less_eq_PermissionSet_ext_def sup_PermissionSet_ext_def)
  show "y \<le> x \<Longrightarrow> z \<le> x \<Longrightarrow> sup y z \<le> x"
    unfolding less_eq_PermissionSet_ext_def sup_PermissionSet_ext_def by simp
  show "bot \<le> x" by (simp add: less_eq_PermissionSet_ext_def bot_PermissionSet_ext_def)
qed

end

lemma Merge_sup: "Merge p q = sup p q"
  by (simp add: Merge_def sup_PermissionSet_ext_def)

lemma no_permissions_bot: "no_permissions = bot"
  by (simp add: no_permissions_def bot_PermissionSet_ext_def)

lemma p_Admin_mono: "p \<le> q \<Longrightarrow> p_Admin p \<Longrightarrow> p_Admin (q :: PermissionSet)"
  by (simp add: less_eq_PermissionSet_ext_def)

lemma Admin_top: "p \<le> AdminPermissions"
  by (simp add: less_eq_PermissionSet_ext_def AdminPermissions_def)

lemma permissionsLocked_le_iff:
  "permissionsLocked s user \<le> q \<longleftrightarrow>
     u_Permissions user \<le> q \<and>
     (\<forall>n \<in> set (u_Groups user). \<forall>g. map_of (db_Groups (as_db s)) (NormalizeName n) = Some g
        \<longrightarrow> g_Permissions g \<le> q)"
proof -
  define f where "f = (\<lambda>n merged. case map_of (db_Groups (as_db s)) (NormalizeName n) of
      None \<Rightarrow> merged | Some grp \<Rightarrow> Merge merged (g_Permissions grp))"
  have "fold f ns p \<le> q \<longleftrightarrow> p \<le> q \<and> (\<forall>n \<in> set ns. \<forall>g.
      map_of (db_Groups (as_db s)) (NormalizeName n) = Some g \<longrightarrow> g_Permissions g \<le> q)" for ns p
    by (induction ns arbitrary: p) (auto simp: f_def Merge_sup split: option.splits)
  then show ?thesis by (simp add: permissionsLocked_def f_def)
qed

lemma permissionsLocked_mono:
  assumes "\<And>n g. map_of (db_Groups (as_db s)) n = Some g \<Longrightarrow>
      \<exists>g'. map_of (db_Groups (as_db s')) n = Some g' \<and> g_Permissions g \<le> g_Permissions g'"
  shows "permissionsLocked s u \<le> permissionsLocked s' u"
proof -
  have *: "permissionsLocked s' u \<le> permissionsLocked s' u" by simp
  show ?thesis
    unfolding permissionsLocked_le_iff
    using assms * [unfolded permissionsLocked_le_iff] by (meson order_trans)
qed

subsection \<open>Names\<close>

lemma name_char_plain: "name_char c \<Longrightarrow> plain_char c"
  by (auto simp: name_char_def digit_plain lower_plain) (simp_all add: plain_char_def is_upper_def)

lemma NormalizeName_id: "list_all name_char s \<Longrightarrow> NormalizeName s = s"
proof -
  assume a: "list_all name_char s"
  then have "list_all plain_char s" by (auto simp: list_all_iff name_char_plain)
  with a show ?thesis
    by (simp add: NormalizeName_def ToLower_plain TrimSpace_plain filter_id_conv list_all_iff)
qed

lemma NormalizeName_chars: "list_all name_char (NormalizeName s)"
  by (simp add: NormalizeName_def list_all_iff)

lemma ValidateName_chars: "ValidateName s = None \<Longrightarrow> s \<noteq> [] \<and> list_all name_char s"
  by (auto simp: ValidateName_def name_char_def split: list.splits if_splits)

lemma ValidateName_first:
  "ValidateName s = None \<Longrightarrow> is_lower (hd s) \<or> is_digit (hd s)"
  by (auto simp: ValidateName_def split: list.splits if_splits)

lemma valid_normal: "ValidateName s = None \<Longrightarrow> NormalizeName s = s"
  by (simp add: NormalizeName_id ValidateName_chars)

lemma name_char_not_slash: "name_char c \<Longrightarrow> c \<noteq> CHR ''/''"
  by (auto simp: name_char_def is_lower_def is_digit_def)

text \<open>Names are canonical. Normalising is idempotent, and a name that passes
  validation is its own normal form, has 1 to 64 characters of the allowed set, and as a path
  segment is none of the empty name, \<open>.\<close> and \<open>..\<close>, and holds no slash.\<close>

theorem names_canonical:
  "NormalizeName (NormalizeName n) = NormalizeName n \<and>
   (ValidateName n = None \<longrightarrow> NormalizeName n = n \<and> 1 \<le> length n \<and> length n \<le> 64 \<and>
      (\<forall>c \<in> set n. name_char c) \<and> n \<notin> {[], ''.'', ''..''} \<and> CHR ''/'' \<notin> set n)"
proof -
  have "length n \<le> 64" if "ValidateName n = None"
    using that by (auto simp: ValidateName_def split: list.splits if_splits)
  moreover have "n \<notin> {[], ''.'', ''..''}" if "ValidateName n = None"
    using that by (auto simp: ValidateName_def is_lower_def is_digit_def)
  moreover have "NormalizeName (NormalizeName n) = NormalizeName n"
    by (rule NormalizeName_id) (rule NormalizeName_chars)
  ultimately show ?thesis
    using ValidateName_chars[of n] name_char_not_slash
    by (auto simp: valid_normal list_all_iff Suc_le_eq)
qed

theorem names_canonical_witness:
  "NormalizeName '' Sam-1 '' = ''sam-1'' \<and> NormalizeName ''sam-1'' = ''sam-1'' \<and>
   CHR ''/'' \<notin> set ''sam-1''"
proof -
  have "ValidateName ''sam-1'' = None" "NormalizeName '' Sam-1 '' = ''sam-1''" by code_simp+
  with names_canonical[of "''sam-1''"] show ?thesis by simp
qed

subsection \<open>Password hashes\<close>

lemma dollar_not_b64: "CHR ''$'' \<notin> set (b64_encode std_alphabet bs)"
proof -
  have "CHR ''$'' \<notin> set std_alphabet" "length std_alphabet = 64" by code_simp+
  with set_b64_encode show ?thesis by blast
qed

lemma dollar_not_show_nat: "CHR ''$'' \<notin> set (show_nat n)"
  using show_nat_digits[of n] by (auto simp: list_all_iff is_digit_def)

lemma Split_hash:
  "Split (''pbkdf2-sha256$'' @ show_nat n @ ''$'' @ b64_encode std_alphabet a @ ''$'' @
      b64_encode std_alphabet b) (CHR ''$'')
   = [''pbkdf2-sha256'', show_nat n, b64_encode std_alphabet a, b64_encode std_alphabet b]"
proof -
  have "Split (Join [''pbkdf2-sha256'', show_nat n, b64_encode std_alphabet a,
      b64_encode std_alphabet b] [CHR ''$'']) (CHR ''$'') = [''pbkdf2-sha256'', show_nat n,
      b64_encode std_alphabet a, b64_encode std_alphabet b]"
    by (rule Split_Join) (auto simp: dollar_not_b64 dollar_not_show_nat)
  then show ?thesis by simp
qed

lemma Verify_encoded:
  assumes "0 < n" and "int n \<le> max_i64"
  shows "VerifyPassword kdf (''pbkdf2-sha256$'' @ show_nat n @ ''$'' @ b64_encode std_alphabet salt @
      ''$'' @ b64_encode std_alphabet key) pw \<longleftrightarrow> kdf pw salt n (length key) = key"
  using assms
  unfolding VerifyPassword_def Split_hash
  by (simp add: Sscanf_d_show_nat b64_roundtrip std_alphabet)

lemma HashPassword_not_Nil: "HashPassword kdf r pw = Inr h \<Longrightarrow> h \<noteq> []"
  by (auto simp: HashPassword_def Let_def split: option.splits)

text \<open>A stored hash verifies exactly the passwords that derive the same key. For a
  key derivation that returns keys of the length asked for, the hash of a password verifies a
  candidate if and only if both derive the same key under the stored salt and iteration count;
  in particular the password itself always verifies.\<close>

theorem password_roundtrip:
  assumes "HashPassword kdf (Some salt) password = Inr h"
    and "length (kdf password salt hashIterations hashKeyBytes) = hashKeyBytes"
  shows "VerifyPassword kdf h candidate \<longleftrightarrow>
    kdf candidate salt hashIterations hashKeyBytes = kdf password salt hashIterations hashKeyBytes"
proof -
  have "h = ''pbkdf2-sha256$'' @ show_nat hashIterations @ ''$'' @ b64_encode std_alphabet salt @
      ''$'' @ b64_encode std_alphabet (kdf password salt hashIterations hashKeyBytes)"
    using assms(1) by (simp add: HashPassword_def Let_def)
  then show ?thesis
    using Verify_encoded[of hashIterations kdf salt
        "kdf password salt hashIterations hashKeyBytes" candidate] assms(2)
    by (simp add: hashIterations_def)
qed

definition toy_kdf :: kdf where
  "toy_kdf password salt iterations len = take len (password @ salt @ replicate len (CHR ''x''))"

theorem password_roundtrip_witness:
  "\<exists>h. HashPassword toy_kdf (Some ''salt'') ''secret'' = Inr h \<and>
     VerifyPassword toy_kdf h ''secret'' \<and> \<not> VerifyPassword toy_kdf h ''wrong''"
proof -
  obtain h where h: "HashPassword toy_kdf (Some ''salt'') ''secret'' = Inr h"
    by (simp add: HashPassword_def Let_def)
  have l: "length (toy_kdf ''secret'' ''salt'' hashIterations hashKeyBytes) = hashKeyBytes"
    by (simp add: toy_kdf_def)
  have "toy_kdf ''wrong'' ''salt'' hashIterations hashKeyBytes \<noteq>
      toy_kdf ''secret'' ''salt'' hashIterations hashKeyBytes"
    by (simp add: toy_kdf_def hashKeyBytes_def)
  with password_roundtrip[OF h l] h show ?thesis by blast
qed

subsection \<open>The directory the servers rely on\<close>

text \<open>
  What the FTP session and the HTTP handlers assume of the store: a successful login and a
  later permission check agree, disabled accounts are never returned, effective permissions
  include the user's own, and the name of a returned user leads back to the same user.
\<close>

locale user_directory =
  fixes authenticate :: "'s \<Rightarrow> string \<Rightarrow> string \<Rightarrow> (User \<times> PermissionSet) option"
    and permissions :: "'s \<Rightarrow> string \<Rightarrow> (User \<times> PermissionSet) option"
    and well_formed :: "'s \<Rightarrow> bool"
  assumes auth_permissions: "authenticate s n pw = Some r \<Longrightarrow> permissions s n = Some r"
    and perm_enabled: "permissions s n = Some (u, ps) \<Longrightarrow> \<not> u_Disabled u"
    and perm_includes_own: "permissions s n = Some (u, ps) \<Longrightarrow> u_Permissions u \<le> ps"
    and perm_self:
      "well_formed s \<Longrightarrow> permissions s n = Some (u, ps) \<Longrightarrow>
         permissions s (u_Username u) = Some (u, ps)"
begin

lemma login_revalidates:
  "well_formed s \<Longrightarrow> authenticate s n pw = Some (u, ps) \<Longrightarrow>
     permissions s (u_Username u) = Some (u, ps) \<and> \<not> u_Disabled u"
  using auth_permissions perm_self perm_enabled by blast

end

definition user_ok :: "string \<Rightarrow> User \<Rightarrow> bool" where
  "user_ok k u \<longleftrightarrow> u_Username u = k \<and> ValidateName k = None \<and> u_PasswordHash u \<noteq> []"

definition store_inv :: "AuthStore \<Rightarrow> bool" where
  "store_inv s \<longleftrightarrow> distinct_keys (db_Users (as_db s)) \<and> distinct_keys (db_Groups (as_db s)) \<and>
     (\<forall>(k, u) \<in> set (db_Users (as_db s)). user_ok k u) \<and>
     (\<forall>(k, g) \<in> set (db_Groups (as_db s)). g_Name g = k \<and> ValidateName k = None)"

lemma store_inv_user:
  "store_inv s \<Longrightarrow> map_of (db_Users (as_db s)) k = Some u \<Longrightarrow> user_ok k u"
  using map_of_SomeD by (fastforce simp: store_inv_def)

lemma Permissions_of_Some:
  "Permissions_of s n = Some (u, ps) \<longleftrightarrow>
     map_of (db_Users (as_db s)) (NormalizeName n) = Some u \<and> \<not> u_Disabled u \<and>
     ps = permissionsLocked s u"
  by (auto simp: Permissions_of_def split: option.splits)

lemma Authenticate_Some:
  "Authenticate kdf s n pw = Some (u, ps) \<longleftrightarrow>
     map_of (db_Users (as_db s)) (NormalizeName n) = Some u \<and> \<not> u_Disabled u \<and>
     u_PasswordHash u \<noteq> [] \<and> VerifyPassword kdf (u_PasswordHash u) pw \<and>
     ps = permissionsLocked s u"
  by (auto simp: Authenticate_def split: option.splits)

interpretation dir: user_directory "Authenticate kdf" Permissions_of store_inv
proof unfold_locales
  fix s n pw r
  show "Authenticate kdf s n pw = Some r \<Longrightarrow> Permissions_of s n = Some r"
    by (cases r) (simp add: Authenticate_Some Permissions_of_Some)
next
  fix s n u ps
  assume p: "Permissions_of s n = Some (u, ps)"
  then show "\<not> u_Disabled u" by (simp add: Permissions_of_Some)
  from p show "u_Permissions u \<le> ps"
    using permissionsLocked_le_iff[of s u ps] by (simp add: Permissions_of_Some)
  assume "store_inv s"
  with p have "user_ok (NormalizeName n) u"
    by (auto simp: Permissions_of_Some intro: store_inv_user)
  with p show "Permissions_of s (u_Username u) = Some (u, ps)"
    by (simp add: Permissions_of_Some user_ok_def valid_normal)
qed

subsection \<open>Changes to the directory\<close>

lemma as_db_saveLocked [simp]: "as_db (snd (saveLocked e s)) = as_db s"
  by (simp add: saveLocked_def split: option.splits)

lemma store_inv_saveLocked [simp]: "store_inv (snd (saveLocked e s)) \<longleftrightarrow> store_inv s"
  by (simp add: store_inv_def)

lemma permissionsLocked_cong:
  "db_Groups (as_db s) = db_Groups (as_db s') \<Longrightarrow> permissionsLocked s u = permissionsLocked s' u"
  by (simp add: permissionsLocked_def)

lemma wouldBeAdmin_cong:
  "db_Groups (as_db s) = db_Groups (as_db s') \<Longrightarrow>
     userWouldBeAdminLocked s u \<longleftrightarrow> userWouldBeAdminLocked s' u"
  using permissionsLocked_cong[of s s' u] by (simp add: userWouldBeAdminLocked_def)

lemma set_user_sel [simp]:
  "db_Groups (as_db (set_user k u s)) = db_Groups (as_db s)"
  "db_Users (as_db (set_user k u s)) = AList.update k u (db_Users (as_db s))"
  "db_Users (as_db (set_group k g s)) = db_Users (as_db s)"
  "db_Groups (as_db (set_group k g s)) = AList.update k g (db_Groups (as_db s))"
  by (simp_all add: set_user_def set_group_def)

lemma store_inv_set_user [inv_intros]:
  "store_inv s \<Longrightarrow> user_ok k u \<Longrightarrow> store_inv (set_user k u s)"
  by (auto simp: store_inv_def set_update_distinct)

lemma store_inv_set_group [inv_intros]:
  "store_inv s \<Longrightarrow> g_Name g = k \<Longrightarrow> ValidateName k = None \<Longrightarrow> store_inv (set_group k g s)"
  by (auto simp: store_inv_def set_update_distinct)

text \<open>
  An administrator is an entry the code would count: enabled, and with effective permissions
  that include administration.
\<close>

definition admins :: "AuthStore \<Rightarrow> string set" where
  "admins s = {k. \<exists>u. map_of (db_Users (as_db s)) k = Some u \<and> userWouldBeAdminLocked s u}"

lemma admins_saveLocked [simp]: "admins (snd (saveLocked e s)) = admins s"
  by (simp add: admins_def userWouldBeAdminLocked_def permissionsLocked_def)

lemma isLastAdmin_False:
  assumes "distinct_keys (db_Users (as_db s))" and "\<not> isLastAdminLocked s k"
    and "map_of (db_Users (as_db s)) k = Some u" and "userWouldBeAdminLocked s u"
  shows "\<exists>k' \<in> admins s. k' \<noteq> k"
proof -
  let ?P = "\<lambda>(k', u'). userWouldBeAdminLocked s u'"
  let ?m = "filter ?P (db_Users (as_db s))"
  have "1 < length ?m"
    using assms by (simp add: isLastAdminLocked_def)
  moreover have "distinct_keys ?m" using assms(1) by (rule distinct_keys_filter)
  ultimately have "1 < card (fst ` set ?m)"
    by (metis distinct_card distinct_keys_def length_map list.set_map)
  then have "\<not> fst ` set ?m \<subseteq> {k}"
    using card_mono[of "{k}" "fst ` set ?m"] by auto
  then obtain x where "x \<in> set ?m" "fst x \<noteq> k" by blast
  then show ?thesis
    using assms(1) by (auto simp: admins_def map_of_in_set)
qed

lemma isLastAdmin_keeps_other:
  assumes "store_inv s" and "\<not> isLastAdminLocked s k" and "admins s \<noteq> {}"
  shows "\<exists>k' \<in> admins s. k' \<noteq> k"
proof (cases "k \<in> admins s")
  case True
  then obtain u where "map_of (db_Users (as_db s)) k = Some u" "userWouldBeAdminLocked s u"
    by (auto simp: admins_def)
  with assms show ?thesis using isLastAdmin_False by (auto simp: store_inv_def)
next
  case False
  with assms(3) show ?thesis by auto
qed

lemma admins_set_user:
  "admins (set_user k u s) =
     (if userWouldBeAdminLocked s u then insert k (admins s) else admins s - {k})"
  by (auto simp: admins_def map_of_update_iff
      wouldBeAdmin_cong[of "set_user k u s" s])

text \<open>What an update of a user can do: nothing, or store one well-formed entry.\<close>

definition stored_by_upsert :: "User \<Rightarrow> AuthStore \<Rightarrow> User \<Rightarrow> bool" where
  "stored_by_upsert u0 s u \<longleftrightarrow>
     user_ok (u_Username u) u \<and> u_Username u = NormalizeName (u_Username u0) \<and>
     u_Groups u = u_Groups u0 \<and> u_Disabled u = u_Disabled u0 \<and>
     u_Permissions u = u_Permissions u0 \<and>
     (isLastAdminLocked s (u_Username u) \<longrightarrow> userWouldBeAdminLocked s u)"

lemma isLastAdmin_known:
  "isLastAdminLocked s k \<Longrightarrow> \<exists>u. map_of (db_Users (as_db s)) k = Some u"
  by (auto simp: isLastAdminLocked_def split: option.splits)

definition upsert_entry :: "User \<Rightarrow> string \<Rightarrow> User" where
  "upsert_entry u0 h =
     (let k = NormalizeName (u_Username u0)
      in u0\<lparr>u_Username := k, u_Home := (if u_Home u0 = [] then ''/'' @ k else u_Home u0),
            u_PasswordHash := h\<rparr>)"

definition upsert_hash ::
  "kdf \<Rightarrow> string option \<Rightarrow> string \<Rightarrow> User option \<Rightarrow> err + string" where
  "upsert_hash kdf r pw old =
     (if pw = [] then Inr (case old of None \<Rightarrow> [] | Some o' \<Rightarrow> u_PasswordHash o')
      else HashPassword kdf r pw)"

lemma UpsertUser_valid:
  assumes "ValidateName (NormalizeName (u_Username u0)) = None"
    and "map_of (db_Users (as_db s)) (NormalizeName (u_Username u0)) = old"
  shows "UpsertUser kdf r e u0 pw s =
    (case upsert_hash kdf r pw old of
       Inl e' \<Rightarrow> (Some e', s)
     | Inr h \<Rightarrow>
         if h = [] then (Some (ErrMsg ''password is required for new user''), s)
         else if (case old of None \<Rightarrow> False
                  | Some o' \<Rightarrow> isLastAdminLocked s (u_Username o') \<and>
                              \<not> userWouldBeAdminLocked s (upsert_entry u0 h))
         then (Some ErrLastAdmin, s)
         else saveLocked e (set_user (NormalizeName (u_Username u0)) (upsert_entry u0 h) s))"
proof (cases "u_Home u0 = []")
  case True
  with assms show ?thesis
    by (cases old; cases "pw = []"; cases "HashPassword kdf r pw")
       (simp_all add: UpsertUser_def Let_def upsert_hash_def upsert_entry_def)
next
  case False
  with assms show ?thesis
    by (cases old; cases "pw = []"; cases "HashPassword kdf r pw")
       (simp_all add: UpsertUser_def Let_def upsert_hash_def upsert_entry_def)
qed

lemma upsert_entry_sel [simp]:
  "u_Username (upsert_entry u0 h) = NormalizeName (u_Username u0)"
  "u_PasswordHash (upsert_entry u0 h) = h"
  "u_Groups (upsert_entry u0 h) = u_Groups u0"
  "u_Disabled (upsert_entry u0 h) = u_Disabled u0"
  "u_Permissions (upsert_entry u0 h) = u_Permissions u0"
  by (simp_all add: upsert_entry_def Let_def)

lemma UpsertUser_effect:
  assumes inv: "store_inv s" and run: "UpsertUser kdf r e u0 pw s = (res, s')"
  shows "(res \<noteq> None \<and> s' = s) \<or>
    (\<exists>u. stored_by_upsert u0 s u \<and> (res, s') = saveLocked e (set_user (u_Username u) u s))"
proof (cases "ValidateName (NormalizeName (u_Username u0))")
  case (Some x)
  with run show ?thesis by (auto simp: UpsertUser_def)
next
  case valid: None
  let ?k = "NormalizeName (u_Username u0)"
  let ?old = "map_of (db_Users (as_db s)) ?k"
  have old: "u_Username o' = ?k" if "?old = Some o'" for o'
    using store_inv_user[OF inv that] by (simp add: user_ok_def)
  show ?thesis
  proof (cases "upsert_hash kdf r pw ?old")
    case (Inl e')
    with run valid show ?thesis by (auto simp: UpsertUser_valid)
  next
    case (Inr h)
    let ?u = "upsert_entry u0 h"
    let ?last = "case ?old of None \<Rightarrow> False
       | Some o' \<Rightarrow> isLastAdminLocked s (u_Username o') \<and> \<not> userWouldBeAdminLocked s ?u"
    show ?thesis
    proof (cases "h = [] \<or> ?last")
      case True
      with run valid Inr show ?thesis
        by (auto simp: UpsertUser_valid split: if_splits)
    next
      case False
      have "userWouldBeAdminLocked s ?u" if last: "isLastAdminLocked s ?k"
      proof -
        obtain o' where o: "?old = Some o'" using isLastAdmin_known[OF last] by blast
        with last False old[OF o] show ?thesis by simp
      qed
      with False valid have "stored_by_upsert u0 s ?u"
        by (simp add: stored_by_upsert_def user_ok_def)
      moreover have "(res, s') = saveLocked e (set_user ?k ?u s)"
        using run valid Inr False by (simp add: UpsertUser_valid)
      ultimately show ?thesis by (intro disjI2 exI[of _ ?u]) simp
    qed
  qed
qed

text \<open>The calls of an administrator, each with the outcomes of the system calls it makes.\<close>

datatype dir_op =
    OpUpsertUser "string option" "err option" User string
  | OpDeleteUser "err option" string
  | OpBootstrap "string option" "string option" "err option" string string

fun dir_step :: "kdf \<Rightarrow> dir_op \<Rightarrow> AuthStore \<Rightarrow> AuthStore" where
  "dir_step kdf (OpUpsertUser r e u pw) s = snd (UpsertUser kdf r e u pw s)"
| "dir_step kdf (OpDeleteUser e n) s = snd (DeleteUser e n s)"
| "dir_step kdf (OpBootstrap rp rs e n pw) s = snd (BootstrapAdmin kdf rp rs e n pw s)"

definition dir_run :: "kdf \<Rightarrow> dir_op list \<Rightarrow> AuthStore \<Rightarrow> AuthStore" where
  "dir_run kdf ops s = fold (dir_step kdf) ops s"

definition delete_user :: "string \<Rightarrow> AuthStore \<Rightarrow> AuthStore" where
  "delete_user k s = s\<lparr>as_db := (as_db s)\<lparr>db_Users := AList.delete k (db_Users (as_db s))\<rparr>\<rparr>"

lemma store_inv_delete_user [inv_intros]: "store_inv s \<Longrightarrow> store_inv (delete_user k s)"
  by (auto simp: store_inv_def delete_user_def set_delete_eq)

lemma admins_delete_user: "admins (delete_user k s) = admins s - {k}"
  by (auto simp: admins_def delete_user_def map_of_delete_iff userWouldBeAdminLocked_def
      permissionsLocked_def)

lemma DeleteUser_effect:
  "DeleteUser e n s = (res, s') \<Longrightarrow>
     (res \<noteq> None \<and> s' = s) \<or>
     (\<not> isLastAdminLocked s (NormalizeName n) \<and>
      (res, s') = saveLocked e (delete_user (NormalizeName n) s))"
  by (auto simp: DeleteUser_def delete_user_def Let_def split: option.splits if_splits)

definition bootstrap_entry :: "string \<Rightarrow> string \<Rightarrow> User" where
  "bootstrap_entry k h =
     \<lparr>u_Username = k, u_PasswordHash = h, u_Groups = [''admins''], u_Home = ''/'',
      u_Disabled = False, u_Permissions = AdminPermissions\<rparr>"

definition bootstrap_group :: Group where
  "bootstrap_group = \<lparr>g_Name = ''admins'', g_Home = ''/'', g_Permissions = AdminPermissions\<rparr>"

lemma BootstrapAdmin_eq:
  assumes "k = (if NormalizeName n = [] then ''admin'' else NormalizeName n)"
    and "p = (if pw = [] then randomBootstrapPassword rp else pw)"
  shows "BootstrapAdmin kdf rp rs e n pw s =
    (if ValidateName k \<noteq> None then (ValidateName k, s)
     else if map_of (db_Users (as_db s)) k \<noteq> None then (None, s)
     else (case HashPassword kdf rs p of
             Inl e' \<Rightarrow> (Some e', s)
           | Inr h \<Rightarrow> saveLocked e
               (set_group ''admins'' bootstrap_group (set_user k (bootstrap_entry k h) s))))"
  unfolding BootstrapAdmin_def Let_def assms(1)[symmetric] assms(2)[symmetric]
    bootstrap_entry_def bootstrap_group_def
  by (simp split: option.split sum.split)

lemma BootstrapAdmin_effect:
  assumes "BootstrapAdmin kdf rp rs e n pw s = (res, s')"
  shows "s' = s \<or> (\<exists>k h. ValidateName k = None \<and> h \<noteq> [] \<and> (res, s') =
    saveLocked e (set_group ''admins'' bootstrap_group (set_user k (bootstrap_entry k h) s)))"
proof -
  define k where "k = (if NormalizeName n = [] then ''admin'' else NormalizeName n)"
  define p where "p = (if pw = [] then randomBootstrapPassword rp else pw)"
  show ?thesis
  proof (cases "HashPassword kdf rs p")
    case (Inl e')
    with assms show ?thesis by (simp add: BootstrapAdmin_eq[OF k_def p_def] split: if_splits)
  next
    case (Inr h)
    show ?thesis
    proof (cases "ValidateName k = None \<and> map_of (db_Users (as_db s)) k = None")
      case True
      with assms Inr have "(res, s') = saveLocked e
          (set_group ''admins'' bootstrap_group (set_user k (bootstrap_entry k h) s))"
        by (simp add: BootstrapAdmin_eq[OF k_def p_def])
      with True HashPassword_not_Nil[OF Inr] show ?thesis by blast
    next
      case False
      with assms have "s' = s" by (auto simp: BootstrapAdmin_eq[OF k_def p_def] split: if_splits)
      then show ?thesis ..
    qed
  qed
qed

lemma admins_set_top_group: "admins s \<subseteq> admins (set_group k bootstrap_group s)"
proof
  fix x assume "x \<in> admins s"
  then obtain u where u: "map_of (db_Users (as_db s)) x = Some u" "\<not> u_Disabled u"
      "p_Admin (permissionsLocked s u)"
    by (auto simp: admins_def userWouldBeAdminLocked_def split: if_splits)
  have "permissionsLocked s u \<le> permissionsLocked (set_group k bootstrap_group s) u"
    by (rule permissionsLocked_mono)
       (auto simp: map_of_update_iff bootstrap_group_def Admin_top)
  with u show "x \<in> admins (set_group k bootstrap_group s)"
    using p_Admin_mono by (auto simp: admins_def userWouldBeAdminLocked_def)
qed

lemma bootstrap_entry_admin: "userWouldBeAdminLocked s (bootstrap_entry k h)"
  using p_Admin_mono[of AdminPermissions "permissionsLocked s (bootstrap_entry k h)"]
    permissionsLocked_le_iff[of s "bootstrap_entry k h"
      "permissionsLocked s (bootstrap_entry k h)"]
  by (simp add: userWouldBeAdminLocked_def bootstrap_entry_def AdminPermissions_def)

lemma valid_admins: "ValidateName ''admins'' = None"
  by code_simp

lemma dir_step_inv:
  assumes inv: "store_inv s"
  shows "store_inv (dir_step kdf op s)"
proof (cases op)
  case (OpUpsertUser r e u pw)
  then show ?thesis
    using UpsertUser_effect[OF inv, of kdf r e u pw] inv
    by (cases "UpsertUser kdf r e u pw s")
       (auto simp: stored_by_upsert_def store_inv_set_user dest: arg_cong[of _ _ snd])
next
  case (OpDeleteUser e n)
  then show ?thesis
    using DeleteUser_effect[of e n s] inv
    by (cases "DeleteUser e n s")
       (auto simp: store_inv_delete_user dest: arg_cong[of _ _ snd])
next
  case (OpBootstrap rp rs e n pw)
  then show ?thesis
    using BootstrapAdmin_effect[of kdf rp rs e n pw s] inv
    by (cases "BootstrapAdmin kdf rp rs e n pw s")
       (auto simp: user_ok_def bootstrap_entry_def bootstrap_group_def valid_admins
          intro!: store_inv_set_user store_inv_set_group dest!: arg_cong[of _ _ snd])
qed

lemma dir_step_admins:
  assumes inv: "store_inv s" and ne: "admins s \<noteq> {}"
  shows "admins (dir_step kdf op s) \<noteq> {}"
proof (cases op)
  case (OpUpsertUser r e u0 pw)
  obtain res s' where run: "UpsertUser kdf r e u0 pw s = (res, s')" by fastforce
  from UpsertUser_effect[OF inv run] show ?thesis
  proof
    assume "\<exists>u. stored_by_upsert u0 s u \<and> (res, s') = saveLocked e (set_user (u_Username u) u s)"
    then obtain u where u: "stored_by_upsert u0 s u"
        "s' = snd (saveLocked e (set_user (u_Username u) u s))" by (metis snd_conv)
    then have "admins s' \<noteq> {}"
      using isLastAdmin_keeps_other[OF inv _ ne, of "u_Username u"]
      by (auto simp: stored_by_upsert_def admins_set_user)
    with OpUpsertUser run show ?thesis by simp
  qed (use OpUpsertUser run ne in simp)
next
  case (OpDeleteUser e n)
  obtain res s' where run: "DeleteUser e n s = (res, s')" by fastforce
  from DeleteUser_effect[OF run] show ?thesis
  proof
    assume d: "\<not> isLastAdminLocked s (NormalizeName n) \<and>
      (res, s') = saveLocked e (delete_user (NormalizeName n) s)"
    then have "s' = snd (saveLocked e (delete_user (NormalizeName n) s))" by (metis snd_conv)
    then have "admins s' = admins s - {NormalizeName n}" by (simp add: admins_delete_user)
    with d have "admins s' \<noteq> {}"
      using isLastAdmin_keeps_other[OF inv _ ne, of "NormalizeName n"] by blast
    with OpDeleteUser run show ?thesis by simp
  qed (use OpDeleteUser run ne in simp)
next
  case (OpBootstrap rp rs e n pw)
  obtain res s' where run: "BootstrapAdmin kdf rp rs e n pw s = (res, s')" by fastforce
  from BootstrapAdmin_effect[OF run] show ?thesis
  proof
    assume "\<exists>k h. ValidateName k = None \<and> h \<noteq> [] \<and> (res, s') =
      saveLocked e (set_group ''admins'' bootstrap_group (set_user k (bootstrap_entry k h) s))"
    then obtain k h where "s' = snd (saveLocked e (set_group ''admins'' bootstrap_group
        (set_user k (bootstrap_entry k h) s)))" by (metis snd_conv)
    then have "admins s' \<noteq> {}"
      using admins_set_top_group[of "set_user k (bootstrap_entry k h) s" "''admins''"]
      by (auto simp: admins_set_user bootstrap_entry_admin)
    with OpBootstrap run show ?thesis by simp
  qed (use OpBootstrap run ne in simp)
qed

text \<open>C20: the last administrator cannot be lost through user accounts. Whatever sequence of
  creations, edits, deletions and bootstraps is carried out, and whichever of their random reads
  and file operations fail, the database stays well formed, and if some enabled account had
  administration rights at the start then one has them at the end.\<close>

theorem last_admin_kept:
  assumes "store_inv s" and "admins s \<noteq> {}"
  shows "store_inv (dir_run kdf ops s) \<and> admins (dir_run kdf ops s) \<noteq> {}"
proof -
  have "store_inv s \<Longrightarrow> admins s \<noteq> {} \<Longrightarrow>
      store_inv (fold (dir_step kdf) ops s) \<and> admins (fold (dir_step kdf) ops s) \<noteq> {}" for s
  proof (induction ops arbitrary: s)
    case (Cons op ops)
    show ?case
      using Cons.IH[OF dir_step_inv[OF Cons.prems(1)] dir_step_admins[OF Cons.prems]] by simp
  qed simp
  then show ?thesis using assms by (simp add: dir_run_def)
qed

definition sample_store :: AuthStore where
  "sample_store =
     \<lparr>as_db = \<lparr>db_Users = [(''root'', bootstrap_entry ''root'' ''h'')],
               db_Groups = [(''admins'', bootstrap_group)]\<rparr>, as_disk = None\<rparr>"

lemma sample_store_inv: "store_inv sample_store"
proof -
  have "ValidateName ''root'' = None" by code_simp
  then show ?thesis
    by (simp add: store_inv_def sample_store_def distinct_keys_def user_ok_def
        bootstrap_entry_def bootstrap_group_def valid_admins)
qed

lemma sample_store_admin: "''root'' \<in> admins sample_store"
  using bootstrap_entry_admin[of sample_store "''root''" "''h''"]
  by (simp add: admins_def sample_store_def)

theorem last_admin_kept_witness:
  "admins (dir_run toy_kdf [OpDeleteUser None ''root''] sample_store) \<noteq> {}"
  using last_admin_kept[OF sample_store_inv, of toy_kdf "[OpDeleteUser None ''root'']"]
    sample_store_admin by blast

text \<open>C21: a stored password is the one that logs in. After a successful create or edit with
  a password, a login under any spelling of the name that normalises to the same key succeeds
  for a candidate password exactly when the account is enabled and the candidate derives the
  stored key, and it returns the effective permissions the account then has. A hash supplied by
  the caller is never stored.\<close>

theorem upsert_then_login:
  assumes ok: "UpsertUser kdf (Some salt) e u0 pw s = (None, s')" and pw: "pw \<noteq> []"
    and inv: "store_inv s"
    and len: "length (kdf pw salt hashIterations hashKeyBytes) = hashKeyBytes"
    and name: "NormalizeName n = NormalizeName (u_Username u0)"
  shows "(Authenticate kdf s' n candidate \<noteq> None \<longleftrightarrow> \<not> u_Disabled u0 \<and>
      kdf candidate salt hashIterations hashKeyBytes = kdf pw salt hashIterations hashKeyBytes) \<and>
    (\<forall>u ps. Authenticate kdf s' n candidate = Some (u, ps) \<longrightarrow>
      u_Username u = NormalizeName n \<and> u_Permissions u = u_Permissions u0 \<and>
      ps = permissionsLocked s' u \<and> HashPassword kdf (Some salt) pw = Inr (u_PasswordHash u))"
proof -
  have valid: "ValidateName (NormalizeName (u_Username u0)) = None"
    using ok by (auto simp: UpsertUser_def Let_def split: option.splits)
  obtain h where h: "HashPassword kdf (Some salt) pw = Inr h"
    by (simp add: HashPassword_def Let_def)
  let ?u = "upsert_entry u0 h"
  have s': "s' = snd (saveLocked e (set_user (NormalizeName n) ?u s))"
    using ok pw h
    by (auto simp: UpsertUser_valid[OF valid refl] upsert_hash_def name
        split: if_splits dest: arg_cong[of _ _ snd])
  then have look: "map_of (db_Users (as_db s')) (NormalizeName n) = Some ?u"
    by (simp add: map_of_update_iff)
  have "VerifyPassword kdf h candidate \<longleftrightarrow>
      kdf candidate salt hashIterations hashKeyBytes = kdf pw salt hashIterations hashKeyBytes"
    using Verify_encoded[of hashIterations kdf salt "kdf pw salt hashIterations hashKeyBytes"
        candidate] h len
    by (auto simp: HashPassword_def Let_def hashIterations_def)
  with look h HashPassword_not_Nil[OF h] show ?thesis
    by (auto simp: Authenticate_def name)
qed

theorem upsert_then_login_witness:
  "\<exists>s'. UpsertUser toy_kdf (Some ''salt'') None
      ((bootstrap_entry ''Root'' ''supplied'')\<lparr>u_Groups := []\<rparr>) ''pw'' sample_store = (None, s') \<and>
    Authenticate toy_kdf s' ''ROOT'' ''pw'' \<noteq> None \<and> Authenticate toy_kdf s' ''root'' ''no'' = None"
proof -
  let ?u0 = "(bootstrap_entry ''Root'' ''supplied'')\<lparr>u_Groups := []\<rparr>"
  have n: "NormalizeName ''Root'' = ''root''" "NormalizeName ''ROOT'' = ''root''"
      "NormalizeName ''root'' = ''root''" "ValidateName ''root'' = None" by code_simp+
  have u: "u_Username ?u0 = ''Root''" "u_Disabled ?u0 = False" by (simp_all add: bootstrap_entry_def)
  obtain h where h: "HashPassword toy_kdf (Some ''salt'') ''pw'' = Inr h"
    by (simp add: HashPassword_def Let_def)
  have adm: "userWouldBeAdminLocked sample_store (upsert_entry ?u0 h)"
    by (simp add: userWouldBeAdminLocked_def permissionsLocked_def bootstrap_entry_def
        AdminPermissions_def)
  obtain s' where ok: "UpsertUser toy_kdf (Some ''salt'') None ?u0 ''pw'' sample_store = (None, s')"
    using h adm n u HashPassword_not_Nil[OF h]
    by (simp add: UpsertUser_valid[OF _ refl] upsert_hash_def saveLocked_def sample_store_def)
  have l: "length (toy_kdf ''pw'' ''salt'' hashIterations hashKeyBytes) = hashKeyBytes"
    by (simp add: toy_kdf_def)
  have "toy_kdf ''no'' ''salt'' hashIterations hashKeyBytes \<noteq>
      toy_kdf ''pw'' ''salt'' hashIterations hashKeyBytes"
    by (simp add: toy_kdf_def hashKeyBytes_def)
  with upsert_then_login[OF ok _ sample_store_inv l, of "''root''" "''no''"] n u
  have "Authenticate toy_kdf s' ''root'' ''no'' = None"
    by (cases "Authenticate toy_kdf s' ''root'' ''no''") auto
  moreover have "Authenticate toy_kdf s' ''ROOT'' ''pw'' \<noteq> None"
    using upsert_then_login[OF ok _ sample_store_inv l, of "''ROOT''" "''pw''"] n u by simp
  ultimately show ?thesis using ok by blast
qed

text \<open>C34: effective permissions are the least set above the account's own permissions and
  those of each of its groups that exists; so they grow when a group is added, and a name that
  is not a group adds nothing.\<close>

theorem effective_permissions_join:
  "(permissionsLocked s u \<le> q \<longleftrightarrow> u_Permissions u \<le> q \<and>
     (\<forall>n \<in> set (u_Groups u). \<forall>g.
        map_of (db_Groups (as_db s)) (NormalizeName n) = Some g \<longrightarrow> g_Permissions g \<le> q)) \<and>
   permissionsLocked s u \<le> permissionsLocked s (u\<lparr>u_Groups := n' # u_Groups u\<rparr>)"
proof
  show "permissionsLocked s u \<le> permissionsLocked s (u\<lparr>u_Groups := n' # u_Groups u\<rparr>)"
    using permissionsLocked_le_iff[of s "u\<lparr>u_Groups := n' # u_Groups u\<rparr>"
        "permissionsLocked s (u\<lparr>u_Groups := n' # u_Groups u\<rparr>)"]
    by (subst permissionsLocked_le_iff) auto
qed (rule permissionsLocked_le_iff)

theorem effective_permissions_join_witness:
  "p_Admin (permissionsLocked sample_store
     \<lparr>u_Username = ''u'', u_PasswordHash = ''h'', u_Groups = ['' Admins''], u_Home = ''/u'',
      u_Disabled = False, u_Permissions = no_permissions\<rparr>)"
    (is "p_Admin (permissionsLocked _ ?u)")
proof -
  have "NormalizeName '' Admins'' = ''admins''" by code_simp
  then have "AdminPermissions \<le> permissionsLocked sample_store ?u"
    using effective_permissions_join[of sample_store ?u "permissionsLocked sample_store ?u"]
    by (simp add: sample_store_def bootstrap_group_def)
  then show ?thesis using p_Admin_mono by (auto simp: AdminPermissions_def)
qed

text \<open>
  Groups have no such guard: replacing a group can leave the directory without administrators.
\<close>

lemma group_edit_can_lose_admins:
  "\<exists>s g s'. store_inv s \<and> admins s \<noteq> {} \<and> UpsertGroup None g s = (None, s') \<and> admins s' = {}"
proof -
  let ?u = "(bootstrap_entry ''root'' ''h'')\<lparr>u_Permissions := no_permissions\<rparr>"
  let ?s = "set_user ''root'' ?u sample_store"
  let ?g = "bootstrap_group\<lparr>g_Permissions := no_permissions\<rparr>"
  have v: "ValidateName ''root'' = None" "NormalizeName ''admins'' = ''admins''" by code_simp+
  have "store_inv ?s"
    by (rule store_inv_set_user[OF sample_store_inv])
       (simp add: user_ok_def bootstrap_entry_def v)
  moreover have "userWouldBeAdminLocked ?s ?u"
    by (simp add: userWouldBeAdminLocked_def permissionsLocked_def bootstrap_entry_def v
        sample_store_def bootstrap_group_def Merge_def AdminPermissions_def)
  then have "admins ?s \<noteq> {}" by (auto simp: admins_def map_of_update_iff)
  moreover have "UpsertGroup None ?g ?s = (None, (set_group ''admins'' ?g ?s)\<lparr>as_disk :=
      Some (as_db (set_group ''admins'' ?g ?s))\<rparr>)"
    by (simp add: UpsertGroup_def bootstrap_group_def v valid_admins saveLocked_def Let_def)
  moreover have "admins ((set_group ''admins'' ?g ?s)\<lparr>as_disk :=
      Some (as_db (set_group ''admins'' ?g ?s))\<rparr>) = {}"
    by (auto simp: admins_def map_of_update_iff sample_store_def userWouldBeAdminLocked_def
        permissionsLocked_def bootstrap_entry_def v Merge_def no_permissions_def
        split: if_splits)
  ultimately show ?thesis by blast
qed

subsection \<open>Calls of the store\<close>

definition auth_call :: "kdf \<Rightarrow> AuthStore \<Rightarrow> AuthStore \<Rightarrow> bool" where
  "auth_call kdf s s' \<longleftrightarrow>
     (\<exists>random e u pw. s' = snd (UpsertUser kdf random e u pw s)) \<or> (\<exists>e n. s' = snd (DeleteUser e n s)) \<or>
     (\<exists>e g. s' = snd (UpsertGroup e g s))"

lemma auth_calls:
  "auth_call kdf s (snd (UpsertUser kdf r e u pw s))" "auth_call kdf s (snd (DeleteUser e n s))"
  "auth_call kdf s (snd (UpsertGroup e g s))"
  unfolding auth_call_def by blast+

lemma UpsertGroup_inv: "store_inv s \<Longrightarrow> store_inv (snd (UpsertGroup e g s))"
  by (auto simp: UpsertGroup_def Let_def valid_normal simp flip: set_group_def split: option.split intro!: store_inv_set_group)

lemma auth_calls_inv: "(auth_call kdf)\<^sup>*\<^sup>* s s' \<Longrightarrow> store_inv s \<Longrightarrow> store_inv s'"
proof (induction rule: rtranclp_induct)
  case (step t u)
  then show ?case
    using dir_step_inv[of t kdf "OpUpsertUser _ _ _ _"] dir_step_inv[of t kdf "OpDeleteUser _ _"] UpsertGroup_inv[of t]
    by (auto simp: auth_call_def)
qed

end
