(* ===== verification/GoPath.thy ===== *)
theory GoPath
  imports GoStrings
begin

text \<open>
  The part of Go's packages \<open>path\<close> and \<open>path/filepath\<close> (on a Unix system, where they agree) that
  the code uses: \<open>Clean\<close>, \<open>Join\<close>, \<open>Base\<close>, \<open>Dir\<close>, \<open>Ext\<close>, \<open>Rel\<close> and \<open>Match\<close>. A clean rooted path is the
  list of its segments, so the lemmas relate each function to an operation on segments.
\<close>

abbreviation slash :: char where "slash \<equiv> CHR ''/''"

subsection \<open>\<open>Clean\<close>\<close>

text \<open>\<open>out\<close> is the stack of segments written so far, the last one first.\<close>

fun clean_stack :: "bool \<Rightarrow> string list \<Rightarrow> string list \<Rightarrow> string list" where
  "clean_stack rooted out [] = rev out"
| "clean_stack rooted out (x # xs) =
     (if x = [] \<or> x = ''.'' then clean_stack rooted out xs
      else if x = ''..'' then
        (case out of
           [] \<Rightarrow> clean_stack rooted (if rooted then [] else [''..'']) xs
         | y # ys \<Rightarrow> if y = ''..'' then clean_stack rooted (''..'' # out) xs
                     else clean_stack rooted ys xs)
      else clean_stack rooted (x # out) xs)"

definition abs_path :: "string list \<Rightarrow> string" where
  "abs_path segs = slash # Join segs [slash]"

definition Clean :: "string \<Rightarrow> string" where
  "Clean p =
     (if p = [] then ''.''
      else if hd p = slash then abs_path (clean_stack True [] (Split p slash))
      else (let segs = clean_stack False [] (Split p slash)
            in if segs = [] then ''.'' else Join segs [slash]))"

definition Join_paths :: "string list \<Rightarrow> string" where
  "Join_paths elems =
     (case dropWhile (\<lambda>e. e = []) elems of
        [] \<Rightarrow> []
      | es \<Rightarrow> Clean (Join es [slash]))"

definition Base_name :: "string \<Rightarrow> string" where
  "Base_name p =
     (if p = [] then ''.''
      else let t = TrimRight p [slash]
           in if t = [] then [slash] else last (Split t slash))"

text \<open>\<open>Dir\<close> cleans what precedes the last separator, the separator included.\<close>

definition upto_last_slash :: "string \<Rightarrow> string" where
  "upto_last_slash p = rev (dropWhile (\<lambda>c. c \<noteq> slash) (rev p))"

definition Dir_name :: "string \<Rightarrow> string" where
  "Dir_name p = Clean (upto_last_slash p)"

definition Ext :: "string \<Rightarrow> string" where
  "Ext p =
     (let l = last (Split p slash)
      in if CHR ''.'' \<in> set l
         then CHR ''.'' # rev (takeWhile (\<lambda>c. c \<noteq> CHR ''.'') (rev l)) else [])"

text \<open>\<open>Rel\<close> compares the elements of the two clean paths.\<close>

fun strip_common :: "'a list \<Rightarrow> 'a list \<Rightarrow> 'a list \<times> 'a list" where
  "strip_common (x # xs) (y # ys) = (if x = y then strip_common xs ys else (x # xs, y # ys))"
| "strip_common xs ys = (xs, ys)"

definition path_elems :: "string \<Rightarrow> string list" where
  "path_elems p = filter (\<lambda>x. x \<noteq> []) (Split p slash)"

definition Rel :: "string \<Rightarrow> string \<Rightarrow> string option" where
  "Rel basepath targpath =
     (let b = Clean basepath; t = Clean targpath
      in if t = b then Some ''.''
         else let b' = (if b = ''.'' then [] else b)
              in if HasPrefix b' [slash] \<noteq> HasPrefix t [slash] then None
                 else (case strip_common (path_elems b') (path_elems t) of
                    (bs, ts) \<Rightarrow>
                      if bs \<noteq> [] \<and> hd bs = ''..'' then None
                      else Some (Join (replicate (length bs) ''..'' @ ts) [slash])))"

subsection \<open>Segments\<close>

text \<open>A segment of a clean rooted path.\<close>

definition seg :: "string \<Rightarrow> bool" where
  "seg x \<longleftrightarrow> x \<noteq> [] \<and> x \<noteq> ''.'' \<and> x \<noteq> ''..'' \<and> slash \<notin> set x"

definition segs :: "string list \<Rightarrow> bool" where
  "segs xs \<longleftrightarrow> list_all seg xs"

lemma segs_Nil [simp]: "segs []"
  by (simp add: segs_def)

lemma segs_Cons [simp]: "segs (x # xs) \<longleftrightarrow> seg x \<and> segs xs"
  by (simp add: segs_def)

lemma segs_append [simp]: "segs (xs @ ys) \<longleftrightarrow> segs xs \<and> segs ys"
  by (simp add: segs_def)

lemma segs_rev [simp]: "segs (rev xs) \<longleftrightarrow> segs xs"
  by (simp add: segs_def list_all_iff)

lemma seg_D: "seg x \<Longrightarrow> x \<noteq> []" "seg x \<Longrightarrow> slash \<notin> set x"
  by (simp_all add: seg_def)

lemma clean_stack_segs:
  "segs out \<Longrightarrow> \<forall>x \<in> set xs. slash \<notin> set x \<Longrightarrow> segs (clean_stack True out xs)"
  by (induction "True" out xs rule: clean_stack.induct)
     (auto simp: seg_def split: list.splits)

lemma clean_stack_append:
  "segs xs \<Longrightarrow> clean_stack r out (xs @ ys) = clean_stack r (rev xs @ out) ys"
  by (induction xs arbitrary: out) (auto simp: seg_def)

lemma clean_stack_seg_list: "segs xs \<Longrightarrow> clean_stack r [] xs = xs"
  using clean_stack_append[of xs r "[]" "[]"] by simp

lemma Split_abs_path:
  assumes "segs xs"
  shows "Split (abs_path xs) slash = [] # (if xs = [] then [[]] else xs)"
proof (cases "xs = []")
  case False
  then have "Split (Join xs [slash]) slash = xs"
    using assms by (intro Split_Join) (auto simp: segs_def list_all_iff seg_D)
  with False show ?thesis by (simp add: abs_path_def)
qed (simp add: abs_path_def)

lemma Clean_abs_path [simp]: "segs xs \<Longrightarrow> Clean (abs_path xs) = abs_path xs"
  by (simp add: Clean_def Split_abs_path clean_stack_seg_list) (simp add: abs_path_def)

lemma Clean_rooted:
  "\<exists>xs. segs xs \<and> Clean (slash # p) = abs_path xs"
  using clean_stack_segs[of "[]" "Split (slash # p) slash"] Split_no_sep
  by (auto simp: Clean_def)

lemma abs_path_inj: "segs xs \<Longrightarrow> segs ys \<Longrightarrow> abs_path xs = abs_path ys \<longleftrightarrow> xs = ys"
proof
  assume a: "segs xs" "segs ys" and "abs_path xs = abs_path ys"
  then have "Split (abs_path xs) slash = Split (abs_path ys) slash" by simp
  then show "xs = ys"
    using a by (auto simp: Split_abs_path seg_def split: if_splits)
qed simp

lemma abs_path_Nil [simp]: "abs_path [] = [slash]"
  by (simp add: abs_path_def)

lemma abs_path_hd [simp]: "abs_path xs \<noteq> []" "hd (abs_path xs) = slash"
  by (simp_all add: abs_path_def)

lemma Join_append:
  "xs \<noteq> [] \<Longrightarrow> ys \<noteq> [] \<Longrightarrow> Join (xs @ ys) s = Join xs s @ s @ Join ys s"
  by (induction xs rule: list_nonempty_induct) (auto simp: Join_Cons)

lemma abs_path_append:
  "xs \<noteq> [] \<Longrightarrow> ys \<noteq> [] \<Longrightarrow> abs_path (xs @ ys) = abs_path xs @ slash # Join ys [slash]"
  by (simp add: abs_path_def Join_append)

text \<open>The string test for being below a directory is the prefix order on segments.\<close>

lemma below_iff:
  assumes "segs xs" and "segs ys" and "xs \<noteq> []"
  shows "HasPrefix (abs_path ys) (abs_path xs @ [slash]) \<longleftrightarrow> strict_prefix xs ys"
proof
  assume "strict_prefix xs ys"
  then obtain zs where "ys = xs @ zs" "zs \<noteq> []" by (auto simp: strict_prefix_def prefix_def)
  with assms show "HasPrefix (abs_path ys) (abs_path xs @ [slash])"
    using HasPrefix_append[of "abs_path xs @ [slash]"] by (simp add: abs_path_append)
next
  assume "HasPrefix (abs_path ys) (abs_path xs @ [slash])"
  then obtain t where t: "abs_path ys = abs_path xs @ slash # t"
    by (auto simp: HasPrefix_iff prefix_def)
  define zs where "zs = Split t slash"
  have z: "zs \<noteq> []" "\<forall>z \<in> set zs. slash \<notin> set z" "t = Join zs [slash]"
    using Split_no_sep[of _ t slash] by (auto simp: zs_def Join_Split)
  then have "abs_path ys = abs_path (xs @ zs)"
    using t assms(3) by (simp add: abs_path_append)
  moreover have "Split (abs_path (xs @ zs)) slash = [] # xs @ zs"
    unfolding abs_path_def
    using assms z(2) by (simp add: Split_Join segs_def list_all_iff ball_Un seg_D)
  moreover have "Split (abs_path ys) slash = [] # (if ys = [] then [[]] else ys)"
    using assms by (simp add: Split_abs_path)
  ultimately have "ys = xs @ zs"
    using assms(1,3) by (cases xs) (auto simp: seg_def split: if_splits)
  with z show "strict_prefix xs ys" by (simp add: strict_prefix_def prefix_def)
qed

lemma Clean_abs_segs:
  "hd p = slash \<Longrightarrow> p \<noteq> [] \<Longrightarrow> Clean p = abs_path (clean_stack True [] (Split p slash))"
  by (simp add: Clean_def)

lemma Split_append_slash: "Split (a @ slash # s) slash = Split a slash @ Split s slash"
proof (induction a)
  case (Cons x a)
  then show ?case by (auto split: list.splits simp: Cons_eq_append_conv)
qed simp

lemma Split_Join_slash:
  "Split (Join (a # es) [slash]) slash = concat (map (\<lambda>e. Split e slash) (a # es))"
  by (induction es arbitrary: a) (simp_all add: Split_append_slash)

lemma Join_paths_base:
  assumes "segs xs"
  shows "Join_paths (abs_path xs # es) =
    abs_path (clean_stack True (rev xs) (concat (map (\<lambda>e. Split e slash) es)))"
proof -
  have "hd (Join (abs_path xs # es) [slash]) = slash \<and> Join (abs_path xs # es) [slash] \<noteq> []"
    by (cases es) simp_all
  then have "Join_paths (abs_path xs # es) =
      abs_path (clean_stack True [] (concat (map (\<lambda>e. Split e slash) (abs_path xs # es))))"
    by (simp add: Join_paths_def Clean_abs_segs Split_Join_slash)
  then show ?thesis
    using assms by (simp add: Split_abs_path clean_stack_append)
qed

text \<open>Joining a clean path with plain relative ones appends their segments.\<close>

lemma Split_segs:
  "segs zs \<Longrightarrow> Split (Join zs [slash]) slash = (if zs = [] then [[]] else zs)"
  by (auto simp: segs_def list_all_iff seg_D intro: Split_Join)

lemma Join_paths_segs:
  assumes "segs xs" and "\<forall>zs \<in> set zss. segs zs"
  shows "Join_paths (abs_path xs # map (\<lambda>zs. Join zs [slash]) zss) = abs_path (xs @ concat zss)"
proof -
  have "clean_stack True (rev ys) (concat (map (\<lambda>e. Split e slash) (map (\<lambda>zs. Join zs [slash]) zss)))
      = ys @ concat zss" for ys
    using assms(2)
    by (induction zss arbitrary: ys) (auto simp: Split_segs clean_stack_append simp flip: rev_append)
  with assms(1) show ?thesis by (simp add: Join_paths_base)
qed

lemma Join_paths_seg: "segs xs \<Longrightarrow> seg x \<Longrightarrow> Join_paths [abs_path xs, x] = abs_path (xs @ [x])"
  using Join_paths_segs[of xs "[[x]]"] by simp

lemma TrimPrefix_slash [simp]: "TrimPrefix (abs_path xs) [slash] = Join xs [slash]"
  by (simp add: abs_path_def TrimPrefix_def)

lemma abs_path_slash_iff [simp]: "segs xs \<Longrightarrow> abs_path xs = [slash] \<longleftrightarrow> xs = []"
  using abs_path_inj[of xs "[]"] by simp

lemma path_elems_abs [simp]: "segs xs \<Longrightarrow> path_elems (abs_path xs) = xs"
  by (auto simp: path_elems_def Split_abs_path segs_def list_all_iff seg_D filter_id_conv)

lemma path_elems_Join: "segs xs \<Longrightarrow> path_elems (Join xs [slash]) = xs"
  by (auto simp: path_elems_def Split_segs segs_def list_all_iff seg_D filter_id_conv)

lemma Join_segs_Nil: "segs xs \<Longrightarrow> Join xs [slash] = [] \<longleftrightarrow> xs = []"
  by (cases xs; cases "tl xs") (auto simp: Join_Cons seg_D)

lemma strip_common_append: "strip_common bs (bs @ xs) = ([], xs)"
  by (induction bs) simp_all

lemma Rel_below:
  assumes "segs bs" and "segs xs"
  shows "Rel (abs_path bs) (abs_path (bs @ xs)) = Some (if xs = [] then ''.'' else Join xs [slash])"
proof -
  have "abs_path bs \<noteq> ''.''" by (simp add: abs_path_def)
  moreover have "HasPrefix (abs_path ys) [slash]" for ys by (simp add: abs_path_def)
  moreover have "abs_path (bs @ xs) = abs_path bs \<longleftrightarrow> xs = []"
    using assms abs_path_inj[of "bs @ xs" bs] by simp
  ultimately show ?thesis
    using assms by (simp add: Rel_def strip_common_append)
qed

end
