(* ===== verification/ShareStore.thy ===== *)
theory ShareStore
  imports AuthStore GoPath GoSha256 "HOL-Library.Multiset"
begin

text \<open>
  Share and drop links: \<open>internal/share/share.go\<close>.

  The links are held in memory and written out after every change; \<open>ss_disk\<close> is the list the
  file decodes to. The outcome of writing it, the clock and the random bytes are arguments. Every
  method holds the store's lock while it works, so an execution is a sequence of method calls;
  a download is the pair of calls \<open>ReserveDownload\<close> and \<open>FinishDownload\<close>, between which others
  may come.
\<close>

datatype Kind = KindDownload | KindUpload | OtherKind string

record Link =
  lk_ID :: string
  lk_Kind :: Kind
  lk_Path :: string
  lk_URLPath :: string
  lk_Label :: string
  lk_CreatedBy :: string
  lk_CreatedAt :: time
  lk_ExpiresAt :: time
  lk_MaxDownloads :: int
  lk_DownloadCount :: int
  lk_LastDownloadAt :: time
  lk_TokenHash :: string
  lk_PasswordHash :: string
  lk_AllowOverwrite :: bool
  lk_Disabled :: bool

record PublicLink =
  pl_ID :: string
  pl_Kind :: Kind
  pl_Path :: string
  pl_URLPath :: string
  pl_Label :: string
  pl_CreatedBy :: string
  pl_CreatedAt :: time
  pl_ExpiresAt :: "time option"
  pl_MaxDownloads :: int
  pl_DownloadCount :: int
  pl_LastDownloadAt :: "time option"
  pl_HasPassword :: bool
  pl_AllowOverwrite :: bool
  pl_Disabled :: bool

record CreateRequest =
  cr_Kind :: Kind
  cr_Path :: string
  cr_Label :: string
  cr_CreatedBy :: string
  cr_ExpiresAt :: time
  cr_MaxDownloads :: int
  cr_Password :: string
  cr_AllowOverwrite :: bool

record ShareStore =
  ss_links :: "(string \<times> Link) list"
  ss_active :: "string \<rightharpoonup> int"
  ss_disk :: "Link list option"

subsection \<open>Helpers\<close>

definition hashToken :: "string \<Rightarrow> string" where
  "hashToken token = b64_encode url_alphabet (Sum256 token)"

definition randomToken :: "string option \<Rightarrow> err + string" where
  "randomToken raw = (case raw of None \<Rightarrow> Inl ErrIO | Some bs \<Rightarrow> Inr (b64_encode url_alphabet bs))"

definition share_cleanVirtual :: "string \<Rightarrow> string" where
  "share_cleanVirtual p0 =
     (let p = TrimSpace (replace_char (CHR 0x5C) slash p0)
      in if p = [] then [slash] else Clean (slash # TrimPrefix p [slash]))"

definition available :: "time \<Rightarrow> Link \<Rightarrow> int \<Rightarrow> err option" where
  "available now link activeDownloads =
     (if lk_Disabled link then Some ErrDisabled
      else if \<not> is_zero_time (lk_ExpiresAt link) \<and> time_after now (lk_ExpiresAt link)
      then Some ErrExpired
      else if lk_MaxDownloads link > 0 \<and>
              wrap_i64 (lk_DownloadCount link + activeDownloads) \<ge> lk_MaxDownloads link
      then Some ErrExpired
      else None)"

definition validate :: "kdf \<Rightarrow> time \<Rightarrow> Link \<Rightarrow> string \<Rightarrow> string \<Rightarrow> bool \<Rightarrow> err option" where
  "validate kdf now link token password passwordAlreadyVerified =
     (case available now link 0 of
        Some e \<Rightarrow> Some e
      | None \<Rightarrow>
          if hashToken token \<noteq> lk_TokenHash link then Some ErrDenied
          else if lk_PasswordHash link \<noteq> [] \<and> \<not> passwordAlreadyVerified \<and>
                  \<not> VerifyPassword kdf (lk_PasswordHash link) password
          then Some ErrDenied
          else None)"

definition public_link :: "Link \<Rightarrow> PublicLink" where
  "public_link link =
     \<lparr>pl_ID = lk_ID link, pl_Kind = lk_Kind link, pl_Path = lk_Path link,
      pl_URLPath = lk_URLPath link, pl_Label = lk_Label link, pl_CreatedBy = lk_CreatedBy link,
      pl_CreatedAt = lk_CreatedAt link,
      pl_ExpiresAt = (if is_zero_time (lk_ExpiresAt link) then None else Some (lk_ExpiresAt link)),
      pl_MaxDownloads = lk_MaxDownloads link, pl_DownloadCount = lk_DownloadCount link,
      pl_LastDownloadAt =
        (if is_zero_time (lk_LastDownloadAt link) then None else Some (lk_LastDownloadAt link)),
      pl_HasPassword = (lk_PasswordHash link \<noteq> []), pl_AllowOverwrite = lk_AllowOverwrite link,
      pl_Disabled = lk_Disabled link\<rparr>"

definition save_links :: "err option \<Rightarrow> ShareStore \<Rightarrow> err option \<times> ShareStore" where
  "save_links save_error s =
     (case save_error of
        Some e \<Rightarrow> (Some e, s)
      | None \<Rightarrow> (None, s\<lparr>ss_disk := Some (sort_key lk_CreatedAt (map snd (ss_links s)))\<rparr>))"

definition put_link :: "string \<Rightarrow> Link \<Rightarrow> ShareStore \<Rightarrow> ShareStore" where
  "put_link lid link s = s\<lparr>ss_links := AList.update lid link (ss_links s)\<rparr>"

definition get_link :: "ShareStore \<Rightarrow> string \<Rightarrow> Link option" where
  "get_link s lid = map_of (ss_links s) lid"

definition active_downloads :: "ShareStore \<Rightarrow> string \<Rightarrow> int" where
  "active_downloads s lid = (case ss_active s lid of None \<Rightarrow> 0 | Some n \<Rightarrow> n)"

subsection \<open>Methods\<close>

definition load_links ::
  "(err + Link list) option \<Rightarrow> err option \<Rightarrow> ShareStore \<Rightarrow> err option \<times> ShareStore" where
  "load_links content save_error s =
     (case content of
        None \<Rightarrow> save_links save_error s
      | Some (Inl e) \<Rightarrow> (Some e, s)
      | Some (Inr links) \<Rightarrow>
          (None, s\<lparr>ss_links :=
             fold (\<lambda>link m. if lk_ID link \<noteq> [] then AList.update (lk_ID link) link m else m) links []\<rparr>))"

definition Open_links :: "(err + Link list) option \<Rightarrow> err option \<Rightarrow> err + ShareStore" where
  "Open_links content save_error =
     (case load_links content save_error
             \<lparr>ss_links = [], ss_active = Map.empty,
              ss_disk = (case content of Some (Inr ls) \<Rightarrow> Some ls | _ \<Rightarrow> None)\<rparr> of
        (Some e, s) \<Rightarrow> Inl e
      | (None, s) \<Rightarrow> Inr s)"

text \<open>
  The loop that draws an unused identifier; the draws are those the system's random source would
  give. \<open>None\<close> is a loop that has not ended within them.
\<close>

fun unused_id :: "ShareStore \<Rightarrow> string \<Rightarrow> string option list \<Rightarrow> (err + string) option" where
  "unused_id s lid draws =
     (if get_link s lid = None then Some (Inr lid)
      else case draws of
             [] \<Rightarrow> None
           | d # ds \<Rightarrow> (case randomToken d of
                         Inl e \<Rightarrow> Some (Inl e)
                       | Inr lid' \<Rightarrow> unused_id s lid' ds))"

declare unused_id.simps [simp del]

record CreateInputs =
  ci_id :: "string option"
  ci_token :: "string option"
  ci_salt :: "string option"
  ci_draws :: "string option list"
  ci_now :: time
  ci_save :: "err option"

definition new_link :: "CreateRequest \<Rightarrow> string \<Rightarrow> string \<Rightarrow> string \<Rightarrow> time \<Rightarrow> Link" where
  "new_link req lid token password_hash now =
     \<lparr>lk_ID = lid, lk_Kind = cr_Kind req, lk_Path = share_cleanVirtual (cr_Path req),
      lk_URLPath = (if cr_Kind req = KindUpload then ''/d/'' else ''/s/'') @ lid @ ''/'' @ token,
      lk_Label = TrimSpace (cr_Label req), lk_CreatedBy = cr_CreatedBy req, lk_CreatedAt = now,
      lk_ExpiresAt = cr_ExpiresAt req, lk_MaxDownloads = cr_MaxDownloads req,
      lk_DownloadCount = 0, lk_LastDownloadAt = 0, lk_TokenHash = hashToken token,
      lk_PasswordHash = password_hash, lk_AllowOverwrite = cr_AllowOverwrite req,
      lk_Disabled = False\<rparr>"

definition Create ::
  "kdf \<Rightarrow> CreateInputs \<Rightarrow> CreateRequest \<Rightarrow> ShareStore
     \<Rightarrow> ((err + PublicLink \<times> string) \<times> ShareStore) option" where
  "Create kdf inp req s =
     (if cr_Kind req \<noteq> KindDownload \<and> cr_Kind req \<noteq> KindUpload
      then Some (Inl (ErrMsg ''bad link kind''), s)
      else case randomToken (ci_id inp) of
        Inl e \<Rightarrow> Some (Inl e, s)
      | Inr id0 \<Rightarrow> (case randomToken (ci_token inp) of
        Inl e \<Rightarrow> Some (Inl e, s)
      | Inr token \<Rightarrow> (case (if cr_Password req = [] then Inr []
                          else HashPassword kdf (ci_salt inp) (cr_Password req)) of
        Inl e \<Rightarrow> Some (Inl e, s)
      | Inr password_hash \<Rightarrow> (case unused_id s id0 (ci_draws inp) of
        None \<Rightarrow> None
      | Some (Inl e) \<Rightarrow> Some (Inl e, s)
      | Some (Inr lid) \<Rightarrow>
          (let link = new_link req lid token password_hash (ci_now inp)
           in case save_links (ci_save inp) (put_link lid link s) of
                (Some e, s') \<Rightarrow> Some (Inl e, s')
              | (None, s') \<Rightarrow> Some (Inr (public_link link, token), s'))))))"

definition SetURLPath :: "err option \<Rightarrow> string \<Rightarrow> string \<Rightarrow> ShareStore \<Rightarrow> err option \<times> ShareStore" where
  "SetURLPath save_error lid urlPath s =
     (case get_link s lid of
        None \<Rightarrow> (Some ErrNotFound, s)
      | Some link \<Rightarrow> save_links save_error (put_link lid (link\<lparr>lk_URLPath := urlPath\<rparr>) s))"

definition List_links :: "ShareStore \<Rightarrow> PublicLink list" where
  "List_links s = sort_key (\<lambda>l. - pl_CreatedAt l) (map (\<lambda>(_, link). public_link link) (ss_links s))"

definition Public :: "ShareStore \<Rightarrow> string \<Rightarrow> err + PublicLink" where
  "Public s lid =
     (case get_link s lid of None \<Rightarrow> Inl ErrNotFound | Some link \<Rightarrow> Inr (public_link link))"

definition Delete_link :: "err option \<Rightarrow> string \<Rightarrow> ShareStore \<Rightarrow> err option \<times> ShareStore" where
  "Delete_link save_error lid s =
     (case get_link s lid of
        None \<Rightarrow> (Some ErrNotFound, s)
      | Some _ \<Rightarrow> save_links save_error (s\<lparr>ss_links := AList.delete lid (ss_links s)\<rparr>))"

definition Verify :: "kdf \<Rightarrow> time \<Rightarrow> ShareStore \<Rightarrow> string \<Rightarrow> string \<Rightarrow> string \<Rightarrow> err + PublicLink" where
  "Verify kdf now s lid token password =
     (case get_link s lid of
        None \<Rightarrow> Inl ErrNotFound
      | Some link \<Rightarrow>
          (case validate kdf now link token password False of
             Some e \<Rightarrow> Inl e
           | None \<Rightarrow> Inr (public_link link)))"

definition VerifyAuthorized :: "kdf \<Rightarrow> time \<Rightarrow> ShareStore \<Rightarrow> string \<Rightarrow> string \<Rightarrow> err + PublicLink" where
  "VerifyAuthorized kdf now s lid token =
     (case get_link s lid of
        None \<Rightarrow> Inl ErrNotFound
      | Some link \<Rightarrow>
          (case validate kdf now link token [] True of
             Some e \<Rightarrow> Inl e
           | None \<Rightarrow> Inr (public_link link)))"

definition ReserveDownload :: "time \<Rightarrow> string \<Rightarrow> ShareStore \<Rightarrow> err option \<times> ShareStore" where
  "ReserveDownload now lid s =
     (case get_link s lid of
        None \<Rightarrow> (Some ErrNotFound, s)
      | Some link \<Rightarrow>
          (case available now link (active_downloads s lid) of
             Some e \<Rightarrow> (Some e, s)
           | None \<Rightarrow>
               (None, s\<lparr>ss_active := (ss_active s)(lid \<mapsto> wrap_i64 (active_downloads s lid + 1))\<rparr>)))"

definition FinishDownload ::
  "time \<Rightarrow> err option \<Rightarrow> string \<Rightarrow> bool \<Rightarrow> ShareStore \<Rightarrow> err option \<times> ShareStore" where
  "FinishDownload now save_error lid completed s =
     (let active = active_downloads s lid
      in if active \<le> 0 then (Some (ErrMsg ''download was not reserved''), s)
         else let s1 = (if active = 1 then s\<lparr>ss_active := (ss_active s)(lid := None)\<rparr>
                        else s\<lparr>ss_active := (ss_active s)(lid \<mapsto> active - 1)\<rparr>)
              in if \<not> completed then (None, s1)
                 else case get_link s1 lid of
                        None \<Rightarrow> (Some ErrNotFound, s1)
                      | Some link \<Rightarrow>
                          save_links save_error
                            (put_link lid (link\<lparr>lk_DownloadCount := wrap_i64 (lk_DownloadCount link + 1),
                                               lk_LastDownloadAt := now\<rparr>) s1))"

subsection \<open>Looking up and storing\<close>

lemma get_put [simp]: "get_link (put_link lid link s) k = (if k = lid then Some link else get_link s k)"
  by (simp add: get_link_def put_link_def map_of_update_iff)

lemma active_put [simp]: "ss_active (put_link lid link s) = ss_active s"
  by (simp add: put_link_def)

lemma links_active_update [simp]:
  "get_link (s\<lparr>ss_active := a\<rparr>) = get_link s" "get_link (s\<lparr>ss_disk := d\<rparr>) = get_link s"
  "active_downloads (s\<lparr>ss_links := ls\<rparr>) = active_downloads s"
  "active_downloads (s\<lparr>ss_disk := d\<rparr>) = active_downloads s"
  "active_downloads (put_link lid link s) = active_downloads s"
  by (auto simp: get_link_def active_downloads_def put_link_def fun_eq_iff)

lemma get_delete [simp]:
  "get_link (s\<lparr>ss_links := AList.delete lid (ss_links s)\<rparr>) k = (if k = lid then None else get_link s k)"
  by (simp add: get_link_def map_of_delete_iff)

lemma save_frame [simp]:
  "get_link (snd (save_links e s)) = get_link s"
  "active_downloads (snd (save_links e s)) = active_downloads s"
  "ss_active (snd (save_links e s)) = ss_active s"
  "ss_links (snd (save_links e s)) = ss_links s"
  by (auto simp: save_links_def split: option.splits)

lemma unused_id_unused: "unused_id s i ds = Some (Inr lid) \<Longrightarrow> get_link s lid = None"
proof (induction s i ds rule: unused_id.induct)
  case (1 s i ds)
  show ?case
  proof (cases "get_link s i = None")
    case True
    with 1 show ?thesis by (simp add: unused_id.simps)
  next
    case False
    with 1(2) obtain d ds' i' where "ds = d # ds'" "randomToken d = Inr i'"
        "unused_id s i' ds' = Some (Inr lid)"
      by (subst (asm) unused_id.simps) (auto split: list.splits sum.splits)
    with 1(1)[OF False] show ?thesis by blast
  qed
qed

lemma unused_id_drawn:
  "unused_id s i ds = Some (Inr lid) \<Longrightarrow> lid = i \<or> (\<exists>d \<in> set ds. randomToken d = Inr lid)"
proof (induction s i ds rule: unused_id.induct)
  case (1 s i ds)
  show ?case
  proof (cases "get_link s i = None")
    case True
    with 1 show ?thesis by (simp add: unused_id.simps)
  next
    case False
    with 1(2) obtain d ds' i' where *: "ds = d # ds'" "randomToken d = Inr i'"
        "unused_id s i' ds' = Some (Inr lid)"
      by (subst (asm) unused_id.simps) (auto split: list.splits sum.splits)
    from 1(1)[OF False *] * show ?thesis by auto
  qed
qed

text \<open>A successful creation stores one link under an unused drawn identifier.\<close>

definition create_hash :: "kdf \<Rightarrow> CreateInputs \<Rightarrow> CreateRequest \<Rightarrow> err + string" where
  "create_hash kdf inp req =
     (if cr_Password req = [] then Inr [] else HashPassword kdf (ci_salt inp) (cr_Password req))"

lemma Create_cases:
  assumes "Create kdf inp req s = Some (r, s')"
  obtains e where "r = Inl e" "s' = s"
  | lid token h where "get_link s lid = None"
      "\<exists>d \<in> set (ci_id inp # ci_draws inp). randomToken d = Inr lid"
      "randomToken (ci_token inp) = Inr token" "create_hash kdf inp req = Inr h"
      "s' = snd (save_links (ci_save inp) (put_link lid (new_link req lid token h (ci_now inp)) s))"
      "r = (case fst (save_links (ci_save inp)
              (put_link lid (new_link req lid token h (ci_now inp)) s)) of
              Some e \<Rightarrow> Inl e
            | None \<Rightarrow> Inr (public_link (new_link req lid token h (ci_now inp)), token))"
proof (cases "cr_Kind req = KindDownload \<or> cr_Kind req = KindUpload")
  case False
  with assms have "r = Inl (ErrMsg ''bad link kind'')" "s' = s" by (auto simp: Create_def)
  then show thesis by (rule that(1))
next
  case kind: True
  show thesis
  proof (cases "randomToken (ci_id inp)")
    case (Inl e)
    with assms kind have "r = Inl e" "s' = s" by (auto simp: Create_def)
    then show thesis by (rule that(1))
  next
    case id0: (Inr id0)
    show thesis
    proof (cases "randomToken (ci_token inp)")
      case (Inl e)
      with assms kind id0 have "r = Inl e" "s' = s" by (auto simp: Create_def)
      then show thesis by (rule that(1))
    next
      case token: (Inr token)
      show thesis
      proof (cases "create_hash kdf inp req")
        case (Inl e)
        with assms kind id0 token have "r = Inl e" "s' = s"
          by (auto simp: Create_def create_hash_def[symmetric])
        then show thesis by (rule that(1))
      next
        case h: (Inr h)
        note eq = assms kind id0 token h
        show thesis
        proof (cases "\<exists>lid. unused_id s id0 (ci_draws inp) = Some (Inr lid)")
          case False
          with eq have "(\<exists>e. r = Inl e) \<and> s' = s"
            by (auto simp: Create_def create_hash_def[symmetric] split: option.splits sum.splits)
          then show thesis using that(1) by blast
        next
          case True
          then obtain lid where lid: "unused_id s id0 (ci_draws inp) = Some (Inr lid)" ..
          have drawn: "\<exists>d \<in> set (ci_id inp # ci_draws inp). randomToken d = Inr lid"
            using unused_id_drawn[OF lid] id0 by auto
          show thesis
            by (rule that(2)[OF unused_id_unused[OF lid] drawn token h])
               (use eq lid in \<open>auto simp: Create_def create_hash_def[symmetric] Let_def
                  split: option.splits prod.splits\<close>)
        qed
      qed
    qed
  qed
qed

subsection \<open>Download quotas\<close>

text \<open>
  What the handlers rely on when downloads overlap: the downloads counted or in progress for a
  link only grow while the link's quota allows it.
\<close>

locale download_gate =
  fixes quota :: "'s \<Rightarrow> string \<Rightarrow> int option"
    and spent :: "'s \<Rightarrow> string \<Rightarrow> int"
    and step :: "'s \<Rightarrow> 's \<Rightarrow> bool"
    and well_formed :: "'s \<Rightarrow> bool"
  assumes keeps: "well_formed s \<Longrightarrow> step s s' \<Longrightarrow> well_formed s'"
    and admits: "well_formed s \<Longrightarrow> step s s' \<Longrightarrow> quota s' k = Some m \<Longrightarrow>
      spent s' k \<le> m \<or> (quota s k = Some m \<and> spent s' k \<le> spent s k)"
begin

definition within :: "'s \<Rightarrow> bool" where
  "within s \<longleftrightarrow> (\<forall>k m. quota s k = Some m \<longrightarrow> spent s k \<le> m)"

lemma step_within: "well_formed s \<Longrightarrow> within s \<Longrightarrow> step s s' \<Longrightarrow> within s'"
  unfolding within_def using admits by fastforce

lemma run_within: "step\<^sup>*\<^sup>* s s' \<Longrightarrow> well_formed s \<Longrightarrow> within s \<Longrightarrow> well_formed s' \<and> within s'"
  by (induction rule: rtranclp_induct) (auto intro: keeps step_within)

end

text \<open>
  The calls of the store, in any order. A request's quota is an \<open>int\<close>, the random source fills
  its ten bytes, and an identifier it draws is not one of a download still in progress (it is
  one of \<open>2 ^ 80\<close>).
\<close>

definition good_draws :: "CreateInputs \<Rightarrow> ShareStore \<Rightarrow> bool" where
  "good_draws inp s \<longleftrightarrow> (\<forall>d \<in> set (ci_id inp # ci_draws inp).
     case d of None \<Rightarrow> True
     | Some bs \<Rightarrow> length bs = 10 \<and> ss_active s (b64_encode url_alphabet bs) = None)"

inductive share_step :: "kdf \<Rightarrow> ShareStore \<Rightarrow> ShareStore \<Rightarrow> bool" for kdf :: kdf where
  create: "good_draws inp s \<Longrightarrow> cr_MaxDownloads req \<le> max_i64 \<Longrightarrow>
    Create kdf inp req s = Some (r, s') \<Longrightarrow> share_step kdf s s'"
| set_url: "share_step kdf s (snd (SetURLPath e lid url s))"
| delete: "share_step kdf s (snd (Delete_link e lid s))"
| reserve: "share_step kdf s (snd (ReserveDownload now lid s))"
| finish: "share_step kdf s (snd (FinishDownload now e lid completed s))"

inductive_cases share_stepE: "share_step kdf s s'"

definition link_quota :: "ShareStore \<Rightarrow> string \<Rightarrow> int option" where
  "link_quota s k =
     (case get_link s k of
        None \<Rightarrow> None
      | Some link \<Rightarrow> if lk_MaxDownloads link > 0 then Some (lk_MaxDownloads link) else None)"

definition counted :: "ShareStore \<Rightarrow> string \<Rightarrow> int" where
  "counted s k = (case get_link s k of None \<Rightarrow> 0 | Some link \<Rightarrow> lk_DownloadCount link)"

definition link_spent :: "ShareStore \<Rightarrow> string \<Rightarrow> int" where
  "link_spent s k = counted s k + active_downloads s k"

text \<open>
  For a link with a quota the counters are not negative, and with the quota they fit an \<open>int\<close>.
  A file may hold a link whose count is already above its quota.
\<close>

definition links_ok :: "ShareStore \<Rightarrow> bool" where
  "links_ok s \<longleftrightarrow> (\<forall>k m. link_quota s k = Some m \<longrightarrow>
     0 \<le> counted s k \<and> 0 \<le> active_downloads s k \<and> link_spent s k \<le> max_i64 \<and> m \<le> max_i64)"

lemma link_views_save [simp]:
  "link_quota (snd (save_links e s)) = link_quota s"
  "counted (snd (save_links e s)) = counted s"
  "link_spent (snd (save_links e s)) = link_spent s"
  by (simp_all add: link_quota_def counted_def link_spent_def fun_eq_iff)

lemma links_ok_save [simp]: "links_ok (snd (save_links e s)) \<longleftrightarrow> links_ok s"
  by (simp add: links_ok_def)

lemma good_draws_fresh:
  "good_draws inp s \<Longrightarrow> d \<in> set (ci_id inp # ci_draws inp) \<Longrightarrow> randomToken d = Inr lid \<Longrightarrow>
     active_downloads s lid = 0"
  by (auto simp: good_draws_def randomToken_def active_downloads_def split: option.splits)

text \<open>One call keeps the counters in range, and lets a count grow only within the quota.\<close>

definition admitted :: "ShareStore \<Rightarrow> ShareStore \<Rightarrow> bool" where
  "admitted s s' \<longleftrightarrow> (\<forall>k m. link_quota s' k = Some m \<longrightarrow>
     0 \<le> counted s' k \<and> 0 \<le> active_downloads s' k \<and> link_spent s' k \<le> max_i64 \<and> m \<le> max_i64 \<and>
     (link_spent s' k \<le> m \<or> (link_quota s k = Some m \<and> link_spent s' k \<le> link_spent s k)))"

lemma admitted_save [simp]: "admitted s (snd (save_links e s')) = admitted s s'"
  by (simp add: admitted_def)

lemma admittedI:
  assumes ok: "links_ok s"
    and other: "\<And>k m. k \<noteq> lid \<Longrightarrow> link_quota s' k = link_quota s k \<and>
      counted s' k = counted s k \<and> active_downloads s' k = active_downloads s k"
    and here: "\<And>m. link_quota s' lid = Some m \<Longrightarrow> 0 \<le> counted s' lid \<and>
      0 \<le> active_downloads s' lid \<and> link_spent s' lid \<le> max_i64 \<and> m \<le> max_i64 \<and>
      (link_spent s' lid \<le> m \<or> (link_quota s lid = Some m \<and> link_spent s' lid \<le> link_spent s lid))"
  shows "admitted s s'"
  unfolding admitted_def
proof (intro allI impI)
  fix k m assume "link_quota s' k = Some m"
  then show "0 \<le> counted s' k \<and> 0 \<le> active_downloads s' k \<and> link_spent s' k \<le> max_i64 \<and>
      m \<le> max_i64 \<and>
      (link_spent s' k \<le> m \<or> (link_quota s k = Some m \<and> link_spent s' k \<le> link_spent s k))"
    using here ok other[of k]
    by (cases "k = lid") (auto simp: links_ok_def link_spent_def)
qed

lemma admitted_refl [simp]: "links_ok s \<Longrightarrow> admitted s s"
  by (rule admittedI) (auto simp: links_ok_def)

lemma link_views_put:
  "link_quota (put_link lid link s) k = (if k = lid
     then (if lk_MaxDownloads link > 0 then Some (lk_MaxDownloads link) else None) else link_quota s k)"
  "counted (put_link lid link s) k = (if k = lid then lk_DownloadCount link else counted s k)"
  by (simp_all add: link_quota_def counted_def)

lemma admitted_create:
  assumes "links_ok s" and "active_downloads s lid = 0"
    and "lk_DownloadCount link = 0" "lk_MaxDownloads link \<le> max_i64"
  shows "admitted s (put_link lid link s)"
  by (rule admittedI[where lid = lid])
     (use assms in \<open>auto simp: link_views_put link_spent_def split: if_splits\<close>)

lemma admitted_edit:
  assumes "links_ok s" and "get_link s lid = Some link"
    and "lk_MaxDownloads link' = lk_MaxDownloads link"
      "lk_DownloadCount link' = lk_DownloadCount link"
  shows "admitted s (put_link lid link' s)"
proof (rule admittedI[where lid = lid])
  have "link_quota (put_link lid link' s) lid = link_quota s lid"
      "counted (put_link lid link' s) lid = counted s lid"
    using assms by (simp_all add: link_quota_def counted_def)
  then show "link_quota (put_link lid link' s) lid = Some m \<Longrightarrow>
      0 \<le> counted (put_link lid link' s) lid \<and> 0 \<le> active_downloads (put_link lid link' s) lid \<and>
      link_spent (put_link lid link' s) lid \<le> max_i64 \<and> m \<le> max_i64 \<and>
      (link_spent (put_link lid link' s) lid \<le> m \<or> (link_quota s lid = Some m \<and>
       link_spent (put_link lid link' s) lid \<le> link_spent s lid))" for m
    using assms(1) by (auto simp: links_ok_def link_spent_def)
qed (use assms in \<open>auto simp: link_views_put\<close>)

lemma admitted_delete: "links_ok s \<Longrightarrow> admitted s (s\<lparr>ss_links := AList.delete lid (ss_links s)\<rparr>)"
  by (rule admittedI[where lid = lid]) (auto simp: link_quota_def counted_def)

lemma admitted_reserve:
  assumes ok: "links_ok s"
  shows "admitted s (snd (ReserveDownload now lid s))"
proof (cases "\<exists>link. get_link s lid = Some link \<and> available now link (active_downloads s lid) = None")
  case True
  then obtain link where link: "get_link s lid = Some link"
      "available now link (active_downloads s lid) = None" by blast
  define s' where
    "s' = s\<lparr>ss_active := (ss_active s)(lid \<mapsto> wrap_i64 (active_downloads s lid + 1))\<rparr>"
  have act: "active_downloads s' k =
      (if k = lid then wrap_i64 (active_downloads s lid + 1) else active_downloads s k)" for k
    by (simp add: s'_def active_downloads_def)
  have views: "link_quota s' = link_quota s" "counted s' = counted s"
    by (simp_all add: s'_def link_quota_def counted_def fun_eq_iff)
  have "admitted s s'"
  proof (rule admittedI[OF ok, where lid = lid])
    fix m assume "link_quota s' lid = Some m"
    then have q: "link_quota s lid = Some m" by (simp add: views)
    note old = ok[unfolded links_ok_def, rule_format, OF q]
    have "lk_MaxDownloads link = m" "0 < m" "lk_DownloadCount link = counted s lid"
      using q link(1) by (auto simp: link_quota_def counted_def split: if_splits)
    with link(2) old have "counted s lid + active_downloads s lid < m"
      by (auto simp: available_def link_spent_def split: if_splits)
    with old show "0 \<le> counted s' lid \<and> 0 \<le> active_downloads s' lid \<and>
        link_spent s' lid \<le> max_i64 \<and> m \<le> max_i64 \<and>
        (link_spent s' lid \<le> m \<or> (link_quota s lid = Some m \<and> link_spent s' lid \<le> link_spent s lid))"
      by (simp add: link_spent_def act views)
  qed (simp add: act views)
  with link show ?thesis by (simp add: ReserveDownload_def s'_def)
next
  case False
  then have "snd (ReserveDownload now lid s) = s"
    by (auto simp: ReserveDownload_def split: option.split)
  with ok show ?thesis by simp
qed

lemma FinishDownload_eq:
  "FinishDownload now e lid completed s =
     (let a = active_downloads s lid;
          s1 = s\<lparr>ss_active := (ss_active s)(lid := if a = 1 then None else Some (a - 1))\<rparr>
      in if a \<le> 0 then (Some (ErrMsg ''download was not reserved''), s)
         else if \<not> completed then (None, s1)
         else case get_link s lid of
                None \<Rightarrow> (Some ErrNotFound, s1)
              | Some link \<Rightarrow> save_links e
                  (put_link lid (link\<lparr>lk_DownloadCount := wrap_i64 (lk_DownloadCount link + 1),
                                      lk_LastDownloadAt := now\<rparr>) s1))"
  by (simp add: FinishDownload_def Let_def split: option.split)

lemma admitted_finish:
  assumes ok: "links_ok s"
  shows "admitted s (snd (FinishDownload now e lid completed s))"
proof (cases "active_downloads s lid \<le> 0")
  case True
  with ok show ?thesis by (simp add: FinishDownload_def)
next
  case pos: False
  let ?a = "active_downloads s lid"
  define s1 where "s1 = s\<lparr>ss_active := (ss_active s)(lid := if ?a = 1 then None else Some (?a - 1))\<rparr>"
  have act: "active_downloads s1 k = (if k = lid then ?a - 1 else active_downloads s k)" for k
    by (simp add: s1_def active_downloads_def)
  have views: "link_quota s1 = link_quota s" "counted s1 = counted s"
    by (simp_all add: s1_def link_quota_def counted_def fun_eq_iff)
  have old: "0 \<le> counted s lid" "link_spent s lid \<le> max_i64" "m \<le> max_i64"
    if "link_quota s lid = Some m" for m
    using ok that by (auto simp: links_ok_def)
  show ?thesis
  proof (cases "completed \<and> get_link s lid \<noteq> None")
    case False
    have "admitted s s1"
      by (rule admittedI[OF ok, where lid = lid])
         (use pos old in \<open>auto simp: act views link_spent_def\<close>)
    with False pos show ?thesis
      by (auto simp: FinishDownload_eq Let_def s1_def[symmetric] split: option.splits)
  next
    case True
    then obtain link where link: "completed" "get_link s lid = Some link" by blast
    let ?s2 = "put_link lid (link\<lparr>lk_DownloadCount := wrap_i64 (lk_DownloadCount link + 1),
        lk_LastDownloadAt := now\<rparr>) s1"
    have q: "link_quota ?s2 lid = link_quota s lid"
      using link by (simp add: link_views_put) (simp add: link_quota_def)
    have c: "counted s lid = lk_DownloadCount link" using link by (simp add: counted_def)
    have "admitted s ?s2"
    proof (rule admittedI[OF ok, where lid = lid])
      fix m assume "link_quota ?s2 lid = Some m"
      then have "link_quota s lid = Some m" by (simp add: q)
      with old[OF this] pos c show "0 \<le> counted ?s2 lid \<and> 0 \<le> active_downloads ?s2 lid \<and>
          link_spent ?s2 lid \<le> max_i64 \<and> m \<le> max_i64 \<and> (link_spent ?s2 lid \<le> m \<or>
          (link_quota s lid = Some m \<and> link_spent ?s2 lid \<le> link_spent s lid))"
        by (simp add: link_views_put act views link_spent_def)
    qed (simp add: link_views_put act views)
    with link pos show ?thesis
      by (simp add: FinishDownload_eq Let_def s1_def[symmetric])
  qed
qed

lemma share_step_admitted:
  assumes "share_step kdf s s'" and ok: "links_ok s"
  shows "admitted s s'"
  using assms(1)
proof (cases rule: share_step.cases)
  case (create inp req r)
  from create(3) show ?thesis
  proof (cases rule: Create_cases)
    case (2 lid token h)
    then have "active_downloads s lid = 0" using good_draws_fresh[OF create(1)] by blast
    then have "admitted s (put_link lid (new_link req lid token h (ci_now inp)) s)"
      by (intro admitted_create ok) (simp_all add: new_link_def create(2))
    with 2 show ?thesis by simp
  qed (use ok in simp)
next
  case (set_url e lid url)
  then show ?thesis
    using ok by (auto simp: SetURLPath_def admitted_edit split: option.splits)
next
  case (delete e lid)
  then show ?thesis
    using ok by (auto simp: Delete_link_def admitted_delete split: option.splits)
qed (use ok admitted_reserve admitted_finish in auto)

interpretation gate: download_gate link_quota link_spent "share_step kdf" links_ok
proof unfold_locales
  fix s s' k m
  assume ok: "links_ok s" and st: "share_step kdf s s'"
  note ad = share_step_admitted[OF st ok, unfolded admitted_def, rule_format]
  show "links_ok s'" unfolding links_ok_def using ad by blast
  show "link_quota s' k = Some m \<Longrightarrow>
      link_spent s' k \<le> m \<or> (link_quota s k = Some m \<and> link_spent s' k \<le> link_spent s k)"
    using ad by blast
qed

text \<open>C19: download quotas hold under every interleaving. In any sequence of creations, edits,
  deletions, reservations and completions, with any outcome of writing the file, the downloads
  counted plus those still running never exceed the quota of a link that has one, if they did not
  at the start; so no more than that many downloads are ever completed.\<close>

theorem download_quota_kept:
  assumes "(share_step kdf)\<^sup>*\<^sup>* s s'" and "links_ok s"
    and "\<forall>k m. link_quota s k = Some m \<longrightarrow> link_spent s k \<le> m"
    and "get_link s' k = Some link" and "lk_MaxDownloads link > 0"
  shows "lk_DownloadCount link + active_downloads s' k \<le> lk_MaxDownloads link \<and>
    lk_DownloadCount link \<le> lk_MaxDownloads link"
proof -
  have "links_ok s' \<and> gate.within s'"
    using gate.run_within[OF assms(1,2)] assms(3) by (simp add: gate.within_def)
  moreover have "link_quota s' k = Some (lk_MaxDownloads link)"
      "link_spent s' k = lk_DownloadCount link + active_downloads s' k"
    using assms(4,5) by (simp_all add: link_quota_def link_spent_def counted_def)
  ultimately show ?thesis unfolding gate.within_def links_ok_def by fastforce
qed

definition sample_link :: Link where
  "sample_link =
     \<lparr>lk_ID = ''k'', lk_Kind = KindDownload, lk_Path = ''/f'', lk_URLPath = [], lk_Label = [],
      lk_CreatedBy = ''root'', lk_CreatedAt = 1, lk_ExpiresAt = 0, lk_MaxDownloads = 1,
      lk_DownloadCount = 0, lk_LastDownloadAt = 0, lk_TokenHash = ''h'', lk_PasswordHash = [],
      lk_AllowOverwrite = False, lk_Disabled = False\<rparr>"

definition sample_links :: ShareStore where
  "sample_links = \<lparr>ss_links = [(''k'', sample_link)], ss_active = Map.empty, ss_disk = None\<rparr>"

theorem download_quota_kept_witness:
  "\<exists>s'. (share_step toy_kdf)\<^sup>*\<^sup>* sample_links s' \<and> s' \<noteq> sample_links \<and>
     lk_DownloadCount sample_link + active_downloads s' ''k'' \<le> lk_MaxDownloads sample_link"
proof -
  let ?s' = "snd (ReserveDownload 5 ''k'' sample_links)"
  have s': "?s' = sample_links\<lparr>ss_active := [''k'' \<mapsto> 1]\<rparr>"
    by (simp add: ReserveDownload_def sample_links_def get_link_def active_downloads_def
        available_def sample_link_def is_zero_time_def)
  have run: "(share_step toy_kdf)\<^sup>*\<^sup>* sample_links ?s'"
    by (rule r_into_rtranclp) (rule share_step.reserve)
  have "get_link sample_links k = (if k = ''k'' then Some sample_link else None)"
      "active_downloads sample_links k = 0" for k
    by (simp_all add: sample_links_def get_link_def active_downloads_def)
  then have "links_ok sample_links"
      "\<forall>k m. link_quota sample_links k = Some m \<longrightarrow> link_spent sample_links k \<le> m"
    by (auto simp: links_ok_def link_quota_def link_spent_def counted_def sample_link_def)
  moreover have "get_link ?s' ''k'' = Some sample_link" "lk_MaxDownloads sample_link > 0"
    by (simp add: s') (simp_all add: get_link_def sample_links_def sample_link_def)
  ultimately have "lk_DownloadCount sample_link + active_downloads ?s' ''k'' \<le>
      lk_MaxDownloads sample_link"
    using download_quota_kept[OF run, of "''k''" sample_link] by blast
  moreover have "?s' \<noteq> sample_links" by (simp add: s') (simp add: sample_links_def)
  ultimately show ?thesis using run by blast
qed

text \<open>C32: a new link opens to its token and password only. After a successful creation,
  and until something else changes the store, a visitor passes the check exactly when the link
  has not expired, the token has the hash of the one handed out, and the password, where one
  was asked for, verifies against the hash made of it.\<close>

theorem create_then_verify:
  assumes "Create kdf inp req s = Some (Inr (pub, token), s')"
  shows "(\<exists>p. Verify kdf now s' (pl_ID pub) tok pw = Inr p) \<longleftrightarrow>
    (cr_ExpiresAt req = 0 \<or> now \<le> cr_ExpiresAt req) \<and> hashToken tok = hashToken token \<and>
    (cr_Password req \<noteq> [] \<longrightarrow> (\<exists>h. HashPassword kdf (ci_salt inp) (cr_Password req) = Inr h \<and>
      VerifyPassword kdf h pw))"
  using assms
proof (cases rule: Create_cases)
  case (2 lid tk h)
  let ?link = "new_link req lid tk h (ci_now inp)"
  have *: "pub = public_link ?link" "token = tk"
    using 2 by (auto split: option.splits)
  have h: "if cr_Password req = [] then h = [] else
      HashPassword kdf (ci_salt inp) (cr_Password req) = Inr h \<and> h \<noteq> []"
    using 2(4) HashPassword_not_Nil[of kdf "ci_salt inp" "cr_Password req" h]
    by (auto simp: create_hash_def)
  have look: "get_link s' (pl_ID pub) = Some ?link"
    using 2 * by (simp add: public_link_def new_link_def)
  have avail: "available now ?link 0 = None \<longleftrightarrow> cr_ExpiresAt req = 0 \<or> now \<le> cr_ExpiresAt req"
    by (auto simp: available_def new_link_def is_zero_time_def time_after_def)
  have "(\<exists>p. Verify kdf now s' (pl_ID pub) tok pw = Inr p) \<longleftrightarrow>
      validate kdf now ?link tok pw False = None"
    by (simp add: Verify_def look split: option.split)
  also have "\<dots> \<longleftrightarrow> available now ?link 0 = None \<and> hashToken tok = hashToken token \<and>
      (h = [] \<or> VerifyPassword kdf h pw)"
    using * by (auto simp: validate_def new_link_def split: option.splits)
  finally show ?thesis using h avail by (auto split: if_splits)
qed simp

theorem create_then_verify_witness:
  "\<exists>pub token s'. Create toy_kdf \<lparr>ci_id = Some ''0123456789'', ci_token = Some ''t'', ci_salt = None,
       ci_draws = [], ci_now = 3, ci_save = None\<rparr>
     \<lparr>cr_Kind = KindDownload, cr_Path = ''/f'', cr_Label = [], cr_CreatedBy = ''root'',
      cr_ExpiresAt = 10, cr_MaxDownloads = 1, cr_Password = [], cr_AllowOverwrite = False\<rparr>
     sample_links = Some (Inr (pub, token), s') \<and>
   (\<exists>p. Verify toy_kdf 10 s' (pl_ID pub) token [] = Inr p) \<and>
   \<not> (\<exists>p. Verify toy_kdf 11 s' (pl_ID pub) token [] = Inr p)"
proof -
  let ?inp = "\<lparr>ci_id = Some ''0123456789'', ci_token = Some ''t'', ci_salt = None,
       ci_draws = [], ci_now = 3, ci_save = None\<rparr>"
  let ?req = "\<lparr>cr_Kind = KindDownload, cr_Path = ''/f'', cr_Label = [], cr_CreatedBy = ''root'',
      cr_ExpiresAt = 10, cr_MaxDownloads = 1, cr_Password = [], cr_AllowOverwrite = False\<rparr>"
  have "get_link sample_links (b64_encode url_alphabet ''0123456789'') = None" by code_simp
  then obtain pub token s' where c: "Create toy_kdf ?inp ?req sample_links = Some (Inr (pub, token), s')"
    by (simp add: Create_def randomToken_def unused_id.simps save_links_def Let_def)
  from create_then_verify[OF c, of 10 token "[]"] create_then_verify[OF c, of 11 token "[]"] c
  show ?thesis by auto
qed

lemma reserve_then_finish:
  fixes now' :: time and e :: "err option" and completed :: bool
  assumes "ReserveDownload now lid s = (None, s1)" and "0 \<le> active_downloads s lid"
    and "active_downloads s lid < max_i64" and "get_link s lid = Some link"
    and "lk_DownloadCount link < max_i64" "min_i64 \<le> lk_DownloadCount link"
  defines "s3 \<equiv> snd (FinishDownload now' e lid completed s1)"
  shows "counted s3 = (counted s)(lid := counted s lid + of_bool completed)"
    and "active_downloads s3 = active_downloads s" and "k \<noteq> lid \<Longrightarrow> get_link s3 k = get_link s k"
proof -
  let ?a = "active_downloads s lid"
  have s1: "s1 = s\<lparr>ss_active := (ss_active s)(lid \<mapsto> ?a + 1)\<rparr>"
    using assms by (auto simp: ReserveDownload_def split: option.splits)
  have a1: "active_downloads s1 lid = ?a + 1" by (simp add: s1 active_downloads_def)
  define s2 where "s2 = s1\<lparr>ss_active := (ss_active s1)(lid := if ?a = 0 then None else Some ?a)\<rparr>"
  have a2: "active_downloads s2 = active_downloads s"
    by (auto simp: s2_def s1 active_downloads_def fun_eq_iff)
  have g2: "get_link s2 = get_link s" by (simp add: s2_def s1)
  have fin: "FinishDownload now' e lid completed s1 =
      (if \<not> completed then (None, s2) else save_links e
        (put_link lid (link\<lparr>lk_DownloadCount := lk_DownloadCount link + 1,
                            lk_LastDownloadAt := now'\<rparr>) s2))"
  proof -
    have "get_link s1 lid = Some link" by (simp add: s1 assms(4))
    then show ?thesis
      unfolding FinishDownload_eq Let_def a1 using assms(2-) by (simp add: s2_def)
  qed
  have "get_link s3 k = (if k = lid \<and> completed then Some (link\<lparr>lk_DownloadCount := lk_DownloadCount link + 1,
      lk_LastDownloadAt := now'\<rparr>) else get_link s k)" for k
    by (simp add: s3_def fin g2)
  then show "counted s3 = (counted s)(lid := counted s lid + of_bool completed)"
    "k \<noteq> lid \<Longrightarrow> get_link s3 k = get_link s k"
    using assms(4) by (auto simp: counted_def fun_eq_iff)
  show "active_downloads s3 = active_downloads s"
    by (simp add: s3_def fin a2)
qed

text \<open>A reservation is used exactly once. A download that was admitted and completed
  adds one to the link's count and none to those in progress; one that was given up leaves both
  as they were; and finishing without a reservation changes nothing.\<close>

theorem reserve_finish_accounting:
  assumes "ReserveDownload now lid s = (None, s1)" and "0 \<le> active_downloads s lid"
    and "active_downloads s lid < max_i64" and "get_link s lid = Some link"
    and "lk_DownloadCount link < max_i64" "min_i64 \<le> lk_DownloadCount link"
  shows "(let s2 = snd (FinishDownload now' e lid completed s1)
          in counted s2 lid = counted s lid + (if completed then 1 else 0) \<and>
             active_downloads s2 = active_downloads s \<and>
             (\<forall>k. k \<noteq> lid \<longrightarrow> get_link s2 k = get_link s k)) \<and>
    (active_downloads s lid = 0 \<longrightarrow> snd (FinishDownload now' e lid completed s) = s \<and>
       fst (FinishDownload now' e lid completed s) \<noteq> None)"
  using reserve_then_finish[OF assms, where now' = now' and e = e and completed = completed]
  by (simp add: Let_def FinishDownload_def)

theorem reserve_finish_accounting_witness:
  "counted (snd (FinishDownload 6 None ''k'' True (snd (ReserveDownload 5 ''k'' sample_links)))) ''k'' = 1"
proof -
  have r: "ReserveDownload 5 ''k'' sample_links = (None, snd (ReserveDownload 5 ''k'' sample_links))"
    by (simp add: ReserveDownload_def sample_links_def get_link_def active_downloads_def
        available_def sample_link_def is_zero_time_def)
  have l: "get_link sample_links ''k'' = Some sample_link"
      "active_downloads sample_links ''k'' = 0"
    by (simp_all add: get_link_def sample_links_def active_downloads_def)
  show ?thesis
    using reserve_finish_accounting[OF r _ _ l(1), of 6 None True] l
    by (simp add: Let_def counted_def) (simp add: sample_link_def)
qed

subsection \<open>Restart\<close>

definition links_inv :: "ShareStore \<Rightarrow> bool" where
  "links_inv s \<longleftrightarrow> distinct_keys (ss_links s) \<and>
     (\<forall>(k, link) \<in> set (ss_links s). lk_ID link = k \<and> k \<noteq> [])"

lemma load_fold:
  assumes "distinct (map lk_ID ls)" and "\<forall>l \<in> set ls. lk_ID l \<noteq> []"
  shows "map_of (fold (\<lambda>link m. if lk_ID link \<noteq> [] then AList.update (lk_ID link) link m else m) ls m) k
    = (case find (\<lambda>l. lk_ID l = k) ls of None \<Rightarrow> map_of m k | Some l \<Rightarrow> Some l)"
  using assms
proof (induction ls arbitrary: m)
  case (Cons l ls)
  then have "find (\<lambda>l'. lk_ID l' = lk_ID l) ls = None"
    by (auto simp: find_None_iff intro: rev_image_eqI)
  with Cons show ?case by (auto simp: map_of_update_iff split: option.splits)
qed simp



subsection \<open>Calls of the store\<close>

definition link_call :: "kdf \<Rightarrow> ShareStore \<Rightarrow> ShareStore \<Rightarrow> bool" where
  "link_call kdf s s' \<longleftrightarrow>
     (\<exists>inp req r. Create kdf inp req s = Some (r, s')) \<or> (\<exists>e i url. s' = snd (SetURLPath e i url s)) \<or>
     (\<exists>e i. s' = snd (Delete_link e i s)) \<or> (\<exists>t i. s' = snd (ReserveDownload t i s)) \<or>
     (\<exists>t e i completed. s' = snd (FinishDownload t e i completed s))"

lemma link_calls:
  "Create kdf inp req s = Some (r, s') \<Longrightarrow> link_call kdf s s'"
  "link_call kdf s (snd (SetURLPath e i url s))" "link_call kdf s (snd (Delete_link e i s))"
  "link_call kdf s (snd (ReserveDownload t i s))" "link_call kdf s (snd (FinishDownload t e i ok s))"
  unfolding link_call_def by blast+

end
