(* ===== verification/GoMatch.thy ===== *)
theory GoMatch
  imports GoPath
begin

text \<open>
  \<open>filepath.Match\<close> on a Unix system, with the decoding of UTF-8 it rests on. A pattern is cut into
  chunks at its stars; \<open>ErrBadPattern\<close> is \<open>None\<close>.
\<close>

subsection \<open>Runes\<close>

definition byte_in :: "nat \<Rightarrow> nat \<Rightarrow> char \<Rightarrow> bool" where
  "byte_in lo hi c \<longleftrightarrow> lo \<le> of_char c \<and> of_char c \<le> (hi :: nat)"

definition cont_byte :: "char \<Rightarrow> bool" where
  "cont_byte = byte_in 0x80 0xBF"

definition low6 :: "char \<Rightarrow> nat" where
  "low6 c = of_char c mod 64"

text \<open>\<open>utf8.DecodeRuneInString\<close>: the rune and its width; an invalid byte is U+FFFD of width 1.\<close>

definition DecodeRune :: "string \<Rightarrow> nat \<times> nat" where
  "DecodeRune s =
     (case s of
        [] \<Rightarrow> (0xFFFD, 0)
      | a # t \<Rightarrow>
          if byte_in 0 0x7F a then (of_char a, 1)
          else (case t of
             [] \<Rightarrow> (0xFFFD, 1)
           | b # u \<Rightarrow>
               if byte_in 0xC2 0xDF a then
                 (if cont_byte b then (of_char a mod 32 * 64 + low6 b, 2) else (0xFFFD, 1))
               else if byte_in 0xE0 0xEF a then
                 (let ok = (if of_char a = (0xE0 :: nat) then byte_in 0xA0 0xBF b
                            else if of_char a = (0xED :: nat) then byte_in 0x80 0x9F b
                            else cont_byte b)
                  in case u of
                       [] \<Rightarrow> (0xFFFD, 1)
                     | c # _ \<Rightarrow> if ok \<and> cont_byte c
                               then (of_char a mod 16 * 4096 + low6 b * 64 + low6 c, 3)
                               else (0xFFFD, 1))
               else if byte_in 0xF0 0xF4 a then
                 (let ok = (if of_char a = (0xF0 :: nat) then byte_in 0x90 0xBF b
                            else if of_char a = (0xF4 :: nat) then byte_in 0x80 0x8F b
                            else cont_byte b)
                  in case u of
                       c # d # _ \<Rightarrow>
                         if ok \<and> cont_byte c \<and> cont_byte d
                         then (of_char a mod 8 * 262144 + low6 b * 4096 + low6 c * 64 + low6 d, 4)
                         else (0xFFFD, 1)
                     | _ \<Rightarrow> (0xFFFD, 1))
               else (0xFFFD, 1)))"

subsection \<open>Chunks\<close>

text \<open>The position of the first star outside brackets, or the length.\<close>

fun scan_to_star :: "bool \<Rightarrow> string \<Rightarrow> nat" where
  "scan_to_star inrange [] = 0"
| "scan_to_star inrange (c # cs) =
     (if c = CHR 0x5C then
        (case cs of [] \<Rightarrow> 1 | _ # ds \<Rightarrow> 2 + scan_to_star inrange ds)
      else if c = CHR ''['' then 1 + scan_to_star True cs
      else if c = CHR '']'' then 1 + scan_to_star False cs
      else if c = CHR ''*'' \<and> \<not> inrange then 0
      else 1 + scan_to_star inrange cs)"

definition scanChunk :: "string \<Rightarrow> bool \<times> string \<times> string" where
  "scanChunk pattern =
     (let p = dropWhile (\<lambda>c. c = CHR ''*'') pattern; i = scan_to_star False p
      in (pattern \<noteq> [] \<and> hd pattern = CHR ''*'', take i p, drop i p))"

definition getEsc :: "string \<Rightarrow> (nat \<times> string) option" where
  "getEsc chunk =
     (if chunk = [] \<or> hd chunk = CHR ''-'' \<or> hd chunk = CHR '']'' then None
      else let chunk1 = (if hd chunk = CHR 0x5C then tl chunk else chunk)
           in if chunk1 = [] then None
              else case DecodeRune chunk1 of
                     (r, n) \<Rightarrow> if (r = 0xFFFD \<and> n = 1) \<or> drop n chunk1 = [] then None
                               else Some (r, drop n chunk1))"

lemma DecodeRune_pos: "s \<noteq> [] \<Longrightarrow> 0 < snd (DecodeRune s)"
  by (auto simp: DecodeRune_def Let_def split: list.splits)

lemma getEsc_shorter: "getEsc c = Some (r, c') \<Longrightarrow> length c' < length c"
  using DecodeRune_pos[of c] DecodeRune_pos[of "tl c"]
  by (cases c) (auto simp: getEsc_def Let_def split: if_splits prod.splits)

text \<open>The ranges of a character class: whether the rune is in one, and the rest of the chunk.\<close>

function (sequential) match_ranges :: "nat \<Rightarrow> string \<Rightarrow> nat \<Rightarrow> bool \<Rightarrow> (bool \<times> string) option" where
  "match_ranges r chunk nrange match =
     (if chunk \<noteq> [] \<and> hd chunk = CHR '']'' \<and> nrange > 0 then Some (match, tl chunk)
      else case getEsc chunk of
             None \<Rightarrow> None
           | Some (lo, c1) \<Rightarrow>
               if hd c1 = CHR ''-'' then
                 (case getEsc (tl c1) of
                    None \<Rightarrow> None
                  | Some (hi, c2) \<Rightarrow>
                      match_ranges r c2 (nrange + 1) (match \<or> (lo \<le> r \<and> r \<le> hi)))
               else match_ranges r c1 (nrange + 1) (match \<or> lo = r))"
  by pat_completeness auto
termination
proof (relation "measure (\<lambda>(r, chunk, n, m). length chunk)")
  fix chunk :: string and x lo c1 and y hi c2
  assume "getEsc chunk = Some x" "(lo, c1) = x" "getEsc (tl c1) = Some y" "(hi, c2) = y"
  then have "length c1 < length chunk" "length c2 < length (tl c1)"
    using getEsc_shorter[of chunk lo c1] getEsc_shorter[of "tl c1" hi c2] by auto
  then show "((r, c2, n + 1, b), r, chunk, n, m) \<in> measure (\<lambda>(r, chunk, n, m). length chunk)"
    for r n m b by simp
qed (use getEsc_shorter in auto)

declare match_ranges.simps [simp del]

lemma match_ranges_shorter:
  "match_ranges r chunk n m = Some (b, rest) \<Longrightarrow> length rest < length chunk"
proof (induction r chunk n m rule: match_ranges.induct)
  case (1 r chunk n m)
  show ?case
  proof (cases "chunk \<noteq> [] \<and> hd chunk = CHR '']'' \<and> n > 0")
    case True
    with 1(3) show ?thesis by (cases chunk) (auto simp: match_ranges.simps)
  next
    case False
    with 1(3) obtain lo c1 where c1: "getEsc chunk = Some (lo, c1)"
      by (auto simp: match_ranges.simps[of r chunk] split: option.splits if_splits)
    note l = getEsc_shorter[OF c1]
    show ?thesis
    proof (cases "hd c1 = CHR ''-''")
      case True
      with 1(3) False c1 obtain hi c2 where c2: "getEsc (tl c1) = Some (hi, c2)"
        "match_ranges r c2 (n + 1) (m \<or> (lo \<le> r \<and> r \<le> hi)) = Some (b, rest)"
        by (auto simp: match_ranges.simps[of r chunk] split: option.splits)
      from 1(1)[OF False c1 refl True c2(1) refl c2(2)] getEsc_shorter[OF c2(1)] l
      show ?thesis by simp
    next
      case noteq: False
      with 1(3) False c1 have "match_ranges r c1 (n + 1) (m \<or> lo = r) = Some (b, rest)"
        by (auto simp: match_ranges.simps[of r chunk])
      from 1(2)[OF False c1 refl noteq this] l show ?thesis by simp
    qed
  qed
qed

text \<open>
  \<open>matchChunk\<close>: \<open>Some (Some rest)\<close> is a match, \<open>Some None\<close> none. \<open>failed\<close> marks that the name is
  no longer read while the rest of the chunk is checked for syntax.
\<close>

function (sequential) match_chunk :: "bool \<Rightarrow> string \<Rightarrow> string \<Rightarrow> string option option" where
  "match_chunk failed0 chunk s =
     (if chunk = [] then Some (if failed0 then None else Some s)
      else let failed = (failed0 \<or> s = []) in
        if hd chunk = CHR ''['' then
          (let (r, n) = (if failed then (0, 0) else DecodeRune s);
               c1 = tl chunk;
               negated = (c1 \<noteq> [] \<and> hd c1 = CHR ''^'')
           in case match_ranges r (if negated then tl c1 else c1) 0 False of
                None \<Rightarrow> None
              | Some (match, rest) \<Rightarrow> match_chunk (failed \<or> match = negated) rest (drop n s))
        else if hd chunk = CHR ''?'' then
          match_chunk (failed \<or> hd s = slash) (tl chunk)
            (if failed then s else drop (snd (DecodeRune s)) s)
        else if hd chunk = CHR 0x5C \<and> tl chunk = [] then None
        else let c1 = (if hd chunk = CHR 0x5C then tl chunk else chunk)
             in match_chunk (failed \<or> hd c1 \<noteq> hd s) (tl c1) (if failed then s else tl s))"
  by pat_completeness auto
termination
proof (relation "measure (\<lambda>(f, chunk, s). length chunk)")
  fix failed :: bool and chunk s c1 rest :: string and negated and r n and p x match
  assume "chunk \<noteq> []" "c1 = tl chunk"
    and m: "match_ranges r (if negated then tl c1 else c1) 0 False = Some x" "(match, rest) = x"
  then have "length rest < length (if negated then tl c1 else c1)"
    using match_ranges_shorter[of r "if negated then tl c1 else c1" 0 False match rest] by auto
  then have "length rest < length chunk"
    using \<open>chunk \<noteq> []\<close> \<open>c1 = tl chunk\<close> by (auto split: if_splits)
  then show "((f1, rest, t), f2, chunk, s) \<in> measure (\<lambda>(f, chunk, s). length chunk)" for f1 f2 t
    by simp
qed auto

declare match_chunk.simps [simp del]

subsection \<open>Patterns\<close>

text \<open>\<open>matchChunk(chunk, name)\<close>.\<close>

definition matchChunk :: "string \<Rightarrow> string \<Rightarrow> string option option" where
  "matchChunk chunk name = match_chunk False chunk name"

text \<open>
  The loop after a star: skip one byte at a time, none of them a separator. The result is the
  rest of the name where the chunk fits, \<open>Some None\<close> when it fits nowhere.
\<close>

fun match_star :: "bool \<Rightarrow> string \<Rightarrow> string \<Rightarrow> string option option" where
  "match_star final chunk [] = Some None"
| "match_star final chunk (c # name) =
     (if c = slash then Some None
      else case matchChunk chunk name of
             None \<Rightarrow> None
           | Some None \<Rightarrow> match_star final chunk name
           | Some (Some t) \<Rightarrow>
               if final \<and> t \<noteq> [] then match_star final chunk name else Some (Some t))"

lemma scan_to_star_pos: "c \<noteq> CHR ''*'' \<Longrightarrow> 0 < scan_to_star False (c # cs)"
  by (cases cs) auto

lemma scanChunk_shorter:
  assumes "scanChunk pattern = (star, chunk, rest)" and "pattern \<noteq> []"
  shows "length rest < length pattern"
proof -
  let ?p = "dropWhile (\<lambda>c. c = CHR ''*'') pattern"
  have rest: "rest = drop (scan_to_star False ?p) ?p"
    using assms by (simp add: scanChunk_def Let_def)
  show ?thesis
  proof (cases "hd pattern = CHR ''*''")
    case True
    then have "length ?p < length pattern"
      using assms(2) length_dropWhile_le[of _ "tl pattern"] by (cases pattern) (auto simp: le_imp_less_Suc)
    then show ?thesis by (simp add: rest)
  next
    case False
    then have "?p = pattern" using assms(2) by (cases pattern) auto
    moreover have "0 < scan_to_star False pattern"
      using False assms(2) scan_to_star_pos by (cases pattern) auto
    ultimately show ?thesis using assms(2) by (simp add: rest)
  qed
qed

text \<open>The rest of a pattern that no longer matches is still checked for syntax.\<close>

function (sequential) check_rest :: "string \<Rightarrow> bool option" where
  "check_rest pattern =
     (if pattern = [] then Some False
      else case scanChunk pattern of
             (_, chunk, rest) \<Rightarrow>
               (case matchChunk chunk [] of None \<Rightarrow> None | Some _ \<Rightarrow> check_rest rest))"
  by pat_completeness auto
termination
  by (relation "measure length") (auto dest: scanChunk_shorter[OF sym])

function (sequential) Match :: "string \<Rightarrow> string \<Rightarrow> bool option" where
  "Match pattern name =
     (if pattern = [] then Some (name = [])
      else case scanChunk pattern of
        (star, chunk, rest) \<Rightarrow>
          if star \<and> chunk = [] then Some (slash \<notin> set name)
          else (case matchChunk chunk name of
             None \<Rightarrow> None
           | Some r \<Rightarrow>
               if r \<noteq> None \<and> (r = Some [] \<or> rest \<noteq> []) then Match rest (the r)
               else if star then
                 (case match_star (rest = []) chunk name of
                    None \<Rightarrow> None
                  | Some (Some t) \<Rightarrow> Match rest t
                  | Some None \<Rightarrow> check_rest rest)
               else check_rest rest))"
  by pat_completeness auto
termination
  by (relation "measure (\<lambda>(p, n). length p)") (auto dest: scanChunk_shorter[OF sym])

declare check_rest.simps [simp del] Match.simps [simp del]

text \<open>
  The shapes of pattern that the shipped configuration uses: a literal name matches itself only,
  and a literal prefix followed by a star matches the names with that prefix.
\<close>

definition literal_char :: "char \<Rightarrow> bool" where
  "literal_char c \<longleftrightarrow> c \<notin> set ''*?['' \<and> c \<noteq> CHR 0x5C \<and> c \<noteq> slash"

lemma scan_literal: "list_all literal_char s \<Longrightarrow> scan_to_star False (s @ CHR ''*'' # t) = length s"
  by (induction s) (auto simp: literal_char_def)

lemma scan_literal_end: "list_all literal_char s \<Longrightarrow> scan_to_star False s = length s"
  by (induction s) (auto simp: literal_char_def)

lemma match_chunk_Nil: "match_chunk failed [] n = Some (if failed then None else Some n)"
  by (simp add: match_chunk.simps)

lemma match_chunk_literal_step:
  "literal_char c \<Longrightarrow> match_chunk failed (c # s) n =
     (let f = failed \<or> n = [] in match_chunk (f \<or> c \<noteq> hd n) s (if f then n else tl n))"
  by (subst match_chunk.simps) (auto simp: literal_char_def Let_def)

lemma match_chunk_failed_literal:
  "list_all literal_char s \<Longrightarrow> match_chunk True s n = Some None"
  by (induction s arbitrary: n) (auto simp: match_chunk_Nil match_chunk_literal_step)

lemma match_chunk_literal:
  "list_all literal_char s \<Longrightarrow>
     match_chunk False s n = Some (if HasPrefix n s then Some (drop (length s) n) else None)"
proof (induction s arbitrary: n)
  case Nil
  then show ?case by (simp add: match_chunk_Nil)
next
  case (Cons c s)
  then show ?case
    by (cases n; cases "c = hd n") (simp_all add: match_chunk_literal_step match_chunk_failed_literal)
qed

lemma Match_literal:
  assumes "list_all literal_char p" and "p \<noteq> []"
  shows "Match p n = Some (n = p)"
proof -
  have "hd p \<noteq> CHR ''*''" using assms by (cases p) (auto simp: literal_char_def)
  then have "dropWhile (\<lambda>c. c = CHR ''*'') p = p" using assms(2) by (cases p) auto
  with assms \<open>hd p \<noteq> _\<close> have s: "scanChunk p = (False, p, [])"
    by (simp add: scanChunk_def Let_def scan_literal_end)
  have "HasPrefix n p \<and> drop (length p) n = [] \<longleftrightarrow> n = p"
    by (auto simp: HasPrefix_def)
  with s assms show ?thesis
    by (auto simp: Match.simps[of p] Match.simps[of "[]"] check_rest.simps matchChunk_def
        match_chunk_literal HasPrefix_def)
qed

lemma Match_prefix_star:
  assumes "list_all literal_char p" and "p \<noteq> []" and "slash \<notin> set n"
  shows "Match (p @ ''*'') n = Some (HasPrefix n p)"
proof -
  have h: "hd (p @ ''*'') \<noteq> CHR ''*''" using assms by (cases p) (auto simp: literal_char_def)
  then have "dropWhile (\<lambda>c. c = CHR ''*'') (p @ ''*'') = p @ ''*''"
    using assms(2) by (cases p) auto
  with assms h have s: "scanChunk (p @ ''*'') = (False, p, ''*'')"
    by (simp add: scanChunk_def Let_def scan_literal)
  have star: "scanChunk ''*'' = (True, [], [])" by code_simp
  have "slash \<notin> set (drop (length p) n)" using assms(3) by (meson in_set_dropD)
  then have "Match ''*'' (drop (length p) n) = Some True"
    using star by (simp add: Match.simps[of "''*''"])
  moreover have "check_rest ''*'' = Some False"
    using star by (simp add: check_rest.simps[of "''*''"] check_rest.simps[of "[]"]
        matchChunk_def match_chunk.simps)
  ultimately show ?thesis
    using assms s
    by (subst Match.simps) (auto simp: matchChunk_def match_chunk_literal)
qed

end
