(* ===== verification/StoragePaths.thy ===== *)
theory StoragePaths
  imports AuthStore GoMatch
begin

text \<open>
  The path half of \<open>internal/storage/storage.go\<close>: cleaning virtual paths, mounts, the ignore
  rules, and the resolution of a user's path to a path on disk.
\<close>

record Root =
  r_Base :: string
  r_PublicDir :: string
  r_DropboxDir :: string
  r_Ignore :: "string list"

definition cleanName :: "string \<Rightarrow> string" where
  "cleanName name = Trim (replace_char (CHR 0x5C) slash name) [slash]"

definition normalizeIgnore :: "string list \<Rightarrow> string list" where
  "normalizeIgnore patterns = filter (\<lambda>p. p \<noteq> []) (map TrimSpace patterns)"

definition cleanVirtual :: "string \<Rightarrow> string" where
  "cleanVirtual p0 =
     (let p = TrimSpace (replace_char (CHR 0x5C) slash p0)
      in if p = [] then [slash]
         else let clean = Clean (slash # TrimPrefix p [slash])
              in if clean = ''.'' then [slash] else clean)"

definition pathJoinVirtual :: "string \<Rightarrow> string \<Rightarrow> string" where
  "pathJoinVirtual base name =
     (if base = [slash] then slash # name else Join_paths [base, name])"

definition isInternalStorageName :: "string \<Rightarrow> bool" where
  "isInternalStorageName name \<longleftrightarrow>
     name = ''._macftpd_trash'' \<or> name = ''._macftpd_versions'' \<or> name = ''._macftpd_uploads''"

definition ignored_segment :: "string list \<Rightarrow> string \<Rightarrow> bool" where
  "ignored_segment patterns segment \<longleftrightarrow>
     list_ex (\<lambda>pattern. case Match pattern segment of
        Some matched \<Rightarrow> matched | None \<Rightarrow> pattern = segment) patterns"

definition IsIgnoredVirtual :: "Root \<Rightarrow> string \<Rightarrow> bool" where
  "IsIgnoredVirtual r virtual0 =
     (let virtual = cleanVirtual virtual0
      in if virtual = [slash] then False
         else list_ex (\<lambda>segment. isInternalStorageName segment \<or> ignored_segment (r_Ignore r) segment)
                (Split (TrimPrefix virtual [slash]) slash))"

definition mountSuffix :: "string \<Rightarrow> string \<Rightarrow> string \<Rightarrow> string option" where
  "mountSuffix home virtual mount =
     (let mountRoot = pathJoinVirtual home mount
      in if virtual = mountRoot then Some []
         else if HasPrefix virtual (mountRoot @ [slash])
         then Some (TrimPrefix virtual (mountRoot @ [slash]))
         else None)"

definition mountVirtual :: "Root \<Rightarrow> User \<Rightarrow> string \<Rightarrow> string \<Rightarrow> string" where
  "mountVirtual r user home0 virtual =
     (let home = (if home0 = [] then [slash] else home0);
          pub = (if p_Public (u_Permissions user) then mountSuffix home virtual ''public'' else None);
          dbx = (if p_Dropbox (u_Permissions user) then mountSuffix home virtual ''dropbox'' else None)
      in case pub of
           Some rest \<Rightarrow> cleanVirtual (Join_paths [[slash], r_PublicDir r, rest])
         | None \<Rightarrow>
             (case dbx of
                Some rest \<Rightarrow>
                  cleanVirtual (Join_paths [[slash], r_DropboxDir r, u_Username user, rest])
              | None \<Rightarrow> virtual))"

definition realFromVirtual :: "Root \<Rightarrow> string \<Rightarrow> err + string" where
  "realFromVirtual r virtual =
     (let realPath = Clean (Join_paths [r_Base r, TrimPrefix virtual [slash]])
      in if realPath \<noteq> r_Base r \<and> \<not> HasPrefix realPath (r_Base r @ [slash])
         then Inl ErrOutsideRoot else Inr realPath)"

definition relFromReal :: "Root \<Rightarrow> string \<Rightarrow> err + string" where
  "relFromReal r realPath0 =
     (let realPath = Clean realPath0
      in if realPath \<noteq> r_Base r \<and> \<not> HasPrefix realPath (r_Base r @ [slash])
         then Inl ErrOutsideRoot
         else case Rel (r_Base r) realPath of
                None \<Rightarrow> Inl ErrOutsideRoot
              | Some rel \<Rightarrow> Inr (if rel = ''.'' \<or> rel = [] then ''.'' else rel))"

definition Resolve :: "Root \<Rightarrow> User \<Rightarrow> string \<Rightarrow> string \<Rightarrow> err + string \<times> string" where
  "Resolve r user cwd requested0 =
     (let home = cleanVirtual (u_Home user);
          requested = (if requested0 = [] then cwd else requested0);
          virtual = (if HasPrefix requested [slash] then cleanVirtual requested
                     else cleanVirtual (Join_paths [cwd, requested]));
          realVirtual = mountVirtual r user home virtual
      in if home \<noteq> [slash] \<and> virtual \<noteq> home \<and> \<not> HasPrefix virtual (home @ [slash])
         then Inl ErrOutsideRoot
         else if IsIgnoredVirtual r realVirtual then Inl ErrOutsideRoot
         else case realFromVirtual r realVirtual of
                Inl e \<Rightarrow> Inl ErrOutsideRoot
              | Inr realPath \<Rightarrow> Inr (realPath, virtual))"

definition ResolveAdmin :: "Root \<Rightarrow> string \<Rightarrow> err + string \<times> string" where
  "ResolveAdmin r virtual0 =
     (let virtual = cleanVirtual virtual0
      in if IsIgnoredVirtual r virtual then Inl ErrOutsideRoot
         else case realFromVirtual r virtual of
                Inl e \<Rightarrow> Inl ErrOutsideRoot
              | Inr realPath \<Rightarrow> Inr (realPath, virtual))"

definition IsPublicReal :: "Root \<Rightarrow> string \<Rightarrow> bool" where
  "IsPublicReal r realPath0 =
     (let realPath = Clean realPath0; publicRoot = Join_paths [r_Base r, r_PublicDir r]
      in realPath = publicRoot \<or> HasPrefix realPath (publicRoot @ [slash]))"

definition safeName :: "string \<Rightarrow> string" where
  "safeName name0 =
     (let name = TrimSpace (ToLower name0)
      in if name = [] then ''system''
         else let b = filter name_char name in if b = [] then ''system'' else b)"

definition retainedRoot :: "string \<Rightarrow> string" where
  "retainedRoot kind =
     (if kind = ''versions'' \<or> kind = ''version'' then ''._macftpd_versions'' else ''._macftpd_trash'')"

definition mustRel :: "string \<Rightarrow> string \<Rightarrow> string" where
  "mustRel base realPath =
     (case Rel base realPath of None \<Rightarrow> Base_name realPath | Some rel \<Rightarrow> rel)"

subsection \<open>Virtual paths are lists of segments\<close>

lemma cleanVirtual_segs: "\<exists>xs. segs xs \<and> cleanVirtual p = abs_path xs"
proof (cases "TrimSpace (replace_char (CHR 0x5C) slash p) = []")
  case True
  then have "segs [] \<and> cleanVirtual p = abs_path []" by (simp add: cleanVirtual_def)
  then show ?thesis by blast
next
  case False
  obtain xs where xs: "segs xs"
      "Clean (slash # TrimPrefix (TrimSpace (replace_char (CHR 0x5C) slash p)) [slash]) = abs_path xs"
    using Clean_rooted by blast
  then have "Clean (slash # TrimPrefix (TrimSpace (replace_char (CHR 0x5C) slash p)) [slash]) \<noteq> ''.''"
    by (simp add: abs_path_def)
  with xs False show ?thesis by (auto simp: cleanVirtual_def Let_def)
qed

text \<open>No backslash survives.\<close>

lemma set_clean_stack: "x \<in> set (clean_stack True out xs) \<Longrightarrow> x \<in> set out \<union> set xs"
  by (induction "True" out xs rule: clean_stack.induct) (auto split: list.splits if_splits)

lemma set_Split: "x \<in> set (Split s c) \<Longrightarrow> set x \<subseteq> set s"
proof (induction s arbitrary: x)
  case (Cons a s)
  then show ?case by (cases "Split s c") (fastforce split: if_splits)+
qed simp

lemma set_Clean_rooted: "set (Clean (slash # p)) \<subseteq> insert slash (set p)"
proof -
  have "set x \<subseteq> insert slash (set p)"
    if "x \<in> set (clean_stack True [] (Split (slash # p) slash))" for x
    using set_clean_stack[OF that] set_Split[of x "slash # p" slash] by auto
  then show ?thesis
    using set_Join[of "clean_stack True [] (Split (slash # p) slash)" "[slash]"]
    by (auto simp: Clean_abs_segs abs_path_def)
qed

lemma set_TrimPrefix: "set (TrimPrefix s p) \<subseteq> set s"
  by (auto simp: TrimPrefix_def dest: in_set_dropD)

lemma cleanVirtual_no_backslash: "CHR 0x5C \<notin> set (cleanVirtual p)"
proof -
  let ?q = "TrimSpace (replace_char (CHR 0x5C) slash p)"
  have "CHR 0x5C \<notin> set (replace_char (CHR 0x5C) slash p)" by (auto simp: replace_char_def)
  then have "CHR 0x5C \<notin> set ?q" using set_TrimSpace by blast
  then have "CHR 0x5C \<notin> set (TrimPrefix ?q [slash])" using set_TrimPrefix by blast
  then have "CHR 0x5C \<notin> set (Clean (slash # TrimPrefix ?q [slash]))"
    using set_Clean_rooted[of "TrimPrefix ?q [slash]"] by auto
  then show ?thesis by (simp add: cleanVirtual_def Let_def)
qed

lemma replace_char_fresh: "a \<notin> set s \<Longrightarrow> replace_char a b s = s"
  by (induction s) (auto simp: replace_char_def)

lemma set_abs_path: "set (abs_path xs) \<subseteq> insert slash (\<Union>x \<in> set xs. set x)"
  using set_Join[of xs "[slash]"] by (auto simp: abs_path_def)

text \<open>A path that ends in no white space, and holds no backslash, is its own cleaning.\<close>

definition tidy :: "string \<Rightarrow> bool" where
  "tidy p \<longleftrightarrow> TrimSpace p = p \<and> CHR 0x5C \<notin> set p"

lemma cleanVirtual_tidy:
  "segs xs \<Longrightarrow> tidy (abs_path xs) \<Longrightarrow> cleanVirtual (abs_path xs) = abs_path xs"
proof -
  assume a: "segs xs" "tidy (abs_path xs)"
  have "slash # TrimPrefix (abs_path xs) [slash] = abs_path xs"
    by (simp add: abs_path_def TrimPrefix_def)
  moreover have "abs_path xs \<noteq> ''.''" by (simp add: abs_path_def)
  ultimately show ?thesis
    using a by (simp add: cleanVirtual_def tidy_def replace_char_fresh)
qed

subsection \<open>The end of a path decides whether it is tidy\<close>

abbreviation rev_spaces :: "string list" where
  "rev_spaces \<equiv> map rev unicode_spaces"

lemma slash_not_space: "w \<in> set unicode_spaces \<Longrightarrow> slash \<notin> set w"
  by (auto simp: unicode_spaces_def)

lemma space_width_0_iff:
  "(\<forall>w \<in> set ws. w \<noteq> []) \<Longrightarrow> space_width ws s = 0 \<longleftrightarrow> (\<forall>w \<in> set ws. \<not> prefix w s)"
proof -
  assume ne: "\<forall>w \<in> set ws. w \<noteq> []"
  show ?thesis
  proof (cases "filter (HasPrefix s) ws")
    case Nil
    then show ?thesis by (auto simp: space_width_def filter_empty_conv HasPrefix_iff)
  next
    case (Cons w l)
    then have "w \<in> set (filter (HasPrefix s) ws)" by simp
    then have "w \<in> set ws \<and> HasPrefix s w" by simp
    with Cons ne show ?thesis by (auto simp: space_width_def HasPrefix_iff)
  qed
qed

lemma prefix_before_slash:
  "slash \<notin> set w \<Longrightarrow> prefix w (s @ slash # t) \<longleftrightarrow> prefix w s"
  by (auto simp: prefix_append prefix_Cons)

lemma drop_spaces_id_iff:
  assumes "\<forall>w \<in> set ws. w \<noteq> []"
  shows "drop_spaces ws s = s \<longleftrightarrow> s = [] \<or> space_width ws s = 0"
proof (cases s)
  case (Cons c cs)
  have "length (drop_spaces ws t) \<le> length t" for t
  proof (induction ws t rule: drop_spaces.induct)
    case (2 ws c cs)
    then show ?case by (fastforce split: nat.split)
  qed simp
  then have "drop_spaces ws (drop n cs) \<noteq> c # cs" for n
    by (metis impossible_Cons length_drop diff_le_self le_trans)
  with Cons show ?thesis by (auto split: nat.splits)
qed simp

lemma TrimSpace_abs_path:
  assumes "segs xs" and "xs \<noteq> []"
  shows "TrimSpace (abs_path xs) = abs_path xs \<longleftrightarrow> space_width rev_spaces (rev (last xs)) = 0"
proof -
  have left: "drop_spaces unicode_spaces (abs_path xs) = abs_path xs"
    by (rule drop_spaces_fresh) (auto simp: slash_not_space spaces_not_Nil)
  obtain t where t: "abs_path xs = t @ slash # last xs"
  proof (cases "butlast xs = []")
    case True
    with assms have "abs_path xs = [] @ slash # last xs"
      by (cases xs) (auto simp: abs_path_def split: if_splits)
    then show thesis by (rule that)
  next
    case False
    then have "abs_path (butlast xs @ [last xs]) = abs_path (butlast xs) @ slash # last xs"
      by (subst abs_path_append) simp_all
    moreover have "butlast xs @ [last xs] = xs" using assms by simp
    ultimately show thesis using that by metis
  qed
  have ne: "\<forall>w \<in> set rev_spaces. w \<noteq> []" by (auto simp: spaces_not_Nil)
  have "space_width rev_spaces (rev (abs_path xs)) = 0 \<longleftrightarrow>
      space_width rev_spaces (rev (last xs)) = 0"
    unfolding space_width_0_iff[OF ne]
    by (auto simp: t prefix_before_slash slash_not_space)
  then show ?thesis
    using drop_spaces_id_iff[OF ne, of "rev (abs_path xs)"]
    by (auto simp: TrimSpace_def left rev_swap)
qed

lemma tidy_abs_path:
  assumes "segs xs" and "xs \<noteq> []"
  shows "tidy (abs_path xs) \<longleftrightarrow> space_width rev_spaces (rev (last xs)) = 0 \<and>
    (\<forall>x \<in> set xs. CHR 0x5C \<notin> set x)"
proof -
  have "CHR 0x5C \<in> set (abs_path xs) \<longleftrightarrow> (\<exists>x \<in> set xs. CHR 0x5C \<in> set x)"
  proof -
    have "set (Join ys [slash]) \<union> {slash} = (\<Union>y \<in> set ys. set y) \<union> {slash}" for ys :: "string list"
      by (induction ys "[slash]" rule: Join.induct) auto
    then show ?thesis by (auto simp: abs_path_def)
  qed
  then show ?thesis using TrimSpace_abs_path[OF assms] by (auto simp: tidy_def)
qed

lemma tidy_root [simp]: "tidy [slash]"
  by code_simp

subsection \<open>A storage root\<close>

text \<open>
  A configuration the code accepts and that names usable directories: the base is a clean
  absolute path other than the root of the file system, and the public and dropbox directories
  are single segments that cleaning leaves alone.
\<close>

definition plain_seg :: "string \<Rightarrow> bool" where
  "plain_seg x \<longleftrightarrow> seg x \<and> tidy (abs_path [x])"

definition root_ok :: "Root \<Rightarrow> string list \<Rightarrow> bool" where
  "root_ok r bs \<longleftrightarrow> segs bs \<and> bs \<noteq> [] \<and> r_Base r = abs_path bs \<and>
     plain_seg (r_PublicDir r) \<and> plain_seg (r_DropboxDir r)"

lemma root_okD:
  assumes "root_ok r bs"
  shows "segs bs" "bs \<noteq> []" "r_Base r = abs_path bs" "seg (r_PublicDir r)" "seg (r_DropboxDir r)"
  using assms by (simp_all add: root_ok_def plain_seg_def)

lemma realFromVirtual_abs:
  assumes "root_ok r bs" and "segs xs"
  shows "realFromVirtual r (abs_path xs) = Inr (abs_path (bs @ xs))"
proof -
  note r = root_okD[OF assms(1)]
  have "Join_paths [abs_path bs, Join xs [slash]] = abs_path (bs @ xs)"
    using Join_paths_segs[OF r(1), of "[xs]"] assms(2) by simp
  moreover have "abs_path (bs @ xs) = abs_path bs \<or> HasPrefix (abs_path (bs @ xs)) (abs_path bs @ [slash])"
    using below_iff[of bs "bs @ xs"] r assms(2) by (cases "xs = []") (auto simp: strict_prefix_def)
  ultimately show ?thesis
    using r assms(2) by (auto simp: realFromVirtual_def Let_def)
qed

text \<open>Only paths in the base have a relative form, and it is the rest of their segments.\<close>

lemma relFromReal_abs:
  assumes "root_ok r bs" and "segs xs"
  shows "relFromReal r (abs_path (bs @ xs)) = Inr (if xs = [] then ''.'' else Join xs [slash])"
proof -
  note r = root_okD[OF assms(1)]
  have "abs_path (bs @ xs) = abs_path bs \<or> HasPrefix (abs_path (bs @ xs)) (abs_path bs @ [slash])"
    using below_iff[of bs "bs @ xs"] r assms(2) by (cases "xs = []") (auto simp: strict_prefix_def)
  then show ?thesis
    using r assms(2) by (auto simp: relFromReal_def Let_def Rel_below Join_segs_Nil)
qed

lemma relFromReal_outside:
  assumes "root_ok r bs" and "segs ys" and "\<not> prefix bs ys"
  shows "relFromReal r (abs_path ys) = Inl ErrOutsideRoot"
proof -
  note r = root_okD[OF assms(1)]
  have "abs_path ys \<noteq> abs_path bs" using abs_path_inj[of ys bs] r assms by auto
  moreover have "\<not> HasPrefix (abs_path ys) (abs_path bs @ [slash])"
    using below_iff[of bs ys] r assms by (auto simp: strict_prefix_def)
  ultimately show ?thesis using r assms(2) by (simp add: relFromReal_def)
qed

lemma IsIgnored_abs:
  assumes "segs xs" and "tidy (abs_path xs)"
  shows "IsIgnoredVirtual r (abs_path xs) \<longleftrightarrow>
    (\<exists>x \<in> set xs. isInternalStorageName x \<or> ignored_segment (r_Ignore r) x)"
  using assms
  by (auto simp: IsIgnoredVirtual_def Let_def cleanVirtual_tidy Split_segs list_ex_iff)

subsection \<open>Mounts\<close>

lemma pathJoinVirtual_seg:
  "segs hs \<Longrightarrow> seg m \<Longrightarrow> pathJoinVirtual (abs_path hs) m = abs_path (hs @ [m])"
  by (auto simp: pathJoinVirtual_def Join_paths_seg) (simp add: abs_path_def)

lemma mountSuffix_segs:
  assumes "segs hs" and "segs vs" and "seg m"
  shows "mountSuffix (abs_path hs) (abs_path vs) m =
    (if prefix (hs @ [m]) vs then Some (Join (drop (Suc (length hs)) vs) [slash]) else None)"
proof -
  have below: "HasPrefix (abs_path vs) (abs_path (hs @ [m]) @ [slash]) \<longleftrightarrow> strict_prefix (hs @ [m]) vs"
    using assms by (intro below_iff) simp_all
  have eq: "abs_path vs = abs_path (hs @ [m]) \<longleftrightarrow> vs = hs @ [m]"
    using assms by (intro abs_path_inj) simp_all
  show ?thesis
  proof (cases "strict_prefix (hs @ [m]) vs")
    case True
    then obtain zs where zs: "vs = (hs @ [m]) @ zs" "zs \<noteq> []"
      by (auto simp: strict_prefix_def prefix_def)
    then have "abs_path vs = (abs_path (hs @ [m]) @ [slash]) @ Join zs [slash]"
      by (simp add: abs_path_append[of "hs @ [m]" zs, simplified])
    then have "TrimPrefix (abs_path vs) (abs_path (hs @ [m]) @ [slash]) = Join zs [slash]"
      by (simp only: TrimPrefix_append)
    with True zs eq below show ?thesis
      using assms by (simp add: mountSuffix_def pathJoinVirtual_seg Let_def)
  next
    case False
    with eq below show ?thesis
      using assms by (auto simp: mountSuffix_def pathJoinVirtual_seg Let_def strict_prefix_def)
  qed
qed

text \<open>Where a virtual path leads: into the public or dropbox directory, or itself.\<close>

definition via_public :: "User \<Rightarrow> string list \<Rightarrow> string list \<Rightarrow> bool" where
  "via_public user hs vs \<longleftrightarrow> p_Public (u_Permissions user) \<and> prefix (hs @ [''public'']) vs"

definition via_dropbox :: "User \<Rightarrow> string list \<Rightarrow> string list \<Rightarrow> bool" where
  "via_dropbox user hs vs \<longleftrightarrow>
     p_Dropbox (u_Permissions user) \<and> prefix (hs @ [''dropbox'']) vs \<and> \<not> via_public user hs vs"

definition mount_target :: "Root \<Rightarrow> User \<Rightarrow> string list \<Rightarrow> string list \<Rightarrow> string list" where
  "mount_target r user hs vs =
     (if via_public user hs vs then r_PublicDir r # drop (Suc (length hs)) vs
      else if via_dropbox user hs vs
      then r_DropboxDir r # u_Username user # drop (Suc (length hs)) vs
      else vs)"

lemma seg_mounts: "seg ''public''" "seg ''dropbox''"
  by (simp_all add: seg_def)

lemma segs_drop: "segs xs \<Longrightarrow> segs (drop n xs)"
  by (auto simp: segs_def list_all_iff dest: in_set_dropD)

lemma mountVirtual_segs:
  assumes "root_ok r bs" and "segs hs" and "segs vs" and "seg (u_Username user)"
  shows "mountVirtual r user (abs_path hs) (abs_path vs) =
    (if via_public user hs vs \<or> via_dropbox user hs vs
     then cleanVirtual (abs_path (mount_target r user hs vs)) else abs_path vs)"
proof -
  note r = root_okD[OF assms(1)]
  let ?zs = "drop (Suc (length hs)) vs"
  have "Join_paths [[slash], r_PublicDir r, Join ?zs [slash]] = abs_path (r_PublicDir r # ?zs)"
    using Join_paths_segs[of "[]" "[[r_PublicDir r], ?zs]"] r assms(3) by (simp add: segs_drop)
  moreover have "Join_paths [[slash], r_DropboxDir r, u_Username user, Join ?zs [slash]] =
      abs_path (r_DropboxDir r # u_Username user # ?zs)"
    using Join_paths_segs[of "[]" "[[r_DropboxDir r], [u_Username user], ?zs]"] r assms(3,4)
    by (simp add: segs_drop)
  ultimately show ?thesis
    using assms(2,3)
    unfolding mountVirtual_def Let_def
    by (simp add: mountSuffix_segs seg_mounts mount_target_def via_public_def via_dropbox_def)
qed

lemma mount_target_segs:
  "root_ok r bs \<Longrightarrow> segs vs \<Longrightarrow> seg (u_Username user) \<Longrightarrow> segs (mount_target r user hs vs)"
  by (simp add: mount_target_def root_okD segs_drop)

lemma tidy_Cons:
  "seg x \<Longrightarrow> segs xs \<Longrightarrow> tidy (abs_path xs) \<Longrightarrow> plain_seg x \<Longrightarrow> tidy (abs_path (x # xs))"
  by (cases "xs = []") (auto simp: tidy_abs_path plain_seg_def)

lemma tidy_drop: "segs xs \<Longrightarrow> tidy (abs_path xs) \<Longrightarrow> tidy (abs_path (drop n xs))"
proof (cases "length xs \<le> n")
  case False
  assume "segs xs" "tidy (abs_path xs)"
  moreover have "xs \<noteq> []" "drop n xs \<noteq> []" using False by auto
  ultimately show ?thesis by (auto simp: tidy_abs_path segs_drop dest: in_set_dropD)
qed simp

lemma mount_target_tidy:
  assumes "root_ok r bs" and "segs vs" and "plain_seg (u_Username user)" and "tidy (abs_path vs)"
  shows "tidy (abs_path (mount_target r user hs vs))"
  using assms tidy_drop[OF assms(2,4)]
  by (auto simp: mount_target_def root_ok_def plain_seg_def segs_drop intro!: tidy_Cons)

subsection \<open>Resolution\<close>

lemma Resolve_cases:
  assumes root: "root_ok r bs" and user: "plain_seg (u_Username user)"
    and home: "cleanVirtual (u_Home user) = abs_path hs" "segs hs"
    and res: "Resolve r user cwd req = Inr (real, virt)"
  obtains vs xs where "segs vs" "segs xs" "virt = abs_path vs" "prefix hs vs"
    "real = abs_path (bs @ xs)" "\<not> IsIgnoredVirtual r (abs_path xs)"
    "if via_public user hs vs \<or> via_dropbox user hs vs
     then abs_path xs = cleanVirtual (abs_path (mount_target r user hs vs)) else xs = vs"
proof -
  have seg: "seg (u_Username user)" using user by (simp add: plain_seg_def)
  define requested where "requested = (if req = [] then cwd else req)"
  define virtual where "virtual = (if HasPrefix requested [slash] then cleanVirtual requested
      else cleanVirtual (Join_paths [cwd, requested]))"
  obtain vs where vs: "segs vs" "virtual = abs_path vs"
    using cleanVirtual_segs[of requested] cleanVirtual_segs[of "Join_paths [cwd, requested]"]
    by (cases "HasPrefix requested [slash]") (auto simp: virtual_def)
  define rv where "rv = mountVirtual r user (abs_path hs) (abs_path vs)"
  have rv: "rv = (if via_public user hs vs \<or> via_dropbox user hs vs
      then cleanVirtual (abs_path (mount_target r user hs vs)) else abs_path vs)"
    using mountVirtual_segs[OF root home(2) vs(1) seg] by (simp add: rv_def)
  obtain ts where ts: "segs ts" "cleanVirtual (abs_path (mount_target r user hs vs)) = abs_path ts"
    using cleanVirtual_segs by blast
  define xs where "xs = (if via_public user hs vs \<or> via_dropbox user hs vs then ts else vs)"
  have xs: "segs xs" "rv = abs_path xs"
    using vs(1) ts rv by (simp_all add: xs_def)
  have eq: "Resolve r user cwd req =
      (if abs_path hs \<noteq> [slash] \<and> abs_path vs \<noteq> abs_path hs \<and>
          \<not> HasPrefix (abs_path vs) (abs_path hs @ [slash]) then Inl ErrOutsideRoot
       else if IsIgnoredVirtual r rv then Inl ErrOutsideRoot
       else Inr (abs_path (bs @ xs), abs_path vs))"
    unfolding Resolve_def Let_def home(1) requested_def[symmetric] virtual_def[symmetric] vs(2)
      rv_def[symmetric]
    by (simp add: xs realFromVirtual_abs[OF root])
  have "prefix hs vs"
  proof (cases "hs = []")
    case False
    with eq res show ?thesis
      using below_iff[of hs vs] home(2) vs(1)
      by (auto simp: abs_path_inj strict_prefix_def split: if_splits)
  qed simp
  moreover have "\<not> IsIgnoredVirtual r (abs_path xs)" "real = abs_path (bs @ xs)" "virt = abs_path vs"
    using eq res by (auto simp: xs(2) split: if_splits)
  moreover have "if via_public user hs vs \<or> via_dropbox user hs vs
     then abs_path xs = cleanVirtual (abs_path (mount_target r user hs vs)) else xs = vs"
    using ts by (simp add: xs_def)
  ultimately show thesis using that[of vs xs] vs(1) xs(1) by blast
qed

text \<open>C18: resolution confines a user. Whatever path a user asks for, the path on disk is
  inside the storage root and the virtual path inside the user's home. If the virtual path ends in
  no white space, the path on disk is moreover in the user's home directory, in the public
  directory if the user has that permission, or in the user's own dropbox if the user has that
  one, and none of its segments is an internal directory or matches an ignore pattern. Without
  the mounts it is in the home directory in any case.\<close>

theorem resolve_confined:
  assumes "root_ok r bs" and "plain_seg (u_Username user)"
    and "cleanVirtual (u_Home user) = abs_path hs" and "segs hs"
    and "Resolve r user cwd req = Inr (real, virt)"
  shows "\<exists>vs xs. segs vs \<and> segs xs \<and> virt = abs_path vs \<and> prefix hs vs \<and>
    real = abs_path (bs @ xs) \<and>
    (tidy virt \<longrightarrow>
      (prefix hs xs \<or> (p_Public (u_Permissions user) \<and> prefix [r_PublicDir r] xs) \<or>
       (p_Dropbox (u_Permissions user) \<and> prefix [r_DropboxDir r, u_Username user] xs)) \<and>
      (\<forall>x \<in> set xs. \<not> isInternalStorageName x \<and> \<not> ignored_segment (r_Ignore r) x)) \<and>
    (\<not> p_Public (u_Permissions user) \<and> \<not> p_Dropbox (u_Permissions user) \<longrightarrow> prefix hs xs)"
proof -
  from Resolve_cases[OF assms] obtain vs xs where o: "segs vs" "segs xs" "virt = abs_path vs"
    "prefix hs vs" "real = abs_path (bs @ xs)" "\<not> IsIgnoredVirtual r (abs_path xs)"
    "if via_public user hs vs \<or> via_dropbox user hs vs
     then abs_path xs = cleanVirtual (abs_path (mount_target r user hs vs)) else xs = vs" .
  have seg: "seg (u_Username user)" using assms(2) by (simp add: plain_seg_def)
  have target: "xs = mount_target r user hs vs \<and> tidy (abs_path xs)" if "tidy virt"
  proof -
    have t: "tidy (abs_path (mount_target r user hs vs))"
      using that o(3) mount_target_tidy[OF assms(1) o(1) assms(2)] by simp
    have "abs_path xs = abs_path (mount_target r user hs vs)"
      using o(7) cleanVirtual_tidy[OF mount_target_segs[OF assms(1) o(1) seg] t]
      by (simp add: mount_target_def split: if_splits)
    with t show ?thesis
      using o(2) mount_target_segs[OF assms(1) o(1) seg] by (simp add: abs_path_inj)
  qed
  have "tidy virt \<longrightarrow>
      (prefix hs xs \<or> (p_Public (u_Permissions user) \<and> prefix [r_PublicDir r] xs) \<or>
       (p_Dropbox (u_Permissions user) \<and> prefix [r_DropboxDir r, u_Username user] xs))"
    using target o(4) by (auto simp: mount_target_def via_public_def via_dropbox_def)
  moreover have "tidy virt \<longrightarrow>
      (\<forall>x \<in> set xs. \<not> isInternalStorageName x \<and> \<not> ignored_segment (r_Ignore r) x)"
    using target o(6) IsIgnored_abs[OF o(2)] by blast
  moreover have "prefix hs xs"
    if "\<not> p_Public (u_Permissions user) \<and> \<not> p_Dropbox (u_Permissions user)"
    using that o(4,7) by (simp add: via_public_def via_dropbox_def)
  ultimately show ?thesis using o by blast
qed

definition sample_root :: Root where
  "sample_root = \<lparr>r_Base = ''/srv/files'', r_PublicDir = ''public'', r_DropboxDir = ''dropbox'',
     r_Ignore = [''.DS_Store'', ''._*'']\<rparr>"

definition sample_user :: User where
  "sample_user = \<lparr>u_Username = ''bob'', u_PasswordHash = ''h'', u_Groups = [], u_Home = ''/bob'',
     u_Disabled = False, u_Permissions = ReadOnlyPermissions\<rparr>"

lemma sample_root_ok: "root_ok sample_root [''srv'', ''files'']"
proof -
  have "plain_seg ''public''" "plain_seg ''dropbox''" by code_simp+
  then show ?thesis by (simp add: root_ok_def sample_root_def seg_def abs_path_def)
qed

lemma sample_user_plain: "plain_seg (u_Username sample_user)"
  by code_simp

theorem resolve_confined_witness:
  "Resolve sample_root sample_user ''/bob/docs'' ''../public/a.txt'' =
     Inr (''/srv/files/public/a.txt'', ''/bob/public/a.txt'') \<and>
   (\<exists>xs. ''/srv/files/public/a.txt'' = abs_path ([''srv'', ''files''] @ xs) \<and>
      (\<forall>x \<in> set xs. \<not> isInternalStorageName x \<and> \<not> ignored_segment [''.DS_Store'', ''._*''] x))"
proof -
  have c: "Resolve sample_root sample_user ''/bob/docs'' ''../public/a.txt'' =
      Inr (''/srv/files/public/a.txt'', ''/bob/public/a.txt'')"
    "cleanVirtual (u_Home sample_user) = abs_path [''bob'']" "segs [''bob'']"
    "tidy ''/bob/public/a.txt''" by code_simp+
  have "r_Ignore sample_root = [''.DS_Store'', ''._*'']" by (simp add: sample_root_def)
  with resolve_confined[OF sample_root_ok sample_user_plain c(2,3,1)] c show ?thesis by metis
qed

text \<open>
  The white space matters: cleaning happens again after a mount is applied, and it trims. A last
  segment of two dots and a space survives the first cleaning as an ordinary name and becomes the
  parent directory in the second, so a user confined to a home directory resolves, through the
  public mount, the storage root itself.
\<close>

lemma mount_escape:
  "Resolve sample_root sample_user ''/'' ''/bob/public/.. /'' = Inr (''/srv/files'', ''/bob/public/.. '')"
  by code_simp

lemma internal_name_behind_white_space:
  "ResolveAdmin sample_root ''/._macftpd_trash/.. /'' =
     Inr (''/srv/files/._macftpd_trash/.. '', ''/._macftpd_trash/.. '')"
  by code_simp

text \<open>C33: administrators reach the whole tree and nothing else. An administrator's path
  resolves exactly when it is not ignored, to the path of the same segments below the base.\<close>

theorem resolve_admin_exact:
  assumes "root_ok r bs"
  shows "\<exists>vs. segs vs \<and> cleanVirtual p = abs_path vs \<and>
    ResolveAdmin r p = (if IsIgnoredVirtual r (abs_path vs) then Inl ErrOutsideRoot
       else Inr (abs_path (bs @ vs), abs_path vs)) \<and>
    (tidy (abs_path vs) \<longrightarrow> (IsIgnoredVirtual r (abs_path vs) \<longleftrightarrow>
       (\<exists>x \<in> set vs. isInternalStorageName x \<or> ignored_segment (r_Ignore r) x)))"
proof -
  obtain vs where "segs vs" "cleanVirtual p = abs_path vs" using cleanVirtual_segs by blast
  then show ?thesis
    using realFromVirtual_abs[OF assms] IsIgnored_abs[of vs r]
    by (intro exI[of _ vs]) (simp add: ResolveAdmin_def Let_def)
qed

theorem resolve_admin_exact_witness:
  "ResolveAdmin sample_root ''/a/../b'' = Inr (''/srv/files/b'', ''/b'') \<and>
   (\<exists>vs. cleanVirtual ''/a/../b'' = abs_path vs \<and> segs vs \<and>
      ResolveAdmin sample_root ''/a/../b'' \<in>
        {Inl ErrOutsideRoot, Inr (abs_path ([''srv'', ''files''] @ vs), abs_path vs)})"
proof -
  have "ResolveAdmin sample_root ''/a/../b'' = Inr (''/srv/files/b'', ''/b'')" by code_simp
  moreover have "\<exists>vs. cleanVirtual ''/a/../b'' = abs_path vs \<and> segs vs \<and>
      ResolveAdmin sample_root ''/a/../b'' \<in>
        {Inl ErrOutsideRoot, Inr (abs_path ([''srv'', ''files''] @ vs), abs_path vs)}"
    using resolve_admin_exact[OF sample_root_ok, of "''/a/../b''"] by (auto split: if_splits)
  ultimately show ?thesis by blast
qed

end
