(* ===== verification/FileSystem.thy ===== *)
theory FileSystem
  imports GoPath
begin

text \<open>
  The file system the storage code calls, through package \<open>os\<close> and through \<open>os.Root\<close>.

  A file system is the association list of the absolute paths that exist, each a list of
  segments, with the node found there. There are no symbolic links, a hard link is a second
  node with the same content, the size of a directory is 0 and its modification time that of
  its creation. Every system call may fail: the world holds, for each call in turn, whether it
  fails and how much of its effect it had before, and the readings of the clock. So a statement
  for all worlds is one for every combination of failures.
\<close>

type_synonym path = "string list"

datatype node =
    File (n_content: string) (n_mode: nat) (n_mtime: time)
  | Dir (n_mode: nat) (n_mtime: time)

type_synonym fs = "(path \<times> node) list"

datatype fault = NoFault | Fault err nat

record world =
  w_fs :: fs
  w_faults :: "nat \<Rightarrow> fault"
  w_calls :: nat
  w_clock :: "nat \<Rightarrow> time"
  w_ticks :: nat

fun is_dir :: "node \<Rightarrow> bool" where
  "is_dir (File _ _ _) = False"
| "is_dir (Dir _ _) = True"

fun node_size :: "node \<Rightarrow> int" where
  "node_size (File c _ _) = int (length c)"
| "node_size (Dir _ _) = 0"

definition node_at :: "fs \<Rightarrow> path \<Rightarrow> node option" where
  "node_at fs p = map_of fs p"

definition dir_at :: "fs \<Rightarrow> path \<Rightarrow> bool" where
  "dir_at fs p \<longleftrightarrow> (case node_at fs p of Some n \<Rightarrow> is_dir n | None \<Rightarrow> False)"

definition file_at :: "fs \<Rightarrow> path \<Rightarrow> bool" where
  "file_at fs p \<longleftrightarrow> (case node_at fs p of Some n \<Rightarrow> \<not> is_dir n | None \<Rightarrow> False)"

definition strict_prefixes :: "path \<Rightarrow> path list" where
  "strict_prefixes p = filter (\<lambda>q. q \<noteq> p) (prefixes p)"

text \<open>Walking to a path fails with \<open>ENOTDIR\<close> when a file is on the way.\<close>

definition walk :: "fs \<Rightarrow> path \<Rightarrow> err + node" where
  "walk fs p =
     (if list_ex (file_at fs) (strict_prefixes p) then Inl ErrNotDir
      else case node_at fs p of None \<Rightarrow> Inl ErrNotExist | Some n \<Rightarrow> Inr n)"

definition put_node :: "path \<Rightarrow> node \<Rightarrow> fs \<Rightarrow> fs" where
  "put_node p n fs = AList.update p n fs"

definition drop_node :: "path \<Rightarrow> fs \<Rightarrow> fs" where
  "drop_node p fs = AList.delete p fs"

text \<open>The names in a directory, sorted; no file system has a name that is not a segment.\<close>

definition children :: "fs \<Rightarrow> path \<Rightarrow> string list" where
  "children fs p =
     sort (map (\<lambda>(q, _). last q) (filter (\<lambda>(q, _). q \<noteq> [] \<and> butlast q = p \<and> seg (last q)) fs))"

subsection \<open>Effects that can fail\<close>

type_synonym 'a io = "world \<Rightarrow> (err + 'a) \<times> world"

definition returnE :: "'a \<Rightarrow> 'a io" where
  "returnE x w = (Inr x, w)"

definition throwE :: "err \<Rightarrow> 'a io" where
  "throwE e w = (Inl e, w)"

definition bindE :: "'a io \<Rightarrow> ('a \<Rightarrow> 'b io) \<Rightarrow> 'b io" where
  "bindE m f w = (case m w of (Inl e, w') \<Rightarrow> (Inl e, w') | (Inr x, w') \<Rightarrow> f x w')"

text \<open>The outcome of a call as a value, for the code that looks at the error.\<close>

definition attempt :: "'a io \<Rightarrow> (err + 'a) io" where
  "attempt m w = (case m w of (r, w') \<Rightarrow> (Inr r, w'))"

text \<open>\<open>_ = f()\<close>, and a deferred clean-up: the error is dropped.\<close>

definition thenE :: "'a io \<Rightarrow> 'b io \<Rightarrow> 'b io" where
  "thenE m k = bindE (attempt m) (\<lambda>_. k)"

definition liftE :: "err + 'a \<Rightarrow> 'a io" where
  "liftE r w = (r, w)"

definition timeNow :: "time io" where
  "timeNow w = (Inr (w_clock w (w_ticks w)), w\<lparr>w_ticks := Suc (w_ticks w)\<rparr>)"

text \<open>
  One system call: it reads its outcome from the world, and the kernel's clock. A failing call is
  not reported as a missing path: that error only comes from walking to a path that is missing.
\<close>

fun real_fault :: "fault \<Rightarrow> fault" where
  "real_fault NoFault = NoFault"
| "real_fault (Fault e n) = Fault (if e = ErrNotExist \<or> e = OutOfFuel then ErrIO else e) n"

definition syscall :: "(fs \<Rightarrow> time \<Rightarrow> fault \<Rightarrow> (err + 'a) \<times> fs) \<Rightarrow> 'a io" where
  "syscall f w =
     (case f (w_fs w) (w_clock w (w_ticks w)) (real_fault (w_faults w (w_calls w))) of
        (r, fs') \<Rightarrow> (r, w\<lparr>w_fs := fs', w_calls := Suc (w_calls w)\<rparr>))"

text \<open>A call that has its whole effect or none.\<close>

fun atomic :: "(fs \<Rightarrow> time \<Rightarrow> (err + 'a) \<times> fs) \<Rightarrow> fs \<Rightarrow> time \<Rightarrow> fault \<Rightarrow> (err + 'a) \<times> fs" where
  "atomic f fs t NoFault = f fs t"
| "atomic f fs t (Fault e _) = (Inl e, fs)"

subsection \<open>System calls\<close>

definition op_stat :: "path \<Rightarrow> node io" where
  "op_stat p = syscall (atomic (\<lambda>fs t. (walk fs p, fs)))"

text \<open>Opening a directory as a root, and listing one.\<close>

definition op_opendir :: "path \<Rightarrow> unit io" where
  "op_opendir p = syscall (atomic (\<lambda>fs t.
     (case walk fs p of
        Inl e \<Rightarrow> Inl e
      | Inr n \<Rightarrow> if is_dir n then Inr () else Inl ErrNotDir, fs)))"

definition op_readdir :: "path \<Rightarrow> (string \<times> node) list io" where
  "op_readdir p = syscall (atomic (\<lambda>fs t.
     (case walk fs p of
        Inl e \<Rightarrow> Inl e
      | Inr n \<Rightarrow> if is_dir n
                then Inr (map (\<lambda>c. (c, the (node_at fs (p @ [c])))) (children fs p))
                else Inl ErrNotDir, fs)))"

definition op_readfile :: "path \<Rightarrow> string io" where
  "op_readfile p = syscall (atomic (\<lambda>fs t.
     (case walk fs p of
        Inl e \<Rightarrow> Inl e
      | Inr n \<Rightarrow> if is_dir n then Inl ErrIsDir else Inr (n_content n), fs)))"

text \<open>\<open>MkdirAll\<close> creates the missing directories from the top; a failure may leave some of them.\<close>

fun mkdirs :: "nat \<Rightarrow> time \<Rightarrow> path list \<Rightarrow> fs \<Rightarrow> fs" where
  "mkdirs mode t [] fs = fs"
| "mkdirs mode t (p # ps) fs =
     mkdirs mode t ps (if node_at fs p = None then put_node p (Dir mode t) fs else fs)"

fun op_mkdirAll_fs :: "path \<Rightarrow> nat \<Rightarrow> fs \<Rightarrow> time \<Rightarrow> fault \<Rightarrow> (err + unit) \<times> fs" where
  "op_mkdirAll_fs p mode fs t NoFault =
     (if list_ex (file_at fs) (prefixes p) then (Inl ErrNotDir, fs)
      else (Inr (), mkdirs mode t (prefixes p) fs))"
| "op_mkdirAll_fs p mode fs t (Fault e n) =
     (if list_ex (file_at fs) (prefixes p) then (Inl ErrNotDir, fs)
      else (Inl e, mkdirs mode t (take n (prefixes p)) fs))"

definition op_mkdirAll :: "path \<Rightarrow> nat \<Rightarrow> unit io" where
  "op_mkdirAll p mode = syscall (op_mkdirAll_fs p mode)"

text \<open>\<open>rename(2)\<close>. \<open>os.Rename\<close> first refuses an existing directory as its target.\<close>

definition move_tree :: "path \<Rightarrow> path \<Rightarrow> fs \<Rightarrow> fs" where
  "move_tree a b fs =
     map (\<lambda>(q, n). (if prefix a q then b @ drop (length a) q else q, n))
       (filter (\<lambda>(q, n). \<not> prefix b q \<or> prefix a q) fs)"

definition rename_checks :: "path \<Rightarrow> path \<Rightarrow> fs \<Rightarrow> err option" where
  "rename_checks a b fs =
     (if a = [] \<or> b = [] then Some ErrInvalid
      else case walk fs a of
        Inl e \<Rightarrow> Some e
      | Inr na \<Rightarrow>
          if \<not> dir_at fs (butlast b) then
            Some (if list_ex (file_at fs) (strict_prefixes b) then ErrNotDir else ErrNotExist)
          else if strict_prefix a b then Some ErrInvalid
          else case node_at fs b of
                 None \<Rightarrow> None
               | Some nb \<Rightarrow>
                   if a = b then None
                   else if is_dir nb then
                     (if \<not> is_dir na then Some ErrIsDir
                      else if children fs b \<noteq> [] then Some ErrNotEmpty else None)
                   else if is_dir na then Some ErrNotDir else None)"

definition rename_fs :: "path \<Rightarrow> path \<Rightarrow> fs \<Rightarrow> (err + unit) \<times> fs" where
  "rename_fs a b fs =
     (case rename_checks a b fs of
        Some e \<Rightarrow> (Inl e, fs)
      | None \<Rightarrow> (Inr (), if a = b then fs else move_tree a b fs))"

definition op_rename_at :: "path \<Rightarrow> path \<Rightarrow> unit io" where
  "op_rename_at a b = syscall (atomic (\<lambda>fs t. rename_fs a b fs))"

definition op_rename_os :: "path \<Rightarrow> path \<Rightarrow> unit io" where
  "op_rename_os a b = syscall (atomic (\<lambda>fs t.
     if dir_at fs b
     then (Inl (case walk fs a of Inl e \<Rightarrow> e | Inr _ \<Rightarrow> ErrExist), fs)
     else rename_fs a b fs))"

definition op_remove :: "path \<Rightarrow> unit io" where
  "op_remove p = syscall (atomic (\<lambda>fs t.
     if p = [] then (Inl ErrInvalid, fs)
     else case walk fs p of
            Inl e \<Rightarrow> (Inl e, fs)
          | Inr n \<Rightarrow> if is_dir n \<and> children fs p \<noteq> [] then (Inl ErrNotEmpty, fs)
                    else (Inr (), drop_node p fs)))"

text \<open>\<open>RemoveAll\<close> removes the deepest entries first; a failure may leave the rest.\<close>

definition subtree :: "fs \<Rightarrow> path \<Rightarrow> path list" where
  "subtree fs p = sort_key (\<lambda>q. - int (length q)) (filter (prefix p) (map fst fs))"

definition drop_all :: "path list \<Rightarrow> fs \<Rightarrow> fs" where
  "drop_all ps fs = filter (\<lambda>(q, _). q \<notin> set ps) fs"

fun op_removeAll_fs :: "path \<Rightarrow> fs \<Rightarrow> time \<Rightarrow> fault \<Rightarrow> (err + unit) \<times> fs" where
  "op_removeAll_fs p fs t NoFault =
     (if p = [] then (Inl ErrInvalid, fs) else (Inr (), drop_all (subtree fs p) fs))"
| "op_removeAll_fs p fs t (Fault e n) =
     (if p = [] then (Inl ErrInvalid, fs) else (Inl e, drop_all (take n (subtree fs p)) fs))"

definition op_removeAll :: "path \<Rightarrow> unit io" where
  "op_removeAll p = syscall (op_removeAll_fs p)"

text \<open>\<open>link(2)\<close> never replaces.\<close>

definition op_link :: "path \<Rightarrow> path \<Rightarrow> unit io" where
  "op_link a b = syscall (atomic (\<lambda>fs t.
     case walk fs a of
       Inl e \<Rightarrow> (Inl e, fs)
     | Inr n \<Rightarrow>
         if is_dir n then (Inl ErrInvalid, fs)
         else if \<not> dir_at fs (butlast b) then
           (Inl (if list_ex (file_at fs) (strict_prefixes b) then ErrNotDir else ErrNotExist), fs)
         else if node_at fs b \<noteq> None then (Inl ErrExist, fs)
         else (Inr (), put_node b n fs)))"

text \<open>\<open>clonefile(2)\<close> copies to a name that must not exist.\<close>

definition op_clone :: "path \<Rightarrow> path \<Rightarrow> unit io" where
  "op_clone a b = syscall (atomic (\<lambda>fs t.
     case walk fs a of
       Inl e \<Rightarrow> (Inl e, fs)
     | Inr n \<Rightarrow>
         if is_dir n then (Inl ErrIsDir, fs)
         else if \<not> dir_at fs (butlast b) then
           (Inl (if list_ex (file_at fs) (strict_prefixes b) then ErrNotDir else ErrNotExist), fs)
         else if node_at fs b \<noteq> None then (Inl ErrExist, fs)
         else (Inr (), put_node b n fs)))"

text \<open>
  Opening for writing with \<open>O_CREATE\<close>: the new file is empty, \<open>O_TRUNC\<close> empties an existing one,
  \<open>O_EXCL\<close> refuses it. Writing appends; a failure may leave the first bytes written.
\<close>

record open_flags =
  o_create :: bool
  o_trunc :: bool
  o_excl :: bool

definition open_fs :: "path \<Rightarrow> open_flags \<Rightarrow> nat \<Rightarrow> fs \<Rightarrow> time \<Rightarrow> (err + unit) \<times> fs" where
  "open_fs p fl mode fs t =
     (case walk fs p of
        Inr (Dir m t') \<Rightarrow> (Inl (if o_create fl \<and> o_excl fl then ErrExist else ErrIsDir), fs)
      | Inr (File c m t') \<Rightarrow>
          if o_create fl \<and> o_excl fl then (Inl ErrExist, fs)
          else if o_trunc fl then (Inr (), put_node p (File [] m t) fs)
          else (Inr (), fs)
      | Inl e \<Rightarrow>
          if e = ErrNotExist \<and> o_create fl \<and> p \<noteq> [] \<and> dir_at fs (butlast p)
          then (Inr (), put_node p (File [] mode t) fs)
          else (Inl e, fs))"

definition op_open :: "path \<Rightarrow> open_flags \<Rightarrow> nat \<Rightarrow> unit io" where
  "op_open p fl mode = syscall (atomic (open_fs p fl mode))"

definition append_file :: "path \<Rightarrow> string \<Rightarrow> time \<Rightarrow> fs \<Rightarrow> fs" where
  "append_file p bs t fs =
     (case node_at fs p of
        Some (File c m t') \<Rightarrow> put_node p (File (c @ bs) m t) fs
      | _ \<Rightarrow> fs)"

fun op_write_fs :: "path \<Rightarrow> string \<Rightarrow> fs \<Rightarrow> time \<Rightarrow> fault \<Rightarrow> (err + unit) \<times> fs" where
  "op_write_fs p bs fs t NoFault = (Inr (), append_file p bs t fs)"
| "op_write_fs p bs fs t (Fault e n) = (Inl e, append_file p (take n bs) t fs)"

definition op_write :: "path \<Rightarrow> string \<Rightarrow> unit io" where
  "op_write p bs = syscall (op_write_fs p bs)"

definition op_chmod :: "path \<Rightarrow> nat \<Rightarrow> unit io" where
  "op_chmod p mode = syscall (atomic (\<lambda>fs t.
     case walk fs p of
       Inl e \<Rightarrow> (Inl e, fs)
     | Inr (File c m t') \<Rightarrow> (Inr (), put_node p (File c mode t') fs)
     | Inr (Dir m t') \<Rightarrow> (Inr (), put_node p (Dir mode t') fs)))"

text \<open>\<open>os.WriteFile\<close>.\<close>

definition write_flags :: open_flags where
  "write_flags = \<lparr>o_create = True, o_trunc = True, o_excl = False\<rparr>"

definition op_writeFile :: "path \<Rightarrow> string \<Rightarrow> nat \<Rightarrow> unit io" where
  "op_writeFile p bs mode = bindE (op_open p write_flags mode) (\<lambda>_. op_write p bs)"

subsection \<open>Evaluating effects\<close>

lemma bindE_Inr [simp]: "m w = (Inr x, w') \<Longrightarrow> bindE m f w = f x w'"
  by (simp add: bindE_def)

lemma bindE_Inl [simp]: "m w = (Inl e, w') \<Longrightarrow> bindE m f w = (Inl e, w')"
  by (simp add: bindE_def)

lemma attempt_eq [simp]: "attempt m w = (Inr (fst (m w)), snd (m w))"
  by (simp add: attempt_def split: prod.split)

lemma thenE_eq [simp]: "thenE m k w = k (snd (m w))"
  by (simp add: thenE_def bindE_def)

lemma returnE_eq [simp]: "returnE x w = (Inr x, w)"
  by (simp add: returnE_def)

lemma throwE_eq [simp]: "throwE e w = (Inl e, w)"
  by (simp add: throwE_def)

lemma liftE_eq [simp]: "liftE r w = (r, w)"
  by (simp add: liftE_def)

lemma bindE_cases:
  "bindE m f w = (r, w') \<Longrightarrow>
     (\<exists>e. m w = (Inl e, w') \<and> r = Inl e) \<or> (\<exists>x w1. m w = (Inr x, w1) \<and> f x w1 = (r, w'))"
  by (auto simp: bindE_def split: prod.splits sum.splits)

lemma bindE_return [simp]: "bindE (returnE x) f = f x"
  by (simp add: bindE_def fun_eq_iff)

lemma bindE_liftE [simp]:
  "bindE (liftE (Inr x)) f = f x" "bindE (liftE (Inl e)) f = throwE e" "bindE (throwE e) f = throwE e"
  by (simp_all add: bindE_def throwE_def liftE_def fun_eq_iff)

lemma bindE_assoc: "bindE (bindE m f) g = bindE m (\<lambda>x. bindE (f x) g)"
  by (auto simp: bindE_def fun_eq_iff split: prod.splits sum.splits)

subsection \<open>Nodes after a change\<close>

lemma node_at_put [simp]: "node_at (put_node p n fs) q = (if q = p then Some n else node_at fs q)"
  by (simp add: node_at_def put_node_def map_of_update_iff)

lemma node_at_drop [simp]: "node_at (drop_node p fs) q = (if q = p then None else node_at fs q)"
  by (simp add: node_at_def drop_node_def map_of_delete_iff)

lemma node_at_drop_all: "node_at (drop_all ps fs) q = (if q \<in> set ps then None else node_at fs q)"
  by (induction fs) (auto simp: node_at_def drop_all_def)

lemma move_tree_Cons:
  "move_tree a b ((q, n) # fs) =
     (if prefix a q then (b @ drop (length a) q, n) # move_tree a b fs
      else if prefix b q then move_tree a b fs else (q, n) # move_tree a b fs)"
  by (simp add: move_tree_def)

lemma node_at_Cons: "node_at ((q, n) # fs) p = (if q = p then Some n else node_at fs p)"
  by (simp add: node_at_def)

lemma append_drop_eq_iff:
  "prefix a q \<Longrightarrow> prefix b p \<Longrightarrow> b @ drop (length a) q = p \<longleftrightarrow> q = a @ drop (length b) p"
  by (auto simp: prefix_def)

lemma prefixes_apart: "\<not> prefix a b \<Longrightarrow> \<not> prefix b a \<Longrightarrow> prefix a q \<Longrightarrow> \<not> prefix b q"
  using prefix_same_cases by blast

lemma node_at_move:
  assumes "\<not> prefix a b" and "\<not> prefix b a"
  shows "node_at (move_tree a b fs) p =
    (if prefix b p then node_at fs (a @ drop (length b) p)
     else if prefix a p then None else node_at fs p)"
proof (induction fs)
  case Nil
  then show ?case by (simp add: node_at_def move_tree_def)
next
  case (Cons x fs)
  obtain q n where x: "x = (q, n)" by fastforce
  consider (under) "prefix a q" | (over) "\<not> prefix a q" "prefix b q"
    | (other) "\<not> prefix a q" "\<not> prefix b q" by blast
  then show ?case
  proof cases
    case under
    show ?thesis
    proof (cases "prefix b p")
      case True
      with under Cons show ?thesis
        by (simp add: x move_tree_Cons node_at_Cons append_drop_eq_iff)
    next
      case False
      then have "b @ drop (length a) q \<noteq> p" "q = p \<longrightarrow> prefix a p" using under by auto
      with False under Cons show ?thesis by (auto simp: x move_tree_Cons node_at_Cons)
    qed
  next
    case over
    then have "q \<noteq> a @ drop (length b) p" by auto
    moreover have "q = p \<longrightarrow> prefix b p \<and> \<not> prefix a p" using over by auto
    ultimately show ?thesis using over Cons by (auto simp: x move_tree_Cons node_at_Cons)
  next
    case other
    then have "q \<noteq> a @ drop (length b) p" by auto
    with other Cons show ?thesis by (auto simp: x move_tree_Cons node_at_Cons)
  qed
qed

lemma node_at_move_outside:
  "\<not> prefix a p \<Longrightarrow> \<not> prefix b p \<Longrightarrow> node_at (move_tree a b fs) p = node_at fs p"
proof (induction fs)
  case (Cons x fs)
  obtain q n where x: "x = (q, n)" by fastforce
  have "b @ drop (length a) q \<noteq> p" using Cons.prems by auto
  with Cons show ?case by (auto simp: x move_tree_Cons node_at_def)
qed (simp add: node_at_def move_tree_def)

lemma set_subtree: "set (subtree fs p) = {q. prefix p q \<and> q \<in> fst ` set fs}"
  by (auto simp: subtree_def)

lemma node_at_None_iff: "node_at fs p = None \<longleftrightarrow> p \<notin> fst ` set fs"
  by (simp add: node_at_def map_of_eq_None_iff)

lemma node_at_drop_subtree:
  "node_at (drop_all (subtree fs p) fs) q = (if prefix p q then None else node_at fs q)"
  using node_at_None_iff[of fs q] by (auto simp: node_at_drop_all set_subtree)

lemma node_at_mkdirs:
  "node_at (mkdirs mode t ps fs) q =
     (case node_at fs q of Some n \<Rightarrow> Some n
      | None \<Rightarrow> if q \<in> set ps then Some (Dir mode t) else None)"
  by (induction ps arbitrary: fs) (auto split: option.splits)

lemma dir_at_simps:
  "node_at fs p = Some (Dir m t) \<Longrightarrow> dir_at fs p"
  "node_at fs p = None \<Longrightarrow> \<not> dir_at fs p \<and> \<not> file_at fs p"
  "node_at fs p = Some (File c m t) \<Longrightarrow> file_at fs p \<and> \<not> dir_at fs p"
  by (simp_all add: dir_at_def file_at_def)

lemma walk_node: "walk fs p = Inr n \<Longrightarrow> node_at fs p = Some n"
  by (auto simp: walk_def split: if_splits option.splits)

subsection \<open>Where an effect may change the file system\<close>

text \<open>
  \<open>grows S fs fs'\<close>: outside \<open>S\<close> every node is as before, except that missing directories may have
  been created. \<open>only S m\<close>: that is all \<open>m\<close> does to the file system, whatever fails.
\<close>

definition kept :: "node option \<Rightarrow> node option \<Rightarrow> bool" where
  "kept before after =
     (case before of
        Some n \<Rightarrow> after = Some n
      | None \<Rightarrow> (case after of None \<Rightarrow> True | Some n \<Rightarrow> is_dir n))"

definition grows :: "path set \<Rightarrow> fs \<Rightarrow> fs \<Rightarrow> bool" where
  "grows S fs fs' \<longleftrightarrow> (\<forall>p. p \<notin> S \<longrightarrow> kept (node_at fs p) (node_at fs' p))"

definition only :: "path set \<Rightarrow> 'a io \<Rightarrow> bool" where
  "only S m \<longleftrightarrow> (\<forall>w. grows S (w_fs w) (w_fs (snd (m w))))"

lemma kept_refl [simp]: "kept x x"
  by (simp add: kept_def split: option.split)

lemma kept_trans: "kept x y \<Longrightarrow> kept y z \<Longrightarrow> kept x z"
  by (cases x; cases y; cases z) (auto simp: kept_def)

lemma grows_refl [simp]: "grows S fs fs"
  by (simp add: grows_def)

lemma grows_trans: "grows S fs fs' \<Longrightarrow> grows S fs' fs'' \<Longrightarrow> grows S fs fs''"
  unfolding grows_def using kept_trans by blast

lemma grows_mono: "grows S fs fs' \<Longrightarrow> S \<subseteq> T \<Longrightarrow> grows T fs fs'"
  by (auto simp: grows_def)

lemma grows_keeps: "grows S fs fs' \<Longrightarrow> p \<notin> S \<Longrightarrow> node_at fs p = Some n \<Longrightarrow> node_at fs' p = Some n"
  by (auto simp: grows_def kept_def)

lemma grows_new: "grows S fs fs' \<Longrightarrow> p \<notin> S \<Longrightarrow> node_at fs p = None \<Longrightarrow>
    node_at fs' p = None \<or> (\<exists>m t. node_at fs' p = Some (Dir m t))"
  by (cases "node_at fs' p"; cases "the (node_at fs' p)") (auto simp: grows_def kept_def)

lemma only_mono: "only S m \<Longrightarrow> S \<subseteq> T \<Longrightarrow> only T m"
  by (auto simp: only_def intro: grows_mono)

lemma only_run: "only S m \<Longrightarrow> m w = (r, w') \<Longrightarrow> grows S (w_fs w) (w_fs w')"
  by (metis only_def snd_conv)

lemma only_pure [frame, simp]:
  "only S (returnE x)" "only S (throwE e)" "only S (liftE r)" "only S timeNow"
  by (simp_all add: only_def timeNow_def)

lemma only_Pair [frame, simp]: "only S (Pair r)"
  by (simp add: only_def)

lemma only_bindE [frame]: "only S m \<Longrightarrow> (\<And>x. only S (f x)) \<Longrightarrow> only S (bindE m f)"
  unfolding only_def bindE_def
  by (auto split: prod.splits sum.splits) (metis snd_conv grows_trans)+

text \<open>The same with what is known of the first result.\<close>

lemma only_bindE_result:
  assumes "only S m" and "\<And>w x w'. m w = (Inr x, w') \<Longrightarrow> only S (f x)"
  shows "only S (bindE m f)"
  unfolding only_def
proof
  fix w
  show "grows S (w_fs w) (w_fs (snd (bindE m f w)))"
  proof (cases "m w")
    case (Pair a w')
    have g: "grows S (w_fs w) (w_fs w')" using only_run[OF assms(1) Pair] .
    show ?thesis
    proof (cases a)
      case (Inr x)
      with Pair have "only S (f x)" using assms(2) by blast
      with g Pair Inr show ?thesis
        using only_run[of S "f x" w'] by (cases "f x w'") (auto intro: grows_trans)
    qed (use g Pair in simp)
  qed
qed

lemma children_seg: "c \<in> set (children fs p) \<Longrightarrow> seg c"
  by (auto simp: children_def)

lemma readdir_seg: "op_readdir p w = (Inr items, w') \<Longrightarrow> x \<in> set items \<Longrightarrow> seg (fst x)"
proof -
  assume a: "op_readdir p w = (Inr items, w')" "x \<in> set items"
  then have "items = map (\<lambda>c. (c, the (node_at (w_fs w) (p @ [c])))) (children (w_fs w) p)"
    unfolding op_readdir_def syscall_def
    by (cases "real_fault (w_faults w (w_calls w))") (auto split: sum.splits if_splits)
  with a show ?thesis using children_seg[of "fst x" "w_fs w" p] by auto
qed

lemma only_attempt [frame]: "only S m \<Longrightarrow> only S (attempt m)"
  by (simp add: only_def)

lemma only_thenE [frame]: "only S m \<Longrightarrow> only S k \<Longrightarrow> only S (thenE m k)"
  unfolding only_def by simp (metis grows_trans)

lemma only_if [frame]: "(b \<Longrightarrow> only S m) \<Longrightarrow> (\<not> b \<Longrightarrow> only S m') \<Longrightarrow> only S (if b then m else m')"
  by simp

lemma only_case_sum [frame]:
  "(\<And>e. r = Inl e \<Longrightarrow> only S (f e)) \<Longrightarrow> (\<And>x. r = Inr x \<Longrightarrow> only S (g x)) \<Longrightarrow> only S (case_sum f g r)"
  by (cases r) auto

lemma only_case_option [frame]:
  "(r = None \<Longrightarrow> only S f) \<Longrightarrow> (\<And>x. r = Some x \<Longrightarrow> only S (g x)) \<Longrightarrow> only S (case_option f g r)"
  by (cases r) auto

lemma only_case_prod [frame]: "(\<And>a b. r = (a, b) \<Longrightarrow> only S (f a b)) \<Longrightarrow> only S (case_prod f r)"
  by (cases r) auto

lemma only_syscall:
  assumes "\<And>fs t ft. grows S fs (snd (f fs t ft))"
  shows "only S (syscall f)"
  using assms unfolding only_def syscall_def by (auto split: prod.split) (metis snd_conv)

lemma only_atomic:
  assumes "\<And>fs t. grows S fs (snd (f fs t))"
  shows "only S (syscall (atomic f))"
proof (rule only_syscall)
  fix fs t ft show "grows S fs (snd (atomic f fs t ft))"
    using assms by (cases ft) simp_all
qed

lemma grows_put [simp]: "p \<in> S \<Longrightarrow> grows S fs (put_node p n fs)"
  by (auto simp: grows_def)

lemma grows_drop [simp]: "p \<in> S \<Longrightarrow> grows S fs (drop_node p fs)"
  by (auto simp: grows_def)

lemma grows_mkdirs [simp]: "grows S fs (mkdirs mode t ps fs)"
  by (auto simp: grows_def kept_def node_at_mkdirs split: option.split)

lemma grows_drop_all: "set ps \<subseteq> S \<Longrightarrow> grows S fs (drop_all ps fs)"
  by (auto simp: grows_def node_at_drop_all)

lemma grows_same: "(\<And>p. p \<notin> S \<Longrightarrow> node_at fs' p = node_at fs p) \<Longrightarrow> grows S fs fs'"
  by (simp add: grows_def)

lemma grows_rename:
  assumes "{q. prefix a q \<or> prefix b q} \<subseteq> S"
  shows "grows S fs (snd (rename_fs a b fs))"
proof -
  have "grows S fs (move_tree a b fs)"
    using assms by (intro grows_same node_at_move_outside) auto
  then show ?thesis by (simp add: rename_fs_def split: option.split)
qed

lemma only_reads [frame]:
  "only S (op_stat p)" "only S (op_opendir p)" "only S (op_readdir p)" "only S (op_readfile p)"
  unfolding op_stat_def op_opendir_def op_readdir_def op_readfile_def
  by (rule only_atomic; simp)+

lemma only_mkdirAll [frame]: "only S (op_mkdirAll p mode)"
  unfolding op_mkdirAll_def
proof (rule only_syscall)
  fix fs t ft show "grows S fs (snd (op_mkdirAll_fs p mode fs t ft))" by (cases ft) simp_all
qed

lemma only_rename [frame]:
  "{q. prefix a q \<or> prefix b q} \<subseteq> S \<Longrightarrow> only S (op_rename_at a b)"
  "{q. prefix a q \<or> prefix b q} \<subseteq> S \<Longrightarrow> only S (op_rename_os a b)"
  unfolding op_rename_at_def op_rename_os_def
  by (rule only_atomic; simp add: grows_rename)+

lemma only_remove [frame]: "p \<in> S \<Longrightarrow> only S (op_remove p)"
  unfolding op_remove_def by (rule only_atomic) (simp split: sum.split)

lemma only_removeAll [frame]: "{q. prefix p q} \<subseteq> S \<Longrightarrow> only S (op_removeAll p)"
  unfolding op_removeAll_def
proof (rule only_syscall)
  fix fs t ft assume "{q. prefix p q} \<subseteq> S"
  then have "set (take n (subtree fs p)) \<subseteq> S" "set (subtree fs p) \<subseteq> S" for n
    using set_take_subset[of n "subtree fs p"] by (auto simp: set_subtree)
  then show "grows S fs (snd (op_removeAll_fs p fs t ft))"
    by (cases ft) (simp_all add: grows_drop_all)
qed

lemma only_link [frame]: "b \<in> S \<Longrightarrow> only S (op_link a b)"
  unfolding op_link_def by (rule only_atomic) (simp split: sum.split)

lemma only_clone [frame]: "b \<in> S \<Longrightarrow> only S (op_clone a b)"
  unfolding op_clone_def by (rule only_atomic) (simp split: sum.split)

lemma only_open [frame]: "p \<in> S \<Longrightarrow> only S (op_open p fl mode)"
  unfolding op_open_def by (rule only_atomic) (simp add: open_fs_def split: sum.split node.split)

lemma only_write [frame]: "p \<in> S \<Longrightarrow> only S (op_write p bs)"
  unfolding op_write_def
proof (rule only_syscall)
  fix fs t ft assume "p \<in> S"
  then have "grows S fs (append_file p b t fs)" for b
    by (auto simp: append_file_def split: option.split node.split)
  then show "grows S fs (snd (op_write_fs p bs fs t ft))" by (cases ft) simp_all
qed

lemma only_chmod [frame]: "p \<in> S \<Longrightarrow> only S (op_chmod p mode)"
  unfolding op_chmod_def by (rule only_atomic) (simp split: sum.split node.split)

lemma only_writeFile [frame]: "p \<in> S \<Longrightarrow> only S (op_writeFile p bs mode)"
  unfolding op_writeFile_def by (intro frame)

end
