(* ===== verification/GoTime.thy ===== *)
theory GoTime
  imports GoStrings
begin

text \<open>
  The calendar of package \<open>time\<close>: the date and time of day of an instant in UTC, and the layouts
  \<open>20060102T150405.000000000Z\<close>, \<open>20060102150405\<close> and \<open>Jan _2 15:04\<close> the code formats with.
  Instants count nanoseconds from 1 January of year 1 of the proleptic Gregorian calendar.
\<close>

definition leap :: "int \<Rightarrow> bool" where
  "leap y \<longleftrightarrow> y mod 4 = 0 \<and> (y mod 100 \<noteq> 0 \<or> y mod 400 = 0)"

text \<open>Days before 1 January of a year, and before each month of a year.\<close>

definition days_before_year :: "int \<Rightarrow> int" where
  "days_before_year y = 365 * (y - 1) + (y - 1) div 4 - (y - 1) div 100 + (y - 1) div 400"

definition month_lengths :: "int \<Rightarrow> int list" where
  "month_lengths y = [31, if leap y then 29 else 28, 31, 30, 31, 30, 31, 31, 30, 31, 30, 31]"

text \<open>
  The year of a day: the estimate from the mean length of a year is off by at most one.
\<close>

definition year_of_day :: "int \<Rightarrow> int" where
  "year_of_day d =
     (let y = (400 * d) div 146097 + 1
      in if d < days_before_year y then y - 1
         else if days_before_year (y + 1) \<le> d then y + 1 else y)"

fun month_day :: "int list \<Rightarrow> nat \<Rightarrow> int \<Rightarrow> nat \<times> int" where
  "month_day [] m d = (m, d + 1)"
| "month_day (l # ls) m d = (if d < l then (m, d + 1) else month_day ls (Suc m) (d - l))"

text \<open>Year, month from 1, day of the month from 1.\<close>

definition civil :: "time \<Rightarrow> int \<times> nat \<times> int" where
  "civil t =
     (let d = t div (24 * hour); y = year_of_day d
      in case month_day (month_lengths y) 1 (d - days_before_year y) of (m, k) \<Rightarrow> (y, m, k))"

definition clock_of :: "time \<Rightarrow> int \<times> int \<times> int \<times> int" where
  "clock_of t =
     (let r = t mod (24 * hour)
      in (r div hour, r mod hour div minute, r mod minute div second, r mod second))"

definition pad :: "nat \<Rightarrow> int \<Rightarrow> string" where
  "pad w n = show_pad w (nat n)"

definition format_compact :: "time \<Rightarrow> string" where
  "format_compact t =
     (case civil t of (y, m, d) \<Rightarrow> case clock_of t of (hh, mm, ss, ns) \<Rightarrow>
        pad 4 y @ show_pad 2 m @ pad 2 d @ pad 2 hh @ pad 2 mm @ pad 2 ss)"

definition format_stamp :: "time \<Rightarrow> string" where
  "format_stamp t =
     (case civil t of (y, m, d) \<Rightarrow> case clock_of t of (hh, mm, ss, ns) \<Rightarrow>
        pad 4 y @ show_pad 2 m @ pad 2 d @ ''T'' @ pad 2 hh @ pad 2 mm @ pad 2 ss @ ''.'' @
        pad 9 ns @ ''Z'')"

definition month_names :: "string list" where
  "month_names = [''Jan'', ''Feb'', ''Mar'', ''Apr'', ''May'', ''Jun'', ''Jul'', ''Aug'', ''Sep'',
     ''Oct'', ''Nov'', ''Dec'']"

definition format_listing :: "time \<Rightarrow> string" where
  "format_listing t =
     (case civil t of (y, m, d) \<Rightarrow> case clock_of t of (hh, mm, ss, ns) \<Rightarrow>
        month_names ! (m - 1) @ '' '' @ (if d < 10 then '' '' else []) @ pad 1 d @ '' '' @
        pad 2 hh @ '':'' @ pad 2 mm)"

text \<open>\<open>Unix\<close> and \<open>UnixNano\<close> count from 1 January 1970.\<close>

definition unix_epoch :: time where
  "unix_epoch = 62135596800 * second"

definition UnixNano :: "time \<Rightarrow> int" where
  "UnixNano t = wrap_i64 (t - unix_epoch)"

lemma show_pad_digits: "list_all is_digit (show_pad w n)"
proof -
  have "is_digit (CHR ''0'')" by (simp add: is_digit_def)
  then show ?thesis
    using show_nat_digits[of n] by (auto simp: show_pad_def Let_def list_all_iff)
qed

lemma pad_digits: "list_all is_digit (pad w n)"
  by (simp add: pad_def show_pad_digits)

lemma format_compact_digits: "list_all is_digit (format_compact t)"
  by (simp add: format_compact_def pad_digits show_pad_digits split: prod.split)

text \<open>A stamp is digits, one T, one dot and one Z: never a separator, never empty.\<close>

lemma format_stamp_chars:
  "c \<in> set (format_stamp t) \<Longrightarrow> is_digit c \<or> c \<in> {CHR ''T'', CHR ''.'', CHR ''Z''}"
  using pad_digits show_pad_digits
  by (auto simp: format_stamp_def list_all_iff split: prod.splits)

lemma format_stamp_no_slash: "CHR ''/'' \<notin> set (format_stamp t)"
  using format_stamp_chars[of "CHR ''/''" t] by (auto simp: is_digit_def)

lemma format_stamp_last: "\<exists>s. format_stamp t = s @ ''Z''"
  by (auto simp: format_stamp_def split: prod.split)

end
