(* ===== verification/Storage.thy ===== *)
theory Storage
  imports StoragePaths FileSystem GoTime
begin

text \<open>
  The operations of \<open>internal/storage/storage.go\<close> on the disk. Each call goes through \<open>os.OpenRoot\<close>
  and the path relative to the base, or through package \<open>os\<close> with an absolute path, as in the
  code; a path string reaches the kernel as its segments. \<open>mutationMu\<close> makes \<open>ReplaceFile\<close> and
  \<open>InstallFile\<close> exclude each other, so each is one effect.

  JSON is a parameter: a record \<open>codec\<close> of the encoder and decoder of \<open>encoding/json\<close> for
  \<open>RetainedEntry\<close>. \<open>platform_clone\<close> says whether the build has \<open>clonefile(2)\<close> (\<open>clone_darwin.go\<close>)
  or not (\<open>clone_other.go\<close>).
\<close>

record Entry =
  en_Name :: string
  en_Path :: string
  en_Size :: int
  en_Mode :: string
  en_IsDir :: bool
  en_ModTime :: time

record CopyOptions =
  co_Deduplicate :: bool
  co_Overwrite :: bool

record CopyResult =
  cp_Files :: int
  cp_Bytes :: int
  cp_Strategy :: string

record RetainedEntry =
  re_ID :: string
  re_OriginalPath :: string
  re_RetainedPath :: string
  re_Size :: int
  re_IsDir :: bool
  re_ModTime :: time

record codec =
  json_encode :: "RetainedEntry \<Rightarrow> string option"
  json_decode :: "string \<Rightarrow> RetainedEntry option"

text \<open>The permissions the code creates files and directories with, 0750 and 0600.\<close>

abbreviation mode_750 :: nat where "mode_750 \<equiv> 488"
abbreviation mode_600 :: nat where "mode_600 \<equiv> 384"

definition os_path :: "string \<Rightarrow> path" where
  "os_path p = path_elems p"

definition rel_path :: "string \<Rightarrow> path" where
  "rel_path rel = (if rel = ''.'' then [] else path_elems rel)"

subsection \<open>Calls through the root\<close>

text \<open>\<open>os.OpenRoot(r.Base)\<close>, then \<open>relFromReal\<close>, then the call on the relative path.\<close>

definition in_root :: "Root \<Rightarrow> string \<Rightarrow> (path \<Rightarrow> 'a io) \<Rightarrow> 'a io" where
  "in_root r realPath op =
     bindE (op_opendir (os_path (r_Base r))) (\<lambda>_.
     bindE (liftE (relFromReal r realPath)) (\<lambda>rel.
       op (os_path (r_Base r) @ rel_path rel)))"

definition Stat :: "Root \<Rightarrow> string \<Rightarrow> node io" where
  "Stat r realPath = in_root r realPath op_stat"

text \<open>Opening for reading; the content is read at once.\<close>

definition Open_read :: "Root \<Rightarrow> string \<Rightarrow> node io" where
  "Open_read r realPath = in_root r realPath op_stat"

definition OpenFile :: "Root \<Rightarrow> string \<Rightarrow> open_flags \<Rightarrow> nat \<Rightarrow> unit io" where
  "OpenFile r realPath fl perm = in_root r realPath (\<lambda>p. op_open p fl perm)"

definition Chmod :: "Root \<Rightarrow> string \<Rightarrow> nat \<Rightarrow> unit io" where
  "Chmod r realPath mode = in_root r realPath (\<lambda>p. op_chmod p mode)"

definition MkdirAll :: "Root \<Rightarrow> string \<Rightarrow> nat \<Rightarrow> unit io" where
  "MkdirAll r realPath perm = in_root r realPath (\<lambda>p. op_mkdirAll p perm)"

definition MkdirAllParent :: "Root \<Rightarrow> string \<Rightarrow> nat \<Rightarrow> unit io" where
  "MkdirAllParent r realPath perm = MkdirAll r (Dir_name realPath) perm"

text \<open>A root refuses to remove itself.\<close>

definition guarded :: "Root \<Rightarrow> (path \<Rightarrow> 'a io) \<Rightarrow> path \<Rightarrow> 'a io" where
  "guarded r op p = (if p = os_path (r_Base r) then throwE ErrInvalid else op p)"

definition Remove :: "Root \<Rightarrow> string \<Rightarrow> unit io" where
  "Remove r realPath = in_root r realPath (guarded r op_remove)"

definition RemoveAll :: "Root \<Rightarrow> string \<Rightarrow> unit io" where
  "RemoveAll r realPath = in_root r realPath (guarded r op_removeAll)"

definition Rename :: "Root \<Rightarrow> string \<Rightarrow> string \<Rightarrow> unit io" where
  "Rename r oldPath newPath =
     bindE (op_opendir (os_path (r_Base r))) (\<lambda>_.
     bindE (liftE (relFromReal r oldPath)) (\<lambda>oldRel.
     bindE (liftE (relFromReal r newPath)) (\<lambda>newRel.
       guarded r (\<lambda>a. guarded r (op_rename_at a) (os_path (r_Base r) @ rel_path newRel))
         (os_path (r_Base r) @ rel_path oldRel))))"

definition mode_bits :: "nat \<Rightarrow> string" where
  "mode_bits m =
     map (\<lambda>(i, c). if m div 2 ^ i mod 2 = 1 then c else CHR ''-'')
       [(8, CHR ''r''), (7, CHR ''w''), (6, CHR ''x''), (5, CHR ''r''), (4, CHR ''w''),
        (3, CHR ''x''), (2, CHR ''r''), (1, CHR ''w''), (0, CHR ''x'')]"

definition mode_string :: "node \<Rightarrow> string" where
  "mode_string n = (if is_dir n then ''d'' else ''-'') @ mode_bits (n_mode n)"

definition entryFromInfo :: "string \<Rightarrow> node \<Rightarrow> string \<Rightarrow> Entry" where
  "entryFromInfo name info virtual =
     \<lparr>en_Name = name, en_Path = virtual, en_Size = node_size info, en_Mode = mode_string info,
      en_IsDir = is_dir info, en_ModTime = n_mtime info\<rparr>"

fun list_items :: "Root \<Rightarrow> path \<Rightarrow> string \<Rightarrow> (string \<times> node) list \<Rightarrow> Entry list io" where
  "list_items r dir virtualDir [] = returnE []"
| "list_items r dir virtualDir ((name, _) # items) =
     (let virtual = pathJoinVirtual virtualDir name
      in if IsIgnoredVirtual r virtual then list_items r dir virtualDir items
         else bindE (attempt (op_stat (dir @ [name]))) (\<lambda>info. case info of
                Inl _ \<Rightarrow> list_items r dir virtualDir items
              | Inr n \<Rightarrow> bindE (list_items r dir virtualDir items) (\<lambda>es.
                  returnE (entryFromInfo name n virtual # es))))"

definition List_dir :: "Root \<Rightarrow> string \<Rightarrow> string \<Rightarrow> Entry list io" where
  "List_dir r realDir virtualDir =
     in_root r realDir (\<lambda>p. bindE (op_readdir p) (list_items r p virtualDir))"

definition appendVirtualMount ::
  "Root \<Rightarrow> Entry list \<Rightarrow> string \<Rightarrow> string \<Rightarrow> string \<Rightarrow> Entry list io" where
  "appendVirtualMount r entries name virtual real =
     (if list_ex (\<lambda>entry. en_Name entry = name) entries then returnE entries
      else bindE (attempt (Stat r real)) (\<lambda>info. case info of
             Inr n \<Rightarrow> returnE (entries @ [entryFromInfo name n virtual])
           | Inl _ \<Rightarrow> thenE (MkdirAll r real mode_750) (bindE (attempt (Stat r real)) (\<lambda>info. case info of
                 Inl _ \<Rightarrow> returnE entries
               | Inr n \<Rightarrow> returnE (entries @ [entryFromInfo name n virtual])))))"

definition ListForUser :: "Root \<Rightarrow> User \<Rightarrow> string \<Rightarrow> string \<Rightarrow> Entry list io" where
  "ListForUser r user realDir virtualDir =
     bindE (List_dir r realDir virtualDir) (\<lambda>entries.
       let home = cleanVirtual (u_Home user)
       in if virtualDir \<noteq> home then returnE entries
          else bindE (if p_Public (u_Permissions user)
                      then appendVirtualMount r entries ''public'' (pathJoinVirtual home ''public'')
                             (Join_paths [r_Base r, r_PublicDir r])
                      else returnE entries) (\<lambda>entries.
               if p_Dropbox (u_Permissions user)
               then (let dropboxReal = Join_paths [r_Base r, r_DropboxDir r, u_Username user]
                     in thenE (MkdirAll r dropboxReal mode_750)
                          (appendVirtualMount r entries ''dropbox'' (pathJoinVirtual home ''dropbox'')
                             dropboxReal))
               else returnE entries))"

definition EnsureUserHome :: "Root \<Rightarrow> User \<Rightarrow> unit io" where
  "EnsureUserHome r user =
     bindE (liftE (Resolve r user [slash] (u_Home user))) (\<lambda>(home, _).
     bindE (MkdirAll r home mode_750) (\<lambda>_.
       if p_Dropbox (u_Permissions user)
       then MkdirAll r (Join_paths [r_Base r, r_DropboxDir r, u_Username user]) mode_750
       else returnE ()))"

definition New_root :: "string \<Rightarrow> string \<Rightarrow> string \<Rightarrow> string list \<Rightarrow> Root io" where
  "New_root absBase publicDir dropboxDir ignore =
     (let r = \<lparr>r_Base = Clean absBase, r_PublicDir = cleanName publicDir,
               r_DropboxDir = cleanName dropboxDir, r_Ignore = normalizeIgnore ignore\<rparr>
      in bindE (op_mkdirAll (os_path (r_Base r)) mode_750) (\<lambda>_. returnE r))"

subsection \<open>Copying\<close>

definition cloneFile :: "bool \<Rightarrow> string \<Rightarrow> string \<Rightarrow> unit io" where
  "cloneFile platform_clone srcPath dstPath =
     (if platform_clone then op_clone (os_path srcPath) (os_path dstPath)
      else throwE (ErrMsg ''filesystem clone is not available on this platform''))"

text \<open>\<open>io.Copy\<close> between the two open files; both are on the tree of the root.\<close>

definition io_copy :: "Root \<Rightarrow> string \<Rightarrow> string \<Rightarrow> int io" where
  "io_copy r srcPath dstPath =
     bindE (liftE (relFromReal r srcPath)) (\<lambda>srcRel.
     bindE (liftE (relFromReal r dstPath)) (\<lambda>dstRel.
     bindE (op_readfile (os_path (r_Base r) @ rel_path srcRel)) (\<lambda>content.
     bindE (op_write (os_path (r_Base r) @ rel_path dstRel) content) (\<lambda>_.
       returnE (int (length content))))))"

definition copyFile :: "bool \<Rightarrow> Root \<Rightarrow> string \<Rightarrow> string \<Rightarrow> CopyOptions \<Rightarrow> CopyResult io" where
  "copyFile platform_clone r srcPath dstPath opts =
     bindE (Stat r srcPath) (\<lambda>info.
     if is_dir info then throwE (ErrMsg ''source is a directory'')
     else bindE (if co_Overwrite opts then returnE False
                 else bindE (attempt (Stat r dstPath)) (\<lambda>d. returnE (is_Inr d))) (\<lambda>exists.
     if exists then throwE (ErrMsg ''destination exists'')
     else bindE (MkdirAllParent r dstPath mode_750) (\<lambda>_.
          bindE (if co_Deduplicate opts
                 then bindE (attempt (cloneFile platform_clone srcPath dstPath)) (\<lambda>c. returnE (is_Inr c))
                 else returnE False) (\<lambda>cloned.
     if cloned
     then returnE \<lparr>cp_Files = 1, cp_Bytes = node_size info, cp_Strategy = ''clonefile''\<rparr>
     else bindE (Open_read r srcPath) (\<lambda>_.
          bindE (OpenFile r dstPath \<lparr>o_create = True, o_trunc = co_Overwrite opts,
                   o_excl = \<not> co_Overwrite opts\<rparr> (n_mode info)) (\<lambda>_.
          bindE (io_copy r srcPath dstPath) (\<lambda>n.
            returnE \<lparr>cp_Files = 1, cp_Bytes = n, cp_Strategy = ''copy''\<rparr>)))))))"

definition merge_result :: "CopyResult \<Rightarrow> CopyResult \<Rightarrow> CopyResult" where
  "merge_result result child =
     \<lparr>cp_Files = wrap_i64 (cp_Files result + cp_Files child),
      cp_Bytes = wrap_i64 (cp_Bytes result + cp_Bytes child),
      cp_Strategy = (if cp_Strategy result = [] then cp_Strategy child
                     else if cp_Strategy child \<noteq> [] \<and> cp_Strategy result \<noteq> cp_Strategy child
                     then ''mixed'' else cp_Strategy result)\<rparr>"

text \<open>The loop over a directory's entries; \<open>copy\<close> is the recursive call.\<close>

fun copy_entries ::
  "(string \<Rightarrow> string \<Rightarrow> CopyResult io) \<Rightarrow> string \<Rightarrow> string \<Rightarrow> Entry list \<Rightarrow> CopyResult
     \<Rightarrow> CopyResult io" where
  "copy_entries copy srcPath dstPath [] result = returnE result"
| "copy_entries copy srcPath dstPath (entry # entries) result =
     bindE (copy (Join_paths [srcPath, en_Name entry]) (Join_paths [dstPath, en_Name entry])) (\<lambda>child.
       copy_entries copy srcPath dstPath entries (merge_result result child))"

definition copyDir ::
  "(string \<Rightarrow> string \<Rightarrow> CopyResult io) \<Rightarrow> Root \<Rightarrow> string \<Rightarrow> string \<Rightarrow> CopyOptions
     \<Rightarrow> CopyResult io" where
  "copyDir copy r srcPath0 dstPath0 opts =
     (let srcPath = Clean srcPath0; dstPath = Clean dstPath0
      in if dstPath = srcPath \<or> HasPrefix dstPath (srcPath @ [slash])
         then throwE (ErrMsg ''destination cannot be inside source folder'')
         else bindE (if co_Overwrite opts then returnE False
                     else bindE (attempt (Stat r dstPath)) (\<lambda>d. returnE (is_Inr d))) (\<lambda>exists.
              if exists then throwE (ErrMsg ''destination exists'')
              else bindE (MkdirAll r dstPath mode_750) (\<lambda>_.
                   bindE (List_dir r srcPath [slash]) (\<lambda>entries.
                   bindE (copy_entries copy srcPath dstPath entries
                            \<lparr>cp_Files = 0, cp_Bytes = 0, cp_Strategy = []\<rparr>) (\<lambda>result.
                     returnE (if cp_Strategy result = [] then result\<lparr>cp_Strategy := ''copy''\<rparr>
                              else result))))))"

text \<open>
  The recursion of \<open>Copy\<close> is bounded by a depth, because the tree it walks is read while it is
  being changed.
\<close>

fun Copy_depth ::
  "bool \<Rightarrow> Root \<Rightarrow> nat \<Rightarrow> string \<Rightarrow> string \<Rightarrow> CopyOptions \<Rightarrow> CopyResult io" where
  "Copy_depth platform_clone r 0 srcPath dstPath opts = throwE OutOfFuel"
| "Copy_depth platform_clone r (Suc n) srcPath dstPath opts =
     bindE (Stat r srcPath) (\<lambda>info.
     if dstPath = r_Base r then throwE ErrOutsideRoot
     else if is_dir info
     then copyDir (\<lambda>a b. Copy_depth platform_clone r n a b opts) r srcPath dstPath opts
     else copyFile platform_clone r srcPath dstPath opts)"

definition tree_depth :: "fs \<Rightarrow> nat" where
  "tree_depth fs = foldr max (map (\<lambda>(p, _). length p) fs) 0"

definition Copy :: "bool \<Rightarrow> Root \<Rightarrow> string \<Rightarrow> string \<Rightarrow> CopyOptions \<Rightarrow> CopyResult io" where
  "Copy platform_clone r srcPath dstPath opts w =
     Copy_depth platform_clone r (tree_depth (w_fs w) + 2) srcPath dstPath opts w"

subsection \<open>Trash and versions\<close>

definition retain_id :: "time \<Rightarrow> string \<Rightarrow> string" where
  "retain_id now actor = format_stamp now @ ''-'' @ safeName actor"

text \<open>Giving up: the retained directory is removed, the error is returned.\<close>

definition cleanup_fail :: "string \<Rightarrow> err \<Rightarrow> 'a io" where
  "cleanup_fail retainedDir e = thenE (op_removeAll (os_path retainedDir)) (throwE e)"

definition retain_store ::
  "bool \<Rightarrow> Root \<Rightarrow> string \<Rightarrow> bool \<Rightarrow> string \<Rightarrow> string \<Rightarrow> RetainedEntry \<Rightarrow> RetainedEntry io" where
  "retain_store platform_clone r realPath move retainedDir raw entry =
     (let payload = Join_paths [retainedDir, ''payload'']
      in bindE (attempt (if move then op_rename_os (os_path realPath) (os_path payload)
                         else bindE (Copy platform_clone r realPath payload
                                       \<lparr>co_Deduplicate = True, co_Overwrite = True\<rparr>)
                                (\<lambda>_. returnE ()))) (\<lambda>stored.
         case stored of
           Inl e \<Rightarrow> cleanup_fail retainedDir e
         | Inr _ \<Rightarrow>
             bindE (attempt (op_writeFile (os_path (Join_paths [retainedDir, ''.macftpd-retain.json'']))
                               raw mode_600)) (\<lambda>written.
               case written of
                 Inr _ \<Rightarrow> returnE entry
               | Inl e \<Rightarrow>
                   if move then
                     bindE (attempt (op_rename_os (os_path payload) (os_path realPath))) (\<lambda>rollback.
                       case rollback of
                         Inl rollbackErr \<Rightarrow> throwE (ErrJoin e rollbackErr)
                       | Inr _ \<Rightarrow> cleanup_fail retainedDir e)
                   else cleanup_fail retainedDir e)))"

definition retain ::
  "codec \<Rightarrow> bool \<Rightarrow> Root \<Rightarrow> string \<Rightarrow> string \<Rightarrow> string \<Rightarrow> string \<Rightarrow> bool \<Rightarrow> RetainedEntry io" where
  "retain json platform_clone r realPath virtual0 actor rootName move =
     bindE (Stat r realPath) (\<lambda>info.
       let virtual = (if virtual0 = []
                      then slash # TrimPrefix (mustRel (r_Base r) realPath) ''./'' else virtual0)
       in bindE timeNow (\<lambda>now1.
       let ident = retain_id now1 actor;
           retainedDir = Join_paths [r_Base r, rootName, ident]
       in bindE (op_mkdirAll (os_path retainedDir) mode_750) (\<lambda>_.
          bindE timeNow (\<lambda>now2.
            let entry = \<lparr>re_ID = ident, re_OriginalPath = cleanVirtual virtual,
                         re_RetainedPath = slash # rootName @ [slash] @ ident,
                         re_Size = node_size info, re_IsDir = is_dir info, re_ModTime = now2\<rparr>
            in case json_encode json entry of
                 None \<Rightarrow> cleanup_fail retainedDir (ErrMsg ''json'')
               | Some raw \<Rightarrow> retain_store platform_clone r realPath move retainedDir raw entry))))"

definition Trash :: "codec \<Rightarrow> bool \<Rightarrow> Root \<Rightarrow> string \<Rightarrow> string \<Rightarrow> string \<Rightarrow> RetainedEntry io" where
  "Trash json platform_clone r realPath virtual actor =
     retain json platform_clone r realPath virtual actor ''._macftpd_trash'' True"

definition Version :: "codec \<Rightarrow> bool \<Rightarrow> Root \<Rightarrow> string \<Rightarrow> string \<Rightarrow> string \<Rightarrow> RetainedEntry io" where
  "Version json platform_clone r realPath virtual actor =
     retain json platform_clone r realPath virtual actor ''._macftpd_versions'' False"

definition Restore :: "codec \<Rightarrow> Root \<Rightarrow> string \<Rightarrow> string \<Rightarrow> string \<Rightarrow> bool \<Rightarrow> string io" where
  "Restore json r kind ident destVirtual0 overwrite =
     (let rootName = retainedRoot kind
      in if ident = [] \<or> Contains ident [slash] then throwE ErrOutsideRoot
         else let retainedDir = Join_paths [r_Base r, rootName, ident];
                  meta = Join_paths [retainedDir, ''.macftpd-retain.json'']
              in bindE (op_readfile (os_path meta)) (\<lambda>raw.
                 case json_decode json raw of
                   None \<Rightarrow> throwE (ErrMsg ''json'')
                 | Some entry \<Rightarrow>
                     (let destVirtual = cleanVirtual (if destVirtual0 = [] then re_OriginalPath entry
                                                      else destVirtual0)
                      in bindE (liftE (realFromVirtual r destVirtual)) (\<lambda>destReal.
                         bindE (if overwrite then returnE False
                                else bindE (attempt (Stat r destReal)) (\<lambda>d. returnE (is_Inr d))) (\<lambda>exists.
                         if exists then throwE (ErrMsg ''destination exists'')
                         else bindE (MkdirAllParent r destReal mode_750) (\<lambda>_.
                              let payload = Join_paths [retainedDir, ''payload''] in
                              thenE (if overwrite then RemoveAll r destReal else returnE ())
                              (bindE (op_rename_os (os_path payload) (os_path destReal)) (\<lambda>_.
                              thenE (op_remove (os_path meta))
                              (thenE (op_remove (os_path retainedDir))
                              (returnE destVirtual))))))))))"

subsection \<open>Replacing and installing\<close>

definition ReplaceFile ::
  "codec \<Rightarrow> bool \<Rightarrow> Root \<Rightarrow> string \<Rightarrow> string \<Rightarrow> string \<Rightarrow> string \<Rightarrow> bool \<Rightarrow> unit io" where
  "ReplaceFile json platform_clone r stagedPath destPath virtual actor preserve =
     bindE (attempt (Stat r destPath)) (\<lambda>info. case info of
       Inr n \<Rightarrow>
         if is_dir n then throwE (ErrMsg ''destination is a directory'')
         else bindE (if preserve then bindE (Version json platform_clone r destPath virtual actor)
                                        (\<lambda>_. returnE ())
                     else returnE ()) (\<lambda>_. Rename r stagedPath destPath)
     | Inl e \<Rightarrow> if e \<noteq> ErrNotExist then throwE e else Rename r stagedPath destPath)"

definition InstallFile :: "Root \<Rightarrow> string \<Rightarrow> string \<Rightarrow> unit io" where
  "InstallFile r stagedPath destPath =
     bindE (op_opendir (os_path (r_Base r))) (\<lambda>_.
     bindE (liftE (relFromReal r stagedPath)) (\<lambda>stagedRel.
     bindE (liftE (relFromReal r destPath)) (\<lambda>destRel.
       let base = os_path (r_Base r); staged = base @ rel_path stagedRel; dest = base @ rel_path destRel
       in bindE (op_link staged dest) (\<lambda>_.
          bindE (attempt (guarded r op_remove staged)) (\<lambda>removed. case removed of
            Inl e \<Rightarrow> thenE (guarded r op_remove dest) (throwE e)
          | Inr _ \<Rightarrow> returnE ())))))"

definition WriteFileAtomic :: "string \<Rightarrow> nat \<Rightarrow> string \<Rightarrow> unit io" where
  "WriteFileAtomic p mode data =
     bindE (op_mkdirAll (os_path (Dir_name p)) mode_750) (\<lambda>_.
     bindE timeNow (\<lambda>now.
       let tmp = p @ ''.tmp-'' @ Itoa (UnixNano now)
       in bindE (op_writeFile (os_path tmp) data mode) (\<lambda>_.
          op_rename_os (os_path tmp) (os_path p))))"

subsection \<open>Listing what was retained\<close>

fun walk_items ::
  "(path \<Rightarrow> 'a list io) \<Rightarrow> (path \<Rightarrow> 'a list io) \<Rightarrow> path \<Rightarrow> (string \<times> node) list \<Rightarrow> 'a list io" where
  "walk_items dir file p [] = returnE []"
| "walk_items dir file p ((name, n) # items) =
     bindE (if is_dir n then dir (p @ [name]) else file (p @ [name])) (\<lambda>xs.
     bindE (walk_items dir file p items) (\<lambda>ys. returnE (xs @ ys)))"

text \<open>\<open>filepath.WalkDir\<close> with a callback that never fails: unreadable directories are skipped.\<close>

fun walk_dir :: "nat \<Rightarrow> (path \<Rightarrow> 'a list io) \<Rightarrow> path \<Rightarrow> 'a list io" where
  "walk_dir 0 file p = throwE OutOfFuel"
| "walk_dir (Suc n) file p =
     bindE (attempt (op_readdir p)) (\<lambda>r. case r of
       Inl _ \<Rightarrow> returnE []
     | Inr items \<Rightarrow> walk_items (walk_dir n file) file p items)"

definition retained_file :: "codec \<Rightarrow> path \<Rightarrow> RetainedEntry list io" where
  "retained_file json p =
     (if last p \<noteq> ''.macftpd-retain.json'' then returnE []
      else bindE (attempt (op_readfile p)) (\<lambda>raw. case raw of
             Inl _ \<Rightarrow> returnE []
           | Inr c \<Rightarrow> (case json_decode json c of
               Some entry \<Rightarrow> returnE (if re_ID entry \<noteq> [] then [entry] else [])
             | None \<Rightarrow> returnE [])))"

definition ListRetained :: "codec \<Rightarrow> Root \<Rightarrow> string \<Rightarrow> RetainedEntry list io" where
  "ListRetained json r kind =
     (let realRoot = os_path (Join_paths [r_Base r, retainedRoot kind])
      in bindE (op_mkdirAll realRoot mode_750) (\<lambda>_.
         bindE (op_opendir realRoot) (\<lambda>_.
         bindE (\<lambda>w. walk_dir (tree_depth (w_fs w) + 1) (retained_file json) realRoot w) (\<lambda>entries.
           returnE (sort_key (\<lambda>e. - re_ModTime e) entries)))))"

end
