(* ===== verification/StorageProofs.thy ===== *)
theory StorageProofs
  imports Storage
begin

text \<open>
  What the storage operations do to the tree, for every combination of failures. Paths that
  \<open>Resolve\<close> returns are the base followed by segments, so the string operations of the code reduce
  to operations on segments; the frame rules of \<open>FileSystem\<close> then say what stays as it was.
\<close>

subsection \<open>From strings to segments\<close>

lemma os_path_abs [simp]: "segs xs \<Longrightarrow> os_path (abs_path xs) = xs"
  by (simp add: os_path_def)

lemma rel_path_Join: "segs xs \<Longrightarrow> rel_path (if xs = [] then ''.'' else Join xs [slash]) = xs"
proof -
  assume a: "segs xs"
  have "Join xs [slash] \<noteq> ''.''" if "xs \<noteq> []"
  proof
    assume "Join xs [slash] = ''.''"
    then have "path_elems (Join xs [slash]) = [''.'']" by (simp add: path_elems_def)
    then show False using a by (simp add: path_elems_Join seg_def)
  qed
  with a show ?thesis by (auto simp: rel_path_def path_elems_Join)
qed

lemma in_root_abs:
  assumes "root_ok r bs" and "segs xs"
  shows "in_root r (abs_path (bs @ xs)) op = bindE (op_opendir bs) (\<lambda>_. op (bs @ xs))"
  using root_okD[OF assms(1)] assms(2) rel_path_Join[OF assms(2)]
  by (simp add: in_root_def relFromReal_abs[OF assms])

lemma in_root_outside:
  assumes "root_ok r bs" and "segs ys" and "\<not> prefix bs ys"
  shows "in_root r (abs_path ys) op = bindE (op_opendir bs) (\<lambda>_. throwE ErrOutsideRoot)"
  using root_okD[OF assms(1)]
  by (simp add: in_root_def relFromReal_outside[OF assms])

lemma Join_under:
  "segs xs \<Longrightarrow> seg x \<Longrightarrow> Join_paths [abs_path xs, x] = abs_path (xs @ [x])"
  by (rule Join_paths_seg)

lemma Clean_trailing_slash: "segs xs \<Longrightarrow> Clean (abs_path xs @ [slash]) = abs_path xs"
proof -
  assume a: "segs xs"
  have "Split (abs_path xs @ slash # []) slash = Split (abs_path xs) slash @ [[]]"
    by (simp only: Split_append_slash) simp
  with a show ?thesis by (simp add: Clean_abs_segs Split_abs_path clean_stack_append)
qed

lemma Dir_name_abs: "segs xs \<Longrightarrow> seg x \<Longrightarrow> Dir_name (abs_path (xs @ [x])) = abs_path xs"
proof -
  assume a: "segs xs" "seg x"
  have up: "upto_last_slash (p @ slash # x) = p @ [slash]" for p
    using seg_D(2)[OF a(2)] by (simp add: upto_last_slash_def dropWhile_append1 dropWhile_append)
  show ?thesis
  proof (cases "xs = []")
    case True
    have "abs_path [x] = [] @ slash # x" by (simp add: abs_path_def)
    then have "upto_last_slash (abs_path [x]) = [slash]" by (simp only: up) simp
    with True Clean_abs_path[of "[]"] show ?thesis by (simp add: Dir_name_def)
  next
    case False
    then have "abs_path (xs @ [x]) = abs_path xs @ slash # x" by (simp add: abs_path_append)
    then have "upto_last_slash (abs_path (xs @ [x])) = abs_path xs @ [slash]" by (simp only: up)
    with a show ?thesis by (simp add: Dir_name_def Clean_trailing_slash)
  qed
qed

text \<open>The names the code makes are segments.\<close>

lemma seg_names:
  "seg ''payload''" "seg ''.macftpd-retain.json''" "seg ''._macftpd_trash''"
  "seg ''._macftpd_versions''" "seg ''._macftpd_uploads''"
  by (simp_all add: seg_def)

lemma safeName_no_slash: "slash \<notin> set (safeName a)"
  using name_char_not_slash by (auto simp: safeName_def Let_def)

lemma seg_retain_id: "seg (retain_id t a)"
proof -
  obtain s where s: "format_stamp t = s @ ''Z''" using format_stamp_last by blast
  have "slash \<notin> set (retain_id t a)"
    using format_stamp_no_slash safeName_no_slash by (simp add: retain_id_def)
  moreover have "CHR ''Z'' \<in> set (retain_id t a)" by (simp add: retain_id_def s)
  ultimately show ?thesis by (auto simp: seg_def)
qed

subsection \<open>What each operation may change\<close>

lemma only_in_root [frame]:
  assumes "\<And>q. only S (op q)"
  shows "only S (in_root r p op)"
  unfolding in_root_def by (intro frame assms)

lemma only_Stat [frame]: "only S (Stat r p)" "only S (Open_read r p)"
  unfolding Stat_def Open_read_def by (intro frame)+

lemma only_MkdirAll [frame]: "only S (MkdirAll r p m)" "only S (MkdirAllParent r p m)"
  unfolding MkdirAllParent_def MkdirAll_def by (intro frame)+

lemma only_list_items [frame]: "only S (list_items r d v items)"
  by (induction r d v items rule: list_items.induct) (auto simp: Let_def intro!: frame)

lemma only_List_dir [frame]: "only S (List_dir r d v)"
  unfolding List_dir_def by (intro frame)

lemma only_OpenFile [frame]:
  assumes "root_ok r bs" and "segs xs" and "bs @ xs \<in> S"
  shows "only S (OpenFile r (abs_path (bs @ xs)) fl m)"
  unfolding OpenFile_def in_root_abs[OF assms(1,2)] by (intro frame assms)

lemma only_io_copy:
  assumes "root_ok r bs" and "segs xs" and "bs @ xs \<in> S"
  shows "only S (io_copy r src (abs_path (bs @ xs)))"
proof -
  have b: "os_path (r_Base r) = bs" using root_okD[OF assms(1)] by simp
  show ?thesis
    unfolding io_copy_def relFromReal_abs[OF assms(1,2)] bindE_liftE rel_path_Join[OF assms(2)] b
    by (intro frame assms)
qed

lemma only_copyFile:
  assumes "root_ok r bs" and "segs ds" and "bs @ ds \<in> S"
  shows "only S (copyFile c r src (abs_path (bs @ ds)) opts)"
  using root_okD[OF assms(1)] assms
  unfolding copyFile_def cloneFile_def
  by (intro only_bindE only_if frame only_OpenFile only_io_copy assms) simp_all

lemma list_items_names:
  "list_items r d v items w = (Inr es, w') \<Longrightarrow> e \<in> set es \<Longrightarrow> en_Name e \<in> fst ` set items"
proof (induction r d v items arbitrary: w w' es rule: list_items.induct)
  case (2 r d v name n items)
  show ?case
  proof (cases "IsIgnoredVirtual r (pathJoinVirtual v name)")
    case True
    with 2(1)[OF refl True] 2(4,5) show ?thesis by (auto simp: Let_def)
  next
    case False
    obtain info w1 where op: "op_stat (d @ [name]) w = (info, w1)" by fastforce
    show ?thesis
    proof (cases info)
      case (Inl x)
      with 2(2)[OF refl False] 2(4,5) op False show ?thesis by (auto simp: Let_def bindE_def)
    next
      case (Inr m)
      obtain es0 w2 where rest: "list_items r d v items w1 = (Inr es0, w2)"
          "es = entryFromInfo name m (pathJoinVirtual v name) # es0"
        using 2(4) op False Inr
        by (auto simp: Let_def bindE_def split: prod.splits sum.splits)
      from 2(3)[OF refl False rest(1)] 2(5) rest(2) show ?thesis
        by (auto simp: entryFromInfo_def)
    qed
  qed
qed simp

lemma in_root_run:
  "in_root r p op w = (Inr x, w') \<Longrightarrow> \<exists>q w1. op q w1 = (Inr x, w')"
  unfolding in_root_def by (auto simp: bindE_def liftE_def split: prod.splits sum.splits)

lemma List_dir_names:
  assumes "List_dir r p v w = (Inr es, w')" and "e \<in> set es"
  shows "seg (en_Name e)"
proof -
  obtain q w1 where "bindE (op_readdir q) (list_items r q v) w1 = (Inr es, w')"
    using in_root_run[OF assms(1)[unfolded List_dir_def]] by blast
  then obtain items w2 where "op_readdir q w1 = (Inr items, w2)"
      "list_items r q v items w2 = (Inr es, w')"
    by (auto dest: bindE_cases)
  with assms(2) show ?thesis
    using list_items_names readdir_seg by (metis (no_types, lifting) imageE)
qed

lemma only_copy_entries:
  assumes "\<And>e. e \<in> set es \<Longrightarrow>
      only S (copy (Join_paths [src, en_Name e]) (Join_paths [dst, en_Name e]))"
  shows "only S (copy_entries copy src dst es res)"
  using assms
  by (induction copy src dst es res rule: copy_entries.induct) (auto intro!: only_bindE)

text \<open>A copy changes nothing outside its destination, but for directories it has to create.\<close>

lemma only_Copy_depth:
  assumes "root_ok r bs" and "segs ds" and "{q. prefix (bs @ ds) q} \<subseteq> S"
  shows "only S (Copy_depth c r n src (abs_path (bs @ ds)) opts)"
  using assms(2,3)
proof (induction n arbitrary: src ds)
  case (Suc n)
  note b = root_okD[OF assms(1)]
  have seg_ds: "segs (bs @ ds)" using b Suc.prems by simp
  have here: "bs @ ds \<in> S" using Suc.prems by auto
  have child: "only S (Copy_depth c r n s (Join_paths [abs_path (bs @ ds), en_Name e]) opts)"
    if "seg (en_Name e)" for s e
  proof -
    have "Join_paths [abs_path (bs @ ds), en_Name e] = abs_path (bs @ (ds @ [en_Name e]))"
      using Join_under[OF seg_ds that] by simp
    moreover have "{q. prefix (bs @ (ds @ [en_Name e])) q} \<subseteq> S"
      using Suc.prems(2) by (auto dest: append_prefixD simp flip: append_assoc)
    ultimately show ?thesis using Suc.IH[of "ds @ [en_Name e]" s] Suc.prems(1) that by simp
  qed
  have "only S (copyDir (\<lambda>a b. Copy_depth c r n a b opts) r src (abs_path (bs @ ds)) opts)"
    unfolding copyDir_def Let_def Clean_abs_path[OF seg_ds]
    by (intro only_if only_bindE frame only_bindE_result[OF only_List_dir] only_copy_entries child)
       (auto dest: List_dir_names)
  then show ?case
    using only_copyFile[OF assms(1) Suc.prems(1) here]
    by (auto intro!: only_bindE only_if frame)
qed simp

subsection \<open>Outcomes of single calls\<close>

lemma atomic_cases:
  assumes "syscall (atomic f) w = (r, w')"
  obtains e where "r = Inl e" "w_fs w' = w_fs w"
  | t where "f (w_fs w) t = (r, w_fs w')"
  using assms unfolding syscall_def
  by (cases "real_fault (w_faults w (w_calls w))") (auto split: prod.splits)

lemma rename_at_cases:
  assumes "op_rename_at a b w = (r, w')"
  obtains e where "r = Inl e" "w_fs w' = w_fs w"
  | "r = Inr ()" "rename_checks a b (w_fs w) = None"
    "w_fs w' = (if a = b then w_fs w else move_tree a b (w_fs w))"
  using assms unfolding op_rename_at_def
  by (rule atomic_cases) (auto simp: rename_fs_def split: option.splits)

lemma rename_os_cases:
  assumes "op_rename_os a b w = (r, w')"
  obtains e where "r = Inl e" "w_fs w' = w_fs w"
  | "r = Inr ()" "rename_checks a b (w_fs w) = None" "\<not> dir_at (w_fs w) b"
    "w_fs w' = (if a = b then w_fs w else move_tree a b (w_fs w))"
  using assms unfolding op_rename_os_def
  by (rule atomic_cases) (auto simp: rename_fs_def split: option.splits if_splits)

lemma opendir_cases:
  assumes "bindE (op_opendir p) (\<lambda>_. m) w = (r, w')"
  obtains e where "r = Inl e" "w_fs w' = w_fs w"
  | w1 where "w_fs w1 = w_fs w" "m w1 = (r, w')"
proof -
  obtain r1 w1 where o: "op_opendir p w = (r1, w1)" by fastforce
  then have same: "w_fs w1 = w_fs w"
    unfolding op_opendir_def by (rule atomic_cases) auto
  show thesis
  proof (cases r1)
    case (Inl e)
    with o assms same show thesis by (intro that(1)[of e]) simp_all
  next
    case (Inr u)
    with o assms same show thesis by (intro that(2)[of w1]) simp_all
  qed
qed

lemma stat_cases:
  assumes "op_stat p w = (r, w')"
  obtains "w_fs w' = w_fs w" "\<exists>e. r = Inl e" | "w_fs w' = w_fs w" "r = walk (w_fs w) p"
  using assms unfolding op_stat_def by (rule atomic_cases) auto

lemma Stat_fs: "Stat r p w = (res, w') \<Longrightarrow> w_fs w' = w_fs w"
proof -
  assume a: "Stat r p w = (res, w')"
  have "w_fs (snd (op_stat q v)) = w_fs v" for q v
    by (cases "op_stat q v") (auto elim: stat_cases)
  moreover have "w_fs (snd (op_opendir q v)) = w_fs v" for q v
    unfolding op_opendir_def syscall_def
    by (cases "real_fault (w_faults v (w_calls v))") auto
  ultimately have "w_fs (snd (Stat r p w)) = w_fs w"
    unfolding Stat_def in_root_def bindE_def liftE_def
    by (auto split: prod.splits sum.splits) (metis snd_conv)+
  with a show ?thesis by simp
qed

lemma Stat_ok:
  assumes "root_ok r bs" and "segs xs" and "Stat r (abs_path (bs @ xs)) w = (Inr n, w')"
  shows "node_at (w_fs w) (bs @ xs) = Some n" "w_fs w' = w_fs w"
proof -
  show "w_fs w' = w_fs w" using Stat_fs assms(3) .
  have "bindE (op_opendir bs) (\<lambda>_. op_stat (bs @ xs)) w = (Inr n, w')"
    using assms(3) unfolding Stat_def in_root_abs[OF assms(1,2)] .
  then show "node_at (w_fs w) (bs @ xs) = Some n"
  proof (rule opendir_cases)
    fix w1 assume "w_fs w1 = w_fs w" "op_stat (bs @ xs) w1 = (Inr n, w')"
    then show ?thesis by (auto elim!: stat_cases intro: walk_node)
  qed auto
qed

lemma Rename_abs:
  assumes "root_ok r bs" and "segs xs" "xs \<noteq> []" and "segs ys" "ys \<noteq> []"
  shows "Rename r (abs_path (bs @ xs)) (abs_path (bs @ ys)) =
    bindE (op_opendir bs) (\<lambda>_. op_rename_at (bs @ xs) (bs @ ys))"
  using root_okD[OF assms(1)] assms rel_path_Join[OF assms(2)] rel_path_Join[OF assms(4)]
  by (simp add: Rename_def relFromReal_abs[OF assms(1)] guarded_def)

lemma guarded_abs:
  "root_ok r bs \<Longrightarrow> xs \<noteq> [] \<Longrightarrow> guarded r op (bs @ xs) = op (bs @ xs)"
  using root_okD[of r bs] by (simp add: guarded_def)

subsection \<open>Retention\<close>

lemma only_cleanup [frame]: "{q. prefix (os_path d) q} \<subseteq> S \<Longrightarrow> only S (cleanup_fail d e)"
  unfolding cleanup_fail_def by (intro frame)

lemma retained_paths:
  assumes "root_ok r bs" and "seg rootName" and "seg ident"
  shows "Join_paths [r_Base r, rootName, ident] = abs_path (bs @ [rootName, ident])"
    "seg x \<Longrightarrow> Join_paths [abs_path (bs @ [rootName, ident]), x] = abs_path (bs @ [rootName, ident, x])"
  using root_okD[OF assms(1)] assms Join_paths_segs[of bs "[[rootName], [ident]]"]
    Join_under[of "bs @ [rootName, ident]" x]
  by simp_all

lemma only_Copy:
  assumes "root_ok r bs" and "segs ds" and "{q. prefix (bs @ ds) q} \<subseteq> S"
  shows "only S (Copy c r src (abs_path (bs @ ds)) opts)"
  unfolding only_def Copy_def
proof
  fix w
  show "grows S (w_fs w) (w_fs (snd (Copy_depth c r (tree_depth (w_fs w) + 2) src
      (abs_path (bs @ ds)) opts w)))"
    using only_Copy_depth[OF assms] unfolding only_def ..
qed

lemma only_retain_store:
  assumes root: "root_ok r bs" and names: "seg rootName" "seg ident"
    and S: "{q. prefix (bs @ [rootName]) q} \<subseteq> S"
    and src: "move \<Longrightarrow> {q. prefix (os_path realPath) q} \<subseteq> S"
  shows "only S (retain_store c r realPath move (abs_path (bs @ [rootName, ident])) raw entry)"
proof -
  note b = root_okD[OF root]
  have ss: "segs (bs @ [rootName, ident])" "segs (bs @ [rootName, ident, ''payload''])"
      "segs (bs @ [rootName, ident, ''.macftpd-retain.json''])"
      "segs [rootName, ident, ''payload'']"
    using b names seg_names by simp_all
  have sub: "{q. prefix (bs @ rootName # ident # xs) q} \<subseteq> S" for xs
    using S by (auto simp: prefix_def)
  have in_S: "bs @ rootName # ident # xs \<in> S" for xs
    using sub[of xs] by auto
  have dir: "{q. prefix (os_path (abs_path (bs @ [rootName, ident]))) q} \<subseteq> S"
    using sub[of "[]"] os_path_abs[OF ss(1)] by simp
  note paths = retained_paths(2)[OF root names seg_names(1)] retained_paths(2)[OF root names seg_names(2)]
  have both: "{q. prefix (os_path realPath) q \<or> prefix (bs @ [rootName, ident, ''payload'']) q} \<subseteq> S"
      "{q. prefix (bs @ [rootName, ident, ''payload'']) q \<or> prefix (os_path realPath) q} \<subseteq> S"
    if move using src[OF that] sub[of "[''payload'']"] by auto
  show ?thesis
    unfolding retain_store_def Let_def paths os_path_abs[OF ss(2)] os_path_abs[OF ss(3)]
    by (intro frame only_Copy[OF root ss(4)] both sub in_S dir)
qed

lemma only_retain:
  assumes root: "root_ok r bs" and names: "seg rootName"
    and S: "{q. prefix (bs @ [rootName]) q} \<subseteq> S"
    and src: "move \<Longrightarrow> {q. prefix (os_path realPath) q} \<subseteq> S"
  shows "only S (retain json c r realPath virtual actor rootName move)"
proof -
  note b = root_okD[OF root]
  have sub: "{q. prefix (os_path (abs_path (bs @ [rootName, retain_id t actor]))) q} \<subseteq> S" for t
  proof -
    have "os_path (abs_path (bs @ [rootName, retain_id t actor])) = bs @ [rootName, retain_id t actor]"
      using b names seg_retain_id by simp
    then show ?thesis using S by (auto simp: prefix_def)
  qed
  show ?thesis
    unfolding retain_def Let_def retained_paths(1)[OF root names seg_retain_id]
    by (intro frame only_retain_store[OF root names seg_retain_id S src] sub)
qed

lemma link_cases:
  assumes "op_link a b w = (r, w')"
  obtains e where "r = Inl e" "w_fs w' = w_fs w"
  | n where "r = Inr ()" "node_at (w_fs w) a = Some n" "\<not> is_dir n" "node_at (w_fs w) b = None"
    "w_fs w' = put_node b n (w_fs w)"
  using assms unfolding op_link_def
proof (rule atomic_cases)
  fix t
  assume run: "(case walk (w_fs w) a of Inl e \<Rightarrow> (Inl e, w_fs w)
     | Inr n \<Rightarrow>
         if is_dir n then (Inl ErrInvalid, w_fs w)
         else if \<not> dir_at (w_fs w) (butlast b)
         then (Inl (if list_ex (file_at (w_fs w)) (strict_prefixes b) then ErrNotDir
                    else ErrNotExist), w_fs w)
         else if node_at (w_fs w) b \<noteq> None then (Inl ErrExist, w_fs w)
         else (Inr (), put_node b n (w_fs w))) = (r, w_fs w')"
  show thesis
  proof (cases "walk (w_fs w) a")
    case (Inl e)
    with run that(1)[of e] show thesis by simp
  next
    case (Inr n)
    show thesis
    proof (cases "\<not> is_dir n \<and> dir_at (w_fs w) (butlast b) \<and> node_at (w_fs w) b = None")
      case True
      with run Inr walk_node[OF Inr] that(2)[of n] show thesis by simp
    next
      case False
      with run Inr have "w_fs w' = w_fs w \<and> (\<exists>e. r = Inl e)" by (auto split: if_splits)
      with that(1) show thesis by blast
    qed
  qed
qed (rule that(1))

lemma remove_cases:
  assumes "op_remove p w = (r, w')"
  obtains e where "r = Inl e" "w_fs w' = w_fs w"
  | "r = Inr ()" "w_fs w' = drop_node p (w_fs w)"
  using assms unfolding op_remove_def
  by (rule atomic_cases) (auto split: sum.splits if_splits)

lemma InstallFile_abs:
  assumes "root_ok r bs" and "segs ss" "ss \<noteq> []" and "segs ds" "ds \<noteq> []"
  shows "InstallFile r (abs_path (bs @ ss)) (abs_path (bs @ ds)) =
    bindE (op_opendir bs) (\<lambda>_. bindE (op_link (bs @ ss) (bs @ ds)) (\<lambda>_.
      bindE (attempt (op_remove (bs @ ss))) (\<lambda>removed. case removed of
        Inl e \<Rightarrow> thenE (op_remove (bs @ ds)) (throwE e) | Inr _ \<Rightarrow> returnE ())))"
proof -
  have b: "os_path (r_Base r) = bs" using root_okD[OF assms(1)] by simp
  show ?thesis
    unfolding InstallFile_def Let_def relFromReal_abs[OF assms(1,2)] relFromReal_abs[OF assms(1,4)]
      bindE_liftE rel_path_Join[OF assms(2)] rel_path_Join[OF assms(4)] b
      guarded_abs[OF assms(1,3)] guarded_abs[OF assms(1,5)] ..
qed

text \<open>C4: installing never replaces and never loses the upload. Whatever calls fail, an
  existing file or directory at the destination is left as it is and the call reports an error;
  success moves the staged file to the free destination; and after an error the staged file is
  still where it was. Nothing else changes.\<close>

theorem install_never_replaces:
  assumes "root_ok r bs" and "segs ss" "ss \<noteq> []" and "segs ds" "ds \<noteq> []" and "ss \<noteq> ds"
    and "InstallFile r (abs_path (bs @ ss)) (abs_path (bs @ ds)) w = (res, w')"
  shows "(node_at (w_fs w) (bs @ ds) \<noteq> None \<longrightarrow>
       res \<noteq> Inr () \<and> (\<forall>p. node_at (w_fs w') p = node_at (w_fs w) p)) \<and>
    (res = Inr () \<longrightarrow> (\<exists>n. node_at (w_fs w) (bs @ ss) = Some n \<and> \<not> is_dir n \<and>
       node_at (w_fs w') (bs @ ds) = Some n \<and> node_at (w_fs w') (bs @ ss) = None)) \<and>
    (res \<noteq> Inr () \<longrightarrow> node_at (w_fs w') (bs @ ss) = node_at (w_fs w) (bs @ ss) \<and>
       node_at (w_fs w') (bs @ ds) \<in> {node_at (w_fs w) (bs @ ds), node_at (w_fs w) (bs @ ss)}) \<and>
    (\<forall>p. p \<noteq> bs @ ss \<and> p \<noteq> bs @ ds \<longrightarrow> node_at (w_fs w') p = node_at (w_fs w) p)"
proof -
  have run: "bindE (op_opendir bs) (\<lambda>_. bindE (op_link (bs @ ss) (bs @ ds)) (\<lambda>_.
      bindE (attempt (op_remove (bs @ ss))) (\<lambda>removed. case removed of
        Inl e \<Rightarrow> thenE (op_remove (bs @ ds)) (throwE e) | Inr _ \<Rightarrow> returnE ()))) w = (res, w')"
    using assms(7) unfolding InstallFile_abs[OF assms(1-5)] .
  then show ?thesis
  proof (rule opendir_cases)
    fix w1 assume w1: "w_fs w1 = w_fs w"
      and rest: "bindE (op_link (bs @ ss) (bs @ ds)) (\<lambda>_.
        bindE (attempt (op_remove (bs @ ss))) (\<lambda>removed. case removed of
          Inl e \<Rightarrow> thenE (op_remove (bs @ ds)) (throwE e) | Inr _ \<Rightarrow> returnE ())) w1 = (res, w')"
    obtain r2 w2 where l: "op_link (bs @ ss) (bs @ ds) w1 = (r2, w2)" by fastforce
    then show ?thesis
    proof (cases rule: link_cases)
      case (1 e)
      with rest l w1 show ?thesis by auto
    next
      case (2 n)
      obtain r3 w3 where rm: "op_remove (bs @ ss) w2 = (r3, w3)" by fastforce
      then show ?thesis
      proof (cases rule: remove_cases)
        case (1 e)
        obtain r4 w4 where bk: "op_remove (bs @ ds) w3 = (r4, w4)" by fastforce
        have "res = Inl e" "w' = w4" using rest l 2 rm 1 bk by simp_all
        with bk show ?thesis
          by (cases rule: remove_cases) (use 1 2 w1 assms(6) in auto)
      next
        case removed: 2
        have "res = Inr ()" "w' = w3" using rest l 2 rm removed by simp_all
        with 2 removed w1 assms(6) show ?thesis by auto
      qed
    qed
  qed auto
qed

text \<open>A tree to run the operations on: a base with a staged upload and a file.\<close>

definition sample_fs :: fs where
  "sample_fs =
     [([], Dir 493 0), ([''srv''], Dir 493 0), ([''srv'', ''files''], Dir 488 0),
      ([''srv'', ''files'', ''up''], File ''new'' 384 1),
      ([''srv'', ''files'', ''a''], File ''old'' 420 1)]"

definition sample_world :: "(nat \<Rightarrow> fault) \<Rightarrow> world" where
  "sample_world faults =
     \<lparr>w_fs = sample_fs, w_faults = faults, w_calls = 0, w_clock = (\<lambda>n. int n), w_ticks = 0\<rparr>"

theorem install_never_replaces_witness:
  "let out = InstallFile sample_root ''/srv/files/up'' ''/srv/files/a'' (sample_world (\<lambda>_. NoFault))
   in fst out = Inl ErrExist \<and>
      node_at (w_fs (snd out)) [''srv'', ''files'', ''a''] = Some (File ''old'' 420 1)"
proof -
  let ?w = "sample_world (\<lambda>_. NoFault)"
  let ?out = "InstallFile sample_root ''/srv/files/up'' ''/srv/files/a'' ?w"
  have p: "abs_path ([''srv'', ''files''] @ [''up'']) = ''/srv/files/up''"
      "abs_path ([''srv'', ''files''] @ [''a'']) = ''/srv/files/a''" "segs [''up'']" "segs [''a'']"
    by code_simp+
  have "fst ?out = Inl ErrExist" by code_simp
  moreover have "node_at (w_fs ?w) ([''srv'', ''files''] @ [''a'']) = Some (File ''old'' 420 1)"
    by code_simp
  moreover have "?out = (fst ?out, snd ?out)" by simp
  ultimately show ?thesis
    using install_never_replaces[OF sample_root_ok p(3) _ p(4), unfolded p(1,2),
        of ?w "fst ?out" "snd ?out"]
    by (simp add: Let_def)
qed

subsection \<open>A successful copy of a file\<close>

lemma Inr_bindE:
  assumes "bindE m f w = (Inr y, w')"
  obtains x w1 where "m w = (Inr x, w1)" "f x w1 = (Inr y, w')"
  using assms bindE_cases by (metis Inl_Inr_False)

lemma in_root_Inr:
  assumes "root_ok r bs" and "segs xs" and "in_root r (abs_path (bs @ xs)) op w = (Inr y, w')"
  obtains w1 where "w_fs w1 = w_fs w" "op (bs @ xs) w1 = (Inr y, w')"
  using assms(3) unfolding in_root_abs[OF assms(1,2)] by (rule opendir_cases) auto

lemma op_open_Inr:
  assumes "op_open p fl mode w = (Inr (), w')" and "o_create fl" and "o_trunc fl \<or> o_excl fl"
  shows "\<exists>m t. w_fs w' = put_node p (File [] m t) (w_fs w)"
  using assms(1) unfolding op_open_def
proof (rule atomic_cases)
  fix t assume run: "open_fs p fl mode (w_fs w) t = (Inr (), w_fs w')"
  show ?thesis
  proof (cases "walk (w_fs w) p")
    case (Inl e)
    with run have "w_fs w' = put_node p (File [] mode t) (w_fs w)"
      by (auto simp: open_fs_def split: if_splits)
    then show ?thesis by blast
  next
    case (Inr n)
    with run assms(2,3) have "w_fs w' = put_node p (File [] (n_mode n) t) (w_fs w)"
      by (cases n) (auto simp: open_fs_def split: if_splits)
    then show ?thesis by blast
  qed
qed simp

lemma op_write_Inr:
  assumes "op_write p bs w = (Inr (), w')" and "node_at (w_fs w) p = Some (File c m t)"
  shows "\<exists>t'. w_fs w' = put_node p (File (c @ bs) m t') (w_fs w)"
  using assms unfolding op_write_def syscall_def
  by (cases "real_fault (w_faults w (w_calls w))") (auto simp: append_file_def)

lemma op_readfile_Inr:
  assumes "op_readfile p w = (Inr c, w')"
  shows "w_fs w' = w_fs w \<and> (\<exists>m t. node_at (w_fs w) p = Some (File c m t))"
  using assms unfolding op_readfile_def
proof (rule atomic_cases)
  fix t
  assume run: "(case walk (w_fs w) p of Inl e \<Rightarrow> Inl e
     | Inr n \<Rightarrow> if is_dir n then Inl ErrIsDir else Inr (n_content n), w_fs w) = (Inr c, w_fs w')"
  then obtain n where n: "walk (w_fs w) p = Inr n" by (cases "walk (w_fs w) p") auto
  with run show ?thesis using walk_node[OF n] by (cases n) auto
qed simp

lemma op_clone_Inr:
  assumes "op_clone a b w = (Inr (), w')"
  shows "\<exists>n. node_at (w_fs w) a = Some n \<and> w_fs w' = put_node b n (w_fs w)"
  using assms unfolding op_clone_def
proof (rule atomic_cases)
  fix t
  assume run: "(case walk (w_fs w) a of Inl e \<Rightarrow> (Inl e, w_fs w)
     | Inr n \<Rightarrow>
         if is_dir n then (Inl ErrIsDir, w_fs w)
         else if \<not> dir_at (w_fs w) (butlast b)
         then (Inl (if list_ex (file_at (w_fs w)) (strict_prefixes b) then ErrNotDir
                    else ErrNotExist), w_fs w)
         else if node_at (w_fs w) b \<noteq> None then (Inl ErrExist, w_fs w)
         else (Inr (), put_node b n (w_fs w))) = (Inr (), w_fs w')"
  then obtain n where n: "walk (w_fs w) a = Inr n" by (cases "walk (w_fs w) a") auto
  with run walk_node[OF n] show ?thesis by (auto split: if_splits)
qed simp

lemma op_clone_Inl:
  assumes "op_clone a b w = (Inl e, w')"
  shows "w_fs w' = w_fs w"
  using assms unfolding op_clone_def
proof (rule atomic_cases)
  fix t
  assume run: "(case walk (w_fs w) a of Inl e \<Rightarrow> (Inl e, w_fs w)
     | Inr n \<Rightarrow>
         if is_dir n then (Inl ErrIsDir, w_fs w)
         else if \<not> dir_at (w_fs w) (butlast b)
         then (Inl (if list_ex (file_at (w_fs w)) (strict_prefixes b) then ErrNotDir
                    else ErrNotExist), w_fs w)
         else if node_at (w_fs w) b \<noteq> None then (Inl ErrExist, w_fs w)
         else (Inr (), put_node b n (w_fs w))) = (Inl e, w_fs w')"
  then show ?thesis by (cases "walk (w_fs w) a") (auto split: if_splits)
qed simp

text \<open>
  \<open>triple P m Q E\<close>: started where \<open>P\<close> holds, \<open>m\<close> ends where \<open>Q\<close> holds of its result, or fails
  where \<open>E\<close> holds of the error.
\<close>

definition triple ::
  "(world \<Rightarrow> bool) \<Rightarrow> 'a io \<Rightarrow> ('a \<Rightarrow> world \<Rightarrow> bool) \<Rightarrow> (err \<Rightarrow> world \<Rightarrow> bool) \<Rightarrow> bool" where
  "triple P m Q E \<longleftrightarrow> (\<forall>w. P w \<longrightarrow>
     (case m w of (Inl e, w') \<Rightarrow> E e w' | (Inr x, w') \<Rightarrow> Q x w'))"

lemma tripleI:
  assumes "\<And>w x w'. P w \<Longrightarrow> m w = (Inr x, w') \<Longrightarrow> Q x w'"
    and "\<And>w e w'. P w \<Longrightarrow> m w = (Inl e, w') \<Longrightarrow> E e w'"
  shows "triple P m Q E"
  using assms by (auto simp: triple_def split: prod.split sum.split)

lemma tripleD_Inr: "triple P m Q E \<Longrightarrow> P w \<Longrightarrow> m w = (Inr x, w') \<Longrightarrow> Q x w'"
  by (auto simp: triple_def split: prod.splits)

lemma tripleD_Inl: "triple P m Q E \<Longrightarrow> P w \<Longrightarrow> m w = (Inl e, w') \<Longrightarrow> E e w'"
  by (auto simp: triple_def split: prod.splits)

lemma triple_bind:
  assumes "triple P m Q E" and "\<And>x. triple (Q x) (f x) R E"
  shows "triple P (bindE m f) R E"
proof (rule tripleI)
  fix w y w' assume "P w" "bindE m f w = (Inr y, w')"
  then show "R y w'" using assms by (elim Inr_bindE) (metis tripleD_Inr)
next
  fix w e w' assume a: "P w" "bindE m f w = (Inl e, w')"
  then consider "m w = (Inl e, w')" | x w1 where "m w = (Inr x, w1)" "f x w1 = (Inl e, w')"
    using bindE_cases by (metis Inl_inject)
  then show "E e w'" using assms a by cases (metis tripleD_Inr tripleD_Inl)+
qed

lemma triple_weaken:
  "triple P m Q E \<Longrightarrow> (\<And>w. P' w \<Longrightarrow> P w) \<Longrightarrow> (\<And>x w. Q x w \<Longrightarrow> Q' x w) \<Longrightarrow>
     (\<And>e w. E e w \<Longrightarrow> E' e w) \<Longrightarrow> triple P' m Q' E'"
  by (rule tripleI) (blast dest: tripleD_Inr tripleD_Inl)+

lemma triple_return: "(\<And>w. P w \<Longrightarrow> Q x w) \<Longrightarrow> triple P (returnE x) Q E"
  by (simp add: triple_def)

lemma triple_throw: "(\<And>w. P w \<Longrightarrow> E e w) \<Longrightarrow> triple P (throwE e) Q E"
  by (simp add: triple_def)

lemma triple_attempt:
  assumes "triple P m (\<lambda>x. Q (Inr x)) (\<lambda>e. Q (Inl e))"
  shows "triple P (attempt m) Q E"
proof (rule tripleI)
  fix w x w' assume a: "P w" "attempt m w = (Inr x, w')"
  then have "m w = (x, w')" by (simp add: prod_eq_iff)
  with a(1) assms show "Q x w'" by (cases x) (auto dest: tripleD_Inr tripleD_Inl)
qed simp

lemma triple_if:
  "(b \<Longrightarrow> triple P m Q E) \<Longrightarrow> (\<not> b \<Longrightarrow> triple P m' Q E) \<Longrightarrow> triple P (if b then m else m') Q E"
  by simp

lemma triple_sum:
  "(\<And>e. r = Inl e \<Longrightarrow> triple P (f e) Q E) \<Longrightarrow> (\<And>x. r = Inr x \<Longrightarrow> triple P (g x) Q E) \<Longrightarrow>
     triple P (case_sum f g r) Q E"
  by (cases r) auto

lemma triple_thenE:
  assumes "triple P m (\<lambda>_. Q) (\<lambda>_. Q)" and "triple Q k R E"
  shows "triple P (thenE m k) R E"
  unfolding thenE_def
  by (rule triple_bind[where Q = "\<lambda>_. Q"]) (use assms in \<open>auto intro: triple_attempt\<close>)

text \<open>What an effect leaves as it is, it keeps true.\<close>

definition frame_inv :: "path set \<Rightarrow> (world \<Rightarrow> bool) \<Rightarrow> bool" where
  "frame_inv S J \<longleftrightarrow> (\<forall>w w'. grows S (w_fs w) (w_fs w') \<longrightarrow> J w \<longrightarrow> J w')"

lemma triple_only: "only S m \<Longrightarrow> frame_inv S J \<Longrightarrow> triple J m (\<lambda>_. J) (\<lambda>_. J)"
  unfolding frame_inv_def by (rule tripleI) (metis only_run)+

lemma frame_node: "p \<notin> S \<Longrightarrow> frame_inv S (\<lambda>w. node_at (w_fs w) p = Some n)"
  by (auto simp: frame_inv_def grows_keeps)

lemma frame_conj: "frame_inv S J \<Longrightarrow> frame_inv S K \<Longrightarrow> frame_inv S (\<lambda>w. J w \<and> K w)"
  unfolding frame_inv_def by blast

lemma triple_in_root:
  assumes "root_ok r bs" and "segs xs" and "triple J (op (bs @ xs)) Q E"
    and "\<And>w w'. w_fs w' = w_fs w \<Longrightarrow> J w \<Longrightarrow> J w'" and "\<And>e w. J w \<Longrightarrow> E e w"
  shows "triple J (in_root r (abs_path (bs @ xs)) op) Q E"
  unfolding in_root_abs[OF assms(1,2)]
proof (rule triple_bind[where Q = "\<lambda>_. J"])
  have "w_fs (snd (op_opendir bs w)) = w_fs w" for w
    unfolding op_opendir_def syscall_def by (cases "real_fault (w_faults w (w_calls w))") auto
  then have same: "op_opendir bs w = (x, w') \<Longrightarrow> w_fs w' = w_fs w" for w x w'
    by (metis snd_conv)
  then show "triple J (op_opendir bs) (\<lambda>_. J) E"
    using assms(4,5) by (intro tripleI) blast+
qed (rule assms(3))

subsection \<open>A successful copy of a file has its content\<close>

definition holds_file :: "path \<Rightarrow> string \<Rightarrow> world \<Rightarrow> bool" where
  "holds_file p c w \<longleftrightarrow> (\<exists>m t. node_at (w_fs w) p = Some (File c m t))"

lemma holds_file_frame: "p \<notin> S \<Longrightarrow> frame_inv S (holds_file p c)"
  unfolding holds_file_def frame_inv_def by (meson grows_keeps)

lemma holds_file_same: "w_fs w' = w_fs w \<Longrightarrow> holds_file p c w' = holds_file p c w"
  by (simp add: holds_file_def)

lemma io_copy_holds:
  assumes root: "root_ok r bs" and segs: "segs ss" "segs ds" and ne: "bs @ ss \<noteq> bs @ ds"
  shows "triple (\<lambda>w. holds_file (bs @ ss) c w \<and> holds_file (bs @ ds) [] w)
    (io_copy r (abs_path (bs @ ss)) (abs_path (bs @ ds)))
    (\<lambda>_ w. holds_file (bs @ ds) c w) (\<lambda>_ _. True)"
proof (rule tripleI)
  fix w n w'
  assume pre: "holds_file (bs @ ss) c w \<and> holds_file (bs @ ds) [] w"
    and run: "io_copy r (abs_path (bs @ ss)) (abs_path (bs @ ds)) w = (Inr n, w')"
  have b: "os_path (r_Base r) = bs" using root_okD[OF root] by simp
  have "bindE (op_readfile (bs @ ss)) (\<lambda>content. bindE (op_write (bs @ ds) content)
      (\<lambda>_. returnE (int (length content)))) w = (Inr n, w')"
    using run
    unfolding io_copy_def relFromReal_abs[OF root segs(1)] relFromReal_abs[OF root segs(2)]
      bindE_liftE rel_path_Join[OF segs(1)] rel_path_Join[OF segs(2)] b .
  then obtain content w1 w2 where r1: "op_readfile (bs @ ss) w = (Inr content, w1)"
    and r2: "op_write (bs @ ds) content w1 = (Inr (), w2)" and w': "w' = w2"
    by (elim Inr_bindE) auto
  have "w_fs w1 = w_fs w" "content = c" using op_readfile_Inr[OF r1] pre by (auto simp: holds_file_def)
  with op_write_Inr[OF r2] pre w' show "holds_file (bs @ ds) c w'"
    by (fastforce simp: holds_file_def)
qed simp

lemma copyFile_holds:
  assumes root: "root_ok r bs" and segs: "segs ss" "segs ds" and ne: "bs @ ss \<noteq> bs @ ds"
  shows "triple (holds_file (bs @ ss) c)
    (copyFile pc r (abs_path (bs @ ss)) (abs_path (bs @ ds)) opts)
    (\<lambda>_ w. holds_file (bs @ ds) c w) (\<lambda>_ _. True)"
proof -
  let ?S = "holds_file (bs @ ss) c" and ?D = "holds_file (bs @ ds)"
  have paths: "os_path (abs_path (bs @ ss)) = bs @ ss" "os_path (abs_path (bs @ ds)) = bs @ ds"
    using root_okD[OF root] segs by simp_all
  have quiet: "triple ?S m (\<lambda>_. ?S) (\<lambda>_ _. True)" if "only {bs @ ds} m" for m :: "'x io"
    by (rule triple_weaken[OF triple_only[OF that holds_file_frame]]) (use ne in auto)
  have clone: "triple ?S (attempt (cloneFile pc (abs_path (bs @ ss)) (abs_path (bs @ ds))))
      (\<lambda>cl w. ?S w \<and> (is_Inr cl \<longrightarrow> ?D c w)) (\<lambda>_ _. True)"
  proof (rule triple_attempt, rule tripleI)
    fix w u w' assume s: "?S w"
      and run: "cloneFile pc (abs_path (bs @ ss)) (abs_path (bs @ ds)) w = (Inr u, w')"
    then have "op_clone (bs @ ss) (bs @ ds) w = (Inr (), w')"
      by (cases pc) (simp_all add: cloneFile_def paths)
    with op_clone_Inr[OF this] s ne show "?S w' \<and> (is_Inr (Inr u :: err + unit) \<longrightarrow> ?D c w')"
      by (auto simp: holds_file_def)
  next
    fix w e w' assume s: "?S w"
      and run: "cloneFile pc (abs_path (bs @ ss)) (abs_path (bs @ ds)) w = (Inl e, w')"
    have "w_fs w' = w_fs w"
    proof (cases pc)
      case True
      with run have "op_clone (bs @ ss) (bs @ ds) w = (Inl e, w')"
        by (simp add: cloneFile_def paths)
      then show ?thesis by (rule op_clone_Inl)
    next
      case False
      with run show ?thesis by (simp add: cloneFile_def)
    qed
    with s show "?S w' \<and> (is_Inr (Inl e :: err + unit) \<longrightarrow> ?D c w')" by (simp add: holds_file_def)
  qed
  have open_: "triple ?S (OpenFile r (abs_path (bs @ ds)) \<lparr>o_create = True, o_trunc = ov,
      o_excl = \<not> ov\<rparr> md) (\<lambda>_ w. ?S w \<and> ?D [] w) (\<lambda>_ _. True)" for ov md
    unfolding OpenFile_def
  proof (rule triple_in_root[OF root segs(2)])
    show "triple ?S (op_open (bs @ ds) \<lparr>o_create = True, o_trunc = ov, o_excl = \<not> ov\<rparr> md)
        (\<lambda>_ w. ?S w \<and> ?D [] w) (\<lambda>_ _. True)"
    proof (rule tripleI)
      fix w x w' assume s: "?S w"
        and run: "op_open (bs @ ds) \<lparr>o_create = True, o_trunc = ov, o_excl = \<not> ov\<rparr> md w = (Inr x, w')"
      obtain m t where "w_fs w' = put_node (bs @ ds) (File [] m t) (w_fs w)"
        using op_open_Inr[of "bs @ ds" _ md w w'] run by fastforce
      with s ne show "?S w' \<and> ?D [] w'" by (simp add: holds_file_def)
    qed simp
  qed (auto simp: holds_file_def)
  have last: "triple ?S (bindE (Open_read r (abs_path (bs @ ss))) (\<lambda>_.
      bindE (OpenFile r (abs_path (bs @ ds)) \<lparr>o_create = True, o_trunc = co_Overwrite opts,
        o_excl = \<not> co_Overwrite opts\<rparr> md) (\<lambda>_.
      bindE (io_copy r (abs_path (bs @ ss)) (abs_path (bs @ ds))) (\<lambda>n.
        returnE \<lparr>cp_Files = 1, cp_Bytes = n, cp_Strategy = ''copy''\<rparr>))))
      (\<lambda>_. ?D c) (\<lambda>_ _. True)" for md
    by (rule triple_bind[OF quiet], rule frame, rule triple_bind[OF open_],
        rule triple_bind[OF io_copy_holds[OF root segs ne]], rule triple_return)
  have copy: "triple (\<lambda>w. ?S w \<and> (cl \<longrightarrow> ?D c w))
      (if cl then returnE \<lparr>cp_Files = 1, cp_Bytes = size, cp_Strategy = ''clonefile''\<rparr>
       else bindE (Open_read r (abs_path (bs @ ss))) (\<lambda>_.
         bindE (OpenFile r (abs_path (bs @ ds)) \<lparr>o_create = True, o_trunc = co_Overwrite opts,
           o_excl = \<not> co_Overwrite opts\<rparr> md) (\<lambda>_.
         bindE (io_copy r (abs_path (bs @ ss)) (abs_path (bs @ ds))) (\<lambda>n.
           returnE \<lparr>cp_Files = 1, cp_Bytes = n, cp_Strategy = ''copy''\<rparr>))))
      (\<lambda>_. ?D c) (\<lambda>_ _. True)" for cl size md
    by (rule triple_if, rule triple_return, simp, rule triple_weaken[OF last]) simp_all
  have attempt_clone: "triple ?S (if co_Deduplicate opts
        then bindE (attempt (cloneFile pc (abs_path (bs @ ss)) (abs_path (bs @ ds))))
               (\<lambda>c. returnE (is_Inr c))
        else returnE False) (\<lambda>cl w. ?S w \<and> (cl \<longrightarrow> ?D c w)) (\<lambda>_ _. True)"
    by (rule triple_if, rule triple_bind[OF clone], rule triple_return, simp, rule triple_return, simp)
  show ?thesis
    unfolding copyFile_def
    by (rule triple_bind[OF quiet], rule frame, rule triple_if, rule triple_throw, simp,
        rule triple_bind[OF quiet], intro frame, rule triple_if, rule triple_throw, simp,
        rule triple_bind[OF quiet], rule frame, rule triple_bind[OF attempt_clone], rule copy)
qed

lemma Stat_file:
  assumes root: "root_ok r bs" and segs: "segs xs"
  shows "triple (holds_file (bs @ xs) c) (Stat r (abs_path (bs @ xs)))
    (\<lambda>info w. holds_file (bs @ xs) c w \<and> \<not> is_dir info) (\<lambda>_. holds_file (bs @ xs) c)"
proof (rule tripleI)
  fix w info w' assume s: "holds_file (bs @ xs) c w"
    and run: "Stat r (abs_path (bs @ xs)) w = (Inr info, w')"
  from Stat_ok[OF root segs run] s show "holds_file (bs @ xs) c w' \<and> \<not> is_dir info"
    by (auto simp: holds_file_def)
next
  fix w e w' assume "holds_file (bs @ xs) c w" "Stat r (abs_path (bs @ xs)) w = (Inl e, w')"
  then show "holds_file (bs @ xs) c w'" using Stat_fs by (auto simp: holds_file_def)
qed

lemma Copy_holds:
  assumes root: "root_ok r bs" and segs: "segs ss" "segs ds" and ne: "bs @ ss \<noteq> bs @ ds"
  shows "triple (holds_file (bs @ ss) c)
    (Copy pc r (abs_path (bs @ ss)) (abs_path (bs @ ds)) opts)
    (\<lambda>_ w. holds_file (bs @ ds) c w) (\<lambda>_ _. True)"
proof -
  have "triple (holds_file (bs @ ss) c)
      (Copy_depth pc r (Suc n) (abs_path (bs @ ss)) (abs_path (bs @ ds)) opts)
      (\<lambda>_ w. holds_file (bs @ ds) c w) (\<lambda>_ _. True)" for n
    unfolding Copy_depth.simps
  proof (rule triple_bind)
    show "triple (holds_file (bs @ ss) c) (Stat r (abs_path (bs @ ss)))
        (\<lambda>info w. holds_file (bs @ ss) c w \<and> \<not> is_dir info) (\<lambda>_ _. True)"
      using Stat_file[OF root segs(1)] by (rule triple_weaken) simp_all
    show "triple (\<lambda>w. holds_file (bs @ ss) c w \<and> \<not> is_dir info)
        (if abs_path (bs @ ds) = r_Base r then throwE ErrOutsideRoot
         else if is_dir info
         then copyDir (\<lambda>a b. Copy_depth pc r n a b opts) r (abs_path (bs @ ss)) (abs_path (bs @ ds)) opts
         else copyFile pc r (abs_path (bs @ ss)) (abs_path (bs @ ds)) opts)
        (\<lambda>_. holds_file (bs @ ds) c) (\<lambda>_ _. True)" for info
      using copyFile_holds[OF root segs ne, of c pc opts]
      by (cases "is_dir info") (auto intro!: triple_if triple_throw elim: triple_weaken simp: triple_def)
  qed
  then show ?thesis by (simp add: triple_def Copy_def del: Copy_depth.simps)
qed

lemma triple_cleanup: "triple P (cleanup_fail d e) Q (\<lambda>_ _. True)"
  by (simp add: triple_def cleanup_fail_def)

lemma retain_store_holds:
  assumes root: "root_ok r bs" and names: "seg rootName" "seg ident" and segs: "segs ss"
    and apart: "\<not> prefix [rootName] ss"
  shows "triple (holds_file (bs @ ss) c)
    (retain_store pc r (abs_path (bs @ ss)) False (abs_path (bs @ [rootName, ident])) raw entry)
    (\<lambda>e w. e = entry \<and> holds_file (bs @ [rootName, ident, ''payload'']) c w) (\<lambda>_ _. True)"
proof -
  note b = root_okD[OF root]
  let ?p = "bs @ [rootName, ident, ''payload'']" and ?m = "bs @ [rootName, ident, ''.macftpd-retain.json'']"
  have ss: "segs [rootName, ident, ''payload'']" "segs ?m" using b names seg_names by simp_all
  have ne: "bs @ ss \<noteq> ?p" using apart by auto
  note paths = retained_paths(2)[OF root names seg_names(1)] retained_paths(2)[OF root names seg_names(2)]
  have meta: "triple (holds_file ?p c) (attempt (op_writeFile ?m raw mode_600))
      (\<lambda>_. holds_file ?p c) (\<lambda>_ _. True)"
  proof (rule triple_attempt)
    have "only {?m} (op_writeFile ?m raw mode_600)" by (rule only_writeFile) simp
    then have "triple (holds_file ?p c) (op_writeFile ?m raw mode_600)
        (\<lambda>_. holds_file ?p c) (\<lambda>_. holds_file ?p c)"
      by (rule triple_only) (rule holds_file_frame, simp)
    then show "triple (holds_file ?p c) (op_writeFile ?m raw mode_600)
        (\<lambda>_. holds_file ?p c) (\<lambda>_. holds_file ?p c)" .
  qed
  have copied: "triple (holds_file (bs @ ss) c)
      (attempt (bindE (Copy pc r (abs_path (bs @ ss)) (abs_path ?p)
         \<lparr>co_Deduplicate = True, co_Overwrite = True\<rparr>) (\<lambda>_. returnE ())))
      (\<lambda>st w. is_Inr st \<longrightarrow> holds_file ?p c w) (\<lambda>_ _. True)"
  proof (rule triple_attempt, rule triple_bind)
    show "triple (holds_file (bs @ ss) c) (Copy pc r (abs_path (bs @ ss)) (abs_path ?p)
        \<lparr>co_Deduplicate = True, co_Overwrite = True\<rparr>) (\<lambda>_. holds_file ?p c)
        (\<lambda>e w. is_Inr (Inl e :: err + unit) \<longrightarrow> holds_file ?p c w)"
      using Copy_holds[OF root segs ss(1) ne] by (rule triple_weaken) simp_all
  qed (rule triple_return, simp)
  have after: "triple (\<lambda>w. is_Inr st \<longrightarrow> holds_file ?p c w)
      (case st of Inl e \<Rightarrow> cleanup_fail (abs_path (bs @ [rootName, ident])) e
       | Inr _ \<Rightarrow> bindE (attempt (op_writeFile ?m raw mode_600)) (\<lambda>written. case written of
           Inr _ \<Rightarrow> returnE entry
         | Inl e \<Rightarrow> cleanup_fail (abs_path (bs @ [rootName, ident])) e))
      (\<lambda>e w. e = entry \<and> holds_file ?p c w) (\<lambda>_ _. True)" for st :: "err + unit"
  proof (rule triple_sum, rule triple_cleanup)
    fix u assume "st = Inr u"
    then show "triple (\<lambda>w. is_Inr st \<longrightarrow> holds_file ?p c w)
      (bindE (attempt (op_writeFile ?m raw mode_600)) (\<lambda>written. case written of
           Inr _ \<Rightarrow> returnE entry
         | Inl e \<Rightarrow> cleanup_fail (abs_path (bs @ [rootName, ident])) e))
      (\<lambda>e w. e = entry \<and> holds_file ?p c w) (\<lambda>_ _. True)"
      by simp (rule triple_bind[OF meta], rule triple_sum, rule triple_cleanup, rule triple_return, simp)
  qed
  have pm: "os_path (abs_path ?m) = ?m" using ss(2) by simp
  show ?thesis
    unfolding retain_store_def Let_def paths pm if_False
    by (rule triple_bind[OF copied], rule after)
qed

lemma retain_copy_holds:
  assumes root: "root_ok r bs" and name: "seg rootName" and segs: "segs ss"
    and apart: "\<not> prefix [rootName] ss"
  shows "triple (holds_file (bs @ ss) c)
    (retain json pc r (abs_path (bs @ ss)) virtual actor rootName False)
    (\<lambda>_ w. \<exists>ident. seg ident \<and> holds_file (bs @ [rootName, ident, ''payload'']) c w) (\<lambda>_ _. True)"
proof -
  have quiet: "triple (holds_file (bs @ ss) c) m (\<lambda>_. holds_file (bs @ ss) c) (\<lambda>_ _. True)"
    if "only {} m" for m :: "'x io"
    by (rule triple_weaken[OF triple_only[OF that holds_file_frame]]) simp_all
  have store: "triple (holds_file (bs @ ss) c)
      (case json_encode json entry of
         None \<Rightarrow> cleanup_fail (abs_path (bs @ [rootName, retain_id t actor])) (ErrMsg ''json'')
       | Some raw \<Rightarrow> retain_store pc r (abs_path (bs @ ss)) False
           (abs_path (bs @ [rootName, retain_id t actor])) raw entry)
      (\<lambda>_ w. \<exists>ident. seg ident \<and> holds_file (bs @ [rootName, ident, ''payload'']) c w) (\<lambda>_ _. True)"
    for entry t
  proof (cases "json_encode json entry")
    case (Some raw)
    then show ?thesis
      using retain_store_holds[OF root name seg_retain_id segs apart, of c pc t actor raw entry]
      by simp (erule triple_weaken, auto intro: seg_retain_id)
  qed (simp add: triple_cleanup)
  show ?thesis
    unfolding retain_def Let_def retained_paths(1)[OF root name seg_retain_id]
    by (rule triple_bind[OF quiet], rule frame, rule triple_bind[OF quiet], rule frame,
        rule triple_bind[OF quiet], rule frame, rule triple_bind[OF quiet], rule frame, rule store)
qed

subsection \<open>Replacing a file\<close>

lemma Stat_not_exist:
  assumes root: "root_ok r bs" and segs: "segs xs"
    and run: "Stat r (abs_path (bs @ xs)) w = (Inl ErrNotExist, w')"
    and node: "node_at (w_fs w) (bs @ xs) = Some n"
  shows "walk (w_fs w) bs = Inl ErrNotExist"
proof -
  have no_fault: "r = Inl ErrNotExist \<Longrightarrow> syscall (atomic (\<lambda>fs t. (f fs, fs))) v = (r, v') \<Longrightarrow>
      f (w_fs v) = Inl ErrNotExist" for f and r :: "err + 'b" and v v'
    unfolding syscall_def
    by (cases "w_faults v (w_calls v)") (auto split: if_splits)
  have "bindE (op_opendir bs) (\<lambda>_. op_stat (bs @ xs)) w = (Inl ErrNotExist, w')"
    using run unfolding Stat_def in_root_abs[OF root segs] .
  then consider "op_opendir bs w = (Inl ErrNotExist, w')"
    | u w1 where "op_opendir bs w = (Inr u, w1)" "op_stat (bs @ xs) w1 = (Inl ErrNotExist, w')"
    using bindE_cases by (metis Inl_inject)
  then show ?thesis
  proof cases
    case 1
    then have "(case walk (w_fs w) bs of Inl e \<Rightarrow> Inl e
        | Inr n \<Rightarrow> if is_dir n then Inr () else Inl ErrNotDir) = Inl ErrNotExist"
      unfolding op_opendir_def by (rule no_fault[rotated]) simp
    then show ?thesis by (auto split: sum.splits if_splits)
  next
    case 2
    then have "w_fs w1 = w_fs w" unfolding op_opendir_def by (auto elim: atomic_cases)
    moreover have "walk (w_fs w1) (bs @ xs) = Inl ErrNotExist"
      using 2(2) unfolding op_stat_def by (rule no_fault[rotated]) simp
    ultimately show ?thesis using node by (auto simp: walk_def split: if_splits)
  qed
qed

lemma Rename_outcome:
  assumes root: "root_ok r bs" and segs: "segs ss" "ss \<noteq> []" "segs ds" "ds \<noteq> []"
    and apart: "\<not> prefix ss ds" "\<not> prefix ds ss"
    and run: "Rename r (abs_path (bs @ ss)) (abs_path (bs @ ds)) w = (res, w')"
  obtains e where "res = Inl e" "w_fs w' = w_fs w"
  | "res = Inr ()" "walk (w_fs w) bs \<noteq> Inl ErrNotExist"
    "node_at (w_fs w') (bs @ ds) = node_at (w_fs w) (bs @ ss)" "node_at (w_fs w') (bs @ ss) = None"
    "\<forall>p. \<not> prefix (bs @ ss) p \<longrightarrow> \<not> prefix (bs @ ds) p \<longrightarrow> node_at (w_fs w') p = node_at (w_fs w) p"
proof -
  have run': "bindE (op_opendir bs) (\<lambda>_. op_rename_at (bs @ ss) (bs @ ds)) w = (res, w')"
    using run unfolding Rename_abs[OF root segs] .
  obtain o1 w1 where od: "op_opendir bs w = (o1, w1)" by fastforce
  then have fs1: "w_fs w1 = w_fs w" unfolding op_opendir_def by (auto elim: atomic_cases)
  show thesis
  proof (cases o1)
    case (Inl e)
    with run' od fs1 show thesis by (intro that(1)[of e]) simp_all
  next
    case (Inr u)
    then have "walk (w_fs w) bs \<noteq> Inl ErrNotExist"
      using od unfolding op_opendir_def
      by (auto simp: syscall_def split: prod.splits elim!: atomic.elims)
    moreover have "op_rename_at (bs @ ss) (bs @ ds) w1 = (res, w')" using run' od Inr by simp
    then show thesis
    proof (cases rule: rename_at_cases)
      case (1 e)
      with fs1 show thesis by (intro that(1)[of e]) simp_all
    next
      case 2
      have ap: "\<not> prefix (bs @ ss) (bs @ ds)" "\<not> prefix (bs @ ds) (bs @ ss)"
        using apart by simp_all
      then have "bs @ ss \<noteq> bs @ ds" by auto
      with 2 fs1 have "w_fs w' = move_tree (bs @ ss) (bs @ ds) (w_fs w)" by simp
      then show thesis
        using node_at_move[OF ap] ap 2 calculation by (intro that(2)) simp_all
    qed
  qed
qed

text \<open>C3: replacing a file is a transaction. Whatever calls fail, either the call succeeds,
  the destination is the staged file, the staged name is gone and, if preservation was asked for,
  the former content is retained as a version; or it fails and both the destination and the
  staged file are exactly as before. In both cases every other file outside the versions
  directory is untouched.\<close>

theorem replace_is_transaction:
  assumes root: "root_ok r bs" and segs: "segs ss" "ss \<noteq> []" "segs ds" "ds \<noteq> []"
    and apart: "\<not> prefix ss ds" "\<not> prefix ds ss"
    and user: "\<not> prefix [''._macftpd_versions''] ss" "\<not> prefix [''._macftpd_versions''] ds"
    and staged: "node_at (w_fs w) (bs @ ss) = Some (File c m t)"
    and run: "ReplaceFile json pc r (abs_path (bs @ ss)) (abs_path (bs @ ds)) virtual actor preserve w
      = (res, w')"
  shows "(res = Inr () \<longrightarrow> node_at (w_fs w') (bs @ ds) = Some (File c m t) \<and>
       node_at (w_fs w') (bs @ ss) = None \<and>
       (\<forall>old. preserve \<and> holds_file (bs @ ds) old w \<longrightarrow>
          (\<exists>ident. holds_file (bs @ [''._macftpd_versions'', ident, ''payload'']) old w'))) \<and>
    (res \<noteq> Inr () \<longrightarrow> node_at (w_fs w') (bs @ ds) = node_at (w_fs w) (bs @ ds) \<and>
       node_at (w_fs w') (bs @ ss) = Some (File c m t)) \<and>
    (\<forall>p n. \<not> prefix (bs @ ss) p \<and> \<not> prefix (bs @ ds) p \<and>
       \<not> prefix (bs @ [''._macftpd_versions'']) p \<and> node_at (w_fs w) p = Some n \<longrightarrow>
       node_at (w_fs w') p = Some n)"
proof -
  let ?V = "''._macftpd_versions''"
  let ?S = "{q. prefix (bs @ [?V]) q}"
  obtain info w1 where st: "Stat r (abs_path (bs @ ds)) w = (info, w1)" by fastforce
  have fs1: "w_fs w1 = w_fs w" using Stat_fs[OF st] .
  show ?thesis
  proof (cases info)
    case (Inl e)
    show ?thesis
    proof (cases "e = ErrNotExist")
      case False
      with run st Inl fs1 staged have "(\<exists>e. res = Inl e) \<and> w_fs w' = w_fs w"
        by (auto simp: ReplaceFile_def)
      with staged show ?thesis by auto
    next
      case True
      with run st Inl have rn: "Rename r (abs_path (bs @ ss)) (abs_path (bs @ ds)) w1 = (res, w')"
        by (simp add: ReplaceFile_def)
      show ?thesis
      proof (cases rule: Rename_outcome[OF root segs apart rn])
        case (1 e)
        with fs1 staged show ?thesis by auto
      next
        case 2
        then have "node_at (w_fs w) (bs @ ds) = None"
          using Stat_not_exist[OF root segs(3)] st Inl True fs1
          by (metis not_None_eq)
        with 2 fs1 staged show ?thesis by (auto simp: holds_file_def)
      qed
    qed
  next
    case (Inr n)
    show ?thesis
    proof (cases "is_dir n")
      case True
      with run st Inr fs1 staged have "(\<exists>e. res = Inl e) \<and> w_fs w' = w_fs w"
        by (auto simp: ReplaceFile_def)
      with staged show ?thesis by auto
    next
      case False
      obtain old m' t' where n: "n = File old m' t'" using False by (cases n) auto
      have dest: "node_at (w_fs w) (bs @ ds) = Some (File old m' t')"
        using Stat_ok[OF root segs(3)] st Inr n by auto
      let ?keep = "if preserve then bindE (Version json pc r (abs_path (bs @ ds)) virtual actor)
          (\<lambda>_. returnE ()) else returnE ()"
      have run2: "bindE ?keep (\<lambda>_. Rename r (abs_path (bs @ ss)) (abs_path (bs @ ds))) w1 = (res, w')"
        using run st Inr False by (simp add: ReplaceFile_def)
      obtain vr w2 where v: "?keep w1 = (vr, w2)" by fastforce
      have "only ?S ?keep"
        unfolding Version_def
        by (intro frame only_retain[OF root seg_names(4)]) simp_all
      then have g: "grows ?S (w_fs w) (w_fs w2)" using only_run v fs1 by metis
      have out: "bs @ ds \<notin> ?S" "bs @ ss \<notin> ?S" using user by auto
      have kept: "node_at (w_fs w2) p = Some k" if "node_at (w_fs w) p = Some k" "p \<notin> ?S" for p k
        using grows_keeps[OF g that(2,1)] .
      have dest2: "node_at (w_fs w2) (bs @ ds) = Some (File old m' t')" using kept dest out by blast
      have staged2: "node_at (w_fs w2) (bs @ ss) = Some (File c m t)" using kept staged out by blast
      have version: "\<exists>ident. holds_file (bs @ [?V, ident, ''payload'']) old w2"
        if pres: "preserve" "vr = Inr ()"
      proof -
        have "holds_file (bs @ ds) old w1" using dest fs1 by (simp add: holds_file_def)
        moreover obtain e where "Version json pc r (abs_path (bs @ ds)) virtual actor w1 = (Inr e, w2)"
        proof -
          have "bindE (Version json pc r (abs_path (bs @ ds)) virtual actor) (\<lambda>_. returnE ()) w1 =
              (Inr (), w2)" using v pres by simp
          then show thesis by (rule Inr_bindE) (use that in simp)
        qed
        ultimately show ?thesis
          using tripleD_Inr[OF retain_copy_holds[OF root seg_names(4) segs(3) user(2)]]
          unfolding Version_def by blast
      qed
      show ?thesis
      proof (cases vr)
        case (Inl e)
        with run2 v have "res = Inl e" "w' = w2" by simp_all
        with dest dest2 staged2 kept show ?thesis by auto
      next
        case (Inr u)
        then have rn: "Rename r (abs_path (bs @ ss)) (abs_path (bs @ ds)) w2 = (res, w')"
          using run2 v by simp
        show ?thesis
        proof (cases rule: Rename_outcome[OF root segs apart rn])
          case (1 e)
          with dest dest2 staged2 kept show ?thesis by auto
        next
          case 2
          have "\<exists>ident. holds_file (bs @ [?V, ident, ''payload'']) old' w'"
            if old': "preserve" "holds_file (bs @ ds) old' w" for old'
          proof -
            have "old' = old" using old' dest by (simp add: holds_file_def)
            with version old' Inr obtain ident
              where i: "holds_file (bs @ [?V, ident, ''payload'']) old w2" by auto
            have "\<not> prefix ss [?V, ident, ''payload'']" "\<not> prefix ds [?V, ident, ''payload'']"
              using user segs(2,4) by (auto simp: prefix_Cons)
            then have "node_at (w_fs w') (bs @ [?V, ident, ''payload'']) =
                node_at (w_fs w2) (bs @ [?V, ident, ''payload''])" using 2 by simp
            then have "holds_file (bs @ [?V, ident, ''payload'']) old' w'"
              using i \<open>old' = old\<close> by (simp add: holds_file_def)
            then show ?thesis by (rule exI[of _ ident])
          qed
          with 2 staged2 kept show ?thesis by auto
        qed
      qed
    qed
  qed
qed

definition sample_codec :: codec where
  "sample_codec = \<lparr>json_encode = (\<lambda>e. Some (re_ID e)), json_decode = (\<lambda>s. None)\<rparr>"

theorem replace_is_transaction_witness:
  "let out = ReplaceFile sample_codec False sample_root ''/srv/files/up'' ''/srv/files/a'' ''/a'' ''bob''
         True (sample_world (\<lambda>_. NoFault))
   in fst out = Inr () \<and> holds_file [''srv'', ''files'', ''a''] ''new'' (snd out) \<and>
      (\<exists>ident. holds_file [''srv'', ''files'', ''._macftpd_versions'', ident, ''payload''] ''old'' (snd out))"
proof -
  let ?w = "sample_world (\<lambda>_. NoFault)"
  let ?out = "ReplaceFile sample_codec False sample_root ''/srv/files/up'' ''/srv/files/a'' ''/a'' ''bob''
         True ?w"
  have p: "abs_path ([''srv'', ''files''] @ [''up'']) = ''/srv/files/up''"
      "abs_path ([''srv'', ''files''] @ [''a'']) = ''/srv/files/a''" "segs [''up'']" "segs [''a'']"
      "\<not> prefix [''up''] [''a'']" "\<not> prefix [''a''] [''up'']"
      "\<not> prefix [''._macftpd_versions''] [''up'']" "\<not> prefix [''._macftpd_versions''] [''a'']"
    by code_simp+
  have ok: "fst ?out = Inr ()" by code_simp
  have n: "node_at (w_fs ?w) ([''srv'', ''files''] @ [''up'']) = Some (File ''new'' 384 1)"
      "node_at (w_fs ?w) ([''srv'', ''files''] @ [''a'']) = Some (File ''old'' 420 1)"
    by code_simp+
  have h: "holds_file ([''srv'', ''files''] @ [''a'']) ''old'' ?w"
    using n(2) by (simp add: holds_file_def)
  have "?out = (fst ?out, snd ?out)" by simp
  from replace_is_transaction[OF sample_root_ok p(3) _ p(4) _ p(5,6,7,8) n(1), unfolded p(1,2), OF _ _ this]
  show ?thesis using ok h by (simp add: Let_def holds_file_def)
qed

subsection \<open>Moving whole trees\<close>

text \<open>\<open>holds_tree p T w\<close>: every node of the tree \<open>T\<close> is found below \<open>p\<close>.\<close>

definition holds_tree :: "path \<Rightarrow> (path \<rightharpoonup> node) \<Rightarrow> world \<Rightarrow> bool" where
  "holds_tree p T w \<longleftrightarrow> (\<forall>x n. T x = Some n \<longrightarrow> node_at (w_fs w) (p @ x) = Some n)"

definition tree_at :: "fs \<Rightarrow> path \<Rightarrow> path \<Rightarrow> node option" where
  "tree_at fs p x = node_at fs (p @ x)"

lemma holds_tree_at: "holds_tree p (tree_at (w_fs w) p) w"
  by (simp add: holds_tree_def tree_at_def)

lemma holds_tree_frame: "\<forall>x. p @ x \<notin> S \<Longrightarrow> frame_inv S (holds_tree p T)"
  unfolding holds_tree_def frame_inv_def by (meson grows_keeps)

lemma triple_rename_os:
  assumes "\<not> prefix a b" and "\<not> prefix b a"
  shows "triple (holds_tree a T) (op_rename_os a b)
    (\<lambda>_ w. holds_tree b T w \<and> node_at (w_fs w) a = None) (\<lambda>_. holds_tree a T)"
proof (rule tripleI)
  fix w u w' assume h: "holds_tree a T w" and run: "op_rename_os a b w = (Inr u, w')"
  have ne: "a \<noteq> b" using assms by auto
  from run show "holds_tree b T w' \<and> node_at (w_fs w') a = None"
    by (cases rule: rename_os_cases)
       (use h ne assms in \<open>auto simp: holds_tree_def node_at_move\<close>)
next
  fix w e w' assume h: "holds_tree a T w" and run: "op_rename_os a b w = (Inl e, w')"
  from run show "holds_tree a T w'"
    by (cases rule: rename_os_cases) (use h in \<open>auto simp: holds_tree_def\<close>)
qed

lemma writeFile_exact:
  assumes "op_writeFile p bs md w = (r, w')" and "q \<noteq> p"
  shows "node_at (w_fs w') q = node_at (w_fs w) q"
proof -
  have open_: "op_open p fl md v = (x, v') \<Longrightarrow> node_at (w_fs v') q = node_at (w_fs v) q" for fl v x v'
    unfolding op_open_def
  proof (erule atomic_cases)
    fix t assume "open_fs p fl md (w_fs v) t = (x, w_fs v')"
    moreover have "node_at (snd (open_fs p fl md (w_fs v) t)) q = node_at (w_fs v) q"
      using assms(2) by (simp add: open_fs_def split: sum.split node.split)
    ultimately show ?thesis by simp
  qed simp
  have write_: "op_write p bs v = (x, v') \<Longrightarrow> node_at (w_fs v') q = node_at (w_fs v) q" for v x v'
    unfolding op_write_def syscall_def
    by (cases "real_fault (w_faults v (w_calls v))")
       (use assms(2) in \<open>auto simp: append_file_def split: option.splits node.splits\<close>)
  from bindE_cases[OF assms(1)[unfolded op_writeFile_def]] show ?thesis
  proof (elim disjE exE conjE)
    fix u w1 assume "op_open p write_flags md w = (Inr u, w1)" "op_write p bs w1 = (r, w')"
    then show ?thesis using open_ write_ by metis
  qed (rule open_)
qed

text \<open>Retaining by moving: the tree is at the payload, or still at the source, or the error says
  that putting it back failed and it is at the payload.\<close>

definition payload_path :: "path \<Rightarrow> string \<Rightarrow> string \<Rightarrow> path" where
  "payload_path bs rootName ident = bs @ [rootName, ident, ''payload'']"

definition trash_failed ::
  "path \<Rightarrow> string \<Rightarrow> path \<Rightarrow> (path \<rightharpoonup> node) \<Rightarrow> err \<Rightarrow> world \<Rightarrow> bool" where
  "trash_failed bs rootName src T e w \<longleftrightarrow> holds_tree src T w \<or>
     (\<exists>e1 e2 ident. e = ErrJoin e1 e2 \<and> holds_tree (payload_path bs rootName ident) T w)"

lemma triple_cleanup_keeps:
  assumes "\<forall>x. \<not> prefix (os_path d) (p @ x)"
  shows "triple (holds_tree p T) (cleanup_fail d e) Q (\<lambda>_. holds_tree p T)"
  unfolding cleanup_fail_def
proof (rule triple_thenE)
  have "only {q. prefix (os_path d) q} (op_removeAll (os_path d))" by (intro frame) simp
  then show "triple (holds_tree p T) (op_removeAll (os_path d)) (\<lambda>_. holds_tree p T) (\<lambda>_. holds_tree p T)"
    by (rule triple_only) (rule holds_tree_frame, use assms in simp)
qed (rule triple_throw)

lemma retain_store_moves:
  assumes root: "root_ok r bs" and names: "seg rootName" "seg ident" and segs: "segs ss" "ss \<noteq> []"
    and apart: "\<not> prefix [rootName] ss"
  shows "triple (holds_tree (bs @ ss) T)
    (retain_store pc r (abs_path (bs @ ss)) True (abs_path (bs @ [rootName, ident])) raw entry)
    (\<lambda>e w. e = entry \<and> holds_tree (payload_path bs rootName ident) T w \<and>
       node_at (w_fs w) (bs @ ss) = None)
    (trash_failed bs rootName (bs @ ss) T)"
proof -
  note b = root_okD[OF root]
  let ?src = "bs @ ss" and ?p = "bs @ [rootName, ident, ''payload'']"
  let ?m = "bs @ [rootName, ident, ''.macftpd-retain.json'']" and ?d = "bs @ [rootName, ident]"
  have ss: "segs ?src" "segs ?p" "segs ?m" "segs ?d" using b segs names seg_names by simp_all
  have pm: "os_path (abs_path ?m) = ?m" "os_path (abs_path ?p) = ?p" "os_path (abs_path ?src) = ?src"
      "os_path (abs_path ?d) = ?d"
    using ss by simp_all
  have ap: "\<not> prefix ?src ?p" "\<not> prefix ?p ?src"
    using apart segs(2) by (cases ss; auto)+
  have src_m: "?src \<noteq> ?m" using apart by auto
  have out: "\<forall>x. \<not> prefix (os_path (abs_path ?d)) (?src @ x)"
    using apart segs(2) by (auto simp: pm prefix_def Cons_eq_append_conv append_eq_Cons_conv)
  note paths = retained_paths(2)[OF root names seg_names(1)] retained_paths(2)[OF root names seg_names(2)]
  have give_up: "triple (holds_tree ?src T) (cleanup_fail (abs_path ?d) e) Q
      (trash_failed bs rootName ?src T)" for e and Q :: "RetainedEntry \<Rightarrow> world \<Rightarrow> bool"
    by (rule triple_weaken[OF triple_cleanup_keeps[OF out]]) (auto simp: trash_failed_def)
  let ?stored = "\<lambda>w. holds_tree ?p T w \<and> node_at (w_fs w) ?src = None"
  have meta: "triple ?stored (attempt (op_writeFile ?m raw mode_600)) (\<lambda>_. ?stored)
      (trash_failed bs rootName ?src T)"
  proof (rule triple_attempt, rule tripleI)
    have keep: "?stored w \<Longrightarrow> op_writeFile ?m raw mode_600 w = (x, w') \<Longrightarrow> ?stored w'" for w x w'
    proof -
      assume s: "?stored w" and run: "op_writeFile ?m raw mode_600 w = (x, w')"
      have "node_at (w_fs w') (?p @ y) = node_at (w_fs w) (?p @ y)" for y
        by (rule writeFile_exact[OF run]) simp
      moreover have "node_at (w_fs w') ?src = node_at (w_fs w) ?src"
        by (rule writeFile_exact[OF run src_m])
      ultimately show "?stored w'" using s by (simp add: holds_tree_def)
    qed
    show "?stored w \<Longrightarrow> op_writeFile ?m raw mode_600 w = (Inr x, w') \<Longrightarrow> ?stored w'" for w x w'
      by (rule keep)
    show "?stored w \<Longrightarrow> op_writeFile ?m raw mode_600 w = (Inl x, w') \<Longrightarrow> ?stored w'" for w x w'
      by (rule keep)
  qed
  have put_back: "triple ?stored (bindE (attempt (op_rename_os ?p ?src)) (\<lambda>rollback. case rollback of
        Inl e' \<Rightarrow> throwE (ErrJoin e e') | Inr _ \<Rightarrow> cleanup_fail (abs_path ?d) e))
      (\<lambda>en w. en = entry \<and> ?stored w) (trash_failed bs rootName ?src T)" for e
  proof (rule triple_bind)
    show "triple ?stored (attempt (op_rename_os ?p ?src))
        (\<lambda>rb w. case rb of Inl _ \<Rightarrow> holds_tree ?p T w | Inr _ \<Rightarrow> holds_tree ?src T w)
        (trash_failed bs rootName ?src T)"
      by (rule triple_attempt, rule triple_weaken[OF triple_rename_os[OF ap(2,1)]]) simp_all
    show "triple (\<lambda>w. case rb of Inl _ \<Rightarrow> holds_tree ?p T w | Inr _ \<Rightarrow> holds_tree ?src T w)
        (case rb of Inl e' \<Rightarrow> throwE (ErrJoin e e') | Inr _ \<Rightarrow> cleanup_fail (abs_path ?d) e)
        (\<lambda>en w. en = entry \<and> ?stored w) (trash_failed bs rootName ?src T)" for rb :: "err + unit"
      using give_up
      by (cases rb) (auto intro!: triple_throw simp: trash_failed_def payload_path_def)
  qed
  show ?thesis
    unfolding retain_store_def Let_def paths pm if_True payload_path_def
  proof (rule triple_bind)
    show "triple (holds_tree ?src T) (attempt (op_rename_os ?src ?p))
        (\<lambda>st w. case st of Inl _ \<Rightarrow> holds_tree ?src T w | Inr _ \<Rightarrow> ?stored w)
        (trash_failed bs rootName ?src T)"
      by (rule triple_attempt, rule triple_weaken[OF triple_rename_os[OF ap]]) simp_all
  next
    fix st :: "err + unit"
    show "triple (\<lambda>w. case st of Inl _ \<Rightarrow> holds_tree ?src T w | Inr _ \<Rightarrow> ?stored w)
        (case st of Inl e \<Rightarrow> cleanup_fail (abs_path ?d) e
         | Inr _ \<Rightarrow> bindE (attempt (op_writeFile ?m raw mode_600)) (\<lambda>written. case written of
             Inl e \<Rightarrow> bindE (attempt (op_rename_os ?p ?src)) (\<lambda>rollback. case rollback of
                 Inl e' \<Rightarrow> throwE (ErrJoin e e') | Inr _ \<Rightarrow> cleanup_fail (abs_path ?d) e)
           | Inr _ \<Rightarrow> returnE entry))
        (\<lambda>en w. en = entry \<and> ?stored w) (trash_failed bs rootName ?src T)"
    proof (cases st)
      case (Inl e)
      then show ?thesis using give_up by simp
    next
      case (Inr u)
      then show ?thesis
        by simp (rule triple_bind[OF meta], rule triple_sum, rule put_back, rule triple_return, simp)
    qed
  qed
qed

text \<open>A missing directory created on the way cannot replace a node of the tree.\<close>

lemma holds_tree_quiet:
  "only {} m \<Longrightarrow> triple (holds_tree p T) m (\<lambda>_. holds_tree p T) (\<lambda>_. holds_tree p T)"
  by (erule triple_only) (rule holds_tree_frame, simp)

lemma Trash_triple:
  assumes root: "root_ok r bs" and segs: "segs ss" "ss \<noteq> []"
    and apart: "\<not> prefix [''._macftpd_trash''] ss"
  shows "triple (holds_tree (bs @ ss) T) (Trash json pc r (abs_path (bs @ ss)) virtual actor)
    (\<lambda>e w. seg (re_ID e) \<and> holds_tree (payload_path bs ''._macftpd_trash'' (re_ID e)) T w \<and>
       node_at (w_fs w) (bs @ ss) = None)
    (trash_failed bs ''._macftpd_trash'' (bs @ ss) T)"
proof -
  let ?N = "''._macftpd_trash''"
  let ?F = "trash_failed bs ?N (bs @ ss) T"
  have quiet: "triple (holds_tree (bs @ ss) T) m (\<lambda>_. holds_tree (bs @ ss) T) ?F"
    if "only {} m" for m :: "'x io"
    by (rule triple_weaken[OF holds_tree_quiet[OF that]]) (auto simp: trash_failed_def)
  have dir: "os_path (abs_path (bs @ [?N, retain_id t actor])) = bs @ [?N, retain_id t actor]" for t
    using root_okD[OF root] seg_names seg_retain_id by simp
  have out: "\<forall>x. \<not> prefix (os_path (abs_path (bs @ [?N, retain_id t actor]))) ((bs @ ss) @ x)" for t
    using apart segs(2) unfolding dir by (cases ss) auto
  have store: "triple (holds_tree (bs @ ss) T)
      (case json_encode json \<lparr>re_ID = retain_id t actor, re_OriginalPath = op, re_RetainedPath = rp,
           re_Size = sz, re_IsDir = d, re_ModTime = mt\<rparr> of
         None \<Rightarrow> cleanup_fail (abs_path (bs @ [?N, retain_id t actor])) (ErrMsg ''json'')
       | Some raw \<Rightarrow> retain_store pc r (abs_path (bs @ ss)) True
           (abs_path (bs @ [?N, retain_id t actor])) raw \<lparr>re_ID = retain_id t actor,
             re_OriginalPath = op, re_RetainedPath = rp, re_Size = sz, re_IsDir = d, re_ModTime = mt\<rparr>)
      (\<lambda>e w. seg (re_ID e) \<and> holds_tree (payload_path bs ?N (re_ID e)) T w \<and>
         node_at (w_fs w) (bs @ ss) = None) ?F"
    (is "triple _ (case ?j of None \<Rightarrow> ?c | Some raw \<Rightarrow> ?s raw) ?Q _") for t op rp sz d mt
  proof (cases ?j)
    case None
    have "triple (holds_tree (bs @ ss) T) ?c ?Q ?F"
      by (rule triple_weaken[OF triple_cleanup_keeps[OF out]]) (auto simp: trash_failed_def)
    with None show ?thesis by simp
  next
    case (Some raw)
    have "triple (holds_tree (bs @ ss) T) (?s raw) ?Q ?F"
      by (rule triple_weaken[OF retain_store_moves[OF root seg_names(3) seg_retain_id segs apart]])
         (auto intro: seg_retain_id)
    with Some show ?thesis by simp
  qed
  show ?thesis
    unfolding Trash_def retain_def Let_def retained_paths(1)[OF root seg_names(3) seg_retain_id]
    by (rule triple_bind[OF quiet], rule frame, rule triple_bind[OF quiet], rule frame,
        rule triple_bind[OF quiet], rule frame, rule triple_bind[OF quiet], rule frame, rule store)
qed

text \<open>C5: deleting moves to the trash or does nothing. Whatever calls fail, a successful
  \<open>Trash\<close> leaves the whole tree under the payload of the new entry and nothing under the old name;
  a failed one leaves every file and directory where it was, unless the error is the double one
  that says putting it back failed too, and then the whole tree is under a payload.\<close>

theorem trash_moves_or_keeps:
  assumes root: "root_ok r bs" and segs: "segs ss" "ss \<noteq> []"
    and apart: "\<not> prefix [''._macftpd_trash''] ss"
    and run: "Trash json pc r (abs_path (bs @ ss)) virtual actor w = (res, w')"
  shows "(\<forall>e. res = Inr e \<longrightarrow> node_at (w_fs w') (bs @ ss) = None \<and>
       (\<forall>x n. node_at (w_fs w) (bs @ ss @ x) = Some n \<longrightarrow>
          node_at (w_fs w') (payload_path bs ''._macftpd_trash'' (re_ID e) @ x) = Some n)) \<and>
    (\<forall>e. res = Inl e \<longrightarrow>
       (\<forall>x n. node_at (w_fs w) (bs @ ss @ x) = Some n \<longrightarrow> node_at (w_fs w') (bs @ ss @ x) = Some n) \<or>
       (\<exists>e1 e2 ident. e = ErrJoin e1 e2 \<and> (\<forall>x n. node_at (w_fs w) (bs @ ss @ x) = Some n \<longrightarrow>
          node_at (w_fs w') (payload_path bs ''._macftpd_trash'' ident @ x) = Some n)))"
proof -
  let ?T = "tree_at (w_fs w) (bs @ ss)"
  have h: "holds_tree (bs @ ss) ?T w" by (rule holds_tree_at)
  note tr = Trash_triple[OF root segs apart, of ?T json pc virtual actor]
  show ?thesis
  proof (cases res)
    case (Inl e)
    then have "trash_failed bs ''._macftpd_trash'' (bs @ ss) ?T e w'"
      using tripleD_Inl[OF tr h] run by simp
    with Inl show ?thesis by (simp add: trash_failed_def holds_tree_def tree_at_def)
  next
    case (Inr e)
    then show ?thesis
      using tripleD_Inr[OF tr h, of e w'] run by (simp add: holds_tree_def tree_at_def)
  qed
qed

theorem trash_moves_or_keeps_witness:
  "let out = Trash sample_codec False sample_root ''/srv/files/a'' ''/a'' ''bob'' (sample_world (\<lambda>_. NoFault))
   in is_Inr (fst out) \<and> node_at (w_fs (snd out)) [''srv'', ''files'', ''a''] = None \<and>
      node_at (w_fs (snd out)) (payload_path [''srv'', ''files''] ''._macftpd_trash''
        (re_ID (projr (fst out)))) = Some (File ''old'' 420 1)"
proof -
  let ?w = "sample_world (\<lambda>_. NoFault)"
  let ?out = "Trash sample_codec False sample_root ''/srv/files/a'' ''/a'' ''bob'' ?w"
  have p: "abs_path ([''srv'', ''files''] @ [''a'']) = ''/srv/files/a''" "segs [''a'']"
      "\<not> prefix [''._macftpd_trash''] [''a'']" by code_simp+
  have ok: "is_Inr (fst ?out)" by code_simp
  then have r: "?out = (Inr (projr (fst ?out)), snd ?out)"
    by (cases "fst ?out") (simp_all add: prod_eq_iff)
  have n: "node_at (w_fs ?w) ([''srv'', ''files''] @ [''a''] @ []) = Some (File ''old'' 420 1)"
    by code_simp
  note t = trash_moves_or_keeps[OF sample_root_ok p(2) _ p(3), unfolded p(1), OF _ r, THEN conjunct1,
      rule_format, OF _ refl]
  have "node_at (w_fs (snd ?out)) ([''srv'', ''files''] @ [''a'']) = None" using t by blast
  moreover have "node_at (w_fs (snd ?out)) (payload_path [''srv'', ''files''] ''._macftpd_trash''
        (re_ID (projr (fst ?out))) @ []) = Some (File ''old'' 420 1)"
    using t n by blast
  ultimately show ?thesis using ok by (simp add: Let_def)
qed

end
