(* ===== verification/StorageCopy.thy ===== *)
theory StorageCopy
  imports StorageProofs
begin

text \<open>
  Copying a tree ends. \<open>Copy\<close> recurses over the tree it reads, one level at a time, while it writes to
  the same tree; \<open>Copy_depth\<close> bounds that recursion by a number of levels. Here it is shown that the
  bound \<open>Copy\<close> starts with is never used up, so that the bound is no part of the result.
\<close>

subsection \<open>Effects that keep the tree inside a set of paths and do not run out of levels\<close>

definition inside :: "path set \<Rightarrow> world \<Rightarrow> bool" where
  "inside Q w \<longleftrightarrow> (\<forall>p. node_at (w_fs w) p \<noteq> None \<longrightarrow> p \<in> Q)"

definition lasts :: "path set \<Rightarrow> 'a io \<Rightarrow> bool" where
  "lasts Q m \<longleftrightarrow> (\<forall>w. inside Q w \<longrightarrow> fst (m w) \<noteq> Inl OutOfFuel \<and> inside Q (snd (m w)))"

lemma lastsD:
  "lasts Q m \<Longrightarrow> inside Q w \<Longrightarrow> m w = (r, w') \<Longrightarrow> r \<noteq> Inl OutOfFuel \<and> inside Q w'"
  by (metis fst_conv lasts_def snd_conv)

lemma lasts_pure [frame]:
  "lasts Q (returnE x)" "e \<noteq> OutOfFuel \<Longrightarrow> lasts Q (throwE e)" "r \<noteq> Inl OutOfFuel \<Longrightarrow> lasts Q (liftE r)"
  by (simp_all add: lasts_def)

lemma lasts_Pair [frame, simp]: "lasts Q (Pair (Inr x))"
  by (simp add: lasts_def)

lemma lasts_bind_result:
  assumes "lasts Q m" and "\<And>w x w'. inside Q w \<Longrightarrow> m w = (Inr x, w') \<Longrightarrow> lasts Q (f x)"
  shows "lasts Q (bindE m f)"
  unfolding lasts_def
proof (intro allI impI)
  fix w assume w: "inside Q w"
  obtain r w' where m: "m w = (r, w')" by (rule prod.exhaust)
  note m' = lastsD[OF assms(1) w m]
  show "fst (bindE m f w) \<noteq> Inl OutOfFuel \<and> inside Q (snd (bindE m f w))"
  proof (cases r)
    case (Inr x)
    with m have "lasts Q (f x)" using assms(2)[OF w] by blast
    with m m' Inr show ?thesis by (simp add: lasts_def)
  qed (use m m' in simp)
qed

lemma lasts_bind [frame]: "lasts Q m \<Longrightarrow> (\<And>x. lasts Q (f x)) \<Longrightarrow> lasts Q (bindE m f)"
  by (rule lasts_bind_result)

lemma lasts_attempt [frame]: "lasts Q m \<Longrightarrow> lasts Q (attempt m)"
  by (simp add: lasts_def)

lemma lasts_if [frame]: "(b \<Longrightarrow> lasts Q m) \<Longrightarrow> (\<not> b \<Longrightarrow> lasts Q m') \<Longrightarrow> lasts Q (if b then m else m')"
  by simp

lemma lasts_sum [frame]:
  "(\<And>e. r = Inl e \<Longrightarrow> lasts Q (f e)) \<Longrightarrow> (\<And>x. r = Inr x \<Longrightarrow> lasts Q (g x)) \<Longrightarrow> lasts Q (case_sum f g r)"
  by (cases r) auto

text \<open>System calls: none fails for want of levels, and each creates only the paths it is given.\<close>

lemma walk_error: "walk fs p \<noteq> Inl OutOfFuel"
  by (simp add: walk_def split: option.split)

lemma real_fault_level: "real_fault f \<noteq> Fault OutOfFuel n"
  by (cases f) auto

lemma lasts_syscall:
  assumes "\<And>fs t ft p. \<lbrakk>\<And>n. ft \<noteq> Fault OutOfFuel n; \<forall>p. node_at fs p \<noteq> None \<longrightarrow> p \<in> Q\<rbrakk> \<Longrightarrow>
      fst (f fs t ft) \<noteq> Inl OutOfFuel \<and> (node_at (snd (f fs t ft)) p \<noteq> None \<longrightarrow> p \<in> Q)"
  shows "lasts Q (syscall f)"
  unfolding lasts_def inside_def
proof (intro allI impI conjI)
  fix w :: world assume w: "\<forall>p. node_at (w_fs w) p \<noteq> None \<longrightarrow> p \<in> Q"
  let ?out = "f (w_fs w) (w_clock w (w_ticks w)) (real_fault (w_faults w (w_calls w)))"
  note out = assms[OF real_fault_level w]
  show "fst (syscall f w) \<noteq> Inl OutOfFuel"
    using out by (simp add: syscall_def split: prod.split) (metis fst_conv)
  fix p assume "node_at (w_fs (snd (syscall f w))) p \<noteq> None"
  then have "node_at (snd ?out) p \<noteq> None" by (simp add: syscall_def split: prod.splits)
  then show "p \<in> Q" using out by blast
qed

lemma lasts_atomic:
  assumes "\<And>fs t p. \<forall>p. node_at fs p \<noteq> None \<longrightarrow> p \<in> Q \<Longrightarrow>
      fst (f fs t) \<noteq> Inl OutOfFuel \<and> (node_at (snd (f fs t)) p \<noteq> None \<longrightarrow> p \<in> Q)"
  shows "lasts Q (syscall (atomic f))"
proof (rule lasts_syscall)
  fix fs t ft p
  assume "\<And>n. ft \<noteq> Fault OutOfFuel n" "\<forall>p. node_at fs p \<noteq> None \<longrightarrow> p \<in> Q"
  then show "fst (atomic f fs t ft) \<noteq> Inl OutOfFuel \<and> (node_at (snd (atomic f fs t ft)) p \<noteq> None \<longrightarrow> p \<in> Q)"
    using assms by (cases ft) auto
qed

lemma lasts_reads [frame]:
  "lasts Q (op_stat p)" "lasts Q (op_opendir p)" "lasts Q (op_readdir p)" "lasts Q (op_readfile p)"
  unfolding op_stat_def op_opendir_def op_readdir_def op_readfile_def
  by (rule lasts_atomic; use walk_error in \<open>auto split: sum.split\<close>)+

lemma lasts_mkdirAll [frame]:
  assumes "set (prefixes p) \<subseteq> Q"
  shows "lasts Q (op_mkdirAll p m)"
  unfolding op_mkdirAll_def
proof (rule lasts_syscall)
  fix fs t ft q
  assume "\<And>n. ft \<noteq> Fault OutOfFuel n" and old: "\<forall>p. node_at fs p \<noteq> None \<longrightarrow> p \<in> Q"
  moreover have new: "q \<in> Q" if "node_at (mkdirs m t ps fs) q \<noteq> None" "set ps \<subseteq> set (prefixes p)" for ps
    using that old assms by (auto simp: node_at_mkdirs split: option.splits if_splits)
  ultimately show "fst (op_mkdirAll_fs p m fs t ft) \<noteq> Inl OutOfFuel \<and>
      (node_at (snd (op_mkdirAll_fs p m fs t ft)) q \<noteq> None \<longrightarrow> q \<in> Q)"
    using new[OF _ set_take_subset] by (cases ft) auto
qed

lemma lasts_clone [frame]: "b \<in> Q \<Longrightarrow> lasts Q (op_clone a b)"
  unfolding op_clone_def
  by (rule lasts_atomic) (use walk_error in \<open>auto split: sum.split\<close>)

lemma lasts_open [frame]: "p \<in> Q \<Longrightarrow> lasts Q (op_open p fl m)"
  unfolding op_open_def
  by (rule lasts_atomic) (use walk_error in \<open>auto simp: open_fs_def split: sum.split node.split\<close>)

lemma lasts_write [frame]: "lasts Q (op_write p s)"
  unfolding op_write_def
proof (rule lasts_syscall)
  fix fs t ft q
  assume "\<And>n. ft \<noteq> Fault OutOfFuel n" and old: "\<forall>p. node_at fs p \<noteq> None \<longrightarrow> p \<in> Q"
  moreover have "q \<in> Q" if "node_at (append_file p s' t fs) q \<noteq> None" for s'
    using that old by (auto simp: append_file_def split: option.splits node.splits if_splits)
  ultimately show "fst (op_write_fs p s fs t ft) \<noteq> Inl OutOfFuel \<and>
      (node_at (snd (op_write_fs p s fs t ft)) q \<noteq> None \<longrightarrow> q \<in> Q)"
    by (cases ft) auto
qed

subsection \<open>The calls through the root\<close>

lemma relFromReal_error: "relFromReal r p \<noteq> Inl OutOfFuel"
  by (simp add: relFromReal_def Let_def split: option.split)

lemma lasts_in_root [frame]: "(\<And>q. lasts Q (op q)) \<Longrightarrow> lasts Q (in_root r p op)"
  unfolding in_root_def by (intro frame relFromReal_error)

lemma lasts_in_root_abs:
  "root_ok r bs \<Longrightarrow> segs xs \<Longrightarrow> lasts Q (op (bs @ xs)) \<Longrightarrow> lasts Q (in_root r (abs_path (bs @ xs)) op)"
  by (simp add: in_root_abs) (intro frame)

lemma lasts_Stat [frame]: "lasts Q (Stat r p)" "lasts Q (Open_read r p)"
  unfolding Stat_def Open_read_def by (intro frame)+

lemma lasts_list_items [frame]: "lasts Q (list_items r d v items)"
  by (induction r d v items rule: list_items.induct) (auto simp: Let_def intro!: frame)

lemma lasts_List_dir [frame]: "lasts Q (List_dir r d v)"
  unfolding List_dir_def by (intro frame)

lemma lasts_io_copy [frame]: "lasts Q (io_copy r a b)"
  unfolding io_copy_def by (intro frame relFromReal_error)

text \<open>What is in a directory that was listed lies in the tree.\<close>

lemma Stat_inside:
  assumes "root_ok r bs" and "segs xs" and "inside Q w"
    and "Stat r (abs_path (bs @ xs)) w = (Inr n, w')"
  shows "bs @ xs \<in> Q"
  using Stat_ok[OF assms(1,2,4)] walk_node assms(3) by (auto simp: inside_def)

lemma list_items_inside:
  "list_items r d v items w = (Inr es, w') \<Longrightarrow> inside Q w \<Longrightarrow> e \<in> set es \<Longrightarrow> d @ [en_Name e] \<in> Q"
proof (induction r d v items arbitrary: w w' es rule: list_items.induct)
  case (2 r d v name n items)
  show ?case
  proof (cases "IsIgnoredVirtual r (pathJoinVirtual v name)")
    case True
    with 2(1)[OF refl True] 2(4-6) show ?thesis by (auto simp: Let_def)
  next
    case False
    obtain info w1 where op: "op_stat (d @ [name]) w = (info, w1)" by (rule prod.exhaust)
    have w1: "inside Q w1" using lastsD[OF lasts_reads(1) 2(5) op] by blast
    show ?thesis
    proof (cases info)
      case (Inl x)
      with 2(2)[OF refl False] 2(4,6) op False w1 show ?thesis by (auto simp: Let_def bindE_def)
    next
      case (Inr m)
      obtain es0 w2 where rest: "list_items r d v items w1 = (Inr es0, w2)"
          "es = entryFromInfo name m (pathJoinVirtual v name) # es0"
        using 2(4) op False Inr by (auto simp: Let_def bindE_def split: prod.splits sum.splits)
      have "d @ [name] \<in> Q"
        using op Inr 2(5) walk_node by (elim stat_cases) (auto simp: inside_def)
      with 2(3)[OF refl False rest(1) w1] 2(6) rest(2) show ?thesis
        by (auto simp: entryFromInfo_def)
    qed
  qed
qed simp

lemma List_dir_inside:
  assumes "root_ok r bs" and "segs xs" and "inside Q w"
    and "List_dir r (abs_path (bs @ xs)) v w = (Inr es, w')" and "e \<in> set es"
  shows "bs @ xs @ [en_Name e] \<in> Q"
proof -
  have "bindE (op_opendir bs) (\<lambda>_. bindE (op_readdir (bs @ xs)) (list_items r (bs @ xs) v)) w = (Inr es, w')"
    using assms(4) by (simp add: List_dir_def in_root_abs[OF assms(1,2)])
  then obtain u w1 items w2 where
      "op_opendir bs w = (Inr u, w1)" "op_readdir (bs @ xs) w1 = (Inr items, w2)"
      "list_items r (bs @ xs) v items w2 = (Inr es, w')"
    by (auto dest!: bindE_cases)
  with assms(3,5) show ?thesis
    using list_items_inside[of r "bs @ xs" v items w2 es w' Q e] lastsD[OF lasts_reads(2)]
      lastsD[OF lasts_reads(3)] by (metis append.assoc)
qed

subsection \<open>Copying lasts\<close>

lemma lasts_MkdirAll_abs:
  assumes "root_ok r bs" and "segs xs" and "set (prefixes (bs @ xs)) \<subseteq> Q"
  shows "lasts Q (MkdirAll r (abs_path (bs @ xs)) m)"
  unfolding MkdirAll_def by (rule lasts_in_root_abs[OF assms(1,2)]) (intro frame assms(3))

lemma lasts_copyFile:
  assumes "root_ok r bs" and "segs ds" "ds \<noteq> []" and "set (prefixes (bs @ ds)) \<subseteq> Q"
  shows "lasts Q (copyFile pc r src (abs_path (bs @ ds)) opts)"
proof -
  note b = root_okD[OF assms(1)]
  obtain es x where ds: "ds = es @ [x]" using assms(3) by (cases ds rule: rev_cases) auto
  have es: "segs es" "seg x" using assms(2) ds by simp_all
  have "Dir_name (abs_path (bs @ ds)) = abs_path (bs @ es)"
    using Dir_name_abs[of "bs @ es" x] b es ds by simp
  moreover have "set (prefixes (bs @ es)) \<subseteq> Q"
    using assms(4) ds by (auto simp: append_assoc[symmetric] simp del: append_assoc)
  ultimately have parent: "lasts Q (MkdirAllParent r (abs_path (bs @ ds)) m)" for m
    using lasts_MkdirAll_abs[OF assms(1) es(1)] by (simp add: MkdirAllParent_def)
  have here: "bs @ ds \<in> Q" using assms(4) by auto
  have "lasts Q (OpenFile r (abs_path (bs @ ds)) fl m)" for fl m
    unfolding OpenFile_def by (rule lasts_in_root_abs[OF assms(1,2)]) (intro frame here)
  moreover have "lasts Q (cloneFile pc src (abs_path (bs @ ds)))"
    using b assms(2) here unfolding cloneFile_def by (intro frame) simp_all
  ultimately show ?thesis unfolding copyFile_def by (intro frame parent; simp)
qed

lemma lasts_copy_entries:
  "(\<And>e. e \<in> set es \<Longrightarrow> lasts Q (copy (Join_paths [src, en_Name e]) (Join_paths [dst, en_Name e]))) \<Longrightarrow>
     lasts Q (copy_entries copy src dst es res)"
  by (induction copy src dst es res rule: copy_entries.induct) (auto intro!: frame)

text \<open>
  The tree being read gets no deeper: what is written below it is written nearer to the base than
  what it is copied from. So a level of recursion is left for every level below the source.
\<close>

definition depth_below :: "path \<Rightarrow> nat \<Rightarrow> path set" where
  "depth_below s D = {p. prefix s p \<longrightarrow> length p \<le> D}"

lemma depth_below_dest:
  assumes "\<not> prefix s d" and "s @ u \<in> depth_below s D"
  shows "set (prefixes (d @ u)) \<subseteq> depth_below s D"
proof
  fix q assume "q \<in> set (prefixes (d @ u))"
  then have q: "prefix q (d @ u)" by simp
  show "q \<in> depth_below s D"
    unfolding depth_below_def
  proof (intro CollectI impI)
    assume "prefix s q"
    then have "prefix s (d @ u)" using q by (rule prefix_order.trans)
    then have "prefix d s" using prefix_same_cases[of s "d @ u" d] assms(1) by simp
    then have "length d \<le> length s" by (rule prefix_length_le)
    moreover have "length (s @ u) \<le> D" using assms(2) by (simp add: depth_below_def)
    ultimately show "length q \<le> D" using prefix_length_le[OF q] by simp
  qed
qed

lemma lasts_Copy_depth:
  assumes "root_ok r bs" and "segs s" "segs d" and "\<not> prefix s d"
  shows "segs u \<Longrightarrow> 0 < n \<Longrightarrow> D < length (bs @ s @ u) + n \<Longrightarrow>
    lasts (depth_below (bs @ s) D) (Copy_depth pc r n (abs_path (bs @ s @ u)) (abs_path (bs @ d @ u)) opts)"
proof (induction n arbitrary: u)
  case (Suc n)
  let ?Q = "depth_below (bs @ s) D" and ?src = "bs @ s @ u" and ?dst = "bs @ d @ u"
  note b = root_okD[OF assms(1)]
  have segs: "segs (s @ u)" "segs (d @ u)" using assms(2,3) Suc.prems(1) by simp_all
  then have all: "segs ?src" "segs ?dst" using b by simp_all
  show ?case
    unfolding Copy_depth.simps
  proof (rule lasts_bind_result)
    show "lasts ?Q (Stat r (abs_path ?src))" by (intro frame)
    fix w info w'
    assume "inside ?Q w" "Stat r (abs_path ?src) w = (Inr info, w')"
    then have src: "?src \<in> ?Q" using Stat_inside[OF assms(1) segs(1)] by blast
    have dst: "set (prefixes ?dst) \<subseteq> ?Q"
      using depth_below_dest[of "bs @ s" "bs @ d" u D] assms(4) src by simp
    have child: "lasts ?Q (Copy_depth pc r n (Join_paths [abs_path ?src, x]) (Join_paths [abs_path ?dst, x]) opts)"
      if "seg x" "bs @ (s @ u) @ [x] \<in> ?Q" for x
      using Suc.IH[of "u @ [x]"] Suc.prems that Join_under[OF all(1)] Join_under[OF all(2)]
      by (simp add: depth_below_def)
    have "lasts ?Q (copyDir (\<lambda>a b. Copy_depth pc r n a b opts) r (abs_path ?src) (abs_path ?dst) opts)"
      unfolding copyDir_def Let_def Clean_abs_path[OF all(1)] Clean_abs_path[OF all(2)]
      by (intro lasts_if lasts_pure lasts_bind lasts_attempt lasts_Stat
          lasts_MkdirAll_abs[OF assms(1) segs(2) dst] lasts_bind_result[OF lasts_List_dir]
          lasts_copy_entries child; (rule List_dir_inside[OF assms(1) segs(1)] List_dir_names)?; simp?)
    moreover have "lasts ?Q (copyFile pc r (abs_path ?src) (abs_path ?dst) opts)"
      if "abs_path ?dst \<noteq> r_Base r"
    proof -
      have "d @ u \<noteq> []" using that b by auto
      then show ?thesis using lasts_copyFile[OF assms(1) segs(2) _ dst] by simp
    qed
    ultimately show "lasts ?Q (if abs_path ?dst = r_Base r then throwE ErrOutsideRoot
        else if is_dir info then copyDir (\<lambda>a b. Copy_depth pc r n a b opts) r (abs_path ?src) (abs_path ?dst) opts
        else copyFile pc r (abs_path ?src) (abs_path ?dst) opts)"
      by (intro lasts_if lasts_pure) simp_all
  qed
qed simp

subsection \<open>More levels change nothing\<close>

definition refined_by :: "'a io \<Rightarrow> 'a io \<Rightarrow> bool" where
  "refined_by m m' \<longleftrightarrow> (\<forall>w. fst (m w) \<noteq> Inl OutOfFuel \<longrightarrow> m' w = m w)"

lemma refined_refl: "refined_by m m"
  by (simp add: refined_by_def)

lemma refined_bind:
  assumes "refined_by m m'" and "\<And>x. refined_by (f x) (f' x)"
  shows "refined_by (bindE m f) (bindE m' f')"
  unfolding refined_by_def
proof (intro allI impI)
  fix w assume out: "fst (bindE m f w) \<noteq> Inl OutOfFuel"
  obtain r w1 where m: "m w = (r, w1)" by (rule prod.exhaust)
  with out have "r \<noteq> Inl OutOfFuel" by auto
  with m have m': "m' w = (r, w1)" using assms(1) by (simp add: refined_by_def)
  show "bindE m' f' w = bindE m f w"
    using m m' out assms(2) by (cases r) (simp_all add: refined_by_def)
qed

lemma refined_if:
  "refined_by m m' \<Longrightarrow> refined_by k k' \<Longrightarrow> refined_by (if b then m else k) (if b then m' else k')"
  by simp

lemma refined_copy_entries:
  "(\<And>a b. refined_by (f a b) (g a b)) \<Longrightarrow>
     refined_by (copy_entries f src dst es res) (copy_entries g src dst es res)"
  by (induction f src dst es res rule: copy_entries.induct) (auto intro!: refined_bind refined_refl)

lemma refined_copyDir:
  "(\<And>a b. refined_by (f a b) (g a b)) \<Longrightarrow> refined_by (copyDir f r s d opts) (copyDir g r s d opts)"
  unfolding copyDir_def Let_def by (intro refined_if refined_bind refined_copy_entries refined_refl)

lemma refined_Copy_depth: "refined_by (Copy_depth pc r n s d opts) (Copy_depth pc r (Suc n) s d opts)"
proof (induction n arbitrary: s d)
  case 0
  then show ?case by (simp add: refined_by_def)
next
  case (Suc n)
  show ?case
    unfolding Copy_depth.simps(2)[of pc r n s d opts] Copy_depth.simps(2)[of pc r "Suc n" s d opts]
    by (intro refined_if refined_bind refined_copyDir Suc.IH refined_refl)
qed

lemma more_levels:
  assumes "fst (Copy_depth pc r n s d opts w) \<noteq> Inl OutOfFuel" and "n \<le> m"
  shows "Copy_depth pc r m s d opts w = Copy_depth pc r n s d opts w"
  using assms(2)
proof (induction rule: dec_induct)
  case (step m)
  then show ?case using refined_Copy_depth[of pc r m s d opts] assms(1) by (simp add: refined_by_def)
qed simp

subsection \<open>The bound is enough\<close>

lemma tree_depth_bound: "node_at fs p \<noteq> None \<Longrightarrow> length p \<le> tree_depth fs"
  unfolding tree_depth_def by (induction fs) (auto simp: node_at_def le_max_iff_disj split: if_splits)

lemma Copy_levels:
  assumes "root_ok r bs" and "segs xs" and "segs ds"
  shows "fst (Copy pc r (abs_path (bs @ xs)) (abs_path (bs @ ds)) opts w) \<noteq> Inl OutOfFuel"
proof (cases "prefix xs ds")
  case False
  let ?D = "tree_depth (w_fs w)"
  have "inside (depth_below (bs @ xs) ?D) w"
    using tree_depth_bound by (auto simp: inside_def depth_below_def)
  moreover have "lasts (depth_below (bs @ xs) ?D)
      (Copy_depth pc r (?D + 2) (abs_path (bs @ xs)) (abs_path (bs @ ds)) opts)"
    using lasts_Copy_depth[OF assms False, of "[]" "?D + 2" ?D pc opts] by simp
  ultimately show ?thesis by (simp add: Copy_def lasts_def)
next
  case True
  note b = root_okD[OF assms(1)]
  let ?src = "abs_path (bs @ xs)" and ?dst = "abs_path (bs @ ds)"
  have all: "segs (bs @ xs)" "segs (bs @ ds)" using b assms by simp_all
  have "?dst = ?src \<or> HasPrefix ?dst (?src @ [slash])"
    using below_iff[OF all] True b by (cases "xs = ds") (auto simp: strict_prefix_def)
  then have dir: "copyDir f r ?src ?dst opts = throwE (ErrMsg ''destination cannot be inside source folder'')" for f
    by (auto simp: copyDir_def Clean_abs_path[OF all(1)] Clean_abs_path[OF all(2)])
  have "lasts UNIV (copyFile pc r ?src ?dst opts)" if "?dst \<noteq> r_Base r"
    using that b assms by (intro lasts_copyFile) auto
  then have "lasts UNIV (Copy_depth pc r (Suc n) ?src ?dst opts)" for n
    unfolding Copy_depth.simps dir by (intro frame) simp_all
  then show ?thesis
    by (simp add: Copy_def lasts_def inside_def numeral_2_eq_2)
qed

text \<open>C24: a copy ends. From a path of the tree to another, whatever calls fail on the way, the
  recursion of \<open>Copy\<close> comes to a result before the levels it starts with are used up, and with any
  larger number of levels it is the same: one more than the deepest path in the tree when the copy
  starts is enough, although the copy itself adds to that tree.\<close>

theorem copy_ends:
  assumes "root_ok r bs" and "segs xs" and "segs ds" and "tree_depth (w_fs w) + 2 \<le> n"
  shows "fst (Copy_depth pc r n (abs_path (bs @ xs)) (abs_path (bs @ ds)) opts w) \<noteq> Inl OutOfFuel \<and>
    Copy_depth pc r n (abs_path (bs @ xs)) (abs_path (bs @ ds)) opts w =
      Copy pc r (abs_path (bs @ xs)) (abs_path (bs @ ds)) opts w"
  using Copy_levels[OF assms(1-3), of pc opts w]
    more_levels[OF _ assms(4), of pc r "abs_path (bs @ xs)" "abs_path (bs @ ds)" opts w]
  by (simp add: Copy_def)

text \<open>A directory copied onto the directory it is in: the tree that is read is written to.\<close>

definition nested_fs :: fs where
  "nested_fs = sample_fs @
     [([''srv'', ''files'', ''d''], Dir 493 0), ([''srv'', ''files'', ''d'', ''d''], Dir 493 0),
      ([''srv'', ''files'', ''d'', ''d'', ''d''], Dir 493 0),
      ([''srv'', ''files'', ''d'', ''d'', ''d'', ''x''], File ''deep'' 420 1)]"

theorem copy_ends_witness:
  "let w = (sample_world (\<lambda>_. NoFault))\<lparr>w_fs := nested_fs\<rparr>;
       opts = \<lparr>co_Deduplicate = False, co_Overwrite = True\<rparr>;
       out = Copy_depth False sample_root 9 ''/srv/files/d/d'' ''/srv/files/d'' opts w
   in fst out \<noteq> Inl OutOfFuel \<and> out = Copy False sample_root ''/srv/files/d/d'' ''/srv/files/d'' opts w \<and>
      fst out = Inr \<lparr>cp_Files = 1, cp_Bytes = 4, cp_Strategy = ''copy''\<rparr>"
proof -
  let ?w = "(sample_world (\<lambda>_. NoFault))\<lparr>w_fs := nested_fs\<rparr>"
  let ?opts = "\<lparr>co_Deduplicate = False, co_Overwrite = True\<rparr>"
  have paths: "abs_path ([''srv'', ''files''] @ [''d'', ''d'']) = ''/srv/files/d/d''"
    "abs_path ([''srv'', ''files''] @ [''d'']) = ''/srv/files/d''" "segs [''d'', ''d'']" "segs [''d'']"
    "tree_depth (w_fs ?w) + 2 \<le> 9"
    by code_simp+
  moreover have "fst (Copy_depth False sample_root 9 ''/srv/files/d/d'' ''/srv/files/d'' ?opts ?w) =
      Inr \<lparr>cp_Files = 1, cp_Bytes = 4, cp_Strategy = ''copy''\<rparr>"
    by code_simp
  ultimately show ?thesis
    using copy_ends[OF sample_root_ok paths(3,4,5), of False ?opts] by (simp add: Let_def)
qed

end
