(* ===== verification/Config.thy ===== *)
theory Config
  imports Storage
begin

text \<open>
  The configuration of \<open>internal/config/config.go\<close>: the defaults, the JSON file, the environment and
  the normalisation every start runs. The machine around it is a record \<open>os_env\<close>: the working
  directory, the environment variables (an unset one reads as the empty string), the bytes of
  \<open>crypto/rand\<close> and \<open>url.Parse\<close> of \<open>net/url\<close>, of which the code reads six components. What
  \<open>encoding/json\<close> makes of the file is a function on the defaults.
\<close>

record FTPConfig =
  fc_Listen :: string
  fc_PassivePorts :: string
  fc_ExternalIP :: string
  fc_AutoMap :: bool
  fc_NATGateway :: string
  fc_MappingLifetime :: duration
  fc_TLSCertFile :: string
  fc_TLSKeyFile :: string
  fc_RequireTLS :: bool
  fc_AllowActive :: bool
  fc_AllowFXP :: bool
  fc_IdleTimeout :: duration
  fc_Welcome :: string
  fc_AllowedCommands :: "string list"

record HTTPConfig =
  hc_Listen :: string
  hc_PublicBaseURL :: string
  hc_SessionKey :: string
  hc_PublicCacheControl :: string
  hc_TurnstileSiteKey :: string
  hc_TurnstileSecret :: string
  hc_ReadHeaderTimeout :: duration
  hc_ReadTimeout :: duration
  hc_WriteTimeout :: duration
  hc_IdleTimeout :: duration

record StorageConfig =
  sc_Root :: string
  sc_PublicDir :: string
  sc_DropboxDir :: string
  sc_Ignore :: "string list"

record AuthConfig =
  auc_UsersPath :: string
  auc_BootstrapAdminUser :: string
  auc_BootstrapAdminPass :: string

record CloudflareConfig =
  cf_Enabled :: bool
  cf_ZoneID :: string
  cf_APIToken :: string
  cf_CacheTag :: string
  cf_HTTPProxy :: bool

record Config =
  cfg_FTP :: FTPConfig
  cfg_HTTP :: HTTPConfig
  cfg_Storage :: StorageConfig
  cfg_Auth :: AuthConfig
  cfg_Cloudflare :: CloudflareConfig

record url =
  url_Scheme :: string
  url_Host :: string
  url_has_User :: bool
  url_RawQuery :: string
  url_Fragment :: string
  url_Path :: string

record os_env =
  ev_cwd :: "err + string"
  ev_getenv :: "string \<Rightarrow> string"
  ev_rand :: "string option"
  ev_url :: "string \<Rightarrow> url option"

subsection \<open>Durations\<close>

text \<open>
  What the raw JSON of a duration decodes to: a string goes through \<open>time.ParseDuration\<close>, a
  parameter; a number is a number of seconds, multiplied in 64 bits.
\<close>

datatype json_duration = JString string | JInt int | JOther

definition UnmarshalJSON :: "(string \<Rightarrow> err + duration) \<Rightarrow> json_duration \<Rightarrow> err + duration" where
  "UnmarshalJSON ParseDuration raw =
     (case raw of
        JString s \<Rightarrow> (case ParseDuration s of Inl e \<Rightarrow> Inl e | Inr d \<Rightarrow> Inr d)
      | JInt n \<Rightarrow> Inr (wrap_i64 (n * second))
      | JOther \<Rightarrow> Inl (ErrMsg ''json''))"

definition Std :: "duration \<Rightarrow> duration \<Rightarrow> duration" where
  "Std d defaultValue = (if d = 0 then defaultValue else d)"

subsection \<open>Defaults\<close>

definition Default :: Config where
  "Default =
     \<lparr>cfg_FTP =
        \<lparr>fc_Listen = ''127.0.0.1:2121'', fc_PassivePorts = ''50000-50100'', fc_ExternalIP = [],
         fc_AutoMap = True, fc_NATGateway = [], fc_MappingLifetime = hour, fc_TLSCertFile = [],
         fc_TLSKeyFile = [], fc_RequireTLS = False, fc_AllowActive = True, fc_AllowFXP = False,
         fc_IdleTimeout = 10 * minute, fc_Welcome = ''macftpd ready'', fc_AllowedCommands = []\<rparr>,
      cfg_HTTP =
        \<lparr>hc_Listen = ''127.0.0.1:8080'', hc_PublicBaseURL = [], hc_SessionKey = [],
         hc_PublicCacheControl = ''public, max-age=300, stale-while-revalidate=60'',
         hc_TurnstileSiteKey = [], hc_TurnstileSecret = [], hc_ReadHeaderTimeout = 10 * second,
         hc_ReadTimeout = 0, hc_WriteTimeout = 0, hc_IdleTimeout = 60 * second\<rparr>,
      cfg_Storage =
        \<lparr>sc_Root = ''./var/ftpd'', sc_PublicDir = ''public'', sc_DropboxDir = ''dropboxes'',
         sc_Ignore = [''.DS_Store'', ''._*'', ''.AppleDouble'', ''.Spotlight-V100'', ''.Trashes'',
           ''.fseventsd'', ''.TemporaryItems'', ''.apdisk'', ''.git'', ''.svn'', ''.hg'', ''.env'',
           ''.ssh'', ''._macftpd_trash'', ''._macftpd_versions'', ''._macftpd_uploads'']\<rparr>,
      cfg_Auth =
        \<lparr>auc_UsersPath = ''./var/users.json'', auc_BootstrapAdminUser = ''admin'',
         auc_BootstrapAdminPass = []\<rparr>,
      cfg_Cloudflare =
        \<lparr>cf_Enabled = False, cf_ZoneID = [], cf_APIToken = [], cf_CacheTag = ''macftpd-public'',
         cf_HTTPProxy = False\<rparr>\<rparr>"

subsection \<open>Normalisation\<close>

definition Abs_path :: "os_env \<Rightarrow> string \<Rightarrow> err + string" where
  "Abs_path env p =
     (if p \<noteq> [] \<and> hd p = slash then Inr (Clean p)
      else case ev_cwd env of Inl e \<Rightarrow> Inl e | Inr cwd \<Rightarrow> Inr (Join_paths [cwd, p]))"

definition randomSessionKey :: "string option \<Rightarrow> err + string" where
  "randomSessionKey rand =
     (case rand of
        None \<Rightarrow> Inl (ErrMsg ''generate session key'')
      | Some buf \<Rightarrow> Inr (b64_encode url_alphabet buf))"

definition origin_ok :: "url option \<Rightarrow> bool" where
  "origin_ok u =
     (case u of
        None \<Rightarrow> False
      | Some p \<Rightarrow> (url_Scheme p = ''http'' \<or> url_Scheme p = ''https'') \<and> url_Host p \<noteq> [] \<and>
          \<not> url_has_User p \<and> url_RawQuery p = [] \<and> url_Fragment p = [] \<and> url_Path p = [])"

definition normalize_ftp :: "FTPConfig \<Rightarrow> FTPConfig" where
  "normalize_ftp c =
     c\<lparr>fc_Listen := (if fc_Listen c = [] then fc_Listen (cfg_FTP Default) else fc_Listen c),
       fc_MappingLifetime := (if fc_MappingLifetime c = 0 then hour else fc_MappingLifetime c),
       fc_TLSCertFile := TrimSpace (fc_TLSCertFile c), fc_TLSKeyFile := TrimSpace (fc_TLSKeyFile c)\<rparr>"

definition normalize_http :: "os_env \<Rightarrow> HTTPConfig \<Rightarrow> err + HTTPConfig" where
  "normalize_http env c0 =
     (let c = c0\<lparr>hc_Listen := (if hc_Listen c0 = [] then hc_Listen (cfg_HTTP Default) else hc_Listen c0),
                 hc_PublicBaseURL := TrimRight (TrimSpace (hc_PublicBaseURL c0)) [slash]\<rparr>
      in if hc_PublicBaseURL c \<noteq> [] \<and> \<not> origin_ok (ev_url env (hc_PublicBaseURL c))
         then Inl (ErrMsg ''http.public_base_url must be an HTTP(S) origin'')
         else Inr c)"

definition normalize_dir :: "string \<Rightarrow> string \<Rightarrow> string" where
  "normalize_dir dflt d =
     Trim (replace_char (CHR 0x5C) slash (if d = [] then dflt else d)) [slash]"

definition normalize_storage :: "os_env \<Rightarrow> StorageConfig \<Rightarrow> err + StorageConfig" where
  "normalize_storage env c0 =
     (if sc_Root c0 = [] then Inl (ErrMsg ''storage.root is required'')
      else case Abs_path env (sc_Root c0) of
        Inl e \<Rightarrow> Inl e
      | Inr root \<Rightarrow>
          (let c = c0\<lparr>sc_Root := Clean root, sc_PublicDir := normalize_dir ''public'' (sc_PublicDir c0),
                      sc_DropboxDir := normalize_dir ''dropboxes'' (sc_DropboxDir c0)\<rparr>
           in if sc_PublicDir c = [] \<or> Contains (sc_PublicDir c) [slash]
              then Inl (ErrMsg ''storage.public_dir must be a single directory name'')
              else if sc_DropboxDir c = [] \<or> Contains (sc_DropboxDir c) [slash]
              then Inl (ErrMsg ''storage.dropbox_dir must be a single directory name'')
              else Inr c))"

definition normalize_auth :: "os_env \<Rightarrow> string \<Rightarrow> AuthConfig \<Rightarrow> err + AuthConfig" where
  "normalize_auth env root c =
     (let usersPath = (if auc_UsersPath c = [] then Join_paths [Dir_name root, ''users.json'']
                       else auc_UsersPath c)
      in case Abs_path env usersPath of
           Inl e \<Rightarrow> Inl e
         | Inr p \<Rightarrow> Inr (c\<lparr>auc_UsersPath := Clean p\<rparr>))"

definition normalize_session_key :: "os_env \<Rightarrow> HTTPConfig \<Rightarrow> err + HTTPConfig" where
  "normalize_session_key env c =
     (let key = (if hc_SessionKey c = [] then ev_getenv env ''MACFTPD_SESSION_KEY'' else hc_SessionKey c)
      in if key \<noteq> [] then Inr (c\<lparr>hc_SessionKey := key\<rparr>)
         else case randomSessionKey (ev_rand env) of
                Inl e \<Rightarrow> Inl e
              | Inr fresh \<Rightarrow> Inr (c\<lparr>hc_SessionKey := fresh\<rparr>))"

text \<open>The checks in the order of the code; the first that fails is the error.\<close>

definition Normalize :: "os_env \<Rightarrow> Config \<Rightarrow> err + Config" where
  "Normalize env c =
     (case normalize_http env (cfg_HTTP c) of Inl e \<Rightarrow> Inl e | Inr http \<Rightarrow>
     (case normalize_storage env (cfg_Storage c) of Inl e \<Rightarrow> Inl e | Inr storage \<Rightarrow>
     (case normalize_auth env (sc_Root storage) (cfg_Auth c) of Inl e \<Rightarrow> Inl e | Inr auth \<Rightarrow>
     (case normalize_session_key env http of Inl e \<Rightarrow> Inl e | Inr http' \<Rightarrow>
        Inr \<lparr>cfg_FTP = normalize_ftp (cfg_FTP c),
             cfg_HTTP = http'\<lparr>hc_TurnstileSiteKey := TrimSpace (hc_TurnstileSiteKey http'),
                              hc_TurnstileSecret := TrimSpace (hc_TurnstileSecret http')\<rparr>,
             cfg_Storage = storage, cfg_Auth = auth,
             cfg_Cloudflare = (cfg_Cloudflare c)
               \<lparr>cf_ZoneID := TrimSpace (cf_ZoneID (cfg_Cloudflare c)),
                cf_APIToken := TrimSpace (cf_APIToken (cfg_Cloudflare c))\<rparr>\<rparr>))))"

subsection \<open>The environment\<close>

text \<open>The variables and the settings they overwrite; no two overwrite the same one, so the order
  in which the map is walked does not matter.\<close>

definition env_table :: "(string \<times> (string \<Rightarrow> Config \<Rightarrow> Config)) list" where
  "env_table =
     (let ftp = (\<lambda>f v c. c\<lparr>cfg_FTP := f v (cfg_FTP c)\<rparr>);
          http = (\<lambda>f v c. c\<lparr>cfg_HTTP := f v (cfg_HTTP c)\<rparr>);
          auth = (\<lambda>f v c. c\<lparr>cfg_Auth := f v (cfg_Auth c)\<rparr>);
          cloud = (\<lambda>f v c. c\<lparr>cfg_Cloudflare := f v (cfg_Cloudflare c)\<rparr>)
      in [(''MACFTPD_FTP_LISTEN'', ftp (\<lambda>v. fc_Listen_update (\<lambda>_. v))),
          (''MACFTPD_FTP_PASSIVE'', ftp (\<lambda>v. fc_PassivePorts_update (\<lambda>_. v))),
          (''MACFTPD_FTP_EXTERNAL_IP'', ftp (\<lambda>v. fc_ExternalIP_update (\<lambda>_. v))),
          (''MACFTPD_FTP_NAT_GATEWAY'', ftp (\<lambda>v. fc_NATGateway_update (\<lambda>_. v))),
          (''MACFTPD_FTP_TLS_CERT'', ftp (\<lambda>v. fc_TLSCertFile_update (\<lambda>_. v))),
          (''MACFTPD_FTP_TLS_KEY'', ftp (\<lambda>v. fc_TLSKeyFile_update (\<lambda>_. v))),
          (''MACFTPD_HTTP_LISTEN'', http (\<lambda>v. hc_Listen_update (\<lambda>_. v))),
          (''MACFTPD_STORAGE_ROOT'', (\<lambda>v c. c\<lparr>cfg_Storage := (cfg_Storage c)\<lparr>sc_Root := v\<rparr>\<rparr>)),
          (''MACFTPD_USERS_PATH'', auth (\<lambda>v. auc_UsersPath_update (\<lambda>_. v))),
          (''MACFTPD_ADMIN_USER'', auth (\<lambda>v. auc_BootstrapAdminUser_update (\<lambda>_. v))),
          (''MACFTPD_ADMIN_PASS'', auth (\<lambda>v. auc_BootstrapAdminPass_update (\<lambda>_. v))),
          (''MACFTPD_CF_ZONE_ID'', cloud (\<lambda>v. cf_ZoneID_update (\<lambda>_. v))),
          (''MACFTPD_CF_API_TOKEN'', cloud (\<lambda>v. cf_APIToken_update (\<lambda>_. v))),
          (''MACFTPD_PUBLIC_BASE_URL'', http (\<lambda>v. hc_PublicBaseURL_update (\<lambda>_. v))),
          (''MACFTPD_CACHE_CONTROL'', http (\<lambda>v. hc_PublicCacheControl_update (\<lambda>_. v))),
          (''MACFTPD_CLOUDFLARE_TAG'', cloud (\<lambda>v. cf_CacheTag_update (\<lambda>_. v))),
          (''MACFTPD_HTTP_SESSION_KEY'', http (\<lambda>v. hc_SessionKey_update (\<lambda>_. v))),
          (''MACFTPD_TURNSTILE_SITE'', http (\<lambda>v. hc_TurnstileSiteKey_update (\<lambda>_. v))),
          (''MACFTPD_TURNSTILE_SECRET'', http (\<lambda>v. hc_TurnstileSecret_update (\<lambda>_. v)))])"

definition applyEnv :: "os_env \<Rightarrow> Config \<Rightarrow> Config" where
  "applyEnv env c0 =
     (let c1 = fold (\<lambda>(name, set_dest) c.
                 let v = TrimSpace (ev_getenv env name) in if v \<noteq> [] then set_dest v c else c)
                 env_table c0;
          c2 = (if ev_getenv env ''MACFTPD_CF_ENABLED'' = ''1''
                then c1\<lparr>cfg_Cloudflare := (cfg_Cloudflare c1)\<lparr>cf_Enabled := True\<rparr>\<rparr> else c1)
      in if ev_getenv env ''MACFTPD_FTP_REQUIRE_TLS'' = ''1''
         then c2\<lparr>cfg_FTP := (cfg_FTP c2)\<lparr>fc_RequireTLS := True\<rparr>\<rparr> else c2)"

definition Load :: "os_env \<Rightarrow> (string \<Rightarrow> Config \<Rightarrow> err + Config) \<Rightarrow> string \<Rightarrow> Config io" where
  "Load env unmarshal p =
     bindE (if p \<noteq> []
            then bindE (op_readfile (os_path p)) (\<lambda>raw. liftE (unmarshal raw Default))
            else returnE Default) (\<lambda>cfg.
       liftE (Normalize env (applyEnv env cfg)))"

fun ensure_dirs :: "string list \<Rightarrow> unit io" where
  "ensure_dirs [] = returnE ()"
| "ensure_dirs (dir # dirs) =
     bindE (attempt (op_mkdirAll (os_path dir) mode_750)) (\<lambda>r. case r of
       Inl e \<Rightarrow> throwE (ErrJoin (ErrMsg (''create '' @ dir)) e)
     | Inr _ \<Rightarrow> ensure_dirs dirs)"

definition EnsureDirs :: "Config \<Rightarrow> unit io" where
  "EnsureDirs c =
     ensure_dirs [sc_Root (cfg_Storage c),
       Join_paths [sc_Root (cfg_Storage c), sc_PublicDir (cfg_Storage c)],
       Join_paths [sc_Root (cfg_Storage c), sc_DropboxDir (cfg_Storage c)],
       Dir_name (auc_UsersPath (cfg_Auth c))]"

subsection \<open>What a normalised configuration promises\<close>

definition absolute :: "string \<Rightarrow> bool" where
  "absolute p \<longleftrightarrow> p \<noteq> [] \<and> hd p = slash"

definition env_ok :: "os_env \<Rightarrow> bool" where
  "env_ok env \<longleftrightarrow>
     (case ev_cwd env of Inl _ \<Rightarrow> True | Inr cwd \<Rightarrow> absolute cwd) \<and> ev_rand env \<noteq> Some []"

definition dir_name_ok :: "string \<Rightarrow> bool" where
  "dir_name_ok d \<longleftrightarrow> d \<noteq> [] \<and> slash \<notin> set d \<and> CHR 0x5C \<notin> set d"

lemma Clean_absolute: "absolute p \<Longrightarrow> \<exists>xs. segs xs \<and> Clean p = abs_path xs"
  using Clean_rooted[of "tl p"] by (cases p) (auto simp: absolute_def)

lemma absolute_abs_path [simp]: "absolute (abs_path xs)"
  by (simp add: absolute_def)

lemma Join_paths_absolute:
  assumes "absolute a"
  shows "\<exists>xs. segs xs \<and> Join_paths [a, b] = abs_path xs"
proof -
  have "absolute (Join [a, b] [slash])" using assms by (cases a) (auto simp: absolute_def)
  then show ?thesis using Clean_absolute assms by (simp add: Join_paths_def absolute_def)
qed

lemma Abs_path_absolute:
  assumes "env_ok env" and "Abs_path env p = Inr q"
  shows "\<exists>xs. segs xs \<and> q = abs_path xs"
  using assms Clean_absolute[of p] Join_paths_absolute[of _ p]
  by (auto simp: Abs_path_def env_ok_def absolute_def split: if_splits sum.splits)

lemma set_Trim: "set (Trim s cs) \<subseteq> set s"
  by (auto simp: Trim_def TrimRight_def TrimLeft_def dest!: set_dropWhileD)

lemma normalize_dir_no_backslash: "CHR 0x5C \<notin> set (normalize_dir dflt d)"
  using set_Trim by (fastforce simp: normalize_dir_def replace_char_def)

lemma b64_encode_not_Nil: "s \<noteq> [] \<Longrightarrow> b64_encode a s \<noteq> []"
  by (cases s; cases "tl s"; cases "tl (tl s)") (simp_all add: b64_encode_def)

lemma TrimRight_last: "TrimRight s cs = [] \<or> last (TrimRight s cs) \<notin> set cs"
proof (cases "dropWhile (\<lambda>c. c \<in> set cs) (rev s)")
  case Nil
  then show ?thesis by (simp add: TrimRight_def)
next
  case (Cons c r)
  then have "c \<notin> set cs" by (auto simp: dropWhile_eq_Cons_conv)
  with Cons show ?thesis by (simp add: TrimRight_def)
qed

lemma normalize_storage_ok:
  assumes "env_ok env" and "normalize_storage env c0 = Inr c"
  shows "\<exists>bs. segs bs \<and> sc_Root c = abs_path bs" "dir_name_ok (sc_PublicDir c)"
    "dir_name_ok (sc_DropboxDir c)" "sc_Ignore c = sc_Ignore c0"
proof -
  obtain root where root: "Abs_path env (sc_Root c0) = Inr root" and c: "c = c0\<lparr>sc_Root := Clean root,
      sc_PublicDir := normalize_dir ''public'' (sc_PublicDir c0),
      sc_DropboxDir := normalize_dir ''dropboxes'' (sc_DropboxDir c0)\<rparr>"
    using assms(2) by (auto simp: normalize_storage_def Let_def split: if_splits sum.splits)
  show "\<exists>bs. segs bs \<and> sc_Root c = abs_path bs"
    using Abs_path_absolute[OF assms(1) root] c by auto
  show "dir_name_ok (sc_PublicDir c)" "dir_name_ok (sc_DropboxDir c)" "sc_Ignore c = sc_Ignore c0"
    using assms(2) normalize_dir_no_backslash c
    by (auto simp: normalize_storage_def Let_def dir_name_ok_def Contains_single
        split: if_splits sum.splits)
qed

lemma normalize_auth_ok:
  assumes "env_ok env" and "normalize_auth env root c0 = Inr c"
  shows "\<exists>us. segs us \<and> auc_UsersPath c = abs_path us"
  using assms Abs_path_absolute[OF assms(1)]
  by (fastforce simp: normalize_auth_def Let_def split: if_splits sum.splits)

lemma normalize_session_key_ok:
  assumes "env_ok env" and "normalize_session_key env c0 = Inr c"
  shows "hc_SessionKey c \<noteq> []" "hc_Listen c = hc_Listen c0" "hc_PublicBaseURL c = hc_PublicBaseURL c0"
proof -
  have "hc_SessionKey c \<noteq> [] \<and> hc_Listen c = hc_Listen c0 \<and> hc_PublicBaseURL c = hc_PublicBaseURL c0"
  proof (cases "(if hc_SessionKey c0 = [] then ev_getenv env ''MACFTPD_SESSION_KEY''
      else hc_SessionKey c0) = []")
    case True
    with assms show ?thesis
      by (auto simp: normalize_session_key_def randomSessionKey_def env_ok_def Let_def
          dest: b64_encode_not_Nil[of _ url_alphabet] split: sum.splits option.splits)
  next
    case False
    with assms(2) show ?thesis by (auto simp: normalize_session_key_def Let_def)
  qed
  then show "hc_SessionKey c \<noteq> []" "hc_Listen c = hc_Listen c0"
    "hc_PublicBaseURL c = hc_PublicBaseURL c0" by blast+
qed

text \<open>C39: a configuration that starts is well formed. Whatever the file and the environment
  say, a configuration \<open>Normalize\<close> accepts has absolute clean paths for the storage root and the
  user database, both directory names without separators, both listening addresses, a mapping
  lifetime and a session key, and a public base URL that ends in no slash.\<close>

theorem config_wellformed:
  assumes "env_ok env" and "Normalize env c = Inr c'"
  shows "(\<exists>bs. segs bs \<and> sc_Root (cfg_Storage c') = abs_path bs) \<and>
    (\<exists>us. segs us \<and> auc_UsersPath (cfg_Auth c') = abs_path us) \<and>
    dir_name_ok (sc_PublicDir (cfg_Storage c')) \<and> dir_name_ok (sc_DropboxDir (cfg_Storage c')) \<and>
    fc_Listen (cfg_FTP c') \<noteq> [] \<and> fc_MappingLifetime (cfg_FTP c') \<noteq> 0 \<and>
    hc_Listen (cfg_HTTP c') \<noteq> [] \<and> hc_SessionKey (cfg_HTTP c') \<noteq> [] \<and>
    (hc_PublicBaseURL (cfg_HTTP c') = [] \<or> last (hc_PublicBaseURL (cfg_HTTP c')) \<noteq> slash)"
proof -
  obtain http storage auth http' where
      h: "normalize_http env (cfg_HTTP c) = Inr http"
    and s: "normalize_storage env (cfg_Storage c) = Inr storage"
    and a: "normalize_auth env (sc_Root storage) (cfg_Auth c) = Inr auth"
    and k: "normalize_session_key env http = Inr http'"
    and c': "cfg_FTP c' = normalize_ftp (cfg_FTP c)" "cfg_Storage c' = storage" "cfg_Auth c' = auth"
      "hc_Listen (cfg_HTTP c') = hc_Listen http'" "hc_SessionKey (cfg_HTTP c') = hc_SessionKey http'"
      "hc_PublicBaseURL (cfg_HTTP c') = hc_PublicBaseURL http'"
    using assms(2) by (auto simp: Normalize_def split: sum.splits)
  have "hc_Listen http \<noteq> []" and "hc_PublicBaseURL http = [] \<or> last (hc_PublicBaseURL http) \<noteq> slash"
    using h TrimRight_last[of "TrimSpace (hc_PublicBaseURL (cfg_HTTP c))" "[slash]"]
    by (auto simp: normalize_http_def Default_def Let_def split: if_splits)
  moreover have "fc_Listen (normalize_ftp f) \<noteq> [] \<and> fc_MappingLifetime (normalize_ftp f) \<noteq> 0" for f
    by (simp add: normalize_ftp_def Default_def)
  ultimately show ?thesis
    using normalize_storage_ok[OF assms(1) s] normalize_auth_ok[OF assms(1) a]
      normalize_session_key_ok[OF assms(1) k] c' by simp
qed

definition sample_env :: os_env where
  "sample_env = \<lparr>ev_cwd = Inr ''/opt/macftpd'', ev_getenv = (\<lambda>_. []), ev_rand = Some ''0123456789abcdef'',
     ev_url = (\<lambda>_. None)\<rparr>"

theorem config_wellformed_witness:
  "sc_Root (cfg_Storage (projr (Normalize sample_env Default))) = ''/opt/macftpd/var/ftpd'' \<and>
   dir_name_ok (sc_PublicDir (cfg_Storage (projr (Normalize sample_env Default))))"
proof -
  have ok: "env_ok sample_env" by code_simp
  have "is_Inr (Normalize sample_env Default)" by code_simp
  then have r: "Normalize sample_env Default = Inr (projr (Normalize sample_env Default))"
    by (cases "Normalize sample_env Default") simp_all
  have "dir_name_ok (sc_PublicDir (cfg_Storage (projr (Normalize sample_env Default))))"
    using config_wellformed[OF ok r] by blast
  moreover have "sc_Root (cfg_Storage (projr (Normalize sample_env Default))) = ''/opt/macftpd/var/ftpd''"
    by code_simp
  ultimately show ?thesis by blast
qed

text \<open>
  A directory name passes the checks when it is a single segment, and also when it is one of the
  two dot segments, which \<open>root_ok\<close> excludes.
\<close>

lemma dot_dot_is_accepted:
  "sc_PublicDir (cfg_Storage (projr (Normalize sample_env
     (Default\<lparr>cfg_Storage := (cfg_Storage Default)\<lparr>sc_PublicDir := ''..''\<rparr>\<rparr>)))) = ''..''"
  by code_simp

lemma Trim_fresh: "list_all (\<lambda>c. c \<notin> set cs) s \<Longrightarrow> Trim s cs = s"
proof -
  have d: "dropWhile (\<lambda>c. c \<in> set cs) t = t" if "\<forall>c \<in> set t. c \<notin> set cs" for t
    using that by (cases t) auto
  assume "list_all (\<lambda>c. c \<notin> set cs) s"
  then show ?thesis by (simp add: Trim_def TrimRight_def TrimLeft_def d list_all_iff)
qed

lemma cleanName_dir_name: "dir_name_ok d \<Longrightarrow> cleanName d = d"
  by (simp add: cleanName_def dir_name_ok_def replace_char_fresh)
    (rule Trim_fresh, auto simp: list_all_iff)

text \<open>What \<open>main\<close> opens with a normalised configuration is a root the path lemmas apply to, once the
  directory names are neither dot segments nor padded with white space.\<close>

lemma configured_root_ok:
  assumes "env_ok env" and "Normalize env c = Inr c'" and "sc_Root (cfg_Storage c') \<noteq> [slash]"
    and "plain_seg (sc_PublicDir (cfg_Storage c'))" "plain_seg (sc_DropboxDir (cfg_Storage c'))"
    and "New_root (sc_Root (cfg_Storage c')) (sc_PublicDir (cfg_Storage c'))
           (sc_DropboxDir (cfg_Storage c')) (sc_Ignore (cfg_Storage c')) w = (Inr r, w')"
  shows "\<exists>bs. root_ok r bs"
proof -
  obtain storage where s: "normalize_storage env (cfg_Storage c) = Inr storage" "cfg_Storage c' = storage"
    using assms(2) by (auto simp: Normalize_def split: sum.splits)
  note ok = normalize_storage_ok[OF assms(1) s(1), folded s(2)]
  obtain bs where bs: "segs bs" "sc_Root (cfg_Storage c') = abs_path bs" using ok(1) by blast
  then have "bs \<noteq> []" using assms(3) by auto
  moreover have "r_Base r = abs_path bs \<and> r_PublicDir r = sc_PublicDir (cfg_Storage c') \<and>
      r_DropboxDir r = sc_DropboxDir (cfg_Storage c')"
    using assms(6) bs cleanName_dir_name ok(2,3)
    by (auto simp: New_root_def bindE_def returnE_def split: prod.splits sum.splits)
  ultimately show ?thesis using bs assms(4,5) by (auto simp: root_ok_def)
qed



end
