(* ===== verification/GoNet.thy ===== *)
theory GoNet
  imports GoStrings
begin

text \<open>
  What the servers use of Go's package \<open>net\<close>: host and port strings, and IP addresses. An address is
  its sixteen bytes, an IPv4 address the mapped one, as \<open>ParseIP\<close> returns it. A connection's address
  is the text \<open>String()\<close> returns and, for a \<open>*net.TCPAddr\<close>, the IP in it.
\<close>

type_synonym ip = "nat list"

record addr =
  ad_String :: string
  ad_TCP_IP :: "ip option"

abbreviation colon :: char where "colon \<equiv> CHR '':''"

definition v4_prefix :: "nat list" where
  "v4_prefix = replicate 10 0 @ [255, 255]"

definition To4 :: "ip \<Rightarrow> nat list option" where
  "To4 ip = (if length ip = 16 \<and> take 12 ip = v4_prefix then Some (drop 12 ip) else None)"

definition IsLoopback :: "ip \<Rightarrow> bool" where
  "IsLoopback ip =
     (case To4 ip of Some v4 \<Rightarrow> v4 ! 0 = 127 | None \<Rightarrow> ip = replicate 15 0 @ [1])"

subsection \<open>Hosts and ports\<close>

text \<open>The part pre the last colon, and the part after it.\<close>

definition last_colon :: "string \<Rightarrow> (string \<times> string) option" where
  "last_colon s =
     (if colon \<notin> set s then None
      else let r = rev s
           in Some (rev (tl (dropWhile (\<lambda>c. c \<noteq> colon) r)), rev (takeWhile (\<lambda>c. c \<noteq> colon) r)))"

text \<open>
  \<open>SplitHostPort\<close>: a bracketed host must close right pre the last colon, any other has no
  colon, and no bracket may stand elsewhere. \<open>None\<close> is the error.
\<close>

definition SplitHostPort :: "string \<Rightarrow> (string \<times> string) option" where
  "SplitHostPort hostport =
     (case last_colon hostport of
        None \<Rightarrow> None
      | Some (pre, port) \<Rightarrow>
          if hostport \<noteq> [] \<and> hd hostport = CHR ''[''
          then (if pre \<noteq> [] \<and> last pre = CHR '']'' \<and> CHR '']'' \<notin> set (butlast pre) \<and>
                   CHR ''['' \<notin> set (tl hostport) \<and> CHR '']'' \<notin> set port
                then Some (tl (butlast pre), port) else None)
          else (if colon \<in> set pre \<or> CHR ''['' \<in> set hostport \<or> CHR '']'' \<in> set hostport
                then None else Some (pre, port)))"

definition JoinHostPort :: "string \<Rightarrow> string \<Rightarrow> string" where
  "JoinHostPort host port =
     (if colon \<in> set host then CHR ''['' # host @ CHR '']'' # colon # port
      else host @ colon # port)"

subsection \<open>IP addresses\<close>

text \<open>A decimal byte: one to three digits, no leading zero, at most 255.\<close>

definition parse_octet :: "string \<Rightarrow> nat option" where
  "parse_octet s =
     (if s = [] \<or> \<not> list_all is_digit s \<or> (1 < length s \<and> hd s = CHR ''0'') then None
      else if digits_val s > 255 then None else Some (digits_val s))"

fun parse_octets :: "string list \<Rightarrow> nat list option" where
  "parse_octets [] = Some []"
| "parse_octets (s # ss) =
     (case (parse_octet s, parse_octets ss) of (Some n, Some ns) \<Rightarrow> Some (n # ns) | _ \<Rightarrow> None)"

definition parseIPv4 :: "string \<Rightarrow> nat list option" where
  "parseIPv4 s =
     (let fields = Split s (CHR ''.'') in if length fields = 4 then parse_octets fields else None)"

definition hex_val :: "char \<Rightarrow> nat option" where
  "hex_val c =
     (if is_digit c then Some (digit_val c)
      else if CHR ''a'' \<le> c \<and> c \<le> CHR ''f'' then Some (of_char c - 87)
      else if CHR ''A'' \<le> c \<and> c \<le> CHR ''F'' then Some (of_char c - 55)
      else None)"

definition is_hex :: "char \<Rightarrow> bool" where
  "is_hex c \<longleftrightarrow> hex_val c \<noteq> None"

definition hex_value :: "string \<Rightarrow> nat" where
  "hex_value s = foldl (\<lambda>a c. 16 * a + the (hex_val c)) 0 s"

text \<open>
  The loop of \<open>parseIPv6\<close>: \<open>out\<close> holds the bytes so far, \<open>ellipsis\<close> the place of the double colon.
  One group is one to four hexadecimal digits; an IPv4 address may stand for the last two.
  \<open>n\<close> bounds the number of groups by eight.
\<close>

fun parse_groups :: "nat \<Rightarrow> string \<Rightarrow> nat list \<Rightarrow> nat option \<Rightarrow> (nat list \<times> nat option) option" where
  "parse_groups 0 s out ellipsis = (if s = [] then Some (out, ellipsis) else None)"
| "parse_groups (Suc n) s out ellipsis =
     (let digits = takeWhile is_hex s; rest = drop (length digits) s; acc = hex_value digits
      in if digits = [] \<or> 4 < length digits then None
         else if rest \<noteq> [] \<and> hd rest = CHR ''.''
         then (if (ellipsis = None \<and> length out \<noteq> 12) \<or> 12 < length out then None
               else case parseIPv4 s of None \<Rightarrow> None | Some v4 \<Rightarrow> Some (out @ v4, ellipsis))
         else (let out' = out @ [acc div 256, acc mod 256]
               in if rest = [] then Some (out', ellipsis)
                  else if hd rest \<noteq> colon \<or> tl rest = [] then None
                  else if hd (tl rest) = colon
                  then (if ellipsis \<noteq> None then None
                        else if tl (tl rest) = [] then Some (out', Some (length out'))
                        else parse_groups n (tl (tl rest)) out' (Some (length out')))
                  else parse_groups n (tl rest) out' ellipsis))"

definition expand_ellipsis :: "nat list \<Rightarrow> nat option \<Rightarrow> ip option" where
  "expand_ellipsis out ellipsis =
     (case ellipsis of
        None \<Rightarrow> if length out = 16 then Some out else None
      | Some k \<Rightarrow> if length out < 16 then Some (take k out @ replicate (16 - length out) 0 @ drop k out)
                  else None)"

definition parseIPv6 :: "string \<Rightarrow> ip option" where
  "parseIPv6 s =
     (if HasPrefix s [colon, colon]
      then (if s = [colon, colon] then Some (replicate 16 0)
            else case parse_groups 8 (drop 2 s) [] (Some 0) of
                   None \<Rightarrow> None | Some (out, e) \<Rightarrow> expand_ellipsis out e)
      else case parse_groups 8 s [] None of
             None \<Rightarrow> None | Some (out, e) \<Rightarrow> expand_ellipsis out e)"

text \<open>The first of a dot, a colon and a percent sign decides; an address with a zone is refused.\<close>

definition ParseIP :: "string \<Rightarrow> ip option" where
  "ParseIP s =
     (case filter (\<lambda>c. c = CHR ''.'' \<or> c = colon \<or> c = CHR ''%'') s of
        [] \<Rightarrow> None
      | c # _ \<Rightarrow>
          if c = CHR ''.'' then map_option (\<lambda>v4. v4_prefix @ v4) (parseIPv4 s)
          else if c = colon \<and> CHR ''%'' \<notin> set s then parseIPv6 s else None)"

text \<open>\<open>IP.String\<close> of an IPv4 address.\<close>

definition show_ip4 :: "nat list \<Rightarrow> string" where
  "show_ip4 v4 = Join (map show_nat v4) ''.''"

lemma SplitHostPort_join:
  assumes "CHR ''['' \<notin> set host" "CHR '']'' \<notin> set host" "CHR ''['' \<notin> set port" "CHR '']'' \<notin> set port"
    and "colon \<notin> set port"
  shows "SplitHostPort (JoinHostPort host port) = Some (host, port)"
proof (cases "colon \<in> set host")
  case True
  have "last_colon (JoinHostPort host port) = Some (CHR ''['' # host @ [CHR '']''], port)"
    using assms True by (simp add: JoinHostPort_def last_colon_def Let_def
        dropWhile_append takeWhile_append)
  with True assms show ?thesis
    by (simp add: SplitHostPort_def JoinHostPort_def)
next
  case False
  have "last_colon (JoinHostPort host port) = Some (host, port)"
    using assms False by (simp add: JoinHostPort_def last_colon_def Let_def
        dropWhile_append takeWhile_append)
  with False assms show ?thesis
    by (cases host) (auto simp: SplitHostPort_def JoinHostPort_def)
qed

lemma show_nat_hd: "1 < length (show_nat n) \<Longrightarrow> hd (show_nat n) \<noteq> CHR ''0''"
proof (induction n rule: show_nat.induct)
  case (1 n)
  show ?case
  proof (cases "n < 10")
    case True
    with 1(2) show ?thesis by (simp add: show_nat.simps[of n])
  next
    case big: False
    then have n: "show_nat n = show_nat (n div 10) @ [digit_char (n mod 10)]"
      by (simp add: show_nat.simps[of n])
    show ?thesis
    proof (cases "n div 10 < 10")
      case True
      moreover have "digit_char d \<noteq> CHR ''0''" if "0 < d" "d < 10" for d
        using that digit_val_digit_char[of d] by (auto simp: digit_val_def)
      ultimately show ?thesis using big n by (simp add: show_nat.simps[of "n div 10"])
    next
      case False
      then have "1 < length (show_nat (n div 10))" by (simp add: show_nat.simps[of "n div 10"])
      with 1(1)[OF big] n show ?thesis by simp
    qed
  qed
qed

lemma parse_octet_show_nat: "n \<le> 255 \<Longrightarrow> parse_octet (show_nat n) = Some n"
  using show_nat_hd[of n] show_nat_digits[of n] by (auto simp: parse_octet_def)

lemma show_nat_set: "c \<in> set (show_nat n) \<Longrightarrow> is_digit c"
  using show_nat_digits[of n] by (auto simp: list_all_iff)

lemma show_nat_no_dot: "CHR ''.'' \<notin> set (show_nat n)" "colon \<notin> set (show_nat n)"
    "CHR ''%'' \<notin> set (show_nat n)"
  using show_nat_set[of _ n] by (force simp: is_digit_def)+

lemma parse_octets_show: "\<forall>n \<in> set ns. n \<le> 255 \<Longrightarrow> parse_octets (map show_nat ns) = Some ns"
  by (induction ns) (simp_all add: parse_octet_show_nat)

text \<open>A dotted address is read back.\<close>

lemma ParseIP_show_ip4:
  assumes "length ns = 4" and "\<forall>n \<in> set ns. n \<le> 255"
  shows "ParseIP (show_ip4 ns) = Some (v4_prefix @ ns)"
proof -
  obtain a b c d where ns: "ns = [a, b, c, d]"
    using assms(1) by (auto simp: length_Suc_conv numeral_eq_Suc)
  have split: "Split (show_ip4 ns) (CHR ''.'') = map show_nat ns"
    unfolding show_ip4_def by (rule Split_Join) (auto simp: ns show_nat_no_dot)
  have "filter (\<lambda>c. c = CHR ''.'' \<or> c = colon \<or> c = CHR ''%'') (show_nat n) = []" for n
    using show_nat_no_dot[of n] by (auto simp: filter_empty_conv)
  then have "filter (\<lambda>c. c = CHR ''.'' \<or> c = colon \<or> c = CHR ''%'') (show_ip4 ns) = ''...''"
    by (simp add: show_ip4_def ns)
  moreover have "parseIPv4 (show_ip4 ns) = Some ns"
    unfolding parseIPv4_def Let_def split using assms(1) parse_octets_show[OF assms(2)] by simp
  ultimately show ?thesis by (simp add: ParseIP_def)
qed

end
