(* ===== verification/FtpText.thy ===== *)
theory FtpText
  imports GoNet GoTime Storage
begin

text \<open>
  The functions of \<open>internal/ftpserver/server.go\<close> that compute on text and addresses: command lines,
  list arguments, listings, port specifications, read errors and the comparison of peers.
\<close>

subsection \<open>Command lines and listings\<close>

definition splitCommand :: "string \<Rightarrow> string \<times> string" where
  "splitCommand line =
     (case Cut line (CHR '' '') of (head, tail, ok) \<Rightarrow>
        if \<not> ok then (line, []) else (head, TrimSpace tail))"

definition scrubListArg :: "string \<Rightarrow> string" where
  "scrubListArg arg =
     (case filter (\<lambda>field. \<not> HasPrefix field ''-'') (Fields arg) of
        [] \<Rightarrow> [] | field # _ \<Rightarrow> field)"

definition pad_left :: "nat \<Rightarrow> string \<Rightarrow> string" where
  "pad_left n s = replicate (n - length s) (CHR '' '') @ s"

text \<open>\<open>mod\<close> is the modification time in the server's time zone.\<close>

definition formatList :: "string \<Rightarrow> string \<Rightarrow> int \<Rightarrow> time \<Rightarrow> string" where
  "formatList name mode sz modt =
     (if HasPrefix mode ''d'' then ''d'' else ''-'') @ ''rw-r--r-- 1 owner group '' @
     pad_left 12 (Itoa sz) @ '' '' @ format_listing modt @ '' '' @ name"

definition mlsxFacts :: "Entry \<Rightarrow> string" where
  "mlsxFacts entry =
     ''type='' @ (if en_IsDir entry then ''dir'' else ''file'') @ '';size='' @ Itoa (en_Size entry) @
     '';modify='' @ format_compact (en_ModTime entry) @
     '';perm='' @ (if en_IsDir entry then ''el'' else ''r'') @ '';''"

definition isMonitorVirtual :: "string \<Rightarrow> bool" where
  "isMonitorVirtual virtual0 =
     (let virtual = slash # Trim (replace_char (CHR 0x5C) slash virtual0) [slash]
      in virtual = ''/_monitor'' \<or> HasPrefix virtual ''/_monitor/'')"

text \<open>\<open>string(b)\<close> of a byte is the UTF-8 encoding of the rune of that number, and \<open>strings.Split\<close> cuts
  at a separator of any length.\<close>

definition rune_string :: "char \<Rightarrow> string" where
  "rune_string b =
     (let n = of_char b :: nat
      in if n < 128 then [b] else [char_of (192 + n div 64), char_of (128 + n mod 64)])"

function Split_on :: "string \<Rightarrow> string \<Rightarrow> string \<Rightarrow> string list" where
  "Split_on sep acc [] = [rev acc]"
| "Split_on sep acc (c # cs) =
     (if HasPrefix (c # cs) sep then rev acc # Split_on sep [] (drop (length sep - 1) cs)
      else Split_on sep (c # acc) cs)"
  by pat_completeness auto
termination by (relation "measure (\<lambda>(sep, acc, s). length s)") auto

subsection \<open>Passive ports\<close>

text \<open>
  One part of the specification: nothing, a range or a single port. The loop over a range counts an
  \<open>int\<close> up while it is not above the end, so with the largest \<open>int\<close> as the end it does not stop:
  \<open>None\<close>, for the part and for the whole.
\<close>

definition port_range :: "int \<Rightarrow> int \<Rightarrow> int list option" where
  "port_range start stop = (if stop = max_i64 then None else Some [start..stop])"

definition parse_part :: "string \<Rightarrow> (err + int list) option" where
  "parse_part part0 =
     (let part = TrimSpace part0
      in if part = [] then Some (Inr [])
         else if Contains part ''-''
         then (case Cut part (CHR ''-'') of (a, b, _) \<Rightarrow>
                (case (ParseInt (TrimSpace a), ParseInt (TrimSpace b)) of
                   (Some start, Some end_) \<Rightarrow>
                     if start > end_ then Some (Inl (ErrMsg (''bad passive port range '' @ part)))
                     else map_option Inr (port_range start end_)
                 | _ \<Rightarrow> Some (Inl (ErrMsg ''atoi''))))
         else Some (case ParseInt part of None \<Rightarrow> Inl (ErrMsg ''atoi'') | Some port \<Rightarrow> Inr [port]))"

fun parse_parts :: "string list \<Rightarrow> (err + int list) option" where
  "parse_parts [] = Some (Inr [])"
| "parse_parts (part # parts) =
     (case parse_part part of
        Some (Inr ports) \<Rightarrow>
          (case parse_parts parts of Some (Inr rest) \<Rightarrow> Some (Inr (ports @ rest)) | stopped \<Rightarrow> stopped)
      | stopped \<Rightarrow> stopped)"

definition parsePorts :: "string \<Rightarrow> (err + int list) option" where
  "parsePorts spec0 =
     (let spec = TrimSpace spec0
      in if spec = [] then Some (Inr []) else parse_parts (Split spec (CHR '','')))"

subsection \<open>Peers\<close>

definition remoteHost :: "addr option \<Rightarrow> string" where
  "remoteHost a =
     (case a of
        None \<Rightarrow> ''unknown''
      | Some a \<Rightarrow> (case SplitHostPort (ad_String a) of None \<Rightarrow> ad_String a | Some (host, _) \<Rightarrow> host))"

definition listenIsLoopback :: "addr \<Rightarrow> bool" where
  "listenIsLoopback a = (case ad_TCP_IP a of None \<Rightarrow> False | Some ip \<Rightarrow> IsLoopback ip)"

text \<open>\<open>lookup\<close> is \<open>net.LookupIP\<close>: no address stands for the error.\<close>

definition sameHost :: "(string \<Rightarrow> ip list) \<Rightarrow> addr \<Rightarrow> string \<Rightarrow> bool" where
  "sameHost lookup remote host =
     (case ad_TCP_IP remote of
        None \<Rightarrow> False
      | Some tcp \<Rightarrow>
          (case ParseIP host of
             Some ip \<Rightarrow> tcp = ip
           | None \<Rightarrow> (case lookup host of [] \<Rightarrow> False | ip # _ \<Rightarrow> tcp = ip)))"

definition passivePeerAllowed :: "(string \<Rightarrow> ip list) \<Rightarrow> addr \<Rightarrow> addr \<Rightarrow> bool \<Rightarrow> bool" where
  "passivePeerAllowed lookup control data allowFXP \<longleftrightarrow>
     allowFXP \<or> sameHost lookup control (remoteHost (Some data))"

definition monitorClientAllowed :: "addr option \<Rightarrow> string \<Rightarrow> bool" where
  "monitorClientAllowed remote name =
     (if \<not> EqualFold (TrimSpace name) ''macftpd-monitor'' then False
      else case remote of
        None \<Rightarrow> False
      | Some a \<Rightarrow>
          (case ad_TCP_IP a of
             Some ip \<Rightarrow> IsLoopback ip
           | None \<Rightarrow>
               (case ParseIP (Trim (remoteHost (Some a)) ''[]'') of
                  None \<Rightarrow> False | Some ip \<Rightarrow> IsLoopback ip)))"

subsection \<open>Read errors\<close>

text \<open>An error of the control connection: its text and what \<open>errors.Is\<close> finds in it.\<close>

record read_error =
  rd_Text :: string
  rd_IsClosed :: bool
  rd_IsDeadline :: bool

definition classifyReadError :: "read_error option \<Rightarrow> string \<times> bool" where
  "classifyReadError e =
     (case e of
        None \<Rightarrow> ([], True)
      | Some e \<Rightarrow>
          (let text = ToLower (rd_Text e)
           in if rd_IsClosed e \<or> Contains text ''use of closed network connection''
              then (''closed_connection'', True)
              else if Contains text ''connection reset by peer'' then (''connection_reset'', True)
              else if rd_IsDeadline e \<or> Contains text ''i/o timeout'' then (''timeout'', True)
              else ([], False)))"

record readNoiseEvent =
  rn_count :: int
  rn_last :: time
  rn_nextLog :: time

datatype read_log =
    LogError string string
  | LogFirst string string
  | LogSuppressed string string int

abbreviation readNoiseReportInterval :: duration where
  "readNoiseReportInterval \<equiv> 10 * minute"

text \<open>The line that is logged, if one is, and the table of noisy remotes.\<close>

definition logReadError ::
  "time \<Rightarrow> addr \<Rightarrow> read_error option \<Rightarrow> (string \<times> readNoiseEvent) list
     \<Rightarrow> read_log option \<times> (string \<times> readNoiseEvent) list" where
  "logReadError now a e noise =
     (case classifyReadError e of (kind, noisy) \<Rightarrow>
        if \<not> noisy
        then (Some (LogError (ad_String a) (case e of None \<Rightarrow> [] | Some e \<Rightarrow> rd_Text e)), noise)
        else
          (let remote = remoteHost (Some a);
               key = remote @ [CHR 0x09] @ kind;
               ev0 = (case map_of noise key of
                        Some ev \<Rightarrow> ev | None \<Rightarrow> \<lparr>rn_count = 0, rn_last = 0, rn_nextLog = 0\<rparr>);
               ev1 = ev0\<lparr>rn_count := rn_count ev0 + 1, rn_last := now\<rparr>;
               ev = (if is_zero_time (rn_nextLog ev1)
                     then ev1\<lparr>rn_nextLog := now + readNoiseReportInterval\<rparr> else ev1);
               noise1 = (if length noise > 1000
                         then filter (\<lambda>(_, v). \<not> time_sub now (rn_last v) > hour) noise else noise)
           in if rn_count ev = 1
              then (Some (LogFirst remote kind), AList.update key ev noise1)
              else if \<not> time_before now (rn_nextLog ev)
              then (Some (LogSuppressed remote kind (rn_count ev - 1)),
                    AList.update key (ev\<lparr>rn_count := 1, rn_nextLog := now + readNoiseReportInterval\<rparr>) noise1)
              else (None, AList.update key ev noise1)))"

end
