(* ===== verification/Effects.thy ===== *)
theory Effects
  imports Prelude "HOL-Library.State_Monad"
begin

text \<open>
  Handlers of the servers are computations in the state monad over a context: reading and changing
  the context, and what is said of every run of a handler. A relation between the contexts before
  and after a handler that is reflexive and transitive holds of a handler when it holds of its
  steps; the locale \<open>transition\<close> has the rules that follow the structure of a handler.
\<close>

abbreviation ret :: "'a \<Rightarrow> ('c, 'a) state" where
  "ret \<equiv> State_Monad.return"

definition ask :: "('c \<Rightarrow> 'a) \<Rightarrow> ('c, 'a) state" where
  "ask f = State (\<lambda>c. (f c, c))"

definition tell :: "('c \<Rightarrow> 'c) \<Rightarrow> ('c, unit) state" where
  "tell f = State (\<lambda>c. ((), f c))"

definition within :: "('c \<Rightarrow> 'c \<Rightarrow> bool) \<Rightarrow> ('c, 'a) state \<Rightarrow> bool" where
  "within R m \<longleftrightarrow> (\<forall>c. R c (snd (run_state m c)))"

lemma withinD: "within R m \<Longrightarrow> run_state m c = (x, c') \<Longrightarrow> R c c'"
  by (metis within_def snd_conv)

lemma run_ask [simp]: "run_state (ask f) c = (f c, c)"
  by (simp add: ask_def)

lemma run_tell [simp]: "run_state (tell f) c = ((), f c)"
  by (simp add: tell_def)

locale transition =
  fixes R :: "'c \<Rightarrow> 'c \<Rightarrow> bool"
  assumes refl: "R c c" and trans: "R c d \<Longrightarrow> R d e \<Longrightarrow> R c e"
begin

lemma ret: "within R (ret x)"
  by (simp add: within_def refl)

lemma asking: "within R (ask f)"
  by (simp add: within_def refl)

lemma bind:
  assumes "within R m" and "\<And>x. within R (f x)"
  shows "within R (m \<bind> f)"
  unfolding within_def
proof
  fix c
  obtain x d where run: "run_state m c = (x, d)" by fastforce
  then have "R c d" using assms(1) by (rule withinD[rotated])
  moreover have "R d (snd (run_state (f x) d))" using assms(2) by (simp add: within_def)
  ultimately show "R c (snd (run_state (m \<bind> f) c))" using run trans by simp
qed

text \<open>The same with what is known of the first result.\<close>

lemma bind_result:
  assumes "within R m" and "\<And>c x c'. run_state m c = (x, c') \<Longrightarrow> within R (f x)"
  shows "within R (m \<bind> f)"
  unfolding within_def
proof
  fix c
  obtain x c' where run: "run_state m c = (x, c')" by fastforce
  then have "R c c'" using assms(1) by (rule withinD[rotated])
  moreover have "R c' (snd (run_state (f x) c'))" using assms(2)[OF run] by (simp add: within_def)
  ultimately show "R c (snd (run_state (m \<bind> f) c))" using run trans by simp
qed

lemma conditional: "(b \<Longrightarrow> within R m) \<Longrightarrow> (\<not> b \<Longrightarrow> within R m') \<Longrightarrow> within R (if b then m else m')"
  by simp

lemma case_of_sum:
  "(\<And>e. r = Inl e \<Longrightarrow> within R (f e)) \<Longrightarrow> (\<And>x. r = Inr x \<Longrightarrow> within R (g x)) \<Longrightarrow>
    within R (case_sum f g r)"
  by (cases r) auto

lemma case_of_option:
  "(r = None \<Longrightarrow> within R f) \<Longrightarrow> (\<And>x. r = Some x \<Longrightarrow> within R (g x)) \<Longrightarrow> within R (case_option f g r)"
  by (cases r) auto

lemma case_of_pair: "(\<And>a b. r = (a, b) \<Longrightarrow> within R (f a b)) \<Longrightarrow> within R (case_prod f r)"
  by (cases r) auto

lemma letting: "within R (f x) \<Longrightarrow> within R (Let x f)"
  by simp

lemmas core = ret asking bind conditional case_of_sum case_of_option case_of_pair letting

end

text \<open>
  \<open>ensures P m Q\<close>: started where \<open>P\<close> holds, the handler ends where \<open>Q\<close> holds of its result. What its
  steps keep true comes from a relation of the kind above.
\<close>

definition ensures :: "('c \<Rightarrow> bool) \<Rightarrow> ('c, 'a) state \<Rightarrow> ('a \<Rightarrow> 'c \<Rightarrow> bool) \<Rightarrow> bool" where
  "ensures P m Q \<longleftrightarrow> (\<forall>c. P c \<longrightarrow> Q (fst (run_state m c)) (snd (run_state m c)))"

lemma ensuresD: "ensures P m Q \<Longrightarrow> P c \<Longrightarrow> run_state m c = (x, d) \<Longrightarrow> Q x d"
  by (metis ensures_def fst_conv snd_conv)

lemma ensuresI: "(\<And>c x d. P c \<Longrightarrow> run_state m c = (x, d) \<Longrightarrow> Q x d) \<Longrightarrow> ensures P m Q"
  by (simp add: ensures_def)

lemma ensures_bind:
  assumes "ensures P m Q" and "\<And>x. ensures (Q x) (f x) R"
  shows "ensures P (m \<bind> f) R"
proof (rule ensuresI)
  fix c y d
  assume p: "P c" and run: "run_state (m \<bind> f) c = (y, d)"
  obtain x e where m: "run_state m c = (x, e)" by (rule prod.exhaust)
  then have "Q x e" using ensuresD[OF assms(1) p] by blast
  moreover have "run_state (f x) e = (y, d)" using run m by simp
  ultimately show "R y d" using ensuresD[OF assms(2)] by blast
qed

lemma ensures_weaken:
  "ensures P m Q \<Longrightarrow> (\<And>c. P' c \<Longrightarrow> P c) \<Longrightarrow> (\<And>x c. Q x c \<Longrightarrow> Q' x c) \<Longrightarrow> ensures P' m Q'"
  by (simp add: ensures_def)

lemma ensures_ret: "(\<And>c. P c \<Longrightarrow> Q x c) \<Longrightarrow> ensures P (ret x) Q"
  by (simp add: ensures_def)

lemma ensures_ask: "(\<And>c. P c \<Longrightarrow> Q (f c) c) \<Longrightarrow> ensures P (ask f) Q"
  by (simp add: ensures_def)

lemma ensures_if:
  "(b \<Longrightarrow> ensures P m Q) \<Longrightarrow> (\<not> b \<Longrightarrow> ensures P m' Q) \<Longrightarrow> ensures P (if b then m else m') Q"
  by simp

lemma ensures_sum:
  "(\<And>e. r = Inl e \<Longrightarrow> ensures P (f e) Q) \<Longrightarrow> (\<And>x. r = Inr x \<Longrightarrow> ensures P (g x) Q) \<Longrightarrow>
     ensures P (case_sum f g r) Q"
  by (cases r) auto

lemma ensures_option:
  "(r = None \<Longrightarrow> ensures P f Q) \<Longrightarrow> (\<And>x. r = Some x \<Longrightarrow> ensures P (g x) Q) \<Longrightarrow>
     ensures P (case_option f g r) Q"
  by (cases r) auto

lemma ensures_pair: "(\<And>a b. r = (a, b) \<Longrightarrow> ensures P (f a b) Q) \<Longrightarrow> ensures P (case_prod f r) Q"
  by (cases r) auto

lemma ensures_false: "(\<And>c. \<not> P c) \<Longrightarrow> ensures P m Q"
  by (simp add: ensures_def)

lemma ensures_known: "(A \<Longrightarrow> ensures P m Q) \<Longrightarrow> (\<And>c. P' c \<Longrightarrow> P c \<and> A) \<Longrightarrow> ensures P' m Q"
  unfolding ensures_def by blast

lemma ensures_within:
  "within R m \<Longrightarrow> (\<And>c d. R c d \<Longrightarrow> P c \<Longrightarrow> P d) \<Longrightarrow> ensures P m (\<lambda>_. P)"
  unfolding within_def ensures_def by blast

end
