(* ===== verification/OpenFiles.thy ===== *)
theory OpenFiles
  imports Storage
begin

text \<open>
  What both servers do with files that stay open: calls by descriptor, and the staged file an upload
  is written to before it takes its name.
\<close>

text \<open>Calls on an open file: they go by the descriptor, so nothing is opened again.\<close>

definition on_fd :: "Root \<Rightarrow> string \<Rightarrow> (path \<Rightarrow> 'a io) \<Rightarrow> 'a io" where
  "on_fd r realPath op =
     bindE (liftE (relFromReal r realPath)) (\<lambda>rel. op (os_path (r_Base r) @ rel_path rel))"

text \<open>Asking for its metadata, seeking and closing change nothing on the disk.\<close>

definition op_fd :: "path \<Rightarrow> unit io" where
  "op_fd p = syscall (atomic (\<lambda>fs t. (Inr (), fs)))"

definition op_truncate :: "nat \<Rightarrow> path \<Rightarrow> unit io" where
  "op_truncate n p = syscall (atomic (\<lambda>fs t.
     case node_at fs p of
       Some (File c m t') \<Rightarrow>
         (Inr (), put_node p (File (take n c @ replicate (n - length c) (CHR 0x00)) m t) fs)
     | _ \<Rightarrow> (Inl ErrInvalid, fs)))"

abbreviation mode_700 :: nat where "mode_700 \<equiv> 448"
abbreviation mode_640 :: nat where "mode_640 \<equiv> 416"

text \<open>Ten names are tried, each with the reading of the clock.\<close>

fun stage_attempts :: "Root \<Rightarrow> string \<Rightarrow> string \<Rightarrow> nat \<Rightarrow> nat \<Rightarrow> string io" where
  "stage_attempts r pre dir k 0 = throwE (ErrMsg ''cannot allocate staged upload'')"
| "stage_attempts r pre dir k (Suc n) =
     bindE timeNow (\<lambda>t.
       let stagedPath = Join_paths [dir, pre @ ''-'' @ Itoa (UnixNano t) @ ''-'' @ Itoa (int k) @ ''.part'']
       in bindE (attempt (OpenFile r stagedPath \<lparr>o_create = True, o_trunc = False, o_excl = True\<rparr> mode_600))
            (\<lambda>opened. case opened of
               Inr _ \<Rightarrow> returnE stagedPath
             | Inl e \<Rightarrow> if e \<noteq> ErrExist then throwE e else stage_attempts r pre dir (Suc k) n))"

definition staged_upload :: "string \<Rightarrow> Root \<Rightarrow> string io" where
  "staged_upload pre r =
     (let dir = Join_paths [r_Base r, ''._macftpd_uploads'']
      in bindE (MkdirAll r dir mode_700) (\<lambda>_. stage_attempts r pre dir 0 10))"

end
