(* ===== verification/FtpSession.thy ===== *)
theory FtpSession
  imports Config FtpText RateLimit StatusTracker ActivityLog Effects OpenFiles
begin

text \<open>
  One control connection of \<open>internal/ftpserver/server.go\<close>: the session, the server it runs in, and
  every command. A handler is a computation in the state monad over a record \<open>ctx\<close> of the session,
  the server's stores and the disk, written in the order of the code; it appends its replies and
  what it puts on a data connection.

  The network answers are the record \<open>net\<close>, one for each command: which ports can be listened on,
  who connects to a passive port, what is received, whether a TLS handshake succeeds, what the
  gateway says. So a statement for every \<open>net\<close> is one for everything a peer can do. A panic of the
  goroutine, which ends the process, sets \<open>cx_crashed\<close>.
\<close>

datatype reply = Reply int string | Multi int "string list" string

definition crlf :: string where
  "crlf = [CHR 0x0D, CHR 0x0A]"

text \<open>The bytes \<open>reply\<close> and \<open>multiline\<close> write.\<close>

fun wire :: "reply \<Rightarrow> string" where
  "wire (Reply code msg) = Itoa code @ '' '' @ msg @ crlf"
| "wire (Multi code lines finish) =
     Itoa code @ ''-'' @ finish @ crlf @ concat (map (\<lambda>l. '' '' @ l @ crlf) lines) @
     Itoa code @ '' '' @ finish @ crlf"

fun reply_code :: "reply \<Rightarrow> int" where
  "reply_code (Reply code _) = code"
| "reply_code (Multi code _ _) = code"

subsection \<open>State\<close>

record session =
  ss_username :: string
  ss_user :: User
  ss_perms :: PermissionSet
  ss_authenticated :: bool
  ss_cwd :: string
  ss_typ :: string
  ss_passive :: bool
  ss_passivePort :: int
  ss_activeAddr :: string
  ss_renameFrom :: string
  ss_restartOffset :: int
  ss_restartSet :: bool
  ss_secure :: bool
  ss_protPrivate :: bool
  ss_monitor :: bool
  ss_statusID :: int
  ss_remote :: addr
  ss_open :: bool

record server =
  sv_cfg :: FTPConfig
  sv_auth :: AuthStore
  sv_root :: Root
  sv_ports :: "int list"
  sv_nextPort :: nat
  sv_listener :: "addr option"
  sv_externalIP :: string
  sv_natGateway :: string
  sv_upnp :: bool
  sv_limiter :: Limiter
  sv_activity :: "Store option"
  sv_tracker :: "Tracker option"
  sv_tls :: bool
  sv_publicHook :: bool
  sv_purged :: "string list"
  sv_readNoise :: "(string \<times> readNoiseEvent) list"
  sv_monitorLast :: time
  sv_kdf :: kdf
  sv_codec :: codec
  sv_clone :: bool

text \<open>
  A data connection: who is at the other end, what it sends and whether the stream then breaks,
  how many bytes it takes before it breaks (\<open>None\<close>: all), and whether TLS on it succeeds.
\<close>

record data_conn =
  dc_remote :: addr
  dc_received :: string
  dc_read_err :: "err option"
  dc_accepts :: "nat option"
  dc_handshake :: bool

text \<open>
  The answers of the gateway to the clients of \<open>internal/natpmp\<close> and \<open>internal/upnpigd\<close>.
\<close>

record gateway =
  gw_discover :: "err + string"
  gw_pmp_public :: "string option"
  gw_pmp_map :: "int \<Rightarrow> err + int"
  gw_pmp_delete :: "int \<Rightarrow> err option"
  gw_upnp_discover :: "err option"
  gw_upnp_public :: "string option"
  gw_upnp_map :: "int \<Rightarrow> err option"
  gw_upnp_delete :: "int \<Rightarrow> err option"

record net =
  nt_listen :: "int \<Rightarrow> int option"
  nt_accept :: "data_conn list"
  nt_dial :: "string \<Rightarrow> data_conn option"
  nt_handshake :: bool
  nt_gateway :: gateway
  nt_lookup :: "string \<Rightarrow> ip list"
  nt_localIP :: "string option"
  nt_logged :: bool
  nt_zone :: "time \<Rightarrow> time"
  nt_error_text :: "err \<Rightarrow> string"

record ctx =
  cx_ss :: session
  cx_sv :: server
  cx_disk :: world
  cx_net :: net
  cx_replies :: "reply list"
  cx_sent :: string
  cx_crashed :: bool

text \<open>How many bytes of a text a data connection takes, and the error when not all.\<close>

definition accepted :: "data_conn \<Rightarrow> string \<Rightarrow> int \<times> err option" where
  "accepted d s =
     (case dc_accepts d of
        None \<Rightarrow> (int (length s), None)
      | Some k \<Rightarrow> if length s \<le> k then (int (length s), None) else (int k, Some (ErrMsg ''write'')))"

type_synonym 'a ftp = "(ctx, 'a) state"

definition session :: "(session \<Rightarrow> 'a) \<Rightarrow> 'a ftp" where
  "session f = ask (\<lambda>c. f (cx_ss c))"

definition server :: "(server \<Rightarrow> 'a) \<Rightarrow> 'a ftp" where
  "server f = ask (\<lambda>c. f (cx_sv c))"

definition net :: "(net \<Rightarrow> 'a) \<Rightarrow> 'a ftp" where
  "net f = ask (\<lambda>c. f (cx_net c))"

definition set_session :: "(session \<Rightarrow> session) \<Rightarrow> unit ftp" where
  "set_session f = tell (\<lambda>c. c\<lparr>cx_ss := f (cx_ss c)\<rparr>)"

definition set_server :: "(server \<Rightarrow> server) \<Rightarrow> unit ftp" where
  "set_server f = tell (\<lambda>c. c\<lparr>cx_sv := f (cx_sv c)\<rparr>)"

definition disk :: "(Root \<Rightarrow> 'a io) \<Rightarrow> (err + 'a) ftp" where
  "disk op = State (\<lambda>c. case op (sv_root (cx_sv c)) (cx_disk c) of (r, w) \<Rightarrow> (r, c\<lparr>cx_disk := w\<rparr>))"

definition now :: "time ftp" where
  "now = State (\<lambda>c. (w_clock (cx_disk c) (w_ticks (cx_disk c)),
     c\<lparr>cx_disk := (cx_disk c)\<lparr>w_ticks := Suc (w_ticks (cx_disk c))\<rparr>\<rparr>))"

definition reply :: "int \<Rightarrow> string \<Rightarrow> unit ftp" where
  "reply code msg = tell (\<lambda>c. c\<lparr>cx_replies := cx_replies c @ [Reply code msg]\<rparr>)"

definition multiline :: "int \<Rightarrow> string list \<Rightarrow> string \<Rightarrow> unit ftp" where
  "multiline code lines finish =
     tell (\<lambda>c. c\<lparr>cx_replies := cx_replies c @ [Multi code lines finish]\<rparr>)"

definition send :: "data_conn \<Rightarrow> string \<Rightarrow> (int \<times> err option) ftp" where
  "send d s = State (\<lambda>c. (accepted d s,
     c\<lparr>cx_sent := cx_sent c @ take (nat (fst (accepted d s))) s\<rparr>))"

subsection \<open>Status, activity and the cache hook\<close>

definition updateStatus :: "(Session \<Rightarrow> Session) \<Rightarrow> unit ftp" where
  "updateStatus mutate = do {
     tracker \<leftarrow> server sv_tracker;
     statusID \<leftarrow> session ss_statusID;
     case tracker of
       None \<Rightarrow> ret ()
     | Some t \<Rightarrow>
         if statusID = 0 then ret ()
         else do {
           t0 \<leftarrow> now;
           set_server (\<lambda>s. s\<lparr>sv_tracker := Some (Tracker_Update t0 statusID mutate t)\<rparr>)
         }
   }"

definition monitorSuccessDue :: "bool ftp" where
  "monitorSuccessDue = do {
     t \<leftarrow> now;
     lastSuccess \<leftarrow> server sv_monitorLast;
     if \<not> is_zero_time lastSuccess \<and> time_sub t lastSuccess < hour then ret False
     else do { set_server (\<lambda>s. s\<lparr>sv_monitorLast := t\<rparr>); ret True }
   }"

definition add_activity ::
  "string \<Rightarrow> string \<Rightarrow> string \<Rightarrow> string \<Rightarrow> int \<Rightarrow> string \<Rightarrow> unit ftp" where
  "add_activity action outcome pathValue destPath bytes detail = do {
     ss \<leftarrow> session (\<lambda>s. s);
     t \<leftarrow> now;
     logged \<leftarrow> net nt_logged;
     let actor0 = (if u_Username (ss_user ss) \<noteq> [] then u_Username (ss_user ss) else ss_username ss);
     let event = \<lparr>e_ID = 0, e_Time = 0, e_Type = ''ftp_'' @ action, e_Protocol = ''ftp'',
           e_Actor = (if actor0 = [] then ''anonymous'' else actor0),
           e_Remote = ad_String (ss_remote ss), e_Referrer = [], e_Action = action,
           e_Outcome = outcome, e_Path = pathValue, e_DestPath = destPath, e_Bytes = bytes,
           e_Detail = detail, e_Message = []\<rparr>;
     set_server (\<lambda>s. s\<lparr>sv_activity := snd (Add_event t logged event (sv_activity s))\<rparr>)
   }"

definition logActivity ::
  "string \<Rightarrow> string \<Rightarrow> string \<Rightarrow> string \<Rightarrow> int \<Rightarrow> string \<Rightarrow> unit ftp" where
  "logActivity action outcome pathValue destPath bytes detail = do {
     monitor \<leftarrow> session ss_monitor;
     if monitor \<and> outcome = ''ok''
     then (if action \<noteq> ''delete'' then ret ()
           else do {
             due \<leftarrow> monitorSuccessDue;
             if \<not> due then ret ()
             else add_activity action outcome pathValue destPath bytes ''FTP monitor cycle completed''
           })
     else add_activity action outcome pathValue destPath bytes detail
   }"

definition run_hook :: "string \<Rightarrow> unit ftp" where
  "run_hook virtual = set_server (\<lambda>s. s\<lparr>sv_purged := sv_purged s @ [virtual]\<rparr>)"

definition notifyPublicMutation :: "string \<Rightarrow> string \<Rightarrow> unit ftp" where
  "notifyPublicMutation realPath virtual = do {
     sv \<leftarrow> server (\<lambda>s. s);
     if sv_publicHook sv \<and> IsPublicReal (sv_root sv) realPath then run_hook virtual else ret ()
   }"

definition run_hook_if :: "bool \<Rightarrow> string \<Rightarrow> unit ftp" where
  "run_hook_if changed virtual = do {
     hook \<leftarrow> server sv_publicHook;
     if changed \<and> hook then run_hook virtual else ret ()
   }"

subsection \<open>Port mapping at the gateway\<close>

definition isLoopbackListener :: "bool ftp" where
  "isLoopbackListener = do {
     l \<leftarrow> server sv_listener;
     ret (case l of None \<Rightarrow> True | Some a \<Rightarrow> listenIsLoopback a)
   }"

definition setMappedExternalIP :: "string \<Rightarrow> unit ftp" where
  "setMappedExternalIP ip = set_server (\<lambda>s. s\<lparr>sv_externalIP := ip\<rparr>)"

definition natGatewayAddress :: "(err + string) ftp" where
  "natGatewayAddress = do {
     sv \<leftarrow> server (\<lambda>s. s);
     if fc_NATGateway (sv_cfg sv) \<noteq> [] then ret (Inr (fc_NATGateway (sv_cfg sv)))
     else if sv_natGateway sv \<noteq> [] then ret (Inr (sv_natGateway sv))
     else do {
       g \<leftarrow> net nt_gateway;
       case gw_discover g of
         Inl e \<Rightarrow> ret (Inl e)
       | Inr gateway \<Rightarrow> do {
           set_server (\<lambda>s. s\<lparr>sv_natGateway := gateway\<rparr>);
           ret (Inr gateway)
         }
     }
   }"

definition learn_external_ip :: "string option \<Rightarrow> unit ftp" where
  "learn_external_ip answer = do {
     ip \<leftarrow> server sv_externalIP;
     if ip = [] then (case answer of Some found \<Rightarrow> setMappedExternalIP found | None \<Rightarrow> ret ()) else ret ()
   }"

text \<open>The client of the UPnP gateway: kept once found, dropped after a failed call.\<close>

definition upnp :: "(err + unit) ftp" where
  "upnp = do {
     client \<leftarrow> server sv_upnp;
     if client then ret (Inr ())
     else do {
       g \<leftarrow> net nt_gateway;
       case gw_upnp_discover g of
         Some e \<Rightarrow> ret (Inl e)
       | None \<Rightarrow> do { set_server (\<lambda>s. s\<lparr>sv_upnp := True\<rparr>); ret (Inr ()) }
     }
   }"

definition clearUPnP :: "unit ftp" where
  "clearUPnP = set_server (\<lambda>s. s\<lparr>sv_upnp := False\<rparr>)"

definition mapUPnPTCP :: "int \<Rightarrow> (err option) ftp" where
  "mapUPnPTCP port = do {
     client \<leftarrow> upnp;
     case client of
       Inl e \<Rightarrow> ret (Some e)
     | Inr _ \<Rightarrow> do {
         g \<leftarrow> net nt_gateway;
         learn_external_ip (gw_upnp_public g);
         (if gw_upnp_map g port \<noteq> None then clearUPnP else ret ());
         ret (gw_upnp_map g port)
       }
   }"

definition deleteUPnPTCP :: "int \<Rightarrow> (err option) ftp" where
  "deleteUPnPTCP port = do {
     client \<leftarrow> upnp;
     case client of
       Inl e \<Rightarrow> ret (Some e)
     | Inr _ \<Rightarrow> do {
         g \<leftarrow> net nt_gateway;
         (if gw_upnp_delete g port \<noteq> None then clearUPnP else ret ());
         ret (gw_upnp_delete g port)
       }
   }"

text \<open>The errors collected on the way, joined when no mapping succeeded.\<close>

definition join_errors :: "bool \<Rightarrow> err list \<Rightarrow> err option" where
  "join_errors succeeded errs =
     (if succeeded \<or> errs = [] then None else Some (foldr ErrJoin (butlast errs) (last errs)))"

definition mapPassivePort :: "int \<Rightarrow> (err option) ftp" where
  "mapPassivePort port = do {
     sv \<leftarrow> server (\<lambda>s. s);
     loopback \<leftarrow> isLoopbackListener;
     if \<not> fc_AutoMap (sv_cfg sv) \<or> loopback then ret None
     else do {
       g \<leftarrow> net nt_gateway;
       gateway \<leftarrow> natGatewayAddress;
       pmp \<leftarrow> (case gateway of
         Inl e \<Rightarrow> ret (Some e)
       | Inr _ \<Rightarrow> do {
           learn_external_ip (gw_pmp_public g);
           ret (case gw_pmp_map g port of
                  Inl e \<Rightarrow> Some e
                | Inr external \<Rightarrow> if external \<noteq> port then Some (ErrMsg ''natpmp external port'') else None)
         });
       upn \<leftarrow> mapUPnPTCP port;
       ret (join_errors (pmp = None \<or> upn = None) (map the (filter (\<lambda>e. e \<noteq> None) [pmp, upn])))
     }
   }"

definition unmapPassivePort :: "int \<Rightarrow> (err option) ftp" where
  "unmapPassivePort port = do {
     sv \<leftarrow> server (\<lambda>s. s);
     loopback \<leftarrow> isLoopbackListener;
     if port \<le> 0 \<or> \<not> fc_AutoMap (sv_cfg sv) \<or> loopback then ret None
     else do {
       g \<leftarrow> net nt_gateway;
       gateway \<leftarrow> natGatewayAddress;
       let pmp = (case gateway of Inl e \<Rightarrow> Some e | Inr _ \<Rightarrow> gw_pmp_delete g port);
       upn \<leftarrow> deleteUPnPTCP port;
       ret (join_errors (pmp = None \<or> upn = None) (map the (filter (\<lambda>e. e \<noteq> None) [pmp, upn])))
     }
   }"

subsection \<open>Passive and active data connections\<close>

definition releasePassivePort :: "int \<Rightarrow> unit ftp" where
  "releasePassivePort port = do { _ \<leftarrow> unmapPassivePort port; ret () }"

definition closePassive :: "unit ftp" where
  "closePassive = do {
     set_session (\<lambda>s. s\<lparr>ss_passive := False\<rparr>);
     port \<leftarrow> session ss_passivePort;
     if port > 0
     then do { set_session (\<lambda>s. s\<lparr>ss_passivePort := 0\<rparr>); releasePassivePort port }
     else ret ()
   }"

definition closeDataSetup :: "unit ftp" where
  "closeDataSetup = do { closePassive; set_session (\<lambda>s. s\<lparr>ss_activeAddr := []\<rparr>) }"

text \<open>The loop over the configured ports, from the one after the last that was handed out.\<close>

fun try_ports :: "(int \<Rightarrow> int option) \<Rightarrow> int list \<Rightarrow> nat \<Rightarrow> nat \<Rightarrow> nat \<Rightarrow> (nat \<times> int) option" where
  "try_ports listen ports nextPort i 0 = None"
| "try_ports listen ports nextPort i (Suc n) =
     (let idx = (nextPort + i) mod length ports; port = ports ! idx
      in if listen port \<noteq> None then Some (idx, port)
         else try_ports listen ports nextPort (Suc i) n)"

definition listenPassive :: "(err + int) ftp" where
  "listenPassive = do {
     sv \<leftarrow> server (\<lambda>s. s);
     listen \<leftarrow> net nt_listen;
     if sv_ports sv = [] then
       ret (case listen 0 of None \<Rightarrow> Inl (ErrMsg ''listen'') | Some port \<Rightarrow> Inr port)
     else (case try_ports listen (sv_ports sv) (sv_nextPort sv) 0 (length (sv_ports sv)) of
       None \<Rightarrow> ret (Inl (ErrMsg ''no free passive ports''))
     | Some (idx, port) \<Rightarrow> do {
         set_server (\<lambda>s. s\<lparr>sv_nextPort := Suc idx mod length (sv_ports sv)\<rparr>);
         ret (Inr port)
       })
   }"

text \<open>The address announced to the client.\<close>

definition passive_host :: "FTPConfig \<Rightarrow> string \<Rightarrow> string option \<Rightarrow> nat list" where
  "passive_host cfg mapped localIP =
     (let host0 = fc_ExternalIP cfg;
          host1 = (if host0 = [] \<or> EqualFold host0 ''auto'' then mapped else host0);
          host2 = (if host1 = [] then (case localIP of Some ip \<Rightarrow> ip | None \<Rightarrow> []) else host1);
          host = (if host2 = [] \<or> host2 = ''::'' then ''127.0.0.1'' else host2)
      in case ParseIP host of
           None \<Rightarrow> [127, 0, 0, 1]
         | Some ip \<Rightarrow> (case To4 ip of None \<Rightarrow> [127, 0, 0, 1] | Some v4 \<Rightarrow> v4))"

definition enterPassive :: "bool \<Rightarrow> unit ftp" where
  "enterPassive extended = do {
     closePassive;
     opened \<leftarrow> listenPassive;
     case opened of
       Inl _ \<Rightarrow> reply 421 ''No passive ports available''
     | Inr port \<Rightarrow> do {
         _ \<leftarrow> mapPassivePort port;
         set_session (\<lambda>s. s\<lparr>ss_passive := True, ss_passivePort := port, ss_activeAddr := []\<rparr>);
         if extended
         then reply 229 (''Entering Extended Passive Mode (|||'' @ Itoa port @ ''|)'')
         else do {
           sv \<leftarrow> server (\<lambda>s. s);
           localIP \<leftarrow> net nt_localIP;
           let ip = passive_host (sv_cfg sv) (sv_externalIP sv) localIP;
           reply 227 (''Entering Passive Mode ('' @
             Join (map (\<lambda>n. Itoa (int n)) ip @ [Itoa (port div 256), Itoa (port mod 256)]) '','' @ '')'')
         }
       }
   }"

fun parse_bytes :: "string list \<Rightarrow> int list option" where
  "parse_bytes [] = Some []"
| "parse_bytes (p # ps) =
     (case ParseInt (TrimSpace p) of
        None \<Rightarrow> None
      | Some n \<Rightarrow> if n < 0 \<or> n > 255 then None
                  else (case parse_bytes ps of None \<Rightarrow> None | Some ns \<Rightarrow> Some (n # ns)))"

definition enterActive :: "string \<Rightarrow> unit ftp" where
  "enterActive arg = do {
     cfg \<leftarrow> server sv_cfg;
     lookup \<leftarrow> net nt_lookup;
     remote \<leftarrow> session ss_remote;
     if \<not> fc_AllowActive cfg then reply 502 ''Active mode disabled''
     else
       let parts = Split arg (CHR '','') in
       if length parts \<noteq> 6 then reply 501 ''Bad PORT''
       else (case parse_bytes parts of
         None \<Rightarrow> reply 501 ''Bad PORT''
       | Some nums \<Rightarrow>
           let host = Join (map Itoa (take 4 nums)) ''.'';
               port = nums ! 4 * 256 + nums ! 5
           in if \<not> fc_AllowFXP cfg \<and> \<not> sameHost lookup remote host
              then reply 501 ''FXP active target denied''
              else do {
                closePassive;
                set_session (\<lambda>s. s\<lparr>ss_activeAddr := JoinHostPort host (Itoa port)\<rparr>);
                reply 200 ''PORT command successful''
              })
   }"

definition enterExtendedActive :: "string \<Rightarrow> unit ftp" where
  "enterExtendedActive arg = do {
     cfg \<leftarrow> server sv_cfg;
     lookup \<leftarrow> net nt_lookup;
     remote \<leftarrow> session ss_remote;
     if \<not> fc_AllowActive cfg then reply 502 ''Active mode disabled''
     else if length arg < 5 then reply 501 ''Bad EPRT''
     else
       let parts = Split_on (rune_string (hd arg)) [] (tl arg) in
       if length parts < 4 then reply 501 ''Bad EPRT''
       else
         let host = parts ! 1; port = parts ! 2 in
         if \<not> fc_AllowFXP cfg \<and> \<not> sameHost lookup remote host
         then reply 501 ''FXP active target denied''
         else do {
           closePassive;
           set_session (\<lambda>s. s\<lparr>ss_activeAddr := JoinHostPort host port\<rparr>);
           reply 200 ''EPRT command successful''
         }
   }"

text \<open>Accepting until a peer is allowed; when nobody else connects, the deadline ends the loop.\<close>

fun accept_loop :: "(addr \<Rightarrow> bool) \<Rightarrow> data_conn list \<Rightarrow> data_conn option" where
  "accept_loop allowed [] = None"
| "accept_loop allowed (d # ds) = (if \<not> allowed (dc_remote d) then accept_loop allowed ds else Some d)"

text \<open>The connection, and the passive port to give back when it is closed.\<close>

definition openData :: "(err + data_conn \<times> int) ftp" where
  "openData = do {
     ss \<leftarrow> session (\<lambda>s. s);
     cfg \<leftarrow> server sv_cfg;
     nt \<leftarrow> net (\<lambda>n. n);
     if ss_passive ss then do {
       let port = ss_passivePort ss;
       set_session (\<lambda>s. s\<lparr>ss_passive := False, ss_passivePort := 0\<rparr>);
       case accept_loop (\<lambda>peer. passivePeerAllowed (nt_lookup nt) (ss_remote ss) peer (fc_AllowFXP cfg))
              (nt_accept nt) of
         None \<Rightarrow> do {
           (if port > 0 then releasePassivePort port else ret ());
           ret (Inl (ErrMsg ''accept''))
         }
       | Some d \<Rightarrow> ret (Inr (d, port))
     }
     else if ss_activeAddr ss \<noteq> [] then do {
       set_session (\<lambda>s. s\<lparr>ss_activeAddr := []\<rparr>);
       ret (case nt_dial nt (ss_activeAddr ss) of None \<Rightarrow> Inl (ErrMsg ''dial'') | Some d \<Rightarrow> Inr (d, 0))
     }
     else ret (Inl (ErrMsg ''no data connection''))
   }"

definition closeData :: "data_conn \<times> int \<Rightarrow> unit ftp" where
  "closeData conn = (if snd conn > 0 then releasePassivePort (snd conn) else ret ())"

text \<open>
  When the handshake on the data connection fails, \<open>protectDataConn\<close> returns a nil connection,
  and \<open>conn.Close()\<close> on it panics before the 425 reply.
\<close>

definition beginDataTransfer :: "(data_conn \<times> int) option ftp" where
  "beginDataTransfer = do {
     opened \<leftarrow> openData;
     case opened of
       Inl _ \<Rightarrow> do { reply 425 ''Cannot open data connection''; ret None }
     | Inr conn \<Rightarrow> do {
         reply 150 ''Opening data connection'';
         ss \<leftarrow> session (\<lambda>s. s);
         tls \<leftarrow> server sv_tls;
         if \<not> ss_protPrivate ss \<or> \<not> tls then ret (Some conn)
         else if dc_handshake (fst conn) then ret (Some conn)
         else do { tell (\<lambda>c. c\<lparr>cx_crashed := True\<rparr>); ret None }
       }
   }"

subsection \<open>Login and permissions\<close>

definition loginLimitKey :: "string ftp" where
  "loginLimitKey = do {
     ss \<leftarrow> session (\<lambda>s. s);
     ret (remoteHost (Some (ss_remote ss)) @ ''|'' @ ToLower (TrimSpace (ss_username ss)))
   }"

definition requireAuth :: "bool ftp" where
  "requireAuth = do {
     ss \<leftarrow> session (\<lambda>s. s);
     if \<not> ss_authenticated ss then do { reply 530 ''Please login''; ret False }
     else do {
       auth \<leftarrow> server sv_auth;
       case Permissions_of auth (u_Username (ss_user ss)) of
         None \<Rightarrow> do {
           set_session (\<lambda>s. s\<lparr>ss_authenticated := False, ss_perms := no_permissions\<rparr>);
           reply 530 ''Account unavailable'';
           ret False
         }
       | Some (user, perms) \<Rightarrow> do {
           set_session (\<lambda>s. s\<lparr>ss_user := user\<lparr>u_Permissions := perms\<rparr>, ss_perms := perms\<rparr>);
           ret True
         }
     }
   }"

definition permits :: "PermissionSet \<Rightarrow> string \<Rightarrow> bool" where
  "permits perms name =
     (if name = ''list'' then p_List perms
      else if name = ''download'' then p_Download perms
      else if name = ''upload'' then p_Upload perms
      else if name = ''delete'' then p_Delete perms
      else if name = ''mkdir'' then p_Mkdir perms
      else if name = ''rename'' then p_Rename perms
      else False)"

definition requireAuthPerm :: "string \<Rightarrow> bool ftp" where
  "requireAuthPerm name = do {
     auth \<leftarrow> requireAuth;
     if \<not> auth then ret False
     else do {
       perms \<leftarrow> session ss_perms;
       if \<not> permits perms name
       then do { reply 550 (''Permission denied: '' @ name); ret False }
       else ret True
     }
   }"

definition limiter_step :: "(Limiter \<Rightarrow> 'a \<times> Limiter) \<Rightarrow> 'a ftp" where
  "limiter_step f = State (\<lambda>c. case f (sv_limiter (cx_sv c)) of
     (x, l) \<Rightarrow> (x, c\<lparr>cx_sv := (cx_sv c)\<lparr>sv_limiter := l\<rparr>\<rparr>))"

text \<open>What \<open>PASS\<close> does after the credentials were accepted.\<close>

definition accept_login :: "User \<Rightarrow> PermissionSet \<Rightarrow> unit ftp" where
  "accept_login user0 perms = do {
     let user = user0\<lparr>u_Permissions := perms\<rparr>;
     let cwd = (if u_Home user = [] then [slash] else u_Home user);
     set_session (\<lambda>s. s\<lparr>ss_user := user, ss_perms := perms, ss_authenticated := True, ss_cwd := cwd\<rparr>);
     (if cwd \<noteq> [slash] then do { _ \<leftarrow> disk (\<lambda>r. EnsureUserHome r user); ret () } else ret ());
     secure \<leftarrow> session ss_secure;
     updateStatus (\<lambda>st. st\<lparr>st_User := u_Username user, st_Action := ''idle'', st_Path := cwd,
       st_Secure := secure\<rparr>);
     logActivity ''login'' ''ok'' cwd [] 0 ''FTP login'';
     reply 230 ''Login successful''
   }"

text \<open>\<open>PASS\<close>: whether the connection is closed.\<close>

definition pass :: "string \<Rightarrow> bool ftp" where
  "pass arg = do {
     sv \<leftarrow> server (\<lambda>s. s);
     ss \<leftarrow> session (\<lambda>s. s);
     if fc_RequireTLS (sv_cfg sv) \<and> sv_tls sv \<and> \<not> ss_secure ss
     then do { reply 534 ''TLS required''; ret False }
     else do {
       limitKey \<leftarrow> loginLimitKey;
       t \<leftarrow> now;
       allowed \<leftarrow> limiter_step (Allow t limitKey);
       if \<not> allowed then do {
         logActivity ''login'' ''limited'' [] [] 0 ''too many failed FTP login attempts'';
         reply 421 ''Too many failed login attempts; try again later'';
         ret True
       }
       else (case Authenticate (sv_kdf sv) (sv_auth sv) (ss_username ss) arg of
         None \<Rightarrow> do {
           t1 \<leftarrow> now;
           limiter_step (\<lambda>l. ((), Fail t1 limitKey l));
           logActivity ''login'' ''failed'' [] [] 0 ''bad FTP credentials'';
           reply 530 ''Login incorrect'';
           ret False
         }
       | Some (user, perms) \<Rightarrow> do {
           limiter_step (\<lambda>l. ((), Reset limitKey l));
           accept_login user perms;
           ret False
         })
     }
   }"

definition authTLS :: "string \<Rightarrow> unit ftp" where
  "authTLS arg = do {
     tls \<leftarrow> server sv_tls;
     secure \<leftarrow> session ss_secure;
     let upper = ToUpper (TrimSpace arg);
     if \<not> tls then reply 502 ''TLS not configured''
     else if secure then reply 503 ''TLS already active''
     else if upper \<noteq> ''TLS'' \<and> upper \<noteq> ''SSL'' then reply 504 ''Use AUTH TLS''
     else do {
       reply 234 ''Starting TLS'';
       ok \<leftarrow> net nt_handshake;
       if \<not> ok then set_session (\<lambda>s. s\<lparr>ss_open := False\<rparr>)
       else do {
         set_session (\<lambda>s. s\<lparr>ss_secure := True, ss_protPrivate := True\<rparr>);
         updateStatus (\<lambda>st. st\<lparr>st_Secure := True\<rparr>)
       }
     }
   }"

definition prot :: "string \<Rightarrow> unit ftp" where
  "prot arg = do {
     secure \<leftarrow> session ss_secure;
     let level = ToUpper (TrimSpace arg);
     if \<not> secure then reply 503 ''Send AUTH TLS first''
     else if level = ''P'' then do {
       set_session (\<lambda>s. s\<lparr>ss_protPrivate := True\<rparr>);
       reply 200 ''Data channel protection set to private''
     }
     else if level = ''C'' then do {
       set_session (\<lambda>s. s\<lparr>ss_protPrivate := False\<rparr>);
       reply 200 ''Data channel protection set to clear''
     }
     else reply 536 ''Unsupported protection level''
   }"

subsection \<open>Directories and listings\<close>

text \<open>\<open>Resolve\<close> for the session's user, relative to its working directory.\<close>

definition resolve :: "string \<Rightarrow> (err + string \<times> string) ftp" where
  "resolve arg = do {
     ss \<leftarrow> session (\<lambda>s. s);
     root \<leftarrow> server sv_root;
     ret (Resolve root (ss_user ss) (ss_cwd ss) arg)
   }"

definition changeDir :: "string \<Rightarrow> unit ftp" where
  "changeDir arg = do {
     p \<leftarrow> resolve arg;
     case p of
       Inl _ \<Rightarrow> reply 550 ''Path unavailable''
     | Inr (realPath, virtual) \<Rightarrow> do {
         info \<leftarrow> disk (\<lambda>r. Stat r realPath);
         if (case info of Inl _ \<Rightarrow> True | Inr n \<Rightarrow> \<not> is_dir n) then reply 550 ''Not a directory''
         else do {
           set_session (\<lambda>s. s\<lparr>ss_cwd := virtual\<rparr>);
           updateStatus (\<lambda>st. st\<lparr>st_Path := virtual\<rparr>);
           reply 250 ''Directory changed''
         }
       }
   }"

text \<open>\<open>info.Name()\<close> is the last element of the path that was opened.\<close>

definition info_name :: "Root \<Rightarrow> string \<Rightarrow> string" where
  "info_name r realPath =
     (case relFromReal r realPath of Inl _ \<Rightarrow> [] | Inr rel \<Rightarrow> Base_name rel)"

text \<open>
  \<open>list\<close> and \<open>mlsd\<close> differ in the line of an entry. A listing that fails after the data connection
  was opened replies 550, and the connection is closed on every way out.
\<close>

definition list_with :: "string \<Rightarrow> (Entry \<Rightarrow> string) ftp \<Rightarrow> unit ftp" where
  "list_with arg line = do {
     p \<leftarrow> resolve (scrubListArg arg);
     case p of
       Inl _ \<Rightarrow> reply 550 ''Path unavailable''
     | Inr (realPath, virtual) \<Rightarrow> do {
         info \<leftarrow> disk (\<lambda>r. Stat r realPath);
         case info of
           Inl _ \<Rightarrow> reply 550 ''Path unavailable''
         | Inr n \<Rightarrow> do {
             conn \<leftarrow> beginDataTransfer;
             case conn of
               None \<Rightarrow> ret ()
             | Some d \<Rightarrow> do {
                 user \<leftarrow> session ss_user;
                 root \<leftarrow> server sv_root;
                 show_entry \<leftarrow> line;
                 (if is_dir n then do {
                    entries \<leftarrow> disk (\<lambda>r. ListForUser r user realPath virtual);
                    case entries of
                      Inl _ \<Rightarrow> reply 550 ''List failed''
                    | Inr es \<Rightarrow> do {
                        _ \<leftarrow> send (fst d) (concat (map (\<lambda>e. show_entry e @ crlf) es));
                        reply 226 ''Transfer complete''
                      }
                  }
                  else do {
                    _ \<leftarrow> send (fst d) (show_entry (entryFromInfo (info_name root realPath) n virtual) @ crlf);
                    reply 226 ''Transfer complete''
                  });
                 closeData d
               }
           }
       }
   }"

definition list :: "string \<Rightarrow> bool \<Rightarrow> unit ftp" where
  "list arg namesOnly = list_with arg (do {
     zone \<leftarrow> net nt_zone;
     ret (\<lambda>e. if namesOnly then en_Name e
             else formatList (en_Name e) (en_Mode e) (en_Size e) (zone (en_ModTime e)))
   })"

definition mlsd :: "string \<Rightarrow> unit ftp" where
  "mlsd arg = list_with arg (ret (\<lambda>e. mlsxFacts e @ '' '' @ en_Name e))"

definition mlst :: "string \<Rightarrow> unit ftp" where
  "mlst arg = do {
     p \<leftarrow> resolve arg;
     case p of
       Inl _ \<Rightarrow> reply 550 ''Path unavailable''
     | Inr (realPath, virtual) \<Rightarrow> do {
         info \<leftarrow> disk (\<lambda>r. Stat r realPath);
         root \<leftarrow> server sv_root;
         case info of
           Inl _ \<Rightarrow> reply 550 ''Path unavailable''
         | Inr n \<Rightarrow> multiline 250
             [mlsxFacts (entryFromInfo (info_name root realPath) n virtual) @ '' '' @ virtual] ''Listing''
       }
   }"

subsection \<open>Downloads\<close>

definition restart :: "string \<Rightarrow> unit ftp" where
  "restart arg0 = (
     let arg = TrimSpace arg0
     in if arg = [] then reply 501 ''Restart offset required''
        else (case ParseInt arg of
          None \<Rightarrow> reply 501 ''Bad restart offset''
        | Some offset \<Rightarrow>
            if offset < 0 then reply 501 ''Bad restart offset''
            else do {
              set_session (\<lambda>s. s\<lparr>ss_restartOffset := offset, ss_restartSet := True\<rparr>);
              reply 350 (''Restarting at '' @ Itoa offset @ ''. Send STORE or RETRIEVE to initiate transfer'')
            }))"

definition consumeRestart :: "(int \<times> bool) ftp" where
  "consumeRestart = do {
     ss \<leftarrow> session (\<lambda>s. s);
     set_session (\<lambda>s. s\<lparr>ss_restartOffset := 0, ss_restartSet := False\<rparr>);
     ret (ss_restartOffset ss, ss_restartSet ss)
   }"

text \<open>The checks of a restarted download; the reply to give when one fails.\<close>

definition retrieve_restart :: "string \<Rightarrow> node \<Rightarrow> int \<Rightarrow> (int \<times> string) option ftp" where
  "retrieve_restart realPath info offset = do {
     stat \<leftarrow> disk (\<lambda>r. on_fd r realPath op_fd);
     if \<not> is_Inr stat \<or> is_dir info then ret (Some (550, ''Path unavailable''))
     else if offset > node_size info then ret (Some (554, ''Restart offset exceeds file size''))
     else do {
       seek \<leftarrow> disk (\<lambda>r. on_fd r realPath op_fd);
       ret (if is_Inr seek then None else Some (550, ''Restart seek failed''))
     }
   }"

definition retrieve_transfer :: "string \<Rightarrow> string \<Rightarrow> string \<Rightarrow> int \<Rightarrow> bool \<Rightarrow> unit ftp" where
  "retrieve_transfer arg realPath virtual offset restarting = do {
     conn \<leftarrow> beginDataTransfer;
     case conn of
       None \<Rightarrow> ret ()
     | Some d \<Rightarrow> do {
         updateStatus (\<lambda>st. st\<lparr>st_Action := ''download'', st_Path := virtual, st_Mode := ''retr'',
           st_Bytes := 0\<rparr>);
         content \<leftarrow> disk (\<lambda>r. on_fd r realPath op_readfile);
         copied \<leftarrow> (case content of
           Inl e \<Rightarrow> ret (0, Some e)
         | Inr s \<Rightarrow> send (fst d) (if restarting then drop (nat offset) s else s));
         updateStatus (\<lambda>st. st\<lparr>st_Action := ''idle'', st_Bytes := fst copied\<rparr>);
         text \<leftarrow> net nt_error_text;
         (case snd copied of
            Some e \<Rightarrow> do {
              logActivity ''download'' ''failed'' arg [] (fst copied) (text e);
              reply 426 ''Transfer aborted''
            }
          | None \<Rightarrow> do {
              logActivity ''download'' ''ok'' arg [] (fst copied)
                (if restarting then ''FTP download resumed at offset '' @ Itoa offset else ''FTP download'');
              reply 226 ''Transfer complete''
            });
         closeData d
       }
   }"

definition retrieve :: "string \<Rightarrow> unit ftp" where
  "retrieve arg = do {
     (offset, restarting) \<leftarrow> consumeRestart;
     p \<leftarrow> resolve arg;
     case p of
       Inl _ \<Rightarrow> do { closeDataSetup; reply 550 ''Path unavailable'' }
     | Inr (realPath, virtual) \<Rightarrow> do {
         opened \<leftarrow> disk (\<lambda>r. Open_read r realPath);
         case opened of
           Inl _ \<Rightarrow> do { closeDataSetup; reply 550 ''Open failed'' }
         | Inr info \<Rightarrow> do {
             refused \<leftarrow> (if restarting then retrieve_restart realPath info offset else ret None);
             case refused of
               Some (code, msg) \<Rightarrow> do { closeDataSetup; reply code msg }
             | None \<Rightarrow> retrieve_transfer arg realPath virtual offset restarting
           }
       }
   }"

subsection \<open>Uploads\<close>

definition createStagedUpload :: "int \<Rightarrow> Root \<Rightarrow> string io" where
  "createStagedUpload statusID r = staged_upload (''ftp-'' @ Itoa statusID) r"

text \<open>
  Bringing the current content under the staged name, for \<open>APPE\<close> and a restarted \<open>STOR\<close>; the reply
  to give when a step fails. Writing goes on at the end: the file was just created, and after a
  restart it is cut at the offset the file position was set to.
\<close>

definition stage_current ::
  "string \<Rightarrow> string \<Rightarrow> bool \<Rightarrow> bool \<Rightarrow> bool \<Rightarrow> int \<Rightarrow> (int \<times> string) option ftp" where
  "stage_current realPath stagedPath appendMode restarting exists offset = do {
     copied \<leftarrow> (if (appendMode \<or> restarting) \<and> exists then do {
         current \<leftarrow> disk (\<lambda>r. Open_read r realPath);
         if \<not> is_Inr current then ret (Some (550, ''Cannot read current file''))
         else do {
           n \<leftarrow> disk (\<lambda>r. io_copy r realPath stagedPath);
           _ \<leftarrow> disk (\<lambda>r. on_fd r realPath op_fd);
           ret (if is_Inr n then None else Some (550, ''Cannot stage current file''))
         }
       } else ret None);
     if copied \<noteq> None then ret copied
     else do {
       appended \<leftarrow> (if appendMode then disk (\<lambda>r. on_fd r stagedPath op_fd) else ret (Inr ()));
       if \<not> is_Inr appended then ret (Some (550, ''Append seek failed''))
       else if \<not> restarting then ret None
       else do {
         seek \<leftarrow> disk (\<lambda>r. on_fd r stagedPath op_fd);
         if \<not> is_Inr seek then ret (Some (550, ''Restart seek failed''))
         else do {
           cut_off \<leftarrow> disk (\<lambda>r. on_fd r stagedPath (op_truncate (nat offset)));
           ret (if is_Inr cut_off then None else Some (550, ''Restart truncate failed''))
         }
       }
     }
   }"

text \<open>The bytes in an open file.\<close>

definition fd_size :: "string \<Rightarrow> int ftp" where
  "fd_size realPath = ask (\<lambda>c.
     (let r = sv_root (cx_sv c)
      in case relFromReal r realPath of
           Inl _ \<Rightarrow> 0
         | Inr rel \<Rightarrow> (case node_at (w_fs (cx_disk c)) (os_path (r_Base r) @ rel_path rel) of
             Some n \<Rightarrow> node_size n | None \<Rightarrow> 0)))"

text \<open>\<open>io.Copy(file, conn)\<close>: what was received until the stream ended or broke is written.\<close>

definition receive :: "string \<Rightarrow> data_conn \<Rightarrow> (int \<times> err option) ftp" where
  "receive stagedPath d = do {
     size0 \<leftarrow> fd_size stagedPath;
     written \<leftarrow> disk (\<lambda>r. on_fd r stagedPath (\<lambda>p. op_write p (dc_received d)));
     size1 \<leftarrow> fd_size stagedPath;
     ret (size1 - size0, case written of Inl e \<Rightarrow> Some e | Inr _ \<Rightarrow> dc_read_err d)
   }"

text \<open>Closing, setting the permissions and replacing the destination; the reply when one fails.\<close>

definition finalize_upload ::
  "string \<Rightarrow> string \<Rightarrow> string \<Rightarrow> node option \<Rightarrow> (err \<times> string) option ftp" where
  "finalize_upload stagedPath realPath virtual existing = do {
     closed \<leftarrow> disk (\<lambda>r. on_fd r stagedPath op_fd);
     case closed of
       Inl e \<Rightarrow> ret (Some (e, ''Cannot finalize upload''))
     | Inr _ \<Rightarrow> do {
         chmodded \<leftarrow> disk (\<lambda>r. Chmod r stagedPath
           (case existing of None \<Rightarrow> mode_640 | Some info \<Rightarrow> n_mode info));
         case chmodded of
           Inl e \<Rightarrow> ret (Some (e, ''Cannot finalize upload permissions''))
         | Inr _ \<Rightarrow> do {
             sv \<leftarrow> server (\<lambda>s. s);
             user \<leftarrow> session ss_user;
             replaced \<leftarrow> disk (\<lambda>r. ReplaceFile (sv_codec sv) (sv_clone sv) r stagedPath realPath virtual
               (u_Username user) True);
             ret (case replaced of
                    Inl e \<Rightarrow> Some (e, ''Cannot preserve or replace destination'') | Inr _ \<Rightarrow> None)
           }
       }
   }"

definition store_transfer ::
  "string \<Rightarrow> string \<Rightarrow> string \<Rightarrow> string \<Rightarrow> node option \<Rightarrow> int \<Rightarrow> bool \<Rightarrow> unit ftp" where
  "store_transfer arg stagedPath realPath virtual existing offset restarting = do {
     conn \<leftarrow> beginDataTransfer;
     case conn of
       None \<Rightarrow> ret ()
     | Some d \<Rightarrow> do {
         updateStatus (\<lambda>st. st\<lparr>st_Action := ''upload'', st_Path := virtual, st_Mode := ''stor'',
           st_Bytes := 0\<rparr>);
         (n, err) \<leftarrow> receive stagedPath (fst d);
         updateStatus (\<lambda>st. st\<lparr>st_Action := ''idle'', st_Bytes := n\<rparr>);
         text \<leftarrow> net nt_error_text;
         (case err of
            Some e \<Rightarrow> do {
              logActivity ''upload'' ''failed'' arg [] n (text e);
              reply 426 ''Transfer aborted''
            }
          | None \<Rightarrow> do {
              failed \<leftarrow> finalize_upload stagedPath realPath virtual existing;
              case failed of
                Some (e, msg) \<Rightarrow> do { logActivity ''upload'' ''failed'' arg [] n (text e); reply 451 msg }
              | None \<Rightarrow> do {
                  notifyPublicMutation realPath virtual;
                  logActivity ''upload'' ''ok'' arg [] n
                    (if restarting then ''FTP upload resumed at offset '' @ Itoa offset else ''FTP upload'');
                  reply 226 ''Transfer complete''
                }
            });
         closeData d
       }
   }"

definition store_staged ::
  "string \<Rightarrow> bool \<Rightarrow> string \<Rightarrow> string \<Rightarrow> node option \<Rightarrow> int \<Rightarrow> bool \<Rightarrow> unit ftp" where
  "store_staged arg appendMode realPath virtual existing offset restarting = do {
     statusID \<leftarrow> session ss_statusID;
     staged \<leftarrow> disk (createStagedUpload statusID);
     case staged of
       Inl _ \<Rightarrow> do { closeDataSetup; reply 550 ''Cannot stage upload'' }
     | Inr stagedPath \<Rightarrow> do {
         refused \<leftarrow> stage_current realPath stagedPath appendMode restarting (existing \<noteq> None) offset;
         (case refused of
            Some (code, msg) \<Rightarrow> do { closeDataSetup; reply code msg }
          | None \<Rightarrow> store_transfer arg stagedPath realPath virtual existing offset restarting);
         _ \<leftarrow> disk (\<lambda>r. on_fd r stagedPath op_fd);
         _ \<leftarrow> disk (\<lambda>r. Remove r stagedPath);
         ret ()
       }
   }"

definition store :: "string \<Rightarrow> bool \<Rightarrow> unit ftp" where
  "store arg appendMode = do {
     (offset, restarting) \<leftarrow> consumeRestart;
     if appendMode \<and> restarting
     then do { closeDataSetup; reply 503 ''REST is not valid with APPE'' }
     else do {
       p \<leftarrow> resolve arg;
       case p of
         Inl _ \<Rightarrow> do { closeDataSetup; reply 550 ''Path unavailable'' }
       | Inr (realPath, virtual) \<Rightarrow> do {
           made \<leftarrow> disk (\<lambda>r. MkdirAllParent r realPath mode_750);
           if \<not> is_Inr made then do { closeDataSetup; reply 550 ''Cannot create directory'' }
           else do {
             stat \<leftarrow> disk (\<lambda>r. Stat r realPath);
             case stat of
               Inr info \<Rightarrow>
                 if is_dir info then do { closeDataSetup; reply 550 ''Destination is a directory'' }
                 else if restarting \<and> offset > 0 \<and> offset > node_size info
                 then do { closeDataSetup; reply 554 ''Restart offset exceeds file size'' }
                 else store_staged arg appendMode realPath virtual (Some info) offset restarting
             | Inl e \<Rightarrow>
                 if e \<noteq> ErrNotExist then do { closeDataSetup; reply 550 ''Destination unavailable'' }
                 else if restarting \<and> offset > 0
                 then do { closeDataSetup; reply 550 ''Resume target unavailable'' }
                 else store_staged arg appendMode realPath virtual None offset restarting
           }
         }
     }
   }"

subsection \<open>Deleting, creating and renaming\<close>

text \<open>\<open>delete\<close> and \<open>rmdir\<close> share their shape; they differ in the permanent removal and in texts.\<close>

definition delete_with ::
  "string \<Rightarrow> (Root \<Rightarrow> string \<Rightarrow> unit io) \<Rightarrow> string \<Rightarrow> string \<Rightarrow> string \<Rightarrow> string \<Rightarrow> string \<Rightarrow> unit ftp" where
  "delete_with arg remove denied failed monitored trashed done_msg = do {
     p \<leftarrow> resolve arg;
     sv \<leftarrow> server (\<lambda>s. s);
     ss \<leftarrow> session (\<lambda>s. s);
     text \<leftarrow> net nt_error_text;
     case p of
       Inl _ \<Rightarrow> reply 550 ''Path unavailable''
     | Inr (realPath, virtual) \<Rightarrow>
         if IsPublicReal (sv_root sv) realPath \<and> \<not> p_Admin (ss_perms ss)
         then reply 550 (''Permission denied: public '' @ denied @ '' are admin-managed'')
         else if isMonitorVirtual virtual then do {
           removed \<leftarrow> disk (\<lambda>r. remove r realPath);
           case removed of
             Inl e \<Rightarrow> do { logActivity ''delete'' ''failed'' arg [] 0 (text e); reply 550 failed }
           | Inr _ \<Rightarrow> do { logActivity ''delete'' ''ok'' arg [] 0 monitored; reply 250 done_msg }
         }
         else do {
           retained \<leftarrow> disk (\<lambda>r. Trash (sv_codec sv) (sv_clone sv) r realPath virtual
             (u_Username (ss_user ss)));
           case retained of
             Inl e \<Rightarrow> do { logActivity ''delete'' ''failed'' arg [] 0 (text e); reply 550 failed }
           | Inr _ \<Rightarrow> do {
               run_hook_if (IsPublicReal (sv_root sv) realPath) virtual;
               logActivity ''delete'' ''ok'' arg [] 0 trashed;
               reply 250 done_msg
             }
         }
   }"

definition delete :: "string \<Rightarrow> unit ftp" where
  "delete arg = delete_with arg Remove ''files'' ''Delete failed''
     ''FTP monitor cleanup removed permanently'' ''FTP delete moved to trash'' ''Deleted''"

definition rmdir :: "string \<Rightarrow> unit ftp" where
  "rmdir arg = delete_with arg RemoveAll ''folders'' ''Remove failed''
     ''FTP monitor folder removed permanently'' ''FTP folder moved to trash'' ''Removed''"

definition mkdir :: "string \<Rightarrow> unit ftp" where
  "mkdir arg = do {
     p \<leftarrow> resolve arg;
     text \<leftarrow> net nt_error_text;
     case p of
       Inl _ \<Rightarrow> reply 550 ''Path unavailable''
     | Inr (realPath, virtual) \<Rightarrow> do {
         made \<leftarrow> disk (\<lambda>r. MkdirAll r realPath mode_750);
         case made of
           Inl e \<Rightarrow> do { logActivity ''mkdir'' ''failed'' virtual [] 0 (text e); reply 550 ''Create failed'' }
         | Inr _ \<Rightarrow> do {
             notifyPublicMutation realPath virtual;
             logActivity ''mkdir'' ''ok'' virtual [] 0 ''FTP folder created'';
             reply 257 (CHR 0x22 # virtual @ [CHR 0x22] @ '' created'')
           }
       }
   }"

definition renameFromPath :: "string \<Rightarrow> unit ftp" where
  "renameFromPath arg = do {
     p \<leftarrow> resolve arg;
     sv \<leftarrow> server (\<lambda>s. s);
     ss \<leftarrow> session (\<lambda>s. s);
     case p of
       Inl _ \<Rightarrow> reply 550 ''Path unavailable''
     | Inr (realPath, _) \<Rightarrow> do {
         info \<leftarrow> disk (\<lambda>r. Stat r realPath);
         if \<not> is_Inr info then reply 550 ''Path unavailable''
         else if IsPublicReal (sv_root sv) realPath \<and> \<not> p_Admin (ss_perms ss)
         then reply 550 ''Permission denied: public files are admin-managed''
         else do {
           set_session (\<lambda>s. s\<lparr>ss_renameFrom := realPath\<rparr>);
           reply 350 ''Ready for destination''
         }
       }
   }"

definition renameToPath :: "string \<Rightarrow> unit ftp" where
  "renameToPath arg = do {
     sv \<leftarrow> server (\<lambda>s. s);
     ss \<leftarrow> session (\<lambda>s. s);
     text \<leftarrow> net nt_error_text;
     if ss_renameFrom ss = [] then reply 503 ''RNFR required''
     else do {
       p \<leftarrow> resolve arg;
       case p of
         Inl _ \<Rightarrow> reply 550 ''Path unavailable''
       | Inr (realPath, virtual) \<Rightarrow>
           if IsPublicReal (sv_root sv) realPath \<and> \<not> p_Admin (ss_perms ss)
           then reply 550 ''Permission denied: public files are admin-managed''
           else do {
             renamed \<leftarrow> disk (\<lambda>r. Rename r (ss_renameFrom ss) realPath);
             (case renamed of
                Inl e \<Rightarrow> do {
                  logActivity ''move'' ''failed'' (ss_renameFrom ss) arg 0 (text e);
                  reply 550 ''Rename failed''
                }
              | Inr _ \<Rightarrow> do {
                  run_hook_if (IsPublicReal (sv_root sv) (ss_renameFrom ss) \<or>
                               IsPublicReal (sv_root sv) realPath) virtual;
                  logActivity ''move'' ''ok'' (ss_renameFrom ss) arg 0 ''FTP rename'';
                  reply 250 ''Renamed''
                });
             set_session (\<lambda>s. s\<lparr>ss_renameFrom := []\<rparr>)
           }
     }
   }"

text \<open>\<open>sz\<close> is \<open>size\<close>.\<close>

definition sz :: "string \<Rightarrow> unit ftp" where
  "sz arg = do {
     p \<leftarrow> resolve arg;
     case p of
       Inl _ \<Rightarrow> reply 550 ''Path unavailable''
     | Inr (realPath, _) \<Rightarrow> do {
         info \<leftarrow> disk (\<lambda>r. Stat r realPath);
         case info of
           Inl _ \<Rightarrow> reply 550 ''Path unavailable''
         | Inr n \<Rightarrow> if is_dir n then reply 550 ''Path unavailable'' else reply 213 (Itoa (node_size n))
       }
   }"

definition mdtm :: "string \<Rightarrow> unit ftp" where
  "mdtm arg = do {
     p \<leftarrow> resolve arg;
     case p of
       Inl _ \<Rightarrow> reply 550 ''Path unavailable''
     | Inr (realPath, _) \<Rightarrow> do {
         info \<leftarrow> disk (\<lambda>r. Stat r realPath);
         case info of
           Inl _ \<Rightarrow> reply 550 ''Path unavailable''
         | Inr n \<Rightarrow> reply 213 (format_compact (n_mtime n))
       }
   }"

subsection \<open>Commands\<close>

definition whenAuth :: "bool ftp \<Rightarrow> unit ftp \<Rightarrow> bool ftp" where
  "whenAuth guard handler = do {
     ok \<leftarrow> guard;
     if \<not> ok then ret False else do { handler; ret False }
   }"

definition continue :: "unit ftp \<Rightarrow> bool ftp" where
  "continue handler = do { handler; ret False }"

definition typ_command :: "string \<Rightarrow> unit ftp" where
  "typ_command arg = do {
     set_session (\<lambda>s. s\<lparr>ss_typ := (if HasPrefix (ToUpper arg) ''I'' then ''I'' else ''A'')\<rparr>);
     t \<leftarrow> session ss_typ;
     reply 200 (''Type set to '' @ t)
   }"

definition features :: "bool \<Rightarrow> string list" where
  "features tls =
     [''UTF8'', ''CLNT'', ''EPSV'', ''PASV'', ''REST STREAM'', ''SIZE'', ''MDTM'',
      ''MLST type*;size*;modify*;perm*;'', ''MLSD''] @
     (if tls then [''AUTH TLS'', ''PBSZ'', ''PROT''] else [])"

definition clnt :: "string \<Rightarrow> unit ftp" where
  "clnt arg = do {
     remote \<leftarrow> session ss_remote;
     (if monitorClientAllowed (Some remote) arg then set_session (\<lambda>s. s\<lparr>ss_monitor := True\<rparr>) else ret ());
     reply 200 ''Client name noted''
   }"

text \<open>The result says whether the connection is closed.\<close>

definition dispatch :: "string \<Rightarrow> string \<Rightarrow> bool ftp" where
  "dispatch cmd arg =
     (if cmd = ''USER'' then continue (do {
        set_session (\<lambda>s. s\<lparr>ss_username := TrimSpace arg\<rparr>);
        reply 331 ''Password required''
      })
      else if cmd = ''PASS'' then pass arg
      else if cmd = ''AUTH'' then continue (authTLS arg)
      else if cmd = ''PBSZ'' then continue (do {
        secure \<leftarrow> session ss_secure;
        if \<not> secure then reply 503 ''Send AUTH TLS first'' else reply 200 ''PBSZ=0''
      })
      else if cmd = ''PROT'' then continue (prot arg)
      else if cmd = ''SYST'' then continue (reply 215 ''UNIX Type: L8'')
      else if cmd = ''FEAT'' then continue (do {
        tls \<leftarrow> server sv_tls;
        multiline 211 (features tls) ''End''
      })
      else if cmd = ''CLNT'' then continue (clnt arg)
      else if cmd = ''OPTS'' then continue (reply 200 ''OK'')
      else if cmd = ''PWD'' \<or> cmd = ''XPWD'' then whenAuth requireAuth (do {
        cwd \<leftarrow> session ss_cwd;
        reply 257 (CHR 0x22 # cwd @ [CHR 0x22] @ '' is current directory'')
      })
      else if cmd = ''CWD'' then whenAuth (requireAuthPerm ''list'') (changeDir arg)
      else if cmd = ''CDUP'' then whenAuth (requireAuthPerm ''list'') (changeDir ''..'')
      else if cmd = ''TYPE'' then continue (typ_command arg)
      else if cmd = ''MODE'' \<or> cmd = ''STRU'' then continue (reply 200 ''OK'')
      else if cmd = ''NOOP'' then continue (reply 200 ''OK'')
      else if cmd = ''QUIT'' then do { reply 221 ''Goodbye''; ret True }
      else if cmd = ''PASV'' then whenAuth requireAuth (enterPassive False)
      else if cmd = ''EPSV'' then whenAuth requireAuth (enterPassive True)
      else if cmd = ''PORT'' then whenAuth requireAuth (enterActive arg)
      else if cmd = ''EPRT'' then whenAuth requireAuth (enterExtendedActive arg)
      else if cmd = ''LIST'' \<or> cmd = ''NLST''
        then whenAuth (requireAuthPerm ''list'') (list arg (cmd = ''NLST''))
      else if cmd = ''MLSD'' then whenAuth (requireAuthPerm ''list'') (mlsd arg)
      else if cmd = ''MLST'' then whenAuth (requireAuthPerm ''list'') (mlst arg)
      else if cmd = ''RETR'' then whenAuth (requireAuthPerm ''download'') (retrieve arg)
      else if cmd = ''STOR'' \<or> cmd = ''APPE''
        then whenAuth (requireAuthPerm ''upload'') (store arg (cmd = ''APPE''))
      else if cmd = ''REST'' then whenAuth requireAuth (restart arg)
      else if cmd = ''DELE'' then whenAuth (requireAuthPerm ''delete'') (delete arg)
      else if cmd = ''MKD'' \<or> cmd = ''XMKD'' then whenAuth (requireAuthPerm ''mkdir'') (mkdir arg)
      else if cmd = ''RMD'' \<or> cmd = ''XRMD'' then whenAuth (requireAuthPerm ''delete'') (rmdir arg)
      else if cmd = ''RNFR'' then whenAuth (requireAuthPerm ''rename'') (renameFromPath arg)
      else if cmd = ''RNTO'' then whenAuth (requireAuthPerm ''rename'') (renameToPath arg)
      else if cmd = ''SIZE'' then whenAuth (requireAuthPerm ''download'') (sz arg)
      else if cmd = ''MDTM'' then whenAuth (requireAuthPerm ''download'') (mdtm arg)
      else continue (reply 502 ''Command not implemented''))"

subsection \<open>The connection\<close>

text \<open>
  One line of input, with the answers the network gives while it is handled: whether the
  connection goes on.
\<close>

definition handle_line :: "string \<Rightarrow> bool ftp" where
  "handle_line line0 = (
     let line = TrimRight line0 crlf
     in if line = [] then ret True
        else (case splitCommand line of (cmd, arg) \<Rightarrow> do {
          quit \<leftarrow> dispatch (ToUpper cmd) arg;
          crashed \<leftarrow> ask cx_crashed;
          ret (\<not> quit \<and> \<not> crashed)
        }))"

text \<open>Whether the loop ends by reading: a closed connection is noticed at the next read.\<close>

fun serve :: "(string \<times> net) list \<Rightarrow> bool ftp" where
  "serve [] = ret True"
| "serve ((line, answers) # inputs) = do {
     tell (\<lambda>c. c\<lparr>cx_net := answers\<rparr>);
     go_on \<leftarrow> handle_line line;
     connected \<leftarrow> session ss_open;
     if \<not> go_on then ret False else if \<not> connected then ret True else serve inputs
   }"

text \<open>\<open>session.close\<close>, deferred by \<open>handle\<close>.\<close>

definition close_session :: "unit ftp" where
  "close_session = do {
     closePassive;
     ss \<leftarrow> session (\<lambda>s. s);
     set_server (\<lambda>s. s\<lparr>sv_tracker := (if ss_statusID ss = 0 then sv_tracker s
        else map_option (Tracker_Remove (ss_statusID ss)) (sv_tracker s))\<rparr>);
     set_session (\<lambda>s. s\<lparr>ss_open := False\<rparr>)
   }"

definition no_user :: User where
  "no_user = \<lparr>u_Username = [], u_PasswordHash = [], u_Groups = [], u_Home = [], u_Disabled = False,
     u_Permissions = no_permissions\<rparr>"

definition new_session :: "addr \<Rightarrow> int \<Rightarrow> session" where
  "new_session remote statusID =
     \<lparr>ss_username = [], ss_user = no_user, ss_perms = no_permissions, ss_authenticated = False,
      ss_cwd = [slash], ss_typ = ''A'', ss_passive = False, ss_passivePort = 0, ss_activeAddr = [],
      ss_renameFrom = [], ss_restartOffset = 0, ss_restartSet = False, ss_secure = False,
      ss_protPrivate = False, ss_monitor = False, ss_statusID = statusID, ss_remote = remote,
      ss_open = True\<rparr>"

text \<open>The lines that arrive, and the error that ends them unless the stream simply ends.\<close>

definition handle :: "addr \<Rightarrow> (string \<times> net) list \<Rightarrow> read_error option \<Rightarrow> read_log option ftp" where
  "handle remote inputs failure = do {
     tracker \<leftarrow> server sv_tracker;
     statusID \<leftarrow> (case tracker of
       None \<Rightarrow> ret 0
     | Some t \<Rightarrow> do {
         t0 \<leftarrow> now;
         let added = Tracker_Add t0 ''ftp'' (ad_String remote) t;
         set_server (\<lambda>s. s\<lparr>sv_tracker := Some (snd added)\<rparr>);
         ret (fst added)
       });
     set_session (\<lambda>_. new_session remote statusID);
     welcome \<leftarrow> server (\<lambda>s. fc_Welcome (sv_cfg s));
     reply 220 welcome;
     reading \<leftarrow> serve inputs;
     logged \<leftarrow> (if reading \<and> failure \<noteq> None then do {
         t1 \<leftarrow> now;
         noise \<leftarrow> server sv_readNoise;
         let out = logReadError t1 remote failure noise;
         set_server (\<lambda>s. s\<lparr>sv_readNoise := snd out\<rparr>);
         ret (fst out)
       } else ret None);
     close_session;
     ret logged
   }"

text \<open>\<open>New\<close>: \<open>certificate\<close> is what \<open>tls.LoadX509KeyPair\<close> answers.\<close>

definition New_server ::
  "FTPConfig \<Rightarrow> AuthStore \<Rightarrow> Root \<Rightarrow> Store option \<Rightarrow> Tracker option \<Rightarrow> err option \<Rightarrow> kdf \<Rightarrow> codec
     \<Rightarrow> bool \<Rightarrow> (err + server) option" where
  "New_server cfg auth root activityLog tracker certificate kdf json platform_clone =
     (case parsePorts (fc_PassivePorts cfg) of
        None \<Rightarrow> None
      | Some (Inl e) \<Rightarrow> Some (Inl e)
      | Some (Inr ports) \<Rightarrow> Some (
          if fc_RequireTLS cfg \<and> (fc_TLSCertFile cfg = [] \<or> fc_TLSKeyFile cfg = [])
          then Inl (ErrMsg ''ftp.require_tls requires ftp.tls_cert_file and ftp.tls_key_file'')
          else
            let wanted = (fc_TLSCertFile cfg \<noteq> [] \<or> fc_TLSKeyFile cfg \<noteq> [])
            in if wanted \<and> (fc_TLSCertFile cfg = [] \<or> fc_TLSKeyFile cfg = [])
               then Inl (ErrMsg ''both ftp.tls_cert_file and ftp.tls_key_file are required for FTPS'')
               else (case (if wanted then certificate else None) of
                 Some e \<Rightarrow> Inl e
               | None \<Rightarrow> Inr \<lparr>sv_cfg = cfg, sv_auth = auth, sv_root = root, sv_ports = ports,
                   sv_nextPort = 0, sv_listener = None, sv_externalIP = [], sv_natGateway = [],
                   sv_upnp = False, sv_limiter = New_limiter 5 (10 * minute) (5 * minute),
                   sv_activity = activityLog, sv_tracker = tracker, sv_tls = wanted,
                   sv_publicHook = False, sv_purged = [], sv_readNoise = [], sv_monitorLast = 0,
                   sv_kdf = kdf, sv_codec = json, sv_clone = platform_clone\<rparr>)))"

end
