(* ===== verification/FtpProofs.thy ===== *)
theory FtpProofs
  imports FtpSession StorageProofs
begin

text \<open>
  What the FTP session guarantees. A relation between the states before and after a handler that is
  reflexive and transitive is proved of every handler by following its structure: the locale
  \<open>transition\<close> of \<open>Effects\<close> has the rules, \<open>ftp_transition\<close> those for reading the session's context,
  and each relation interprets it.
\<close>

subsection \<open>Relations that every step respects\<close>

lemmas step_defs = session_def server_def net_def set_session_def set_server_def

locale ftp_transition = transition R for R :: "ctx \<Rightarrow> ctx \<Rightarrow> bool"
begin

lemma reading: "within R (session f)" "within R (server g)" "within R (net h)"
  by (simp_all add: step_defs asking)

lemmas rules = core reading

end

text \<open>
  What stays as it is: the server's configuration and stores, the peer; the activity log is only added
  to, and replies only accumulate.
  \<open>login\<close> says whether the step may log somebody in, \<open>active\<close> whether it may set the address of an
  active data connection.
\<close>

definition calm :: "bool \<Rightarrow> bool \<Rightarrow> ctx \<Rightarrow> ctx \<Rightarrow> bool" where
  "calm login active c c' \<longleftrightarrow>
     sv_cfg (cx_sv c') = sv_cfg (cx_sv c) \<and> sv_auth (cx_sv c') = sv_auth (cx_sv c) \<and> sv_root (cx_sv c') = sv_root (cx_sv c) \<and>
     sv_tls (cx_sv c') = sv_tls (cx_sv c) \<and> sv_ports (cx_sv c') = sv_ports (cx_sv c) \<and> sv_kdf (cx_sv c') = sv_kdf (cx_sv c) \<and>
     sv_codec (cx_sv c') = sv_codec (cx_sv c) \<and> sv_clone (cx_sv c') = sv_clone (cx_sv c) \<and>
     log_call\<^sup>*\<^sup>* (sv_activity (cx_sv c)) (sv_activity (cx_sv c')) \<and>
     (sv_nextPort (cx_sv c) < length (sv_ports (cx_sv c)) \<longrightarrow> sv_nextPort (cx_sv c') < length (sv_ports (cx_sv c))) \<and>
     ss_remote (cx_ss c') = ss_remote (cx_ss c) \<and> cx_net c' = cx_net c \<and>
     prefix (cx_replies c) (cx_replies c') \<and> (cx_crashed c \<longrightarrow> cx_crashed c') \<and>
     (ss_secure (cx_ss c) \<longrightarrow> ss_secure (cx_ss c')) \<and>
     (\<not> login \<longrightarrow> (ss_authenticated (cx_ss c') \<longrightarrow> ss_authenticated (cx_ss c))) \<and>
     (\<not> active \<longrightarrow> ss_activeAddr (cx_ss c') = ss_activeAddr (cx_ss c) \<or> ss_activeAddr (cx_ss c') = [])"

interpretation calm: ftp_transition "calm login active" for login active
proof
  show "calm login active c c" for c by (simp add: calm_def)
next
  fix c d e assume a: "calm login active c d" "calm login active d e"
  then have "prefix (cx_replies c) (cx_replies e)"
    unfolding calm_def by (blast intro: prefix_order.trans)
  moreover have "\<not> active \<longrightarrow> ss_activeAddr (cx_ss e) = ss_activeAddr (cx_ss c) \<or> ss_activeAddr (cx_ss e) = []"
    using a unfolding calm_def by metis
  moreover have "log_call\<^sup>*\<^sup>* (sv_activity (cx_sv c)) (sv_activity (cx_sv d))"
    "log_call\<^sup>*\<^sup>* (sv_activity (cx_sv d)) (sv_activity (cx_sv e))"
    using a unfolding calm_def by blast+
  then have "log_call\<^sup>*\<^sup>* (sv_activity (cx_sv c)) (sv_activity (cx_sv e))" by (rule rtranclp_trans)
  ultimately show "calm login active c e" using a by (simp add: calm_def)
qed

named_theorems calm

lemma calm_session:
  "(\<And>s. ss_remote (f s) = ss_remote s \<and> (ss_secure s \<longrightarrow> ss_secure (f s)) \<and>
      (\<not> login \<longrightarrow> (ss_authenticated (f s) \<longrightarrow> ss_authenticated s)) \<and>
      (\<not> active \<longrightarrow> ss_activeAddr (f s) = ss_activeAddr s \<or> ss_activeAddr (f s) = [])) \<Longrightarrow>
    within (calm login active) (set_session f)"
  by (simp add: within_def calm_def step_defs)

lemma calm_server:
  "(\<And>s. sv_cfg (f s) = sv_cfg s \<and> sv_auth (f s) = sv_auth s \<and> sv_root (f s) = sv_root s \<and>
      sv_tls (f s) = sv_tls s \<and> sv_ports (f s) = sv_ports s \<and> sv_kdf (f s) = sv_kdf s \<and>
      sv_codec (f s) = sv_codec s \<and> sv_clone (f s) = sv_clone s \<and> sv_activity (f s) = sv_activity s \<and>
      (sv_nextPort s < length (sv_ports s) \<longrightarrow> sv_nextPort (f s) < length (sv_ports s))) \<Longrightarrow>
    within (calm login active) (set_server f)"
  by (simp add: within_def calm_def step_defs)

lemma calm_prims [calm]:
  "within (calm login active) (disk op)" "within (calm login active) now"
  "within (calm login active) (reply code msg)" "within (calm login active) (multiline code lines fin)"
  "within (calm login active) (send d s)" "within (calm login active) (limiter_step l)"
  "within (calm login active) (fd_size p)"
  by (simp_all add: within_def calm_def disk_def now_def reply_def multiline_def send_def
      limiter_step_def fd_size_def Let_def split: prod.split)

lemma calm_updateStatus [calm]: "within (calm login active) (updateStatus f)"
  unfolding updateStatus_def by (intro calm.rules calm calm_server) simp_all

lemma calm_log:
  "within (calm login active) (set_server (\<lambda>s. s\<lparr>sv_activity := snd (Add_event t w e (sv_activity s))\<rparr>))"
  by (simp add: within_def calm_def step_defs log_callI r_into_rtranclp)

lemma calm_add_activity [calm]: "within (calm login active) (add_activity a out p d n det)"
  unfolding add_activity_def by (intro calm.rules calm calm_log)

lemma calm_logActivity [calm]: "within (calm login active) (logActivity a out p d n det)"
  unfolding logActivity_def monitorSuccessDue_def by (intro calm.rules calm calm_server) simp_all

lemma calm_hooks [calm]: "within (calm login active) (run_hook v)"
  "within (calm login active) (notifyPublicMutation p v)" "within (calm login active) (run_hook_if b v)"
  unfolding run_hook_def notifyPublicMutation_def run_hook_if_def
  by (intro calm.rules calm_server; simp)+

lemma calm_gateway [calm]:
  "within (calm login active) isLoopbackListener" "within (calm login active) natGatewayAddress"
  "within (calm login active) (learn_external_ip a)" "within (calm login active) upnp"
  "within (calm login active) clearUPnP"
  unfolding isLoopbackListener_def natGatewayAddress_def learn_external_ip_def setMappedExternalIP_def
    upnp_def clearUPnP_def
  by (intro calm.rules calm_server; simp)+

lemma calm_mapping [calm]:
  "within (calm login active) (mapUPnPTCP p)" "within (calm login active) (deleteUPnPTCP p)"
  "within (calm login active) (mapPassivePort p)" "within (calm login active) (unmapPassivePort p)"
  "within (calm login active) (releasePassivePort p)"
proof -
  show m: "within (calm login active) (mapUPnPTCP p)" for p
    unfolding mapUPnPTCP_def by (intro calm.rules calm)
  show d: "within (calm login active) (deleteUPnPTCP p)" for p
    unfolding deleteUPnPTCP_def by (intro calm.rules calm)
  show "within (calm login active) (mapPassivePort p)"
    unfolding mapPassivePort_def by (intro calm.rules calm m)
  show u: "within (calm login active) (unmapPassivePort p)" for p
    unfolding unmapPassivePort_def by (intro calm.rules calm d)
  show "within (calm login active) (releasePassivePort p)"
    unfolding releasePassivePort_def by (intro calm.rules u)
qed

lemma calm_close [calm]:
  "within (calm login active) closePassive" "within (calm login active) closeDataSetup"
  "within (calm login active) (closeData d)"
  unfolding closePassive_def closeDataSetup_def closeData_def
  by (intro calm.rules calm calm_session; simp)+

lemma try_ports_Some:
  "try_ports listen ports k i n = Some (idx, port) \<Longrightarrow> ports \<noteq> [] \<Longrightarrow> idx < length ports"
  by (induction listen ports k i n rule: try_ports.induct) (auto simp: Let_def split: if_splits)

lemma calm_listenPassive [calm]: "within (calm login active) listenPassive"
  unfolding listenPassive_def within_def
  by (auto simp: step_defs calm_def split: option.split prod.split)

lemma calm_data [calm]:
  "within (calm login active) openData" "within (calm login active) beginDataTransfer"
proof -
  show o: "within (calm login active) openData"
    unfolding openData_def by (intro calm.rules calm calm_session) simp_all
  have "within (calm login active) (tell (\<lambda>c. c\<lparr>cx_crashed := True\<rparr>))"
    by (simp add: within_def calm_def)
  then show "within (calm login active) beginDataTransfer"
    unfolding beginDataTransfer_def by (intro calm.rules calm o)
qed

lemma calm_enterPassive [calm]: "within (calm login active) (enterPassive e)"
  unfolding enterPassive_def by (intro calm.rules calm calm_session) simp_all

lemma calm_enterActive [calm]:
  "within (calm login True) (enterActive a)" "within (calm login True) (enterExtendedActive a)"
  unfolding enterActive_def enterExtendedActive_def
  by (intro calm.rules calm calm_session; simp)+

lemma calm_auth [calm]:
  "within (calm login active) loginLimitKey" "within (calm login active) requireAuth"
  "within (calm login active) (requireAuthPerm n)" "within (calm login active) (authTLS a)"
  "within (calm login active) (prot a)" "within (calm login active) (resolve a)"
proof -
  show "within (calm login active) loginLimitKey"
    unfolding loginLimitKey_def by (intro calm.rules)
  show r: "within (calm login active) requireAuth"
    unfolding requireAuth_def by (intro calm.rules calm calm_session) simp_all
  show "within (calm login active) (requireAuthPerm n)"
    unfolding requireAuthPerm_def by (intro calm.rules calm r)
  show "within (calm login active) (authTLS a)" "within (calm login active) (prot a)"
    "within (calm login active) (resolve a)"
    unfolding authTLS_def prot_def resolve_def by (intro calm.rules calm calm_session; simp)+
qed

lemma calm_pass [calm]: "within (calm True active) (accept_login u p)" "within (calm True active) (pass a)"
proof -
  show a: "within (calm True active) (accept_login u p)" for u p
    unfolding accept_login_def by (intro calm.rules calm calm_session) simp_all
  show "within (calm True active) (pass a)"
    unfolding pass_def by (intro calm.rules calm a)
qed

lemma calm_listings [calm]:
  "within (calm login active) (changeDir a)"
  "(\<And>x. within (calm login active) line) \<Longrightarrow> within (calm login active) (list_with a line)"
  unfolding changeDir_def list_with_def by (intro calm.rules calm calm_session; simp)+

lemma calm_list [calm]:
  "within (calm login active) (list a n)" "within (calm login active) (mlsd a)"
  "within (calm login active) (mlst a)"
  unfolding list_def mlsd_def mlst_def by (intro calm.rules calm)+

lemma calm_retrieve [calm]:
  "within (calm login active) (restart a)" "within (calm login active) consumeRestart"
  "within (calm login active) (retrieve_restart p n k)"
  "within (calm login active) (retrieve_transfer a p v k r)"
  unfolding restart_def consumeRestart_def retrieve_restart_def retrieve_transfer_def
  by (intro calm.rules calm calm_session; simp)+

lemma calm_retrieve' [calm]: "within (calm login active) (retrieve a)"
  unfolding retrieve_def by (intro calm.rules calm)

lemma calm_store [calm]:
  "within (calm login active) (stage_current p q b d e k)" "within (calm login active) (receive p d')"
  "within (calm login active) (finalize_upload p q v ex)"
  unfolding stage_current_def receive_def finalize_upload_def by (intro calm.rules calm)+

lemma calm_store_transfer [calm]: "within (calm login active) (store_transfer a p q v ex k r)"
  unfolding store_transfer_def by (intro calm.rules calm)

lemma calm_store_staged [calm]: "within (calm login active) (store_staged a b q v ex k r)"
  unfolding store_staged_def by (intro calm.rules calm)

lemma calm_store' [calm]: "within (calm login active) (store a b)"
  unfolding store_def by (intro calm.rules calm)

lemma calm_files [calm]:
  "within (calm login active) (delete_with a rm d f m t dm)" "within (calm login active) (mkdir a)"
  "within (calm login active) (renameFromPath a)" "within (calm login active) (renameToPath a)"
  "within (calm login active) (sz a)" "within (calm login active) (mdtm a)"
  unfolding delete_with_def mkdir_def renameFromPath_def renameToPath_def sz_def mdtm_def
  by (intro calm.rules calm calm_session; simp)+

lemma calm_delete [calm]: "within (calm login active) (delete a)" "within (calm login active) (rmdir a)"
  unfolding delete_def rmdir_def by (intro calm)+

lemma calm_commands [calm]:
  "within (calm login active) (typ_command a)" "within (calm login active) (clnt a)"
  "within (calm login active) h \<Longrightarrow> within (calm login active) (continue h)"
  "within (calm login active) g \<Longrightarrow> within (calm login active) h \<Longrightarrow>
    within (calm login active) (whenAuth g h)"
  unfolding typ_command_def clnt_def continue_def whenAuth_def
  by (intro calm.rules calm calm_session; simp)+

lemma calm_dispatch:
  "within (calm (cmd = ''PASS'') (cmd = ''PORT'' \<or> cmd = ''EPRT'')) (dispatch cmd arg)"
  unfolding dispatch_def
  by (intro calm.conditional; (intro calm.rules calm calm_session; simp)?; simp add: calm)

subsection \<open>No login without TLS\<close>

definition tls_ok :: "ctx \<Rightarrow> bool" where
  "tls_ok c \<longleftrightarrow> fc_RequireTLS (sv_cfg (cx_sv c)) \<and> sv_tls (cx_sv c) \<and>
     (ss_authenticated (cx_ss c) \<longrightarrow> ss_secure (cx_ss c))"

lemma dispatch_tls: "tls_ok c \<Longrightarrow> tls_ok (snd (run_state (dispatch cmd arg) c))"
proof (cases "cmd = ''PASS'' \<and> \<not> ss_secure (cx_ss c)")
  case True
  assume "tls_ok c"
  with True have "run_state (dispatch cmd arg) c =
      (False, c\<lparr>cx_replies := cx_replies c @ [Reply 534 ''TLS required'']\<rparr>)"
    by (simp add: dispatch_def pass_def step_defs reply_def tls_ok_def)
  with \<open>tls_ok c\<close> show ?thesis by (simp add: tls_ok_def)
next
  case False
  assume "tls_ok c"
  moreover have "calm (cmd = ''PASS'') (cmd = ''PORT'' \<or> cmd = ''EPRT'') c
      (snd (run_state (dispatch cmd arg) c))"
    using calm_dispatch by (simp add: within_def)
  ultimately show ?thesis using False by (auto simp: tls_ok_def calm_def)
qed

lemma handle_line_tls: "tls_ok c \<Longrightarrow> tls_ok (snd (run_state (handle_line l) c))"
  using dispatch_tls by (auto simp: handle_line_def Let_def split: prod.split) (metis snd_conv)

lemma serve_tls: "tls_ok c \<Longrightarrow> tls_ok (snd (run_state (serve inputs) c))"
proof (induction inputs arbitrary: c)
  case (Cons input inputs)
  obtain l answers where i: "input = (l, answers)" by force
  let ?c = "c\<lparr>cx_net := answers\<rparr>"
  have "tls_ok ?c" using Cons.prems by (simp add: tls_ok_def)
  then have h: "tls_ok (snd (run_state (handle_line l) ?c))" by (rule handle_line_tls)
  obtain b d where "run_state (handle_line l) ?c = (b, d)" by force
  with h i Cons.IH[of d] show ?case by (simp add: step_defs)
qed simp

text \<open>C14: no login in the clear when TLS is required. A server that \<open>New\<close> starts with
  \<open>require_tls\<close> has a certificate, and on a connection to it, whatever commands are sent and however
  the network behaves, nobody is logged in before the control connection is encrypted.\<close>

theorem tls_before_login:
  assumes "New_server cfg auth root act tracker certificate kdf json pc = Some (Inr sv)" and "fc_RequireTLS cfg"
    and "sv_cfg (cx_sv c) = sv_cfg sv" and "sv_tls (cx_sv c) = sv_tls sv"
    and "cx_ss c = new_session remote i"
    and "run_state (serve inputs) c = (b, c')"
  shows "ss_authenticated (cx_ss c') \<longrightarrow> ss_secure (cx_ss c')"
proof -
  have "sv_cfg sv = cfg" "sv_tls sv"
    using assms(1,2) by (auto simp: New_server_def Let_def split: sum.splits if_splits option.splits)
  then have "tls_ok c" using assms(2-5) by (simp add: tls_ok_def new_session_def)
  then show ?thesis using serve_tls[of c inputs] assms(6) by (simp add: tls_ok_def)
qed

subsection \<open>Every command is answered\<close>

definition answered :: "'a ftp \<Rightarrow> bool" where
  "answered m \<longleftrightarrow> (\<forall>c. length (cx_replies c) < length (cx_replies (snd (run_state m c))))"

abbreviation grows_only :: "'a ftp \<Rightarrow> bool" where
  "grows_only m \<equiv> within (calm True True) m"

lemma grows_only_replies:
  "grows_only m \<Longrightarrow> length (cx_replies c) \<le> length (cx_replies (snd (run_state m c)))"
  by (auto simp: within_def calm_def prefix_length_le)

lemma answered_first:
  assumes "answered m" and "\<And>x. grows_only (f x)"
  shows "answered (m \<bind> f)"
  unfolding answered_def
proof
  fix c
  obtain x d where "run_state m c = (x, d)" by force
  then show "length (cx_replies c) < length (cx_replies (snd (run_state (m \<bind> f) c)))"
    using assms(1)[unfolded answered_def, rule_format, of c] grows_only_replies[OF assms(2), of d x]
    by simp
qed

lemma answered_then:
  assumes "grows_only m" and "\<And>x. answered (f x)"
  shows "answered (m \<bind> f)"
  unfolding answered_def
proof
  fix c
  obtain x d where "run_state m c = (x, d)" by force
  then show "length (cx_replies c) < length (cx_replies (snd (run_state (m \<bind> f) c)))"
    using grows_only_replies[OF assms(1), of c] assms(2)[of x, unfolded answered_def, rule_format, of d]
    by simp
qed

lemma answered_reply: "answered (reply c s)" "answered (multiline c ls s)"
  by (simp_all add: answered_def reply_def multiline_def)

lemma answered_conditional: "(b \<Longrightarrow> answered m) \<Longrightarrow> (\<not> b \<Longrightarrow> answered m') \<Longrightarrow> answered (if b then m else m')"
  by simp

lemma answered_sum:
  "(\<And>e. r = Inl e \<Longrightarrow> answered (f e)) \<Longrightarrow> (\<And>x. r = Inr x \<Longrightarrow> answered (g x)) \<Longrightarrow>
    answered (case_sum f g r)"
  by (cases r) auto

lemma answered_option:
  "(r = None \<Longrightarrow> answered f) \<Longrightarrow> (\<And>x. r = Some x \<Longrightarrow> answered (g x)) \<Longrightarrow> answered (case_option f g r)"
  by (cases r) auto

lemma answered_pair: "(\<And>a b. r = (a, b) \<Longrightarrow> answered (f a b)) \<Longrightarrow> answered (case_prod f r)"
  by (cases r) auto

lemma answered_let: "answered (f x) \<Longrightarrow> answered (Let x f)"
  by simp

lemmas answered_cases =
  answered_reply answered_conditional answered_sum answered_option answered_pair answered_let

lemma calm_crash [calm]: "within (calm login active) (tell (\<lambda>c. c\<lparr>cx_crashed := True\<rparr>))"
  by (simp add: within_def calm_def)

lemma answered_reply_bind:
  "(\<And>x. grows_only (f x)) \<Longrightarrow> answered (reply c s \<bind> f)"
  by (rule answered_first[OF answered_reply(1)])

lemma answered_data: "answered beginDataTransfer"
  unfolding beginDataTransfer_def
  by (intro answered_then answered_sum answered_reply_bind calm.rules calm)

lemma answered_data_bind: "(\<And>x. grows_only (f x)) \<Longrightarrow> answered (beginDataTransfer \<bind> f)"
  by (rule answered_first[OF answered_data])

lemmas answered_rules = answered_cases answered_reply_bind answered_data_bind answered_then

lemma answered_accept: "answered (accept_login u p)"
  unfolding accept_login_def by (intro answered_rules calm.rules calm calm_session) simp_all

lemma answered_accept_bind: "(\<And>x. grows_only (f x)) \<Longrightarrow> answered (accept_login u p \<bind> f)"
  by (rule answered_first[OF answered_accept])

lemma answered_login: "answered (pass a)" "answered (authTLS a)" "answered (prot a)"
proof -
  show "answered (pass a)"
    unfolding pass_def by (intro answered_accept_bind answered_rules calm.rules calm)
  show "answered (authTLS a)"
    unfolding authTLS_def by (intro answered_rules calm.rules calm calm_session) simp_all
  show "answered (prot a)"
    unfolding prot_def by (intro answered_rules calm.rules calm calm_session) simp_all
qed

lemma answered_passive: "answered (enterPassive e)" "answered (enterActive a)" "answered (enterExtendedActive a)"
  unfolding enterPassive_def enterActive_def enterExtendedActive_def
  by (intro answered_rules calm.rules calm calm_session; simp)+

lemma answered_listings: "answered (changeDir a)" "answered (list a n)" "answered (mlsd a)" "answered (mlst a)"
  unfolding changeDir_def list_def mlsd_def mlst_def list_with_def
  by (intro answered_rules calm.rules calm calm_session; simp)+

lemma answered_retrieve: "answered (restart a)" "answered (retrieve a)"
  unfolding restart_def retrieve_def retrieve_transfer_def
  by (intro answered_rules calm.rules calm calm_session; simp)+

lemma answered_store_transfer: "answered (store_transfer a p q v ex k r)"
  unfolding store_transfer_def by (intro answered_rules calm.rules calm)

lemma answered_option_bind:
  "answered f \<Longrightarrow> (\<And>x. answered (g x)) \<Longrightarrow> (\<And>x. grows_only (k x)) \<Longrightarrow> answered (case_option f g r \<bind> k)"
  by (intro answered_first answered_option)

lemma answered_sum_bind:
  "(\<And>e. answered (f e)) \<Longrightarrow> (\<And>x. answered (g x)) \<Longrightarrow> (\<And>x. grows_only (k x)) \<Longrightarrow> answered (case_sum f g r \<bind> k)"
  by (intro answered_first answered_sum)

lemma answered_store_staged: "answered (store_staged a b q v ex k r)"
  unfolding store_staged_def
  by (intro answered_option_bind answered_store_transfer answered_rules calm.rules calm)

lemma answered_store: "answered (store a b)"
  unfolding store_def by (intro answered_store_staged answered_rules calm.rules calm)

lemma answered_files:
  "answered (delete a)" "answered (rmdir a)" "answered (mkdir a)" "answered (renameFromPath a)"
  "answered (sz a)" "answered (mdtm a)" "answered (typ_command a)" "answered (clnt a)"
  unfolding delete_def rmdir_def delete_with_def mkdir_def renameFromPath_def sz_def mdtm_def
    typ_command_def clnt_def
  by (intro answered_rules calm.rules calm calm_session; simp)+

lemma answered_renameTo: "answered (renameToPath a)"
  unfolding renameToPath_def
  by (intro answered_sum_bind answered_rules calm.rules calm calm_session) simp_all

definition refusing :: "bool ftp \<Rightarrow> bool" where
  "refusing m \<longleftrightarrow> (\<forall>c. \<not> fst (run_state m c) \<longrightarrow>
     length (cx_replies c) < length (cx_replies (snd (run_state m c))))"

lemma refusing_auth: "refusing requireAuth" "refusing (requireAuthPerm n)"
proof -
  show r: "refusing requireAuth"
    by (auto simp: refusing_def requireAuth_def step_defs reply_def split: option.split)
  show "refusing (requireAuthPerm n)"
    unfolding refusing_def
  proof (intro allI impI)
    fix c
    assume no: "\<not> fst (run_state (requireAuthPerm n) c)"
    obtain b d where run: "run_state requireAuth c = (b, d)" by force
    then have "\<not> b \<longrightarrow> length (cx_replies c) < length (cx_replies d)"
      and "length (cx_replies c) \<le> length (cx_replies d)"
      using r[unfolded refusing_def, rule_format, of c] grows_only_replies[OF calm_auth(2), of c] by simp_all
    then show "length (cx_replies c) < length (cx_replies (snd (run_state (requireAuthPerm n) c)))"
      using no by (auto simp: requireAuthPerm_def run step_defs reply_def)
  qed
qed

lemma answered_whenAuth:
  assumes "refusing g" and "grows_only g" and "answered h"
  shows "answered (whenAuth g h)"
  unfolding answered_def
proof
  fix c
  obtain b d where run: "run_state g c = (b, d)" by force
  then have "length (cx_replies c) \<le> length (cx_replies d)" and
      "\<not> b \<longrightarrow> length (cx_replies c) < length (cx_replies d)"
    using assms(1)[unfolded refusing_def, rule_format, of c] grows_only_replies[OF assms(2), of c] by simp_all
  moreover have "length (cx_replies d) < length (cx_replies (snd (run_state h d)))"
    using assms(3) by (simp add: answered_def)
  ultimately show "length (cx_replies c) < length (cx_replies (snd (run_state (whenAuth g h) c)))"
    by (auto simp: whenAuth_def run split: prod.split)
qed

lemma answered_continue: "answered h \<Longrightarrow> answered (continue h)"
  unfolding continue_def by (intro answered_first calm.rules)

text \<open>C15: every command is answered. Whatever the command, its argument, the state of the
  session and the behaviour of disk and network, handling it appends at least one reply to the
  control connection, and takes none of the earlier ones back.\<close>

theorem every_command_answered:
  "\<exists>r rs. cx_replies (snd (run_state (dispatch cmd arg) c)) = cx_replies c @ r # rs"
proof -
  have "answered (dispatch cmd arg)"
    unfolding dispatch_def
    by (intro answered_conditional answered_continue answered_whenAuth refusing_auth answered_login
        answered_passive answered_listings answered_retrieve answered_store answered_files
        answered_renameTo calm answered_rules calm.rules calm_session) simp_all
  moreover have "prefix (cx_replies c) (cx_replies (snd (run_state (dispatch cmd arg) c)))"
    using calm_dispatch[of cmd arg] by (simp add: within_def calm_def)
  ultimately show ?thesis
    by (auto simp: answered_def prefix_def neq_Nil_conv dest!: spec[of _ c])
qed

subsection \<open>Nothing without the right to it\<close>

text \<open>The right a command needs: a permission, or the empty name for being logged in.\<close>

definition right_for :: "string \<Rightarrow> string option" where
  "right_for cmd =
     (if cmd \<in> {''PWD'', ''XPWD'', ''PASV'', ''EPSV'', ''PORT'', ''EPRT'', ''REST''} then Some []
      else if cmd \<in> {''CWD'', ''CDUP'', ''LIST'', ''NLST'', ''MLSD'', ''MLST''} then Some ''list''
      else if cmd \<in> {''RETR'', ''SIZE'', ''MDTM''} then Some ''download''
      else if cmd \<in> {''STOR'', ''APPE''} then Some ''upload''
      else if cmd \<in> {''DELE'', ''RMD'', ''XRMD''} then Some ''delete''
      else if cmd \<in> {''MKD'', ''XMKD''} then Some ''mkdir''
      else if cmd \<in> {''RNFR'', ''RNTO''} then Some ''rename''
      else None)"

text \<open>Logged in to an account that still exists, is enabled and has the permission now.\<close>

definition entitled :: "string \<Rightarrow> ctx \<Rightarrow> bool" where
  "entitled right c \<longleftrightarrow> ss_authenticated (cx_ss c) \<and>
     (case Permissions_of (sv_auth (cx_sv c)) (u_Username (ss_user (cx_ss c))) of
        None \<Rightarrow> False
      | Some (_, perms) \<Rightarrow> right = [] \<or> permits perms right)"

definition refused :: "ctx \<Rightarrow> ctx \<Rightarrow> bool" where
  "refused c c' \<longleftrightarrow>
     (\<exists>user perms auth r. reply_code r \<in> {530, 550} \<and> (auth \<longrightarrow> ss_authenticated (cx_ss c)) \<and>
       c' = c\<lparr>cx_ss := (cx_ss c)\<lparr>ss_user := user, ss_perms := perms, ss_authenticated := auth\<rparr>,
              cx_replies := cx_replies c @ [r]\<rparr>)"

lemma refusedI:
  assumes "reply_code r \<in> {530, 550}" and "auth \<longrightarrow> ss_authenticated (cx_ss c)"
    and "c' = c\<lparr>cx_ss := (cx_ss c)\<lparr>ss_user := user, ss_perms := perms, ss_authenticated := auth\<rparr>,
              cx_replies := cx_replies c @ [r]\<rparr>"
  shows "refused c c'"
  using assms unfolding refused_def by blast

lemma requireAuth_refused:
  assumes "\<not> entitled [] c"
  obtains c' where "run_state requireAuth c = (False, c')" "refused c c'"
proof (cases "ss_authenticated (cx_ss c)")
  case False
  then have "run_state requireAuth c = (False, c\<lparr>cx_replies := cx_replies c @ [Reply 530 ''Please login'']\<rparr>)"
    by (simp add: requireAuth_def step_defs reply_def)
  moreover have "refused c (c\<lparr>cx_replies := cx_replies c @ [Reply 530 ''Please login'']\<rparr>)"
    by (rule refusedI[where user = "ss_user (cx_ss c)" and perms = "ss_perms (cx_ss c)"
          and auth = "ss_authenticated (cx_ss c)"]) simp_all
  ultimately show thesis by (rule that)
next
  case True
  with assms have none: "Permissions_of (sv_auth (cx_sv c)) (u_Username (ss_user (cx_ss c))) = None"
    by (simp add: entitled_def split: option.splits)
  let ?c = "c\<lparr>cx_ss := (cx_ss c)\<lparr>ss_authenticated := False, ss_perms := no_permissions\<rparr>,
    cx_replies := cx_replies c @ [Reply 530 ''Account unavailable'']\<rparr>"
  from True none have "run_state requireAuth c = (False, ?c)"
    by (simp add: requireAuth_def step_defs reply_def)
  moreover have "refused c ?c"
    by (rule refusedI[where user = "ss_user (cx_ss c)" and perms = no_permissions and auth = False
          and r = "Reply 530 ''Account unavailable''"]; cases "cx_ss c"; simp)
  ultimately show thesis by (rule that)
qed

lemma requireAuth_entitled:
  assumes "entitled [] c"
  obtains user perms where
    "Permissions_of (sv_auth (cx_sv c)) (u_Username (ss_user (cx_ss c))) = Some (user, perms)"
    "run_state requireAuth c = (True, c\<lparr>cx_ss := (cx_ss c)
       \<lparr>ss_user := user\<lparr>u_Permissions := perms\<rparr>, ss_perms := perms\<rparr>\<rparr>)"
proof -
  obtain user perms where p:
    "Permissions_of (sv_auth (cx_sv c)) (u_Username (ss_user (cx_ss c))) = Some (user, perms)"
    using assms by (auto simp: entitled_def split: option.splits)
  moreover have "ss_authenticated (cx_ss c)" using assms by (simp add: entitled_def)
  ultimately show thesis
    by (intro that) (simp_all add: requireAuth_def step_defs)
qed

lemma requireAuthPerm_refused:
  assumes "\<not> entitled right c" and "right \<noteq> []"
  obtains c' where "run_state (requireAuthPerm right) c = (False, c')" "refused c c'"
proof (cases "entitled [] c")
  case False
  then obtain c' where "run_state requireAuth c = (False, c')" "refused c c'"
    by (rule requireAuth_refused)
  then show thesis by (intro that) (simp_all add: requireAuthPerm_def)
next
  case True
  then obtain user perms where p:
    "Permissions_of (sv_auth (cx_sv c)) (u_Username (ss_user (cx_ss c))) = Some (user, perms)"
    and run: "run_state requireAuth c = (True, c\<lparr>cx_ss := (cx_ss c)
       \<lparr>ss_user := user\<lparr>u_Permissions := perms\<rparr>, ss_perms := perms\<rparr>\<rparr>)"
    by (rule requireAuth_entitled)
  have "ss_authenticated (cx_ss c)" using True by (simp add: entitled_def)
  with assms p have "\<not> permits perms right" by (simp add: entitled_def)
  let ?c = "c\<lparr>cx_ss := (cx_ss c)\<lparr>ss_user := user\<lparr>u_Permissions := perms\<rparr>, ss_perms := perms\<rparr>,
    cx_replies := cx_replies c @ [Reply 550 (''Permission denied: '' @ right)]\<rparr>"
  have "run_state (requireAuthPerm right) c = (False, ?c)"
    using \<open>\<not> permits perms right\<close> by (simp add: requireAuthPerm_def run step_defs reply_def)
  moreover have "refused c ?c"
    by (rule refusedI[where user = "user\<lparr>u_Permissions := perms\<rparr>" and perms = perms
          and auth = "ss_authenticated (cx_ss c)"]) simp_all
  ultimately show thesis by (rule that)
qed

lemma whenAuth_refused: "run_state g c = (False, c') \<Longrightarrow> run_state (whenAuth g h) c = (False, c')"
  by (simp add: whenAuth_def)

lemma dispatch_guard:
  "right_for cmd = Some right \<Longrightarrow> \<exists>h. dispatch cmd arg =
    whenAuth (if right = [] then requireAuth else requireAuthPerm right) h"
  unfolding right_for_def
  by (simp split: if_splits; elim disjE; simp add: dispatch_def; blast)

text \<open>C12: nothing without the right to it. When the session is not logged in, or its account
  has been deleted, disabled or stripped of the permission a command needs since it logged in, the
  command is refused with one 530 or 550 reply: neither the disk nor the server's state is touched,
  no data connection is used, and of the session only what it knows of its account changes.\<close>

theorem refused_without_right:
  assumes "right_for cmd = Some right" and "\<not> entitled right c"
  shows "\<exists>c'. run_state (dispatch cmd arg) c = (False, c') \<and> refused c c'"
proof -
  obtain h where h: "dispatch cmd arg = whenAuth (if right = [] then requireAuth else requireAuthPerm right) h"
    using dispatch_guard[OF assms(1)] by blast
  show ?thesis
  proof (cases "right = []")
    case True
    with assms(2) obtain c' where "run_state requireAuth c = (False, c')" "refused c c'"
      using requireAuth_refused by auto
    then show ?thesis using whenAuth_refused True h by auto
  next
    case False
    with assms(2) obtain c' where "run_state (requireAuthPerm right) c = (False, c')" "refused c c'"
      by (rule requireAuthPerm_refused)
    then show ?thesis using whenAuth_refused False h by auto
  qed
qed

text \<open>A server with one administrator, a peer and a network on which everything works.\<close>

definition sample_peer :: addr where
  "sample_peer = \<lparr>ad_String = ''10.0.0.1:4000'', ad_TCP_IP = Some (v4_prefix @ [10, 0, 0, 1])\<rparr>"

definition sample_gateway :: gateway where
  "sample_gateway = \<lparr>gw_discover = Inl ErrIO, gw_pmp_public = None, gw_pmp_map = (\<lambda>_. Inl ErrIO),
     gw_pmp_delete = (\<lambda>_. None), gw_upnp_discover = Some ErrIO, gw_upnp_public = None,
     gw_upnp_map = (\<lambda>_. None), gw_upnp_delete = (\<lambda>_. None)\<rparr>"

definition sample_data :: "string \<Rightarrow> bool \<Rightarrow> data_conn" where
  "sample_data s handshake = \<lparr>dc_remote = sample_peer, dc_received = s, dc_read_err = None,
     dc_accepts = None, dc_handshake = handshake\<rparr>"

definition sample_net :: "string \<Rightarrow> bool \<Rightarrow> net" where
  "sample_net s handshake = \<lparr>nt_listen = Some, nt_accept = [sample_data s handshake],
     nt_dial = (\<lambda>_. None), nt_handshake = True, nt_gateway = sample_gateway, nt_lookup = (\<lambda>_. []),
     nt_localIP = None, nt_logged = True, nt_zone = (\<lambda>t. t), nt_error_text = (\<lambda>_. [])\<rparr>"

definition sample_account :: User where
  "sample_account = sample_user\<lparr>u_Home := [slash], u_Permissions := AdminPermissions\<rparr>"

definition sample_server :: "FTPConfig \<Rightarrow> server" where
  "sample_server cfg = projr (the (New_server cfg
     \<lparr>as_db = \<lparr>db_Users = [(''bob'', sample_account)], db_Groups = []\<rparr>, as_disk = None\<rparr>
     sample_root None None None (\<lambda>_ _ _ _. []) sample_codec False))"

definition sample_ctx :: "FTPConfig \<Rightarrow> ctx" where
  "sample_ctx cfg = \<lparr>cx_ss = new_session sample_peer 0, cx_sv = sample_server cfg,
     cx_disk = sample_world (\<lambda>_. NoFault), cx_net = sample_net ''abc'' True, cx_replies = [],
     cx_sent = [], cx_crashed = False\<rparr>"

text \<open>The same with the account logged in and a passive port open.\<close>

definition sample_session :: "FTPConfig \<Rightarrow> ctx" where
  "sample_session cfg = (sample_ctx cfg)\<lparr>cx_ss := (new_session sample_peer 0)
     \<lparr>ss_user := sample_account, ss_perms := AdminPermissions, ss_authenticated := True,
      ss_passive := True, ss_passivePort := 50000\<rparr>\<rparr>"

theorem refused_without_right_witness:
  "\<exists>c'. run_state (dispatch ''RETR'' ''a'') (sample_ctx (cfg_FTP Default)) = (False, c') \<and>
     refused (sample_ctx (cfg_FTP Default)) c'"
  by (rule refused_without_right[where right = "''download''"])
    (simp_all add: right_for_def entitled_def sample_ctx_def new_session_def)

definition tls_config :: FTPConfig where
  "tls_config = (cfg_FTP Default)\<lparr>fc_TLSCertFile := ''c'', fc_TLSKeyFile := ''k'', fc_RequireTLS := True,
     fc_PassivePorts := []\<rparr>"

theorem tls_before_login_witness:
  "let c' = snd (run_state (serve [(''USER bob'', sample_net [] True), (''PASS x'', sample_net [] True)])
        (sample_ctx tls_config))
   in map reply_code (cx_replies c') = [331, 534] \<and>
      (ss_authenticated (cx_ss c') \<longrightarrow> ss_secure (cx_ss c'))"
proof -
  let ?auth = "\<lparr>as_db = \<lparr>db_Users = [(''bob'', sample_account)], db_Groups = []\<rparr>, as_disk = None\<rparr>"
  let ?new = "New_server tls_config ?auth sample_root None None None (\<lambda>_ _ _ _. []) sample_codec False"
  have "map_option is_Inr ?new = Some True" by code_simp
  then have new: "?new = Some (Inr (sample_server tls_config))"
    unfolding sample_server_def by (auto simp: is_Inr_iff)
  have "fc_RequireTLS tls_config" by code_simp
  moreover have "map reply_code (cx_replies (snd (run_state (serve [(''USER bob'', sample_net [] True),
      (''PASS x'', sample_net [] True)]) (sample_ctx tls_config)))) = [331, 534]"
    by code_simp
  ultimately show ?thesis
    using tls_before_login[OF new, of "sample_ctx tls_config" sample_peer 0
        "[(''USER bob'', sample_net [] True), (''PASS x'', sample_net [] True)]"
        "fst (run_state (serve [(''USER bob'', sample_net [] True), (''PASS x'', sample_net [] True)])
          (sample_ctx tls_config))"
        "snd (run_state (serve [(''USER bob'', sample_net [] True), (''PASS x'', sample_net [] True)])
          (sample_ctx tls_config))"]
    by (simp add: Let_def sample_ctx_def)
qed

end
