(* ===== verification/FtpLogin.thy ===== *)
theory FtpLogin
  imports FtpProofs
begin

text \<open>
  The \<open>PASS\<close> command against the limiter and the account store, and the login state of a session
  over its whole life.
\<close>

subsection \<open>What a handler leaves alone\<close>

definition login_kept :: "ctx \<Rightarrow> ctx \<Rightarrow> bool" where
  "login_kept c c' \<longleftrightarrow> cx_ss c' = cx_ss c \<and> sv_limiter (cx_sv c') = sv_limiter (cx_sv c)"

interpretation lk: ftp_transition login_kept
  by unfold_locales (simp_all add: login_kept_def)

lemma lk_server: "(\<And>s. sv_limiter (f s) = sv_limiter s) \<Longrightarrow> within login_kept (set_server f)"
  by (simp add: within_def login_kept_def step_defs)

lemma lk_prims:
  "within login_kept (disk op)" "within login_kept now" "within login_kept (reply code msg)"
  by (simp_all add: within_def login_kept_def disk_def now_def reply_def split: prod.split)

lemma lk_log: "within login_kept (updateStatus f)" "within login_kept (logActivity a b p d n t)"
  unfolding updateStatus_def logActivity_def add_activity_def monitorSuccessDue_def
  by (intro lk.rules lk_prims lk_server; simp)+

text \<open>The last reply of a computation that ends in one.\<close>

lemma last_reply: "last (cx_replies (snd (run_state (m \<bind> (\<lambda>_. reply code msg)) c))) = Reply code msg"
  by (simp add: reply_def split: prod.split)

lemma login_kept_bind:
  "within login_kept m \<Longrightarrow> run_state m c = (x, d) \<Longrightarrow> cx_ss d = cx_ss c \<and> sv_limiter (cx_sv d) = sv_limiter (cx_sv c)"
  by (drule (1) withinD) (simp add: login_kept_def)

definition logged_in :: "User \<Rightarrow> PermissionSet \<Rightarrow> session \<Rightarrow> session" where
  "logged_in user perms s =
     s\<lparr>ss_user := user\<lparr>u_Permissions := perms\<rparr>, ss_perms := perms, ss_authenticated := True,
       ss_cwd := (if u_Home user = [] then [slash] else u_Home user)\<rparr>"

lemma accept_login_run:
  assumes "run_state (accept_login user perms) c = (x, c')"
  shows "cx_ss c' = logged_in user perms (cx_ss c)" "sv_limiter (cx_sv c') = sv_limiter (cx_sv c)"
    "last (cx_replies c') = Reply 230 ''Login successful''"
proof -
  let ?cwd = "if u_Home user = [] then [slash] else u_Home user"
  let ?d = "c\<lparr>cx_ss := logged_in user perms (cx_ss c)\<rparr>"
  define rest where "rest = do {
     (if ?cwd \<noteq> [slash] then do { _ \<leftarrow> disk (\<lambda>r. EnsureUserHome r (user\<lparr>u_Permissions := perms\<rparr>)); ret () }
      else ret ());
     secure \<leftarrow> session ss_secure;
     updateStatus (\<lambda>st. st\<lparr>st_User := u_Username user, st_Action := ''idle'', st_Path := ?cwd,
       st_Secure := secure\<rparr>);
     logActivity ''login'' ''ok'' ?cwd [] 0 ''FTP login'' }"
  have "accept_login user perms = set_session (logged_in user perms) \<bind>
      (\<lambda>_. rest \<bind> (\<lambda>_. reply 230 ''Login successful''))"
    by (simp add: accept_login_def Let_def rest_def logged_in_def[abs_def])
  with assms have run: "run_state (rest \<bind> (\<lambda>_. reply 230 ''Login successful'')) ?d = (x, c')"
    by (simp add: step_defs del: bind_assoc)
  have "within login_kept (rest \<bind> (\<lambda>_. reply 230 ''Login successful''))"
    unfolding rest_def by (intro lk.rules lk_prims lk_log)
  from withinD[OF this run] show "cx_ss c' = logged_in user perms (cx_ss c)"
    "sv_limiter (cx_sv c') = sv_limiter (cx_sv c)"
    by (simp_all add: login_kept_def)
  show "last (cx_replies c') = Reply 230 ''Login successful''"
    using last_reply[of rest 230 "''Login successful''" ?d] run by simp
qed

subsection \<open>PASS is a guarded attempt\<close>

definition login_key :: "ctx \<Rightarrow> string" where
  "login_key c = remoteHost (Some (ss_remote (cx_ss c))) @ ''|'' @ ToLower (TrimSpace (ss_username (cx_ss c)))"

definition clock_at :: "ctx \<Rightarrow> nat \<Rightarrow> time" where
  "clock_at c n = w_clock (cx_disk c) (w_ticks (cx_disk c) + n)"

definition credentials :: "ctx \<Rightarrow> string \<Rightarrow> (User \<times> PermissionSet) option" where
  "credentials c arg =
     Authenticate (sv_kdf (cx_sv c)) (sv_auth (cx_sv c)) (ss_username (cx_ss c)) arg"

fun outcome_code :: "outcome \<Rightarrow> int" where
  "outcome_code Limited = 421"
| "outcome_code Rejected = 530"
| "outcome_code Accepted = 230"

lemma log_reply_run:
  assumes "run_state (do { logActivity a b p q n t; reply code msg; ret x }) c = (y, c')"
  shows "y = x" "cx_ss c' = cx_ss c" "sv_limiter (cx_sv c') = sv_limiter (cx_sv c)"
    "last (cx_replies c') = Reply code msg"
proof -
  obtain z d where l: "run_state (logActivity a b p q n t) c = (z, d)" by (rule prod.exhaust)
  with assms have "y = x" "c' = d\<lparr>cx_replies := cx_replies d @ [Reply code msg]\<rparr>"
    by (simp_all add: reply_def)
  then show "y = x" "cx_ss c' = cx_ss c" "sv_limiter (cx_sv c') = sv_limiter (cx_sv c)"
    "last (cx_replies c') = Reply code msg"
    using login_kept_bind[OF lk_log(2) l] by simp_all
qed

text \<open>C13: \<open>PASS\<close> refines the limiter's guarded attempt. When the connection may log in at
  all, the reply, the closing of the connection, the new login state and the limiter's new state
  are those of one guarded attempt on the key of the peer's host and the lower-cased user name:
  the limiter is asked first, the credentials are only looked at when it allows the attempt, a
  failure is counted and a success forgotten.\<close>

theorem pass_refines_guard:
  assumes "\<not> (fc_RequireTLS (sv_cfg (cx_sv c)) \<and> sv_tls (cx_sv c) \<and> \<not> ss_secure (cx_ss c))"
    and "run_state (pass arg) c = (quit, c')"
  shows "\<exists>out. guarded_attempt Allow (\<lambda>_. Fail (clock_at c 1)) Reset (clock_at c 0) (login_key c)
        (credentials c arg \<noteq> None) (sv_limiter (cx_sv c)) = (out, sv_limiter (cx_sv c')) \<and>
     reply_code (last (cx_replies c')) = outcome_code out \<and> quit = (out = Limited) \<and>
     cx_ss c' = (if out = Accepted
                 then logged_in (fst (the (credentials c arg))) (snd (the (credentials c arg))) (cx_ss c)
                 else cx_ss c)"
proof -
  obtain allowed l1 where al: "Allow (clock_at c 0) (login_key c) (sv_limiter (cx_sv c)) = (allowed, l1)"
    by force
  let ?c1 = "c\<lparr>cx_disk := (cx_disk c)\<lparr>w_ticks := Suc (w_ticks (cx_disk c))\<rparr>,
    cx_sv := (cx_sv c)\<lparr>sv_limiter := l1\<rparr>\<rparr>"
  note start = assms(1) al[unfolded clock_at_def login_key_def]
  note run = loginLimitKey_def now_def limiter_step_def step_defs pass_def
  show ?thesis
  proof (cases allowed)
    case False
    then have "run_state (do { logActivity ''login'' ''limited'' [] [] 0 ''too many failed FTP login attempts'';
        reply 421 ''Too many failed login attempts; try again later''; ret True }) ?c1 = (quit, c')"
      using assms(2) start by (simp add: run)
    from log_reply_run[OF this] False al show ?thesis
      by (simp add: guarded_attempt_def)
  next
    case True
    show ?thesis
    proof (cases "credentials c arg")
      case None
      let ?c2 = "?c1\<lparr>cx_disk := (cx_disk c)\<lparr>w_ticks := Suc (Suc (w_ticks (cx_disk c)))\<rparr>,
        cx_sv := (cx_sv c)\<lparr>sv_limiter := Fail (clock_at c 1) (login_key c) l1\<rparr>\<rparr>"
      have "run_state (do { logActivity ''login'' ''failed'' [] [] 0 ''bad FTP credentials'';
          reply 530 ''Login incorrect''; ret False }) ?c2 = (quit, c')"
        using assms(2) start True None
        by (simp add: run credentials_def clock_at_def login_key_def)
      from log_reply_run[OF this] True None al show ?thesis
        by (simp add: guarded_attempt_def)
    next
      case (Some up)
      obtain user perms where up: "up = (user, perms)" by force
      let ?c2 = "?c1\<lparr>cx_sv := (cx_sv c)\<lparr>sv_limiter := Reset (login_key c) l1\<rparr>\<rparr>"
      obtain x d where a: "run_state (accept_login user perms) ?c2 = (x, d)" by (rule prod.exhaust)
      have "quit = False \<and> c' = d"
        using assms(2) start True Some up a
        by (simp add: run credentials_def clock_at_def login_key_def)
      with accept_login_run[OF a] True Some up al show ?thesis
        by (simp add: guarded_attempt_def)
    qed
  qed
qed

theorem pass_refines_guard_witness:
  "let out = run_state (pass ''x'') (sample_ctx tls_config\<lparr>cx_ss := (new_session sample_peer 0)\<lparr>ss_secure := True\<rparr>,
     cx_disk := (sample_world (\<lambda>_. NoFault))\<lparr>w_ticks := 5\<rparr>\<rparr>)
   in \<not> fst out \<and> reply_code (last (cx_replies (snd out))) = 530"
proof -
  let ?c = "sample_ctx tls_config\<lparr>cx_ss := (new_session sample_peer 0)\<lparr>ss_secure := True\<rparr>,
     cx_disk := (sample_world (\<lambda>_. NoFault))\<lparr>w_ticks := 5\<rparr>\<rparr>"
  have start: "\<not> (fc_RequireTLS (sv_cfg (cx_sv ?c)) \<and> sv_tls (cx_sv ?c) \<and> \<not> ss_secure (cx_ss ?c))"
    by simp
  have "run_state (pass ''x'') ?c = (fst (run_state (pass ''x'') ?c), snd (run_state (pass ''x'') ?c))"
    by simp
  from pass_refines_guard[OF start this] obtain out where
      o: "guarded_attempt Allow (\<lambda>_. Fail (clock_at ?c 1)) Reset (clock_at ?c 0)
      (login_key ?c) (credentials ?c ''x'' \<noteq> None) (sv_limiter (cx_sv ?c)) =
      (out, sv_limiter (cx_sv (snd (run_state (pass ''x'') ?c))))"
    "reply_code (last (cx_replies (snd (run_state (pass ''x'') ?c)))) = outcome_code out"
    "fst (run_state (pass ''x'') ?c) = (out = Limited)"
    by blast
  have "fst (guarded_attempt Allow (\<lambda>_. Fail (clock_at ?c 1)) Reset (clock_at ?c 0)
      (login_key ?c) (credentials ?c ''x'' \<noteq> None) (sv_limiter (cx_sv ?c))) = Rejected" by code_simp
  with o(1) have "out = Rejected" by (metis fst_conv)
  with o(2,3) show ?thesis by (simp add: Let_def)
qed

end
