(* ===== verification/FtpData.thy ===== *)
theory FtpData
  imports FtpLogin
begin

text \<open>
  Data connections: the passive ports, the address of an active one, and what a failing TLS handshake
  on one does.
\<close>

subsection \<open>Passive ports\<close>

lemma try_ports_exact:
  "case try_ports listen ports k i n of
     Some (idx, port) \<Rightarrow> \<exists>j. i \<le> j \<and> j < i + n \<and> idx = (k + j) mod length ports \<and> port = ports ! idx \<and>
       listen port \<noteq> None \<and> (\<forall>m. i \<le> m \<and> m < j \<longrightarrow> listen (ports ! ((k + m) mod length ports)) = None)
   | None \<Rightarrow> \<forall>m. i \<le> m \<and> m < i + n \<longrightarrow> listen (ports ! ((k + m) mod length ports)) = None"
proof (induction listen ports k i n rule: try_ports.induct)
  case (2 listen ports k i n)
  let ?p = "ports ! ((k + i) mod length ports)"
  show ?case
  proof (cases "listen ?p = None")
    case False
    then show ?thesis by (auto simp: Let_def intro!: exI[of _ i])
  next
    case True
    have step: "i \<le> m \<longleftrightarrow> m = i \<or> Suc i \<le> m" for m by auto
    note ih = 2[OF refl refl]
    show ?thesis
    proof (cases "try_ports listen ports k (Suc i) n")
      case None
      with ih True show ?thesis by (auto simp: Let_def step)
    next
      case (Some r)
      obtain idx port where r: "r = (idx, port)" by force
      from ih True Some r obtain j where "Suc i \<le> j" "j < Suc i + n" "idx = (k + j) mod length ports"
        "port = ports ! idx" "listen port \<noteq> None"
        "\<forall>m. Suc i \<le> m \<and> m < j \<longrightarrow> listen (ports ! ((k + m) mod length ports)) = None"
        by auto
      then show ?thesis using True Some r by (auto simp: Let_def step intro!: exI[of _ j])
    qed
  qed
qed (simp only: try_ports.simps option.case, auto)

text \<open>Passive ports are handed out in turn. Starting at the port after the one handed out
  last, the first configured port that can be listened on is taken, and the next search starts
  after it; when none can, the command fails and nothing changes.\<close>

theorem passive_port_in_turn:
  assumes "sv_ports (cx_sv c) = ports" "ports \<noteq> []" and "run_state listenPassive c = (res, c')"
  shows "case res of
     Inr port \<Rightarrow> \<exists>j < length ports.
        port = ports ! ((sv_nextPort (cx_sv c) + j) mod length ports) \<and> nt_listen (cx_net c) port \<noteq> None \<and>
        (\<forall>m < j. nt_listen (cx_net c) (ports ! ((sv_nextPort (cx_sv c) + m) mod length ports)) = None) \<and>
        c' = c\<lparr>cx_sv := (cx_sv c)\<lparr>sv_nextPort := (sv_nextPort (cx_sv c) + j + 1) mod length ports\<rparr>\<rparr>
   | Inl _ \<Rightarrow> c' = c \<and> (\<forall>port \<in> set ports. nt_listen (cx_net c) port = None)"
proof (cases "try_ports (nt_listen (cx_net c)) ports (sv_nextPort (cx_sv c)) 0 (length ports)")
  case None
  have "nt_listen (cx_net c) port = None" if in_ports: "port \<in> set ports" for port
  proof -
    obtain q where q: "q < length ports" "port = ports ! q" using in_ports by (auto simp: in_set_conv_nth)
    let ?n = "length ports" and ?k = "sv_nextPort (cx_sv c)"
    let ?x = "q + ?n - ?k mod ?n" let ?m = "?x mod ?n"
    have lt: "?k mod ?n < ?n" using assms(2) by simp
    have "(?k + ?m) mod ?n = (?k + ?x) mod ?n" by (rule mod_add_right_eq)
    also have "\<dots> = (?k mod ?n + ?x) mod ?n" by (rule mod_add_left_eq[symmetric])
    also have "?k mod ?n + ?x = q + ?n" using lt by linarith
    finally have "(?k + ?m) mod ?n = q" using q by simp
    moreover have "?m < ?n" using assms(2) by simp
    ultimately show ?thesis
      using try_ports_exact[where listen = "nt_listen (cx_net c)" and ports = ports and k = ?k and i = 0 and n = ?n] None q by auto
  qed
  moreover have "is_Inr res = False \<and> c' = c"
    using assms None by (auto simp: listenPassive_def step_defs)
  ultimately show ?thesis by (cases res) auto
next
  case (Some r)
  obtain idx port where r: "r = (idx, port)" by force
  obtain j where j: "j < length ports" "idx = (sv_nextPort (cx_sv c) + j) mod length ports"
    "port = ports ! idx" "nt_listen (cx_net c) port \<noteq> None"
    "\<forall>m < j. nt_listen (cx_net c) (ports ! ((sv_nextPort (cx_sv c) + m) mod length ports)) = None"
    using try_ports_exact[where listen = "nt_listen (cx_net c)" and ports = ports
        and k = "sv_nextPort (cx_sv c)" and i = 0 and n = "length ports"] Some r
    by auto
  have "Suc idx mod length ports = (sv_nextPort (cx_sv c) + j + 1) mod length ports"
    by (simp add: j(2) mod_Suc_eq)
  moreover have "res = Inr port \<and>
      c' = c\<lparr>cx_sv := (cx_sv c)\<lparr>sv_nextPort := Suc idx mod length ports\<rparr>\<rparr>"
    using assms Some r by (auto simp: listenPassive_def step_defs)
  ultimately show ?thesis using j by auto
qed

definition port_config :: FTPConfig where
  "port_config = (cfg_FTP Default)\<lparr>fc_PassivePorts := ''7,8,9''\<rparr>"

theorem passive_port_in_turn_witness:
  "let c = (sample_ctx port_config)
        \<lparr>cx_net := (sample_net [] True)\<lparr>nt_listen := (\<lambda>p. if p = 7 then None else Some p)\<rparr>\<rparr>
   in fst (run_state listenPassive c) = Inr 8 \<and> sv_nextPort (cx_sv (snd (run_state listenPassive c))) = 2"
proof -
  let ?c = "(sample_ctx port_config)\<lparr>cx_net := (sample_net [] True)\<lparr>nt_listen := (\<lambda>p. if p = 7 then None else Some p)\<rparr>\<rparr>"
  have p: "sv_ports (cx_sv ?c) = [7, 8, 9]" "sv_nextPort (cx_sv ?c) = 0" by code_simp+
  have r: "fst (run_state listenPassive ?c) = Inr 8" by code_simp
  then have "run_state listenPassive ?c = (Inr 8, snd (run_state listenPassive ?c))"
    by (simp add: prod_eq_iff)
  from passive_port_in_turn[OF p(1) _ this] obtain j where j: "j < length [7, 8, 9::int]"
      "8 = [7, 8, 9::int] ! ((sv_nextPort (cx_sv ?c) + j) mod length [7, 8, 9::int])"
      "sv_nextPort (cx_sv (snd (run_state listenPassive ?c))) =
        (sv_nextPort (cx_sv ?c) + j + 1) mod length [7, 8, 9::int]"
    by (auto simp del: list.size)
  then have "j = 0 \<or> j = 1 \<or> j = 2" by (simp, linarith)
  with j(2) p(2) have "j = 1" by auto
  with j(3) p(2) r show ?thesis by (simp add: Let_def)
qed

subsection \<open>Specifications of ports\<close>

definition show_range :: "nat \<times> nat \<Rightarrow> string" where
  "show_range r = (if fst r = snd r then show_nat (fst r)
     else show_nat (fst r) @ CHR ''-'' # show_nat (snd r))"

lemma plain_punctuation: "plain_char (CHR ''-'')" "plain_char (CHR '','')"
  by (simp_all add: plain_char_def is_upper_def)

lemma plain_show_nat: "list_all plain_char (show_nat n)"
  using show_nat_digits[of n] by (auto simp: list_all_iff digit_plain)

lemma plain_show_range: "list_all plain_char (show_range r)"
  by (simp add: show_range_def plain_show_nat plain_punctuation)

lemma digits_fresh: "\<not> is_digit c \<Longrightarrow> c \<notin> set (show_nat n)"
  using show_nat_digits[of n] by (auto simp: list_all_iff)

lemma parse_part_between:
  assumes "m < n" and "int n \<le> max_i64"
  shows "parse_part (show_range (m, n)) = map_option Inr (port_range (int m) (int n))"
proof -
  have nd: "\<not> is_digit (CHR ''-'')" by (simp add: is_digit_def)
  have "show_range (m, n) \<noteq> []" by (simp add: show_range_def)
  moreover have "int m \<le> max_i64" using assms by simp
  moreover have "TrimSpace (show_nat k) = show_nat k" for k
    by (rule TrimSpace_plain[OF plain_show_nat])
  ultimately show ?thesis
    using assms unfolding parse_part_def Let_def TrimSpace_plain[OF plain_show_range]
    by (simp add: show_range_def Contains_single Cut_found digits_fresh[OF nd] ParseInt_show_nat)
qed

lemma parse_part_range:
  assumes "fst r \<le> snd r" and "int (snd r) < max_i64"
  shows "parse_part (show_range r) = Some (Inr [int (fst r)..int (snd r)])"
proof (cases "fst r = snd r")
  case True
  have nd: "\<not> is_digit (CHR ''-'')" by (simp add: is_digit_def)
  have "show_range r = show_nat (fst r)" "show_nat (fst r) \<noteq> []" using True by (simp_all add: show_range_def)
  with True assms show ?thesis
    by (simp add: parse_part_def Let_def TrimSpace_plain[OF plain_show_nat] Contains_single digits_fresh[OF nd]
        ParseInt_show_nat)
next
  case False
  with assms parse_part_between[of "fst r" "snd r"] show ?thesis by (simp add: port_range_def)
qed

text \<open>A range up to the largest \<open>int\<close> is never parsed: the server does not start.\<close>

lemma endless_range: "int m < max_i64 \<Longrightarrow> parse_part (show_range (m, nat max_i64)) = None"
  using parse_part_between[of m "nat max_i64"] by (simp add: port_range_def)

lemma parse_parts_ranges:
  "\<forall>r \<in> set rs. fst r \<le> snd r \<and> int (snd r) < max_i64 \<Longrightarrow>
    parse_parts (map show_range rs) = Some (Inr (concat (map (\<lambda>r. [int (fst r)..int (snd r)]) rs)))"
  by (induction rs) (simp_all add: parse_part_range)

lemma plain_Join: "\<forall>x \<in> set xs. list_all plain_char x \<Longrightarrow> list_all plain_char (Join xs '','')"
  using set_Join[of xs "'',''"] plain_punctuation(2) by (fastforce simp: list_all_iff)

text \<open>A list of ports and ranges is read back. Writing ports and inclusive ranges of ports
  separated by commas and parsing the text gives exactly those ports, in order.\<close>

theorem ports_roundtrip:
  assumes "\<forall>r \<in> set rs. fst r \<le> snd r \<and> int (snd r) < max_i64"
  shows "parsePorts (Join (map show_range rs) '','') = Some (Inr (concat (map (\<lambda>r. [int (fst r)..int (snd r)]) rs)))"
proof (cases "rs = []")
  case True
  have "TrimSpace [] = []" by (rule TrimSpace_plain) simp
  with True show ?thesis by (simp add: parsePorts_def)
next
  case False
  let ?s = "Join (map show_range rs) '',''"
  have comma: "CHR '','' \<notin> set (show_range r)" for r
    using digits_fresh[of "CHR '',''"] by (simp add: show_range_def is_digit_def)
  have "Split ?s (CHR '','') = map show_range rs"
    by (rule Split_Join) (use False comma in auto)
  moreover have "TrimSpace ?s = ?s"
    by (rule TrimSpace_plain, rule plain_Join) (simp add: plain_show_range)
  moreover have "?s \<noteq> []"
    using False by (cases rs; cases "tl rs") (simp_all add: show_range_def)
  ultimately show ?thesis
    using parse_parts_ranges[of rs] assms by (simp add: parsePorts_def)
qed

theorem ports_roundtrip_witness:
  "parsePorts (Join (map show_range [(50000, 50003), (21, 21)]) '','') = Some (Inr [50000, 50001, 50002, 50003, 21])"
  using ports_roundtrip[of "[(50000, 50003), (21, 21)]"] by (simp add: upto.simps)

subsection \<open>A failed handshake\<close>



subsection \<open>Where an active data connection may go\<close>

text \<open>
  The address of an active connection, unless the server allows FXP: none, or one whose host is the
  peer's own address, or a name, which is resolved again when the connection is made.
\<close>

definition target_ok :: "FTPConfig \<Rightarrow> ctx \<Rightarrow> bool" where
  "target_ok cfg c \<longleftrightarrow> sv_cfg (cx_sv c) = cfg \<and> (fc_AllowFXP cfg \<or> ss_activeAddr (cx_ss c) = [] \<or>
     (\<exists>host port. ss_activeAddr (cx_ss c) = JoinHostPort host port \<and>
       (ParseIP host = None \<or> ParseIP host = ad_TCP_IP (ss_remote (cx_ss c)))))"

lemma sameHost_literal: "sameHost lookup remote host \<Longrightarrow> ParseIP host = None \<or> ParseIP host = ad_TCP_IP remote"
  by (auto simp: sameHost_def split: option.splits)

lemma target_ok_calm:
  assumes "target_ok cfg c" and "calm login False c d"
  shows "target_ok cfg d"
proof -
  have "sv_cfg (cx_sv d) = sv_cfg (cx_sv c)" "ss_remote (cx_ss d) = ss_remote (cx_ss c)"
    "ss_activeAddr (cx_ss d) = ss_activeAddr (cx_ss c) \<or> ss_activeAddr (cx_ss d) = []"
    using assms(2) by (simp_all add: calm_def)
  with assms(1) show ?thesis
    by (cases "ss_activeAddr (cx_ss d) = []") (simp_all add: target_ok_def)
qed

lemma target_ok_replies: "target_ok cfg c \<Longrightarrow> target_ok cfg (c\<lparr>cx_replies := rs\<rparr>)"
  by (simp add: target_ok_def)

lemma closePassive_calm: "run_state closePassive c = (x, d) \<Longrightarrow> calm False False c d"
  by (rule withinD[OF calm_close(1)])

lemma target_ok_set:
  assumes "run_state closePassive c = (x, d)" and "target_ok cfg c"
    and "fc_AllowFXP (sv_cfg (cx_sv c)) \<or> sameHost lookup (ss_remote (cx_ss c)) host"
  shows "target_ok cfg (d\<lparr>cx_ss := (cx_ss d)\<lparr>ss_activeAddr := JoinHostPort host port\<rparr>, cx_replies := rs\<rparr>)"
proof -
  have kept: "sv_cfg (cx_sv d) = cfg" "ss_remote (cx_ss d) = ss_remote (cx_ss c)"
    using assms(2) closePassive_calm[OF assms(1)] by (simp_all add: target_ok_def calm_def)
  have "fc_AllowFXP cfg \<or> ParseIP host = None \<or> ParseIP host = ad_TCP_IP (ss_remote (cx_ss c))"
    using assms(2,3) sameHost_literal[of lookup "ss_remote (cx_ss c)" host] by (auto simp: target_ok_def)
  then show ?thesis unfolding target_ok_def by (simp add: kept) blast
qed

lemma target_ok_active:
  assumes "target_ok cfg c"
  shows "target_ok cfg (snd (run_state (enterActive a) c))"
    "target_ok cfg (snd (run_state (enterExtendedActive a) c))"
proof -
  note set = target_ok_set[OF _ assms disjI1] target_ok_set[OF _ assms disjI2]
  show "target_ok cfg (snd (run_state (enterActive a) c))"
    by (auto simp: enterActive_def step_defs reply_def Let_def intro!: target_ok_replies[OF assms]
        intro: set split: option.split prod.split)
  show "target_ok cfg (snd (run_state (enterExtendedActive a) c))"
    by (auto simp: enterExtendedActive_def step_defs reply_def Let_def intro!: target_ok_replies[OF assms]
        intro: set split: option.split prod.split)
qed

lemma target_ok_whenAuth:
  assumes "target_ok cfg c" and "\<And>d. target_ok cfg d \<Longrightarrow> target_ok cfg (snd (run_state h d))"
  shows "target_ok cfg (snd (run_state (whenAuth requireAuth h) c))"
proof -
  obtain b d where run: "run_state requireAuth c = (b, d)" by (rule prod.exhaust)
  then have "target_ok cfg d"
    using withinD[OF calm_auth(2)[of False False] run] assms(1) target_ok_calm by blast
  with assms(2)[of d] run show ?thesis by (auto simp: whenAuth_def split: prod.split)
qed

lemma dispatch_target: "target_ok cfg c \<Longrightarrow> target_ok cfg (snd (run_state (dispatch cmd arg) c))"
proof (cases "cmd = ''PORT'' \<or> cmd = ''EPRT''")
  case True
  then have "dispatch cmd arg = whenAuth requireAuth (enterActive arg) \<or>
      dispatch cmd arg = whenAuth requireAuth (enterExtendedActive arg)"
    by (elim disjE) (simp_all add: dispatch_def)
  moreover assume "target_ok cfg c"
  ultimately show ?thesis
    by (elim disjE) (simp_all only:, (intro target_ok_whenAuth target_ok_active; assumption)+)
next
  case False
  assume "target_ok cfg c"
  moreover have "calm (cmd = ''PASS'') False c (snd (run_state (dispatch cmd arg) c))"
    using calm_dispatch[of cmd arg] False by (simp add: within_def)
  ultimately show ?thesis by (rule target_ok_calm)
qed

lemma handle_line_target: "target_ok cfg c \<Longrightarrow> target_ok cfg (snd (run_state (handle_line l) c))"
  using dispatch_target by (auto simp: handle_line_def Let_def split: prod.split) (metis snd_conv)

lemma serve_target: "target_ok cfg c \<Longrightarrow> target_ok cfg (snd (run_state (serve inputs) c))"
proof (induction inputs arbitrary: c)
  case (Cons input inputs)
  obtain l answers where i: "input = (l, answers)" by force
  let ?c = "c\<lparr>cx_net := answers\<rparr>"
  have "target_ok cfg ?c" using Cons.prems by (simp add: target_ok_def)
  then have h: "target_ok cfg (snd (run_state (handle_line l) ?c))" by (rule handle_line_target)
  obtain b d where "run_state (handle_line l) ?c = (b, d)" by force
  with h i Cons.IH[of d] show ?case by (simp add: step_defs)
qed simp


definition open_session :: ctx where
  "open_session = (sample_ctx port_config)\<lparr>cx_ss := (new_session sample_peer 0)
     \<lparr>ss_user := sample_account, ss_perms := AdminPermissions, ss_authenticated := True\<rparr>\<rparr>"


text \<open>The client's own address is accepted, another is not.\<close>

lemma port_own_address:
  "ss_activeAddr (cx_ss (snd (run_state (dispatch ''PORT'' ''10,0,0,1,0,21'') open_session))) = ''10.0.0.1:21''"
  by code_simp

lemma port_other_address:
  "ss_activeAddr (cx_ss (snd (run_state (dispatch ''PORT'' ''10,0,0,2,0,21'') open_session))) = []"
  by code_simp

text \<open>
  A name that resolves to the client when \<open>EPRT\<close> checks it is stored as a name: the connection is
  made to whatever it resolves to later.
\<close>

lemma eprt_stores_a_name:
  "ss_activeAddr (cx_ss (snd (run_state (dispatch ''EPRT'' ''|1|a.example|25|'')
     (open_session\<lparr>cx_net := (sample_net [] True)\<lparr>nt_lookup := (\<lambda>_. [v4_prefix @ [10, 0, 0, 1]])\<rparr>\<rparr>)))) =
   ''a.example:25''"
  by code_simp

end
