(* ===== verification/OpenFileProofs.thy ===== *)
theory OpenFileProofs
  imports OpenFiles StorageProofs
begin

text \<open>
  What calls on open files do, for every combination of failures: the ones that only read, writing at
  the end, truncating, and opening a file that may exist.
\<close>

lemma on_fd_abs:
  assumes "root_ok r bs" and "segs xs"
  shows "on_fd r (abs_path (bs @ xs)) op = op (bs @ xs)"
  using root_okD[OF assms(1)] rel_path_Join[OF assms(2)]
  by (simp add: on_fd_def relFromReal_abs[OF assms] bindE_liftE)

lemma quiet_fd: "w_fs (snd (op_fd p w)) = w_fs w"
  unfolding op_fd_def syscall_def by (cases "real_fault (w_faults w (w_calls w))") auto

lemma quiet_on_fd: "(\<And>p w. w_fs (snd (op p w)) = w_fs w) \<Longrightarrow> w_fs (snd (on_fd r q op w)) = w_fs w"
  by (auto simp: on_fd_def bindE_def liftE_def split: sum.split)

lemma quiet_readfile: "w_fs (snd (op_readfile p w)) = w_fs w"
  unfolding op_readfile_def syscall_def by (cases "real_fault (w_faults w (w_calls w))") auto

lemma quiet_Open_read: "w_fs (snd (Open_read r p w)) = w_fs w"
  using Stat_fs[of r p w] by (cases "Stat r p w") (simp add: Stat_def Open_read_def)

lemma fd_same: "on_fd r q op_fd w = (x, w') \<Longrightarrow> w_fs w' = w_fs w"
  using quiet_on_fd[of op_fd r q w, OF quiet_fd] by simp

lemma op_write_cases:
  assumes "op_write p bs w = (x, w')" and "node_at (w_fs w) p = Some (File c m t)"
  obtains k m' t' where "k \<le> length bs" "node_at (w_fs w') p = Some (File (c @ take k bs) m' t')"
    "x = Inr () \<Longrightarrow> k = length bs"
proof (cases "real_fault (w_faults w (w_calls w))")
  case NoFault
  with assms that[of "length bs"] show thesis by (auto simp: op_write_def syscall_def append_file_def)
next
  case (Fault e n)
  with assms that[of "min n (length bs)"] show thesis
    by (auto simp: op_write_def syscall_def append_file_def min_def)
qed

lemma op_truncate_cases:
  assumes "op_truncate n p w = (x, w')" and "node_at (w_fs w) p = Some (File c m t)" and "n \<le> length c"
  obtains e where "x = Inl e" "w_fs w' = w_fs w"
  | m' t' where "x = Inr ()" "node_at (w_fs w') p = Some (File (take n c) m' t')"
  using assms(1) unfolding op_truncate_def
proof (rule atomic_cases)
  fix u
  assume "(case node_at (w_fs w) p of
      Some (File c m t') \<Rightarrow>
        (Inr (), put_node p (File (take n c @ replicate (n - length c) (CHR 0x00)) m u) (w_fs w))
    | _ \<Rightarrow> (Inl ErrInvalid, w_fs w)) = (x, w_fs w')"
  then have "x = Inr ()" "w_fs w' = put_node p (File (take n c) m u) (w_fs w)" using assms(2,3) by auto
  then show thesis using that(2)[of m u] by simp
qed (rule that(1))

text \<open>Opening without truncating: a file keeps its content, a new one is empty.\<close>

lemma op_open_cases:
  assumes "op_open p fl mode w = (x, w')" and "\<not> o_trunc fl"
  obtains e where "x = Inl e" "w_fs w' = w_fs w"
  | c m t where "x = Inr ()" "node_at (w_fs w) p = Some (File c m t)" "w_fs w' = w_fs w"
  | m t where "x = Inr ()" "node_at (w_fs w') p = Some (File [] m t)" "node_at (w_fs w) p = None"
  using assms(1) unfolding op_open_def
proof (rule atomic_cases)
  fix t assume run: "open_fs p fl mode (w_fs w) t = (x, w_fs w')"
  show thesis
  proof (cases "walk (w_fs w) p")
    case (Inl e)
    then have "w_fs w' = w_fs w \<and> (\<exists>e. x = Inl e) \<or>
        x = Inr () \<and> e = ErrNotExist \<and> w_fs w' = put_node p (File [] mode t) (w_fs w)"
      using run by (auto simp: open_fs_def split: if_splits)
    moreover have "e = ErrNotExist \<Longrightarrow> node_at (w_fs w) p = None"
      using Inl by (auto simp: walk_def split: if_splits option.splits)
    ultimately show thesis using that(1) that(3)[of mode t] by auto
  next
    case (Inr n)
    then have "node_at (w_fs w) p = Some n" by (rule walk_node)
    moreover have "w_fs w' = w_fs w \<and> ((\<exists>e. x = Inl e) \<or> x = Inr () \<and> (\<exists>c m t. n = File c m t))"
      using run Inr assms(2) by (cases n) (auto simp: open_fs_def split: if_splits)
    ultimately show thesis using that(1,2) by blast
  qed
qed (rule that(1))

end
