(* ===== verification/FtpTransfer.thy ===== *)
theory FtpTransfer
  imports FtpData OpenFileProofs
begin

text \<open>
  What is sent and stored by \<open>RETR\<close>, \<open>STOR\<close> and \<open>APPE\<close>. Two relations carry the proofs: \<open>still\<close> says
  that nothing was sent and no file changed, \<open>mute\<close> that moreover nothing was replied.
\<close>

definition still :: "ctx \<Rightarrow> ctx \<Rightarrow> bool" where
  "still c c' \<longleftrightarrow> cx_sent c' = cx_sent c \<and> w_fs (cx_disk c') = w_fs (cx_disk c) \<and>
     sv_root (cx_sv c') = sv_root (cx_sv c) \<and> ss_restartSet (cx_ss c') = ss_restartSet (cx_ss c) \<and>
     ss_user (cx_ss c') = ss_user (cx_ss c) \<and> cx_net c' = cx_net c"

definition mute :: "ctx \<Rightarrow> ctx \<Rightarrow> bool" where
  "mute c c' \<longleftrightarrow> still c c' \<and> cx_replies c' = cx_replies c"

interpretation still: ftp_transition still
  by unfold_locales (simp_all add: still_def)

interpretation mute: ftp_transition mute
  by unfold_locales (simp_all add: mute_def still_def)

lemma mute_still: "within mute m \<Longrightarrow> within still m"
  by (simp add: within_def mute_def)

lemma mute_session:
  "(\<And>s. ss_restartSet (f s) = ss_restartSet s \<and> ss_user (f s) = ss_user s) \<Longrightarrow> within mute (set_session f)"
  by (simp add: within_def mute_def still_def step_defs)

lemma mute_server: "(\<And>s. sv_root (f s) = sv_root s) \<Longrightarrow> within mute (set_server f)"
  by (simp add: within_def mute_def still_def step_defs)

lemma mute_disk: "(\<And>r w. w_fs (snd (op r w)) = w_fs w) \<Longrightarrow> within mute (disk op)"
  unfolding within_def disk_def by (auto simp: mute_def still_def split: prod.split) (metis snd_conv)

lemma mute_now: "within mute now"
  by (simp add: within_def mute_def still_def now_def)

lemma still_reply: "within still (reply code msg)"
  by (simp add: within_def still_def reply_def)

lemma mute_log: "within mute (updateStatus f)" "within mute (logActivity a b p d n t)"
  unfolding updateStatus_def logActivity_def add_activity_def monitorSuccessDue_def
  by (intro mute.rules mute_now mute_server; simp)+

lemma mute_ports:
  "within mute (releasePassivePort p)" "within mute closePassive" "within mute closeDataSetup"
  "within mute (closeData d)"
proof -
  show r: "within mute (releasePassivePort p)" for p
    unfolding releasePassivePort_def unmapPassivePort_def isLoopbackListener_def natGatewayAddress_def
      deleteUPnPTCP_def upnp_def clearUPnP_def
    by (intro mute.rules mute_server; simp)
  show c: "within mute closePassive"
    unfolding closePassive_def by (intro mute.rules mute_session r) simp_all
  show "within mute closeDataSetup" "within mute (closeData d)"
    unfolding closeDataSetup_def closeData_def by (intro mute.rules mute_session r c; simp)+
qed

lemma mute_openData: "within mute openData"
  unfolding openData_def by (intro mute.rules mute_session mute_ports) simp_all

lemma still_begin: "within still beginDataTransfer"
proof -
  have "within still (tell (\<lambda>c. c\<lparr>cx_crashed := True\<rparr>))" by (simp add: within_def still_def)
  then show ?thesis
    unfolding beginDataTransfer_def by (intro still.rules mute_still[OF mute_openData] still_reply)
qed

lemma begin_refused:
  assumes "run_state beginDataTransfer c = (None, d)"
  shows "reply_code (last (cx_replies d)) \<in> {425, 150}"
proof -
  obtain r e where o: "run_state openData c = (r, e)" by (rule prod.exhaust)
  show ?thesis
    using assms by (cases r) (auto simp: beginDataTransfer_def o step_defs reply_def split: if_splits)
qed

subsection \<open>Calls on an open file\<close>

lemma mute_fd: "within mute (disk (\<lambda>r. on_fd r p op_fd))"
  by (intro mute_disk quiet_on_fd quiet_fd)

lemma mute_restart: "within mute (retrieve_restart p n k)"
  unfolding retrieve_restart_def by (intro mute.rules mute_fd)

subsection \<open>Downloads\<close>

lemma read_open_file:
  assumes "root_ok (sv_root (cx_sv c)) bs" and "segs xs"
    and "node_at (w_fs (cx_disk c)) (bs @ xs) = Some (File s m t)"
    and "run_state (disk (\<lambda>r. on_fd r (abs_path (bs @ xs)) op_readfile)) c = (res, d)"
  shows "mute c d" and "res = Inr s \<or> (\<exists>e. res = Inl e)"
proof -
  show "mute c d"
    using withinD[OF mute_disk[OF quiet_on_fd[OF quiet_readfile]] assms(4)] .
  have "op_readfile (bs @ xs) (cx_disk c) = (res, cx_disk d)"
    using assms(4) by (auto simp: disk_def on_fd_abs[OF assms(1,2)] split: prod.splits)
  then show "res = Inr s \<or> (\<exists>e. res = Inl e)"
    using op_readfile_Inr[of "bs @ xs" "cx_disk c" "projr res" "cx_disk d"] assms(3)
    by (cases res) auto
qed

text \<open>The end of a transfer: the log, the reply, and closing the connection.\<close>

lemma transfer_end:
  assumes "run_state (do { logActivity a b p q n t; reply code msg }) c = (x, d)"
    and "run_state (closeData k) d = (y, c')"
  shows "still c c'" and "last (cx_replies c') = Reply code msg"
proof -
  have "still c d"
    by (rule withinD[OF _ assms(1)]) (intro still.bind mute_still[OF mute_log(2)] still_reply)
  moreover have m: "mute d c'" using withinD[OF mute_ports(4) assms(2)] .
  ultimately show "still c c'" using still.trans by (auto simp: mute_def)
  show "last (cx_replies c') = Reply code msg"
    using m last_reply[of "logActivity a b p q n t" code msg c] assms(1) by (simp add: mute_def)
qed

lemma accepted_prefix: "take (nat (fst (accepted d s))) s = s \<or> snd (accepted d s) \<noteq> None"
  by (auto simp: accepted_def split: option.split)

lemma retrieve_transfer_exact:
  assumes root: "root_ok (sv_root (cx_sv c)) bs" and segs: "segs xs"
    and is_file: "node_at (w_fs (cx_disk c)) (bs @ xs) = Some (File s m t)"
    and run: "run_state (retrieve_transfer arg (abs_path (bs @ xs)) v off r) c = (x, c')"
  shows "\<exists>sent. cx_sent c' = cx_sent c @ sent \<and> prefix sent (if r then drop (nat off) s else s) \<and>
    (reply_code (last (cx_replies c')) = 226 \<longrightarrow> sent = (if r then drop (nat off) s else s)) \<and>
    w_fs (cx_disk c') = w_fs (cx_disk c) \<and> ss_restartSet (cx_ss c') = ss_restartSet (cx_ss c)"
proof -
  let ?s = "if r then drop (nat off) s else s"
  obtain conn d1 where b: "run_state beginDataTransfer c = (conn, d1)" by (rule prod.exhaust)
  have s1: "still c d1" using withinD[OF still_begin b] .
  show ?thesis
  proof (cases conn)
    case None
    with run b have "c' = d1" by (simp add: retrieve_transfer_def)
    with s1 begin_refused[of c d1] b None show ?thesis by (auto simp: still_def)
  next
    case (Some k)
    obtain u2 d2 where u: "run_state (updateStatus (\<lambda>st. st\<lparr>st_Action := ''download'', st_Path := v,
        st_Mode := ''retr'', st_Bytes := 0\<rparr>)) d1 = (u2, d2)" by (rule prod.exhaust)
    obtain content d3 where rd: "run_state (disk (\<lambda>r. on_fd r (abs_path (bs @ xs)) op_readfile)) d2 = (content, d3)"
      by (rule prod.exhaust)
    have s2: "still c d2" using s1 withinD[OF mute_log(1) u] still.trans by (auto simp: mute_def)
    then have root2: "root_ok (sv_root (cx_sv d2)) bs"
      and file2: "node_at (w_fs (cx_disk d2)) (bs @ xs) = Some (File s m t)"
      using root is_file by (simp_all add: still_def)
    note read = read_open_file[OF root2 segs file2 rd]
    have s3: "still c d3" using s2 read(1) still.trans by (auto simp: mute_def)
    define copied where "copied = (case content of Inl e \<Rightarrow> (0, Some e) | Inr s \<Rightarrow> accepted (fst k) ?s)"
    define sent where "sent = (case content of Inl e \<Rightarrow> [] | Inr _ \<Rightarrow> take (nat (fst copied)) ?s)"
    let ?d4 = "d3\<lparr>cx_sent := cx_sent d3 @ sent\<rparr>"
    have sent: "prefix sent ?s" "snd copied = None \<longrightarrow> sent = ?s"
      using accepted_prefix[of "fst k" ?s]
      by (auto simp: sent_def copied_def take_is_prefix split: sum.split)
    have copy: "run_state (case content of Inl e \<Rightarrow> ret (0, Some e)
        | Inr s \<Rightarrow> send (fst k) (if r then drop (nat off) s else s)) d3 = (copied, ?d4)"
      using read(2) by (auto simp: send_def copied_def sent_def)
    obtain u5 d5 where u5: "run_state (updateStatus (\<lambda>st. st\<lparr>st_Action := ''idle'', st_Bytes := fst copied\<rparr>)) ?d4 = (u5, d5)"
      by (rule prod.exhaust)
    have m5: "still ?d4 d5" using withinD[OF mute_log(1) u5] by (simp add: mute_def)
    define code where "code = (if snd copied = None then 226 else 426 :: int)"
    obtain a3 b3 p3 q3 n3 t3 msg y6 d6 where fin:
        "run_state (do { logActivity a3 b3 p3 q3 n3 t3; reply code msg }) d5 = (y6, d6)"
        "run_state (closeData k) d6 = (x, c')"
    proof (cases "snd copied")
      case (Some e)
      obtain y6 d6 where l: "run_state (do { logActivity ''download'' ''failed'' arg [] (fst copied)
          (nt_error_text (cx_net d5) e); reply 426 ''Transfer aborted'' }) d5 = (y6, d6)"
        by (rule prod.exhaust)
      have "run_state (closeData k) d6 = (x, c')"
        using run b \<open>conn = Some k\<close> u rd copy u5 Some l
        by (simp add: retrieve_transfer_def step_defs split: prod.splits)
      with l Some show thesis by (intro that) (simp_all add: code_def)
    next
      case None
      obtain y6 d6 where l: "run_state (do { logActivity ''download'' ''ok'' arg [] (fst copied)
          (if r then ''FTP download resumed at offset '' @ Itoa off else ''FTP download'');
          reply 226 ''Transfer complete'' }) d5 = (y6, d6)"
        by (rule prod.exhaust)
      have "run_state (closeData k) d6 = (x, c')"
        using run b \<open>conn = Some k\<close> u rd copy u5 None l
        by (simp add: retrieve_transfer_def step_defs split: prod.splits)
      with l None show thesis by (intro that) (simp_all add: code_def)
    qed
    have fs: "still d5 c'" "last (cx_replies c') = Reply code msg"
      using transfer_end[OF fin] by simp_all
    have "cx_sent c' = cx_sent c @ sent" "w_fs (cx_disk c') = w_fs (cx_disk c)"
      "ss_restartSet (cx_ss c') = ss_restartSet (cx_ss c)"
      using s3 m5 fs(1) by (simp_all add: still_def)
    moreover have "reply_code (last (cx_replies c')) = 226 \<longrightarrow> sent = ?s"
      using fs(2) sent(2) by (simp add: code_def)
    ultimately show ?thesis using sent(1) by blast
  qed
qed

lemma setup_closed:
  assumes "run_state (do { closeDataSetup; reply code msg }) c = (x, d)"
  shows "still c d" "last (cx_replies d) = Reply code msg"
proof -
  show "still c d"
    by (rule withinD[OF _ assms]) (intro still.bind mute_still[OF mute_ports(3)] still_reply)
  show "last (cx_replies d) = Reply code msg"
    using last_reply[of closeDataSetup code msg c] assms by simp
qed

lemma retrieve_restart_code:
  "run_state (retrieve_restart p n k) c = (Some (code, msg), d) \<Longrightarrow> code \<noteq> 226"
  by (auto simp: retrieve_restart_def split: prod.splits if_splits)

text \<open>C6: a download sends the file and nothing else. When the path resolves to a file, what
  \<open>RETR\<close> puts on the data connection is a prefix of the file from the restart offset on, and all of
  it when the transfer is reported complete; no file changes, and the restart offset is used up,
  whatever the outcome.\<close>

theorem download_exact:
  assumes "root_ok (sv_root (cx_sv c)) bs" and "segs xs"
    and "Resolve (sv_root (cx_sv c)) (ss_user (cx_ss c)) (ss_cwd (cx_ss c)) arg = Inr (abs_path (bs @ xs), v)"
    and "node_at (w_fs (cx_disk c)) (bs @ xs) = Some (File s m t)"
    and "run_state (retrieve arg) c = (x, c')"
  shows "\<exists>sent. cx_sent c' = cx_sent c @ sent \<and>
    prefix sent (if ss_restartSet (cx_ss c) then drop (nat (ss_restartOffset (cx_ss c))) s else s) \<and>
    (reply_code (last (cx_replies c')) = 226 \<longrightarrow>
       sent = (if ss_restartSet (cx_ss c) then drop (nat (ss_restartOffset (cx_ss c))) s else s)) \<and>
    w_fs (cx_disk c') = w_fs (cx_disk c) \<and> \<not> ss_restartSet (cx_ss c')"
proof -
  let ?r = "ss_restartSet (cx_ss c)" and ?k = "ss_restartOffset (cx_ss c)"
  let ?c1 = "c\<lparr>cx_ss := (cx_ss c)\<lparr>ss_restartOffset := 0, ss_restartSet := False\<rparr>\<rparr>"
  obtain opened d1 where o: "run_state (disk (\<lambda>r. Open_read r (abs_path (bs @ xs)))) ?c1 = (opened, d1)"
    by (rule prod.exhaust)
  have s1: "still ?c1 d1" using withinD[OF mute_disk[OF quiet_Open_read] o] by (simp add: mute_def)
  have silent: ?thesis if "still ?c1 c'" "reply_code (last (cx_replies c')) \<noteq> 226"
    using that by (auto simp: still_def)
  show ?thesis
  proof (cases opened)
    case (Inl e)
    then have "run_state (do { closeDataSetup; reply 550 ''Open failed'' }) d1 = (x, c')"
      using assms(3,5) o by (simp add: retrieve_def consumeRestart_def resolve_def step_defs)
    note closed = setup_closed[OF this]
    have "still ?c1 c'" using s1 closed(1) still.trans by blast
    moreover have "reply_code (last (cx_replies c')) \<noteq> 226" using closed(2) by simp
    ultimately show ?thesis by (rule silent)
  next
    case (Inr info)
    obtain refused d2 where rf: "run_state (if ?r then retrieve_restart (abs_path (bs @ xs)) info ?k
        else ret None) d1 = (refused, d2)" by (rule prod.exhaust)
    have "within mute (if ?r then retrieve_restart (abs_path (bs @ xs)) info ?k else ret None)"
      by (intro mute.rules mute_restart)
    from withinD[OF this rf] have s2: "still ?c1 d2" using s1 still.trans by (auto simp: mute_def)
    show ?thesis
    proof (cases refused)
      case (Some cm)
      obtain code msg where cm: "cm = (code, msg)" by force
      have "run_state (do { closeDataSetup; reply code msg }) d2 = (x, c')"
        using assms(3,5) o Inr rf Some cm
        by (simp add: retrieve_def consumeRestart_def resolve_def step_defs)
      note closed = setup_closed[OF this]
      have "code \<noteq> 226"
        using rf Some cm retrieve_restart_code by (auto split: if_splits)
      then have "reply_code (last (cx_replies c')) \<noteq> 226" using closed(2) by simp
      moreover have "still ?c1 c'" using s2 closed(1) still.trans by blast
      ultimately show ?thesis by (rule silent[rotated])
    next
      case None
      have "run_state (retrieve_transfer arg (abs_path (bs @ xs)) v ?k ?r) d2 = (x, c')"
        using assms(3,5) o Inr rf None
        by (simp add: retrieve_def consumeRestart_def resolve_def step_defs)
      from retrieve_transfer_exact[OF _ assms(2) _ this, of s m t] s2 assms(1,4)
      show ?thesis by (simp add: still_def)
    qed
  qed
qed

theorem download_exact_witness:
  "let c' = snd (run_state (retrieve ''a'') (sample_session tls_config))
   in prefix (cx_sent c') ''old'' \<and> cx_sent c' = ''old'' \<and> \<not> ss_restartSet (cx_ss c') \<and>
      reply_code (last (cx_replies c')) = 226"
proof -
  let ?c = "sample_session tls_config"
  let ?c' = "snd (run_state (retrieve ''a'') ?c)"
  have "map_option is_Inr (New_server tls_config \<lparr>as_db = \<lparr>db_Users = [(''bob'', sample_account)], db_Groups = []\<rparr>,
      as_disk = None\<rparr> sample_root None None None (\<lambda>_ _ _ _. []) sample_codec False) = Some True"
    by code_simp
  then have "sv_root (cx_sv ?c) = sample_root"
    by (auto simp: sample_session_def sample_ctx_def sample_server_def New_server_def Let_def
        split: sum.splits if_splits option.splits)
  then have root: "root_ok (sv_root (cx_sv ?c)) [''srv'', ''files'']" using sample_root_ok by simp
  have "segs [''a'']" by code_simp
  moreover have "Resolve (sv_root (cx_sv ?c)) (ss_user (cx_ss ?c)) (ss_cwd (cx_ss ?c)) ''a'' =
      Inr (abs_path ([''srv'', ''files''] @ [''a'']), ''/a'')"
    by code_simp
  moreover have isfile: "node_at (w_fs (cx_disk ?c)) ([''srv'', ''files''] @ [''a'']) = Some (File ''old'' 420 1)"
    by code_simp
  moreover have c0: "cx_sent ?c = []" "\<not> ss_restartSet (cx_ss ?c)" by code_simp+
  moreover have code: "reply_code (last (cx_replies ?c')) = 226" by code_simp
  moreover have run: "run_state (retrieve ''a'') ?c = ((), ?c')" by (simp add: prod_eq_iff)
  ultimately show ?thesis
    using download_exact[OF root _ _ isfile run, of "''/a''"]
    by (simp add: Let_def)
qed

end
