(* ===== verification/GoHttp.thy ===== *)
theory GoHttp
  imports GoTime GoBase64 GoSha256 GoMatch GoPath
begin

text \<open>
  What the HTTP server uses of \<open>net/http\<close>, \<open>net/url\<close>, \<open>html\<close>, \<open>crypto/hmac\<close> and of the formatting of
  numbers, durations and instants. A request is the record \<open>request\<close> of what \<open>net/http\<close> has read of
  it; a response is its status, its headers and the body written so far.
\<close>

subsection \<open>Keyed hashes\<close>

definition xor_byte :: "nat \<Rightarrow> char \<Rightarrow> char" where
  "xor_byte k c = char_of (unat ((word_of_nat (of_char c) :: 8 word) XOR word_of_nat k))"

text \<open>HMAC over SHA-256, whose block is 64 bytes.\<close>

definition Hmac :: "string \<Rightarrow> string \<Rightarrow> string" where
  "Hmac key msg =
     (let k0 = (if length key > 64 then Sum256 key else key);
          k = k0 @ replicate (64 - length k0) (CHR 0x00)
      in Sum256 (map (xor_byte 0x5C) k @ Sum256 (map (xor_byte 0x36) k @ msg)))"

subsection \<open>Escaping\<close>

definition hex_digit :: "nat \<Rightarrow> char" where
  "hex_digit n = (if n < 10 then char_of (48 + n) else char_of (55 + n))"

definition url_unreserved :: "char \<Rightarrow> bool" where
  "url_unreserved c \<longleftrightarrow> is_lower c \<or> is_upper c \<or> is_digit c \<or> c \<in> set ''-_.~''"

definition url_escape :: "string \<Rightarrow> string \<Rightarrow> string" where
  "url_escape keep s =
     concat (map (\<lambda>c. if url_unreserved c \<or> c \<in> set keep then [c]
                      else [CHR ''%'', hex_digit (of_char c div 16), hex_digit (of_char c mod 16)]) s)"

text \<open>\<open>url.PathEscape\<close> of a segment, the escaped form of a path and of a host.\<close>

definition PathEscape :: "string \<Rightarrow> string" where
  "PathEscape = url_escape ''$&+=:@''"

definition EscapedPath :: "string \<Rightarrow> string" where
  "EscapedPath p = (if p = ''*'' then p else url_escape ''$&+,/:;=@'' p)"

definition escape_host :: "string \<Rightarrow> string" where
  "escape_host = url_escape (''!$&()*+,;=:[]<>'' @ [CHR 0x27, CHR 0x22])"

text \<open>\<open>String\<close> of a URL with these parts and no others.\<close>

definition url_string :: "string \<Rightarrow> string \<Rightarrow> string \<Rightarrow> string" where
  "url_string scheme host path =
     (let p = EscapedPath path;
          auth = (if host \<noteq> [] \<or> path \<noteq> [] then ''//'' else []) @ escape_host host
      in scheme @ '':'' @ auth @ (if p \<noteq> [] \<and> hd p \<noteq> slash \<and> host \<noteq> [] then [slash] else []) @ p)"

text \<open>The same of a path alone; a colon in its first segment must not look like a scheme.\<close>

definition path_string :: "string \<Rightarrow> string \<Rightarrow> string" where
  "path_string path query =
     (let p = EscapedPath path
      in (if CHR '':'' \<in> set (fst (Cut p slash)) then ''./'' else []) @ p @
         (if query \<noteq> [] then CHR ''?'' # query else []))"

text \<open>\<open>html.EscapeString\<close>.\<close>

fun html_char :: "char \<Rightarrow> string" where
  "html_char c =
     (if c = CHR ''&'' then ''&amp;'' else if c = CHR 0x27 then ''&#39;''
      else if c = CHR ''<'' then ''&lt;'' else if c = CHR ''>'' then ''&gt;''
      else if c = CHR 0x22 then ''&#34;'' else [c])"

definition EscapeString :: "string \<Rightarrow> string" where
  "EscapeString s = concat (map html_char s)"

subsection \<open>Numbers\<close>

text \<open>
  \<open>float64\<close> of an integer that is not negative: 53 bits, ties to even. Dividing it by 1024 is exact,
  and \<open>%.1f\<close> rounds the exact value, ties to even.
\<close>

definition round_half_even :: "nat \<Rightarrow> nat \<Rightarrow> nat" where
  "round_half_even n d =
     (let q = n div d; r = n mod d
      in if 2 * r < d \<or> (2 * r = d \<and> even q) then q else Suc q)"

fun bit_length :: "nat \<Rightarrow> nat" where
  "bit_length n = (if n = 0 then 0 else Suc (bit_length (n div 2)))"

declare bit_length.simps [simp del]

definition float64 :: "nat \<Rightarrow> nat" where
  "float64 n =
     (let e = bit_length n - 53 in if e = 0 then n else round_half_even n (2 ^ e) * 2 ^ e)"

text \<open>\<open>%.1f\<close> of the quotient of two integers.\<close>

definition show_tenths :: "nat \<Rightarrow> nat \<Rightarrow> string" where
  "show_tenths n d =
     (let t = round_half_even (10 * n) d in show_nat (t div 10) @ ''.'' @ show_nat (t mod 10))"

subsection \<open>Durations and instants\<close>

text \<open>\<open>Duration.String\<close>: a fraction of the unit loses its trailing zeros.\<close>

definition show_frac :: "nat \<Rightarrow> nat \<Rightarrow> string" where
  "show_frac prec n =
     (let ds = rev (dropWhile (\<lambda>c. c = CHR ''0'') (rev (show_pad prec (n mod 10 ^ prec))))
      in show_nat (n div 10 ^ prec) @
         (if prec = 0 \<or> n mod 10 ^ prec = 0 then [] else CHR ''.'' # ds))"

definition micro_sign :: string where
  "micro_sign = [CHR 0xC2, CHR 0xB5]"

definition duration_string :: "duration \<Rightarrow> string" where
  "duration_string d =
     (let u = nat (abs d);
          text = (if u = 0 then ''0s''
                  else if u < 1000 then show_frac 0 u @ ''ns''
                  else if u < 1000000 then show_frac 3 u @ micro_sign @ ''s''
                  else if u < 1000000000 then show_frac 6 u @ ''ms''
                  else let secs = u div 1000000000; mins = secs div 60
                       in (if mins = 0 then []
                           else (if mins div 60 = 0 then [] else show_nat (mins div 60) @ ''h'') @
                                show_nat (mins mod 60) @ ''m'') @
                          show_frac 9 (secs mod 60 * 1000000000 + u mod 1000000000) @ ''s'')
      in (if d < 0 then ''-'' else []) @ text)"

text \<open>Seconds since 1970; \<open>time.Unix\<close> counts from year 1 in 64 bits.\<close>

definition Unix :: "time \<Rightarrow> int" where
  "Unix t = (t - unix_epoch) div second"

definition from_Unix :: "int \<Rightarrow> time" where
  "from_Unix s = wrap_i64 (s + 62135596800) * second"

text \<open>\<open>time.RFC3339\<close> of an instant in UTC, \<open>2006-01-02 15:04\<close>, and \<open>time.RFC1123\<close> with a zone's name.\<close>

definition format_rfc3339 :: "time \<Rightarrow> string" where
  "format_rfc3339 t =
     (case civil t of (y, m, d) \<Rightarrow> case clock_of t of (hh, mm, ss, ns) \<Rightarrow>
        pad 4 y @ ''-'' @ show_pad 2 m @ ''-'' @ pad 2 d @ ''T'' @ pad 2 hh @ '':'' @ pad 2 mm @
        '':'' @ pad 2 ss @ ''Z'')"

definition format_minutes :: "time \<Rightarrow> string" where
  "format_minutes t =
     (case civil t of (y, m, d) \<Rightarrow> case clock_of t of (hh, mm, ss, ns) \<Rightarrow>
        pad 4 y @ ''-'' @ show_pad 2 m @ ''-'' @ pad 2 d @ '' '' @ pad 2 hh @ '':'' @ pad 2 mm)"

text \<open>1 January of year 1 was a Monday.\<close>

definition weekday_names :: "string list" where
  "weekday_names = [''Mon'', ''Tue'', ''Wed'', ''Thu'', ''Fri'', ''Sat'', ''Sun'']"

definition format_rfc1123 :: "time \<Rightarrow> string \<Rightarrow> string" where
  "format_rfc1123 t zone =
     (case civil t of (y, m, d) \<Rightarrow> case clock_of t of (hh, mm, ss, ns) \<Rightarrow>
        weekday_names ! nat (t div (24 * hour) mod 7) @ '', '' @ pad 2 d @ '' '' @
        month_names ! (m - 1) @ '' '' @ pad 4 y @ '' '' @ pad 2 hh @ '':'' @ pad 2 mm @ '':'' @
        pad 2 ss @ '' '' @ zone)"

subsection \<open>Requests\<close>

text \<open>
  A part of a multipart form: the field, the file name, what can be read of it and whether reading
  then fails. \<open>rq_form\<close> and \<open>rq_values\<close> are the fields of the body as \<open>ParseForm\<close> and
  \<open>ParseMultipartForm\<close> read them, with the outcome of each; \<open>rq_basic\<close> is the user and password of
  \<open>BasicAuth\<close>, and \<open>rq_escaped\<close> is \<open>EscapedPath\<close> of the URL.
\<close>

record part =
  pt_field :: string
  pt_filename :: string
  pt_content :: string
  pt_error :: "err option"

record request =
  rq_method :: string
  rq_path :: string
  rq_escaped :: string
  rq_rawquery :: string
  rq_query :: "(string \<times> string) list"
  rq_headers :: "(string \<times> string) list"
  rq_host :: string
  rq_remote :: string
  rq_tls :: bool
  rq_basic :: "(string \<times> string) option"
  rq_cookies :: "(string \<times> string) list"
  rq_body :: string
  rq_form :: "(string \<times> string) list"
  rq_form_ok :: bool
  rq_values :: "(string \<times> string) list"
  rq_parts :: "part list"
  rq_multipart_ok :: bool

definition get_value :: "(string \<times> string) list \<Rightarrow> string \<Rightarrow> string" where
  "get_value kvs k = (case map_of kvs k of None \<Rightarrow> [] | Some v \<Rightarrow> v)"

definition header :: "request \<Rightarrow> string \<Rightarrow> string" where
  "header rq k = get_value (rq_headers rq) k"

definition query :: "request \<Rightarrow> string \<Rightarrow> string" where
  "query rq k = get_value (rq_query rq) k"

text \<open>\<open>FormValue\<close>: the body of an encoded form, then the query, then a multipart form.\<close>

definition FormValue :: "request \<Rightarrow> string \<Rightarrow> string" where
  "FormValue rq k = get_value (rq_form rq @ rq_query rq @ rq_values rq) k"

definition FormFile :: "request \<Rightarrow> string \<Rightarrow> part option" where
  "FormFile rq k = find (\<lambda>p. pt_field p = k) (rq_parts rq)"

definition cookie :: "request \<Rightarrow> string \<Rightarrow> string option" where
  "cookie rq k = map_of (rq_cookies rq) k"

subsection \<open>Ranges\<close>

text \<open>\<open>parseRange\<close> of \<open>net/http\<close>: the outcome of one specification, and of the list.\<close>

datatype range_spec = BadSpec | BeyondEnd | Range int int

definition trim_blank :: "string \<Rightarrow> string" where
  "trim_blank s = Trim s [CHR '' '', CHR 0x09, CHR 0x0A, CHR 0x0D]"

definition range_one :: "string \<Rightarrow> int \<Rightarrow> range_spec" where
  "range_one ra sz =
     (case Cut ra (CHR ''-'') of (start0, finish0, ok) \<Rightarrow>
        if \<not> ok then BadSpec
        else let start = trim_blank start0; finish = trim_blank finish0
             in if start = [] then
                  (if finish = [] \<or> hd finish = CHR ''-'' then BadSpec
                   else case ParseInt finish of
                          None \<Rightarrow> BadSpec
                        | Some i \<Rightarrow> if i < 0 then BadSpec
                                   else Range (sz - min i sz) (min i sz))
                else (case ParseInt start of
                        None \<Rightarrow> BadSpec
                      | Some i \<Rightarrow>
                          if i < 0 then BadSpec
                          else if i \<ge> sz then BeyondEnd
                          else if finish = [] then Range i (sz - i)
                          else (case ParseInt finish of
                                  None \<Rightarrow> BadSpec
                                | Some j \<Rightarrow> if i > j then BadSpec
                                           else Range i (min j (sz - 1) - i + 1))))"

datatype ranges = BadRanges | NoOverlap | Ranges "(int \<times> int) list"

fun collect_ranges :: "int \<Rightarrow> string list \<Rightarrow> bool \<Rightarrow> (int \<times> int) list \<Rightarrow> ranges" where
  "collect_ranges sz [] beyond acc = (if beyond \<and> acc = [] then NoOverlap else Ranges (rev acc))"
| "collect_ranges sz (s # ss) beyond acc =
     (let ra = trim_blank s
      in if ra = [] then collect_ranges sz ss beyond acc
         else case range_one ra sz of
                BadSpec \<Rightarrow> BadRanges
              | BeyondEnd \<Rightarrow> collect_ranges sz ss True acc
              | Range i n \<Rightarrow> collect_ranges sz ss beyond ((i, n) # acc))"

definition parseRange :: "string \<Rightarrow> int \<Rightarrow> ranges" where
  "parseRange s sz =
     (if s = [] then Ranges []
      else if \<not> HasPrefix s ''bytes='' then BadRanges
      else collect_ranges sz (Split (drop 6 s) (CHR '','')) False [])"

subsection \<open>Responses\<close>

text \<open>
  A body is bytes or a document that an encoder or a template renders. \<open>rs_status\<close> is 0 until a
  header is written.
\<close>

datatype 'p body = Bytes string | Doc 'p

record set_cookie =
  sk_Name :: string
  sk_Value :: string
  sk_Path :: string
  sk_Expires :: "time option"
  sk_MaxAge :: int
  sk_HttpOnly :: bool
  sk_Secure :: bool
  sk_SameSite :: string

record 'p response =
  rs_status :: int
  rs_headers :: "(string \<times> string) list"
  rs_cookies :: "set_cookie list"
  rs_body :: "'p body list"

definition empty_response :: "'p response" where
  "empty_response = \<lparr>rs_status = 0, rs_headers = [], rs_cookies = [], rs_body = []\<rparr>"

definition set_header :: "string \<Rightarrow> string \<Rightarrow> 'p response \<Rightarrow> 'p response" where
  "set_header k v rs = rs\<lparr>rs_headers := AList.update k v (rs_headers rs)\<rparr>"

definition del_headers :: "string list \<Rightarrow> 'p response \<Rightarrow> 'p response" where
  "del_headers ks rs = rs\<lparr>rs_headers := filter (\<lambda>(k, _). k \<notin> set ks) (rs_headers rs)\<rparr>"

text \<open>Only the first status counts; writing a body without one sends 200.\<close>

definition write_header :: "int \<Rightarrow> 'p response \<Rightarrow> 'p response" where
  "write_header code rs = (if rs_status rs = 0 then rs\<lparr>rs_status := code\<rparr> else rs)"

definition write_body :: "'p body \<Rightarrow> 'p response \<Rightarrow> 'p response" where
  "write_body b rs = (let rs1 = write_header 200 rs in rs1\<lparr>rs_body := rs_body rs1 @ [b]\<rparr>)"

text \<open>\<open>http.Error\<close> and \<open>http.NotFound\<close>.\<close>

definition http_Error :: "string \<Rightarrow> int \<Rightarrow> 'p response \<Rightarrow> 'p response" where
  "http_Error msg code rs =
     write_body (Bytes (msg @ [CHR 0x0A])) (write_header code
       (set_header ''X-Content-Type-Options'' ''nosniff''
         (set_header ''Content-Type'' ''text/plain; charset=utf-8'' (del_headers [''Content-Length''] rs))))"

definition not_found_text :: string where
  "not_found_text = ''404 page not found''"

definition http_NotFound :: "'p response \<Rightarrow> 'p response" where
  "http_NotFound = http_Error not_found_text 404"

subsection \<open>Serving a file\<close>

text \<open>
  What the conditional headers of a request come to for a file, which depends on HTTP dates and
  entity tags: the answer is 412 or 304, or the file is sent, honouring a \<open>Range\<close> header or not.
\<close>

datatype precondition = FailedPrecondition | NotModified | Proceed bool

text \<open>
  The parts of a \<open>multipart/byteranges\<close> body, with the boundary that was drawn and the type.
\<close>

definition content_range :: "int \<Rightarrow> int \<times> int \<Rightarrow> string" where
  "content_range sz r =
     ''bytes '' @ Itoa (fst r) @ ''-'' @ Itoa (fst r + snd r - 1) @ ''/'' @ Itoa sz"

definition slice :: "int \<times> int \<Rightarrow> string \<Rightarrow> string" where
  "slice r s = take (nat (snd r)) (drop (nat (fst r)) s)"

definition eol :: string where
  "eol = [CHR 0x0D, CHR 0x0A]"

fun byteranges :: "string \<Rightarrow> string \<Rightarrow> string \<Rightarrow> bool \<Rightarrow> (int \<times> int) list \<Rightarrow> string" where
  "byteranges boundary ctype s first [] = eol @ ''--'' @ boundary @ ''--'' @ eol"
| "byteranges boundary ctype s first (r # rs) =
     (if first then [] else eol) @ ''--'' @ boundary @ eol @
     ''Content-Range: '' @ content_range (int (length s)) r @ eol @
     ''Content-Type: '' @ ctype @ eol @ eol @ slice r s @ byteranges boundary ctype s False rs"

text \<open>
  The status, the headers and the bytes \<open>http.ServeContent\<close> writes for a file, if the client reads
  them all.
\<close>

definition unsatisfiable :: "string \<Rightarrow> (string \<times> string) list \<Rightarrow> int \<times> (string \<times> string) list \<times> string" where
  "unsatisfiable msg hs =
     (416, hs @ [(''Content-Type'', ''text/plain; charset=utf-8''), (''X-Content-Type-Options'', ''nosniff'')],
      msg @ [CHR 0x0A])"

definition serve_content ::
  "precondition \<Rightarrow> string \<Rightarrow> string \<Rightarrow> string \<Rightarrow> string \<Rightarrow> string \<Rightarrow>
     int \<times> (string \<times> string) list \<times> string" where
  "serve_content pre http_method range_header boundary ctype s =
     (let sz = int (length s);
          unless_head = (\<lambda>body. if http_method = ''HEAD'' then [] else body);
          whole = (200, [(''Content-Type'', ctype)], unless_head s)
      in case pre of
           FailedPrecondition \<Rightarrow> (412, [], [])
         | NotModified \<Rightarrow> (304, [], [])
         | Proceed honour \<Rightarrow>
             (case parseRange (if honour then range_header else []) sz of
                BadRanges \<Rightarrow> unsatisfiable ''invalid range'' []
              | NoOverlap \<Rightarrow>
                  if sz = 0 then whole
                  else unsatisfiable ''invalid range: failed to overlap''
                         [(''Content-Range'', ''bytes */'' @ Itoa sz)]
              | Ranges rs \<Rightarrow>
                  if sum_list (map snd rs) > sz then whole
                  else (case rs of
                          [] \<Rightarrow> whole
                        | [r] \<Rightarrow> (206, [(''Content-Type'', ctype), (''Content-Range'', content_range sz r)],
                                  unless_head (slice r s))
                        | _ \<Rightarrow> (206, [(''Content-Type'', ''multipart/byteranges; boundary='' @ boundary)],
                                unless_head (byteranges boundary ctype s True rs)))))"

end
