(* ===== verification/HttpText.thy ===== *)
theory HttpText
  imports GoHttp GoNet StoragePaths ActivityLog ShareStore
begin

text \<open>
  The functions of \<open>internal/httpapi/server.go\<close> on strings, requests and events: who a request comes
  from and whether it may change anything, the addresses of public files and links, which events
  count as a security matter, and when a served file counts as a download.
\<close>

subsection \<open>Where a request comes from\<close>

definition isLoopbackRemote :: "string \<Rightarrow> bool" where
  "isLoopbackRemote remote =
     (let host = Trim (case SplitHostPort remote of Some (h, _) \<Rightarrow> h | None \<Rightarrow> remote) ''[]''
      in case ParseIP host of None \<Rightarrow> False | Some ip \<Rightarrow> IsLoopback ip)"

definition remote_host :: "request \<Rightarrow> string" where
  "remote_host rq =
     (case SplitHostPort (rq_remote rq) of
        Some (host, _) \<Rightarrow> if host = [] then rq_remote rq else host
      | None \<Rightarrow> rq_remote rq)"

definition remoteAddr :: "request \<Rightarrow> string" where
  "remoteAddr rq =
     (let cf = TrimSpace (header rq ''Cf-Connecting-Ip'');
          xff = TrimSpace (header rq ''X-Forwarded-For'')
      in if cf \<noteq> [] then cf
         else if xff \<noteq> [] then TrimSpace (hd (Split xff (CHR '','')))
         else remote_host rq)"

definition clientAddrForLimit :: "request \<Rightarrow> string" where
  "clientAddrForLimit rq =
     (let host = remote_host rq
      in if isLoopbackRemote host \<and> remoteAddr rq \<noteq> [] then remoteAddr rq else host)"

definition loginLimitKey :: "request \<Rightarrow> string \<Rightarrow> string" where
  "loginLimitKey rq username = clientAddrForLimit rq @ ''|'' @ NormalizeName username"

definition requestHosts :: "request \<Rightarrow> string list" where
  "requestHosts rq =
     (let forwarded = TrimSpace (header rq ''X-Forwarded-Host'');
          publicHost = TrimSpace (header rq ''X-Macftpd-Public-Host'')
      in [rq_host rq] @ (if forwarded \<noteq> [] then [forwarded] else []) @
         (if publicHost \<noteq> [] then [publicHost] else []))"

text \<open>\<open>url_host\<close> is the host of \<open>url.Parse\<close>, or \<open>None\<close> when it fails.\<close>

definition sameOriginUnsafe :: "(string \<Rightarrow> string option) \<Rightarrow> request \<Rightarrow> bool" where
  "sameOriginUnsafe url_host rq =
     (if rq_method rq = ''GET'' \<or> rq_method rq = ''HEAD'' \<or> rq_method rq = ''OPTIONS'' then True
      else let fetchSite = ToLower (TrimSpace (header rq ''Sec-Fetch-Site''));
               origin = header rq ''Origin''
           in if fetchSite = ''cross-site'' then False
              else if origin = [] then True
              else if origin = ''null'' then fetchSite = ''same-origin'' \<or> fetchSite = ''same-site''
              else (case url_host origin of
                      None \<Rightarrow> False
                    | Some host \<Rightarrow> list_ex (EqualFold host) (requestHosts rq)))"

definition requestIsHTTPS :: "request \<Rightarrow> bool" where
  "requestIsHTTPS rq \<longleftrightarrow> rq_tls rq \<or> EqualFold (header rq ''X-Forwarded-Proto'') ''https'' \<or>
     EqualFold (header rq ''Cf-Visitor'')
       (''{'' @ [CHR 0x22] @ ''scheme'' @ [CHR 0x22] @ '':'' @ [CHR 0x22] @ ''https'' @ [CHR 0x22] @ ''}'')"

definition absoluteURL :: "request \<Rightarrow> string \<Rightarrow> string" where
  "absoluteURL rq p =
     (let forwarded = TrimSpace (header rq ''X-Forwarded-Host'');
          publicHost = TrimSpace (header rq ''X-Macftpd-Public-Host'')
      in url_string (if requestIsHTTPS rq then ''https'' else ''http'')
           (if publicHost \<noteq> [] then publicHost else if forwarded \<noteq> [] then forwarded else rq_host rq) p)"

subsection \<open>Paths and addresses\<close>

definition splitCSV :: "string \<Rightarrow> string list" where
  "splitCSV value = filter (\<lambda>p. p \<noteq> []) (map TrimSpace (Split value (CHR '','')))"

definition parentVirtual :: "string \<Rightarrow> string" where
  "parentVirtual p0 =
     (let p = Clean (slash # TrimPrefix p0 [slash])
      in if p = [slash] then [slash]
         else let parent = Dir_name p in if parent = ''.'' then [slash] else parent)"

record adminCrumb =
  crumb_Name :: string
  crumb_Path :: string

fun crumbs_from :: "string \<Rightarrow> string list \<Rightarrow> adminCrumb list" where
  "crumbs_from current [] = []"
| "crumbs_from current (part # parts) =
     (if part = [] then crumbs_from current parts
      else let current' = Join_paths [current, part]
           in \<lparr>crumb_Name = part, crumb_Path = slash # TrimPrefix current' [slash]\<rparr> #
              crumbs_from current' parts)"

definition breadcrumbs :: "string \<Rightarrow> adminCrumb list" where
  "breadcrumbs p0 =
     (let p = Clean (slash # TrimPrefix p0 [slash]); root = \<lparr>crumb_Name = ''root'', crumb_Path = [slash]\<rparr>
      in if p = [slash] then [root]
         else root # crumbs_from [] (Split (TrimPrefix p [slash]) slash))"

definition linkParts :: "string \<Rightarrow> string \<Rightarrow> (string \<times> string) option" where
  "linkParts urlPath pre =
     (case Split (Trim (TrimPrefix urlPath pre) [slash]) slash of
        ident # token # _ \<Rightarrow> if ident = [] \<or> token = [] then None else Some (ident, token)
      | _ \<Rightarrow> None)"

definition shareCookieName :: "string \<Rightarrow> string" where
  "shareCookieName ident = ''macftpd_share_'' @ replace_char (CHR ''-'') (CHR ''_'') ident"

definition public_root :: "Root \<Rightarrow> string" where
  "public_root r = slash # r_PublicDir r"

definition publicPath :: "Root \<Rightarrow> string \<Rightarrow> err + string \<times> string" where
  "publicPath r urlPath =
     (let rel = TrimPrefix urlPath ''/public/'';
          virtual = Clean (slash # r_PublicDir r @ slash # rel);
          publicRoot = Clean (slash # r_PublicDir r)
      in if virtual \<noteq> publicRoot \<and> \<not> HasPrefix virtual (publicRoot @ [slash]) then Inl ErrOutsideRoot
         else ResolveAdmin r virtual)"

definition publicURLForVirtual :: "Root \<Rightarrow> string \<Rightarrow> string" where
  "publicURLForVirtual r virtual0 =
     (let virtual = Clean (slash # TrimPrefix virtual0 [slash])
      in if virtual = public_root r then ''/public/''
         else if HasPrefix virtual (public_root r @ [slash])
         then ''/public/'' @ TrimPrefix virtual (public_root r @ [slash])
         else ''/public/'')"

definition publicURLForShare :: "Root \<Rightarrow> string \<Rightarrow> string" where
  "publicURLForShare r virtual0 =
     (let virtual = Clean (slash # TrimPrefix virtual0 [slash])
      in if virtual = public_root r \<or> \<not> HasPrefix virtual (public_root r @ [slash]) then []
         else ''/public/'' @ Join (map PathEscape
                (Split (TrimPrefix virtual (public_root r @ [slash])) slash)) [slash])"

definition publicAbsoluteURL :: "string \<Rightarrow> request \<Rightarrow> string \<Rightarrow> string" where
  "publicAbsoluteURL publicBaseURL rq p =
     (let base = TrimRight (TrimSpace publicBaseURL) [slash]
      in if base = [] then absoluteURL rq p
         else base @ [slash] @ TrimLeft p [slash])"

fun unique_from :: "string list \<Rightarrow> string list \<Rightarrow> string list" where
  "unique_from seen [] = []"
| "unique_from seen (v # vs) =
     (if v \<in> set seen then unique_from seen vs else v # unique_from (v # seen) vs)"

definition uniqueStrings :: "string list \<Rightarrow> string list" where
  "uniqueStrings values = unique_from [] values"

subsection \<open>Sizes and headers\<close>

fun size_unit :: "string list \<Rightarrow> nat \<Rightarrow> nat \<Rightarrow> string" where
  "size_unit [] n d = show_tenths n (d * 1024) @ '' PB''"
| "size_unit (unit_name # unit_names) n d =
     (let d' = d * 1024
      in if n < d' * 1024 then show_tenths n d' @ '' '' @ unit_name else size_unit unit_names n d')"

definition humanSize :: "int \<Rightarrow> bool \<Rightarrow> string" where
  "humanSize n isDir =
     (if isDir then ''folder''
      else if n < 1024 then Itoa n @ '' B''
      else size_unit [''KB'', ''MB'', ''GB'', ''TB''] (float64 (nat n)) 1)"

lemma drop_rune: "s \<noteq> [] \<Longrightarrow> DecodeRune s = (r, w) \<Longrightarrow> length s - w < length s"
  using DecodeRune_pos[of s] by simp

text \<open>\<open>strings.Map\<close> of a function that leaves a rune or replaces it by a byte.\<close>

function map_runes :: "(nat \<Rightarrow> char option) \<Rightarrow> string \<Rightarrow> string" where
  "map_runes f s =
     (if s = [] then []
      else case DecodeRune s of (r, w) \<Rightarrow>
        (case f r of None \<Rightarrow> take w s | Some c \<Rightarrow> [c]) @ map_runes f (drop w s))"
  by pat_completeness auto

termination
  by (relation "measure (length \<circ> snd)") (auto intro: drop_rune dest!: sym[of "(_, _)"])

declare map_runes.simps [simp del]

definition dispositionHeader :: "string \<Rightarrow> string \<Rightarrow> string" where
  "dispositionHeader disposition name =
     (let plain = map_runes (\<lambda>r. if r < 0x20 \<or> r = 0x7F \<or> r = 0x22 \<or> r = 0x5C \<or> r > 0x7E
                                 then Some (CHR ''_'') else None) name;
          fallback = (if plain = [] then ''download'' else plain)
      in disposition @ ''; filename='' @ [CHR 0x22] @ fallback @ [CHR 0x22] @
         ''; filename*=UTF-8'' @ [CHR 0x27, CHR 0x27] @ PathEscape name)"

text \<open>\<open>ctype\<close> is the type \<open>mime.TypeByExtension\<close> knows for the name.\<close>

definition file_disposition :: "string \<Rightarrow> request \<Rightarrow> string \<Rightarrow> string" where
  "file_disposition ctype rq name =
     (let inline = HasPrefix ctype ''image/'' \<or> HasPrefix ctype ''video/'' \<or> HasPrefix ctype ''audio/'' \<or>
            ctype = ''application/pdf'' \<or> HasPrefix ctype ''text/''
      in dispositionHeader (if inline \<and> query rq ''download'' \<noteq> ''1'' then ''inline'' else ''attachment'')
           name)"

subsection \<open>Downloads\<close>

definition rangeRunsToEOF :: "string \<Rightarrow> int \<Rightarrow> bool" where
  "rangeRunsToEOF header_value n =
     (if n \<le> 0 then False
      else let value = TrimSpace header_value
           in if length value < 6 \<or> \<not> EqualFold (take 6 value) ''bytes='' then False
              else let spec = TrimSpace (drop 6 value)
                   in if spec = [] \<or> CHR '','' \<in> set spec then False
                      else (case Cut spec (CHR ''-'') of (start, finish, found) \<Rightarrow>
                        if \<not> found then False
                        else if TrimSpace start = [] then False
                        else if ParseInt (TrimSpace start) = None then False
                        else if TrimSpace finish = [] then True
                        else (case ParseInt (TrimSpace finish) of
                                None \<Rightarrow> False | Some last_byte \<Rightarrow> last_byte \<ge> n - 1)))"

text \<open>
  An error of the connection: what \<open>errors.Is\<close> recognises in it, and its text.
\<close>

datatype net_cause = CtxCanceled | NetClosed | ClosedPipe | BrokenPipe | ConnReset | OtherCause

record net_error =
  ne_cause :: net_cause
  ne_text :: string

record fileServeResult =
  fr_Status :: int
  fr_Bytes :: int
  fr_Size :: int
  fr_Method :: string
  fr_Err :: "net_error option"
  fr_Range :: string

definition Success :: "fileServeResult \<Rightarrow> bool" where
  "Success r \<longleftrightarrow> fr_Err r = None \<and> fr_Status r \<ge> 200 \<and> fr_Status r < 400 \<and>
     (fr_Bytes r > 0 \<or> fr_Method r = ''GET'' \<and> fr_Status r = 200 \<and> fr_Size r = 0)"

definition minimumResume :: "int \<Rightarrow> int" where
  "minimumResume n = min (max 1 (n div 100)) 8388608"

definition RecordableDownload :: "fileServeResult \<Rightarrow> bool" where
  "RecordableDownload r =
     (if \<not> Success r then False
      else if fr_Status r = 200 then True
      else if fr_Status r \<noteq> 206 \<or> \<not> rangeRunsToEOF (fr_Range r) (fr_Size r) then False
      else fr_Bytes r \<ge> minimumResume (fr_Size r))"

definition isClientDisconnect :: "net_error option \<Rightarrow> bool" where
  "isClientDisconnect e =
     (case e of
        None \<Rightarrow> False
      | Some e \<Rightarrow>
          ne_cause e \<noteq> OtherCause \<or>
          list_ex (Contains (ToLower (ne_text e)))
            [''broken pipe'', ''connection reset by peer'', ''client disconnected'', ''stream canceled'',
             ''stream cancelled'', ''; cancel''])"

definition download_detail :: "string \<Rightarrow> string \<Rightarrow> fileServeResult \<Rightarrow> bool \<Rightarrow> string" where
  "download_detail detail word r with_error =
     detail @ word @ '' status='' @ Itoa (fr_Status r) @ '' bytes='' @ Itoa (fr_Bytes r) @
     (if fr_Range r \<noteq> [] then '' range='' @ fr_Range r else []) @
     (case fr_Err r of Some e \<Rightarrow> if with_error then '' error='' @ ne_text e else [] | None \<Rightarrow> [])"

text \<open>The event that is logged for a served file.\<close>

definition download_event :: "Event \<Rightarrow> fileServeResult \<Rightarrow> Event" where
  "download_event e0 r =
     (let e = e0\<lparr>e_Bytes := fr_Bytes r\<rparr>
      in if fr_Err r \<noteq> None \<and> isClientDisconnect (fr_Err r)
         then e\<lparr>e_Outcome := ''canceled'', e_Detail := download_detail (e_Detail e) '' canceled'' r True\<rparr>
         else if fr_Err r \<noteq> None \<or> fr_Status r \<ge> 400
         then e\<lparr>e_Outcome := ''failed'', e_Detail := download_detail (e_Detail e) '' failed'' r True\<rparr>
         else (if RecordableDownload r then e else e\<lparr>e_Action := ''download_probe''\<rparr>)
                \<lparr>e_Detail := download_detail (e_Detail e) [] r False\<rparr>)"

subsection \<open>Uploads\<close>

definition safeUploadID :: "string \<Rightarrow> bool" where
  "safeUploadID ident \<longleftrightarrow> 8 \<le> length ident \<and> length ident \<le> 96 \<and>
     list_all (\<lambda>c. is_lower c \<or> is_upper c \<or> is_digit c \<or> c = CHR ''-'' \<or> c = CHR ''_'') ident"

definition uploadPartName :: "string \<Rightarrow> string \<Rightarrow> string" where
  "uploadPartName scope uploadID =
     b64_encode url_alphabet (Sum256 (scope @ [CHR 0x00] @ uploadID)) @ ''.part''"

definition bad_filename :: "string \<Rightarrow> bool" where
  "bad_filename name \<longleftrightarrow> name = [] \<or> name = ''.'' \<or> name = [slash]"

end
