(* ===== verification/HttpActivity.thy ===== *)
theory HttpActivity
  imports HttpText
begin

text \<open>
  The activity dashboard of \<open>internal/httpapi/server.go\<close>: which of the logged events are shown, in
  which of its lists. Events come newest first, as \<open>Recent\<close> returns them.
\<close>

definition no_event :: Event where
  "no_event = \<lparr>e_ID = 0, e_Time = 0, e_Type = [], e_Protocol = [], e_Actor = [], e_Remote = [],
     e_Referrer = [], e_Action = [], e_Outcome = [], e_Path = [], e_DestPath = [], e_Bytes = 0,
     e_Detail = [], e_Message = []\<rparr>"

record activityMonitorSummary =
  am_Count :: int
  am_OK :: int
  am_Failed :: int
  am_Last :: Event
  am_LastOK :: Event
  am_LastFailed :: Event

record activityDashboard =
  ad_Events :: "Event list"
  ad_Security :: "Event list"
  ad_ExternalFailures :: "Event list"
  ad_AdminMistakes :: "Event list"
  ad_Monitor :: activityMonitorSummary

definition monitor_path :: "string \<Rightarrow> bool" where
  "monitor_path p \<longleftrightarrow> p = ''_monitor'' \<or> HasPrefix p ''_monitor/''"

definition isMonitorActivity :: "Event \<Rightarrow> bool" where
  "isMonitorActivity e =
     (let pathValue = TrimPrefix (e_Path e) [slash]; destValue = TrimPrefix (e_DestPath e) [slash]
      in if monitor_path pathValue then True
         else if monitor_path destValue then True
         else if e_Type e = ''ftp_login'' \<and> e_Protocol e = ''ftp'' \<and> e_Action e = ''login'' \<and>
           e_Actor e = ''admin'' \<and> pathValue = [] \<and> isLoopbackRemote (e_Remote e) then True
         else Contains (ToLower (e_Detail e @ '' '' @ e_Message e)) ''monitor'')"

definition isMaintenanceProbeActivity :: "Event \<Rightarrow> bool" where
  "isMaintenanceProbeActivity e \<longleftrightarrow>
     e_Type e = ''http_login'' \<and> e_Protocol e = ''http'' \<and> e_Action e = ''login'' \<and>
     e_Outcome e = ''failed'' \<and> e_Path e = ''/api/activity'' \<and> isLoopbackRemote (e_Remote e)"

definition isSecurityActivity :: "Event \<Rightarrow> bool" where
  "isSecurityActivity e \<longleftrightarrow>
     ToLower (e_Outcome e) \<in> {''failed'', ''denied'', ''limited''} \<or> e_Type e = ''http_security''"

definition isLocalOrKnownAdminActivity :: "Event \<Rightarrow> bool" where
  "isLocalOrKnownAdminActivity e =
     (if isLoopbackRemote (e_Remote e) then True
      else let actor = ToLower (TrimSpace (e_Actor e))
           in if actor = [] \<or> actor = ''anonymous'' \<or> actor = ''someone'' then False
              else if HasPrefix (e_Type e) ''admin_'' \<or> e_Type e = ''http_login'' \<or>
                e_Type e = ''http_logout'' then True
              else actor = ''admin'')"

definition monitor_step :: "Event \<Rightarrow> activityMonitorSummary \<Rightarrow> activityMonitorSummary" where
  "monitor_step e m0 =
     (let m = m0\<lparr>am_Count := am_Count m0 + 1,
                 am_Last := (if e_ID (am_Last m0) = 0 then e else am_Last m0)\<rparr>
      in if isSecurityActivity e
         then m\<lparr>am_Failed := am_Failed m + 1,
                am_LastFailed := (if e_ID (am_LastFailed m) = 0 then e else am_LastFailed m)\<rparr>
         else m\<lparr>am_OK := am_OK m + 1,
                am_LastOK := (if e_ID (am_LastOK m) = 0 then e else am_LastOK m)\<rparr>)"

text \<open>Appending while the list is shorter than its bound.\<close>

definition append_below :: "nat \<Rightarrow> 'a \<Rightarrow> 'a list \<Rightarrow> 'a list" where
  "append_below n x xs = (if length xs < n then xs @ [x] else xs)"

definition dashboard_step :: "nat \<Rightarrow> Event \<Rightarrow> activityDashboard \<Rightarrow> activityDashboard" where
  "dashboard_step limit e d =
     (if isMonitorActivity e then d\<lparr>ad_Monitor := monitor_step e (ad_Monitor d)\<rparr>
      else if isMaintenanceProbeActivity e then d
      else let d1 = (if isSecurityActivity e
             then let d2 = d\<lparr>ad_Security := append_below 12 e (ad_Security d)\<rparr>
                  in if isLocalOrKnownAdminActivity e
                     then d2\<lparr>ad_AdminMistakes := append_below 8 e (ad_AdminMistakes d2)\<rparr>
                     else d2\<lparr>ad_ExternalFailures := append_below 8 e (ad_ExternalFailures d2)\<rparr>
             else d)
           in d1\<lparr>ad_Events := append_below limit e (ad_Events d1)\<rparr>)"

definition empty_dashboard :: activityDashboard where
  "empty_dashboard =
     \<lparr>ad_Events = [], ad_Security = [], ad_ExternalFailures = [], ad_AdminMistakes = [],
      ad_Monitor = \<lparr>am_Count = 0, am_OK = 0, am_Failed = 0, am_Last = no_event, am_LastOK = no_event,
                    am_LastFailed = no_event\<rparr>\<rparr>"

definition activityDashboard_of :: "Store option \<Rightarrow> int \<Rightarrow> int \<Rightarrow> activityDashboard" where
  "activityDashboard_of log limit0 after =
     (let limit = (if limit0 \<le> 0 \<or> limit0 > 200 then 80 else limit0)
      in fold (dashboard_step (nat limit)) (Recent 2000 after log) empty_dashboard)"

subsection \<open>What the dashboard shows\<close>

text \<open>The events that are shown at all, and those of them that are a security matter.\<close>

definition shown :: "Event list \<Rightarrow> Event list" where
  "shown es = filter (\<lambda>e. \<not> isMonitorActivity e \<and> \<not> isMaintenanceProbeActivity e) es"

definition monitored :: "Event list \<Rightarrow> Event list" where
  "monitored es = filter isMonitorActivity es"

lemma append_below_take: "append_below n x (take n xs) = take n (xs @ [x])"
  by (simp add: append_below_def)

text \<open>A summary of the monitor's events: its counters, and the first event of each kind.\<close>

definition first_event :: "Event list \<Rightarrow> Event" where
  "first_event es = (case es of [] \<Rightarrow> no_event | e # _ \<Rightarrow> e)"

lemma first_event_snoc:
  "\<forall>e \<in> set es. e_ID e \<noteq> 0 \<Longrightarrow>
     (if e_ID (first_event es) = 0 then e else first_event es) = first_event (es @ [e])"
  by (cases es) (auto simp: first_event_def no_event_def)

definition dashboard_spec :: "nat \<Rightarrow> Event list \<Rightarrow> activityDashboard" where
  "dashboard_spec n es =
     (let sec = filter isSecurityActivity (shown es);
          failed = filter isSecurityActivity (monitored es);
          fine = filter (\<lambda>e. \<not> isSecurityActivity e) (monitored es)
      in \<lparr>ad_Events = take n (shown es), ad_Security = take 12 sec,
          ad_ExternalFailures = take 8 (filter (\<lambda>e. \<not> isLocalOrKnownAdminActivity e) sec),
          ad_AdminMistakes = take 8 (filter isLocalOrKnownAdminActivity sec),
          ad_Monitor = \<lparr>am_Count = int (length (monitored es)), am_OK = int (length fine),
            am_Failed = int (length failed), am_Last = first_event (monitored es),
            am_LastOK = first_event fine, am_LastFailed = first_event failed\<rparr>\<rparr>)"

lemma dashboard_snoc:
  assumes "\<forall>e \<in> set es. e_ID e \<noteq> 0"
  shows "dashboard_step n e (dashboard_spec n es) = dashboard_spec n (es @ [e])"
proof -
  have "\<forall>e \<in> set (monitored es). e_ID e \<noteq> 0"
    "\<forall>e \<in> set (filter isSecurityActivity (monitored es)). e_ID e \<noteq> 0"
    "\<forall>e \<in> set (filter (\<lambda>e. \<not> isSecurityActivity e) (monitored es)). e_ID e \<noteq> 0"
    using assms by (auto simp: monitored_def)
  note first = this[THEN first_event_snoc]
  have snoc: "monitored (es @ [e]) = monitored es @ (if isMonitorActivity e then [e] else [])"
    "shown (es @ [e]) = shown es @ (if isMonitorActivity e \<or> isMaintenanceProbeActivity e then [] else [e])"
    by (simp_all add: monitored_def shown_def)
  show ?thesis
    by (cases "isMonitorActivity e"; cases "isSecurityActivity e"; cases "isLocalOrKnownAdminActivity e";
        cases "isMaintenanceProbeActivity e")
       (simp_all add: dashboard_step_def dashboard_spec_def Let_def monitor_step_def append_below_take
          snoc first[of e, symmetric])
qed

lemma dashboard_fold:
  "\<forall>e \<in> set es. e_ID e \<noteq> 0 \<Longrightarrow> fold (dashboard_step n) es empty_dashboard = dashboard_spec n es"
proof (induction es rule: rev_induct)
  case (snoc e es)
  then show ?case by (simp add: dashboard_snoc)
qed (simp add: dashboard_spec_def empty_dashboard_def first_event_def shown_def monitored_def)

text \<open>C40: the dashboard hides nothing that is held. For a log of at most 2000 events, with the
  identifiers \<open>Add\<close> gives, the lists of the dashboard are exactly the first entries of what they
  are for: the newest events that are neither the monitor's own nor maintenance probes, the newest
  security events, and those of them from outside and by known administrators; and the monitor's
  summary counts all its events, so that none of the lists is shortened by its traffic.\<close>

theorem dashboard_exact:
  assumes "length (a_events s) \<le> 2000" and "\<forall>e \<in> set (a_events s). 0 < e_ID e"
  shows "activityDashboard_of (Some s) limit after =
    dashboard_spec (nat (if limit \<le> 0 \<or> limit > 200 then 80 else limit))
      (filter (\<lambda>e. \<not> (after > 0 \<and> e_ID e \<le> after)) (rev (a_events s)))"
proof -
  let ?es = "filter (\<lambda>e. \<not> (after > 0 \<and> e_ID e \<le> after)) (rev (a_events s))"
  have "length ?es \<le> 2000"
    using assms(1) length_filter_le[of _ "rev (a_events s)"] by (metis le_trans length_rev)
  then have "Recent 2000 after (Some s) = ?es" by (simp add: Recent_eq)
  moreover have "\<forall>e \<in> set ?es. e_ID e \<noteq> 0" using assms(2) by auto
  ultimately show ?thesis
    by (simp add: activityDashboard_of_def Let_def dashboard_fold del: filter_filter)
qed

theorem dashboard_exact_witness:
  "let ev = (\<lambda>i outcome path. no_event\<lparr>e_ID := i, e_Type := ''http_login'', e_Remote := ''203.0.113.9:80'',
         e_Actor := ''eve'', e_Outcome := outcome, e_Path := path\<rparr>);
       s = (New_log 2000)\<lparr>a_events := [ev 1 ''failed'' ''/api/login'', ev 2 ''ok'' ''/_monitor/x'',
         ev 3 ''ok'' ''/admin'']\<rparr>;
       d = activityDashboard_of (Some s) 0 0
   in map e_ID (ad_Events d) = [3, 1] \<and> map e_ID (ad_Security d) = [1] \<and>
      am_Count (ad_Monitor d) = 1"
proof -
  define ev where "ev = (\<lambda>i outcome path. no_event\<lparr>e_ID := i, e_Type := ''http_login'',
    e_Remote := ''203.0.113.9:80'', e_Actor := ''eve'', e_Outcome := outcome, e_Path := path\<rparr>)"
  define es where "es = [ev 1 ''failed'' ''/api/login'', ev 2 ''ok'' ''/_monitor/x'', ev 3 ''ok'' ''/admin'']"
  let ?s = "(New_log 2000)\<lparr>a_events := es\<rparr>"
  have "activityDashboard_of (Some ?s) 0 0 =
      dashboard_spec (nat (if (0::int) \<le> 0 \<or> (0::int) > 200 then 80 else 0))
        (filter (\<lambda>e. \<not> ((0::int) > 0 \<and> e_ID e \<le> 0)) (rev (a_events ?s)))"
    by (rule dashboard_exact) (simp_all add: es_def ev_def no_event_def)
  then have d: "activityDashboard_of (Some ?s) 0 0 = dashboard_spec 80 (rev es)" by simp
  have "map e_ID (ad_Events (dashboard_spec 80 (rev es))) = [3, 1]"
    "map e_ID (ad_Security (dashboard_spec 80 (rev es))) = [1]"
    "am_Count (ad_Monitor (dashboard_spec 80 (rev es))) = 1"
    unfolding es_def ev_def by code_simp+
  then show ?thesis using d by (simp add: Let_def es_def ev_def)
qed

end
