(* ===== verification/Cloudflare.thy ===== *)
theory Cloudflare
  imports Config
begin

text \<open>
  The client of \<open>internal/cloudflare/cloudflare.go\<close>. A request to the service is a value of
  \<open>cf_request\<close>, and what the service answers to it is an argument; each operation gives its error
  and the requests it sent. The client is a pointer that may be nil, here \<open>None\<close>.
\<close>

datatype cf_request = PurgeAll | PurgeTags "string list" | PurgeList "string list"

datatype cf_answer = NoAnswer err | Answer int string

definition ErrNotConfigured :: err where
  "ErrNotConfigured = ErrMsg ''cloudflare is not configured''"

definition Enabled :: "CloudflareConfig option \<Rightarrow> bool" where
  "Enabled c = (case c of None \<Rightarrow> False
     | Some cfg \<Rightarrow> cf_Enabled cfg \<and> cf_ZoneID cfg \<noteq> [] \<and> cf_APIToken cfg \<noteq> [])"

text \<open>The header \<open>AddCacheHeaders\<close> sets, if any.\<close>

definition AddCacheHeaders :: "CloudflareConfig option \<Rightarrow> (string \<times> string) option" where
  "AddCacheHeaders c = (case c of None \<Rightarrow> None
     | Some cfg \<Rightarrow> if cf_CacheTag cfg = [] then None else Some (''Cache-Tag'', cf_CacheTag cfg))"

type_synonym cf_service = "cf_request \<Rightarrow> cf_answer"

definition post :: "cf_service \<Rightarrow> cf_request \<Rightarrow> err option \<times> cf_request list" where
  "post service body =
     (case service body of
        NoAnswer e \<Rightarrow> Some e
      | Answer code status \<Rightarrow>
          if code < 200 \<or> code \<ge> 300 then Some (ErrMsg (''cloudflare purge failed: '' @ status))
          else None, [body])"

definition PurgeEverything :: "cf_service \<Rightarrow> CloudflareConfig option \<Rightarrow> err option \<times> cf_request list" where
  "PurgeEverything service c =
     (if \<not> Enabled c then (Some ErrNotConfigured, []) else post service PurgeAll)"

definition PurgeFiles ::
  "cf_service \<Rightarrow> CloudflareConfig option \<Rightarrow> string list \<Rightarrow> err option \<times> cf_request list" where
  "PurgeFiles service c files =
     (if files = [] then (None, [])
      else if \<not> Enabled c then (Some ErrNotConfigured, []) else post service (PurgeList files))"

definition PurgeTag :: "cf_service \<Rightarrow> CloudflareConfig option \<Rightarrow> err option \<times> cf_request list" where
  "PurgeTag service c =
     (case c of
        None \<Rightarrow> (Some ErrNotConfigured, [])
      | Some cfg \<Rightarrow> if \<not> Enabled c \<or> cf_CacheTag cfg = [] then (Some ErrNotConfigured, [])
                   else post service (PurgeTags [cf_CacheTag cfg]))"

end
