(* ===== verification/HttpServer.thy ===== *)
theory HttpServer
  imports HttpActivity Cloudflare Effects RateLimit StatusTracker Storage
begin

text \<open>
  The HTTP server of \<open>internal/httpapi/server.go\<close>: its state, what a handler does to the response,
  and who may call it. A handler is a computation in the state monad over a record \<open>hctx\<close> of the
  server, the disk, the answers of everything outside the program, and the response.

  The answers are the record \<open>http_env\<close>, one for each request: random bytes, the decoders of
  \<open>encoding/json\<close> on the body, \<open>url.Parse\<close>, \<open>time.ParseDuration\<close>, MIME types, how far the client
  reads a response, the file server of the embedded assets, what Cloudflare, the Turnstile service and a remote FTP server say, and whether
  the files of the stores can be written.
\<close>

subsection \<open>Documents\<close>

datatype json =
    JS string | JN int | JB bool | JT time
  | JO "(string \<times> json) list" | JL "json list"
  | JUser User | JPerms PermissionSet | JGroup Group | JLink PublicLink | JEvent Event
  | JSession Session | JEntry Entry | JStats PathStats | JState State | JRetained RetainedEntry
  | JDashboard activityDashboard

datatype page = Json json | Template string "(string \<times> json) list"

subsection \<open>Request bodies\<close>

record loginRequest =
  lr_Username :: string
  lr_Password :: string
  lr_TurnstileToken :: string

record userRequest =
  ur_Username :: string
  ur_Password :: string
  ur_Groups :: "string list"
  ur_Home :: string
  ur_Disabled :: bool
  ur_Permissions :: PermissionSet

record actionRequest =
  ar_Operation :: string
  ar_Paths :: "string list"
  ar_DestPath :: string
  ar_Deduplicate :: bool
  ar_Overwrite :: bool

record fxpRequest =
  fx_Host :: string
  fx_Username :: string
  fx_Password :: string
  fx_RemotePath :: string
  fx_DestPath :: string

record shareRequest =
  sr_Kind :: string
  sr_Path :: string
  sr_Label :: string
  sr_ExpiresIn :: string
  sr_Password :: string
  sr_MaxDownloads :: int
  sr_AllowOverwrite :: bool

record restoreRequest =
  rr_Kind :: string
  rr_ID :: string
  rr_DestPath :: string
  rr_Overwrite :: bool

record purgeRequest =
  pr_Files :: "string list"
  pr_Paths :: "string list"

text \<open>The decoders: \<open>None\<close> is an error, but for the purge request, whose decoder's error is ignored.\<close>

record decoders =
  dj_login :: "string \<Rightarrow> loginRequest option"
  dj_user :: "string \<Rightarrow> userRequest option"
  dj_group :: "string \<Rightarrow> Group option"
  dj_dest :: "string \<Rightarrow> string option"
  dj_action :: "string \<Rightarrow> actionRequest option"
  dj_fxp :: "string \<Rightarrow> fxpRequest option"
  dj_share :: "string \<Rightarrow> shareRequest option"
  dj_restore :: "string \<Rightarrow> restoreRequest option"
  dj_purge :: "string \<Rightarrow> purgeRequest"

subsection \<open>State\<close>

record http_server =
  hs_cfg :: HTTPConfig
  hs_auth :: AuthStore
  hs_root :: Root
  hs_cloudflare :: "CloudflareConfig option"
  hs_sessionKey :: string
  hs_limiter :: Limiter
  hs_shareLimit :: Limiter
  hs_activity :: "Store option"
  hs_links :: ShareStore
  hs_tracker :: "Tracker option"
  hs_uploads :: "(string \<times> nat) list"
  hs_startedAt :: time
  hs_kdf :: kdf
  hs_codec :: codec
  hs_clone :: bool

definition New_http ::
  "HTTPConfig \<Rightarrow> AuthStore \<Rightarrow> Root \<Rightarrow> CloudflareConfig option \<Rightarrow> Store option \<Rightarrow> ShareStore \<Rightarrow>
     Tracker option \<Rightarrow> time \<Rightarrow> kdf \<Rightarrow> codec \<Rightarrow> bool \<Rightarrow> http_server" where
  "New_http cfg store root cf activityLog links tracker now kdf codec platform_clone =
     \<lparr>hs_cfg = cfg, hs_auth = store, hs_root = root, hs_cloudflare = cf,
      hs_sessionKey = hc_SessionKey cfg, hs_limiter = New_limiter 5 (10 * minute) (5 * minute),
      hs_shareLimit = New_limiter 5 (10 * minute) (5 * minute), hs_activity = activityLog,
      hs_links = links, hs_tracker = tracker, hs_uploads = [], hs_startedAt = now, hs_kdf = kdf,
      hs_codec = codec, hs_clone = platform_clone\<rparr>"

datatype turnstile = TurnstileError err | TurnstileSays bool

record http_env =
  he_nonce :: string
  he_salt :: "string option"
  he_create :: CreateInputs
  he_save_auth :: "err option"
  he_save_links :: "err option"
  he_logged :: bool
  he_json :: decoders
  he_url_host :: "string \<Rightarrow> string option"
  he_ParseDuration :: "string \<Rightarrow> duration option"
  he_mime :: "string \<Rightarrow> string"
  he_sniff :: "string \<Rightarrow> string"
  he_precondition :: "request \<Rightarrow> time \<Rightarrow> precondition"
  he_boundary :: string
  he_accepts :: "nat option"
  he_write_error :: net_error
  he_cloudflare :: cf_service
  he_turnstile :: "string \<Rightarrow> turnstile"
  he_ftp_dial :: "string \<Rightarrow> err option"
  he_ftp_login :: "string \<Rightarrow> string \<Rightarrow> err option"
  he_ftp_retr :: "string \<Rightarrow> err + string \<times> err option"
  he_zone :: "time \<Rightarrow> time \<times> string"
  he_runtime :: "(string \<times> json) list"
  he_quote :: "string \<Rightarrow> string"
  he_assets :: "request \<Rightarrow> page response \<Rightarrow> page response"
  he_error_text :: "err \<Rightarrow> string"

record hctx =
  hx_sv :: http_server
  hx_disk :: world
  hx_env :: http_env
  hx_rs :: "page response"
  hx_purged :: "cf_request list"

type_synonym 'a http = "(hctx, 'a) state"

abbreviation server :: "(http_server \<Rightarrow> 'a) \<Rightarrow> 'a http" where
  "server f \<equiv> ask (\<lambda>c. f (hx_sv c))"

abbreviation outside :: "(http_env \<Rightarrow> 'a) \<Rightarrow> 'a http" where
  "outside f \<equiv> ask (\<lambda>c. f (hx_env c))"

definition set_server :: "(http_server \<Rightarrow> http_server) \<Rightarrow> unit http" where
  "set_server f = tell (\<lambda>c. c\<lparr>hx_sv := f (hx_sv c)\<rparr>)"

definition disk :: "(Root \<Rightarrow> 'a io) \<Rightarrow> (err + 'a) http" where
  "disk op = State (\<lambda>c. case op (hs_root (hx_sv c)) (hx_disk c) of (r, w) \<Rightarrow> (r, c\<lparr>hx_disk := w\<rparr>))"

definition now :: "time http" where
  "now = State (\<lambda>c. (w_clock (hx_disk c) (w_ticks (hx_disk c)),
     c\<lparr>hx_disk := (hx_disk c)\<lparr>w_ticks := Suc (w_ticks (hx_disk c))\<rparr>\<rparr>))"

definition respond :: "(page response \<Rightarrow> page response) \<Rightarrow> unit http" where
  "respond f = tell (\<lambda>c. c\<lparr>hx_rs := f (hx_rs c)\<rparr>)"

subsection \<open>Answers\<close>

definition writeJSON :: "int \<Rightarrow> json \<Rightarrow> unit http" where
  "writeJSON status body = respond (\<lambda>rs. write_body (Doc (Json body)) (write_header status
     (set_header ''Content-Type'' ''application/json'' rs)))"

definition writeHTML :: "int \<Rightarrow> string \<Rightarrow> unit http" where
  "writeHTML status body = respond (\<lambda>rs. write_body
     (Bytes (''<div class='' @ [CHR 0x22] @ ''alert alert-error text-sm'' @ [CHR 0x22] @ ''>'' @
             EscapeString body @ ''</div>''))
     (write_header status (set_header ''Content-Type'' ''text/html; charset=utf-8'' rs)))"

definition errorBody :: "string \<Rightarrow> json" where
  "errorBody msg = JO [(''error'', JS msg)]"

definition failJSON :: "int \<Rightarrow> string \<Rightarrow> unit http" where
  "failJSON status msg = writeJSON status (errorBody msg)"

text \<open>An error's text, which for the code's own errors is their message.\<close>

definition fail_with :: "int \<Rightarrow> err \<Rightarrow> unit http" where
  "fail_with status e = do { text \<leftarrow> outside he_error_text; failJSON status (text e) }"

definition httpError :: "string \<Rightarrow> int \<Rightarrow> unit http" where
  "httpError msg status = respond (http_Error msg status)"

definition notFound :: "unit http" where
  "notFound = respond http_NotFound"

definition render :: "string \<Rightarrow> (string \<times> json) list \<Rightarrow> unit http" where
  "render template data = respond (write_body (Doc (Template template data)))"

definition html_page :: "string \<Rightarrow> (string \<times> json) list \<Rightarrow> unit http" where
  "html_page template data = do {
     respond (set_header ''Content-Type'' ''text/html; charset=utf-8'');
     render template data
   }"

subsection \<open>The activity log\<close>

definition logActivity :: "Event \<Rightarrow> unit http" where
  "logActivity e = do {
     t \<leftarrow> now;
     logged \<leftarrow> outside he_logged;
     set_server (\<lambda>s. s\<lparr>hs_activity :=
       snd (Add_event t logged (if e_Actor e = [] then e\<lparr>e_Actor := ''admin''\<rparr> else e) (hs_activity s))\<rparr>)
   }"

text \<open>An event of the HTTP server about a request.\<close>

definition http_event :: "request \<Rightarrow> string \<Rightarrow> string \<Rightarrow> string \<Rightarrow> string \<Rightarrow> Event" where
  "http_event rq typ actor action detail =
     no_event\<lparr>e_Type := typ, e_Protocol := ''http'', e_Actor := actor, e_Remote := remoteAddr rq,
              e_Action := action, e_Detail := detail\<rparr>"

end
