(* ===== verification/HttpAuth.thy ===== *)
theory HttpAuth
  imports HttpServer
begin

text \<open>
  Who is signed in, in \<open>internal/httpapi/server.go\<close>: session cookies and the cookies of password
  protected links, Basic authentication behind the limiter, and the wrapper \<open>requireAdmin\<close> that every
  administrative route goes through.
\<close>

type_synonym principal = "User \<times> PermissionSet"

subsection \<open>Signed cookies\<close>

abbreviation bar :: char where "bar \<equiv> CHR ''|''"

definition sign :: "string \<Rightarrow> string \<Rightarrow> string" where
  "sign key payload = b64_encode url_alphabet (Hmac key payload)"

definition session_payload :: "string \<Rightarrow> int \<Rightarrow> string \<Rightarrow> string" where
  "session_payload username unix nonce =
     username @ [bar] @ Itoa unix @ [bar] @ b64_encode url_alphabet nonce"

definition session_value :: "string \<Rightarrow> string \<Rightarrow> int \<Rightarrow> string \<Rightarrow> string" where
  "session_value key username unix nonce =
     (let payload = session_payload username unix nonce
      in b64_encode url_alphabet (payload @ [bar] @ sign key payload))"

definition signed_cookie :: "string \<Rightarrow> string \<Rightarrow> string \<Rightarrow> int \<Rightarrow> set_cookie" where
  "signed_cookie name value path unix =
     \<lparr>sk_Name = name, sk_Value = value, sk_Path = path, sk_Expires = Some (from_Unix unix),
      sk_MaxAge = 0, sk_HttpOnly = True, sk_Secure = True, sk_SameSite = ''Lax''\<rparr>"

definition add_cookie :: "set_cookie \<Rightarrow> unit http" where
  "add_cookie k = respond (\<lambda>rs. rs\<lparr>rs_cookies := rs_cookies rs @ [k]\<rparr>)"

definition setSession :: "string \<Rightarrow> unit http" where
  "setSession username = do {
     nonce \<leftarrow> outside he_nonce;
     t \<leftarrow> now;
     key \<leftarrow> server hs_sessionKey;
     let unix = Unix (t + 12 * hour);
     add_cookie (signed_cookie ''macftpd_session'' (session_value key username unix nonce) [slash] unix)
   }"

text \<open>Whether a printed time of expiry has passed; what follows the number is not read.\<close>

definition cookie_expired :: "time \<Rightarrow> string \<Rightarrow> bool" where
  "cookie_expired t s = (case Sscanf_d s of None \<Rightarrow> True | Some unix \<Rightarrow> time_after t (from_Unix unix))"

definition verifySession :: "string \<Rightarrow> time \<Rightarrow> string \<Rightarrow> string option" where
  "verifySession key t raw =
     (case b64_decode url_alphabet raw of
        None \<Rightarrow> None
      | Some decoded \<Rightarrow>
          (case Split decoded bar of
             [username, unix, nonce, mac] \<Rightarrow>
               if sign key (Join [username, unix, nonce] [bar]) \<noteq> mac then None
               else if cookie_expired t unix then None
               else Some username
           | _ \<Rightarrow> None))"

definition share_value :: "string \<Rightarrow> string \<Rightarrow> int \<Rightarrow> string \<Rightarrow> string" where
  "share_value key ident unix token =
     (let payload = ident @ [bar] @ Itoa unix
      in b64_encode url_alphabet (payload @ [bar] @ sign key (payload @ [bar] @ token)))"

definition setShareCookie :: "request \<Rightarrow> string \<Rightarrow> string \<Rightarrow> unit http" where
  "setShareCookie rq ident token = do {
     t \<leftarrow> now;
     key \<leftarrow> server hs_sessionKey;
     let unix = Unix (t + 12 * hour);
     add_cookie (signed_cookie (shareCookieName ident) (share_value key ident unix token)
       (if rq_escaped rq = [] then [slash] else rq_escaped rq) unix)
   }"

definition share_cookie_ok :: "string \<Rightarrow> time \<Rightarrow> string \<Rightarrow> string \<Rightarrow> string \<Rightarrow> bool" where
  "share_cookie_ok key t ident token raw =
     (case b64_decode url_alphabet raw of
        None \<Rightarrow> False
      | Some decoded \<Rightarrow>
          (case Split decoded bar of
             [ident', unix, mac] \<Rightarrow>
               ident' = ident \<and> \<not> cookie_expired t unix \<and>
               sign key (Join [ident', unix] [bar] @ [bar] @ token) = mac
           | _ \<Rightarrow> False))"

definition verifyShareCookie :: "request \<Rightarrow> string \<Rightarrow> string \<Rightarrow> bool http" where
  "verifyShareCookie rq ident token =
     (case cookie rq (shareCookieName ident) of
        None \<Rightarrow> ret False
      | Some raw \<Rightarrow> do {
          t \<leftarrow> now;
          key \<leftarrow> server hs_sessionKey;
          ret (share_cookie_ok key t ident token raw)
        })"

subsection \<open>The limiters\<close>

definition login_limiter :: "(Limiter \<Rightarrow> 'a \<times> Limiter) \<Rightarrow> 'a http" where
  "login_limiter f = State (\<lambda>c. case f (hs_limiter (hx_sv c)) of
     (x, l) \<Rightarrow> (x, c\<lparr>hx_sv := (hx_sv c)\<lparr>hs_limiter := l\<rparr>\<rparr>))"

definition share_limiter :: "(Limiter \<Rightarrow> 'a \<times> Limiter) \<Rightarrow> 'a http" where
  "share_limiter f = State (\<lambda>c. case f (hs_shareLimit (hx_sv c)) of
     (x, l) \<Rightarrow> (x, c\<lparr>hx_sv := (hx_sv c)\<lparr>hs_shareLimit := l\<rparr>\<rparr>))"

text \<open>
  One attempt to sign in as an administrator: \<open>Limited\<close>, or the outcome of \<open>Authenticate\<close>; an
  account without administrative rights counts as a failure.
\<close>

definition admin_credentials :: "principal option \<Rightarrow> bool" where
  "admin_credentials p = (case p of None \<Rightarrow> False | Some (_, perms) \<Rightarrow> p_Admin perms)"

definition sign_in :: "request \<Rightarrow> string \<Rightarrow> string \<Rightarrow> (bool \<times> principal option) http" where
  "sign_in rq username password = do {
     let limitKey = loginLimitKey rq username;
     t \<leftarrow> now;
     allowed \<leftarrow> login_limiter (Allow t limitKey);
     if \<not> allowed then ret (True, None)
     else do {
       sv \<leftarrow> server (\<lambda>s. s);
       let p = Authenticate (hs_kdf sv) (hs_auth sv) username password;
       if \<not> admin_credentials p then do {
         t1 \<leftarrow> now;
         login_limiter (\<lambda>l. ((), Fail t1 limitKey l));
         ret (False, p)
       }
       else do {
         login_limiter (\<lambda>l. ((), Reset limitKey l));
         ret (False, p)
       }
     }
   }"

text \<open>Whether the attempt was limited, and the account.\<close>

definition authenticateRequest :: "request \<Rightarrow> (bool \<times> principal option) http" where
  "authenticateRequest rq =
     (case rq_basic rq of
        Some (username, password) \<Rightarrow> sign_in rq username password
      | None \<Rightarrow>
          (case cookie rq ''macftpd_session'' of
             None \<Rightarrow> ret (False, None)
           | Some raw \<Rightarrow> do {
               t \<leftarrow> now;
               sv \<leftarrow> server (\<lambda>s. s);
               ret (False, case verifySession (hs_sessionKey sv) t raw of
                             None \<Rightarrow> None
                           | Some username \<Rightarrow> Permissions_of (hs_auth sv) username)
             }))"

definition unauthorized :: "request \<Rightarrow> unit http" where
  "unauthorized rq = do {
     logActivity ((http_event rq ''http_login'' [] ''login'' ''admin auth failed'')
       \<lparr>e_Outcome := ''failed'', e_Path := rq_path rq\<rparr>);
     if HasPrefix (rq_path rq) ''/api/'' then failJSON 401 ''unauthorized''
     else do {
       respond (set_header ''Www-Authenticate'' (''Basic realm='' @ [CHR 0x22] @ ''macftpd'' @ [CHR 0x22]));
       httpError ''unauthorized'' 401
     }
   }"

definition requireAdmin :: "(request \<Rightarrow> principal \<Rightarrow> unit http) \<Rightarrow> request \<Rightarrow> unit http" where
  "requireAdmin handler rq = do {
     url_host \<leftarrow> outside he_url_host;
     if \<not> sameOriginUnsafe url_host rq then do {
       logActivity ((http_event rq ''http_security'' [] ''request'' ''cross-origin admin request denied'')
         \<lparr>e_Outcome := ''denied'', e_Path := rq_path rq\<rparr>);
       failJSON 403 ''cross-origin admin request denied''
     }
     else do {
       (limited, p) \<leftarrow> authenticateRequest rq;
       if limited then do {
         logActivity ((http_event rq ''http_login'' [] ''login'' ''admin auth rate-limited'')
           \<lparr>e_Outcome := ''limited'', e_Path := rq_path rq\<rparr>);
         (if HasPrefix (rq_path rq) ''/api/''
          then failJSON 429 ''too many failed login attempts; try again later''
          else httpError ''too many failed login attempts; try again later'' 429)
       }
       else (case p of
         Some (user, perms) \<Rightarrow>
           if p_Admin perms then handler rq (user, perms) else unauthorized rq
       | None \<Rightarrow> unauthorized rq)
     }
   }"

subsection \<open>Signing in and out\<close>

definition verifyTurnstile :: "string \<Rightarrow> err option http" where
  "verifyTurnstile token = do {
     secret \<leftarrow> server (\<lambda>s. hc_TurnstileSecret (hs_cfg s));
     answer \<leftarrow> outside he_turnstile;
     ret (if secret = [] then None
          else if token = [] then Some (ErrMsg ''missing Turnstile token'')
          else case answer token of
                 TurnstileError e \<Rightarrow> Some e
               | TurnstileSays granted \<Rightarrow>
                   if granted then None else Some (ErrMsg ''Turnstile denied token''))
   }"

definition login :: "request \<Rightarrow> unit http" where
  "login rq = do {
     url_host \<leftarrow> outside he_url_host;
     dec \<leftarrow> outside he_json;
     text \<leftarrow> outside he_error_text;
     if rq_method rq \<noteq> ''POST'' then failJSON 405 ''method not allowed''
     else if \<not> sameOriginUnsafe url_host rq then failJSON 403 ''cross-origin login denied''
     else (case dj_login dec (rq_body rq) of
       None \<Rightarrow> failJSON 400 ''bad json''
     | Some req \<Rightarrow> do {
         let event = http_event rq ''http_login'' (NormalizeName (lr_Username req)) ''login'';
         denied \<leftarrow> verifyTurnstile (lr_TurnstileToken req);
         (case denied of
            Some e \<Rightarrow> do {
              logActivity ((event (text e))\<lparr>e_Outcome := ''denied''\<rparr>);
              failJSON 403 ''turnstile verification failed''
            }
          | None \<Rightarrow> do {
              (limited, p) \<leftarrow> sign_in rq (lr_Username req) (lr_Password req);
              if limited then do {
                logActivity ((event ''too many failed admin login attempts'')\<lparr>e_Outcome := ''limited''\<rparr>);
                failJSON 429 ''too many failed login attempts; try again later''
              }
              else (case p of
                Some (user, perms) \<Rightarrow>
                  if p_Admin perms then do {
                    setSession (u_Username user);
                    logActivity ((http_event rq ''http_login'' (u_Username user) ''login'' ''admin login'')
                      \<lparr>e_Outcome := ''ok''\<rparr>);
                    writeJSON 200 (JO [(''username'', JS (u_Username user))])
                  }
                  else do {
                    logActivity ((event ''bad admin credentials'')\<lparr>e_Outcome := ''failed''\<rparr>);
                    failJSON 401 ''bad credentials''
                  }
              | None \<Rightarrow> do {
                  logActivity ((event ''bad admin credentials'')\<lparr>e_Outcome := ''failed''\<rparr>);
                  failJSON 401 ''bad credentials''
                })
            })
       })
   }"

definition ended_session :: set_cookie where
  "ended_session =
     \<lparr>sk_Name = ''macftpd_session'', sk_Value = [], sk_Path = [slash], sk_Expires = None, sk_MaxAge = -1,
      sk_HttpOnly = True, sk_Secure = True, sk_SameSite = ''Lax''\<rparr>"

definition logout :: "request \<Rightarrow> unit http" where
  "logout rq = do {
     url_host \<leftarrow> outside he_url_host;
     if \<not> sameOriginUnsafe url_host rq then failJSON 403 ''cross-origin logout denied''
     else do {
       add_cookie ended_session;
       logActivity (http_event rq ''http_logout'' [] ''logout'' ''admin logout'');
       writeJSON 200 (JO [(''ok'', JB True)])
     }
   }"

text \<open>The password of a protected link, behind its own limiter.\<close>

datatype share_outcome = ShareLimited | ShareError err | ShareOpen PublicLink

definition verifySharePassword :: "request \<Rightarrow> string \<Rightarrow> string \<Rightarrow> string \<Rightarrow> share_outcome http" where
  "verifySharePassword rq ident token password = do {
     let key = clientAddrForLimit rq @ ''|share|'' @ ident;
     t \<leftarrow> now;
     allowed \<leftarrow> share_limiter (Allow t key);
     if \<not> allowed then ret ShareLimited
     else do {
       sv \<leftarrow> server (\<lambda>s. s);
       t1 \<leftarrow> now;
       (case Verify (hs_kdf sv) t1 (hs_links sv) ident token password of
          Inr link \<Rightarrow> do {
            share_limiter (\<lambda>l. ((), Reset key l));
            ret (ShareOpen link)
          }
        | Inl e \<Rightarrow>
            if e = ErrDenied then do {
              t2 \<leftarrow> now;
              share_limiter (\<lambda>l. ((), Fail t2 key l));
              ret (ShareError e)
            }
            else ret (ShareError e))
     }
   }"

end
