(* ===== verification/HttpFiles.thy ===== *)
theory HttpFiles
  imports HttpAuth OpenFiles
begin

text \<open>
  Files over HTTP, in \<open>internal/httpapi/server.go\<close>: serving one, the public directory, the
  administrator's listing, deleting, moving and copying, and uploads, whole or in chunks.
\<close>

subsection \<open>The cache in front of the server\<close>

definition cloudflare_call ::
  "(cf_service \<Rightarrow> CloudflareConfig option \<Rightarrow> err option \<times> cf_request list) \<Rightarrow> err option http" where
  "cloudflare_call f = State (\<lambda>c. case f (he_cloudflare (hx_env c)) (hs_cloudflare (hx_sv c)) of
     (e, reqs) \<Rightarrow> (e, c\<lparr>hx_purged := hx_purged c @ reqs\<rparr>))"

definition public_urls :: "http_server \<Rightarrow> request \<Rightarrow> string \<Rightarrow> string list" where
  "public_urls sv rq virtual =
     (let clean = Clean virtual; r = hs_root sv
      in if clean \<noteq> public_root r \<and> \<not> HasPrefix clean (public_root r @ [slash]) then []
         else let publicPath = publicURLForVirtual r clean;
                  parent = Dir_name (TrimSuffix publicPath [slash]) @ [slash]
              in map (publicAbsoluteURL (hc_PublicBaseURL (hs_cfg sv)) rq) [publicPath, parent])"

definition purgePublicPath :: "request \<Rightarrow> string list \<Rightarrow> unit http" where
  "purgePublicPath rq virtuals = do {
     sv \<leftarrow> server (\<lambda>s. s);
     let files = concat (map (public_urls sv rq) virtuals);
     if files = [] then ret ()
     else do {
       e \<leftarrow> cloudflare_call PurgeTag;
       if e = None then ret ()
       else do { _ \<leftarrow> cloudflare_call (\<lambda>service cl. PurgeFiles service cl (uniqueStrings files)); ret () }
     }
   }"

definition setPublicCacheHeaders :: "unit http" where
  "setPublicCacheHeaders = do {
     sv \<leftarrow> server (\<lambda>s. s);
     let configured = hc_PublicCacheControl (hs_cfg sv);
     let cache = (if configured = [] then ''public, max-age=300, stale-while-revalidate=60'' else configured);
     respond (set_header ''Cache-Control'' cache);
     respond (set_header ''Cdn-Cache-Control'' cache);
     respond (set_header ''Cloudflare-Cdn-Cache-Control'' cache);
     (case AddCacheHeaders (hs_cloudflare sv) of
        None \<Rightarrow> ret ()
      | Some (k, v) \<Rightarrow> respond (set_header k v))
   }"

definition setShareDownloadHeaders :: "unit http" where
  "setShareDownloadHeaders = do {
     respond (set_header ''Cache-Control'' ''private, no-store, no-transform, max-age=0'');
     respond (set_header ''Cdn-Cache-Control'' ''no-store'');
     respond (set_header ''Cloudflare-Cdn-Cache-Control'' ''no-store'');
     respond (set_header ''Accept-Ranges'' ''bytes'')
   }"

subsection \<open>Serving a file\<close>

text \<open>The name of a file as \<open>Stat\<close> through the root reports it.\<close>

definition info_name :: "Root \<Rightarrow> string \<Rightarrow> string" where
  "info_name r realPath = (case relFromReal r realPath of Inl _ \<Rightarrow> [] | Inr rel \<Rightarrow> Base_name rel)"

text \<open>\<open>countingResponseWriter\<close>: what the client takes of a body, and the error when not all.\<close>

definition client_takes :: "http_env \<Rightarrow> string \<Rightarrow> string \<times> net_error option" where
  "client_takes env s =
     (case he_accepts env of
        None \<Rightarrow> (s, None)
      | Some k \<Rightarrow> if length s \<le> k then (s, None) else (take k s, Some (he_write_error env)))"

definition send_counted :: "int \<Rightarrow> string \<Rightarrow> (int \<times> net_error option) http" where
  "send_counted status body = do {
     env \<leftarrow> outside (\<lambda>e. e);
     (case client_takes env body of (sent, e) \<Rightarrow> do {
        respond (\<lambda>rs. write_body (Bytes sent) (write_header status rs));
        ret (int (length sent), e)
      })
   }"

definition missing_file :: "request \<Rightarrow> err option \<Rightarrow> fileServeResult http" where
  "missing_file rq e = do {
     text \<leftarrow> outside he_error_text;
     respond (set_header ''Content-Type'' ''text/plain; charset=utf-8'');
     respond (set_header ''X-Content-Type-Options'' ''nosniff'');
     (n, _) \<leftarrow> send_counted 404 (not_found_text @ [CHR 0x0A]);
     ret \<lparr>fr_Status = 404, fr_Bytes = n, fr_Size = 0, fr_Method = rq_method rq,
          fr_Err = map_option (\<lambda>e. \<lparr>ne_cause = OtherCause, ne_text = text e\<rparr>) e,
          fr_Range = header rq ''Range''\<rparr>
   }"

definition serveStorageFile :: "request \<Rightarrow> string \<Rightarrow> string \<Rightarrow> fileServeResult http" where
  "serveStorageFile rq realPath name = do {
     opened \<leftarrow> disk (\<lambda>r. Open_read r realPath);
     case opened of
       Inl e \<Rightarrow> missing_file rq (Some e)
     | Inr info \<Rightarrow> do {
         stat \<leftarrow> disk (\<lambda>r. on_fd r realPath op_fd);
         (case (stat, info) of
            (Inl e, _) \<Rightarrow> missing_file rq (Some e)
          | (Inr _, Dir _ _) \<Rightarrow> missing_file rq None
          | (Inr _, File content mode mtime) \<Rightarrow> do {
              env \<leftarrow> outside (\<lambda>e. e);
              let known = he_mime env (Ext name);
              let ctype = (if known \<noteq> [] then known else he_sniff env (take 512 content));
              respond (set_header ''Accept-Ranges'' ''bytes'');
              (case serve_content (he_precondition env rq mtime) (rq_method rq) (header rq ''Range'')
                      (he_boundary env) ctype content of (status, headers, body) \<Rightarrow> do {
                 readable \<leftarrow> disk (\<lambda>r. on_fd r realPath op_readfile);
                 respond (del_headers (if status = 416 then [''Cache-Control'', ''Content-Encoding'', ''Etag'',
                   ''Last-Modified''] else []));
                 respond (\<lambda>rs. fold (\<lambda>(k, v). set_header k v) headers rs);
                 (n, e) \<leftarrow> send_counted status (if is_Inr readable \<or> status = 416 then body else []);
                 ret \<lparr>fr_Status = status, fr_Bytes = n, fr_Size = int (length content),
                      fr_Method = rq_method rq, fr_Err = e, fr_Range = header rq ''Range''\<rparr>
               })
            })
       }
   }"

definition logDownloadActivity :: "Event \<Rightarrow> fileServeResult \<Rightarrow> unit http" where
  "logDownloadActivity event result = logActivity (download_event event result)"

subsection \<open>The public directory\<close>

definition file_info_page :: "string \<Rightarrow> string \<Rightarrow> string \<Rightarrow> node \<Rightarrow> string \<Rightarrow> unit http" where
  "file_info_page title name virtual info href = do {
     zone \<leftarrow> outside he_zone;
     render ''file_info.html'' [(''Title'', JS title), (''Name'', JS name), (''Path'', JS virtual),
       (''Href'', JS href), (''Size'', JS (humanSize (node_size info) (is_dir info))),
       (''Type'', JS (if is_dir info then ''Folder'' else ''File'')),
       (''ModTime'', JS (case zone (n_mtime info) of (t, z) \<Rightarrow> format_rfc1123 t z))]
   }"

text \<open>
  Directories first, then by name without regard to case. \<open>sort.Slice\<close> leaves the order of names that
  differ in case only open; here they stay as listed.
\<close>

definition entry_before :: "Entry \<Rightarrow> Entry \<Rightarrow> bool" where
  "entry_before a b =
     (if en_IsDir a \<noteq> en_IsDir b then en_IsDir a else ToLower (en_Name a) < ToLower (en_Name b))"

fun insert_entry :: "Entry \<Rightarrow> Entry list \<Rightarrow> Entry list" where
  "insert_entry e [] = [e]"
| "insert_entry e (x # xs) = (if entry_before x e then x # insert_entry e xs else e # x # xs)"

definition sort_entries :: "Entry list \<Rightarrow> Entry list" where
  "sort_entries es = foldr insert_entry es []"

definition public_row :: "http_server \<Rightarrow> (time \<Rightarrow> time \<times> string) \<Rightarrow> Entry \<Rightarrow> json" where
  "public_row sv zone e =
     (let rel = TrimPrefix (en_Path e) (public_root (hs_root sv))
      in JO [(''Name'', JS (en_Name e)),
             (''Href'', JS (Join_paths [''/public'', rel] @ (if en_IsDir e then [slash] else []))),
             (''InfoHref'', JS (Join_paths [''/public-info'', rel])), (''Size'', JN (en_Size e)),
             (''SizeText'', JS (humanSize (en_Size e) (en_IsDir e))), (''IsDir'', JB (en_IsDir e)),
             (''ModTime'', JT (en_ModTime e)),
             (''ModText'', JS (format_minutes (fst (zone (en_ModTime e)))))])"

definition publicDirectory :: "string \<Rightarrow> string \<Rightarrow> unit http" where
  "publicDirectory realPath virtual = do {
     listed \<leftarrow> disk (\<lambda>r. List_dir r realPath virtual);
     case listed of
       Inl _ \<Rightarrow> httpError ''directory unavailable'' 500
     | Inr entries \<Rightarrow> do {
         sv \<leftarrow> server (\<lambda>s. s);
         zone \<leftarrow> outside he_zone;
         let publicRoot = public_root (hs_root sv);
         let display = TrimPrefix virtual publicRoot;
         let rows = map (public_row sv zone)
               (filter (\<lambda>e. \<not> HasPrefix (en_Name e) ''.'') (sort_entries entries));
         let parent = (if virtual = publicRoot then []
               else Join_paths [''/public'', TrimPrefix (Dir_name virtual) publicRoot] @ [slash]);
         respond (set_header ''Cache-Control'' ''public, max-age=60, stale-while-revalidate=30'');
         respond (set_header ''Content-Type'' ''text/html; charset=utf-8'');
         t \<leftarrow> now;
         render ''public_listing.html'' [(''Path'', JS (if display = [] then [slash] else display)),
           (''Rows'', JL rows), (''Parent'', JS parent), (''Updated'', JS (format_rfc3339 t))]
       }
   }"

text \<open>
  \<open>http.Redirect\<close> to a path of this server: it is cleaned, but keeps its trailing slash and query;
  the body, for a request that can have one, is a link.
\<close>

definition redirect_target :: "string \<Rightarrow> string" where
  "redirect_target url =
     (let path = takeWhile (\<lambda>c. c \<noteq> CHR ''?'') url; q = dropWhile (\<lambda>c. c \<noteq> CHR ''?'') url;
          clean = Clean path
      in clean @ (if HasSuffix path [slash] \<and> \<not> HasSuffix clean [slash] then [slash] else []) @ q)"

definition StatusText :: "int \<Rightarrow> string" where
  "StatusText code =
     (if code = 301 then ''Moved Permanently'' else if code = 307 then ''Temporary Redirect''
      else if code = 308 then ''Permanent Redirect'' else [])"

definition http_Redirect :: "request \<Rightarrow> string \<Rightarrow> int \<Rightarrow> unit http" where
  "http_Redirect rq url code = do {
     respond (set_header ''Location'' (redirect_target url));
     (if rq_method rq = ''GET'' \<or> rq_method rq = ''HEAD''
      then respond (set_header ''Content-Type'' ''text/html; charset=utf-8'') else ret ());
     respond (write_header code);
     if rq_method rq = ''GET''
     then respond (write_body (Bytes (''<a href='' @ [CHR 0x22] @ EscapeString (redirect_target url) @ [CHR 0x22] @
       ''>'' @ StatusText code @ ''</a>.'' @ [CHR 0x0A, CHR 0x0A])))
     else ret ()
   }"

definition public :: "request \<Rightarrow> unit http" where
  "public rq = do {
     r \<leftarrow> server hs_root;
     case publicPath r (rq_path rq) of
       Inl _ \<Rightarrow> notFound
     | Inr (realPath, virtual) \<Rightarrow> do {
         stat \<leftarrow> disk (\<lambda>r. Stat r realPath);
         (case stat of
            Inl _ \<Rightarrow> notFound
          | Inr info \<Rightarrow>
              if is_dir info then
                (if \<not> HasSuffix (rq_path rq) [slash]
                 then http_Redirect rq (path_string (rq_path rq @ [slash]) (rq_rawquery rq)) 301
                 else publicDirectory realPath virtual)
              else do {
                setPublicCacheHeaders;
                result \<leftarrow> serveStorageFile rq realPath (info_name r realPath);
                logDownloadActivity
                  ((http_event rq ''public_download'' ''public'' ''download'' ''public HTTP download'')
                    \<lparr>e_Referrer := header rq ''Referer'', e_Path := virtual\<rparr>) result
              })
       }
   }"

definition publicInfo :: "request \<Rightarrow> unit http" where
  "publicInfo rq = do {
     r \<leftarrow> server hs_root;
     case publicPath r (''/public/'' @ TrimPrefix (rq_path rq) ''/public-info/'') of
       Inl _ \<Rightarrow> notFound
     | Inr (realPath, virtual) \<Rightarrow> do {
         stat \<leftarrow> disk (\<lambda>r. Stat r realPath);
         (case stat of
            Inl _ \<Rightarrow> notFound
          | Inr info \<Rightarrow> do {
              let href = ''/public/'' @ TrimPrefix (TrimPrefix virtual (public_root r)) [slash];
              respond (set_header ''Content-Type'' ''text/html; charset=utf-8'');
              respond (set_header ''Cache-Control'' ''public, max-age=60, stale-while-revalidate=30'');
              file_info_page (info_name r realPath) (info_name r realPath) virtual info href
            })
       }
   }"

subsection \<open>The administrator's files\<close>

definition file_event :: "request \<Rightarrow> principal \<Rightarrow> string \<Rightarrow> string \<Rightarrow> string \<Rightarrow> Event" where
  "file_event rq p action path detail =
     (http_event rq ''admin_file'' (u_Username (fst p)) action detail)\<lparr>e_Path := path\<rparr>"

text \<open>Logging a failure and answering with the error's text.\<close>

definition log_failure :: "Event \<Rightarrow> err \<Rightarrow> unit http" where
  "log_failure event e = do {
     text \<leftarrow> outside he_error_text;
     logActivity (event\<lparr>e_Outcome := ''failed'', e_Detail := text e\<rparr>);
     failJSON 500 (text e)
   }"

definition storageEntry :: "string \<Rightarrow> node \<Rightarrow> string \<Rightarrow> json" where
  "storageEntry name info virtual =
     JO [(''name'', JS name), (''path'', JS virtual), (''size'', JN (node_size info)),
         (''size_text'', JS (humanSize (node_size info) (is_dir info))),
         (''mode'', JS (mode_string info)), (''mod_time'', JT (n_mtime info)),
         (''is_dir'', JB (is_dir info))]"

text \<open>A file at a destination is kept as a version first; the failure to do so, if any.\<close>

definition version_existing :: "string \<Rightarrow> string \<Rightarrow> string \<Rightarrow> err option http" where
  "version_existing realPath virtual actor = do {
     stat \<leftarrow> disk (\<lambda>r. Stat r realPath);
     case stat of
       Inl _ \<Rightarrow> ret None
     | Inr info \<Rightarrow>
         if is_dir info then ret None
         else do {
           sv \<leftarrow> server (\<lambda>s. s);
           kept \<leftarrow> disk (\<lambda>r. Version (hs_codec sv) (hs_clone sv) r realPath virtual actor);
           ret (case kept of Inl e \<Rightarrow> Some e | Inr _ \<Rightarrow> None)
         }
   }"

definition files_delete :: "request \<Rightarrow> principal \<Rightarrow> string \<Rightarrow> string \<Rightarrow> unit http" where
  "files_delete rq p realPath clean =
     (if clean = [slash] then failJSON 400 ''refusing to delete storage root''
      else do {
        sv \<leftarrow> server (\<lambda>s. s);
        trashed \<leftarrow> disk (\<lambda>r. Trash (hs_codec sv) (hs_clone sv) r realPath clean (u_Username (fst p)));
        (case trashed of
           Inl e \<Rightarrow> log_failure (file_event rq p ''delete'' clean []) e
         | Inr _ \<Rightarrow> do {
             purgePublicPath rq [clean];
             logActivity (file_event rq p ''delete'' clean ''admin moved file or folder to trash'');
             writeJSON 200 (JO [(''ok'', JB True)])
           })
      })"

definition files_move :: "request \<Rightarrow> principal \<Rightarrow> string \<Rightarrow> string \<Rightarrow> unit http" where
  "files_move rq p realPath clean = do {
     dec \<leftarrow> outside he_json;
     r \<leftarrow> server hs_root;
     if clean = [slash] then failJSON 400 ''refusing to rename storage root''
     else (case dj_dest dec (rq_body rq) of
       None \<Rightarrow> failJSON 400 ''bad json''
     | Some dest \<Rightarrow>
         (case ResolveAdmin r dest of
            Inl _ \<Rightarrow> failJSON 400 ''bad destination''
          | Inr (destReal, destClean) \<Rightarrow>
              if destClean = [slash] then failJSON 400 ''bad destination''
              else do {
                let event = (\<lambda>detail. (file_event rq p ''move'' clean detail)\<lparr>e_DestPath := destClean\<rparr>);
                parent \<leftarrow> disk (\<lambda>r. MkdirAllParent r destReal mode_750);
                (case parent of
                   Inl e \<Rightarrow> fail_with 500 e
                 | Inr _ \<Rightarrow> do {
                     unsaved \<leftarrow> version_existing destReal destClean (u_Username (fst p));
                     (case unsaved of
                        Some e \<Rightarrow> log_failure (event []) e
                      | None \<Rightarrow> do {
                          moved \<leftarrow> disk (\<lambda>r. Rename r realPath destReal);
                          (case moved of
                             Inl e \<Rightarrow> log_failure (event []) e
                           | Inr _ \<Rightarrow> do {
                               stat \<leftarrow> disk (\<lambda>r. Stat r destReal);
                               (case stat of
                                  Inl e \<Rightarrow> fail_with 500 e
                                | Inr info \<Rightarrow> do {
                                    purgePublicPath rq [clean, destClean];
                                    logActivity (event ''admin renamed or moved file'');
                                    writeJSON 200 (JO [(''entry'', storageEntry (info_name r destReal) info destClean)])
                                  })
                             })
                        })
                   })
              }))
   }"

definition files_mkdir :: "request \<Rightarrow> principal \<Rightarrow> string \<Rightarrow> string \<Rightarrow> unit http" where
  "files_mkdir rq p realPath clean = do {
     made \<leftarrow> disk (\<lambda>r. MkdirAll r realPath mode_750);
     case made of
       Inl e \<Rightarrow> log_failure (file_event rq p ''mkdir'' clean []) e
     | Inr _ \<Rightarrow> do {
         purgePublicPath rq [clean];
         logActivity (file_event rq p ''mkdir'' clean ''admin created folder'');
         writeJSON 200 (JO [(''path'', JS clean)])
       }
   }"

definition files_list :: "string \<Rightarrow> string \<Rightarrow> unit http" where
  "files_list realPath clean = do {
     r \<leftarrow> server hs_root;
     stat \<leftarrow> disk (\<lambda>r. Stat r realPath);
     case stat of
       Inl _ \<Rightarrow> failJSON 404 ''not found''
     | Inr info \<Rightarrow>
         if \<not> is_dir info
         then writeJSON 200 (JO [(''entry'', storageEntry (info_name r realPath) info clean)])
         else do {
           listed \<leftarrow> disk (\<lambda>r. List_dir r realPath clean);
           (case listed of
              Inl e \<Rightarrow> fail_with 500 e
            | Inr entries \<Rightarrow> writeJSON 200 (JO [(''path'', JS clean), (''entries'', JL (map JEntry entries))]))
         }
   }"

definition files :: "request \<Rightarrow> principal \<Rightarrow> unit http" where
  "files rq p = do {
     r \<leftarrow> server hs_root;
     case ResolveAdmin r (query rq ''path'') of
       Inl _ \<Rightarrow> failJSON 400 ''bad path''
     | Inr (realPath, clean) \<Rightarrow>
         if rq_method rq = ''DELETE'' then files_delete rq p realPath clean
         else if rq_method rq = ''PATCH'' then files_move rq p realPath clean
         else if rq_method rq = ''POST'' then files_mkdir rq p realPath clean
         else if rq_method rq = ''GET'' then files_list realPath clean
         else failJSON 405 ''method not allowed''
   }"

subsection \<open>Copying and moving several\<close>

definition actionTarget :: "string \<Rightarrow> string \<Rightarrow> bool \<Rightarrow> (err + string \<times> string) http" where
  "actionTarget srcClean destClean multi = do {
     r \<leftarrow> server hs_root;
     let srcName = Base_name srcClean;
     let inside_dest = (let targetClean = Join_paths [destClean, srcName]
           in case ResolveAdmin r targetClean of
                Inl e \<Rightarrow> Inl e | Inr (targetReal, _) \<Rightarrow> Inr (targetReal, targetClean));
     if srcName = [slash] \<or> srcName = ''.'' then ret (Inl (ErrMsg ''bad source path''))
     else (case ResolveAdmin r destClean of
       Inl e \<Rightarrow> ret (Inl e)
     | Inr (destReal, _) \<Rightarrow>
         if multi then ret inside_dest
         else do {
           stat \<leftarrow> disk (\<lambda>r. Stat r destReal);
           (case stat of
              Inr info \<Rightarrow> if is_dir info then ret inside_dest else ret (Inr (destReal, destClean))
            | Inl _ \<Rightarrow> ret (Inr (destReal, destClean)))
         })
   }"

record resultItem =
  ri_Path :: string
  ri_DestPath :: string
  ri_Files :: int
  ri_Bytes :: int
  ri_Strategy :: string
  ri_Operation :: string

definition result_json :: "resultItem \<Rightarrow> json" where
  "result_json i = JO [(''path'', JS (ri_Path i)), (''dest_path'', JS (ri_DestPath i)),
     (''files'', JN (ri_Files i)), (''bytes'', JN (ri_Bytes i)), (''strategy'', JS (ri_Strategy i)),
     (''operation'', JS (ri_Operation i))]"

text \<open>One path of the request: its item, or \<open>None\<close> when the request has been answered.\<close>

definition action_move ::
  "request \<Rightarrow> principal \<Rightarrow> actionRequest \<Rightarrow> string \<times> string \<Rightarrow> string \<times> string \<Rightarrow> resultItem option http" where
  "action_move rq p req src target = do {
     let (srcReal, srcClean) = src;
     let (targetReal, targetClean) = target;
     let event = (\<lambda>detail. (file_event rq p ''move'' srcClean detail)\<lparr>e_DestPath := targetClean\<rparr>);
     existing \<leftarrow> (if ar_Overwrite req then ret (Inl ErrNotExist) else disk (\<lambda>r. Stat r targetReal));
     if is_Inr existing then do { failJSON 400 ''destination exists''; ret None }
     else do {
       parent \<leftarrow> disk (\<lambda>r. MkdirAllParent r targetReal mode_750);
       (case parent of
          Inl e \<Rightarrow> do { fail_with 500 e; ret None }
        | Inr _ \<Rightarrow> do {
            unsaved \<leftarrow> (if ar_Overwrite req then version_existing targetReal targetClean (u_Username (fst p))
                       else ret None);
            (case unsaved of
               Some e \<Rightarrow> do { log_failure (event []) e; ret None }
             | None \<Rightarrow> do {
                 moved \<leftarrow> disk (\<lambda>r. Rename r srcReal targetReal);
                 (case moved of
                    Inl e \<Rightarrow> do { log_failure (event []) e; ret None }
                  | Inr _ \<Rightarrow> do {
                      purgePublicPath rq [srcClean, targetClean];
                      logActivity (event ''admin moved file or folder'');
                      ret (Some \<lparr>ri_Path = srcClean, ri_DestPath = targetClean, ri_Files = 0,
                        ri_Bytes = 0, ri_Strategy = [], ri_Operation = ''move''\<rparr>)
                    })
               })
          })
     }
   }"

definition action_copy ::
  "request \<Rightarrow> principal \<Rightarrow> actionRequest \<Rightarrow> string \<times> string \<Rightarrow> string \<times> string \<Rightarrow> resultItem option http" where
  "action_copy rq p req src target = do {
     let (srcReal, srcClean) = src;
     let (targetReal, targetClean) = target;
     let event = (\<lambda>detail. (file_event rq p ''copy'' srcClean detail)\<lparr>e_DestPath := targetClean\<rparr>);
     unsaved \<leftarrow> (if ar_Overwrite req then version_existing targetReal targetClean (u_Username (fst p))
                else ret None);
     case unsaved of
       Some e \<Rightarrow> do { log_failure (event []) e; ret None }
     | None \<Rightarrow> do {
         sv \<leftarrow> server (\<lambda>s. s);
         copied \<leftarrow> disk (\<lambda>r. Copy (hs_clone sv) r srcReal targetReal
           \<lparr>co_Deduplicate = ar_Deduplicate req, co_Overwrite = ar_Overwrite req\<rparr>);
         (case copied of
            Inl e \<Rightarrow> do { log_failure (event []) e; ret None }
          | Inr result \<Rightarrow> do {
              purgePublicPath rq [targetClean];
              logActivity ((event (''admin copied file or folder using '' @ cp_Strategy result))
                \<lparr>e_Bytes := cp_Bytes result\<rparr>);
              ret (Some \<lparr>ri_Path = srcClean, ri_DestPath = targetClean, ri_Files = cp_Files result,
                ri_Bytes = cp_Bytes result, ri_Strategy = cp_Strategy result, ri_Operation = ''copy''\<rparr>)
            })
       }
   }"

definition action_item ::
  "request \<Rightarrow> principal \<Rightarrow> actionRequest \<Rightarrow> string \<Rightarrow> string \<Rightarrow> resultItem option http" where
  "action_item rq p req destClean srcVirtual = do {
     r \<leftarrow> server hs_root;
     case ResolveAdmin r srcVirtual of
       Inl _ \<Rightarrow> do { failJSON 400 ''bad source path''; ret None }
     | Inr (srcReal, srcClean) \<Rightarrow>
         if srcClean = [slash] then do { failJSON 400 ''bad source path''; ret None }
         else do {
           target \<leftarrow> actionTarget srcClean destClean (length (ar_Paths req) > 1);
           (case target of
              Inl e \<Rightarrow> do { fail_with 400 e; ret None }
            | Inr (targetReal, targetClean) \<Rightarrow>
                if targetClean = srcClean \<or> HasPrefix targetClean (srcClean @ [slash])
                then do { failJSON 400 ''destination cannot be inside source''; ret None }
                else if ar_Operation req = ''move''
                then action_move rq p req (srcReal, srcClean) (targetReal, targetClean)
                else action_copy rq p req (srcReal, srcClean) (targetReal, targetClean))
         }
   }"

fun action_items ::
  "request \<Rightarrow> principal \<Rightarrow> actionRequest \<Rightarrow> string \<Rightarrow> string list \<Rightarrow> resultItem list
     \<Rightarrow> resultItem list option http" where
  "action_items rq p req destClean [] items = ret (Some items)"
| "action_items rq p req destClean (src # srcs) items = do {
     item \<leftarrow> action_item rq p req destClean src;
     case item of
       None \<Rightarrow> ret None
     | Some i \<Rightarrow> action_items rq p req destClean srcs (items @ [i])
   }"

definition fileAction :: "request \<Rightarrow> principal \<Rightarrow> unit http" where
  "fileAction rq p = do {
     dec \<leftarrow> outside he_json;
     r \<leftarrow> server hs_root;
     if rq_method rq \<noteq> ''POST'' then failJSON 405 ''method not allowed''
     else (case dj_action dec (rq_body rq) of
       None \<Rightarrow> failJSON 400 ''bad json''
     | Some req0 \<Rightarrow> do {
         let req = req0\<lparr>ar_Operation := ToLower (TrimSpace (ar_Operation req0))\<rparr>;
         if ar_Operation req \<noteq> ''copy'' \<and> ar_Operation req \<noteq> ''move''
         then failJSON 400 ''operation must be copy or move''
         else if ar_Paths req = [] \<or> length (ar_Paths req) > 100
         then failJSON 400 ''paths must contain 1-100 items''
         else (case ResolveAdmin r (ar_DestPath req) of
           Inl _ \<Rightarrow> failJSON 400 ''bad destination''
         | Inr (destReal, destClean) \<Rightarrow>
             if destClean = [slash] then failJSON 400 ''bad destination''
             else do {
               made \<leftarrow> (if length (ar_Paths req) > 1 then disk (\<lambda>r. MkdirAll r destReal mode_750)
                       else ret (Inr ()));
               (case made of
                  Inl e \<Rightarrow> fail_with 500 e
                | Inr _ \<Rightarrow> do {
                    done_items \<leftarrow> action_items rq p req destClean (ar_Paths req) [];
                    (case done_items of
                       None \<Rightarrow> ret ()
                     | Some items \<Rightarrow> writeJSON 200 (JO [(''ok'', JB True),
                         (''operation'', JS (ar_Operation req)), (''items'', JL (map result_json items)),
                         (''files'', JN (fold (\<lambda>i n. wrap_i64 (n + ri_Files i)) items 0)),
                         (''bytes'', JN (fold (\<lambda>i n. wrap_i64 (n + ri_Bytes i)) items 0))]))
                  })
             })
       })
   }"

definition download :: "request \<Rightarrow> principal \<Rightarrow> unit http" where
  "download rq p = do {
     r \<leftarrow> server hs_root;
     if rq_method rq \<noteq> ''GET'' then failJSON 405 ''method not allowed''
     else (case ResolveAdmin r (query rq ''path'') of
       Inl _ \<Rightarrow> failJSON 400 ''bad path''
     | Inr (realPath, _) \<Rightarrow> do {
         stat \<leftarrow> disk (\<lambda>r. Stat r realPath);
         (case stat of
            Inl _ \<Rightarrow> failJSON 404 ''not found''
          | Inr info \<Rightarrow>
              if is_dir info then failJSON 404 ''not found''
              else do {
                quoted \<leftarrow> outside he_quote;
                respond (set_header ''Content-Disposition'' (''attachment; filename='' @ quoted (Base_name realPath)));
                result \<leftarrow> serveStorageFile rq realPath (info_name r realPath);
                logDownloadActivity
                  ((http_event rq ''admin_download'' (u_Username (fst p)) ''download'' ''admin download'')
                    \<lparr>e_Path := query rq ''path''\<rparr>) result
              })
       })
   }"

end
