(* ===== verification/HttpUploads.thy ===== *)
theory HttpUploads
  imports HttpFiles
begin

text \<open>
  Uploads over HTTP, in \<open>internal/httpapi/server.go\<close>: a whole file through a staged file, a file in
  chunks through a part file that is locked by its path, and a file fetched from a remote FTP server.
\<close>

subsection \<open>Copying into an open file\<close>

text \<open>The bytes in an open file; reading it is no call.\<close>

definition open_size :: "Root \<Rightarrow> string \<Rightarrow> int io" where
  "open_size r realPath w =
     (Inr (case relFromReal r realPath of
             Inl _ \<Rightarrow> 0
           | Inr rel \<Rightarrow> (case node_at (w_fs w) (os_path (r_Base r) @ rel_path rel) of
               Some n \<Rightarrow> node_size n | None \<Rightarrow> 0)), w)"

text \<open>
  \<open>io.Copy\<close> from a reader that yields \<open>content\<close> and then fails with \<open>read_err\<close> or ends: the bytes
  written and the error.
\<close>

definition copy_in :: "Root \<Rightarrow> string \<Rightarrow> string \<Rightarrow> err option \<Rightarrow> (int \<times> err option) io" where
  "copy_in r realPath content read_err =
     (if content = [] then returnE (0, read_err)
      else bindE (open_size r realPath) (\<lambda>size0.
           bindE (attempt (on_fd r realPath (\<lambda>p. op_write p content))) (\<lambda>written.
           bindE (open_size r realPath) (\<lambda>size1.
             returnE (size1 - size0,
               case written of Inl e \<Rightarrow> Some e | Inr _ \<Rightarrow> read_err)))))"

subsection \<open>Staged uploads\<close>

definition createStagedUpload :: "string \<Rightarrow> (err + string) http" where
  "createStagedUpload pre = disk (staged_upload pre)"

text \<open>The deferred clean-up; after a rename there is nothing left to remove.\<close>

definition discard_staged :: "string \<Rightarrow> unit http" where
  "discard_staged stagedPath = do {
     _ \<leftarrow> disk (\<lambda>r. on_fd r stagedPath op_fd);
     _ \<leftarrow> disk (\<lambda>r. Remove r stagedPath);
     ret ()
   }"

definition close_file :: "string \<Rightarrow> (err + unit) http" where
  "close_file realPath = disk (\<lambda>r. on_fd r realPath op_fd)"

definition replace_file :: "string \<Rightarrow> string \<Rightarrow> string \<Rightarrow> string \<Rightarrow> (err + unit) http" where
  "replace_file stagedPath dest destVirtual actor = do {
     sv \<leftarrow> server (\<lambda>s. s);
     disk (\<lambda>r. ReplaceFile (hs_codec sv) (hs_clone sv) r stagedPath dest destVirtual actor True)
   }"

definition upload_event :: "request \<Rightarrow> principal \<Rightarrow> string \<Rightarrow> int \<Rightarrow> string \<Rightarrow> Event" where
  "upload_event rq p destVirtual n detail =
     (http_event rq ''admin_upload'' (u_Username (fst p)) ''upload'' detail)
       \<lparr>e_Path := destVirtual, e_Bytes := n\<rparr>"

definition upload_staged ::
  "request \<Rightarrow> principal \<Rightarrow> part \<Rightarrow> string \<Rightarrow> string \<Rightarrow> string \<Rightarrow> string \<Rightarrow> unit http" where
  "upload_staged rq p f dir filename dest destVirtual = do {
     staged \<leftarrow> createStagedUpload ''admin'';
     case staged of
       Inl e \<Rightarrow> fail_with 500 e
     | Inr stagedPath \<Rightarrow> do {
         copied \<leftarrow> disk (\<lambda>r. copy_in r stagedPath (pt_content f) (pt_error f));
         (case copied of
            Inl e \<Rightarrow> fail_with 500 e
          | Inr (n, Some e) \<Rightarrow> log_failure (upload_event rq p destVirtual n []) e
          | Inr (n, None) \<Rightarrow> do {
              closed \<leftarrow> close_file stagedPath;
              (case closed of
                 Inl e \<Rightarrow> fail_with 500 e
               | Inr _ \<Rightarrow> do {
                   replaced \<leftarrow> replace_file stagedPath dest destVirtual (u_Username (fst p));
                   (case replaced of
                      Inl e \<Rightarrow> log_failure (upload_event rq p destVirtual n []) e
                    | Inr _ \<Rightarrow> do {
                        chmodded \<leftarrow> disk (\<lambda>r. Chmod r dest mode_640);
                        (case chmodded of
                           Inl e \<Rightarrow> fail_with 500 e
                         | Inr _ \<Rightarrow> do {
                             purgePublicPath rq [destVirtual];
                             logActivity (upload_event rq p destVirtual n ''admin upload'');
                             writeJSON 200 (JO [(''path'', JS (Join_paths [dir, filename]))])
                           })
                      })
                 })
            });
         discard_staged stagedPath
       }
   }"

definition upload :: "request \<Rightarrow> principal \<Rightarrow> unit http" where
  "upload rq p = do {
     r \<leftarrow> server hs_root;
     let dir = FormValue rq ''path'';
     if rq_method rq \<noteq> ''POST'' then failJSON 405 ''method not allowed''
     else if \<not> rq_multipart_ok rq then failJSON 400 ''bad multipart form''
     else (case ResolveAdmin r dir of
       Inl _ \<Rightarrow> failJSON 400 ''bad path''
     | Inr (_, cleanDir) \<Rightarrow> (case FormFile rq ''file'' of
         None \<Rightarrow> failJSON 400 ''file is required''
       | Some f \<Rightarrow>
           let filename = Base_name (pt_filename f)
           in if bad_filename filename then failJSON 400 ''bad filename''
              else (case ResolveAdmin r (Join_paths [cleanDir, filename]) of
                Inl _ \<Rightarrow> failJSON 400 ''bad destination''
              | Inr (dest, _) \<Rightarrow> do {
                  parent \<leftarrow> disk (\<lambda>r. MkdirAllParent r dest mode_750);
                  (case parent of
                     Inl e \<Rightarrow> fail_with 500 e
                   | Inr _ \<Rightarrow> upload_staged rq p f dir filename dest (Join_paths [cleanDir, filename]))
                })))
   }"

subsection \<open>Locks on part files\<close>

text \<open>
  The map of \<open>lockUpload\<close> counts the requests that hold or wait for a part file. A request here runs
  alone; the interleavings of several are in theory \<open>UploadLocks\<close>.
\<close>

definition acquire_upload :: "string \<Rightarrow> unit http" where
  "acquire_upload key = set_server (\<lambda>s. s\<lparr>hs_uploads := AList.update key
     (case map_of (hs_uploads s) key of None \<Rightarrow> 1 | Some n \<Rightarrow> Suc n) (hs_uploads s)\<rparr>)"

definition release_upload :: "string \<Rightarrow> unit http" where
  "release_upload key = set_server (\<lambda>s. s\<lparr>hs_uploads :=
     (case map_of (hs_uploads s) key of
        None \<Rightarrow> hs_uploads s
      | Some n \<Rightarrow> if n \<le> 1 then AList.delete key (hs_uploads s)
                  else AList.update key (n - 1) (hs_uploads s))\<rparr>)"

definition lockUpload :: "string \<Rightarrow> 'a http \<Rightarrow> 'a http" where
  "lockUpload key body = do {
     acquire_upload key;
     x \<leftarrow> body;
     release_upload key;
     ret x
   }"

subsection \<open>Chunks\<close>

text \<open>The fields of a chunk, in the order they are checked.\<close>

record chunk_form =
  cf_filename :: string
  cf_uploadID :: string
  cf_offset :: int
  cf_total :: int
  cf_chunk :: part

definition parse_chunk :: "request \<Rightarrow> string + chunk_form" where
  "parse_chunk rq =
     (let filename = Base_name (FormValue rq ''filename''); uploadID = FormValue rq ''upload_id''
      in if bad_filename filename then Inl ''bad filename''
         else if \<not> safeUploadID uploadID then Inl ''bad upload id''
         else (case ParseInt (FormValue rq ''offset'') of
           None \<Rightarrow> Inl ''bad offset''
         | Some offset \<Rightarrow>
             if offset < 0 then Inl ''bad offset''
             else (case ParseInt (FormValue rq ''total_size'') of
               None \<Rightarrow> Inl ''bad total size''
             | Some total_size \<Rightarrow>
                 if total_size < 0 \<or> offset > total_size then Inl ''bad total size''
                 else (case FormFile rq ''chunk'' of
                   None \<Rightarrow> Inl ''chunk is required''
                 | Some f \<Rightarrow> Inr \<lparr>cf_filename = filename, cf_uploadID = uploadID, cf_offset = offset,
                     cf_total = total_size, cf_chunk = f\<rparr>))))"

fun cleanup_items :: "path \<Rightarrow> time \<Rightarrow> (string \<times> node) list \<Rightarrow> unit io" where
  "cleanup_items dir before [] = returnE ()"
| "cleanup_items dir before ((name, entry) # items) =
     (if is_dir entry \<or> \<not> HasSuffix name ''.part'' then cleanup_items dir before items
      else bindE (attempt (op_stat (dir @ [name]))) (\<lambda>info. case info of
             Inr n \<Rightarrow> if time_before (n_mtime n) before
                     then thenE (op_remove (dir @ [name])) (cleanup_items dir before items)
                     else cleanup_items dir before items
           | Inl _ \<Rightarrow> cleanup_items dir before items))"

definition cleanupUploadParts :: "string \<Rightarrow> time \<Rightarrow> unit io" where
  "cleanupUploadParts dir before =
     bindE (attempt (op_readdir (os_path dir))) (\<lambda>entries. case entries of
       Inl _ \<Rightarrow> returnE ()
     | Inr items \<Rightarrow> cleanup_items (os_path dir) before items)"

text \<open>What follows the limit in the stream of the chunk is not read.\<close>

datatype chunk_error = CopyError err | ExceedsTotal "err option"

definition copyChunk :: "Root \<Rightarrow> string \<Rightarrow> part \<Rightarrow> int \<Rightarrow> int \<Rightarrow> (int \<times> chunk_error option) io" where
  "copyChunk r partPath chunk offset total_size =
     (let remaining = total_size - offset;
          limit = (if remaining < max_i64 then remaining + 1 else remaining);
          content = take (nat limit) (pt_content chunk);
          read_err = (if int (length (pt_content chunk)) < limit then pt_error chunk else None)
      in bindE (copy_in r partPath content read_err) (\<lambda>(n, e). case e of
           Some e \<Rightarrow> returnE (n, Some (CopyError e))
         | None \<Rightarrow>
             if n \<le> remaining then returnE (n, None)
             else bindE (attempt (on_fd r partPath (op_truncate (nat offset)))) (\<lambda>truncated.
               returnE (n, Some (ExceedsTotal
                 (case truncated of Inl e \<Rightarrow> Some e | Inr _ \<Rightarrow> None))))))"

text \<open>
  The part file: its directory, the removal of parts older than a day, its path and lock. A part
  that starts again is removed first; one that does not end where the chunk starts is refused. The
  deferred closing of the part file, whose result is not looked at, is no step of its own.
\<close>

definition part_flags :: open_flags where
  "part_flags = \<lparr>o_create = True, o_trunc = False, o_excl = False\<rparr>"

definition with_part :: "string \<Rightarrow> chunk_form \<Rightarrow> (string \<Rightarrow> unit http) \<Rightarrow> unit http" where
  "with_part scope cf body = do {
     r \<leftarrow> server hs_root;
     let tmpDir = Join_paths [r_Base r, ''._macftpd_uploads''];
     made \<leftarrow> disk (\<lambda>_. op_mkdirAll (os_path tmpDir) mode_700);
     case made of
       Inl e \<Rightarrow> fail_with 500 e
     | Inr _ \<Rightarrow> do {
         t \<leftarrow> now;
         _ \<leftarrow> disk (\<lambda>_. cleanupUploadParts tmpDir (t - 24 * hour));
         let partPath = Clean (Join_paths [tmpDir, uploadPartName scope (cf_uploadID cf)]);
         if \<not> HasPrefix partPath (tmpDir @ [slash]) then failJSON 400 ''bad upload id''
         else lockUpload partPath (body partPath)
       }
   }"

datatype part_outcome = PartAnswered | PartFailed err int | PartWritten int

definition receive_part :: "chunk_form \<Rightarrow> string \<Rightarrow> part_outcome http" where
  "receive_part cf partPath = do {
     (if cf_offset cf = 0 then do { _ \<leftarrow> disk (\<lambda>_. op_remove (os_path partPath)); ret () } else ret ());
     opened \<leftarrow> disk (\<lambda>_. op_open (os_path partPath) part_flags mode_600);
     case opened of
       Inl e \<Rightarrow> do { fail_with 500 e; ret PartAnswered }
     | Inr _ \<Rightarrow> do {
         stat \<leftarrow> disk (\<lambda>r. on_fd r partPath op_stat);
         (case stat of
            Inl e \<Rightarrow> do { fail_with 500 e; ret PartAnswered }
          | Inr info \<Rightarrow>
              if node_size info \<noteq> cf_offset cf then do {
                failJSON 409 (''offset mismatch: have '' @ Itoa (node_size info) @ '' bytes'');
                ret PartAnswered
              }
              else do {
                seeked \<leftarrow> disk (\<lambda>r. on_fd r partPath op_fd);
                (case seeked of
                   Inl e \<Rightarrow> do { fail_with 500 e; ret PartAnswered }
                 | Inr _ \<Rightarrow> do {
                     copied \<leftarrow> disk (\<lambda>r. copyChunk r partPath (cf_chunk cf) (cf_offset cf) (cf_total cf));
                     text \<leftarrow> outside he_error_text;
                     (case copied of
                        Inl e \<Rightarrow> do { fail_with 500 e; ret PartAnswered }
                      | Inr (n, Some (ExceedsTotal e)) \<Rightarrow> do {
                          failJSON 400 (''chunk exceeds total size'' @
                            (case e of None \<Rightarrow> [] | Some e \<Rightarrow> CHR 0x0A # text e));
                          ret PartAnswered
                        }
                      | Inr (n, Some (CopyError e)) \<Rightarrow> ret (PartFailed e (cf_offset cf + n))
                      | Inr (n, None) \<Rightarrow> ret (PartWritten (cf_offset cf + n)))
                   })
              })
       }
   }"

definition received_body :: "string \<Rightarrow> int \<Rightarrow> bool \<Rightarrow> json" where
  "received_body virtual received complete =
     JO [(''path'', JS virtual), (''received'', JN received), (''complete'', JB complete)]"

text \<open>A complete part takes its name; the answer when a step fails.\<close>

definition install_part ::
  "string \<Rightarrow> string \<Rightarrow> (err + unit) http \<Rightarrow> (err \<Rightarrow> int) \<Rightarrow> unit http \<Rightarrow> unit http" where
  "install_part partPath dest put status installed = do {
     closed \<leftarrow> close_file partPath;
     case closed of
       Inl e \<Rightarrow> fail_with 500 e
     | Inr _ \<Rightarrow> do {
         parent \<leftarrow> disk (\<lambda>r. MkdirAllParent r dest mode_750);
         (case parent of
            Inl e \<Rightarrow> fail_with 500 e
          | Inr _ \<Rightarrow> do {
              done_put \<leftarrow> put;
              (case done_put of
                 Inl e \<Rightarrow> fail_with (status e) e
               | Inr _ \<Rightarrow> do {
                   chmodded \<leftarrow> disk (\<lambda>r. Chmod r dest mode_640);
                   (case chmodded of
                      Inl e \<Rightarrow> fail_with 500 e
                    | Inr _ \<Rightarrow> installed)
                 })
            })
       }
   }"

definition uploadChunk_scope :: "string \<Rightarrow> string \<Rightarrow> int \<Rightarrow> string" where
  "uploadChunk_scope username destVirtual total_size =
     ''admin:'' @ username @ '':'' @ destVirtual @ '':'' @ Itoa total_size"

definition uploadChunk :: "request \<Rightarrow> principal \<Rightarrow> unit http" where
  "uploadChunk rq p = do {
     r \<leftarrow> server hs_root;
     if rq_method rq \<noteq> ''POST'' then failJSON 405 ''method not allowed''
     else if \<not> rq_multipart_ok rq then failJSON 400 ''bad multipart form''
     else (case ResolveAdmin r (FormValue rq ''path'') of
       Inl _ \<Rightarrow> failJSON 400 ''bad path''
     | Inr (_, cleanDir) \<Rightarrow> (case parse_chunk rq of
         Inl msg \<Rightarrow> failJSON 400 msg
       | Inr cf \<Rightarrow>
           let destVirtual = Join_paths [cleanDir, cf_filename cf]; user = u_Username (fst p)
           in (case ResolveAdmin r destVirtual of
                Inl _ \<Rightarrow> failJSON 400 ''bad destination''
              | Inr (dest, _) \<Rightarrow>
                  with_part (uploadChunk_scope user destVirtual (cf_total cf)) cf (\<lambda>partPath. do {
                    outcome \<leftarrow> receive_part cf partPath;
                    (case outcome of
                       PartAnswered \<Rightarrow> ret ()
                     | PartFailed e n \<Rightarrow> log_failure (upload_event rq p destVirtual n []) e
                     | PartWritten written \<Rightarrow>
                         if written < cf_total cf
                         then writeJSON 200 (received_body destVirtual written False)
                         else install_part partPath dest (replace_file partPath dest destVirtual user)
                           (\<lambda>_. 500)
                           (do {
                              purgePublicPath rq [destVirtual];
                              logActivity (upload_event rq p destVirtual written ''admin chunked upload'');
                              writeJSON 200 (received_body destVirtual written True)
                            }))
                  }))))
   }"

text \<open>A chunk of an upload link, whose files may be set to replace others or not.\<close>

definition put_dropped :: "PublicLink \<Rightarrow> string \<Rightarrow> string \<Rightarrow> string \<Rightarrow> (err + unit) http" where
  "put_dropped meta stagedPath dest destVirtual =
     (if pl_AllowOverwrite meta then replace_file stagedPath dest destVirtual ''drop-link''
      else disk (\<lambda>r. InstallFile r stagedPath dest))"

definition drop_status :: "PublicLink \<Rightarrow> err \<Rightarrow> int" where
  "drop_status meta e = (if \<not> pl_AllowOverwrite meta \<and> e = ErrExist then 409 else 500)"

definition drop_event :: "request \<Rightarrow> string \<Rightarrow> int \<Rightarrow> string \<Rightarrow> Event" where
  "drop_event rq destVirtual n detail =
     (http_event rq ''public_drop'' ''drop-link'' ''upload'' detail)
       \<lparr>e_Path := destVirtual, e_Bytes := n\<rparr>"

definition dropUploadResponse :: "Root \<Rightarrow> string \<Rightarrow> int \<Rightarrow> bool \<Rightarrow> json" where
  "dropUploadResponse r virtual received complete =
     (let url = publicURLForShare r virtual
      in JO ([(''path'', JS virtual), (''received'', JN received), (''complete'', JB complete)] @
             (if complete \<and> url \<noteq> [] then [(''public_url'', JS url)] else [])))"

definition dropped :: "request \<Rightarrow> string \<Rightarrow> int \<Rightarrow> string \<Rightarrow> unit http" where
  "dropped rq destVirtual n detail = do {
     r \<leftarrow> server hs_root;
     purgePublicPath rq [destVirtual];
     logActivity (drop_event rq destVirtual n detail);
     writeJSON 200 (dropUploadResponse r destVirtual n True)
   }"

definition dropChunk_scope :: "string \<Rightarrow> string \<Rightarrow> int \<Rightarrow> string" where
  "dropChunk_scope ident destVirtual total_size =
     ''drop:'' @ ident @ '':'' @ destVirtual @ '':'' @ Itoa total_size"

definition dropChunk :: "request \<Rightarrow> PublicLink \<Rightarrow> unit http" where
  "dropChunk rq meta = do {
     r \<leftarrow> server hs_root;
     case parse_chunk rq of
       Inl msg \<Rightarrow> failJSON 400 msg
     | Inr cf \<Rightarrow>
         let destVirtual = Join_paths [pl_Path meta, cf_filename cf]
         in (case ResolveAdmin r destVirtual of
              Inl _ \<Rightarrow> failJSON 400 ''bad destination''
            | Inr (dest, _) \<Rightarrow>
                with_part (dropChunk_scope (pl_ID meta) destVirtual (cf_total cf)) cf (\<lambda>partPath. do {
                  outcome \<leftarrow> receive_part cf partPath;
                  (case outcome of
                     PartAnswered \<Rightarrow> ret ()
                   | PartFailed e n \<Rightarrow> log_failure (drop_event rq destVirtual n []) e
                   | PartWritten written \<Rightarrow>
                       if written < cf_total cf
                       then writeJSON 200 (dropUploadResponse r destVirtual written False)
                       else install_part partPath dest (put_dropped meta partPath dest destVirtual)
                         (drop_status meta) (dropped rq destVirtual written ''public drop link chunked upload''))
                }))
   }"

subsection \<open>Fetching from a remote FTP server\<close>

definition fxp_event :: "request \<Rightarrow> principal \<Rightarrow> fxpRequest \<Rightarrow> string \<Rightarrow> int \<Rightarrow> string \<Rightarrow> Event" where
  "fxp_event rq p req dest n detail =
     (http_event rq ''admin_fxp'' (u_Username (fst p)) ''pull'' detail)
       \<lparr>e_Path := fx_RemotePath req, e_DestPath := dest, e_Bytes := n\<rparr>"

definition fxp_staged ::
  "request \<Rightarrow> principal \<Rightarrow> fxpRequest \<Rightarrow> string \<Rightarrow> string \<Rightarrow> string \<times> err option \<Rightarrow> unit http" where
  "fxp_staged rq p req realDest destVirtual received = do {
     text \<leftarrow> outside he_error_text;
     staged \<leftarrow> createStagedUpload ''fxp'';
     case staged of
       Inl e \<Rightarrow> fail_with 500 e
     | Inr stagedPath \<Rightarrow> do {
         copied \<leftarrow> disk (\<lambda>r. copy_in r stagedPath (fst received) (snd received));
         (case copied of
            Inl e \<Rightarrow> fail_with 502 e
          | Inr (n, Some e) \<Rightarrow> do {
              logActivity ((fxp_event rq p req (fx_DestPath req) 0 (text e))\<lparr>e_Outcome := ''failed''\<rparr>);
              fail_with 502 e
            }
          | Inr (n, None) \<Rightarrow> do {
              closed \<leftarrow> close_file stagedPath;
              (case closed of
                 Inl e \<Rightarrow> fail_with 500 e
               | Inr _ \<Rightarrow> do {
                   replaced \<leftarrow> replace_file stagedPath realDest destVirtual (u_Username (fst p));
                   (case replaced of
                      Inl e \<Rightarrow> log_failure (fxp_event rq p req destVirtual n []) e
                    | Inr _ \<Rightarrow> do {
                        chmodded \<leftarrow> disk (\<lambda>r. Chmod r realDest mode_640);
                        (case chmodded of
                           Inl e \<Rightarrow> fail_with 500 e
                         | Inr _ \<Rightarrow> do {
                             purgePublicPath rq [destVirtual];
                             logActivity (fxp_event rq p req (fx_DestPath req) n ''admin FTP pull'');
                             writeJSON 200 (JO [(''bytes'', JN n), (''dest_path'', JS (fx_DestPath req))])
                           })
                      })
                 })
            });
         discard_staged stagedPath
       }
   }"

definition fxp :: "request \<Rightarrow> principal \<Rightarrow> unit http" where
  "fxp rq p = do {
     r \<leftarrow> server hs_root;
     env \<leftarrow> outside (\<lambda>e. e);
     if rq_method rq \<noteq> ''POST'' then failJSON 405 ''method not allowed''
     else (case dj_fxp (he_json env) (rq_body rq) of
       None \<Rightarrow> failJSON 400 ''bad json''
     | Some req \<Rightarrow>
         if fx_Host req = [] \<or> fx_RemotePath req = [] \<or> fx_DestPath req = []
         then failJSON 400 ''host, remote_path, and dest_path are required''
         else (case ResolveAdmin r (fx_DestPath req) of
           Inl _ \<Rightarrow> failJSON 400 ''bad destination''
         | Inr (realDest, destVirtual) \<Rightarrow> do {
             parent \<leftarrow> disk (\<lambda>r. MkdirAllParent r realDest mode_750);
             (case parent of
                Inl e \<Rightarrow> fail_with 500 e
              | Inr _ \<Rightarrow>
                  (case he_ftp_dial env (fx_Host req) of
                     Some e \<Rightarrow> fail_with 502 e
                   | None \<Rightarrow> (case he_ftp_login env (fx_Username req) (fx_Password req) of
                       Some e \<Rightarrow> fail_with 502 e
                     | None \<Rightarrow> (case he_ftp_retr env (fx_RemotePath req) of
                         Inl e \<Rightarrow> fail_with 502 e
                       | Inr received \<Rightarrow> fxp_staged rq p req realDest destVirtual received))))
           }))
   }"

end
