(* ===== verification/HttpShares.thy ===== *)
theory HttpShares
  imports HttpUploads
begin

text \<open>
  Public links over HTTP, in \<open>internal/httpapi/server.go\<close>: downloading through a share link, uploading
  through a drop link, and making and revoking links. When \<open>Verify\<close> fails the code's variable for the
  link becomes the zero value, so the branches after it that ask for its password see none.
\<close>

subsection \<open>The methods of the link store\<close>

definition links_step :: "(ShareStore \<Rightarrow> 'a \<times> ShareStore) \<Rightarrow> 'a http" where
  "links_step f = State (\<lambda>c. case f (hs_links (hx_sv c)) of
     (x, l) \<Rightarrow> (x, c\<lparr>hx_sv := (hx_sv c)\<lparr>hs_links := l\<rparr>\<rparr>))"

definition verify_link :: "string \<Rightarrow> string \<Rightarrow> string \<Rightarrow> (err + PublicLink) http" where
  "verify_link ident token password = do {
     sv \<leftarrow> server (\<lambda>s. s);
     t \<leftarrow> now;
     ret (Verify (hs_kdf sv) t (hs_links sv) ident token password)
   }"

definition verify_authorized :: "string \<Rightarrow> string \<Rightarrow> (err + PublicLink) http" where
  "verify_authorized ident token = do {
     sv \<leftarrow> server (\<lambda>s. s);
     t \<leftarrow> now;
     ret (VerifyAuthorized (hs_kdf sv) t (hs_links sv) ident token)
   }"

definition reserve_download :: "string \<Rightarrow> err option http" where
  "reserve_download ident = do {
     t \<leftarrow> now;
     links_step (ReserveDownload t ident)
   }"

definition finish_download :: "string \<Rightarrow> bool \<Rightarrow> unit http" where
  "finish_download ident completed = do {
     t \<leftarrow> now;
     unsaved \<leftarrow> outside he_save_links;
     _ \<leftarrow> links_step (FinishDownload t unsaved ident completed);
     ret ()
   }"

subsection \<open>Pages\<close>

definition password_page :: "string \<Rightarrow> unit http" where
  "password_page title = html_page ''password.html'' [(''Title'', JS title)]"

definition redirectSamePath :: "request \<Rightarrow> unit http" where
  "redirectSamePath rq = respond (\<lambda>rs. write_header 303
     (set_header ''Location'' (path_string (rq_path rq) []) rs))"

definition setFileDisposition :: "request \<Rightarrow> string \<Rightarrow> unit http" where
  "setFileDisposition rq name = do {
     env \<leftarrow> outside (\<lambda>e. e);
     respond (set_header ''Content-Disposition'' (file_disposition (he_mime env (Ext name)) rq name))
   }"

definition limited_text :: string where
  "limited_text = ''too many failed share password attempts; try again later''"

subsection \<open>Share links\<close>

text \<open>Who may open a link: the outcome of one of three checks, and the page for a failure.\<close>

definition share_access :: "request \<Rightarrow> string \<Rightarrow> string \<Rightarrow> bool \<Rightarrow> bool \<Rightarrow> share_outcome http" where
  "share_access rq ident token has_password cookieAuthorized =
     (if cookieAuthorized then do {
        v \<leftarrow> verify_authorized ident token;
        ret (case v of Inl e \<Rightarrow> ShareError e | Inr link \<Rightarrow> ShareOpen link)
      }
      else if has_password then verifySharePassword rq ident token (FormValue rq ''password'')
      else do {
        v \<leftarrow> verify_link ident token [];
        ret (case v of Inl e \<Rightarrow> ShareError e | Inr link \<Rightarrow> ShareOpen link)
      })"

text \<open>A file: a GET reserves a download before it starts and gives it back or counts it after.\<close>

definition share_file :: "request \<Rightarrow> string \<Rightarrow> string \<Rightarrow> string \<Rightarrow> unit http" where
  "share_file rq ident realPath clean = do {
     r \<leftarrow> server hs_root;
     setShareDownloadHeaders;
     setFileDisposition rq (info_name r realPath);
     result \<leftarrow> serveStorageFile rq realPath (info_name r realPath);
     (if rq_method rq = ''GET'' then finish_download ident (RecordableDownload result) else ret ());
     logDownloadActivity
       ((http_event rq ''share_download'' ''share-link'' ''download'' ''public share download'')
         \<lparr>e_Referrer := header rq ''Referer'', e_Path := clean\<rparr>) result
   }"

definition share_opened :: "request \<Rightarrow> string \<Rightarrow> PublicLink \<Rightarrow> unit http" where
  "share_opened rq ident meta = do {
     r \<leftarrow> server hs_root;
     case ResolveAdmin r (pl_Path meta) of
       Inl _ \<Rightarrow> notFound
     | Inr (realPath, clean) \<Rightarrow> do {
         stat \<leftarrow> disk (\<lambda>r. Stat r realPath);
         (case stat of
            Inl _ \<Rightarrow> notFound
          | Inr info \<Rightarrow>
              if \<not> is_dir info then
                (if rq_method rq \<noteq> ''GET'' \<and> rq_method rq \<noteq> ''HEAD'' then httpError ''method not allowed'' 405
                 else if rq_method rq = ''GET'' then do {
                   refused \<leftarrow> reserve_download ident;
                   (case refused of
                      Some _ \<Rightarrow> httpError ''share unavailable'' 410
                    | None \<Rightarrow> share_file rq ident realPath clean)
                 }
                 else share_file rq ident realPath clean)
              else do {
                respond (set_header ''Content-Type'' ''text/html; charset=utf-8'');
                file_info_page (''Shared '' @ info_name r realPath) (info_name r realPath) clean info
                  (rq_path rq @ ''?download=1'')
              })
       }
   }"

text \<open>A download link that exists, before its token and password are checked.\<close>

definition share_known :: "request \<Rightarrow> string \<Rightarrow> string \<Rightarrow> PublicLink \<Rightarrow> unit http" where
  "share_known rq ident token meta = do {
     cookieAuthorized \<leftarrow> (if pl_HasPassword meta then verifyShareCookie rq ident token else ret False);
     if pl_HasPassword meta \<and> rq_method rq \<noteq> ''POST'' \<and> \<not> cookieAuthorized
     then password_page ''Protected share''
     else do {
       outcome \<leftarrow> share_access rq ident token (pl_HasPassword meta) cookieAuthorized;
       (case outcome of
          ShareLimited \<Rightarrow> httpError limited_text 429
        | ShareError e \<Rightarrow>
            if e = ErrDenied then password_page ''Protected share''
            else httpError ''share unavailable'' 410
        | ShareOpen link \<Rightarrow>
            if pl_HasPassword link \<and> rq_method rq = ''POST'' then do {
              setShareCookie rq ident token;
              redirectSamePath rq
            }
            else share_opened rq ident link)
     }
   }"

definition shareLink :: "request \<Rightarrow> unit http" where
  "shareLink rq = do {
     links \<leftarrow> server hs_links;
     case linkParts (rq_path rq) (if HasPrefix (rq_path rq) ''/s/'' then ''/s/'' else ''/share/'') of
       None \<Rightarrow> notFound
     | Some (ident, token) \<Rightarrow> (case Public links ident of
         Inl _ \<Rightarrow> notFound
       | Inr meta \<Rightarrow> if pl_Kind meta \<noteq> KindDownload then notFound else share_known rq ident token meta)
   }"

subsection \<open>Drop links\<close>

definition drop_page :: "request \<Rightarrow> string \<Rightarrow> string \<Rightarrow> PublicLink \<Rightarrow> unit http" where
  "drop_page rq ident token meta = do {
     granted \<leftarrow> (if pl_HasPassword meta then verifyShareCookie rq ident token else ret True);
     if \<not> granted then password_page ''Protected drop''
     else do {
       v \<leftarrow> (if pl_HasPassword meta then verify_authorized ident token else verify_link ident token []);
       (case v of
          Inl _ \<Rightarrow> httpError ''drop link unavailable'' 410
        | Inr link \<Rightarrow> html_page ''drop.html''
            [(''Path'', JS (pl_Path link)), (''HasPassword'', JB (pl_HasPassword link))])
     }
   }"

definition drop_password :: "request \<Rightarrow> string \<Rightarrow> string \<Rightarrow> unit http" where
  "drop_password rq ident token =
     (if \<not> rq_form_ok rq then httpError ''bad password form'' 400
      else do {
        outcome \<leftarrow> verifySharePassword rq ident token (FormValue rq ''password'');
        (case outcome of
           ShareLimited \<Rightarrow> httpError limited_text 429
         | ShareError _ \<Rightarrow> password_page ''Protected drop''
         | ShareOpen _ \<Rightarrow> do { setShareCookie rq ident token; redirectSamePath rq })
      })"

definition http_error_with :: "int \<Rightarrow> err \<Rightarrow> unit http" where
  "http_error_with status e = do { text \<leftarrow> outside he_error_text; httpError (text e) status }"

definition drop_staged :: "request \<Rightarrow> PublicLink \<Rightarrow> part \<Rightarrow> string \<Rightarrow> string \<Rightarrow> unit http" where
  "drop_staged rq meta f dest destVirtual = do {
     staged \<leftarrow> createStagedUpload ''drop'';
     case staged of
       Inl e \<Rightarrow> http_error_with 500 e
     | Inr stagedPath \<Rightarrow> do {
         copied \<leftarrow> disk (\<lambda>r. copy_in r stagedPath (pt_content f) (pt_error f));
         (case copied of
            Inl e \<Rightarrow> http_error_with 500 e
          | Inr (n, Some e) \<Rightarrow> http_error_with 500 e
          | Inr (n, None) \<Rightarrow> do {
              closed \<leftarrow> close_file stagedPath;
              (case closed of
                 Inl e \<Rightarrow> http_error_with 500 e
               | Inr _ \<Rightarrow> do {
                   done_put \<leftarrow> put_dropped meta stagedPath dest destVirtual;
                   (case done_put of
                      Inl e \<Rightarrow> http_error_with (drop_status meta e) e
                    | Inr _ \<Rightarrow> do {
                        chmodded \<leftarrow> disk (\<lambda>r. Chmod r dest mode_640);
                        (case chmodded of
                           Inl e \<Rightarrow> http_error_with 500 e
                         | Inr _ \<Rightarrow> dropped rq destVirtual n ''public drop link upload'')
                      })
                 })
            });
         discard_staged stagedPath
       }
   }"

definition drop_upload :: "request \<Rightarrow> PublicLink \<Rightarrow> unit http" where
  "drop_upload rq meta = do {
     r \<leftarrow> server hs_root;
     case FormFile rq ''file'' of
       None \<Rightarrow> httpError ''file is required'' 400
     | Some f \<Rightarrow>
         let name = Base_name (pt_filename f); destVirtual = Join_paths [pl_Path meta, name]
         in if bad_filename name then httpError ''bad filename'' 400
            else (case ResolveAdmin r destVirtual of
              Inl _ \<Rightarrow> httpError ''bad destination'' 400
            | Inr (dest, _) \<Rightarrow> do {
                parent \<leftarrow> disk (\<lambda>r. MkdirAllParent r dest mode_750);
                (case parent of
                   Inl e \<Rightarrow> http_error_with 500 e
                 | Inr _ \<Rightarrow> drop_staged rq meta f dest destVirtual)
              })
   }"

definition drop_post :: "request \<Rightarrow> string \<Rightarrow> string \<Rightarrow> PublicLink \<Rightarrow> unit http" where
  "drop_post rq ident token meta = do {
     granted \<leftarrow> (if pl_HasPassword meta then verifyShareCookie rq ident token else ret True);
     if \<not> granted then httpError ''authorize the protected drop before uploading'' 401
     else if \<not> rq_multipart_ok rq then httpError ''bad upload'' 400
     else do {
       v \<leftarrow> (if pl_HasPassword meta then verify_authorized ident token
            else verify_link ident token (FormValue rq ''password''));
       (case v of
          Inl _ \<Rightarrow> httpError ''drop link unavailable'' 410
        | Inr link \<Rightarrow>
            if pl_Kind link \<noteq> KindUpload then
              (if pl_HasPassword link \<and> FormValue rq ''password'' \<noteq> [] \<and> FormValue rq ''upload_id'' = []
               then password_page ''Protected drop'' else httpError ''drop link unavailable'' 410)
            else if FormValue rq ''upload_id'' \<noteq> [] then dropChunk rq link
            else drop_upload rq link)
     }
   }"

definition dropLink :: "request \<Rightarrow> unit http" where
  "dropLink rq = do {
     links \<leftarrow> server hs_links;
     case linkParts (rq_path rq) (if HasPrefix (rq_path rq) ''/d/'' then ''/d/'' else ''/drop/'') of
       None \<Rightarrow> notFound
     | Some (ident, token) \<Rightarrow> (case Public links ident of
         Inl _ \<Rightarrow> httpError ''drop link unavailable'' 410
       | Inr meta \<Rightarrow>
           if pl_Kind meta \<noteq> KindUpload then httpError ''drop link unavailable'' 410
           else if rq_method rq = ''GET'' then drop_page rq ident token meta
           else if rq_method rq \<noteq> ''POST'' then httpError ''method not allowed'' 405
           else if pl_HasPassword meta \<and>
                   \<not> HasPrefix (ToLower (header rq ''Content-Type'')) ''multipart/''
           then drop_password rq ident token
           else drop_post rq ident token meta)
   }"

subsection \<open>Making links\<close>

definition kind_of :: "string \<Rightarrow> Kind" where
  "kind_of s = (if s = ''download'' then KindDownload else if s = ''upload'' then KindUpload else OtherKind s)"

fun kind_name :: "Kind \<Rightarrow> string" where
  "kind_name KindDownload = ''download''"
| "kind_name KindUpload = ''upload''"
| "kind_name (OtherKind s) = s"

text \<open>\<open>strconv.Atoi\<close> whose error is not looked at: out of range it is the nearest value, else zero.\<close>

definition Atoi_value :: "string \<Rightarrow> int" where
  "Atoi_value s =
     (case ParseInt s of
        Some v \<Rightarrow> v
      | None \<Rightarrow>
          let neg = (s \<noteq> [] \<and> hd s = CHR ''-'');
              body = (if s \<noteq> [] \<and> (hd s = CHR ''-'' \<or> hd s = CHR ''+'') then tl s else s)
          in if parse_digits body = None then 0 else if neg then min_i64 else max_i64)"

text \<open>
  What both ways to make a link share, once its fields are read: the store's new link, its address,
  and the record of it. \<open>Create\<close> may need another random identifier; with none left it does not
  answer, and neither does the request.
\<close>

definition link_address :: "string \<Rightarrow> PublicLink \<Rightarrow> string \<Rightarrow> string http" where
  "link_address realPath link token = do {
     r \<leftarrow> server hs_root;
     let urlPath = (if pl_Kind link = KindUpload then ''/d/'' else ''/s/'') @ pl_ID link @ [slash] @ token;
     if pl_Kind link = KindDownload then do {
       stat \<leftarrow> disk (\<lambda>r. Stat r realPath);
       ret (case stat of
              Inr info \<Rightarrow> if is_dir info then urlPath else urlPath @ [slash] @ info_name r realPath
            | Inl _ \<Rightarrow> urlPath)
     }
     else ret urlPath
   }"

definition create_link ::
  "request \<Rightarrow> principal \<Rightarrow> CreateRequest \<Rightarrow> string \<Rightarrow> ((err + PublicLink \<times> string) option) http" where
  "create_link rq p req realPath = do {
     sv \<leftarrow> server (\<lambda>s. s);
     inp \<leftarrow> outside he_create;
     unsaved \<leftarrow> outside he_save_links;
     case Create (hs_kdf sv) inp req (hs_links sv) of
       None \<Rightarrow> ret None
     | Some (result, links) \<Rightarrow> do {
         links_step (\<lambda>_. ((), links));
         (case result of
            Inl e \<Rightarrow> ret (Some (Inl e))
          | Inr (link, token) \<Rightarrow> do {
              urlPath \<leftarrow> link_address realPath link token;
              _ \<leftarrow> links_step (SetURLPath unsaved (pl_ID link) urlPath);
              logActivity ((http_event rq ''admin_share'' (u_Username (fst p))
                  (''create '' @ kind_name (pl_Kind link)) ''created public link'')
                \<lparr>e_Path := cr_Path req\<rparr>);
              ret (Some (Inr (link\<lparr>pl_URLPath := urlPath\<rparr>, absoluteURL rq urlPath)))
            })
       }
   }"

definition delete_link :: "string \<Rightarrow> err option http" where
  "delete_link ident = do {
     unsaved \<leftarrow> outside he_save_links;
     links_step (Delete_link unsaved ident)
   }"

end
