(* ===== verification/HttpAdmin.thy ===== *)
theory HttpAdmin
  imports HttpShares
begin

text \<open>
  The administrator's interface of \<open>internal/httpapi/server.go\<close> but for the files: users and groups,
  links, retained files, the activity log, sessions, checks and the cache.
\<close>

definition writeOK :: "unit http" where
  "writeOK = writeJSON 200 (JO [(''ok'', JB True)])"

definition not_allowed :: "unit http" where
  "not_allowed = failJSON 405 ''method not allowed''"

definition health :: "request \<Rightarrow> unit http" where
  "health rq = do {
     t \<leftarrow> now;
     writeJSON 200 (JO [(''ok'', JB True), (''service'', JS ''macftpd''), (''time'', JT t)])
   }"

subsection \<open>Users and groups\<close>

definition auth_step :: "(AuthStore \<Rightarrow> 'a \<times> AuthStore) \<Rightarrow> 'a http" where
  "auth_step f = State (\<lambda>c. case f (hs_auth (hx_sv c)) of
     (x, a) \<Rightarrow> (x, c\<lparr>hx_sv := (hx_sv c)\<lparr>hs_auth := a\<rparr>\<rparr>))"

definition request_user :: "userRequest \<Rightarrow> User" where
  "request_user req =
     \<lparr>u_Username = ur_Username req, u_PasswordHash = [],
      u_Groups = filter (\<lambda>g. g \<noteq> []) (map NormalizeName (ur_Groups req)), u_Home = ur_Home req,
      u_Disabled = ur_Disabled req, u_Permissions = ur_Permissions req\<rparr>"

definition sanitizeUser :: "User \<Rightarrow> User" where
  "sanitizeUser user = user\<lparr>u_PasswordHash := []\<rparr>"

definition form_on :: "request \<Rightarrow> string \<Rightarrow> bool" where
  "form_on rq k \<longleftrightarrow> FormValue rq k = ''on''"

definition permissionSetFromForm :: "request \<Rightarrow> PermissionSet" where
  "permissionSetFromForm rq =
     \<lparr>p_List = form_on rq ''perm_list'', p_Download = form_on rq ''perm_download'',
      p_Upload = form_on rq ''perm_upload'', p_Delete = form_on rq ''perm_delete'',
      p_Mkdir = form_on rq ''perm_mkdir'', p_Rename = form_on rq ''perm_rename'',
      p_Admin = form_on rq ''perm_admin'', p_Public = form_on rq ''perm_public'',
      p_Dropbox = form_on rq ''perm_dropbox''\<rparr>"

text \<open>The account \<open>Permissions\<close> returns: the zero value for one that is disabled or absent.\<close>

definition zero_user :: User where
  "zero_user = \<lparr>u_Username = [], u_PasswordHash = [], u_Groups = [], u_Home = [], u_Disabled = False,
     u_Permissions = no_permissions\<rparr>"

definition permitted_user :: "AuthStore \<Rightarrow> string \<Rightarrow> User" where
  "permitted_user s name = (case Permissions_of s name of Some (u, _) \<Rightarrow> u | None \<Rightarrow> zero_user)"

text \<open>Saving an account and making its directories; the error, or the account as it then is.\<close>

definition save_user :: "User \<Rightarrow> string \<Rightarrow> (err + User) http" where
  "save_user user password = do {
     sv \<leftarrow> server (\<lambda>s. s);
     salt \<leftarrow> outside he_salt;
     unsaved \<leftarrow> outside he_save_auth;
     failed \<leftarrow> auth_step (UpsertUser (hs_kdf sv) salt unsaved user password);
     case failed of
       Some e \<Rightarrow> ret (Inl e)
     | None \<Rightarrow> do {
         saved \<leftarrow> server (\<lambda>s. permitted_user (hs_auth s) (u_Username user));
         _ \<leftarrow> disk (\<lambda>r. EnsureUserHome r saved);
         ret (Inr saved)
       }
   }"

definition delete_user_of :: "string \<Rightarrow> err option http" where
  "delete_user_of username = do {
     unsaved \<leftarrow> outside he_save_auth;
     auth_step (DeleteUser unsaved username)
   }"

definition admin_event :: "request \<Rightarrow> principal \<Rightarrow> string \<Rightarrow> string \<Rightarrow> string \<Rightarrow> string \<Rightarrow> Event" where
  "admin_event rq p typ action path detail =
     (http_event rq typ (u_Username (fst p)) action detail)\<lparr>e_Path := path\<rparr>"

definition me :: "request \<Rightarrow> principal \<Rightarrow> unit http" where
  "me rq p = writeJSON 200 (JO [(''user'', JUser (sanitizeUser (fst p))), (''permissions'', JPerms (snd p))])"

definition users :: "request \<Rightarrow> principal \<Rightarrow> unit http" where
  "users rq p = do {
     dec \<leftarrow> outside he_json;
     listed \<leftarrow> server (\<lambda>s. ListUsers (hs_auth s));
     if rq_method rq = ''GET'' then writeJSON 200 (JO [(''users'', JL (map JUser listed))])
     else if rq_method rq = ''POST'' then
       (case dj_user dec (rq_body rq) of
          None \<Rightarrow> failJSON 400 ''bad json''
        | Some req \<Rightarrow> do {
            saved \<leftarrow> save_user (request_user req) (ur_Password req);
            (case saved of
               Inl e \<Rightarrow> fail_with 400 e
             | Inr user \<Rightarrow> do {
                 logActivity (admin_event rq p ''admin_user'' ''saved user'' (u_Username user)
                   ''user created or updated'');
                 writeJSON 200 (JO [(''user'', JUser (sanitizeUser user))])
               })
          })
     else not_allowed
   }"

definition user :: "request \<Rightarrow> principal \<Rightarrow> unit http" where
  "user rq p = do {
     dec \<leftarrow> outside he_json;
     let username = Trim (TrimPrefix (rq_path rq) ''/api/users/'') [slash];
     if username = [] then failJSON 400 ''username is required''
     else if rq_method rq = ''PUT'' then
       (case dj_user dec (rq_body rq) of
          None \<Rightarrow> failJSON 400 ''bad json''
        | Some req \<Rightarrow> do {
            saved \<leftarrow> save_user (request_user (req\<lparr>ur_Username := username\<rparr>)) (ur_Password req);
            (case saved of
               Inl e \<Rightarrow> fail_with 400 e
             | Inr user \<Rightarrow> do {
                 logActivity (admin_event rq p ''admin_user'' ''saved user'' username ''user updated'');
                 writeJSON 200 (JO [(''user'', JUser (sanitizeUser user))])
               })
          })
     else if rq_method rq = ''DELETE'' then do {
       failed \<leftarrow> delete_user_of username;
       (case failed of
          Some e \<Rightarrow> fail_with 400 e
        | None \<Rightarrow> do {
            logActivity (admin_event rq p ''admin_user'' ''deleted user'' username ''user deleted'');
            writeOK
          })
     }
     else not_allowed
   }"

definition groups :: "request \<Rightarrow> principal \<Rightarrow> unit http" where
  "groups rq p = do {
     dec \<leftarrow> outside he_json;
     unsaved \<leftarrow> outside he_save_auth;
     listed \<leftarrow> server (\<lambda>s. ListGroups (hs_auth s));
     if rq_method rq = ''GET'' then writeJSON 200 (JO [(''groups'', JL (map JGroup listed))])
     else if rq_method rq = ''POST'' then
       (case dj_group dec (rq_body rq) of
          None \<Rightarrow> failJSON 400 ''bad json''
        | Some req \<Rightarrow> do {
            failed \<leftarrow> auth_step (UpsertGroup unsaved req);
            (case failed of
               Some e \<Rightarrow> fail_with 400 e
             | None \<Rightarrow> do {
                 logActivity (admin_event rq p ''admin_group'' ''saved group'' (g_Name req)
                   ''group created or updated'');
                 writeOK
               })
          })
     else not_allowed
   }"

text \<open>The same as parts of the administration page: the outcome is shown in the page.\<close>

record adminUsersView =
  av_Users :: "User list"
  av_Edit :: User
  av_Status :: string
  av_Error :: string

definition users_page :: "adminUsersView \<Rightarrow> unit http" where
  "users_page v = html_page ''partial_users.html''
     [(''Users'', JL (map JUser (av_Users v))), (''Edit'', JUser (av_Edit v)),
      (''Status'', JS (av_Status v)), (''Error'', JS (av_Error v))]"

definition form_user :: "request \<Rightarrow> User" where
  "form_user rq =
     \<lparr>u_Username = FormValue rq ''username'', u_PasswordHash = [],
      u_Groups = splitCSV (FormValue rq ''groups''), u_Home = FormValue rq ''home'',
      u_Disabled = form_on rq ''disabled'', u_Permissions = permissionSetFromForm rq\<rparr>"

definition users_partial_post :: "request \<Rightarrow> principal \<Rightarrow> adminUsersView \<Rightarrow> adminUsersView http" where
  "users_partial_post rq p v = do {
     text \<leftarrow> outside he_error_text;
     if \<not> rq_form_ok rq then ret (v\<lparr>av_Error := ''bad form''\<rparr>)
     else do {
       saved \<leftarrow> save_user (form_user rq) (FormValue rq ''password'');
       (case saved of
          Inl e \<Rightarrow> ret (v\<lparr>av_Error := text e\<rparr>)
        | Inr account \<Rightarrow> do {
            logActivity (admin_event rq p ''admin_user'' ''saved user'' (u_Username account)
              ''user created or updated'');
            listed \<leftarrow> server (\<lambda>s. ListUsers (hs_auth s));
            ret (v\<lparr>av_Users := listed, av_Edit := sanitizeUser account,
                   av_Status := ''Saved '' @ u_Username account\<rparr>)
          })
     }
   }"

definition users_partial_delete :: "request \<Rightarrow> principal \<Rightarrow> adminUsersView \<Rightarrow> adminUsersView http" where
  "users_partial_delete rq p v = do {
     text \<leftarrow> outside he_error_text;
     let username = query rq ''username'';
     if username = [] then ret (v\<lparr>av_Error := ''username is required''\<rparr>)
     else do {
       failed \<leftarrow> delete_user_of username;
       (case failed of
          Some e \<Rightarrow> ret (v\<lparr>av_Error := text e\<rparr>)
        | None \<Rightarrow> do {
            logActivity (admin_event rq p ''admin_user'' ''deleted user'' username ''user deleted'');
            listed \<leftarrow> server (\<lambda>s. ListUsers (hs_auth s));
            ret (v\<lparr>av_Users := listed, av_Status := ''Deleted '' @ username\<rparr>)
          })
     }
   }"

definition adminUsersPartial :: "request \<Rightarrow> principal \<Rightarrow> unit http" where
  "adminUsersPartial rq p = do {
     a \<leftarrow> server hs_auth;
     let edit = (if query rq ''edit'' = [] then zero_user
                 else sanitizeUser (permitted_user a (query rq ''edit'')));
     let v = \<lparr>av_Users = ListUsers a, av_Edit = edit, av_Status = [], av_Error = []\<rparr>;
     if rq_method rq = ''GET'' then users_page v
     else if rq_method rq = ''POST'' then do { v' \<leftarrow> users_partial_post rq p v; users_page v' }
     else if rq_method rq = ''DELETE'' then do { v' \<leftarrow> users_partial_delete rq p v; users_page v' }
     else writeHTML 405 ''method not allowed''
   }"

subsection \<open>Links\<close>

text \<open>The place of a new link: a file or directory to download must exist, one to upload to is made.\<close>

definition link_place :: "string \<Rightarrow> string \<Rightarrow> (err + unit) http" where
  "link_place kind realPath =
     (if kind = ''download'' then do {
        stat \<leftarrow> disk (\<lambda>r. Stat r realPath);
        ret (case stat of Inl _ \<Rightarrow> Inl (ErrMsg ''path not found'') | Inr _ \<Rightarrow> Inr ())
      }
      else disk (\<lambda>r. MkdirAll r realPath mode_750))"

text \<open>When it expires and after how many downloads; \<open>None\<close> for a duration that does not parse.\<close>

definition link_expiry :: "string \<Rightarrow> int \<Rightarrow> ((time \<times> int) option) http" where
  "link_expiry expires_in maxDownloads =
     (if expires_in = ''1download'' then ret (Some (0, 1))
      else if expires_in = [] \<or> expires_in = ''never'' then ret (Some (0, maxDownloads))
      else do {
        parse \<leftarrow> outside he_ParseDuration;
        (case parse expires_in of
           None \<Rightarrow> ret None
         | Some d \<Rightarrow> do { t \<leftarrow> now; ret (Some (t + d, maxDownloads)) })
      })"

definition shares_post :: "request \<Rightarrow> principal \<Rightarrow> shareRequest \<Rightarrow> unit http" where
  "shares_post rq p req = do {
     r \<leftarrow> server hs_root;
     let kind = (if sr_Kind req = [] then ''download'' else sr_Kind req);
     case ResolveAdmin r (sr_Path req) of
       Inl _ \<Rightarrow> failJSON 400 ''bad path''
     | Inr (realPath, clean) \<Rightarrow> do {
         placed \<leftarrow> link_place kind realPath;
         (case placed of
            Inl e \<Rightarrow> if kind = ''download'' then failJSON 404 ''path not found'' else fail_with 500 e
          | Inr _ \<Rightarrow> do {
              expiry \<leftarrow> link_expiry (sr_ExpiresIn req) (sr_MaxDownloads req);
              (case expiry of
                 None \<Rightarrow> failJSON 400 ''bad expires_in duration''
               | Some (expires, maxDownloads) \<Rightarrow> do {
                   created \<leftarrow> create_link rq p \<lparr>cr_Kind = kind_of kind, cr_Path = clean,
                     cr_Label = sr_Label req, cr_CreatedBy = u_Username (fst p), cr_ExpiresAt = expires,
                     cr_MaxDownloads = maxDownloads, cr_Password = sr_Password req,
                     cr_AllowOverwrite = sr_AllowOverwrite req\<rparr> realPath;
                   (case created of
                      None \<Rightarrow> ret ()
                    | Some (Inl e) \<Rightarrow> fail_with 400 e
                    | Some (Inr (link, url)) \<Rightarrow> writeJSON 200 (JO [(''link'', JLink link), (''url'', JS url)]))
                 })
            })
       }
   }"

definition sharesAPI :: "request \<Rightarrow> principal \<Rightarrow> unit http" where
  "sharesAPI rq p = do {
     dec \<leftarrow> outside he_json;
     listed \<leftarrow> server (\<lambda>s. List_links (hs_links s));
     if rq_method rq = ''GET'' then writeJSON 200 (JO [(''links'', JL (map JLink listed))])
     else if rq_method rq = ''POST'' then
       (case dj_share dec (rq_body rq) of
          None \<Rightarrow> failJSON 400 ''bad json''
        | Some req \<Rightarrow> shares_post rq p req)
     else not_allowed
   }"

definition shareAPI :: "request \<Rightarrow> principal \<Rightarrow> unit http" where
  "shareAPI rq p = do {
     let ident = Trim (TrimPrefix (rq_path rq) ''/api/shares/'') [slash];
     if ident = [] then failJSON 400 ''id is required''
     else if rq_method rq \<noteq> ''DELETE'' then not_allowed
     else do {
       failed \<leftarrow> delete_link ident;
       (case failed of
          Some e \<Rightarrow> fail_with 404 e
        | None \<Rightarrow> do {
            logActivity (admin_event rq p ''admin_share'' ''delete'' ident ''deleted public link'');
            writeOK
          })
     }
   }"

definition createPublicLinkFromForm ::
  "request \<Rightarrow> principal \<Rightarrow> ((err + PublicLink \<times> string) option) http" where
  "createPublicLinkFromForm rq p = do {
     r \<leftarrow> server hs_root;
     let kind = (if FormValue rq ''kind'' = [] then ''download'' else FormValue rq ''kind'');
     case ResolveAdmin r (FormValue rq ''path'') of
       Inl _ \<Rightarrow> ret (Some (Inl (ErrMsg ''bad path'')))
     | Inr (realPath, clean) \<Rightarrow> do {
         placed \<leftarrow> link_place kind realPath;
         (case placed of
            Inl e \<Rightarrow> ret (Some (Inl e))
          | Inr _ \<Rightarrow> do {
              expiry \<leftarrow> link_expiry (FormValue rq ''expires_in'') (Atoi_value (FormValue rq ''max_downloads''));
              (case expiry of
                 None \<Rightarrow> ret (Some (Inl (ErrMsg ''bad expiry'')))
               | Some (expires, maxDownloads) \<Rightarrow>
                   create_link rq p \<lparr>cr_Kind = kind_of kind, cr_Path = clean,
                     cr_Label = FormValue rq ''label'', cr_CreatedBy = u_Username (fst p),
                     cr_ExpiresAt = expires, cr_MaxDownloads = maxDownloads,
                     cr_Password = FormValue rq ''password'',
                     cr_AllowOverwrite = form_on rq ''allow_overwrite''\<rparr> realPath)
            })
       }
   }"

record adminLinksView =
  lv_Links :: "PublicLink list"
  lv_CreatedURL :: string
  lv_Status :: string
  lv_Error :: string

definition links_page :: "adminLinksView \<Rightarrow> unit http" where
  "links_page v = do {
     t \<leftarrow> now;
     html_page ''partial_links.html''
       [(''Links'', JL (map JLink (lv_Links v))), (''CreatedURL'', JS (lv_CreatedURL v)),
        (''Status'', JS (lv_Status v)), (''Error'', JS (lv_Error v)), (''Now'', JT t)]
   }"

definition links_partial_post :: "request \<Rightarrow> principal \<Rightarrow> adminLinksView \<Rightarrow> unit http" where
  "links_partial_post rq p v = do {
     text \<leftarrow> outside he_error_text;
     if \<not> rq_form_ok rq then links_page (v\<lparr>lv_Error := ''bad form''\<rparr>)
     else do {
       created \<leftarrow> createPublicLinkFromForm rq p;
       (case created of
          None \<Rightarrow> ret ()
        | Some (Inl e) \<Rightarrow> links_page (v\<lparr>lv_Error := text e\<rparr>)
        | Some (Inr (link, url)) \<Rightarrow> do {
            listed \<leftarrow> server (\<lambda>s. List_links (hs_links s));
            links_page (v\<lparr>lv_Links := listed, lv_CreatedURL := url,
                          lv_Status := ''Created '' @ kind_name (pl_Kind link) @ '' link''\<rparr>)
          })
     }
   }"

definition links_partial_delete :: "request \<Rightarrow> principal \<Rightarrow> adminLinksView \<Rightarrow> unit http" where
  "links_partial_delete rq p v = do {
     text \<leftarrow> outside he_error_text;
     let ident = query rq ''id'';
     if ident = [] then links_page (v\<lparr>lv_Error := ''id is required''\<rparr>)
     else do {
       failed \<leftarrow> delete_link ident;
       (case failed of
          Some e \<Rightarrow> links_page (v\<lparr>lv_Error := text e\<rparr>)
        | None \<Rightarrow> do {
            logActivity (admin_event rq p ''admin_share'' ''delete'' ident ''deleted public link'');
            listed \<leftarrow> server (\<lambda>s. List_links (hs_links s));
            links_page (v\<lparr>lv_Links := listed, lv_Status := ''Revoked '' @ ident\<rparr>)
          })
     }
   }"

definition adminLinksPartial :: "request \<Rightarrow> principal \<Rightarrow> unit http" where
  "adminLinksPartial rq p = do {
     listed \<leftarrow> server (\<lambda>s. List_links (hs_links s));
     let v = \<lparr>lv_Links = listed, lv_CreatedURL = [], lv_Status = [], lv_Error = []\<rparr>;
     if rq_method rq = ''GET'' then links_page v
     else if rq_method rq = ''POST'' then links_partial_post rq p v
     else if rq_method rq = ''DELETE'' then links_partial_delete rq p v
     else writeHTML 405 ''method not allowed''
   }"

subsection \<open>Retained files\<close>

definition restore_retained ::
  "string \<Rightarrow> string \<Rightarrow> string \<Rightarrow> bool \<Rightarrow> (err + string) http" where
  "restore_retained kind ident destPath overwrite = do {
     sv \<leftarrow> server (\<lambda>s. s);
     disk (\<lambda>r. Restore (hs_codec sv) r kind ident destPath overwrite)
   }"

definition list_retained :: "string \<Rightarrow> (err + RetainedEntry list) http" where
  "list_retained kind = do {
     sv \<leftarrow> server (\<lambda>s. s);
     disk (\<lambda>r. ListRetained (hs_codec sv) r kind)
   }"

definition retentionAPI :: "request \<Rightarrow> principal \<Rightarrow> unit http" where
  "retentionAPI rq p =
     (if rq_method rq \<noteq> ''GET'' then not_allowed
      else do {
        listed \<leftarrow> list_retained (query rq ''kind'');
        (case listed of
           Inl e \<Rightarrow> fail_with 500 e
         | Inr items \<Rightarrow> writeJSON 200 (JO [(''items'', JL (map JRetained items))]))
      })"

definition restoreAPI :: "request \<Rightarrow> principal \<Rightarrow> unit http" where
  "restoreAPI rq p = do {
     dec \<leftarrow> outside he_json;
     if rq_method rq \<noteq> ''POST'' then not_allowed
     else (case dj_restore dec (rq_body rq) of
       None \<Rightarrow> failJSON 400 ''bad json''
     | Some req \<Rightarrow> do {
         restored \<leftarrow> restore_retained (rr_Kind req) (rr_ID req) (rr_DestPath req) (rr_Overwrite req);
         (case restored of
            Inl e \<Rightarrow> fail_with 400 e
          | Inr dest \<Rightarrow> do {
              purgePublicPath rq [dest];
              logActivity (admin_event rq p ''admin_retention'' ''restore'' dest ''restored retained file'');
              writeJSON 200 (JO [(''path'', JS dest)])
            })
       })
   }"

record adminRetentionView =
  rv_Kind :: string
  rv_Items :: "RetainedEntry list"
  rv_Status :: string
  rv_Error :: string

text \<open>The entries are listed after the page's own action; a failure to do so replaces its message.\<close>

definition retention_page :: "adminRetentionView \<Rightarrow> unit http" where
  "retention_page v0 = do {
     text \<leftarrow> outside he_error_text;
     listed \<leftarrow> list_retained (rv_Kind v0);
     let v = (case listed of Inl e \<Rightarrow> v0\<lparr>rv_Error := text e\<rparr> | Inr items \<Rightarrow> v0\<lparr>rv_Items := items\<rparr>);
     html_page ''partial_retention.html''
       [(''Kind'', JS (rv_Kind v)), (''Items'', JL (map JRetained (rv_Items v))),
        (''Status'', JS (rv_Status v)), (''Error'', JS (rv_Error v))]
   }"

definition adminRetentionPartial :: "request \<Rightarrow> principal \<Rightarrow> unit http" where
  "adminRetentionPartial rq p = do {
     text \<leftarrow> outside he_error_text;
     let kind = (if query rq ''kind'' = [] then ''trash'' else query rq ''kind'');
     let v = \<lparr>rv_Kind = kind, rv_Items = [], rv_Status = [], rv_Error = []\<rparr>;
     if rq_method rq = ''GET'' then retention_page v
     else if rq_method rq = ''POST'' then
       (if \<not> rq_form_ok rq then retention_page (v\<lparr>rv_Error := ''bad form''\<rparr>)
        else do {
          restored \<leftarrow> restore_retained kind (FormValue rq ''id'') (FormValue rq ''dest_path'')
            (form_on rq ''overwrite'');
          (case restored of
             Inl e \<Rightarrow> retention_page (v\<lparr>rv_Error := text e\<rparr>)
           | Inr dest \<Rightarrow> do {
               logActivity (admin_event rq p ''admin_retention'' ''restore'' dest ''restored retained file'');
               retention_page (v\<lparr>rv_Status := ''Restored '' @ dest\<rparr>)
             })
        })
     else writeHTML 405 ''method not allowed''
   }"

subsection \<open>Activity, sessions and checks\<close>

definition activityFeed :: "request \<Rightarrow> principal \<Rightarrow> unit http" where
  "activityFeed rq p = do {
     log \<leftarrow> server hs_activity;
     if rq_method rq \<noteq> ''GET'' then not_allowed
     else writeJSON 200 (JDashboard (activityDashboard_of log (Atoi_value (query rq ''limit''))
            (Atoi_value (query rq ''after''))))
   }"

definition adminActivityPartial :: "request \<Rightarrow> principal \<Rightarrow> unit http" where
  "adminActivityPartial rq p = do {
     log \<leftarrow> server hs_activity;
     let limit = Atoi_value (query rq ''limit'');
     if rq_method rq \<noteq> ''GET'' then writeHTML 405 ''method not allowed''
     else html_page ''partial_activity.html''
       [(''.'', JDashboard (activityDashboard_of log (if limit \<le> 0 then 80 else limit) 0))]
   }"

definition live_sessions :: "http_server \<Rightarrow> Session list" where
  "live_sessions s = (case hs_tracker s of None \<Rightarrow> [] | Some t \<Rightarrow> Snapshot t)"

definition statusAPI :: "request \<Rightarrow> principal \<Rightarrow> unit http" where
  "statusAPI rq p =
     (if rq_method rq \<noteq> ''GET'' then not_allowed
      else do {
        sessions \<leftarrow> server live_sessions;
        t \<leftarrow> now;
        writeJSON 200 (JO [(''sessions'', JL (map JSession sessions)), (''time'', JT t)])
      })"

definition statsAPI :: "request \<Rightarrow> principal \<Rightarrow> unit http" where
  "statsAPI rq p = do {
     r \<leftarrow> server hs_root;
     log \<leftarrow> server hs_activity;
     if rq_method rq \<noteq> ''GET'' then not_allowed
     else (case ResolveAdmin r (query rq ''path'') of
       Inl _ \<Rightarrow> failJSON 400 ''bad path''
     | Inr (_, clean) \<Rightarrow> writeJSON 200 (JO [(''stats'', JStats (StatsForPath clean 20 log))]))
   }"

record doctor_check =
  dc_name :: string
  dc_level :: string
  dc_detail :: string

definition check_json :: "doctor_check \<Rightarrow> json" where
  "check_json k = JO [(''name'', JS (dc_name k)), (''ok'', JB (dc_level k \<noteq> ''fail'')),
     (''level'', JS (dc_level k)), (''detail'', JS (dc_detail k))]"

abbreviation check :: "string \<Rightarrow> string \<Rightarrow> string \<Rightarrow> doctor_check" where
  "check n l d \<equiv> \<lparr>dc_name = n, dc_level = l, dc_detail = d\<rparr>"

fun FormatBool :: "bool \<Rightarrow> string" where
  "FormatBool True = ''true''"
| "FormatBool False = ''false''"

definition check_root :: "doctor_check http" where
  "check_root = do {
     base \<leftarrow> server (\<lambda>s. r_Base (hs_root s));
     text \<leftarrow> outside he_error_text;
     stat \<leftarrow> disk (\<lambda>_. op_stat (os_path base));
     ret (case stat of
            Inl e \<Rightarrow> check ''storage root'' ''fail'' (text e)
          | Inr info \<Rightarrow> if is_dir info then check ''storage root'' ''ok'' base
                       else check ''storage root'' ''fail'' ''<nil>'')
   }"

fun check_dirs :: "string list \<Rightarrow> doctor_check list http" where
  "check_dirs [] = ret []"
| "check_dirs (dir # dirs) = do {
     base \<leftarrow> server (\<lambda>s. r_Base (hs_root s));
     text \<leftarrow> outside he_error_text;
     let real = Join_paths [base, dir];
     made \<leftarrow> disk (\<lambda>_. op_mkdirAll (os_path real) mode_750);
     rest \<leftarrow> check_dirs dirs;
     ret ((case made of Inl e \<Rightarrow> check (''storage '' @ dir) ''fail'' (text e)
                      | Inr _ \<Rightarrow> check (''storage '' @ dir) ''ok'' real) # rest)
   }"

definition check_activity :: "Store option \<Rightarrow> doctor_check" where
  "check_activity log =
     (case log of
        None \<Rightarrow> check ''activity store'' ''fail'' ''unavailable''
      | Some _ \<Rightarrow>
          let st = State_of log
          in check ''activity store'' ''ok'' (Itoa (int (s_Count st)) @ ''/'' @ Itoa (int (s_Capacity st)) @
               '' events'' @ (if is_zero_time (s_OldestTime st) then []
                             else ''; oldest='' @ format_rfc3339 (s_OldestTime st))))"

definition check_settings :: "http_server \<Rightarrow> doctor_check list" where
  "check_settings s =
     (let cf = Enabled (hs_cloudflare s); cfg = hs_cfg s; ts = hc_TurnstileSecret cfg \<noteq> []
      in [check ''cloudflare client'' (if cf then ''ok'' else ''info'')
            (''optional; configured='' @ FormatBool cf),
          check ''share store'' ''ok'' (Itoa (int (length (List_links (hs_links s)))) @ '' links''),
          check_activity (hs_activity s),
          check ''HTTP streaming''
            (if hc_ReadTimeout cfg \<noteq> 0 \<or> hc_WriteTimeout cfg \<noteq> 0 then ''warning'' else ''ok'')
            (''read_timeout='' @ duration_string (hc_ReadTimeout cfg) @ '' write_timeout='' @
             duration_string (hc_WriteTimeout cfg)),
          check ''turnstile'' (if ts then ''ok'' else ''info'') (''optional; configured='' @ FormatBool ts)])"

definition doctorChecks :: "doctor_check list http" where
  "doctorChecks = do {
     r \<leftarrow> server hs_root;
     root \<leftarrow> check_root;
     dirs \<leftarrow> check_dirs [r_PublicDir r, r_DropboxDir r, ''._macftpd_trash'', ''._macftpd_versions''];
     settings \<leftarrow> server check_settings;
     ret (root # dirs @ settings)
   }"

definition doctorHTTPStatus :: "http_server \<Rightarrow> json" where
  "doctorHTTPStatus s =
     (let cfg = hs_cfg s
      in JO [(''read_header_timeout'', JS (duration_string (Std (hc_ReadHeaderTimeout cfg) (10 * second)))),
             (''read_timeout'', JS (duration_string (hc_ReadTimeout cfg))),
             (''write_timeout'', JS (duration_string (hc_WriteTimeout cfg))),
             (''idle_timeout'', JS (duration_string (Std (hc_IdleTimeout cfg) (60 * second))))])"

definition doctorAPI :: "request \<Rightarrow> principal \<Rightarrow> unit http" where
  "doctorAPI rq p =
     (if rq_method rq \<noteq> ''GET'' then not_allowed
      else do {
        checks \<leftarrow> doctorChecks;
        status \<leftarrow> server doctorHTTPStatus;
        runtime \<leftarrow> outside he_runtime;
        t \<leftarrow> now;
        log \<leftarrow> server hs_activity;
        writeJSON 200 (JO ([(''checks'', JL (map check_json checks)), (''http'', status),
          (''runtime'', JO runtime), (''time'', JT t)] @
          (if log = None then [] else [(''activity'', JState (State_of log))])))
      })"

definition adminStatusPartial :: "request \<Rightarrow> principal \<Rightarrow> unit http" where
  "adminStatusPartial rq p =
     (if rq_method rq \<noteq> ''GET'' then writeHTML 405 ''method not allowed''
      else do {
        sessions \<leftarrow> server live_sessions;
        checks \<leftarrow> doctorChecks;
        respond (set_header ''Content-Type'' ''text/html; charset=utf-8'');
        t \<leftarrow> now;
        render ''partial_status.html'' [(''Sessions'', JL (map JSession sessions)),
          (''Checks'', JL (map check_json checks)), (''Time'', JT t)]
      })"

subsection \<open>The cache\<close>

definition purgeCloudflare :: "request \<Rightarrow> principal \<Rightarrow> unit http" where
  "purgeCloudflare rq p = do {
     dec \<leftarrow> outside he_json;
     sv \<leftarrow> server (\<lambda>s. s);
     if rq_method rq \<noteq> ''POST'' then not_allowed
     else do {
       let req = dj_purge dec (rq_body rq);
       let urls = pr_Files req @ map (\<lambda>v. publicAbsoluteURL (hc_PublicBaseURL (hs_cfg sv)) rq
             (publicURLForVirtual (hs_root sv) v)) (pr_Paths req);
       failed \<leftarrow> (if pr_Files req \<noteq> [] \<or> pr_Paths req \<noteq> []
                 then cloudflare_call (\<lambda>service cl. PurgeFiles service cl urls)
                 else cloudflare_call PurgeEverything);
       (case failed of
          Some e \<Rightarrow> fail_with (if e = ErrNotConfigured then 400 else 502) e
        | None \<Rightarrow> writeOK)
     }
   }"

subsection \<open>The administration page and its listing\<close>

definition admin :: "request \<Rightarrow> principal \<Rightarrow> unit http" where
  "admin rq p = do {
     (if rq_basic rq \<noteq> None then do {
        setSession (u_Username (fst p));
        logActivity ((http_event rq ''http_login'' (u_Username (fst p)) ''login'' ''admin Basic auth login'')
          \<lparr>e_Outcome := ''ok''\<rparr>)
      }
      else ret ());
     html_page ''admin.html'' [(''Username'', JS (u_Username (fst p))),
       (''InitialPath'', JS (if query rq ''path'' = [] then [slash] else query rq ''path'')),
       (''Selected'', JS (query rq ''selected''))]
   }"

text \<open>The selected entry, when it resolves and exists.\<close>

definition selected_entry :: "string \<Rightarrow> Entry option http" where
  "selected_entry selected = do {
     r \<leftarrow> server hs_root;
     if selected = [] then ret None
     else (case ResolveAdmin r selected of
       Inl _ \<Rightarrow> ret None
     | Inr (realSelected, cleanSelected) \<Rightarrow> do {
         stat \<leftarrow> disk (\<lambda>r. Stat r realSelected);
         ret (case stat of
                Inl _ \<Rightarrow> None
              | Inr info \<Rightarrow> Some (entryFromInfo (info_name r realSelected) info cleanSelected))
       })
   }"

definition files_page :: "string \<Rightarrow> string \<Rightarrow> string \<Rightarrow> unit http" where
  "files_page realPath clean selected = do {
     listed \<leftarrow> disk (\<lambda>r. List_dir r realPath clean);
     text \<leftarrow> outside he_error_text;
     case listed of
       Inl e \<Rightarrow> writeHTML 500 (text e)
     | Inr entries \<Rightarrow> do {
         chosen \<leftarrow> selected_entry selected;
         sv \<leftarrow> server (\<lambda>s. s);
         let r = hs_root sv;
         html_page ''partial_files.html''
           ([(''Path'', JS clean), (''Parent'', JS (parentVirtual clean)),
             (''Entries'', JL (map JEntry (sort_entries entries))),
             (''Selected'', JL (case chosen of None \<Rightarrow> [] | Some e \<Rightarrow> [JEntry e])),
             (''Breadcrumbs'', JL (map (\<lambda>k. JO [(''Name'', JS (crumb_Name k)), (''Path'', JS (crumb_Path k))])
                (breadcrumbs clean))),
             (''PublicDir'', JS (slash # r_PublicDir r)), (''DropboxDir'', JS (slash # r_DropboxDir r))] @
            (case chosen of
               None \<Rightarrow> []
             | Some e \<Rightarrow> [(''SelectedStats'', JStats (StatsForPath (en_Path e) 8 (hs_activity sv))),
                          (''PublicURL'', JS (publicURLForShare r (en_Path e)))]))
       }
   }"

definition adminFilesPartial :: "request \<Rightarrow> principal \<Rightarrow> unit http" where
  "adminFilesPartial rq p = do {
     r \<leftarrow> server hs_root;
     if rq_method rq \<noteq> ''GET'' then writeHTML 405 ''method not allowed''
     else (case ResolveAdmin r (if query rq ''path'' = [] then [slash] else query rq ''path'') of
       Inl _ \<Rightarrow> writeHTML 400 ''bad path''
     | Inr (realPath, clean) \<Rightarrow> do {
         stat \<leftarrow> disk (\<lambda>r. Stat r realPath);
         (case stat of
            Inl _ \<Rightarrow> writeHTML 404 ''path not found''
          | Inr info \<Rightarrow>
              if is_dir info then files_page realPath clean (query rq ''selected'')
              else (case ResolveAdmin r (parentVirtual clean) of
                Inl _ \<Rightarrow> writeHTML 400 ''bad path''
              | Inr (realParent, _) \<Rightarrow> files_page realParent (parentVirtual clean) clean))
       })
   }"

end
