(* ===== verification/HttpRoutes.thy ===== *)
theory HttpRoutes
  imports HttpAdmin
begin

text \<open>
  The routes of \<open>ListenAndServe\<close> in \<open>internal/httpapi/server.go\<close>, the matching of \<open>http.ServeMux\<close>
  on them, and the headers that every response has.
\<close>

subsection \<open>Handlers\<close>

definition staticAssets :: "request \<Rightarrow> unit http" where
  "staticAssets rq = do {
     respond (set_header ''Cache-Control'' ''no-store'');
     assets \<leftarrow> outside he_assets;
     respond (assets rq)
   }"

text \<open>The routes of the administrator, and those open to everybody.\<close>

definition admin_routes :: "(string \<times> (request \<Rightarrow> principal \<Rightarrow> unit http)) list" where
  "admin_routes =
     [(''/admin'', admin), (''/admin/'', admin),
      (''/admin/partials/files'', adminFilesPartial), (''/admin/partials/users'', adminUsersPartial),
      (''/admin/partials/links'', adminLinksPartial),
      (''/admin/partials/activity'', adminActivityPartial),
      (''/admin/partials/status'', adminStatusPartial),
      (''/admin/partials/retention'', adminRetentionPartial),
      (''/api/me'', me), (''/api/users'', users), (''/api/users/'', user), (''/api/groups'', groups),
      (''/api/files'', files), (''/api/files/action'', fileAction), (''/api/download'', download),
      (''/api/upload'', upload), (''/api/upload/chunk'', uploadChunk), (''/api/fxp'', fxp),
      (''/api/activity'', activityFeed), (''/api/status'', statusAPI), (''/api/doctor'', doctorAPI),
      (''/api/stats'', statsAPI), (''/api/shares'', sharesAPI), (''/api/shares/'', shareAPI),
      (''/api/retention'', retentionAPI), (''/api/retention/restore'', restoreAPI),
      (''/api/cloudflare/purge'', purgeCloudflare)]"

definition open_routes :: "(string \<times> (request \<Rightarrow> unit http)) list" where
  "open_routes =
     [(''/healthz'', health), (''/public/'', public), (''/public-info/'', publicInfo),
      (''/share/'', shareLink), (''/s/'', shareLink), (''/drop/'', dropLink), (''/d/'', dropLink),
      (''/assets/'', staticAssets), (''/api/login'', login), (''/api/logout'', logout)]"

definition routes :: "(string \<times> (request \<Rightarrow> unit http)) list" where
  "routes = open_routes @ map (\<lambda>(pattern, h). (pattern, requireAdmin h)) admin_routes"

subsection \<open>Matching\<close>

text \<open>
  A pattern is its segments; one that ends in a slash matches what is below it. A request's path is
  matched by its decoded segments, a segment that does not decode stays as it is.
\<close>

fun path_unescape :: "string \<Rightarrow> string option" where
  "path_unescape [] = Some []"
| "path_unescape (c # s) =
     (if c \<noteq> CHR ''%'' then map_option ((#) c) (path_unescape s)
      else case s of
        a # b # rest \<Rightarrow>
          (case (hex_val a, hex_val b) of
             (Some x, Some y) \<Rightarrow> map_option ((#) (char_of (16 * x + y))) (path_unescape rest)
           | _ \<Rightarrow> None)
      | _ \<Rightarrow> None)"

definition path_segments :: "string \<Rightarrow> string list" where
  "path_segments p = map (\<lambda>s. case path_unescape s of Some t \<Rightarrow> t | None \<Rightarrow> s) (Split p slash)"

definition pattern_segments :: "string \<Rightarrow> string list \<times> bool" where
  "pattern_segments p =
     (let names = Split p slash in if last names = [] then (butlast names, True) else (names, False))"

definition matches_pattern :: "string list \<Rightarrow> string \<Rightarrow> bool" where
  "matches_pattern names pattern =
     (case pattern_segments pattern of (ps, below) \<Rightarrow>
        if below then length ps < length names \<and> take (length ps) names = ps else names = ps)"

text \<open>The most specific pattern that matches: an equal one, then the longest.\<close>

fun longest_match :: "string list \<Rightarrow> string list \<Rightarrow> string option" where
  "longest_match names [] = None"
| "longest_match names (p # ps) =
     (case longest_match names ps of
        None \<Rightarrow> if matches_pattern names p then Some p else None
      | Some q \<Rightarrow> Some (if matches_pattern names p \<and>
                            (length q < length p \<or> snd (pattern_segments q) \<and> \<not> snd (pattern_segments p))
                        then p else q))"

definition cleanPath :: "string \<Rightarrow> string" where
  "cleanPath p0 =
     (let p = (if p0 = [] \<or> hd p0 \<noteq> slash then slash # p0 else p0); np = Clean p
      in if HasSuffix p [slash] \<and> np \<noteq> [slash] then np @ [slash] else np)"

datatype dispatch = Serve string | RedirectTo string | NoRoute

definition mux_dispatch :: "string list \<Rightarrow> request \<Rightarrow> dispatch" where
  "mux_dispatch patterns rq =
     (let p = cleanPath (rq_escaped rq); names = path_segments p; found = longest_match names patterns
      in if (found = None \<or> snd (pattern_segments (the found))) \<and> \<not> HasSuffix p [slash] \<and>
            list_ex (\<lambda>q. pattern_segments q = (names, True)) patterns
         then RedirectTo (path_string (cleanPath (rq_path rq) @ [slash]) (rq_rawquery rq))
         else if p \<noteq> rq_escaped rq then RedirectTo (path_string p (rq_rawquery rq))
         else case found of Some q \<Rightarrow> Serve q | None \<Rightarrow> NoRoute)"

subsection \<open>One request\<close>

definition csp :: string where
  "csp = (let q = [CHR 0x27] in ''default-src '' @ q @ ''self'' @ q @ ''; img-src '' @ q @ ''self'' @ q @
     '' data:; style-src '' @ q @ ''self'' @ q @ '' '' @ q @ ''unsafe-inline'' @ q @ ''; script-src '' @ q @
     ''self'' @ q @ '' '' @ q @ ''unsafe-inline'' @ q @ ''; base-uri '' @ q @ ''none'' @ q @
     ''; frame-ancestors '' @ q @ ''none'' @ q @ ''; form-action '' @ q @ ''self'' @ q)"

definition set_security_headers :: "request \<Rightarrow> unit http" where
  "set_security_headers rq = do {
     respond (set_header ''X-Content-Type-Options'' ''nosniff'');
     respond (set_header ''Referrer-Policy'' ''same-origin'');
     respond (set_header ''X-Frame-Options'' ''DENY'');
     respond (set_header ''Permissions-Policy'' ''geolocation=(), microphone=(), camera=()'');
     respond (set_header ''Content-Security-Policy'' csp);
     (if HasPrefix (rq_path rq) ''/api/'' \<or> rq_path rq = ''/admin'' \<or> HasPrefix (rq_path rq) ''/admin/''
      then respond (set_header ''Cache-Control'' ''no-store'') else ret ());
     (if requestIsHTTPS rq
      then respond (set_header ''Strict-Transport-Security'' ''max-age=31536000; includeSubDomains'')
      else ret ())
   }"

definition securityHeaders :: "(request \<Rightarrow> unit http) \<Rightarrow> request \<Rightarrow> unit http" where
  "securityHeaders handler rq = do { set_security_headers rq; handler rq }"

text \<open>\<open>mux_status\<close> is the status the mux redirects with; it depends on the release of Go.\<close>

definition serve_mux :: "int \<Rightarrow> request \<Rightarrow> unit http" where
  "serve_mux mux_status rq =
     (case mux_dispatch (map fst routes) rq of
        Serve pattern \<Rightarrow> (case map_of routes pattern of Some h \<Rightarrow> h rq | None \<Rightarrow> notFound)
      | RedirectTo url \<Rightarrow> http_Redirect rq url mux_status
      | NoRoute \<Rightarrow> notFound)"

definition serve_request :: "int \<Rightarrow> request \<Rightarrow> unit http" where
  "serve_request mux_status = securityHeaders (serve_mux mux_status)"

end
