(* ===== verification/HttpGuard.thy ===== *)
theory HttpGuard
  imports HttpRoutes StorageProofs
begin

text \<open>
  The guard in front of the administrator's routes: without credentials a request to one of them
  reads and changes nothing but the limiter, the activity log and the clock, and with them it is the
  handler's.
\<close>

subsection \<open>Handlers as steps\<close>

lemmas http_defs =
  set_server_def respond_def now_def login_limiter_def share_limiter_def links_step_def auth_step_def

locale http_transition = transition R for R :: "hctx \<Rightarrow> hctx \<Rightarrow> bool"

text \<open>
  A quiet step: the disk is not called, and of the server only the limiters and the activity log may
  change.
\<close>

definition quiet :: "hctx \<Rightarrow> hctx \<Rightarrow> bool" where
  "quiet c d \<longleftrightarrow> hx_env d = hx_env c \<and> hx_purged d = hx_purged c \<and>
     hx_disk d = (hx_disk c)\<lparr>w_ticks := w_ticks (hx_disk d)\<rparr> \<and>
     hx_sv d = (hx_sv c)\<lparr>hs_limiter := hs_limiter (hx_sv d), hs_shareLimit := hs_shareLimit (hx_sv d),
       hs_activity := hs_activity (hx_sv d)\<rparr>"

lemma quiet_cong:
  assumes "quiet c d"
  shows "f (hx_disk d) = f ((hx_disk c)\<lparr>w_ticks := w_ticks (hx_disk d)\<rparr>)"
    "g (hx_sv d) = g ((hx_sv c)\<lparr>hs_limiter := hs_limiter (hx_sv d),
       hs_shareLimit := hs_shareLimit (hx_sv d), hs_activity := hs_activity (hx_sv d)\<rparr>)"
  using assms unfolding quiet_def by metis+

lemma quiet_fields:
  assumes "quiet c d"
  shows "w_fs (hx_disk d) = w_fs (hx_disk c)" "w_calls (hx_disk d) = w_calls (hx_disk c)"
    "hs_auth (hx_sv d) = hs_auth (hx_sv c)" "hs_links (hx_sv d) = hs_links (hx_sv c)"
    "hs_root (hx_sv d) = hs_root (hx_sv c)" "hs_uploads (hx_sv d) = hs_uploads (hx_sv c)"
  using quiet_cong(1)[OF assms, of w_fs] quiet_cong(1)[OF assms, of w_calls]
    quiet_cong(2)[OF assms, of hs_auth] quiet_cong(2)[OF assms, of hs_links]
    quiet_cong(2)[OF assms, of hs_root] quiet_cong(2)[OF assms, of hs_uploads] by simp_all

interpretation qt: http_transition quiet
proof
  show "quiet c c" for c by (simp add: quiet_def)
next
  fix c d e
  assume a: "quiet c d" and b: "quiet d e"
  have "hx_disk e = (hx_disk c)\<lparr>w_ticks := w_ticks (hx_disk e)\<rparr>"
    using quiet_cong(1)[OF a, of "\<lambda>x. x\<lparr>w_ticks := w_ticks (hx_disk e)\<rparr>"] b
    by (simp add: quiet_def)
  moreover have "hx_sv e = (hx_sv c)\<lparr>hs_limiter := hs_limiter (hx_sv e),
      hs_shareLimit := hs_shareLimit (hx_sv e), hs_activity := hs_activity (hx_sv e)\<rparr>"
    using quiet_cong(2)[OF a, of "\<lambda>x. x\<lparr>hs_limiter := hs_limiter (hx_sv e),
        hs_shareLimit := hs_shareLimit (hx_sv e), hs_activity := hs_activity (hx_sv e)\<rparr>"] b
    by (simp add: quiet_def)
  ultimately show "quiet c e" using a b unfolding quiet_def by metis
qed

lemma quiet_steps:
  "within quiet (respond f)" "within quiet now" "within quiet (login_limiter g)"
  "within quiet (share_limiter h)"
  by (auto simp: within_def quiet_def respond_def now_def login_limiter_def share_limiter_def
      split: prod.split)

lemma quiet_set_activity: "within quiet (set_server (\<lambda>s. s\<lparr>hs_activity := f s\<rparr>))"
  by (simp add: within_def quiet_def set_server_def)

lemmas quiet_rules = qt.core quiet_steps quiet_set_activity

lemma quiet_logActivity: "within quiet (logActivity e)"
  unfolding logActivity_def by (intro quiet_rules)

lemma quiet_answers:
  "within quiet (failJSON n m)" "within quiet (httpError m n)" "within quiet notFound"
  "within quiet (writeJSON n j)"
  unfolding failJSON_def writeJSON_def httpError_def notFound_def by (intro quiet_rules)+

lemma quiet_sign_in: "within quiet (sign_in rq u pw)"
  unfolding sign_in_def Let_def by (intro quiet_rules)

lemma quiet_authenticateRequest: "within quiet (authenticateRequest rq)"
  unfolding authenticateRequest_def by (intro quiet_rules quiet_sign_in)

lemma quiet_unauthorized: "within quiet (unauthorized rq)"
  unfolding unauthorized_def by (intro quiet_rules quiet_logActivity quiet_answers)

subsection \<open>Who is admitted\<close>

text \<open>The account a request signs in with, at the next reading of the clock.\<close>

definition credentials :: "hctx \<Rightarrow> request \<Rightarrow> principal option" where
  "credentials c rq =
     (let sv = hx_sv c; t = w_clock (hx_disk c) (w_ticks (hx_disk c))
      in case rq_basic rq of
           Some (username, password) \<Rightarrow>
             if fst (Allow t (loginLimitKey rq username) (hs_limiter sv))
             then Authenticate (hs_kdf sv) (hs_auth sv) username password else None
         | None \<Rightarrow>
             Option.bind (cookie rq ''macftpd_session'') (\<lambda>raw.
             Option.bind (verifySession (hs_sessionKey sv) t raw) (Permissions_of (hs_auth sv))))"

definition admitted :: "hctx \<Rightarrow> request \<Rightarrow> principal option" where
  "admitted c rq =
     (if sameOriginUnsafe (he_url_host (hx_env c)) rq \<and> admin_credentials (credentials c rq)
      then credentials c rq else None)"

lemma sign_in_outcome:
  "fst (run_state (sign_in rq u pw) c) =
     (let sv = hx_sv c;
          ok = fst (Allow (w_clock (hx_disk c) (w_ticks (hx_disk c))) (loginLimitKey rq u) (hs_limiter sv))
      in (\<not> ok, if ok then Authenticate (hs_kdf sv) (hs_auth sv) u pw else None))"
proof -
  obtain ok l where "Allow (w_clock (hx_disk c) (w_ticks (hx_disk c))) (loginLimitKey rq u)
      (hs_limiter (hx_sv c)) = (ok, l)" by (rule prod.exhaust)
  then show ?thesis by (cases ok) (simp_all add: sign_in_def now_def login_limiter_def Let_def)
qed

lemma authenticate_outcome:
  "snd (fst (run_state (authenticateRequest rq) c)) = credentials c rq"
  "fst (fst (run_state (authenticateRequest rq) c)) \<Longrightarrow> credentials c rq = None"
  by (auto simp: authenticateRequest_def credentials_def sign_in_outcome Let_def now_def Option.bind_eq_None_conv
      split: option.split prod.split)

text \<open>The status of a refusal; what happened before has sent none.\<close>

definition unanswered :: "hctx \<Rightarrow> bool" where
  "unanswered c \<longleftrightarrow> rs_status (hx_rs c) = 0"

definition silent :: "hctx \<Rightarrow> hctx \<Rightarrow> bool" where
  "silent c d \<longleftrightarrow> rs_status (hx_rs d) = rs_status (hx_rs c)"

interpretation sl: http_transition silent
  by unfold_locales (simp_all add: silent_def)

lemma silent_steps:
  "within silent now" "within silent (login_limiter g)" "within silent (share_limiter h)"
  "within silent (set_server k)" "within silent (respond (set_header a b))"
  by (auto simp: within_def silent_def now_def login_limiter_def share_limiter_def set_server_def
      respond_def set_header_def split: prod.split)

lemma silent_logActivity: "within silent (logActivity e)"
  unfolding logActivity_def by (intro sl.core silent_steps)

lemma silent_authenticateRequest: "within silent (authenticateRequest rq)"
  unfolding authenticateRequest_def sign_in_def Let_def by (intro sl.core silent_steps)

text \<open>A handler that sends one of the statuses \<open>S\<close> when none was sent before it.\<close>

definition sends :: "int set \<Rightarrow> 'a http \<Rightarrow> bool" where
  "sends S m \<longleftrightarrow> (\<forall>c. unanswered c \<longrightarrow> rs_status (hx_rs (snd (run_state m c))) \<in> S)"

lemma sends_after:
  assumes "within silent m" and "\<And>x. sends S (f x)"
  shows "sends S (m \<bind> f)"
  unfolding sends_def
proof (intro allI impI)
  fix c
  assume "unanswered c"
  moreover obtain x d where run: "run_state m c = (x, d)" by (rule prod.exhaust)
  ultimately have "unanswered d"
    using withinD[OF assms(1) run] by (simp add: silent_def unanswered_def)
  with assms(2)[of x] run show "rs_status (hx_rs (snd (run_state (m \<bind> f) c))) \<in> S"
    by (simp add: sends_def)
qed

lemma sends_answers:
  "n \<noteq> 0 \<Longrightarrow> n \<in> S \<Longrightarrow> sends S (failJSON n m)" "n \<noteq> 0 \<Longrightarrow> n \<in> S \<Longrightarrow> sends S (httpError m n)"
  by (simp_all add: sends_def unanswered_def failJSON_def writeJSON_def httpError_def respond_def
      http_Error_def set_header_def write_header_def write_body_def del_headers_def)

lemma sends_if: "(b \<Longrightarrow> sends S m) \<Longrightarrow> (\<not> b \<Longrightarrow> sends S m') \<Longrightarrow> sends S (if b then m else m')"
  by simp

lemma sends_unauthorized: "sends {401, 403, 429} (unauthorized rq)"
  unfolding unauthorized_def
  by (intro sends_after sends_if sends_answers silent_logActivity silent_steps) simp_all

text \<open>The guard, as a run: the handler of an admitted request starts where nothing has happened yet.\<close>

lemma requireAdmin_run:
  assumes "unanswered c"
  shows "case admitted c rq of
     None \<Rightarrow> quiet c (snd (run_state (requireAdmin h rq) c)) \<and>
             rs_status (hx_rs (snd (run_state (requireAdmin h rq) c))) \<in> {401, 403, 429}
   | Some p \<Rightarrow> p_Admin (snd p) \<and>
             (\<exists>d. quiet c d \<and> unanswered d \<and> run_state (requireAdmin h rq) c = run_state (h rq p) d)"
proof (cases "sameOriginUnsafe (he_url_host (hx_env c)) rq")
  case False
  let ?m = "logActivity ((http_event rq ''http_security'' [] ''request''
      ''cross-origin admin request denied'')\<lparr>e_Outcome := ''denied'', e_Path := rq_path rq\<rparr>) \<bind>
      (\<lambda>_. failJSON 403 ''cross-origin admin request denied'')"
  have "within quiet ?m" by (intro quiet_rules quiet_logActivity quiet_answers)
  moreover have "sends {401, 403, 429} ?m"
    by (intro sends_after sends_answers silent_logActivity) simp_all
  moreover have "run_state (requireAdmin h rq) c = run_state ?m c"
    using False by (simp add: requireAdmin_def)
  ultimately show ?thesis
    using False assms by (simp add: admitted_def within_def sends_def)
next
  case True
  obtain limited p d where run: "run_state (authenticateRequest rq) c = ((limited, p), d)"
    by (metis prod.exhaust)
  have q: "quiet c d" using withinD[OF quiet_authenticateRequest run] .
  have u: "unanswered d"
    using withinD[OF silent_authenticateRequest run] assms by (simp add: silent_def unanswered_def)
  have p: "p = credentials c rq" and lim: "limited \<Longrightarrow> credentials c rq = None"
    using authenticate_outcome[of rq c] run by simp_all
  have pass: ?thesis if "admitted c rq = None" and "within quiet m" and "sends {401, 403, 429} m"
    and "run_state (requireAdmin h rq) c = run_state m d" for m
  proof -
    have "quiet d (snd (run_state m d))" using that(2) by (simp add: within_def)
    then have "quiet c (snd (run_state m d))" using q qt.trans by blast
    with that u show ?thesis by (simp add: sends_def)
  qed
  show ?thesis
  proof (cases "limited \<or> \<not> admin_credentials p")
    case False
    then obtain user perms where p': "p = Some (user, perms)" "p_Admin perms" "\<not> limited"
      by (auto simp: admin_credentials_def split: option.splits)
    then have "admitted c rq = Some (user, perms)"
      using True p by (simp add: admitted_def admin_credentials_def)
    moreover have "run_state (requireAdmin h rq) c = run_state (h rq (user, perms)) d"
      using True run p' by (simp add: requireAdmin_def)
    ultimately show ?thesis using p'(2) q u by auto
  next
    case refused: True
    then have none: "admitted c rq = None"
      using p lim by (auto simp: admitted_def admin_credentials_def)
    show ?thesis
    proof (cases limited)
      case limited: True
      let ?m = "logActivity ((http_event rq ''http_login'' [] ''login'' ''admin auth rate-limited'')
          \<lparr>e_Outcome := ''limited'', e_Path := rq_path rq\<rparr>) \<bind>
        (\<lambda>_. if HasPrefix (rq_path rq) ''/api/''
          then failJSON 429 ''too many failed login attempts; try again later''
          else httpError ''too many failed login attempts; try again later'' 429)"
      show ?thesis
      proof (rule pass[OF none, of ?m])
        show "within quiet ?m" by (intro quiet_rules quiet_logActivity quiet_answers)
        show "sends {401, 403, 429} ?m"
          by (intro sends_after sends_if sends_answers silent_logActivity) simp_all
        show "run_state (requireAdmin h rq) c = run_state ?m d"
          using True run limited by (simp add: requireAdmin_def)
      qed
    next
      case False
      show ?thesis
      proof (rule pass[OF none quiet_unauthorized sends_unauthorized])
        show "run_state (requireAdmin h rq) c = run_state (unauthorized rq) d"
          using True run False refused
          by (auto simp: requireAdmin_def admin_credentials_def split: option.splits)
      qed
    qed
  qed
qed

subsection \<open>Every administrator's route\<close>

lemma open_not_admin: "set (map fst open_routes) \<inter> set (map fst admin_routes) = {}"
  by (simp add: open_routes_def admin_routes_def)

lemma map_of_admin_routes:
  assumes "map_of admin_routes pattern = Some h"
  shows "map_of routes pattern = Some (requireAdmin h)"
proof -
  have "pattern \<in> set (map fst admin_routes)"
    using map_of_SomeD[OF assms] by force
  then have "map_of open_routes pattern = None"
    using open_not_admin by (auto simp: map_of_eq_None_iff)
  then show ?thesis using assms by (simp add: routes_def map_add_def map_of_map)
qed

text \<open>The headers that come first change nothing else.\<close>

definition headed :: "hctx \<Rightarrow> hctx \<Rightarrow> bool" where
  "headed c d \<longleftrightarrow> d = c\<lparr>hx_rs := hx_rs d\<rparr> \<and> rs_status (hx_rs d) = rs_status (hx_rs c)"

interpretation hd: http_transition headed
proof
  show "headed c c" for c by (simp add: headed_def)
next
  fix c d e
  assume "headed c d" and "headed d e"
  then show "headed c e" unfolding headed_def by (metis hctx.update_convs(4) hctx.surjective)
qed

lemma headed_header: "within headed (respond (set_header k v))"
  by (simp add: within_def headed_def respond_def set_header_def)

lemma headed_security_headers: "within headed (set_security_headers rq)"
  unfolding set_security_headers_def by (intro hd.core headed_header)

lemma headed_admitted:
  assumes "headed c d"
  shows "quiet c d" and "unanswered d = unanswered c" and "admitted d rq = admitted c rq"
proof -
  obtain rs where "d = c\<lparr>hx_rs := rs\<rparr>" "rs_status rs = rs_status (hx_rs c)"
    using assms unfolding headed_def by (metis hctx.select_convs(4) hctx.surjective hctx.update_convs(4))
  then show "quiet c d" "unanswered d = unanswered c" "admitted d rq = admitted c rq"
    by (simp_all add: quiet_def unanswered_def admitted_def credentials_def Let_def)
qed

text \<open>C7: A request that the mux sends to a route of the administrator is answered 401, 403 or 429
  without a call on the disk and without a change but to the limiters, the log and the clock, unless it
  comes from the same origin and carries the password of an enabled administrator who is not locked
  out, or a valid session of an account that is an administrator now; then it is the handler's.\<close>

theorem admin_routes_guarded:
  assumes "mux_dispatch (map fst routes) rq = Serve pattern" and "map_of admin_routes pattern = Some h"
    and "rs_status (hx_rs c) = 0"
  shows "case admitted c rq of
     None \<Rightarrow> quiet c (snd (run_state (serve_request ms rq) c)) \<and>
             rs_status (hx_rs (snd (run_state (serve_request ms rq) c))) \<in> {401, 403, 429}
   | Some p \<Rightarrow> p_Admin (snd p) \<and> (\<exists>d. quiet c d \<and> rs_status (hx_rs d) = 0 \<and>
               run_state (serve_request ms rq) c = run_state (h rq p) d)"
proof -
  obtain d where run: "run_state (set_security_headers rq) c = ((), d)"
    by (metis prod.exhaust unit.exhaust)
  have d: "headed c d" using withinD[OF headed_security_headers run] .
  note hd = headed_admitted[OF d]
  have eq: "run_state (serve_request ms rq) c = run_state (requireAdmin h rq) d"
    using run assms(1) map_of_admin_routes[OF assms(2)]
    by (simp add: serve_request_def securityHeaders_def serve_mux_def)
  have "unanswered d" using hd(2) assms(3) by (simp add: unanswered_def)
  from requireAdmin_run[OF this, of h rq] hd(1,3) eq qt.trans[OF hd(1)] show ?thesis
    by (auto simp: unanswered_def split: option.splits)
qed

subsection \<open>A sample server\<close>

definition sample_admin :: User where
  "sample_admin = \<lparr>u_Username = ''root'', u_PasswordHash = [], u_Groups = [], u_Home = [slash],
     u_Disabled = False, u_Permissions = AdminPermissions\<rparr>"

definition sample_http :: "ShareStore \<Rightarrow> http_server" where
  "sample_http links = New_http (cfg_HTTP Default)
     \<lparr>as_db = \<lparr>db_Users = [(''root'', sample_admin)], db_Groups = []\<rparr>, as_disk = None\<rparr>
     sample_root None (Some (New_log 10)) links None 5 toy_kdf sample_codec False"

definition sample_decoders :: decoders where
  "sample_decoders = \<lparr>dj_login = (\<lambda>_. None), dj_user = (\<lambda>_. None), dj_group = (\<lambda>_. None),
     dj_dest = (\<lambda>_. None), dj_action = (\<lambda>_. None), dj_fxp = (\<lambda>_. None), dj_share = (\<lambda>_. None),
     dj_restore = (\<lambda>_. None), dj_purge = (\<lambda>_. \<lparr>pr_Files = [], pr_Paths = []\<rparr>)\<rparr>"

definition sample_env :: http_env where
  "sample_env = \<lparr>he_nonce = ''n'', he_salt = Some ''s'',
     he_create = \<lparr>ci_id = None, ci_token = None, ci_salt = None, ci_draws = [], ci_now = 5, ci_save = None\<rparr>,
     he_save_auth = None, he_save_links = None, he_logged = True, he_json = sample_decoders,
     he_url_host = (\<lambda>_. None), he_ParseDuration = (\<lambda>_. None), he_mime = (\<lambda>_. []), he_sniff = (\<lambda>_. []),
     he_precondition = (\<lambda>_ _. Proceed True), he_boundary = ''b'', he_accepts = None,
     he_write_error = \<lparr>ne_cause = OtherCause, ne_text = []\<rparr>, he_cloudflare = (\<lambda>_. NoAnswer ErrIO),
     he_turnstile = (\<lambda>_. TurnstileSays True), he_ftp_dial = (\<lambda>_. None), he_ftp_login = (\<lambda>_ _. None),
     he_ftp_retr = (\<lambda>_. Inl ErrIO), he_zone = (\<lambda>t. (t, ''UTC'')), he_runtime = [],
     he_quote = (\<lambda>s. s), he_assets = (\<lambda>_ rs. rs), he_error_text = (\<lambda>_. ''error'')\<rparr>"

definition sample_hctx :: "ShareStore \<Rightarrow> hctx" where
  "sample_hctx links = \<lparr>hx_sv = sample_http links, hx_disk = (sample_world (\<lambda>_. NoFault))\<lparr>w_ticks := 5\<rparr>,
     hx_env = sample_env, hx_rs = empty_response, hx_purged = []\<rparr>"

definition sample_request :: "string \<Rightarrow> string \<Rightarrow> request" where
  "sample_request meth path = \<lparr>rq_method = meth, rq_path = path, rq_escaped = path, rq_rawquery = [],
     rq_query = [], rq_headers = [], rq_host = ''host'', rq_remote = ''10.0.0.1:4000'', rq_tls = True,
     rq_basic = None, rq_cookies = [], rq_body = [], rq_form = [], rq_form_ok = True, rq_values = [],
     rq_parts = [], rq_multipart_ok = True\<rparr>"

definition no_links :: ShareStore where
  "no_links = \<lparr>ss_links = [], ss_active = Map.empty, ss_disk = None\<rparr>"

text \<open>The patterns, which is all that the mux looks at.\<close>

lemma route_names:
  "map fst routes =
     [''/healthz'', ''/public/'', ''/public-info/'', ''/share/'', ''/s/'', ''/drop/'', ''/d/'', ''/assets/'',
      ''/api/login'', ''/api/logout'', ''/admin'', ''/admin/'', ''/admin/partials/files'',
      ''/admin/partials/users'', ''/admin/partials/links'', ''/admin/partials/activity'',
      ''/admin/partials/status'', ''/admin/partials/retention'', ''/api/me'', ''/api/users'',
      ''/api/users/'', ''/api/groups'', ''/api/files'', ''/api/files/action'', ''/api/download'',
      ''/api/upload'', ''/api/upload/chunk'', ''/api/fxp'', ''/api/activity'', ''/api/status'',
      ''/api/doctor'', ''/api/stats'', ''/api/shares'', ''/api/shares/'', ''/api/retention'',
      ''/api/retention/restore'', ''/api/cloudflare/purge'']"
  by (simp add: routes_def open_routes_def admin_routes_def)

theorem admin_routes_guarded_witness:
  "let c = sample_hctx no_links; d = snd (run_state (serve_request 307 (sample_request ''DELETE'' ''/api/users/root'')) c)
   in quiet c d \<and> rs_status (hx_rs d) \<in> {401, 403, 429}"
proof -
  let ?rq = "sample_request ''DELETE'' ''/api/users/root''"
  have mux: "mux_dispatch (map fst routes) ?rq = Serve ''/api/users/''"
    unfolding route_names by code_simp
  have h: "map_of admin_routes ''/api/users/'' = Some user" by (simp add: admin_routes_def)
  have "admitted (sample_hctx no_links) ?rq = None"
    by (simp add: admitted_def credentials_def sample_request_def cookie_def admin_credentials_def)
  then show ?thesis
    using admin_routes_guarded[OF mux h, of "sample_hctx no_links" 307]
    by (simp add: sample_hctx_def empty_response_def)
qed

end
