(* ===== verification/HttpSessions.thy ===== *)
theory HttpSessions
  imports HttpGuard
begin

text \<open>
  Session cookies: what is signed is read back until it expires, and a value is accepted exactly when
  it decodes to fields with their own signature.
\<close>

lemma no_bar_b64: "bar \<notin> set (b64_encode url_alphabet s)"
proof
  assume "bar \<in> set (b64_encode url_alphabet s)"
  moreover have "set (b64_encode url_alphabet s) \<subseteq> set url_alphabet"
    by (rule set_b64_encode) code_simp
  ultimately have "bar \<in> set url_alphabet" by blast
  moreover have "bar \<notin> set url_alphabet" by code_simp
  ultimately show False by blast
qed

lemma no_bar_sign: "bar \<notin> set (sign key payload)"
  unfolding sign_def by (rule no_bar_b64)

lemma no_bar_number: "bar \<notin> set (show_nat n)"
  using show_nat_digits[of n] by (auto simp: list_all_iff is_digit_def)

lemma Join_fields:
  "Join [a, b, c] [x] = a @ x # b @ x # c" "Join [a, b] [x] = a @ x # b"
  by (simp_all add: Join_Cons)

lemma Split_four:
  assumes "bar \<notin> set a" "bar \<notin> set b" "bar \<notin> set c" "bar \<notin> set d"
  shows "Split (a @ bar # b @ bar # c @ bar # d) bar = [a, b, c, d]"
  using assms by (simp add: Split_append_sep Split_fresh)

text \<open>A value is accepted exactly when it decodes to a name, a time and a nonce with their signature.\<close>

lemma verifySession_iff:
  "verifySession key t raw = Some username \<longleftrightarrow>
     (\<exists>unix nonce. bar \<notin> set username \<and> bar \<notin> set unix \<and> bar \<notin> set nonce \<and> \<not> cookie_expired t unix \<and>
        b64_decode url_alphabet raw = Some (username @ bar # unix @ bar # nonce @ bar #
          sign key (username @ bar # unix @ bar # nonce)))"
  (is "?l \<longleftrightarrow> ?r")
proof
  assume ?l
  then obtain decoded unix nonce mac where d: "b64_decode url_alphabet raw = Some decoded"
    and s: "Split decoded bar = [username, unix, nonce, mac]"
    and m: "sign key (Join [username, unix, nonce] [bar]) = mac" and e: "\<not> cookie_expired t unix"
    by (auto simp: verifySession_def split: option.splits list.splits if_splits)
  have "decoded = Join [username, unix, nonce, mac] [bar]" using Join_Split[of decoded bar] s by simp
  then have "decoded = username @ bar # unix @ bar # nonce @ bar # sign key (username @ bar # unix @ bar # nonce)"
    using m by (simp add: Join_Cons)
  moreover have "bar \<notin> set username" "bar \<notin> set unix" "bar \<notin> set nonce"
    using Split_no_sep[of _ decoded bar] s by auto
  ultimately show ?r using d e by blast
next
  assume ?r
  then show ?l
    by (auto simp: verifySession_def Split_four no_bar_sign Join_fields)
qed

text \<open>C22: A session cookie is accepted as long as its time of expiry has not passed, and then for the
  account it was made for.\<close>

theorem session_roundtrip:
  assumes "bar \<notin> set username" and "0 \<le> unix" and "unix \<le> max_i64"
  shows "verifySession key t (session_value key username unix nonce) =
     (if from_Unix unix < t then None else Some username)"
proof -
  have i: "Itoa unix = show_nat (nat unix)" using assms(2) by (simp add: Itoa_def)
  have scan: "Sscanf_d (Itoa unix) = Some unix"
    using Sscanf_d_show_nat[of "nat unix"] assms(2,3) by (simp add: i)
  have "bar \<notin> set (Itoa unix)" by (simp add: i no_bar_number)
  then show ?thesis
    using assms(1)
    by (simp add: verifySession_def session_value_def Let_def b64_roundtrip[OF url_alphabet] Split_four
        no_bar_sign no_bar_b64 Join_fields session_payload_def cookie_expired_def scan time_after_def)
qed

theorem session_roundtrip_witness:
  "verifySession ''k'' 5 (session_value ''k'' ''root'' 7 ''n'') = Some ''root'' \<and>
   verifySession ''k'' (8 * second + from_Unix 0) (session_value ''k'' ''root'' 7 ''n'') = None"
  using session_roundtrip[of "''root''" 7 "''k''" 5 "''n''"]
    session_roundtrip[of "''root''" 7 "''k''" "8 * second + from_Unix 0" "''n''"]
  by (simp add: from_Unix_def)

text \<open>
  The cookie of a link and the session are signed with the same key and nothing tells them apart: with
  the token of a link put where the nonce of a session is, the signature of the link's cookie is one of
  a session, for an account of the link's identifier.
\<close>

lemma link_signature_is_a_session:
  assumes "bar \<notin> set ident" and "bar \<notin> set token" and "0 \<le> unix" and "unix \<le> max_i64"
    and "b64_decode url_alphabet (share_value key ident unix token) = Some cookie_text"
    and "Split cookie_text bar = [ident', unix', mac]" and "t \<le> from_Unix unix"
  shows "verifySession key t (b64_encode url_alphabet
     (ident @ bar # Itoa unix @ bar # token @ bar # mac)) = Some ident"
proof -
  have i: "Itoa unix = show_nat (nat unix)" using assms(3) by (simp add: Itoa_def)
  have "cookie_text = ident @ bar # Itoa unix @ bar # sign key (ident @ bar # Itoa unix @ bar # token)"
    using assms(5) by (simp add: share_value_def Let_def b64_roundtrip[OF url_alphabet])
  then have "mac = sign key (ident @ bar # Itoa unix @ bar # token)"
    using assms(1,6) by (auto simp: Split_append_sep Split_fresh no_bar_sign no_bar_number i)
  moreover have "\<not> cookie_expired t (Itoa unix)"
    using Sscanf_d_show_nat[of "nat unix"] assms(3,4,7) by (simp add: cookie_expired_def i time_after_def)
  ultimately show ?thesis
    using assms(1,2) by (simp add: verifySession_def b64_roundtrip[OF url_alphabet] Split_four i
        no_bar_number no_bar_sign Join_fields)
qed

end
