(* ===== verification/UploadLocks.thy ===== *)
theory UploadLocks
  imports HttpUploads
begin

text \<open>
  The interleavings of \<open>lockUpload\<close> in \<open>internal/httpapi/server.go\<close>: requests that lock, use and
  unlock part files by their paths. The two sections under \<open>uploadMu\<close> are one step each; taking and
  giving back the lock of a part file, which happens outside of them, are steps of their own.
\<close>

subsection \<open>The locks\<close>

text \<open>A lock is an object: the map names it by the path of the part file, and a request keeps it.\<close>

record upload_lock =
  ul_held :: bool
  ul_refs :: int

record upload_locks =
  up_map :: "string \<rightharpoonup> nat"
  up_locks :: "upload_lock list"

definition no_locks :: upload_locks where
  "no_locks = \<lparr>up_map = Map.empty, up_locks = []\<rparr>"

text \<open>The first section: the lock is looked up or made, and counted.\<close>

definition with_lock :: "string \<Rightarrow> upload_locks \<Rightarrow> nat \<times> upload_locks" where
  "with_lock key u =
     (case up_map u key of
        Some a \<Rightarrow> (a, u)
      | None \<Rightarrow> (length (up_locks u), u\<lparr>up_map := (up_map u)(key \<mapsto> length (up_locks u)),
           up_locks := up_locks u @ [\<lparr>ul_held = False, ul_refs = 0\<rparr>]\<rparr>))"

definition add_ref :: "int \<Rightarrow> nat \<Rightarrow> upload_locks \<Rightarrow> upload_locks" where
  "add_ref n a u = u\<lparr>up_locks := (up_locks u)[a := (up_locks u ! a)\<lparr>ul_refs := ul_refs (up_locks u ! a) + n\<rparr>]\<rparr>"

definition enter_upload :: "string \<Rightarrow> upload_locks \<Rightarrow> nat \<times> upload_locks" where
  "enter_upload key u = (case with_lock key u of (a, u1) \<Rightarrow> (a, add_ref 1 a u1))"

text \<open>The mutex: taking it waits while it is held, giving it back when it is not held is fatal.\<close>

definition set_held :: "bool \<Rightarrow> nat \<Rightarrow> upload_locks \<Rightarrow> upload_locks option" where
  "set_held b a u = (if ul_held (up_locks u ! a) = b then None
     else Some (u\<lparr>up_locks := (up_locks u)[a := (up_locks u ! a)\<lparr>ul_held := b\<rparr>]\<rparr>))"

text \<open>The second section: the last request that leaves takes the lock out of the map.\<close>

definition leave_upload :: "string \<Rightarrow> nat \<Rightarrow> upload_locks \<Rightarrow> upload_locks" where
  "leave_upload key a u =
     (let u1 = add_ref (-1) a u
      in if ul_refs (up_locks u1 ! a) = 0 then u1\<lparr>up_map := (up_map u1)(key := None)\<rparr> else u1)"

subsection \<open>Requests\<close>

datatype upload_request = Outside | Waiting string nat | Inside string nat | Leaving string nat

inductive upload_step :: "upload_locks \<times> upload_request list \<Rightarrow> upload_locks \<times> upload_request list \<Rightarrow> bool" where
  enter: "i < length rs \<Longrightarrow> rs ! i = Outside \<Longrightarrow> enter_upload key u = (a, u') \<Longrightarrow>
    upload_step (u, rs) (u', rs[i := Waiting key a])"
| lock: "i < length rs \<Longrightarrow> rs ! i = Waiting key a \<Longrightarrow> set_held True a u = Some u' \<Longrightarrow>
    upload_step (u, rs) (u', rs[i := Inside key a])"
| unlock: "i < length rs \<Longrightarrow> rs ! i = Inside key a \<Longrightarrow> set_held False a u = Some u' \<Longrightarrow>
    upload_step (u, rs) (u', rs[i := Leaving key a])"
| leave: "i < length rs \<Longrightarrow> rs ! i = Leaving key a \<Longrightarrow>
    upload_step (u, rs) (leave_upload key a u, rs[i := Outside])"

inductive_cases upload_step_cases: "upload_step (u, rs) (u', rs')"

fun on_lock :: "string \<Rightarrow> nat \<Rightarrow> upload_request \<Rightarrow> bool" where
  "on_lock key a Outside = False"
| "on_lock key a (Waiting k b) = (k = key \<and> b = a)"
| "on_lock key a (Inside k b) = (k = key \<and> b = a)"
| "on_lock key a (Leaving k b) = (k = key \<and> b = a)"

fun in_lock :: "nat \<Rightarrow> upload_request \<Rightarrow> bool" where
  "in_lock a (Inside k b) = (b = a)"
| "in_lock a _ = False"

text \<open>
  The invariant: the map names live locks, different ones for different paths; each of them counts the
  requests that use it, at least one, and is held exactly while one of them is inside; every request
  outside of its sections uses the lock that the map names.
\<close>

definition uses :: "string \<Rightarrow> nat \<Rightarrow> upload_request list \<Rightarrow> int" where
  "uses key a rs = int (length (filter (on_lock key a) rs))"

definition holders :: "nat \<Rightarrow> upload_request list \<Rightarrow> int" where
  "holders a rs = int (length (filter (in_lock a) rs))"

definition lock_ok :: "upload_locks \<Rightarrow> upload_request list \<Rightarrow> string \<Rightarrow> nat \<Rightarrow> bool" where
  "lock_ok u rs key a \<longleftrightarrow> a < length (up_locks u) \<and>
     ul_refs (up_locks u ! a) = uses key a rs \<and> 0 < uses key a rs \<and>
     holders a rs = of_bool (ul_held (up_locks u ! a))"

definition locks_ok :: "upload_locks \<times> upload_request list \<Rightarrow> bool" where
  "locks_ok x \<longleftrightarrow> (case x of (u, rs) \<Rightarrow>
     (\<forall>key a. up_map u key = Some a \<longrightarrow> lock_ok u rs key a) \<and>
     (\<forall>key key' a. up_map u key = Some a \<longrightarrow> up_map u key' = Some a \<longrightarrow> key = key') \<and>
     (\<forall>r \<in> set rs. \<forall>key a. on_lock key a r \<longrightarrow> up_map u key = Some a))"

subsection \<open>The invariant holds\<close>

lemma count_update:
  "i < length xs \<Longrightarrow>
   int (length (filter P (xs[i := x]))) = int (length (filter P xs)) - of_bool (P (xs ! i)) + of_bool (P x)"
proof (induction xs arbitrary: i)
  case (Cons y ys)
  then show ?case by (cases i) auto
qed simp

lemma uses_update:
  "i < length rs \<Longrightarrow>
   uses key a (rs[i := r]) = uses key a rs - of_bool (on_lock key a (rs ! i)) + of_bool (on_lock key a r)"
  by (simp add: uses_def count_update)

lemma holders_update:
  "i < length rs \<Longrightarrow>
   holders a (rs[i := r]) = holders a rs - of_bool (in_lock a (rs ! i)) + of_bool (in_lock a r)"
  by (simp add: holders_def count_update)

lemmas counts = uses_update holders_update

lemma uses_positive: "0 < uses key a rs \<longleftrightarrow> (\<exists>r \<in> set rs. on_lock key a r)"
  by (auto simp: uses_def filter_empty_conv)

lemma in_is_on: "in_lock a r \<Longrightarrow> \<exists>key. on_lock key a r"
  by (cases r) auto

lemma locks_okD:
  assumes "locks_ok (u, rs)"
  shows "up_map u key = Some a \<Longrightarrow> lock_ok u rs key a"
    "up_map u key = Some a \<Longrightarrow> up_map u key' = Some a \<Longrightarrow> key = key'"
    "i < length rs \<Longrightarrow> on_lock key a (rs ! i) \<Longrightarrow> up_map u key = Some a"
    "r \<in> set rs \<Longrightarrow> on_lock key a r \<Longrightarrow> up_map u key = Some a"
  using assms nth_mem unfolding locks_ok_def prod.case by metis+

lemma locks_okI:
  assumes "\<And>key a. up_map u key = Some a \<Longrightarrow> lock_ok u rs key a"
    and "\<And>key key' a. up_map u key = Some a \<Longrightarrow> up_map u key' = Some a \<Longrightarrow> key = key'"
    and "\<And>r key a. r \<in> set rs \<Longrightarrow> on_lock key a r \<Longrightarrow> up_map u key = Some a"
  shows "locks_ok (u, rs)"
  using assms unfolding locks_ok_def prod.case by blast

lemma set_after: "r \<in> set (rs[i := x]) \<Longrightarrow> r = x \<or> r \<in> set rs"
  using set_update_subset_insert by fastforce

lemma new_lock_unused:
  assumes "locks_ok (u, rs)"
  shows "holders (length (up_locks u)) rs = 0" "up_map u key = None \<Longrightarrow> uses key a rs = 0"
proof -
  have "\<not> in_lock (length (up_locks u)) r" if "r \<in> set rs" for r
    using locks_okD(4)[OF assms that] locks_okD(1)[OF assms] in_is_on unfolding lock_ok_def by blast
  then show "holders (length (up_locks u)) rs = 0" by (simp add: holders_def filter_empty_conv)
  assume "up_map u key = None"
  then have "\<not> on_lock key a r" if "r \<in> set rs" for r using locks_okD(4)[OF assms that] by fastforce
  then show "uses key a rs = 0" by (simp add: uses_def filter_empty_conv)
qed

lemma enter_ok:
  assumes ok: "locks_ok (u, rs)" and i: "i < length rs" "rs ! i = Outside"
    and run: "enter_upload key u = (a, u')"
  shows "locks_ok (u', rs[i := Waiting key a])"
proof (cases "up_map u key")
  case None
  then have u': "a = length (up_locks u)" "up_map u' = (up_map u)(key \<mapsto> a)"
    "up_locks u' = up_locks u @ [\<lparr>ul_held = False, ul_refs = 1\<rparr>]"
    using run by (auto simp: enter_upload_def with_lock_def add_ref_def list_update_append nth_append)
  show ?thesis
  proof (rule locks_okI)
    fix key' a' assume "up_map u' key' = Some a'"
    then show "lock_ok u' (rs[i := Waiting key a]) key' a'"
      using locks_okD(1)[OF ok, of key' a'] new_lock_unused[OF ok] None i u'
      by (auto simp: lock_ok_def counts nth_append split: if_splits)
  next
    fix key' key'' a' assume "up_map u' key' = Some a'" "up_map u' key'' = Some a'"
    then show "key' = key''"
      using locks_okD(1,2)[OF ok, of _ a'] u' by (fastforce simp: lock_ok_def split: if_splits)
  next
    fix r key' a' assume "r \<in> set (rs[i := Waiting key a])" "on_lock key' a' r"
    then show "up_map u' key' = Some a'"
      using locks_okD(4)[OF ok, of r key' a'] None u' by (auto dest!: set_after split: if_splits)
  qed
next
  case (Some b)
  then have u': "a = b" "up_map u' = up_map u"
    "up_locks u' = (up_locks u)[a := (up_locks u ! a)\<lparr>ul_refs := ul_refs (up_locks u ! a) + 1\<rparr>]"
    using run by (auto simp: enter_upload_def with_lock_def add_ref_def)
  show ?thesis
  proof (rule locks_okI)
    fix key' a' assume k: "up_map u' key' = Some a'"
    have "(a' = a) = (key' = key)"
      using k Some u'(1,2) locks_okD(2)[OF ok, of key' a key] by auto
    then show "lock_ok u' (rs[i := Waiting key a]) key' a'"
      using locks_okD(1)[OF ok, of key' a'] k i u'(2,3)
      by (cases "key' = key") (simp_all add: lock_ok_def counts)
  next
    fix key' key'' a' assume "up_map u' key' = Some a'" "up_map u' key'' = Some a'"
    then show "key' = key''" using locks_okD(2)[OF ok] u' by auto
  next
    fix r key' a' assume "r \<in> set (rs[i := Waiting key a])" "on_lock key' a' r"
    then show "up_map u' key' = Some a'"
      using locks_okD(4)[OF ok, of r key' a'] Some u' by (auto dest!: set_after)
  qed
qed

text \<open>Taking and giving back a lock: the same requests use the same locks.\<close>

lemma held_ok:
  assumes ok: "locks_ok (u, rs)" and i: "i < length rs" and on: "on_lock key a (rs ! i)"
    and same: "\<And>k b. on_lock k b r = on_lock k b (rs ! i)"
    and inside: "\<And>b. in_lock b r = (b = a \<and> v)" "\<And>b. in_lock b (rs ! i) = (b = a \<and> \<not> v)"
    and run: "set_held v a u = Some u'"
  shows "locks_ok (u', rs[i := r])"
proof -
  have key: "up_map u key = Some a" using locks_okD(3)[OF ok i on] .
  have u': "up_map u' = up_map u" "up_locks u' = (up_locks u)[a := (up_locks u ! a)\<lparr>ul_held := v\<rparr>]"
    "ul_held (up_locks u ! a) = (\<not> v)"
    using run by (auto simp: set_held_def split: if_splits)
  show ?thesis
  proof (rule locks_okI)
    fix key' a' assume k: "up_map u' key' = Some a'"
    have "uses key' a' (rs[i := r]) = uses key' a' rs"
      "holders a' (rs[i := r]) = holders a' rs + (if a' = a then of_bool v - of_bool (\<not> v) else 0)"
      using i by (simp_all add: counts same inside)
    then show "lock_ok u' (rs[i := r]) key' a'"
      using locks_okD(1)[OF ok, of key' a'] k u' by (auto simp: lock_ok_def nth_list_update)
  next
    fix key' key'' a' assume "up_map u' key' = Some a'" "up_map u' key'' = Some a'"
    then show "key' = key''" using locks_okD(2)[OF ok] u' by auto
  next
    fix q key' a' assume "q \<in> set (rs[i := r])" "on_lock key' a' q"
    then show "up_map u' key' = Some a'"
      using locks_okD(4)[OF ok, of q key' a'] locks_okD(3)[OF ok i, of key' a'] u' same
      by (auto dest!: set_after)
  qed
qed

lemma leave_ok:
  assumes ok: "locks_ok (u, rs)" and i: "i < length rs" "rs ! i = Leaving key a"
  shows "locks_ok (leave_upload key a u, rs[i := Outside])"
proof -
  let ?u = "leave_upload key a u" and ?rs = "rs[i := Outside]"
  have key: "up_map u key = Some a" using locks_okD(3)[OF ok i(1)] i(2) by simp
  then have refs: "a < length (up_locks u)" "ul_refs (up_locks u ! a) = uses key a rs"
    using locks_okD(1)[OF ok] by (auto simp: lock_ok_def)
  have last: "uses key a ?rs = uses key a rs - 1" using i by (simp add: counts)
  have locks: "up_locks ?u = (up_locks u)[a := (up_locks u ! a)\<lparr>ul_refs := uses key a ?rs\<rparr>]"
    "up_map ?u = (if uses key a ?rs = 0 then (up_map u)(key := None) else up_map u)"
    using refs last by (auto simp: leave_upload_def add_ref_def Let_def)
  show ?thesis
  proof (rule locks_okI)
    fix key' a' assume k: "up_map ?u key' = Some a'"
    then have old: "up_map u key' = Some a'" by (auto simp: locks split: if_splits)
    have "0 < uses key' a' ?rs"
    proof (cases "key' = key")
      case True
      then have "uses key' a' ?rs \<noteq> 0" using k old key by (auto simp: locks split: if_splits)
      then show ?thesis by (simp add: uses_def)
    next
      case False
      then show ?thesis using locks_okD(1)[OF ok old] i by (simp add: lock_ok_def counts)
    qed
    then show "lock_ok ?u ?rs key' a'"
      using locks_okD(1)[OF ok old] locks_okD(2)[OF ok key, of key'] old key i locks refs(1)
      by (auto simp: lock_ok_def counts nth_list_update)
  next
    fix key' key'' a' assume "up_map ?u key' = Some a'" "up_map ?u key'' = Some a'"
    then show "key' = key''" using locks_okD(2)[OF ok] by (auto simp: locks split: if_splits)
  next
    fix q key' a' assume q: "q \<in> set ?rs" "on_lock key' a' q"
    then have "q \<in> set rs" by (auto dest!: set_after)
    then have old: "up_map u key' = Some a'" using locks_okD(4)[OF ok _ q(2)] by blast
    then show "up_map ?u key' = Some a'"
      using q key uses_positive[of key' a' ?rs] by (auto simp: locks)
  qed
qed

lemma upload_step_ok:
  assumes "upload_step x y" and "locks_ok x"
  shows "locks_ok y"
  using assms
proof (induction rule: upload_step.induct)
  case (enter i rs key u a u')
  then show ?case using enter_ok by blast
next
  case (lock i rs key a u u')
  then show ?case by (intro held_ok[of u rs i key a "Inside key a" True]) auto
next
  case (unlock i rs key a u u')
  then show ?case by (intro held_ok[of u rs i key a "Leaving key a" False]) auto
next
  case (leave i rs key a u)
  then show ?case using leave_ok by blast
qed

subsection \<open>Exclusion\<close>

text \<open>The server starts without locks; any number of requests may come.\<close>

lemma locks_reachable:
  assumes "upload_step\<^sup>*\<^sup>* (no_locks, replicate n Outside) x"
  shows "locks_ok x"
  using assms
proof (induction rule: rtranclp_induct)
  case base
  show ?case by (simp add: locks_ok_def no_locks_def)
next
  case (step x y)
  then show ?case using upload_step_ok by blast
qed

lemma two_inside:
  assumes "i < length rs" "j < length rs" "i \<noteq> j" "in_lock a (rs ! i)" "in_lock a (rs ! j)"
  shows "2 \<le> holders a rs"
proof -
  have "{i, j} \<subseteq> {k. k < length rs \<and> in_lock a (rs ! k)}" using assms by auto
  then have "card {i, j} \<le> length (filter (in_lock a) rs)"
    unfolding length_filter_conv_card by (rule card_mono[rotated]) simp
  then show ?thesis using assms(3) by (simp add: holders_def)
qed

lemma held_lock:
  assumes "locks_ok (u, rs)" "i < length rs" "rs ! i = Inside key a"
  shows "up_map u key = Some a" "ul_held (up_locks u ! a)"
proof -
  show key: "up_map u key = Some a" using locks_okD(3)[OF assms(1,2)] assms(3) by simp
  have "in_lock a (rs ! i)" using assms(3) by simp
  then have "0 < holders a rs" using assms(2) nth_mem[OF assms(2)] by (auto simp: holders_def filter_empty_conv)
  then show "ul_held (up_locks u ! a)" using locks_okD(1)[OF assms(1) key] by (auto simp: lock_ok_def split: if_splits)
qed

text \<open>C23: Under every interleaving of the requests, at most one is inside a part file, giving back its
  lock never fails, a request that waits finds the lock free when nobody is inside, and the map only
  has locks that are used, so it is empty again when all requests are done.\<close>

theorem upload_lock_exclusive:
  assumes "upload_step\<^sup>*\<^sup>* (no_locks, replicate n Outside) (u, rs)"
    and "i < length rs" "rs ! i = Inside key a"
  shows "(\<forall>j b. j < length rs \<longrightarrow> rs ! j = Inside key b \<longrightarrow> j = i) \<and>
     (\<forall>j b. j < length rs \<longrightarrow> rs ! j = Waiting key b \<longrightarrow> b = a \<and> set_held True b u = None) \<and>
     set_held False a u \<noteq> None \<and>
     (\<forall>k. up_map u k \<noteq> None \<longleftrightarrow> (\<exists>r \<in> set rs. \<exists>b. on_lock k b r))"
proof -
  have ok: "locks_ok (u, rs)" using locks_reachable[OF assms(1)] .
  note here = held_lock[OF ok assms(2,3)]
  have one: "holders a rs \<le> 1" using locks_okD(1)[OF ok here(1)] by (auto simp: lock_ok_def)
  have "j = i" if j: "j < length rs" "rs ! j = Inside key b" for j b
    using two_inside[OF j(1) assms(2), of a] one held_lock(1)[OF ok j] here(1) j(2) assms(3) by fastforce
  moreover have "b = a" if j: "j < length rs" "rs ! j = Waiting key b" for j b
    using locks_okD(3)[OF ok j(1), of key b] j(2) here(1) by simp
  moreover have "up_map u k \<noteq> None \<longleftrightarrow> (\<exists>r \<in> set rs. \<exists>b. on_lock k b r)" for k
    using locks_okD(1,4)[OF ok] uses_positive[of k _ rs] unfolding lock_ok_def by fast
  ultimately show ?thesis using here(2) by (auto simp: set_held_def)
qed

theorem upload_lock_exclusive_witness:
  "\<exists>u. upload_step\<^sup>*\<^sup>* (no_locks, [Outside, Outside]) (u, [Inside ''p'' 0, Waiting ''p'' 0]) \<and>
     set_held True 0 u = None \<and> set_held False 0 u \<noteq> None"
proof -
  let ?u1 = "snd (enter_upload ''p'' no_locks)" and ?u2 = "snd (enter_upload ''p'' (snd (enter_upload ''p'' no_locks)))"
  have 1: "upload_step (no_locks, [Outside, Outside]) (?u1, [Waiting ''p'' 0, Outside])"
    using enter[of 0 "[Outside, Outside]" "''p''" no_locks 0 ?u1] by (simp add: enter_upload_def with_lock_def no_locks_def)
  have 2: "upload_step (?u1, [Waiting ''p'' 0, Outside]) (?u2, [Waiting ''p'' 0, Waiting ''p'' 0])"
    using enter[of 1 "[Waiting ''p'' 0, Outside]" "''p''" ?u1 0 ?u2]
    by (simp add: enter_upload_def with_lock_def no_locks_def add_ref_def)
  obtain u where u: "set_held True 0 ?u2 = Some u"
    by (simp add: set_held_def enter_upload_def with_lock_def no_locks_def add_ref_def)
  have 3: "upload_step (?u2, [Waiting ''p'' 0, Waiting ''p'' 0]) (u, [Inside ''p'' 0, Waiting ''p'' 0])"
    using lock[of 0 "[Waiting ''p'' 0, Waiting ''p'' 0]" "''p''" 0 ?u2 u] u by simp
  have run: "upload_step\<^sup>*\<^sup>* (no_locks, [Outside, Outside]) (u, [Inside ''p'' 0, Waiting ''p'' 0])"
    using 1 2 3 by (meson converse_rtranclp_into_rtranclp rtranclp.rtrancl_refl)
  then have "upload_step\<^sup>*\<^sup>* (no_locks, replicate 2 Outside) (u, [Inside ''p'' 0, Waiting ''p'' 0])"
    by (simp add: numeral_2_eq_2)
  note ex = upload_lock_exclusive[OF this]
  have two: "0 < length [Inside ''p'' 0, Waiting ''p'' 0]" "[Inside ''p'' 0, Waiting ''p'' 0] ! 0 = Inside ''p'' 0"
    "1 < length [Inside ''p'' 0, Waiting ''p'' 0]" "[Inside ''p'' 0, Waiting ''p'' 0] ! 1 = Waiting ''p'' 0"
    by simp_all
  from ex[OF two(1,2)] two(3,4) run show ?thesis by blast
qed

subsection \<open>The counts of the handlers\<close>

text \<open>
  What a handler sees of the locks is how many requests use each: entering and leaving are the two
  updates of \<open>lockUpload\<close> in the model of the handlers.
\<close>

definition lock_counts :: "upload_locks \<Rightarrow> string \<rightharpoonup> nat" where
  "lock_counts u key = map_option (\<lambda>a. nat (ul_refs (up_locks u ! a))) (up_map u key)"

lemma enter_counts:
  assumes "locks_ok (u, rs)" and "map_of (hs_uploads (hx_sv c)) = lock_counts u"
  shows "map_of (hs_uploads (hx_sv (snd (run_state (acquire_upload key) c)))) =
    lock_counts (snd (enter_upload key u))"
proof
  fix k
  have other: "up_map u k = Some a \<Longrightarrow> up_map u key = Some a \<Longrightarrow> k = key" for a
    using locks_okD(2)[OF assms(1)] .
  have live: "up_map u k = Some a \<Longrightarrow> a < length (up_locks u) \<and> 0 < ul_refs (up_locks u ! a)" for k a
    using locks_okD(1)[OF assms(1)] by (simp add: lock_ok_def)
  show "map_of (hs_uploads (hx_sv (snd (run_state (acquire_upload key) c)))) k =
    lock_counts (snd (enter_upload key u)) k"
    using assms(2) other live[of key] live[of k]
    by (cases "up_map u key"; cases "up_map u k")
      (auto simp: acquire_upload_def set_server_def update_conv' lock_counts_def enter_upload_def
        with_lock_def add_ref_def nth_append nth_list_update nat_add_distrib fun_upd_apply)
qed

lemma leave_counts:
  assumes "locks_ok (u, rs)" and "map_of (hs_uploads (hx_sv c)) = lock_counts u"
    and "up_map u key = Some a"
  shows "map_of (hs_uploads (hx_sv (snd (run_state (release_upload key) c)))) =
    lock_counts (leave_upload key a u)"
proof
  fix k
  have other: "up_map u k = Some a \<Longrightarrow> k = key"
    using locks_okD(2)[OF assms(1)] assms(3) by blast
  have live: "a < length (up_locks u)" "0 < ul_refs (up_locks u ! a)"
    using locks_okD(1)[OF assms(1,3)] by (simp_all add: lock_ok_def)
  show "map_of (hs_uploads (hx_sv (snd (run_state (release_upload key) c)))) k =
    lock_counts (leave_upload key a u) k"
    using assms(2,3) other live
    by (cases "up_map u k")
      (auto simp: release_upload_def set_server_def update_conv' delete_conv' lock_counts_def leave_upload_def
        add_ref_def Let_def nth_list_update nat_diff_distrib fun_upd_apply)
qed

end
