(* ===== verification/HttpLinks.thy ===== *)
theory HttpLinks
  imports HttpGuard
begin

text \<open>
  Who gets through a public link, and what a download of it counts, whatever calls on the disk fail
  and wherever the client stops reading.
\<close>

subsection \<open>Refused requests\<close>

text \<open>A quiet step that only lets the clock go on.\<close>

definition calm :: "hctx \<Rightarrow> hctx \<Rightarrow> bool" where
  "calm c d \<longleftrightarrow> quiet c d \<and> w_ticks (hx_disk c) \<le> w_ticks (hx_disk d)"

interpretation cm: http_transition calm
proof
  show "calm c c" for c by (simp add: calm_def qt.refl)
next
  show "calm c d \<Longrightarrow> calm d e \<Longrightarrow> calm c e" for c d e
    unfolding calm_def using qt.trans order_trans by blast
qed

lemma calm_steps:
  "within calm (respond f)" "within calm now" "within calm (share_limiter h)"
  "within calm (set_server (\<lambda>s. s\<lparr>hs_activity := k s\<rparr>))"
  by (auto simp: within_def calm_def quiet_def respond_def now_def share_limiter_def set_server_def
      split: prod.split)

lemmas calm_rules = cm.core calm_steps

lemma calm_answers:
  "within calm (httpError m n)" "within calm notFound" "within calm (password_page title)"
  "within calm (redirectSamePath rq)"
  unfolding httpError_def notFound_def password_page_def html_page_def render_def redirectSamePath_def
  by (intro calm_rules)+

lemma calm_cookies:
  "within calm (setShareCookie rq ident token)" "within calm (verifyShareCookie rq ident token)"
  unfolding setShareCookie_def verifyShareCookie_def add_cookie_def Let_def
  by (intro calm_rules)+

lemma calm_checks:
  "within calm (verify_link ident token password)" "within calm (verify_authorized ident token)"
  "within calm (verifySharePassword rq ident token password)"
  unfolding verify_link_def verify_authorized_def verifySharePassword_def Let_def
  by (intro calm_rules)+

lemma calm_access: "within calm (share_access rq ident token p granted)"
  unfolding share_access_def by (intro calm_rules calm_checks)

subsection \<open>Who may open a link\<close>

text \<open>
  The time \<open>t\<close> is a reading of the clock from now on; the credentials are the token of the link and,
  with a password, the password of the form or the cookie that an earlier password was answered with.
\<close>

definition reading :: "hctx \<Rightarrow> time \<Rightarrow> bool" where
  "reading c t \<longleftrightarrow> (\<exists>k \<ge> w_ticks (hx_disk c). t = w_clock (hx_disk c) k)"

definition cookie_opens :: "hctx \<Rightarrow> request \<Rightarrow> string \<Rightarrow> string \<Rightarrow> bool" where
  "cookie_opens c rq ident token \<longleftrightarrow>
     (\<exists>raw t. cookie rq (shareCookieName ident) = Some raw \<and> reading c t \<and>
        share_cookie_ok (hs_sessionKey (hx_sv c)) t ident token raw)"

definition link_opens :: "hctx \<Rightarrow> request \<Rightarrow> string \<Rightarrow> string \<Rightarrow> bool" where
  "link_opens c rq ident token \<longleftrightarrow>
     (\<exists>link t. get_link (hs_links (hx_sv c)) ident = Some link \<and> reading c t \<and>
        available t link 0 = None \<and> hashToken token = lk_TokenHash link \<and>
        (lk_PasswordHash link = [] \<or>
         VerifyPassword (hs_kdf (hx_sv c)) (lk_PasswordHash link) (FormValue rq ''password'') \<or>
         cookie_opens c rq ident token))"

lemma calm_same:
  assumes "calm c d"
  shows "reading d t \<Longrightarrow> reading c t" "hs_links (hx_sv d) = hs_links (hx_sv c)"
    "hs_kdf (hx_sv d) = hs_kdf (hx_sv c)" "hs_sessionKey (hx_sv d) = hs_sessionKey (hx_sv c)"
    "hs_root (hx_sv d) = hs_root (hx_sv c)"
proof -
  have q: "quiet c d" and t: "w_ticks (hx_disk c) \<le> w_ticks (hx_disk d)" using assms by (simp_all add: calm_def)
  show "hs_links (hx_sv d) = hs_links (hx_sv c)" "hs_root (hx_sv d) = hs_root (hx_sv c)"
    using quiet_fields[OF q] by simp_all
  show "hs_kdf (hx_sv d) = hs_kdf (hx_sv c)" "hs_sessionKey (hx_sv d) = hs_sessionKey (hx_sv c)"
    using quiet_cong(2)[OF q, of hs_kdf] quiet_cong(2)[OF q, of hs_sessionKey] by simp_all
  have "w_clock (hx_disk d) = w_clock (hx_disk c)" using quiet_cong(1)[OF q, of w_clock] by simp
  then show "reading d t \<Longrightarrow> reading c t" using t order_trans unfolding reading_def by auto
qed

lemma reading_now: "reading c (w_clock (hx_disk c) (w_ticks (hx_disk c)))"
  by (auto simp: reading_def)

text \<open>Each of the checks, as a run: what a link it lets through has.\<close>

lemma verified_link:
  assumes "run_state (verify_link ident token password) c = (Inr pl, d)"
  shows "\<exists>link t. get_link (hs_links (hx_sv c)) ident = Some link \<and> pl = public_link link \<and> reading c t \<and>
    available t link 0 = None \<and> hashToken token = lk_TokenHash link \<and>
    (lk_PasswordHash link = [] \<or> VerifyPassword (hs_kdf (hx_sv c)) (lk_PasswordHash link) password)"
  using assms reading_now[of c]
  by (fastforce simp: verify_link_def now_def Verify_def validate_def split: option.splits if_splits)

lemma authorized_link:
  assumes "run_state (verify_authorized ident token) c = (Inr pl, d)"
  shows "\<exists>link t. get_link (hs_links (hx_sv c)) ident = Some link \<and> pl = public_link link \<and> reading c t \<and>
    available t link 0 = None \<and> hashToken token = lk_TokenHash link"
  using assms reading_now[of c]
  by (fastforce simp: verify_authorized_def now_def VerifyAuthorized_def validate_def split: option.splits if_splits)

lemma cookie_granted:
  assumes "run_state (verifyShareCookie rq ident token) c = (True, d)"
  shows "cookie_opens c rq ident token"
  using assms reading_now[of c]
  by (fastforce simp: verifyShareCookie_def cookie_opens_def now_def split: option.splits)

lemma password_opened:
  assumes "run_state (verifySharePassword rq ident token password) c = (ShareOpen pl, d)"
  shows "\<exists>link t. get_link (hs_links (hx_sv c)) ident = Some link \<and> pl = public_link link \<and> reading c t \<and>
    available t link 0 = None \<and> hashToken token = lk_TokenHash link \<and>
    (lk_PasswordHash link = [] \<or> VerifyPassword (hs_kdf (hx_sv c)) (lk_PasswordHash link) password)"
proof -
  let ?now = "\<lambda>c. w_clock (hx_disk c) (w_ticks (hx_disk c))"
  obtain ok l where allow: "Allow (?now c) (clientAddrForLimit rq @ ''|share|'' @ ident) (hs_shareLimit (hx_sv c)) = (ok, l)"
    by (rule prod.exhaust)
  have "reading c (w_clock (hx_disk c) (Suc (w_ticks (hx_disk c))))"
    unfolding reading_def using le_SucI by blast
  with assms allow show ?thesis
    by (fastforce simp: verifySharePassword_def share_limiter_def now_def Let_def Verify_def validate_def
        split: option.splits if_splits sum.splits prod.splits)
qed

subsection \<open>Nothing happens without the credentials\<close>

text \<open>What is known of a link before its checks: it is stored, with this password hash.\<close>

definition known_link :: "hctx \<Rightarrow> string \<Rightarrow> Kind \<Rightarrow> bool \<Rightarrow> bool" where
  "known_link c ident kind hp \<longleftrightarrow> (\<exists>link. get_link (hs_links (hx_sv c)) ident = Some link \<and>
     lk_Kind link = kind \<and> hp = (lk_PasswordHash link \<noteq> []))"

lemma known_linkI:
  assumes "Public (hs_links (hx_sv c)) ident = Inr meta"
  shows "known_link c ident (pl_Kind meta) (pl_HasPassword meta)"
  using assms by (auto simp: known_link_def Public_def public_link_def split: option.splits)

lemma link_opensI:
  assumes "calm c d" and "get_link (hs_links (hx_sv d)) ident = Some link" "reading d t"
    "available t link 0 = None" "hashToken token = lk_TokenHash link"
    and "lk_PasswordHash link = [] \<or>
      VerifyPassword (hs_kdf (hx_sv d)) (lk_PasswordHash link) (FormValue rq ''password'') \<or>
      cookie_opens c rq ident token"
  shows "link_opens c rq ident token"
  using assms calm_same[OF assms(1)] unfolding link_opens_def by auto

lemma cookie_same: "calm c d \<Longrightarrow> cookie_opens d rq ident token \<Longrightarrow> cookie_opens c rq ident token"
  using calm_same(1,4)[of c d] unfolding cookie_opens_def by metis

lemma cookie_step:
  "ensures (calm c) (if b then verifyShareCookie rq ident token else ret v)
     (\<lambda>granted d. calm c d \<and> (granted \<longrightarrow> (if b then cookie_opens c rq ident token else v)))"
proof (rule ensuresI)
  fix c' granted d
  assume c': "calm c c'" and run: "run_state (if b then verifyShareCookie rq ident token else ret v) c' = (granted, d)"
  have "within calm (if b then verifyShareCookie rq ident token else ret v)"
    by (intro calm_rules calm_cookies)
  then have "calm c d" using withinD[OF _ run] c' cm.trans by blast
  moreover have "if b then cookie_opens c rq ident token else v" if granted
    using cookie_granted[of rq ident token c' d] that run cookie_same[OF c'] by (cases b) simp_all
  ultimately show "calm c d \<and> (granted \<longrightarrow> (if b then cookie_opens c rq ident token else v))" by blast
qed

lemma verify_step:
  assumes "known_link c ident kind hp" and "\<not> hp \<or> pw = FormValue rq ''password''"
  shows "ensures (calm c) (verify_link ident token pw)
     (\<lambda>v d. calm c d \<and> (\<forall>pl. v = Inr pl \<longrightarrow> link_opens c rq ident token))"
proof (rule ensuresI)
  fix c' v d
  assume c': "calm c c'" and run: "run_state (verify_link ident token pw) c' = (v, d)"
  have "calm c d" using withinD[OF calm_checks(1) run] c' cm.trans by blast
  moreover have "link_opens c rq ident token" if "v = Inr pl" for pl
  proof -
    from verified_link[OF run[unfolded that]] obtain link t where
      l: "get_link (hs_links (hx_sv c')) ident = Some link" "reading c' t" "available t link 0 = None"
        "hashToken token = lk_TokenHash link"
        "lk_PasswordHash link = [] \<or> VerifyPassword (hs_kdf (hx_sv c')) (lk_PasswordHash link) pw"
      by blast
    have "hp = (lk_PasswordHash link \<noteq> [])"
      using assms(1) l(1) calm_same[OF c'] by (auto simp: known_link_def)
    then show ?thesis using link_opensI[OF c' l(1-4)] l(5) assms(2) by blast
  qed
  ultimately show "calm c d \<and> (\<forall>pl. v = Inr pl \<longrightarrow> link_opens c rq ident token)" by blast
qed

lemma authorized_step:
  assumes "cookie_opens c rq ident token"
  shows "ensures (calm c) (verify_authorized ident token)
     (\<lambda>v d. calm c d \<and> (\<forall>pl. v = Inr pl \<longrightarrow> link_opens c rq ident token))"
proof (rule ensuresI)
  fix c' v d
  assume c': "calm c c'" and run: "run_state (verify_authorized ident token) c' = (v, d)"
  have "calm c d" using withinD[OF calm_checks(2) run] c' cm.trans by blast
  moreover have "link_opens c rq ident token" if "v = Inr pl" for pl
    using authorized_link[OF run[unfolded that]] link_opensI[OF c' _ _ _ _ disjI2[OF disjI2[OF assms]]]
    by (elim exE conjE)
  ultimately show "calm c d \<and> (\<forall>pl. v = Inr pl \<longrightarrow> link_opens c rq ident token)" by blast
qed

lemma password_step:
  "ensures (calm c) (verifySharePassword rq ident token (FormValue rq ''password''))
     (\<lambda>v d. calm c d \<and> (\<forall>pl. v = ShareOpen pl \<longrightarrow> link_opens c rq ident token))"
proof (rule ensuresI)
  fix c' v d
  assume c': "calm c c'"
    and run: "run_state (verifySharePassword rq ident token (FormValue rq ''password'')) c' = (v, d)"
  have "calm c d" using withinD[OF calm_checks(3) run] c' cm.trans by blast
  moreover have "link_opens c rq ident token" if "v = ShareOpen pl" for pl
    using password_opened[OF run[unfolded that]] by (elim exE conjE) (rule link_opensI[OF c'], auto)
  ultimately show "calm c d \<and> (\<forall>pl. v = ShareOpen pl \<longrightarrow> link_opens c rq ident token)" by blast
qed

text \<open>The rest of a handler is calm, or comes after a check that let the link through.\<close>

definition guarded_by :: "bool \<Rightarrow> hctx \<Rightarrow> 'a \<Rightarrow> hctx \<Rightarrow> bool" where
  "guarded_by A c = (\<lambda>_ d. A \<or> calm c d)"

lemma guarded_calm: "within calm m \<Longrightarrow> (\<And>d. P d \<Longrightarrow> calm c d) \<Longrightarrow> ensures P m (guarded_by A c)"
  unfolding guarded_by_def within_def ensures_def using cm.trans by blast

lemma guarded_open: "(\<And>d. P d \<Longrightarrow> A) \<Longrightarrow> ensures P m (guarded_by A c)"
  unfolding guarded_by_def ensures_def by blast

lemma access_step:
  assumes "known_link c ident kind hp"
  shows "ensures (\<lambda>d. calm c d \<and> (granted \<and> hp \<longrightarrow> cookie_opens c rq ident token))
     (share_access rq ident token hp (granted \<and> hp))
     (\<lambda>out d. calm c d \<and> (\<forall>pl. out = ShareOpen pl \<longrightarrow> link_opens c rq ident token))"
proof (cases "granted \<and> hp")
  case True
  show ?thesis
  proof (cases "cookie_opens c rq ident token")
    case opens: True
    show ?thesis unfolding share_access_def if_P[OF True]
      by (rule ensures_bind[OF ensures_weaken[OF authorized_step[OF opens]] ensures_ret])
        (auto split: sum.split)
  qed (simp add: ensures_def True)
next
  case False
  show ?thesis unfolding share_access_def if_not_P[OF False]
  proof (rule ensures_if, goal_cases)
    case 1
    show ?case by (rule ensures_weaken[OF password_step]) auto
  next
    case 2
    show ?case
      by (rule ensures_bind[OF ensures_weaken[OF verify_step[OF assms, of "[]" rq]] ensures_ret])
        (use 2 in \<open>auto split: sum.split\<close>)
  qed
qed

lemma share_known_guarded:
  assumes known: "known_link c ident kind (pl_HasPassword meta)"
  shows "ensures (calm c) (share_known rq ident token meta) (guarded_by (link_opens c rq ident token) c)"
  unfolding share_known_def
proof (rule ensures_bind[OF cookie_step], rule ensures_if, goal_cases)
  case (1 granted)
  show ?case by (rule guarded_calm[OF calm_answers(3)]) blast
next
  case (2 granted)
  let ?hp = "pl_HasPassword meta"
  show ?case
  proof (rule ensures_bind[where Q = "\<lambda>out d. calm c d \<and> (\<forall>pl. out = ShareOpen pl \<longrightarrow> link_opens c rq ident token)"],
      goal_cases)
    case 1
    show ?case
    proof (cases "granted \<longrightarrow> ?hp")
      case True
      then have g: "(granted \<and> ?hp) = granted" by blast
      show ?thesis
        by (rule ensures_weaken[OF access_step[OF known, of granted rq token, unfolded g]]) (use True in auto)
    next
      case False
      then show ?thesis by (intro ensures_false) auto
    qed
  next
    case (2 out)
    show ?case
    proof (cases out)
      case (ShareOpen pl)
      then show ?thesis by (intro guarded_open) blast
    next
      case (ShareError e)
      have "within calm (if e = ErrDenied then password_page ''Protected share''
          else httpError ''share unavailable'' 410)"
        by (intro calm_rules calm_answers)
      then show ?thesis unfolding ShareError share_outcome.case by (rule guarded_calm) blast
    next
      case ShareLimited
      show ?thesis unfolding ShareLimited share_outcome.case by (rule guarded_calm[OF calm_answers(1)]) blast
    qed
  qed
qed

text \<open>A drop link: its page and its password form are calm, an upload needs the credentials.\<close>

lemma calm_drop_forms:
  "within calm (drop_page rq ident token meta)" "within calm (drop_password rq ident token)"
proof -
  show "within calm (drop_page rq ident token meta)"
    unfolding drop_page_def html_page_def render_def
    by (intro calm_rules calm_answers calm_cookies calm_checks)
  have "within calm (case out of ShareLimited \<Rightarrow> httpError limited_text 429
      | ShareError _ \<Rightarrow> password_page ''Protected drop''
      | ShareOpen _ \<Rightarrow> do { setShareCookie rq ident token; redirectSamePath rq })" for out
    by (cases out) (auto intro: calm_rules calm_answers calm_cookies)
  then show "within calm (drop_password rq ident token)"
    unfolding drop_password_def by (intro calm_rules calm_answers calm_checks)
qed

lemma drop_post_guarded:
  assumes known: "known_link c ident kind (pl_HasPassword meta)"
  shows "ensures (calm c) (drop_post rq ident token meta) (guarded_by (link_opens c rq ident token) c)"
  unfolding drop_post_def
proof (rule ensures_bind[OF cookie_step], rule ensures_if, goal_cases)
  case (1 granted)
  show ?case by (rule guarded_calm[OF calm_answers(1)]) blast
next
  case (2 granted)
  let ?hp = "pl_HasPassword meta"
  show ?case
  proof (rule ensures_if, goal_cases)
    case 1
    show ?case by (rule guarded_calm[OF calm_answers(1)]) blast
  next
    case 2
    show ?case
    proof (rule ensures_bind[where Q = "\<lambda>v d. calm c d \<and> (\<forall>pl. v = Inr pl \<longrightarrow> link_opens c rq ident token)"],
        goal_cases)
      case 1
      show ?case
      proof (cases "?hp \<longrightarrow> cookie_opens c rq ident token")
        case True
        have "ensures (calm c) (if ?hp then verify_authorized ident token
            else verify_link ident token (FormValue rq ''password''))
          (\<lambda>v d. calm c d \<and> (\<forall>pl. v = Inr pl \<longrightarrow> link_opens c rq ident token))"
          by (rule ensures_if) (use True authorized_step verify_step[OF known] in blast)+
        then show ?thesis by (rule ensures_weaken) auto
      next
        case False
        then show ?thesis using \<open>\<not> \<not> granted\<close> by (intro ensures_false) auto
      qed
    next
      case (2 v)
      show ?case
        by (rule ensures_sum) (auto intro!: guarded_open guarded_calm[OF calm_answers(1)])
    qed
  qed
qed

text \<open>The link that an address names, and that its credentials are there.\<close>

definition link_granted :: "Kind \<Rightarrow> hctx \<Rightarrow> request \<Rightarrow> string \<Rightarrow> bool" where
  "link_granted kind c rq pre \<longleftrightarrow>
     (case linkParts (rq_path rq) pre of
        None \<Rightarrow> False
      | Some (ident, token) \<Rightarrow> (\<exists>hp. known_link c ident kind hp) \<and> link_opens c rq ident token)"

lemma ensures_here: "ensures P m Q \<Longrightarrow> P c \<Longrightarrow> ensures (\<lambda>d. d = c) m Q"
  by (simp add: ensures_def)

lemma guarded_mono: "ensures P m (guarded_by A c) \<Longrightarrow> (A \<Longrightarrow> B) \<Longrightarrow> ensures P m (guarded_by B c)"
  unfolding guarded_by_def ensures_def by blast

lemma share_guarded:
  "ensures (\<lambda>d. d = c) (shareLink rq) (guarded_by
     (link_granted KindDownload c rq (if HasPrefix (rq_path rq) ''/s/'' then ''/s/'' else ''/share/'')) c)"
proof -
  define pre where "pre = (if HasPrefix (rq_path rq) ''/s/'' then ''/s/'' else ''/share/'')"
  let ?parts = "linkParts (rq_path rq) pre"
  show ?thesis
  proof (cases "\<exists>ident token meta. ?parts = Some (ident, token) \<and>
      Public (hs_links (hx_sv c)) ident = Inr meta \<and> pl_Kind meta = KindDownload")
    case True
    then obtain ident token meta where
      p: "?parts = Some (ident, token)" "Public (hs_links (hx_sv c)) ident = Inr meta" "pl_Kind meta = KindDownload"
      by blast
    note known = known_linkI[OF p(2)]
    have "run_state (shareLink rq) c = run_state (share_known rq ident token meta) c"
      using p unfolding shareLink_def pre_def[symmetric] by simp
    then have "ensures (\<lambda>d. d = c) (shareLink rq) (guarded_by (link_opens c rq ident token) c)"
      using ensures_here[OF share_known_guarded[OF known, of rq token] cm.refl] by (simp add: ensures_def)
    then show ?thesis unfolding pre_def[symmetric]
      by (rule guarded_mono) (use p known in \<open>auto simp: link_granted_def\<close>)
  next
    case False
    then have "run_state (shareLink rq) c = run_state notFound c"
      unfolding shareLink_def pre_def[symmetric] by (auto split: option.split sum.split)
    then show ?thesis
      using calm_answers(2) by (simp add: ensures_def guarded_by_def within_def)
  qed
qed

lemma drop_guarded:
  "ensures (\<lambda>d. d = c) (dropLink rq) (guarded_by
     (link_granted KindUpload c rq (if HasPrefix (rq_path rq) ''/d/'' then ''/d/'' else ''/drop/'')) c)"
proof -
  define pre where "pre = (if HasPrefix (rq_path rq) ''/d/'' then ''/d/'' else ''/drop/'')"
  let ?parts = "linkParts (rq_path rq) pre"
  show ?thesis
  proof (cases "\<exists>ident token meta. ?parts = Some (ident, token) \<and>
      Public (hs_links (hx_sv c)) ident = Inr meta \<and> pl_Kind meta = KindUpload")
    case True
    then obtain ident token meta where
      p: "?parts = Some (ident, token)" "Public (hs_links (hx_sv c)) ident = Inr meta" "pl_Kind meta = KindUpload"
      by blast
    note known = known_linkI[OF p(2)]
    let ?m = "if rq_method rq = ''GET'' then drop_page rq ident token meta
        else if rq_method rq \<noteq> ''POST'' then httpError ''method not allowed'' 405
        else if pl_HasPassword meta \<and> \<not> HasPrefix (ToLower (header rq ''Content-Type'')) ''multipart/''
        then drop_password rq ident token
        else drop_post rq ident token meta"
    have "ensures (calm c) ?m (guarded_by (link_opens c rq ident token) c)"
      by (intro ensures_if drop_post_guarded[OF known] guarded_calm calm_drop_forms calm_answers)
    moreover have "run_state (dropLink rq) c = run_state ?m c"
      using p unfolding dropLink_def pre_def[symmetric] by simp
    ultimately have "ensures (\<lambda>d. d = c) (dropLink rq) (guarded_by (link_opens c rq ident token) c)"
      using ensures_here[of "calm c" ?m _ c] cm.refl by (simp add: ensures_def)
    then show ?thesis unfolding pre_def[symmetric]
      by (rule guarded_mono) (use p known in \<open>auto simp: link_granted_def\<close>)
  next
    case False
    then have "run_state (dropLink rq) c = run_state notFound c \<or>
        run_state (dropLink rq) c = run_state (httpError ''drop link unavailable'' 410) c"
      unfolding dropLink_def pre_def[symmetric] by (auto split: option.split sum.split)
    then show ?thesis
      using calm_answers(1,2) by (auto simp: ensures_def guarded_by_def within_def)
  qed
qed

text \<open>C9: Without the credentials of the link in its address, a request to a share or drop link reads and
  changes nothing but the limiters, the log and the clock: the link exists, is of the kind of the
  address, is enabled, not expired and not used up, its token is the one given, and a password was
  given with it or before.\<close>

theorem links_need_credentials:
  "(link_granted KindDownload c rq (if HasPrefix (rq_path rq) ''/s/'' then ''/s/'' else ''/share/'') \<or>
      quiet c (snd (run_state (shareLink rq) c))) \<and>
   (link_granted KindUpload c rq (if HasPrefix (rq_path rq) ''/d/'' then ''/d/'' else ''/drop/'') \<or>
      quiet c (snd (run_state (dropLink rq) c)))"
  using share_guarded drop_guarded unfolding guarded_by_def ensures_def calm_def by blast

subsection \<open>Counting downloads\<close>

definition same_links :: "hctx \<Rightarrow> hctx \<Rightarrow> bool" where
  "same_links c d \<longleftrightarrow> hs_links (hx_sv d) = hs_links (hx_sv c)"

interpretation lk: http_transition same_links
  by unfold_locales (simp_all add: same_links_def)

lemma same_links_steps:
  "within same_links (respond f)" "within same_links now" "within same_links (disk op)"
  "within same_links (share_limiter h)" "within same_links (set_server (\<lambda>s. s\<lparr>hs_activity := k s\<rparr>))"
  by (auto simp: within_def same_links_def respond_def now_def disk_def share_limiter_def set_server_def
      split: prod.split)

lemmas link_rules = lk.core same_links_steps

lemma same_links_logActivity: "within same_links (logActivity e)"
  unfolding logActivity_def by (intro link_rules)

lemma same_links_headers:
  "within same_links setShareDownloadHeaders" "within same_links (setFileDisposition rq name)"
  unfolding setShareDownloadHeaders_def setFileDisposition_def by (intro link_rules)+

lemma same_links_calm: "within calm m \<Longrightarrow> within same_links m"
  unfolding within_def same_links_def using calm_same(2) by blast

lemma within_node:
  "(\<And>x y z. within R (f x y z)) \<Longrightarrow> (\<And>v w. within R (g v w)) \<Longrightarrow>
     within R (case n of File x y z \<Rightarrow> f x y z | Dir v w \<Rightarrow> g v w)"
  by (cases n) simp_all

lemma same_links_send:
  "within same_links (send_counted n body)" "within same_links (missing_file rq e)"
  unfolding missing_file_def send_counted_def by (intro link_rules)+

lemma same_links_serve: "within same_links (serveStorageFile rq p name)"
  unfolding serveStorageFile_def Let_def by (intro link_rules same_links_send within_node)

text \<open>
  Up to the file the answer has only headers, and the links are as they were or with the reservation;
  after the file the answer stays as it is.
\<close>

definition held :: "ShareStore \<Rightarrow> hctx \<Rightarrow> hctx \<Rightarrow> bool" where
  "held s c d \<longleftrightarrow> hs_links (hx_sv d) = s \<and> hx_env d = hx_env c \<and> rs_status (hx_rs d) = rs_status (hx_rs c)"

definition carried :: "hctx \<Rightarrow> hctx \<Rightarrow> bool" where
  "carried c d \<longleftrightarrow> held (hs_links (hx_sv c)) c d"

interpretation cr: http_transition carried
  by unfold_locales (simp_all add: carried_def held_def)

lemma carried_steps:
  "within carried (respond (set_header k v))" "within carried now" "within carried (disk op)"
  "within carried (share_limiter h)"
  by (auto simp: within_def carried_def held_def respond_def set_header_def now_def disk_def share_limiter_def
      split: prod.split)

lemmas carried_rules = cr.core carried_steps

lemma carried_headers:
  "within carried setShareDownloadHeaders" "within carried (setFileDisposition rq name)"
  unfolding setShareDownloadHeaders_def setFileDisposition_def by (intro carried_rules)+

lemma carried_checks:
  "within carried (verifyShareCookie rq ident token)" "within carried (share_access rq ident token p granted)"
  unfolding verifyShareCookie_def share_access_def verify_link_def verify_authorized_def
    verifySharePassword_def Let_def
  by (intro carried_rules)+

lemma held_kept: "within carried m \<Longrightarrow> ensures (held s c) m (\<lambda>_. held s c)"
  by (rule ensures_within[where R = carried]) (simp_all add: carried_def held_def)

definition same_answer :: "hctx \<Rightarrow> hctx \<Rightarrow> bool" where
  "same_answer c d \<longleftrightarrow> hx_rs d = hx_rs c"

interpretation sa: http_transition same_answer
  by unfold_locales (simp_all add: same_answer_def)

lemma same_answer_steps:
  "within same_answer now" "within same_answer (links_step f)"
  "within same_answer (set_server (\<lambda>s. s\<lparr>hs_activity := k s\<rparr>))"
  by (auto simp: within_def same_answer_def now_def links_step_def set_server_def split: prod.split)

lemma same_answer_after:
  "within same_answer (finish_download ident b)" "within same_answer (logActivity e)"
  unfolding finish_download_def logActivity_def by (intro sa.core same_answer_steps)+

text \<open>
  What the answer to a request is that serves a file: a run of \<open>serveStorageFile\<close> with the answers of
  the outside that the request has, before which nothing was sent and whose response is the
  request's.
\<close>

definition served :: "hctx \<Rightarrow> request \<Rightarrow> bool \<Rightarrow> hctx \<Rightarrow> bool" where
  "served c rq b d \<longleftrightarrow> (\<exists>p name c1 result c2. hx_env c1 = hx_env c \<and>
     rs_status (hx_rs c1) = rs_status (hx_rs c) \<and> run_state (serveStorageFile rq p name) c1 = (result, c2) \<and>
     b = RecordableDownload result \<and> hx_rs d = hx_rs c2)"

definition finished :: "hctx \<Rightarrow> request \<Rightarrow> string \<Rightarrow> ShareStore \<Rightarrow> hctx \<Rightarrow> bool" where
  "finished c rq ident s d \<longleftrightarrow>
     (if rq_method rq = ''GET''
      then \<exists>b t e. served c rq b d \<and> hs_links (hx_sv d) = snd (FinishDownload t e ident b s)
      else hs_links (hx_sv d) = s)"

definition reserved :: "hctx \<Rightarrow> request \<Rightarrow> string \<Rightarrow> ShareStore \<Rightarrow> hctx \<Rightarrow> bool" where
  "reserved c rq ident s d \<longleftrightarrow> hs_links (hx_sv d) = s \<or>
     rq_method rq = ''GET'' \<and> (\<exists>t s1. ReserveDownload t ident s = (None, s1) \<and> finished c rq ident s1 d)"

lemma finished_same:
  assumes "same_links e d \<and> same_answer e d" and "finished c rq ident s e"
  shows "finished c rq ident s d"
proof -
  from assms(1) have eq: "hs_links (hx_sv d) = hs_links (hx_sv e)" "hx_rs d = hx_rs e"
    by (simp_all add: same_links_def same_answer_def)
  show ?thesis using assms(2) unfolding finished_def served_def eq .
qed

lemma finish_links:
  "ensures (\<lambda>d. hs_links (hx_sv d) = s \<and> served c rq b d)
     (if rq_method rq = ''GET'' then finish_download ident b else ret ()) (\<lambda>_. finished c rq ident s)"
proof (rule ensuresI)
  fix c' u d
  assume before: "hs_links (hx_sv c') = s \<and> served c rq b c'"
    and run: "run_state (if rq_method rq = ''GET'' then finish_download ident b else ret ()) c' = (u, d)"
  show "finished c rq ident s d"
  proof (cases "rq_method rq = ''GET''")
    case True
    then have run: "run_state (finish_download ident b) c' = (u, d)" using run by simp
    then have "hx_rs d = hx_rs c'" using withinD[OF same_answer_after(1)] by (simp add: same_answer_def)
    then have "served c rq b d" using before by (simp add: served_def)
    moreover have "\<exists>t e. hs_links (hx_sv d) = snd (FinishDownload t e ident b s)"
      using run before by (auto simp: finish_download_def now_def links_step_def split: prod.splits) (metis snd_conv)
    ultimately show ?thesis using True by (auto simp: finished_def)
  qed (use before run in \<open>simp add: finished_def\<close>)
qed

lemma share_file_links:
  "ensures (held s c) (share_file rq ident p clean) (\<lambda>_. finished c rq ident s)"
proof -
  have serve: "ensures (held s c) (serveStorageFile rq p name)
      (\<lambda>result d. hs_links (hx_sv d) = s \<and> served c rq (RecordableDownload result) d)" for name
  proof (rule ensuresI)
    fix c' result d assume "held s c c'" and run: "run_state (serveStorageFile rq p name) c' = (result, d)"
    then show "hs_links (hx_sv d) = s \<and> served c rq (RecordableDownload result) d"
      using withinD[OF same_links_serve run] unfolding same_links_def served_def held_def by metis
  qed
  have "within (\<lambda>c d. same_links c d \<and> same_answer c d) (logActivity e)" for e
    using same_links_logActivity same_answer_after(2) by (simp add: within_def)
  then have "ensures (finished c rq ident s) (logDownloadActivity e result) (\<lambda>_. finished c rq ident s)" for e result
    unfolding logDownloadActivity_def
    by (rule ensures_within) (rule finished_same)
  then show ?thesis
    unfolding share_file_def
    by (intro ensures_bind[OF held_kept[OF cr.asking]] ensures_bind[OF held_kept[OF carried_headers(1)]]
        ensures_bind[OF held_kept[OF carried_headers(2)]] ensures_bind[OF serve] ensures_bind[OF finish_links])
qed

lemma reserved_same: "within same_links m \<Longrightarrow> ensures (held s c) m (\<lambda>_. reserved c rq ident s)"
  unfolding reserved_def held_def ensures_def within_def same_links_def by blast

lemma same_links_answers:
  "within same_links (httpError m n)" "within same_links notFound" "within same_links (password_page title)"
  "within same_links (redirectSamePath rq)"
  by (intro same_links_calm calm_answers)+

lemma same_links_page: "within same_links (file_info_page a b cl info href)"
  unfolding file_info_page_def render_def by (intro link_rules)

lemma reserve_links:
  assumes "rq_method rq = ''GET''"
  shows "ensures (held s c) (reserve_download ident \<bind> (\<lambda>refused. case refused of
      Some _ \<Rightarrow> httpError ''share unavailable'' 410 | None \<Rightarrow> share_file rq ident p clean))
    (\<lambda>_. reserved c rq ident s)"
proof (rule ensures_bind[where Q = "\<lambda>refused d. \<exists>t s1. ReserveDownload t ident s = (refused, s1) \<and> held s1 c d"],
    goal_cases)
  case 1
  show ?case by (auto simp: ensures_def held_def reserve_download_def now_def links_step_def split: prod.split)
next
  case (2 refused)
  show ?case
  proof (rule ensuresI)
    fix c' u d
    assume c': "\<exists>t s1. ReserveDownload t ident s = (refused, s1) \<and> held s1 c c'"
      and run: "run_state (case refused of Some _ \<Rightarrow> httpError ''share unavailable'' 410
        | None \<Rightarrow> share_file rq ident p clean) c' = (u, d)"
    from c' obtain t s1 where r: "ReserveDownload t ident s = (refused, s1)" "held s1 c c'" by blast
    show "reserved c rq ident s d"
    proof (cases refused)
      case None
      then have "finished c rq ident s1 d" using ensuresD[OF share_file_links r(2)] run by simp
      then show ?thesis using r(1) None assms unfolding reserved_def by blast
    next
      case (Some e)
      then have "s1 = s" using r(1) by (auto simp: ReserveDownload_def split: option.splits)
      with ensuresD[OF reserved_same[OF same_links_answers(1)]] r(2) run Some show ?thesis by auto
    qed
  qed
qed

lemma share_opened_links:
  "ensures (held s c) (share_opened rq ident meta) (\<lambda>_. reserved c rq ident s)"
proof -
  have head: "ensures (held s c) (share_file rq ident p clean) (\<lambda>_. reserved c rq ident s)"
    if "rq_method rq \<noteq> ''GET''" for p clean
    by (rule ensures_weaken[OF share_file_links]) (use that in \<open>simp_all add: finished_def reserved_def\<close>)
  show ?thesis
    unfolding share_opened_def
    by (intro ensures_bind[OF held_kept[OF cr.asking]] ensures_sum ensures_pair ensures_if reserve_links head
        ensures_bind[OF held_kept[OF carried_steps(3)]] ensures_bind[OF held_kept[OF carried_steps(1)]]
        reserved_same same_links_answers same_links_page) auto
qed

lemma share_known_links:
  "ensures (held s c) (share_known rq ident token meta) (\<lambda>_. reserved c rq ident s)"
proof -
  have cookie: "within carried (if b then verifyShareCookie rq ident token else ret v)" for b v
    by (intro carried_rules carried_checks)
  have away: "within same_links (setShareCookie rq ident token \<bind> (\<lambda>_. redirectSamePath rq))"
    by (intro same_links_calm calm_rules calm_cookies calm_answers)
  have outcome: "ensures (held s c) (case out of
        ShareLimited \<Rightarrow> httpError limited_text 429
      | ShareError e \<Rightarrow>
          if e = ErrDenied then password_page ''Protected share''
          else httpError ''share unavailable'' 410
      | ShareOpen link \<Rightarrow>
          if pl_HasPassword link \<and> rq_method rq = ''POST'' then do {
            setShareCookie rq ident token;
            redirectSamePath rq
          }
          else share_opened rq ident link)
     (\<lambda>_. reserved c rq ident s)" for out
    by (cases out) (auto intro!: reserved_same same_links_answers share_opened_links away)
  show ?thesis
    unfolding share_known_def
    by (intro ensures_bind[OF held_kept[OF cookie]] ensures_bind[OF held_kept[OF carried_checks(2)]] ensures_if
        reserved_same same_links_answers outcome)
qed

definition share_prefix :: "request \<Rightarrow> string" where
  "share_prefix rq = (if HasPrefix (rq_path rq) ''/s/'' then ''/s/'' else ''/share/'')"

lemma share_reserved:
  assumes "run_state (shareLink rq) c = (u, d)"
  shows "hs_links (hx_sv d) = hs_links (hx_sv c) \<or>
    (\<exists>ident token. linkParts (rq_path rq) (share_prefix rq) = Some (ident, token) \<and>
       reserved c rq ident (hs_links (hx_sv c)) d)"
proof -
  consider "run_state (shareLink rq) c = run_state notFound c"
    | ident token meta where "linkParts (rq_path rq) (share_prefix rq) = Some (ident, token)"
      "run_state (shareLink rq) c = run_state (share_known rq ident token meta) c"
    unfolding shareLink_def share_prefix_def[symmetric]
    by (cases "linkParts (rq_path rq) (share_prefix rq)"; cases "\<exists>meta. Public (hs_links (hx_sv c))
        (fst (the (linkParts (rq_path rq) (share_prefix rq)))) = Inr meta \<and> pl_Kind meta = KindDownload")
      (auto split: sum.splits)
  then show ?thesis
  proof cases
    case 1
    then show ?thesis using withinD[OF same_links_answers(2)] assms by (metis same_links_def)
  next
    case 2
    then show ?thesis using ensuresD[OF share_known_links, of "hs_links (hx_sv c)" c c rq] assms unfolding held_def by metis
  qed
qed



end
