(* ===== verification/HttpChunks.thy ===== *)
theory HttpChunks
  imports HttpGuard OpenFileProofs
begin

text \<open>
  Uploads in chunks: a part file grows by what is received of a chunk that starts where it ends, and
  is never longer than the size that was announced.
\<close>

subsection \<open>Copying into the part file\<close>

lemma open_size_abs:
  assumes "root_ok r bs" and "segs xs" and "node_at (w_fs w) (bs @ xs) = Some (File c m t)"
  shows "open_size r (abs_path (bs @ xs)) w = (Inr (int (length c)), w)"
  using root_okD[OF assms(1)] rel_path_Join[OF assms(2)] assms(3)
  by (simp add: open_size_def relFromReal_abs[OF assms(1,2)])

lemma copy_in_cases:
  assumes root: "root_ok r bs" "segs xs" and held: "holds_file (bs @ xs) c w"
    and run: "copy_in r (abs_path (bs @ xs)) s read_err w = (x, w')"
  obtains k e where "x = Inr (int k, e)" "k \<le> length s" "holds_file (bs @ xs) (c @ take k s) w'"
    "e = None \<Longrightarrow> k = length s"
proof (cases "s = []")
  case True
  with run held that[of 0 read_err] show thesis by (simp add: copy_in_def)
next
  case False
  obtain m t where n: "node_at (w_fs w) (bs @ xs) = Some (File c m t)"
    using held by (auto simp: holds_file_def)
  obtain y w1 where wr: "op_write (bs @ xs) s w = (y, w1)" by (rule prod.exhaust)
  from op_write_cases[OF wr n] obtain k m' t' where k: "k \<le> length s" "y = Inr () \<Longrightarrow> k = length s"
    and n1: "node_at (w_fs w1) (bs @ xs) = Some (File (c @ take k s) m' t')" by blast
  have "x = Inr (int k, case y of Inl e \<Rightarrow> Some e | Inr _ \<Rightarrow> read_err) \<and> w' = w1"
    using run False k(1) wr open_size_abs[OF root n] open_size_abs[OF root n1]
    by (simp add: copy_in_def on_fd_abs[OF root])
  moreover have "(case y of Inl e \<Rightarrow> Some e | Inr _ \<Rightarrow> read_err) = None \<Longrightarrow> k = length s"
    using k(2) by (cases y) auto
  ultimately show thesis using that[of k] k(1) n1 by (auto simp: holds_file_def)
qed

text \<open>
  What of a chunk is in the part file afterwards: all of it when nothing is reported, and it fits; a
  prefix when the stream or the disk failed, and its length is reported.
\<close>

fun chunk_kept :: "string \<Rightarrow> string \<Rightarrow> int \<Rightarrow> int \<Rightarrow> err + int \<times> chunk_error option \<Rightarrow> string \<Rightarrow> bool" where
  "chunk_kept c s offset total_size (Inl e) c' = (c' = c)"
| "chunk_kept c s offset total_size (Inr (n, None)) c' =
     (c' = c @ s \<and> n = int (length s) \<and> offset + n \<le> total_size)"
| "chunk_kept c s offset total_size (Inr (n, Some (CopyError e))) c' =
     (\<exists>k \<le> length s. n = int k \<and> c' = c @ take k s)"
| "chunk_kept c s offset total_size (Inr (n, Some (ExceedsTotal e))) c' =
     ((e = None \<longrightarrow> c' = c) \<and> (\<exists>k. c' = c @ take k s))"

lemma copyChunk_cases:
  assumes root: "root_ok r bs" "segs xs" and held: "holds_file (bs @ xs) c w"
    and at: "int (length c) = offset" "offset \<le> total_size" "total_size \<le> max_i64"
    and small: "int (length (pt_content chunk)) \<le> max_i64"
    and run: "copyChunk r (abs_path (bs @ xs)) chunk offset total_size w = (x, w')"
  shows "\<exists>c'. holds_file (bs @ xs) c' w' \<and> chunk_kept c (pt_content chunk) offset total_size x c'"
proof -
  let ?s = "pt_content chunk"
  define remaining where "remaining = total_size - offset"
  define limit where "limit = (if remaining < max_i64 then remaining + 1 else remaining)"
  define e0 where "e0 = (if int (length ?s) < limit then pt_error chunk else None)"
  have rem: "0 \<le> remaining" "remaining \<le> max_i64" and lim: "remaining \<le> limit" "0 \<le> limit"
    using at by (simp_all add: remaining_def limit_def)
  note run' = run[unfolded copyChunk_def Let_def, folded remaining_def, folded limit_def, folded e0_def]
  obtain y w1 where ci: "copy_in r (abs_path (bs @ xs)) (take (nat limit) ?s) e0 w = (y, w1)"
    by (rule prod.exhaust)
  from copy_in_cases[OF root held ci] obtain k e where y: "y = Inr (int k, e)"
    and k: "k \<le> length (take (nat limit) ?s)" "e = None \<Longrightarrow> k = length (take (nat limit) ?s)"
    and f1: "holds_file (bs @ xs) (c @ take k (take (nat limit) ?s)) w1" by blast
  have "k \<le> nat limit" using k(1) by simp
  then have pre: "take k (take (nat limit) ?s) = take k ?s" by (simp add: min.absorb1)
  show ?thesis
  proof (cases e)
    case (Some e')
    then have "x = Inr (int k, Some (CopyError e')) \<and> w' = w1"
      using run' ci y by simp
    then show ?thesis using f1 k(1) unfolding pre by (intro exI[of _ "c @ take k ?s"]) auto
  next
    case None
    note k' = k(2)[OF None]
    show ?thesis
    proof (cases "int k \<le> remaining")
      case True
      then have x: "x = Inr (int k, None) \<and> w' = w1" using run' ci y None by simp
      have "length ?s \<le> nat limit"
        using True k' small rem by (auto simp: limit_def min_def split: if_splits)
      then have "take k ?s = ?s" "k = length ?s" using k' by simp_all
      then show ?thesis using x f1 True unfolding pre by (intro exI[of _ "c @ ?s"]) (simp add: remaining_def)
    next
      case False
      obtain z w2 where tr: "op_truncate (nat offset) (bs @ xs) w1 = (z, w2)" by (rule prod.exhaust)
      obtain m t where n1: "node_at (w_fs w1) (bs @ xs) = Some (File (c @ take k ?s) m t)"
        using f1 unfolding pre by (auto simp: holds_file_def)
      have x: "x = Inr (int k, Some (ExceedsTotal (case z of Inl e \<Rightarrow> Some e | Inr _ \<Rightarrow> None))) \<and> w' = w2"
        using run' ci y None False tr by (simp add: on_fd_abs[OF root])
      have len: "nat offset \<le> length (c @ take k ?s)" and cut: "take (nat offset) (c @ take k ?s) = c"
        using at(1) by auto
      from op_truncate_cases[OF tr n1 len] show ?thesis
      proof cases
        case (1 e)
        then show ?thesis using x n1 by (intro exI[of _ "c @ take k ?s"]) (auto simp: holds_file_def)
      next
        case (2 m' t')
        then have "holds_file (bs @ xs) c w2" unfolding cut by (auto simp: holds_file_def)
        then show ?thesis using x 2(1) by (intro exI[of _ c]) (auto intro: exI[of _ 0])
      qed
    qed
  qed
qed

subsection \<open>Receiving a chunk\<close>

lemma ensures_disk:
  "(\<And>c x w. P c \<Longrightarrow> op (hs_root (hx_sv c)) (hx_disk c) = (x, w) \<Longrightarrow> Q x (c\<lparr>hx_disk := w\<rparr>)) \<Longrightarrow>
     ensures P (disk op) Q"
  by (rule ensuresI) (auto simp: disk_def split: prod.splits)

definition part_at :: "Root \<Rightarrow> path \<Rightarrow> string \<Rightarrow> hctx \<Rightarrow> bool" where
  "part_at r p s c \<longleftrightarrow> hs_root (hx_sv c) = r \<and> holds_file p s (hx_disk c)"

lemma quiet_part: "quiet c d \<Longrightarrow> part_at r p s c \<Longrightarrow> part_at r p s d"
  using quiet_fields(1,5)[of c d] by (simp add: part_at_def holds_file_def)

lemma quiet_fail_with: "within quiet (fail_with n e)"
  unfolding fail_with_def by (intro quiet_rules quiet_answers)

definition chunk_ok :: "chunk_form \<Rightarrow> bool" where
  "chunk_ok cf \<longleftrightarrow> 0 \<le> cf_offset cf \<and> cf_offset cf \<le> cf_total cf \<and> cf_total cf \<le> max_i64 \<and>
     int (length (pt_content (cf_chunk cf))) \<le> max_i64"

lemma parse_chunk_ok:
  "parse_chunk rq = Inr cf \<Longrightarrow> int (length (pt_content (cf_chunk cf))) \<le> max_i64 \<Longrightarrow> chunk_ok cf"
  by (auto simp: parse_chunk_def chunk_ok_def Let_def dest: ParseInt_range split: if_splits option.splits)

text \<open>
  What the part file holds after a chunk, when it held \<open>old\<close>: a chunk that starts the file starts with
  nothing, another one with \<open>old\<close>, whose length is the offset.
\<close>

fun part_kept :: "Root \<Rightarrow> path \<Rightarrow> string \<Rightarrow> chunk_form \<Rightarrow> part_outcome \<Rightarrow> hctx \<Rightarrow> bool" where
  "part_kept r p old cf PartAnswered c =
     (cf_offset cf \<noteq> 0 \<longrightarrow> (\<exists>k. part_at r p (old @ take k (pt_content (cf_chunk cf))) c))"
| "part_kept r p old cf (PartFailed e n) c =
     (\<exists>start k. (cf_offset cf \<noteq> 0 \<longrightarrow> start = old) \<and> int (length start) = cf_offset cf \<and>
        k \<le> length (pt_content (cf_chunk cf)) \<and> n = cf_offset cf + int k \<and>
        part_at r p (start @ take k (pt_content (cf_chunk cf))) c)"
| "part_kept r p old cf (PartWritten n) c =
     (\<exists>start. (cf_offset cf \<noteq> 0 \<longrightarrow> start = old) \<and> int (length start) = cf_offset cf \<and>
        n = cf_offset cf + int (length (pt_content (cf_chunk cf))) \<and> n \<le> cf_total cf \<and>
        part_at r p (start @ pt_content (cf_chunk cf)) c)"

text \<open>Before the file is opened, and with it open.\<close>

definition before_part :: "Root \<Rightarrow> path \<Rightarrow> string \<Rightarrow> chunk_form \<Rightarrow> hctx \<Rightarrow> bool" where
  "before_part r p old cf c \<longleftrightarrow> hs_root (hx_sv c) = r \<and> (cf_offset cf \<noteq> 0 \<longrightarrow> holds_file p old (hx_disk c))"

definition open_part :: "Root \<Rightarrow> path \<Rightarrow> string \<Rightarrow> chunk_form \<Rightarrow> hctx \<Rightarrow> bool" where
  "open_part r p old cf c \<longleftrightarrow> (\<exists>s. part_at r p s c \<and> (cf_offset cf \<noteq> 0 \<longrightarrow> s = old))"

lemma answered_kept:
  assumes "\<And>c. P c \<Longrightarrow> part_kept r p old cf PartAnswered c" and "within quiet m"
  shows "ensures P (do { m; ret PartAnswered }) (part_kept r p old cf)"
proof (rule ensures_bind[where Q = "\<lambda>_. part_kept r p old cf PartAnswered"])
  have "ensures (part_kept r p old cf PartAnswered) m (\<lambda>_. part_kept r p old cf PartAnswered)"
    by (rule ensures_within[OF assms(2)]) (auto dest: quiet_part)
  then show "ensures P m (\<lambda>_. part_kept r p old cf PartAnswered)"
    by (rule ensures_weaken) (use assms(1) in auto)
qed (auto intro: ensures_ret)

lemma before_answered: "before_part r p old cf c \<Longrightarrow> part_kept r p old cf PartAnswered c"
  by (auto simp: before_part_def part_at_def intro: exI[of _ 0])

lemma open_answered: "open_part r p old cf c \<Longrightarrow> part_kept r p old cf PartAnswered c"
  by (auto simp: open_part_def intro: exI[of _ 0])

lemma part_removed:
  assumes "os_path partPath = p"
  shows "ensures (before_part r p old cf)
    (if cf_offset cf = 0 then do { _ \<leftarrow> disk (\<lambda>_. op_remove (os_path partPath)); ret () } else ret ())
    (\<lambda>_. before_part r p old cf)"
  by (intro ensures_if ensures_bind[where Q = "\<lambda>_. before_part r p old cf"] ensures_ret ensures_disk)
    (auto simp: before_part_def)

lemma part_opened:
  assumes "os_path partPath = p"
  shows "ensures (before_part r p old cf) (disk (\<lambda>_. op_open (os_path partPath) part_flags mode_600))
    (\<lambda>x c. case x of Inl e \<Rightarrow> before_part r p old cf c | Inr _ \<Rightarrow> open_part r p old cf c)"
proof (rule ensures_disk)
  fix c x w
  assume b: "before_part r p old cf c" and "op_open (os_path partPath) part_flags mode_600 (hx_disk c) = (x, w)"
  then have run: "op_open p part_flags mode_600 (hx_disk c) = (x, w)" by (simp add: assms)
  have "\<not> o_trunc part_flags" by (simp add: part_flags_def)
  from op_open_cases[OF run this]
  show "case x of Inl e \<Rightarrow> before_part r p old cf (c\<lparr>hx_disk := w\<rparr>)
      | Inr _ \<Rightarrow> open_part r p old cf (c\<lparr>hx_disk := w\<rparr>)"
  proof cases
    case (1 e)
    then show ?thesis using b by (auto simp: before_part_def holds_file_def)
  next
    case (2 s m t)
    then show ?thesis
      using b by (auto simp: before_part_def open_part_def part_at_def holds_file_def)
  next
    case (3 m t)
    then have "cf_offset cf = 0" using b by (auto simp: before_part_def holds_file_def)
    then show ?thesis using b 3 by (auto simp: before_part_def open_part_def part_at_def holds_file_def)
  qed
qed

definition stat_part :: "Root \<Rightarrow> path \<Rightarrow> string \<Rightarrow> chunk_form \<Rightarrow> node \<Rightarrow> hctx \<Rightarrow> bool" where
  "stat_part r p old cf info c \<longleftrightarrow> (\<exists>s. part_at r p s c \<and> (cf_offset cf \<noteq> 0 \<longrightarrow> s = old) \<and>
     node_size info = int (length s))"

lemma part_stat:
  assumes "root_ok r bs" and "segs xs"
  shows "ensures (open_part r (bs @ xs) old cf) (disk (\<lambda>r. on_fd r (abs_path (bs @ xs)) op_stat))
    (\<lambda>x c. case x of Inl e \<Rightarrow> open_part r (bs @ xs) old cf c
       | Inr info \<Rightarrow> stat_part r (bs @ xs) old cf info c)"
proof (rule ensures_disk)
  fix c x w
  assume b: "open_part r (bs @ xs) old cf c"
    and run: "on_fd (hs_root (hx_sv c)) (abs_path (bs @ xs)) op_stat (hx_disk c) = (x, w)"
  then have "op_stat (bs @ xs) (hx_disk c) = (x, w)"
    by (auto simp: open_part_def part_at_def on_fd_abs[OF assms])
  then show "case x of Inl e \<Rightarrow> open_part r (bs @ xs) old cf (c\<lparr>hx_disk := w\<rparr>)
      | Inr info \<Rightarrow> stat_part r (bs @ xs) old cf info (c\<lparr>hx_disk := w\<rparr>)"
  proof (cases rule: stat_cases)
    case 1
    then show ?thesis using b by (auto simp: open_part_def part_at_def holds_file_def)
  next
    case 2
    show ?thesis
    proof (cases x)
      case (Inl e)
      then show ?thesis using b 2(1) by (auto simp: open_part_def part_at_def holds_file_def)
    next
      case (Inr info)
      then have "node_at (w_fs (hx_disk c)) (bs @ xs) = Some info" using 2(2) walk_node by metis
      then show ?thesis using b 2(1) Inr
        by (auto simp: open_part_def stat_part_def part_at_def holds_file_def)
    qed
  qed
qed

lemma part_seek:
  "ensures (stat_part r p old cf info) (disk (\<lambda>r. on_fd r q op_fd)) (\<lambda>_. stat_part r p old cf info)"
  by (rule ensures_disk) (use fd_same in \<open>fastforce simp: stat_part_def part_at_def holds_file_def\<close>)

lemma part_copied:
  assumes root: "root_ok r bs" "segs xs" and ok: "chunk_ok cf" and here: "node_size info = cf_offset cf"
  shows "ensures (stat_part r (bs @ xs) old cf info)
    (disk (\<lambda>r. copyChunk r (abs_path (bs @ xs)) (cf_chunk cf) (cf_offset cf) (cf_total cf)))
    (\<lambda>x c. \<exists>start c'. (cf_offset cf \<noteq> 0 \<longrightarrow> start = old) \<and> int (length start) = cf_offset cf \<and>
       part_at r (bs @ xs) c' c \<and>
       chunk_kept start (pt_content (cf_chunk cf)) (cf_offset cf) (cf_total cf) x c')"
proof (rule ensures_disk)
  fix c x w
  assume b: "stat_part r (bs @ xs) old cf info c"
    and run: "copyChunk (hs_root (hx_sv c)) (abs_path (bs @ xs)) (cf_chunk cf) (cf_offset cf) (cf_total cf)
      (hx_disk c) = (x, w)"
  from b obtain s where s: "part_at r (bs @ xs) s c" "cf_offset cf \<noteq> 0 \<longrightarrow> s = old"
      "int (length s) = cf_offset cf"
    using here by (auto simp: stat_part_def)
  then have h: "holds_file (bs @ xs) s (hx_disk c)" and r: "hs_root (hx_sv c) = r" by (simp_all add: part_at_def)
  from copyChunk_cases[OF root h s(3) _ _ _ run[unfolded r]] ok obtain c' where
    "holds_file (bs @ xs) c' w" "chunk_kept s (pt_content (cf_chunk cf)) (cf_offset cf) (cf_total cf) x c'"
    by (auto simp: chunk_ok_def)
  then show "\<exists>start c'. (cf_offset cf \<noteq> 0 \<longrightarrow> start = old) \<and> int (length start) = cf_offset cf \<and>
       part_at r (bs @ xs) c' (c\<lparr>hx_disk := w\<rparr>) \<and>
       chunk_kept start (pt_content (cf_chunk cf)) (cf_offset cf) (cf_total cf) x c'"
    using s r by (intro exI[of _ s] exI[of _ c']) (simp add: part_at_def)
qed

lemma ensures_asking: "(\<And>x. ensures P (f x) R) \<Longrightarrow> ensures P (ask g \<bind> f) R"
  by (simp add: ensures_def)

text \<open>After the copy: the outcome of a chunk is what its part of the file is.\<close>

definition copied_part ::
  "Root \<Rightarrow> path \<Rightarrow> string \<Rightarrow> chunk_form \<Rightarrow> err + int \<times> chunk_error option \<Rightarrow> hctx \<Rightarrow> bool" where
  "copied_part r p old cf x c \<longleftrightarrow> (\<exists>start c'. (cf_offset cf \<noteq> 0 \<longrightarrow> start = old) \<and>
     int (length start) = cf_offset cf \<and> part_at r p c' c \<and>
     chunk_kept start (pt_content (cf_chunk cf)) (cf_offset cf) (cf_total cf) x c')"

lemma copied_answered:
  "copied_part r p old cf (Inl e) c \<Longrightarrow> part_kept r p old cf PartAnswered c"
  "copied_part r p old cf (Inr (n, Some (ExceedsTotal te))) c \<Longrightarrow> part_kept r p old cf PartAnswered c"
  by (auto simp: copied_part_def intro: exI[of _ 0])

lemma copied_received:
  "copied_part r p old cf (Inr (n, Some (CopyError e))) c \<Longrightarrow>
     part_kept r p old cf (PartFailed e (cf_offset cf + n)) c"
  "copied_part r p old cf (Inr (n, None)) c \<Longrightarrow> part_kept r p old cf (PartWritten (cf_offset cf + n)) c"
  by (auto simp: copied_part_def)

lemma stat_answered: "stat_part r p old cf info c \<Longrightarrow> part_kept r p old cf PartAnswered c"
  by (auto simp: stat_part_def intro: exI[of _ 0])

lemma receive_part_kept:
  assumes root: "root_ok r bs" "segs xs" and ok: "chunk_ok cf"
  shows "ensures (before_part r (bs @ xs) old cf) (receive_part cf (abs_path (bs @ xs)))
    (part_kept r (bs @ xs) old cf)"
proof -
  let ?p = "bs @ xs"
  have p: "os_path (abs_path ?p) = ?p" using root root_okD[OF root(1)] by simp
  show ?thesis
    unfolding receive_part_def
  proof (rule ensures_bind[OF part_removed[OF p]], rule ensures_bind[OF part_opened[OF p]], rule ensures_sum,
      goal_cases)
    case (1 _ opened e)
    then show ?case by (auto intro!: answered_kept before_answered quiet_fail_with)
  next
    case (2 _ opened u)
    show ?case
      unfolding 2 sum.case
    proof (rule ensures_bind[OF part_stat[OF root]], rule ensures_sum, goal_cases)
      case (1 stat e)
      then show ?case by (auto intro!: answered_kept open_answered quiet_fail_with)
    next
      case (2 stat info)
      show ?case
        unfolding 2 sum.case
      proof (rule ensures_if, goal_cases)
        case 1
        then show ?case by (intro answered_kept stat_answered quiet_answers)
      next
        case 2
        then have here: "node_size info = cf_offset cf" by simp
        show ?case
        proof (rule ensures_bind[OF part_seek], rule ensures_sum, goal_cases)
          case (1 seeked e)
          then show ?case by (intro answered_kept stat_answered quiet_fail_with)
        next
          case (2 seeked u)
          show ?case
          proof (rule ensures_bind[OF part_copied[OF root ok here, folded copied_part_def]],
              rule ensures_asking, goal_cases)
            case (1 copied msg)
            consider e where "copied = Inl e" | n where "copied = Inr (n, None)"
              | n e where "copied = Inr (n, Some (CopyError e))"
              | n e where "copied = Inr (n, Some (ExceedsTotal e))"
              by (metis sum.exhaust prod.exhaust option.exhaust chunk_error.exhaust)
            then show ?case
              by cases (auto simp del: part_kept.simps intro!: answered_kept quiet_fail_with quiet_answers
                  ensures_ret intro: copied_answered copied_received)
          qed
        qed
      qed
    qed
  qed
qed

subsection \<open>A file in chunks\<close>

text \<open>How far the file goes after a chunk, as the code reports it.\<close>

fun received_to :: "part_outcome \<Rightarrow> int option" where
  "received_to PartAnswered = None"
| "received_to (PartFailed e n) = Some n"
| "received_to (PartWritten n) = Some n"

text \<open>
  \<open>uploaded r p s c\<close>: in the context \<open>c\<close> chunks have been sent to the part file \<open>p\<close> of which \<open>s\<close> was
  received: first one at offset 0, whatever the file was before, then others, each after anything
  that leaves the file alone. A chunk that broke off counts as far as it was reported.
\<close>

inductive uploaded :: "Root \<Rightarrow> path \<Rightarrow> string \<Rightarrow> hctx \<Rightarrow> bool" for r p where
  first: "run_state (receive_part cf (abs_path p)) c = (out, d) \<Longrightarrow> hs_root (hx_sv c) = r \<Longrightarrow> chunk_ok cf \<Longrightarrow>
    cf_offset cf = 0 \<Longrightarrow> received_to out = Some n \<Longrightarrow>
    uploaded r p (take (nat n) (pt_content (cf_chunk cf))) d"
| later: "uploaded r p s c \<Longrightarrow> run_state (receive_part cf (abs_path p)) c = (out, d) \<Longrightarrow> chunk_ok cf \<Longrightarrow>
    cf_offset cf \<noteq> 0 \<Longrightarrow> received_to out = Some n \<Longrightarrow>
    uploaded r p (s @ take (nat (n - cf_offset cf)) (pt_content (cf_chunk cf))) d"
| other: "uploaded r p s c \<Longrightarrow> hs_root (hx_sv d) = r \<Longrightarrow>
    node_at (w_fs (hx_disk d)) p = node_at (w_fs (hx_disk c)) p \<Longrightarrow> uploaded r p s d"

lemma receive_part_run:
  assumes root: "root_ok r bs" "segs xs" and ok: "chunk_ok cf"
    and run: "run_state (receive_part cf (abs_path (bs @ xs))) c = (out, d)"
    and before: "before_part r (bs @ xs) old cf c" and n: "received_to out = Some n"
  shows "\<exists>start. (cf_offset cf \<noteq> 0 \<longrightarrow> start = old) \<and> int (length start) = cf_offset cf \<and> n \<ge> cf_offset cf \<and>
    part_at r (bs @ xs) (start @ take (nat (n - cf_offset cf)) (pt_content (cf_chunk cf))) d \<and>
    int (length (start @ take (nat (n - cf_offset cf)) (pt_content (cf_chunk cf)))) = n \<and>
    (\<forall>m. out = PartWritten m \<longrightarrow> n \<le> cf_total cf \<and> nat (n - cf_offset cf) = length (pt_content (cf_chunk cf)))"
proof -
  have "part_kept r (bs @ xs) old cf out d"
    using ensuresD[OF receive_part_kept[OF root ok] before run] .
  with n show ?thesis by (cases out) fastforce+
qed

lemma uploaded_holds:
  assumes "root_ok r bs" "segs xs" and "uploaded r (bs @ xs) s c"
  shows "part_at r (bs @ xs) s c"
  using assms(3)
proof (induction rule: uploaded.induct)
  case (first cf c out d n)
  then have "before_part r (bs @ xs) [] cf c" by (simp add: before_part_def)
  from receive_part_run[OF assms(1,2) first(3,1) this first(5)] first(4) show ?case by auto
next
  case (later s c cf out d n)
  then have "before_part r (bs @ xs) s cf c" by (simp add: before_part_def part_at_def)
  from receive_part_run[OF assms(1,2) later(3,2) this later(5)] later(4) show ?case by auto
next
  case (other s c d)
  then show ?case by (simp add: part_at_def holds_file_def)
qed

text \<open>C8: Whatever calls on the disk fail, and however the client cuts and resumes its chunks, the
  part file is what was received of them, one after the other: a chunk is only added where it
  starts, nothing is lost or added twice. A chunk that is reported as written is all in the file,
  which is not longer than announced.\<close>

theorem chunks_assemble:
  assumes "root_ok r bs" "segs xs" and "uploaded r (bs @ xs) s c" and "cf_offset cf \<noteq> 0" and "chunk_ok cf"
    and "run_state (receive_part cf (abs_path (bs @ xs))) c = (out, d)"
  shows "holds_file (bs @ xs) s (hx_disk c) \<and>
    (case out of
       PartAnswered \<Rightarrow> \<exists>k. holds_file (bs @ xs) (s @ take k (pt_content (cf_chunk cf))) (hx_disk d)
     | PartFailed e n \<Rightarrow> int (length s) = cf_offset cf \<and>
         holds_file (bs @ xs) (s @ take (nat (n - cf_offset cf)) (pt_content (cf_chunk cf))) (hx_disk d)
     | PartWritten n \<Rightarrow> int (length s) = cf_offset cf \<and> n \<le> cf_total cf \<and>
         int (length (s @ pt_content (cf_chunk cf))) = n \<and>
         holds_file (bs @ xs) (s @ pt_content (cf_chunk cf)) (hx_disk d))"
proof -
  have s: "part_at r (bs @ xs) s c" using uploaded_holds[OF assms(1-3)] .
  then have "before_part r (bs @ xs) s cf c" by (simp add: before_part_def part_at_def)
  from ensuresD[OF receive_part_kept[OF assms(1,2,5)] this assms(6)]
  have "part_kept r (bs @ xs) s cf out d" .
  then show ?thesis using s assms(4) by (cases out) (auto simp: part_at_def)
qed

text \<open>Two chunks of a file, to a part file of the sample server.\<close>

definition sample_part :: path where
  "sample_part = [''srv'', ''files'', ''up'']"

definition sample_chunk :: "int \<Rightarrow> string \<Rightarrow> chunk_form" where
  "sample_chunk offset s = \<lparr>cf_filename = ''f'', cf_uploadID = ''12345678'', cf_offset = offset,
     cf_total = 4, cf_chunk = \<lparr>pt_field = ''chunk'', pt_filename = ''f'', pt_content = s, pt_error = None\<rparr>\<rparr>"

lemma sample_part_path: "sample_part = [''srv'', ''files''] @ [''up'']" "segs [''up'']"
  by (simp_all add: sample_part_def seg_def)

lemma sample_chunk_ok: "0 \<le> offset \<Longrightarrow> offset \<le> 4 \<Longrightarrow> length s \<le> 4 \<Longrightarrow> chunk_ok (sample_chunk offset s)"
  by (simp add: chunk_ok_def sample_chunk_def)

theorem chunks_assemble_witness:
  "\<exists>c d. run_state (receive_part (sample_chunk 2 ''cd'') ''/srv/files/up'') c = (PartWritten 4, d) \<and>
     holds_file sample_part ''ab'' (hx_disk c) \<and> holds_file sample_part ''abcd'' (hx_disk d)"
proof -
  let ?r1 = "run_state (receive_part (sample_chunk 0 ''ab'') (abs_path sample_part)) (sample_hctx no_links)"
  let ?r2 = "run_state (receive_part (sample_chunk 2 ''cd'') (abs_path sample_part)) (snd ?r1)"
  have path: "abs_path sample_part = ''/srv/files/up''" by (simp add: sample_part_def abs_path_def)
  have one: "fst ?r1 = PartWritten 2" by code_simp
  have two: "fst ?r2 = PartWritten 4" by code_simp
  have root: "hs_root (hx_sv (sample_hctx no_links)) = sample_root"
    by (simp add: sample_hctx_def sample_http_def New_http_def)
  have "uploaded sample_root sample_part (take (nat 2) (pt_content (cf_chunk (sample_chunk 0 ''ab'')))) (snd ?r1)"
    by (rule uploaded.first[of _ _ "sample_hctx no_links" "PartWritten 2"])
      (use one root in \<open>auto simp: prod_eq_iff chunk_ok_def sample_chunk_def\<close>)
  then have up: "uploaded sample_root ([''srv'', ''files''] @ [''up'']) ''ab'' (snd ?r1)"
    unfolding sample_part_path(1)[symmetric] by (simp add: sample_chunk_def)
  have "run_state (receive_part (sample_chunk 2 ''cd'') (abs_path ([''srv'', ''files''] @ [''up'']))) (snd ?r1) =
      (PartWritten 4, snd ?r2)"
    using two unfolding sample_part_path(1)[symmetric] by (simp add: prod_eq_iff)
  from chunks_assemble[OF sample_root_ok sample_part_path(2) up _ _ this]
  have "holds_file sample_part ''ab'' (hx_disk (snd ?r1)) \<and> holds_file sample_part ''abcd'' (hx_disk (snd ?r2))"
    unfolding sample_part_path(1)[symmetric] by (simp add: sample_chunk_ok) (simp add: sample_chunk_def)
  with two path show ?thesis by (intro exI[of _ "snd ?r1"] exI[of _ "snd ?r2"]) (simp add: prod_eq_iff)
qed

end
