(* ===== verification/HttpDrops.thy ===== *)
theory HttpDrops
  imports HttpLinks HttpChunks
begin

text \<open>
  Uploads through a drop link that may not replace files: whatever calls fail, every file that was
  there keeps its content. The directory of part files is the only one where files come and go.
\<close>

subsection \<open>Effects that keep a file\<close>

text \<open>\<open>keeps p s m\<close>: the file \<open>p\<close> with content \<open>s\<close> stays. What is said of the result is only said while it is there.\<close>

abbreviation keeps :: "path \<Rightarrow> string \<Rightarrow> 'a io \<Rightarrow> bool" where
  "keeps p s m \<equiv> triple (holds_file p s) m (\<lambda>_. holds_file p s) (\<lambda>_. holds_file p s)"

lemma keeps_only: "only S m \<Longrightarrow> p \<notin> S \<Longrightarrow> keeps p s m"
  using triple_only holds_file_frame by blast

lemma keeps_reads: "only {} m \<Longrightarrow> keeps p s m"
  by (erule keeps_only) simp

lemmas keeps_rules = triple_bind triple_return triple_throw triple_attempt triple_if triple_sum

lemma keeps_in_root:
  assumes "\<And>q. triple (holds_file p s) (op q) Q (\<lambda>_. holds_file p s)"
  shows "triple (holds_file p s) (in_root r x op) Q (\<lambda>_. holds_file p s)"
proof -
  have "keeps p s (op_opendir q)" "keeps p s (liftE rel)" for q and rel :: "err + string"
    by (intro keeps_reads frame)+
  then show ?thesis unfolding in_root_def by (intro triple_bind[where Q = "\<lambda>_. holds_file p s"] assms)
qed

text \<open>The path that an open file has.\<close>

definition fd_path :: "Root \<Rightarrow> string \<Rightarrow> path" where
  "fd_path r x = (case relFromReal r x of Inl _ \<Rightarrow> [] | Inr rel \<Rightarrow> os_path (r_Base r) @ rel_path rel)"

lemma keeps_on_fd:
  assumes "only {fd_path r x} (op (fd_path r x))" and "p \<noteq> fd_path r x"
  shows "keeps p s (on_fd r x op)"
proof (cases "relFromReal r x")
  case (Inr rel)
  then have "on_fd r x op = op (fd_path r x)" by (simp add: on_fd_def fd_path_def bindE_liftE)
  then show ?thesis using keeps_only[OF assms(1)] assms(2) by simp
qed (auto simp: on_fd_def bindE_def triple_def)

text \<open>Files that are opened exclusively are new.\<close>

abbreviation excl_flags :: open_flags where
  "excl_flags \<equiv> \<lparr>o_create = True, o_trunc = False, o_excl = True\<rparr>"

lemma excl_is_new:
  assumes "op_open q excl_flags m w = (x, w')" and "holds_file p s w"
  shows "holds_file p s w' \<and> (x = Inr () \<longrightarrow> p \<noteq> q)"
  using assms(1) unfolding op_open_def
proof (rule atomic_cases)
  fix t assume run: "open_fs q excl_flags m (w_fs w) t = (x, w_fs w')"
  show ?thesis
  proof (cases "walk (w_fs w) q")
    case (Inl e)
    then have "e = ErrNotExist \<Longrightarrow> node_at (w_fs w) q = None"
      by (auto simp: walk_def split: if_splits option.splits)
    then have "w_fs w' = w_fs w \<and> x \<noteq> Inr () \<or>
        w_fs w' = put_node q (File [] m t) (w_fs w) \<and> node_at (w_fs w) q = None"
      using run Inl by (auto simp: open_fs_def split: if_splits)
    then show ?thesis using assms(2) by (auto simp: holds_file_def)
  next
    case (Inr n)
    then show ?thesis using run assms(2) by (cases n) (auto simp: open_fs_def holds_file_def)
  qed
qed (use assms(2) in \<open>simp add: holds_file_def\<close>)

lemma keeps_open_excl:
  "triple (holds_file p s) (OpenFile r x excl_flags m)
     (\<lambda>_ w. holds_file p s w \<and> p \<noteq> fd_path r x) (\<lambda>_. holds_file p s)"
proof (rule tripleI)
  fix w u w' assume h: "holds_file p s w" and run: "OpenFile r x excl_flags m w = (Inr u, w')"
  from run[unfolded OpenFile_def in_root_def] obtain w1 rel where
    o: "op_opendir (os_path (r_Base r)) w = (Inr (), w1)" "relFromReal r x = Inr rel"
      "op_open (os_path (r_Base r) @ rel_path rel) excl_flags m w1 = (Inr u, w')"
    by (elim Inr_bindE) auto
  have "keeps p s (op_opendir (os_path (r_Base r)))" by (intro keeps_reads frame)
  from tripleD_Inr[OF this h o(1)] have "holds_file p s w1" .
  from excl_is_new[OF o(3) this] o(2) show "holds_file p s w' \<and> p \<noteq> fd_path r x"
    by (simp add: fd_path_def)
next
  fix w e w' assume "holds_file p s w" "OpenFile r x excl_flags m w = (Inl e, w')"
  moreover have "keeps p s (OpenFile r x excl_flags m)"
    unfolding OpenFile_def by (intro keeps_in_root tripleI) (use excl_is_new in blast)+
  ultimately show "holds_file p s w'" by (metis tripleD_Inl)
qed

lemma keeps_stage:
  "triple (holds_file p s) (stage_attempts r pre dir k n)
     (\<lambda>x w. holds_file p s w \<and> p \<noteq> fd_path r x) (\<lambda>_. holds_file p s)"
proof (induction n arbitrary: k)
  case 0
  show ?case unfolding stage_attempts.simps by (rule triple_throw)
next
  case (Suc n)
  have "keeps p s timeNow" by (intro keeps_reads frame)
  moreover have "triple (holds_file p s)
      (bindE (attempt (OpenFile r x excl_flags mode_600)) (\<lambda>opened. case opened of
         Inr _ \<Rightarrow> returnE x
       | Inl e \<Rightarrow> if e \<noteq> ErrExist then throwE e else stage_attempts r pre dir (Suc k) n))
      (\<lambda>x w. holds_file p s w \<and> p \<noteq> fd_path r x) (\<lambda>_. holds_file p s)" for x
  proof (rule triple_bind[where Q = "\<lambda>opened w. holds_file p s w \<and> (\<forall>u. opened = Inr u \<longrightarrow> p \<noteq> fd_path r x)"])
    show "triple (holds_file p s) (attempt (OpenFile r x excl_flags mode_600))
        (\<lambda>opened w. holds_file p s w \<and> (\<forall>u. opened = Inr u \<longrightarrow> p \<noteq> fd_path r x)) (\<lambda>_. holds_file p s)"
      by (rule triple_attempt, rule triple_weaken[OF keeps_open_excl]) auto
    show "triple (\<lambda>w. holds_file p s w \<and> (\<forall>u. opened = Inr u \<longrightarrow> p \<noteq> fd_path r x)) (case opened of
         Inr _ \<Rightarrow> returnE x
       | Inl e \<Rightarrow> if e \<noteq> ErrExist then throwE e else stage_attempts r pre dir (Suc k) n)
      (\<lambda>x w. holds_file p s w \<and> p \<noteq> fd_path r x) (\<lambda>_. holds_file p s)" for opened
      by (intro triple_sum triple_if triple_throw triple_return triple_weaken[OF Suc.IH]) auto
  qed
  ultimately show ?case unfolding stage_attempts.simps Let_def by (rule triple_bind)
qed

lemma keeps_staged:
  "triple (holds_file p s) (staged_upload pre r) (\<lambda>x w. holds_file p s w \<and> p \<noteq> fd_path r x) (\<lambda>_. holds_file p s)"
proof -
  have "keeps p s (MkdirAll r d m)" for d m by (intro keeps_reads frame)
  then show ?thesis unfolding staged_upload_def Let_def by (rule triple_bind) (rule keeps_stage)
qed

lemma keeps_link: "triple (holds_file p s) (op_link a b) (\<lambda>_ w. holds_file p s w \<and> p \<noteq> b) (\<lambda>_. holds_file p s)"
proof -
  have "holds_file p s w' \<and> (x = Inr () \<longrightarrow> p \<noteq> b)" if "op_link a b w = (x, w')" "holds_file p s w" for x w w'
    using that(1) by (cases rule: link_cases) (use that(2) in \<open>auto simp: holds_file_def\<close>)
  then show ?thesis by (intro tripleI) auto
qed

lemma keeps_chmod: "keeps p s (op_chmod q mode)"
proof -
  have "holds_file p s w'" if "op_chmod q mode w = (x, w')" "holds_file p s w" for x w w'
    using that(1) unfolding op_chmod_def
  proof (rule atomic_cases)
    fix t
    assume "(case walk (w_fs w) q of Inl e \<Rightarrow> (Inl e, w_fs w)
       | Inr (File c m t') \<Rightarrow> (Inr (), put_node q (File c mode t') (w_fs w))
       | Inr (Dir m t') \<Rightarrow> (Inr (), put_node q (Dir mode t') (w_fs w))) = (x, w_fs w')"
    then show ?thesis
      using that(2) walk_node[of "w_fs w" q]
      by (cases "walk (w_fs w) q") (auto simp: holds_file_def split: node.splits dest!: sym[of _ "w_fs w'"])
  qed (use that(2) in \<open>simp add: holds_file_def\<close>)
  then show ?thesis by (intro tripleI) blast+
qed

lemma keeps_Chmod: "keeps p s (Chmod r x mode)"
  unfolding Chmod_def by (rule keeps_in_root) (rule keeps_chmod)

lemma only_guarded [frame]: "only S (op q) \<Longrightarrow> only S (guarded r op q)"
  unfolding guarded_def by (intro frame)

lemma in_root_fd: "in_root r x op = bindE (op_opendir (os_path (r_Base r))) (\<lambda>_. on_fd r x op)"
  by (simp add: in_root_def on_fd_def)

lemma keeps_Remove:
  assumes "p \<noteq> fd_path r x"
  shows "keeps p s (Remove r x)"
  unfolding Remove_def in_root_fd
proof (rule triple_bind)
  show "keeps p s (op_opendir (os_path (r_Base r)))" by (intro keeps_reads frame)
  show "keeps p s (on_fd r x (guarded r op_remove))" by (rule keeps_on_fd[OF _ assms]) (intro frame, simp)
qed

lemma keeps_InstallFile:
  assumes "p \<noteq> fd_path r x"
  shows "keeps p s (InstallFile r x dest)"
proof (cases "relFromReal r x")
  case (Inr srel)
  let ?b = "os_path (r_Base r)"
  have staged: "?b @ rel_path srel = fd_path r x" using Inr by (simp add: fd_path_def)
  have remove: "triple (\<lambda>w. holds_file p s w \<and> p \<noteq> q) (guarded r op_remove q) (\<lambda>_ w. holds_file p s w \<and> p \<noteq> q)
      (\<lambda>_ w. holds_file p s w \<and> p \<noteq> q)" for q
  proof (cases "p = q")
    case False
    have "keeps p s (guarded r op_remove q)" by (rule keeps_only[of "{q}"]) (use False in \<open>auto intro!: frame\<close>)
    then show ?thesis using False by (simp add: triple_def)
  qed (simp add: triple_def)
  have rest: "keeps p s (bindE (op_link (fd_path r x) d) (\<lambda>_.
      bindE (attempt (guarded r op_remove (fd_path r x))) (\<lambda>removed. case removed of
        Inl e \<Rightarrow> thenE (guarded r op_remove d) (throwE e) | Inr _ \<Rightarrow> returnE ())))" for d
  proof (rule triple_bind[OF keeps_link], rule triple_bind[where Q = "\<lambda>_ w. holds_file p s w \<and> p \<noteq> d"])
    have "keeps p s (guarded r op_remove (fd_path r x))"
      by (rule keeps_only[of "{fd_path r x}"]) (use assms in \<open>auto intro!: frame\<close>)
    then show "triple (\<lambda>w. holds_file p s w \<and> p \<noteq> d) (attempt (guarded r op_remove (fd_path r x)))
        (\<lambda>_ w. holds_file p s w \<and> p \<noteq> d) (\<lambda>_. holds_file p s)"
      by (cases "p = d") (auto intro: triple_attempt simp: triple_def[of "\<lambda>_. False"])
    show "triple (\<lambda>w. holds_file p s w \<and> p \<noteq> d) (case removed of
        Inl e \<Rightarrow> thenE (guarded r op_remove d) (throwE e) | Inr _ \<Rightarrow> returnE ())
        (\<lambda>_. holds_file p s) (\<lambda>_. holds_file p s)" for removed
      by (intro triple_sum triple_thenE[OF remove] triple_throw triple_return) auto
  qed
  have dir: "keeps p s (op_opendir ?b)" and rel: "keeps p s (liftE v)" for v :: "err + string"
    by (intro keeps_reads frame)+
  show ?thesis
    unfolding InstallFile_def Inr bindE_liftE Let_def sum.case staged
    by (rule triple_bind[OF dir], rule triple_bind[OF rel], rule rest)
next
  case (Inl e)
  have "only {} (InstallFile r x dest)"
    unfolding InstallFile_def Inl by (intro frame only_bindE_result) (auto simp: liftE_def)
  then show ?thesis by (rule keeps_reads)
qed

lemma only_open_size [frame]: "only S (open_size r x)"
  by (simp add: only_def open_size_def)

lemma keeps_copy_in:
  assumes "p \<noteq> fd_path r x"
  shows "keeps p s (copy_in r x content e)"
proof -
  have size: "keeps p s (open_size r x)" by (intro keeps_reads frame)
  have "keeps p s (on_fd r x (\<lambda>q. op_write q content))"
    by (rule keeps_on_fd[OF _ assms]) (intro frame, simp)
  then have "keeps p s (attempt (on_fd r x (\<lambda>q. op_write q content)))" by (rule triple_attempt)
  with size show ?thesis
    unfolding copy_in_def by (intro triple_if triple_return triple_bind[where Q = "\<lambda>_. holds_file p s"]) auto
qed

lemma only_fd_calls [frame]: "only S (op_fd q)" "q \<in> S \<Longrightarrow> only S (op_truncate n q)"
  unfolding op_fd_def op_truncate_def
  by (rule only_atomic; simp split: option.split node.split)+

lemma keeps_copyChunk:
  assumes "p \<noteq> fd_path r x"
  shows "keeps p s (copyChunk r x f offset total_size)"
proof -
  have "keeps p s (on_fd r x (op_truncate n))" for n
    by (rule keeps_on_fd[OF _ assms]) (intro frame, simp)
  then have "keeps p s (attempt (on_fd r x (op_truncate n)))" for n by (rule triple_attempt)
  then show ?thesis
    unfolding copyChunk_def Let_def
    by (intro triple_bind[OF keeps_copy_in[OF assms]])
      (auto intro!: triple_if triple_return triple_bind[where Q = "\<lambda>_. holds_file p s"] split: option.split)
qed

subsection \<open>Handlers that keep a file\<close>

abbreviation stays :: "Root \<Rightarrow> path \<Rightarrow> string \<Rightarrow> 'a http \<Rightarrow> bool" where
  "stays r p s m \<equiv> ensures (part_at r p s) m (\<lambda>_. part_at r p s)"

lemma stays_bind: "stays r p s m \<Longrightarrow> (\<And>x. stays r p s (f x)) \<Longrightarrow> stays r p s (m \<bind> f)"
  by (rule ensures_bind)

text \<open>Steps away from the files.\<close>

definition off_disk :: "hctx \<Rightarrow> hctx \<Rightarrow> bool" where
  "off_disk c d \<longleftrightarrow> w_fs (hx_disk d) = w_fs (hx_disk c) \<and> hs_root (hx_sv d) = hs_root (hx_sv c)"

interpretation od: http_transition off_disk
  by unfold_locales (simp_all add: off_disk_def)

lemma off_disk_steps:
  "within off_disk (respond f)" "within off_disk now" "within off_disk (cloudflare_call g)"
  "within off_disk (set_server (\<lambda>s. s\<lparr>hs_uploads := h s\<rparr>))"
  "within off_disk (set_server (\<lambda>s. s\<lparr>hs_activity := k s\<rparr>))"
  by (auto simp: within_def off_disk_def respond_def now_def cloudflare_call_def set_server_def split: prod.split)

lemmas off_rules = od.core off_disk_steps

lemma off_disk_answers:
  "within off_disk (logActivity e)" "within off_disk (purgePublicPath rq vs)"
  "within off_disk (failJSON n m)" "within off_disk (httpError m n)" "within off_disk (writeJSON n j)"
  "within off_disk (fail_with n er)" "within off_disk (http_error_with n er)" "within off_disk (log_failure e er)"
  "within off_disk (dropped rq v i m)"
  unfolding dropped_def log_failure_def http_error_with_def fail_with_def failJSON_def httpError_def
    writeJSON_def purgePublicPath_def logActivity_def Let_def
  by (intro off_rules)+

lemma off_disk_calm: "within calm m \<Longrightarrow> within off_disk m"
  unfolding within_def off_disk_def calm_def using quiet_fields(1,5) by blast

lemma stays_off: "within off_disk m \<Longrightarrow> stays r p s m"
  by (rule ensures_within[where R = off_disk]) (auto simp: off_disk_def part_at_def holds_file_def)

lemma stays_answers:
  "stays r p s (failJSON n m)" "stays r p s (httpError m n)" "stays r p s (writeJSON n j)"
  "stays r p s (fail_with n er)" "stays r p s (http_error_with n er)" "stays r p s (log_failure e er)"
  "stays r p s (dropped rq v i m)" "stays r p s (ret x)" "stays r p s (ask g)" "stays r p s now"
  by (intro stays_off off_disk_answers off_rules)+

lemma ensures_call:
  assumes "triple (holds_file p s) (op r) (\<lambda>x w. holds_file p s w \<and> A x) (\<lambda>_. holds_file p s)"
  shows "ensures (part_at r p s) (disk op) (\<lambda>v c. part_at r p s c \<and> (\<forall>x. v = Inr x \<longrightarrow> A x))"
proof (rule ensures_disk)
  fix c v w
  assume c: "part_at r p s c" and run: "op (hs_root (hx_sv c)) (hx_disk c) = (v, w)"
  then have h: "holds_file p s (hx_disk c)" "op r (hx_disk c) = (v, w)" by (simp_all add: part_at_def)
  have "holds_file p s w \<and> (\<forall>x. v = Inr x \<longrightarrow> A x)"
  proof (cases v)
    case (Inl e)
    then show ?thesis using tripleD_Inl[OF assms h(1)] h(2) by simp
  next
    case (Inr x)
    then show ?thesis using tripleD_Inr[OF assms h(1)] h(2) by simp
  qed
  then show "part_at r p s (c\<lparr>hx_disk := w\<rparr>) \<and> (\<forall>x. v = Inr x \<longrightarrow> A x)"
    using c by (simp add: part_at_def)
qed

lemma stays_call: "keeps p s (op r) \<Longrightarrow> stays r p s (disk op)"
  using ensures_call[of p s op r "\<lambda>_. True"] by simp

lemma stays_reads: "(\<And>q. only {} (op q)) \<Longrightarrow> stays r p s (disk op)"
  by (intro stays_call keeps_reads)

lemma stays_fd:
  assumes "p \<noteq> fd_path r x" and "only {fd_path r x} (op (fd_path r x))"
  shows "stays r p s (disk (\<lambda>r. on_fd r x op))"
  by (intro stays_call keeps_on_fd assms)

lemma stays_quiet_fd:
  "p \<noteq> fd_path r x \<Longrightarrow> stays r p s (disk (\<lambda>r. on_fd r x op_fd))"
  "p \<noteq> fd_path r x \<Longrightarrow> stays r p s (disk (\<lambda>r. on_fd r x op_stat))"
  by (intro stays_fd frame; simp)+

lemma stays_parent: "stays r p s (disk (\<lambda>r. MkdirAllParent r x m))"
  by (intro stays_reads frame)

lemma stays_chmod: "stays r p s (disk (\<lambda>r. Chmod r x m))"
  by (intro stays_call keeps_Chmod)

lemma stays_put:
  assumes "p \<noteq> fd_path r x" and "\<not> pl_AllowOverwrite meta"
  shows "stays r p s (put_dropped meta x dest v)"
  using assms(2) stays_call[of p s "\<lambda>r. InstallFile r x dest" r] keeps_InstallFile[OF assms(1)]
  by (simp add: put_dropped_def)

lemma stays_discard:
  assumes "p \<noteq> fd_path r x"
  shows "stays r p s (discard_staged x)" "stays r p s (close_file x)"
    "stays r p s (disk (\<lambda>r. copy_in r x content e))"
    "stays r p s (disk (\<lambda>r. copyChunk r x f offset total_size))"
  unfolding discard_staged_def close_file_def
  by (intro stays_bind stays_quiet_fd[OF assms] stays_answers stays_call keeps_Remove[OF assms]
      keeps_copy_in[OF assms] keeps_copyChunk[OF assms])+

lemmas stays_rules = stays_bind ensures_if ensures_sum ensures_option ensures_pair stays_answers
  stays_parent stays_chmod

subsection \<open>A file in one piece\<close>

lemma stays_drop_staged:
  assumes "\<not> pl_AllowOverwrite meta"
  shows "stays r p s (drop_staged rq meta f dest v)"
  unfolding drop_staged_def createStagedUpload_def
proof (rule ensures_bind[OF ensures_call[where op = "staged_upload ''drop''", OF keeps_staged]], goal_cases)
  case (1 staged)
  show ?case
  proof (cases staged)
    case (Inl e)
    then show ?thesis using stays_answers(5) by (auto simp: ensures_def)
  next
    case (Inr x)
    have "stays r p s (do {
         copied \<leftarrow> disk (\<lambda>r. copy_in r x (pt_content f) (pt_error f));
         (case copied of
            Inl e \<Rightarrow> http_error_with 500 e
          | Inr (n, Some e) \<Rightarrow> http_error_with 500 e
          | Inr (n, None) \<Rightarrow> do {
              closed \<leftarrow> close_file x;
              (case closed of
                 Inl e \<Rightarrow> http_error_with 500 e
               | Inr _ \<Rightarrow> do {
                   done_put \<leftarrow> put_dropped meta x dest v;
                   (case done_put of
                      Inl e \<Rightarrow> http_error_with (drop_status meta e) e
                    | Inr _ \<Rightarrow> do {
                        chmodded \<leftarrow> disk (\<lambda>r. Chmod r dest mode_640);
                        (case chmodded of
                           Inl e \<Rightarrow> http_error_with 500 e
                         | Inr _ \<Rightarrow> dropped rq v n ''public drop link upload'')
                      })
                 })
            });
         discard_staged x
       })" if "p \<noteq> fd_path r x"
      by (intro stays_rules stays_discard[OF that] stays_put[OF that assms])
    then show ?thesis unfolding Inr sum.case
      by (rule ensures_known[where A = "p \<noteq> fd_path r x"]) simp_all
  qed
qed

lemma stays_drop_upload:
  assumes "\<not> pl_AllowOverwrite meta"
  shows "stays r p s (drop_upload rq meta)"
  unfolding drop_upload_def Let_def by (intro stays_rules stays_drop_staged[OF assms])

subsection \<open>A file in chunks\<close>

definition upload_paths :: "Root \<Rightarrow> path set" where
  "upload_paths r = {q. prefix (os_path (r_Base r) @ [''._macftpd_uploads'']) q}"

lemma part_path:
  assumes "root_ok r bs" and dir: "dir = Join_paths [r_Base r, ''._macftpd_uploads'']"
    and "x = Clean (Join_paths [dir, name])" and "HasPrefix x (dir @ [slash])"
  shows "os_path x \<in> upload_paths r" "fd_path r x = os_path x" "os_path dir \<in> upload_paths r"
proof -
  note r = root_okD[OF assms(1)]
  let ?ds = "bs @ [''._macftpd_uploads'']"
  have segs: "segs ?ds" using r(1) seg_names(5) by simp
  have d: "dir = abs_path ?ds" using dir r Join_paths_seg[OF r(1) seg_names(5)] by simp
  then show "os_path dir \<in> upload_paths r" using r segs by (simp add: upload_paths_def)
  obtain ys where "Join_paths [dir, name] = abs_path ys" unfolding d using Join_paths_base[OF segs] by blast
  then obtain zs where "Join_paths [dir, name] = slash # zs" by (cases "abs_path ys") (auto simp: abs_path_def)
  then obtain xs where xs: "segs xs" "x = abs_path xs" using Clean_rooted assms(3) by metis
  then have "strict_prefix ?ds xs" using assms(4) below_iff[OF segs xs(1)] unfolding d by simp
  then obtain vs where vs: "xs = bs @ vs" "prefix ?ds xs" by (auto simp: strict_prefix_def prefix_def)
  then show "os_path x \<in> upload_paths r" using xs r by (simp add: upload_paths_def)
  have "segs vs" using xs(1) vs(1) by simp
  then show "fd_path r x = os_path x"
    using xs vs r relFromReal_abs[OF assms(1), of vs] rel_path_Join[of vs] by (simp add: fd_path_def)
qed

lemma only_cleanup_items: "{q. prefix dir q} \<subseteq> S \<Longrightarrow> only S (cleanup_items dir before items)"
proof (induction dir before items rule: cleanup_items.induct)
  case (2 dir before name entry items)
  then have "dir @ [name] \<in> S" by auto
  with 2 show ?case
    by (auto intro!: only_if only_bindE only_attempt only_case_sum only_thenE only_remove frame)
qed (simp add: only_pure)

lemma keeps_cleanup:
  assumes "os_path dir \<in> upload_paths r" and "p \<notin> upload_paths r"
  shows "keeps p s (cleanupUploadParts dir before)"
proof -
  have "{q. prefix (os_path dir) q} \<subseteq> upload_paths r"
    using assms(1) prefix_order.trans unfolding upload_paths_def by blast
  then have "only (upload_paths r) (cleanupUploadParts dir before)"
    unfolding cleanupUploadParts_def by (intro only_cleanup_items frame)
  then show ?thesis using assms(2) by (rule keeps_only)
qed

lemma stays_lock: "stays r p s m \<Longrightarrow> stays r p s (lockUpload key m)"
  unfolding lockUpload_def acquire_upload_def release_upload_def
  by (intro stays_bind[OF stays_off[OF off_disk_steps(4)]] stays_bind[of r p s m] stays_answers)

lemma stays_with_part:
  assumes "root_ok r bs" and "p \<notin> upload_paths r"
    and body: "\<And>x. p \<noteq> fd_path r x \<Longrightarrow> p \<noteq> os_path x \<Longrightarrow> stays r p s (body x)"
  shows "stays r p s (with_part scope cf body)"
  unfolding with_part_def
proof (rule ensures_bind[OF ensures_ask[where Q = "\<lambda>x c. part_at r p s c \<and> x = r"]], goal_cases)
  case (2 x)
  show ?case
  proof (rule ensures_known[where A = "x = r" and P = "part_at r p s"], unfold Let_def, goal_cases)
    case 1
    let ?dir = "Join_paths [r_Base r, ''._macftpd_uploads'']"
    let ?part = "Clean (Join_paths [?dir, uploadPartName scope (cf_uploadID cf)])"
    have "stays r p s (if \<not> HasPrefix ?part (?dir @ [slash]) then failJSON 400 ''bad upload id''
        else lockUpload ?part (body ?part))"
    proof (rule ensures_if, rule stays_answers, rule stays_lock)
      assume "\<not> \<not> HasPrefix ?part (?dir @ [slash])"
      note path = part_path[OF assms(1) refl refl, of "uploadPartName scope (cf_uploadID cf)"]
      have "p \<noteq> os_path ?part" "p \<noteq> fd_path r ?part" using path(1,2) \<open>\<not> \<not> _\<close> assms(2) by auto
      then show "stays r p s (body ?part)" by (intro body)
    qed
    moreover have "stays r p s (disk (\<lambda>_. cleanupUploadParts ?dir before))" for before
    proof -
      have "os_path ?dir \<in> upload_paths r"
        using root_okD[OF assms(1)] Join_paths_seg[OF root_okD(1)[OF assms(1)] seg_names(5)] seg_names(5)
        by (simp add: upload_paths_def)
      then show ?thesis by (intro stays_call keeps_cleanup[OF _ assms(2)])
    qed
    moreover have "stays r p s (disk (\<lambda>_. op_mkdirAll (os_path ?dir) mode_700))"
      by (intro stays_reads frame)
    ultimately show ?case unfolding 1 by (intro stays_bind ensures_sum stays_answers)
  qed (simp_all)
qed (simp add: part_at_def)

lemma stays_receive_part:
  assumes "p \<noteq> fd_path r x" and "p \<noteq> os_path x"
  shows "stays r p s (receive_part cf x)"
proof -
  have "stays r p s (disk (\<lambda>_. op_remove (os_path x)))" "stays r p s (disk (\<lambda>_. op_open (os_path x) fl m))" for fl m
    by (intro stays_call keeps_only[of "{os_path x}"] frame; use assms(2) in simp)+
  moreover have "stays r p s (case e of CopyError e \<Rightarrow> f e | ExceedsTotal e \<Rightarrow> g e)"
    if "\<And>e. stays r p s (f e)" "\<And>e. stays r p s (g e)" for e and f g :: "_ \<Rightarrow> part_outcome http"
    using that by (cases e) simp_all
  note chunk_error = this
  ultimately show ?thesis
    unfolding receive_part_def
    by (intro stays_rules chunk_error stays_discard[OF assms(1)] stays_quiet_fd[OF assms(1)])
qed

lemma stays_install_part:
  assumes "p \<noteq> fd_path r x" and "stays r p s put" and "stays r p s installed"
  shows "stays r p s (install_part x dest put status installed)"
  unfolding install_part_def by (intro stays_rules stays_discard[OF assms(1)] assms(2,3))

lemma stays_dropChunk:
  assumes "root_ok r bs" and "p \<notin> upload_paths r" and "\<not> pl_AllowOverwrite meta"
  shows "stays r p s (dropChunk rq meta)"
proof -
  have "stays r p s (case outcome of PartAnswered \<Rightarrow> ret () | PartFailed e n \<Rightarrow> log_failure (ev n) e
      | PartWritten n \<Rightarrow> if n < total_size then writeJSON 200 (js n)
          else install_part x dest (put_dropped meta x dest v) status (dropped rq v n m))"
    if "p \<noteq> fd_path r x" for outcome ev js total_size x dest v status m
    using that by (cases outcome)
      (auto intro!: stays_answers ensures_if stays_install_part stays_put assms(3))
  then show ?thesis
    unfolding dropChunk_def Let_def
    by (intro stays_rules stays_with_part[OF assms(1,2)] stays_receive_part)
qed

subsection \<open>A drop link\<close>

definition careful :: "Root \<Rightarrow> path \<Rightarrow> string \<Rightarrow> ShareStore \<Rightarrow> hctx \<Rightarrow> bool" where
  "careful r p s links c \<longleftrightarrow> part_at r p s c \<and> hs_links (hx_sv c) = links"

lemma careful_calm: "within calm m \<Longrightarrow> ensures (careful r p s links) m (\<lambda>_. careful r p s links)"
proof (rule ensures_within[where R = calm])
  fix c d assume cd: "calm c d" and "careful r p s links c"
  then show "careful r p s links d"
    using quiet_part[of c d r p s] calm_same(2)[OF cd] by (simp add: careful_def calm_def)
qed

lemma careful_end: "stays r p s m \<Longrightarrow> ensures (careful r p s links) m (\<lambda>_. part_at r p s)"
  unfolding ensures_def careful_def by blast

lemma careful_verify:
  assumes link: "get_link links ident = Some link" and m: "m = verify_link ident token pw \<or> m = verify_authorized ident token"
  shows "ensures (careful r p s links) m
    (\<lambda>v c. careful r p s links c \<and> (\<forall>pl. v = Inr pl \<longrightarrow> pl = public_link link))"
proof (rule ensuresI)
  fix c v d assume c: "careful r p s links c" and run: "run_state m c = (v, d)"
  have "within calm m" using m calm_checks(1,2) by auto
  then have "careful r p s links d" using ensuresD[OF careful_calm c run] by blast
  moreover have "pl = public_link link" if "v = Inr pl" for pl
    using m link c verified_link[of ident token pw c pl d] authorized_link[of ident token c pl d] run that
    by (auto simp: careful_def)
  ultimately show "careful r p s links d \<and> (\<forall>pl. v = Inr pl \<longrightarrow> pl = public_link link)" by blast
qed

lemma careful_drop_post:
  assumes root: "root_ok r bs" "p \<notin> upload_paths r"
    and link: "get_link links ident = Some link" "\<not> lk_AllowOverwrite link"
  shows "ensures (careful r p s links) (drop_post rq ident token meta) (\<lambda>_. part_at r p s)"
proof -
  have cookie: "within calm (if b then verifyShareCookie rq ident token else ret v)" for b v
    by (intro calm_rules calm_cookies)
  have page: "stays r p s (password_page t)" for t by (intro stays_off off_disk_calm calm_answers)
  have after: "ensures (\<lambda>c. careful r p s links c \<and> (\<forall>pl. v = Inr pl \<longrightarrow> pl = public_link link))
     (case v of Inl _ \<Rightarrow> httpError ''drop link unavailable'' 410
      | Inr link \<Rightarrow>
          if pl_Kind link \<noteq> KindUpload then
            (if pl_HasPassword link \<and> FormValue rq ''password'' \<noteq> [] \<and> FormValue rq ''upload_id'' = []
             then password_page ''Protected drop'' else httpError ''drop link unavailable'' 410)
          else if FormValue rq ''upload_id'' \<noteq> [] then dropChunk rq link
          else drop_upload rq link) (\<lambda>_. part_at r p s)" for v
  proof (cases v)
    case (Inl e)
    then show ?thesis using careful_end[OF stays_answers(2)] by (simp add: ensures_def)
  next
    case (Inr pl)
    let ?m = "if pl_Kind pl \<noteq> KindUpload then
            (if pl_HasPassword pl \<and> FormValue rq ''password'' \<noteq> [] \<and> FormValue rq ''upload_id'' = []
             then password_page ''Protected drop'' else httpError ''drop link unavailable'' 410)
          else if FormValue rq ''upload_id'' \<noteq> [] then dropChunk rq pl
          else drop_upload rq pl"
    have stay: "stays r p s ?m" if "pl = public_link link"
    proof -
      have "\<not> pl_AllowOverwrite pl" using link(2) that by (simp add: public_link_def)
      then show ?thesis
        by (intro ensures_if page stays_answers(2) stays_dropChunk[OF root] stays_drop_upload)
    qed
    show ?thesis unfolding Inr sum.case
    proof (rule ensures_known[where A = "pl = public_link link" and P = "careful r p s links"])
      assume "pl = public_link link"
      then show "ensures (careful r p s links) ?m (\<lambda>_. part_at r p s)"
        by (rule careful_end[OF stay])
    qed simp
  qed
  have checks: "ensures (careful r p s links)
      (if pl_HasPassword meta then verify_authorized ident token
       else verify_link ident token (FormValue rq ''password''))
      (\<lambda>v c. careful r p s links c \<and> (\<forall>pl. v = Inr pl \<longrightarrow> pl = public_link link))"
    by (rule ensures_if; rule careful_verify[OF link(1), of _ token "FormValue rq ''password''"]) simp_all
  show ?thesis
    unfolding drop_post_def
    by (intro ensures_bind[OF careful_calm[OF cookie]] ensures_if careful_end[OF stays_answers(2)]
        ensures_bind[OF checks] after)
qed

definition drop_prefix :: "request \<Rightarrow> string" where
  "drop_prefix rq = (if HasPrefix (rq_path rq) ''/d/'' then ''/d/'' else ''/drop/'')"

text \<open>C10: An upload through a drop link that may not replace files leaves every file as it was, outside the
  directory of part files: whatever the request holds, in one piece or in chunks, and whatever calls
  on the disk fail.\<close>

theorem drop_never_replaces:
  assumes "root_ok (hs_root (hx_sv c)) bs" and "linkParts (rq_path rq) (drop_prefix rq) = Some (ident, token)"
    and "get_link (hs_links (hx_sv c)) ident = Some link" and "\<not> lk_AllowOverwrite link"
    and "holds_file p s (hx_disk c)" and "p \<notin> upload_paths (hs_root (hx_sv c))"
  shows "holds_file p s (hx_disk (snd (run_state (dropLink rq) c)))"
proof -
  let ?r = "hs_root (hx_sv c)" and ?links = "hs_links (hx_sv c)"
  let ?meta = "public_link link"
  let ?m = "if pl_Kind ?meta \<noteq> KindUpload then httpError ''drop link unavailable'' 410
      else if rq_method rq = ''GET'' then drop_page rq ident token ?meta
      else if rq_method rq \<noteq> ''POST'' then httpError ''method not allowed'' 405
      else if pl_HasPassword ?meta \<and> \<not> HasPrefix (ToLower (header rq ''Content-Type'')) ''multipart/''
      then drop_password rq ident token
      else drop_post rq ident token ?meta"
  have "stays ?r p s (drop_page rq ident token ?meta)" "stays ?r p s (drop_password rq ident token)"
    by (intro stays_off off_disk_calm calm_drop_forms)+
  then have "ensures (careful ?r p s ?links) ?m (\<lambda>_. part_at ?r p s)"
    by (intro ensures_if careful_end[OF stays_answers(2)] careful_drop_post[OF assms(1,6,3,4)])
      (auto intro: careful_end)
  moreover have "run_state (dropLink rq) c = run_state ?m c"
    using assms(2,3) unfolding dropLink_def drop_prefix_def[symmetric] by (simp add: Public_def)
  moreover have "careful ?r p s ?links c" using assms(5) by (simp add: careful_def part_at_def)
  ultimately show ?thesis by (simp add: ensures_def part_at_def)
qed

definition sample_drops :: ShareStore where
  "sample_drops = \<lparr>ss_links = [(''k'', sample_link\<lparr>lk_Kind := KindUpload\<rparr>)], ss_active = Map.empty, ss_disk = None\<rparr>"

theorem drop_never_replaces_witness:
  "holds_file [''srv'', ''files'', ''a''] ''old''
     (hx_disk (snd (run_state (dropLink (sample_request ''POST'' ''/d/k/t'')) (sample_hctx sample_drops))))"
proof -
  let ?c = "sample_hctx sample_drops" and ?rq = "sample_request ''POST'' ''/d/k/t''"
  have sv: "hs_root (hx_sv ?c) = sample_root" "hs_links (hx_sv ?c) = sample_drops"
    by (simp_all add: sample_hctx_def sample_http_def New_http_def)
  have parts: "linkParts (rq_path ?rq) (drop_prefix ?rq) = Some (''k'', ''t'')" by code_simp
  have link: "get_link (hs_links (hx_sv ?c)) ''k'' = Some (sample_link\<lparr>lk_Kind := KindUpload\<rparr>)"
    unfolding sv by (simp add: sample_drops_def get_link_def)
  have held: "holds_file [''srv'', ''files'', ''a''] ''old'' (hx_disk ?c)"
    by (simp add: sample_hctx_def holds_file_def sample_world_def node_at_def sample_fs_def)
  have out: "[''srv'', ''files'', ''a''] \<notin> upload_paths (hs_root (hx_sv ?c))"
    unfolding sv upload_paths_def by code_simp
  have root: "root_ok (hs_root (hx_sv ?c)) [''srv'', ''files'']" unfolding sv by (rule sample_root_ok)
  show ?thesis by (rule drop_never_replaces[OF root parts link _ held out]) (simp add: sample_link_def)
qed

end
