(* ===== verification/GoIp.thy ===== *)
theory GoIp
  imports GoNet
begin

text \<open>
  \<open>IP.String\<close> of Go's package \<open>net\<close> for addresses of four or sixteen bytes: dotted for the IPv4 ones,
  else eight groups in hexadecimal, of which the first longest run of two zero groups or more is left
  out.
\<close>

definition show_hex_digit :: "nat \<Rightarrow> char" where
  "show_hex_digit n = (if n < 10 then char_of (48 + n) else char_of (87 + n))"

text \<open>A group of sixteen bits without leading zeros.\<close>

definition show_group :: "nat \<Rightarrow> string" where
  "show_group g =
     (let digits = map (\<lambda>d. show_hex_digit (g div d mod 16)) [4096, 256, 16, 1]
      in if g = 0 then ''0'' else dropWhile (\<lambda>c. c = CHR ''0'') digits)"

fun ip_groups :: "ip \<Rightarrow> nat list" where
  "ip_groups (a # b # bytes) = (256 * a + b) # ip_groups bytes"
| "ip_groups _ = []"

text \<open>The run of zero groups to leave out: where it starts and ends.\<close>

definition zero_run :: "nat list \<Rightarrow> nat \<Rightarrow> nat" where
  "zero_run groups i = i + length (takeWhile (\<lambda>g. g = 0) (drop i groups))"

definition longest_run :: "nat list \<Rightarrow> nat \<times> nat" where
  "longest_run groups = foldl (\<lambda>(start, stop) i. let j = zero_run groups i
     in if 2 \<le> j - i \<and> stop - start < j - i then (i, j) else (start, stop)) (255, 255) [0..<length groups]"

definition join_groups :: "nat list \<Rightarrow> string" where
  "join_groups groups = Join (map show_group groups) [colon]"

definition show_ip6 :: "nat list \<Rightarrow> string" where
  "show_ip6 groups =
     (case longest_run groups of (start, stop) \<Rightarrow>
        if start = 255 then join_groups groups
        else join_groups (take start groups) @ [colon, colon] @ join_groups (drop stop groups))"

definition IP_String :: "ip \<Rightarrow> string" where
  "IP_String ip =
     (if length ip = 4 then show_ip4 ip
      else case To4 ip of Some v4 \<Rightarrow> show_ip4 v4 | None \<Rightarrow> show_ip6 (ip_groups ip))"

text \<open>A dotted address is parsed as the address it was printed from.\<close>

lemma IP_String_v4:
  assumes "length v4 = 4" and "\<forall>n \<in> set v4. n \<le> 255"
  shows "ParseIP (IP_String (v4_prefix @ v4)) = Some (v4_prefix @ v4)"
proof -
  have "To4 (v4_prefix @ v4) = Some v4" using assms(1) by (simp add: To4_def v4_prefix_def)
  then show ?thesis using ParseIP_show_ip4[OF assms] assms(1) by (simp add: IP_String_def v4_prefix_def)
qed

end
