(* ===== verification/NatPmp.thy ===== *)
theory NatPmp
  imports GoIp GoHttp FtpText "HOL-Library.Word"
begin

unbundle bit_operations_syntax

text \<open>
  The NAT-PMP client of \<open>internal/natpmp/natpmp.go\<close>: its packets, byte by byte, and the loop that
  keeps the control port mapped. An exchange is what the network makes of one datagram: an error of
  dialling, writing or reading, or the datagram that comes back. Deadlines are such errors.
\<close>

subsection \<open>Bytes in network order\<close>

definition PutUint16 :: "16 word \<Rightarrow> string" where
  "PutUint16 w = [char_of (unat (drop_bit 8 w)), char_of (unat w)]"

definition PutUint32 :: "32 word \<Rightarrow> string" where
  "PutUint32 w = map (\<lambda>k. char_of (unat (drop_bit k w))) [24, 16, 8, 0]"

fun Uint16 :: "string \<Rightarrow> 16 word" where
  "Uint16 (a # b # _) = push_bit 8 (of_nat (of_char a)) OR of_nat (of_char b)"
| "Uint16 _ = 0"

fun Uint32 :: "string \<Rightarrow> 32 word" where
  "Uint32 (a # b # c # d # _) =
     push_bit 24 (of_nat (of_char a)) OR push_bit 16 (of_nat (of_char b)) OR
     push_bit 8 (of_nat (of_char c)) OR of_nat (of_char d)"
| "Uint32 _ = 0"

text \<open>\<open>s[a:b]\<close> and \<open>s[i]\<close>, within the length.\<close>

definition bytes_at :: "string \<Rightarrow> nat \<Rightarrow> nat \<Rightarrow> string" where
  "bytes_at s a b = take (b - a) (drop a s)"

definition byte_at :: "string \<Rightarrow> nat \<Rightarrow> nat" where
  "byte_at s i = of_char (s ! i)"

subsection \<open>The client\<close>

type_synonym exchange = "string \<Rightarrow> duration \<Rightarrow> string \<Rightarrow> err + string"

record pmp_client =
  pm_Gateway :: string
  pm_Timeout :: duration

record pmp_mapping =
  mp_InternalPort :: int
  mp_ExternalPort :: int
  mp_Lifetime :: duration

abbreviation (input) opAddress :: nat where "opAddress \<equiv> 0"
abbreviation (input) opMapTCP :: nat where "opMapTCP \<equiv> 2"

text \<open>The first line of the form \<open>gateway: x\<close> in what \<open>route\<close> prints; blanks may be line breaks.\<close>

definition re_space :: "char \<Rightarrow> bool" where
  "re_space c \<longleftrightarrow> c \<in> {CHR 0x09, CHR 0x0A, CHR 0x0C, CHR 0x0D, CHR 0x20}"

definition match_gateway :: "string \<Rightarrow> string option" where
  "match_gateway s =
     (let line = dropWhile re_space s; rest = dropWhile re_space (drop 8 line)
      in if HasPrefix line ''gateway:'' \<and> rest \<noteq> [] then Some (takeWhile (\<lambda>c. \<not> re_space c) rest) else None)"

fun find_gateway :: "bool \<Rightarrow> string \<Rightarrow> string option" where
  "find_gateway line_start [] = None"
| "find_gateway line_start (c # s) =
     (case (if line_start then match_gateway (c # s) else None) of
        Some g \<Rightarrow> Some g
      | None \<Rightarrow> find_gateway (c = CHR 0x0A) s)"

definition DiscoverGateway :: "err + string \<Rightarrow> err + string" where
  "DiscoverGateway command_output =
     (case command_output of
        Inl e \<Rightarrow> Inl e
      | Inr out \<Rightarrow> (case find_gateway True out of
          None \<Rightarrow> Inl (ErrMsg ''default gateway not found'')
        | Some g \<Rightarrow> Inr g))"

text \<open>The buffer has 64 bytes; what a longer datagram has after them is lost.\<close>

definition roundTrip :: "exchange \<Rightarrow> pmp_client \<Rightarrow> string \<Rightarrow> err + string" where
  "roundTrip net c payload =
     (let timeout = (if pm_Timeout c = 0 then 2 * second else pm_Timeout c)
      in case net (JoinHostPort (pm_Gateway c) ''5351'') timeout payload of
           Inl e \<Rightarrow> Inl e
         | Inr datagram \<Rightarrow> Inr (take 64 datagram))"

definition PublicAddress :: "exchange \<Rightarrow> pmp_client \<Rightarrow> err + ip" where
  "PublicAddress net c =
     (case roundTrip net c [CHR 0x00, char_of opAddress] of
        Inl e \<Rightarrow> Inl e
      | Inr resp \<Rightarrow>
          if length resp < 12 \<or> byte_at resp 1 \<noteq> 128 + opAddress
          then Inl (ErrMsg ''bad NAT-PMP public address response'')
          else if Uint16 (bytes_at resp 2 4) \<noteq> 0
          then Inl (ErrMsg (''NAT-PMP public address result='' @ show_nat (unat (Uint16 (bytes_at resp 2 4)))))
          else Inr (v4_prefix @ map of_char (bytes_at resp 8 12)))"

text \<open>
  Whole seconds of a lifetime as a \<open>uint32\<close>. The code goes through \<open>float64\<close>, which is exact for whole
  seconds; a fraction is cut off, but for lifetimes so long that the sum with it rounds up. Of a negative
  lifetime the language leaves the result to the machine; here it wraps around.
\<close>

definition lifetime_seconds :: "duration \<Rightarrow> 32 word" where
  "lifetime_seconds lifetime = word_of_int (lifetime div second)"

definition map_request :: "int \<Rightarrow> int \<Rightarrow> duration \<Rightarrow> string" where
  "map_request internalPort externalPort lifetime =
     [CHR 0x00, char_of opMapTCP, CHR 0x00, CHR 0x00] @ PutUint16 (word_of_int internalPort) @
     PutUint16 (word_of_int externalPort) @ PutUint32 (lifetime_seconds lifetime)"

definition valid_port :: "int \<Rightarrow> bool" where
  "valid_port p \<longleftrightarrow> 0 < p \<and> p \<le> 65535"

definition parse_mapping :: "string \<Rightarrow> err + pmp_mapping" where
  "parse_mapping resp =
     (if length resp < 16 \<or> byte_at resp 1 \<noteq> 128 + opMapTCP
      then Inl (ErrMsg ''bad NAT-PMP TCP mapping response'')
      else if Uint16 (bytes_at resp 2 4) \<noteq> 0
      then Inl (ErrMsg (''NAT-PMP TCP mapping result='' @ show_nat (unat (Uint16 (bytes_at resp 2 4)))))
      else Inr \<lparr>mp_InternalPort = uint (Uint16 (bytes_at resp 8 10)),
        mp_ExternalPort = uint (Uint16 (bytes_at resp 10 12)),
        mp_Lifetime = uint (Uint32 (bytes_at resp 12 16)) * second\<rparr>)"

definition MapTCP :: "exchange \<Rightarrow> pmp_client \<Rightarrow> int \<Rightarrow> int \<Rightarrow> duration \<Rightarrow> err + pmp_mapping" where
  "MapTCP net c internalPort externalPort lifetime =
     (if \<not> valid_port internalPort \<or> \<not> valid_port externalPort
      then Inl (ErrMsg (''invalid TCP mapping '' @ Itoa internalPort @ ''->'' @ Itoa externalPort))
      else case roundTrip net c (map_request internalPort externalPort lifetime) of
             Inl e \<Rightarrow> Inl e
           | Inr resp \<Rightarrow> parse_mapping resp)"

definition DeleteTCP :: "exchange \<Rightarrow> pmp_client \<Rightarrow> int \<Rightarrow> int \<Rightarrow> err option" where
  "DeleteTCP net c internalPort externalPort =
     (case MapTCP net c internalPort externalPort 0 of Inl e \<Rightarrow> Some e | Inr _ \<Rightarrow> None)"

subsection \<open>Keeping the control port mapped\<close>

text \<open>
  One round: the public address, then each port, the exchange with the number of the call. What the
  server is told, how many ports are mapped as asked, whether a call failed, and when the next round
  is.
\<close>

record pmp_round =
  rd_external :: "string option"
  rd_mapped :: nat
  rd_mismatched :: nat
  rd_failed :: bool
  rd_next :: duration

fun map_ports :: "(nat \<Rightarrow> exchange) \<Rightarrow> nat \<Rightarrow> pmp_client \<Rightarrow> duration \<Rightarrow> int list \<Rightarrow> pmp_round \<Rightarrow> pmp_round" where
  "map_ports net k c lifetime [] rd = rd"
| "map_ports net k c lifetime (port # ports) rd =
     map_ports net (Suc k) c lifetime ports
       (case MapTCP (net k) c port port lifetime of
          Inl e \<Rightarrow> rd\<lparr>rd_failed := True\<rparr>
        | Inr m \<Rightarrow> if mp_ExternalPort m \<noteq> port then rd\<lparr>rd_mismatched := Suc (rd_mismatched rd)\<rparr>
                  else rd\<lparr>rd_mapped := Suc (rd_mapped rd)\<rparr>)"

definition maintain_round :: "(nat \<Rightarrow> exchange) \<Rightarrow> pmp_client \<Rightarrow> int list \<Rightarrow> duration \<Rightarrow> pmp_round" where
  "maintain_round net c ports lifetime =
     (let renewEvery = max (lifetime div 2) (5 * minute);
          public = PublicAddress (net 0) c;
          rd = map_ports net 1 c lifetime ports
            \<lparr>rd_external = (case public of Inl _ \<Rightarrow> None | Inr ip \<Rightarrow> Some (IP_String ip)), rd_mapped = 0,
             rd_mismatched = 0, rd_failed = \<not> is_Inr public, rd_next = renewEvery\<rparr>
      in if rd_failed rd \<or> rd_mapped rd < length ports then rd\<lparr>rd_next := 30 * second\<rparr> else rd)"

text \<open>
  The loop runs until the context is done, which is after the last of \<open>rounds\<close>; it does not start when
  no gateway is configured and none is found.
\<close>

definition MaintainTCP ::
  "err + string \<Rightarrow> (nat \<Rightarrow> exchange) list \<Rightarrow> string \<Rightarrow> int list \<Rightarrow> duration \<Rightarrow> pmp_round list" where
  "MaintainTCP command_output rounds gateway ports lifetime0 =
     (case (if gateway = [] then DiscoverGateway command_output else Inr gateway) of
        Inl e \<Rightarrow> []
      | Inr gateway \<Rightarrow>
          let lifetime = (if lifetime0 \<le> 0 then hour else lifetime0)
          in map (\<lambda>net. maintain_round net \<lparr>pm_Gateway = gateway, pm_Timeout = 2 * second\<rparr> ports lifetime) rounds)"

subsection \<open>Lists of ports\<close>

text \<open>
  The loop over a range counts an \<open>int\<close> up while it is not above the end, so with the largest
  \<open>int\<close> as the end it does not stop: \<open>None\<close>.
\<close>

definition pmp_port_range :: "int \<Rightarrow> int \<Rightarrow> int list option" where
  "pmp_port_range start stop = (if stop = max_i64 then None else Some [start..stop])"

definition ParsePorts_part :: "string \<Rightarrow> int list option" where
  "ParsePorts_part part0 =
     (let part = TrimSpace part0
      in if part = [] then Some []
         else if CHR ''-'' \<in> set part then
           (case Cut part (CHR ''-'') of (a, b, _) \<Rightarrow>
             (case (ParseInt (TrimSpace a), ParseInt (TrimSpace b)) of
                (Some start, Some stop) \<Rightarrow> if start > stop then Some [] else pmp_port_range start stop
              | _ \<Rightarrow> Some []))
         else (case ParseInt part of Some port \<Rightarrow> Some [port] | None \<Rightarrow> Some []))"

fun ParsePorts_parts :: "string list \<Rightarrow> int list option" where
  "ParsePorts_parts [] = Some []"
| "ParsePorts_parts (part # parts) =
     (case ParsePorts_part part of
        None \<Rightarrow> None
      | Some ports \<Rightarrow> map_option (\<lambda>rest. ports @ rest) (ParsePorts_parts parts))"

definition ParsePorts :: "string \<Rightarrow> int list option" where
  "ParsePorts spec = ParsePorts_parts (Split spec (CHR '',''))"

subsection \<open>Round trips of the packets\<close>

lemma length_PutUint [simp]: "length (PutUint16 w) = 2" "length (PutUint32 v) = 4"
  by (simp_all add: PutUint16_def PutUint32_def)

lemma word_of_low_byte:
  "(of_nat (of_char (char_of (unat w) :: char)) :: 'a::len word) = take_bit 8 w"
proof -
  have "(of_nat (take_bit 8 (unat w)) :: 'a word) = take_bit 8 w"
    by (simp flip: unsigned_take_bit_eq)
  then show ?thesis by (simp add: take_bit_eq_mod)
qed

lemma Uint16_PutUint16: "Uint16 (PutUint16 w @ rest) = w"
proof -
  have "push_bit 8 (take_bit 8 (drop_bit 8 w)) OR take_bit 8 w = w"
    by (rule bit_word_eqI) (auto simp: bit_simps)
  then show ?thesis by (simp only: PutUint16_def append_Cons Uint16.simps word_of_low_byte)
qed

lemma Uint32_PutUint32: "Uint32 (PutUint32 w @ rest) = w"
proof -
  have "push_bit 24 (take_bit 8 (drop_bit 24 w)) OR push_bit 16 (take_bit 8 (drop_bit 16 w)) OR
      push_bit 8 (take_bit 8 (drop_bit 8 w)) OR take_bit 8 w = w"
  proof (rule bit_word_eqI)
    fix n assume "n < LENGTH(32)"
    then consider "n < 8" | "8 \<le> n" "n < 16" | "16 \<le> n" "n < 24" | "24 \<le> n" "n < 32" by force
    then show "bit (push_bit 24 (take_bit 8 (drop_bit 24 w)) OR push_bit 16 (take_bit 8 (drop_bit 16 w)) OR
      push_bit 8 (take_bit 8 (drop_bit 8 w)) OR take_bit 8 w) n = bit w n"
      by cases (auto simp: bit_simps)
  qed
  then show ?thesis
    by (simp only: PutUint32_def list.map append_Cons Uint32.simps word_of_low_byte drop_bit_0 id_apply)
qed


text \<open>What the gateway reads in a request, and what the client reads in an answer.\<close>

lemma map_request_fields:
  "length (map_request i e l) = 12"
  "Uint16 (bytes_at (map_request i e l) 4 6) = word_of_int i"
  "Uint16 (bytes_at (map_request i e l) 6 8) = word_of_int e"
  "Uint32 (bytes_at (map_request i e l) 8 12) = lifetime_seconds l"
  using Uint16_PutUint16[of "word_of_int i" "[]"] Uint16_PutUint16[of "word_of_int e" "[]"]
    Uint32_PutUint32[of "lifetime_seconds l" "[]"]
  by (simp_all add: map_request_def bytes_at_def)

definition mapping_answer :: "16 word \<Rightarrow> 32 word \<Rightarrow> 16 word \<Rightarrow> 16 word \<Rightarrow> 32 word \<Rightarrow> string" where
  "mapping_answer result epoch i e l =
     [CHR 0x00, char_of (128 + opMapTCP)] @ PutUint16 result @ PutUint32 epoch @ PutUint16 i @ PutUint16 e @ PutUint32 l"

lemma parse_mapping_answer:
  "parse_mapping (mapping_answer result epoch i e l) =
     (if result \<noteq> 0 then Inl (ErrMsg (''NAT-PMP TCP mapping result='' @ show_nat (unat result)))
      else Inr \<lparr>mp_InternalPort = uint i, mp_ExternalPort = uint e, mp_Lifetime = uint l * second\<rparr>)"
  using Uint16_PutUint16[of result "[]"] Uint16_PutUint16[of i "[]"] Uint16_PutUint16[of e "[]"]
    Uint32_PutUint32[of l "[]"]
  by (simp add: parse_mapping_def mapping_answer_def bytes_at_def byte_at_def)

text \<open>
  On a list whose parts the FTP server accepts, and which names ports only, the lenient parser gives
  the same ports.
\<close>

lemma ParsePorts_part_eq:
  assumes "parse_part part = Some (Inr ports)" and "\<forall>port \<in> set ports. port \<le> 65535"
  shows "ParsePorts_part part = Some ports"
proof -
  have "max_i64 \<notin> set ports" using assms(2) by auto
  with assms(1) show ?thesis
    by (auto simp: parse_part_def ParsePorts_part_def pmp_port_range_def port_range_def Let_def Contains_single
        split: if_splits option.splits prod.splits)
qed

lemma ParsePorts_parts_eq:
  "parse_parts parts = Some (Inr ports) \<Longrightarrow> \<forall>port \<in> set ports. port \<le> 65535 \<Longrightarrow> ParsePorts_parts parts = Some ports"
  by (induction parts arbitrary: ports) (auto simp: ParsePorts_part_eq split: sum.splits option.splits)

lemma ParsePorts_agrees:
  assumes "parsePorts spec = Some (Inr ports)" and "TrimSpace spec = spec" and "\<forall>port \<in> set ports. port \<le> 65535"
  shows "ParsePorts spec = Some ports"
  using assms ParsePorts_parts_eq[of "Split spec (CHR '','')" ports]
  by (auto simp: parsePorts_def ParsePorts_def ParsePorts_part_def TrimSpace_def split: if_splits)

subsection \<open>Mapping a port\<close>

text \<open>
  A gateway of the protocol: it grants what it reads in a request for a TCP mapping, and says so.
\<close>

definition granting_gateway :: "string \<Rightarrow> 32 word \<Rightarrow> exchange" where
  "granting_gateway host epoch address timeout request =
     (if address \<noteq> JoinHostPort host ''5351'' then Inl (ErrMsg ''no route'')
      else if length request = 12 \<and> byte_at request 0 = 0 \<and> byte_at request 1 = opMapTCP
      then Inr (mapping_answer 0 epoch (Uint16 (bytes_at request 4 6)) (Uint16 (bytes_at request 6 8))
             (Uint32 (bytes_at request 8 12)))
      else Inl (ErrMsg ''timeout''))"

lemma roundTrip_map_request:
  "roundTrip net c request = Inr resp \<longleftrightarrow>
     (\<exists>datagram. net (JoinHostPort (pm_Gateway c) ''5351'') (if pm_Timeout c = 0 then 2 * second else pm_Timeout c)
        request = Inr datagram \<and> resp = take 64 datagram)"
  by (auto simp: roundTrip_def Let_def split: sum.splits)

lemma valid_port_word: "valid_port p \<Longrightarrow> uint (word_of_int p :: 16 word) = p"
  by (simp add: valid_port_def uint_word_of_int)

lemma length_mapping_answer: "length (mapping_answer result epoch i e l) = 16"
  by (simp add: mapping_answer_def)

text \<open>C28: A mapping asked of a gateway of the protocol arrives there byte for byte as asked, and the answer
  is read back as the same ports and, in whole seconds below \<open>2 ^ 32\<close>, the same lifetime: writing and
  reading the packets loses nothing.
\<close>

theorem mapping_roundtrip:
  assumes "valid_port i" "valid_port e" and "0 \<le> secs" "secs < 2 ^ 32"
  shows "MapTCP (granting_gateway (pm_Gateway c) epoch) c i e (secs * second) =
     Inr \<lparr>mp_InternalPort = i, mp_ExternalPort = e, mp_Lifetime = secs * second\<rparr>"
proof -
  have "uint (lifetime_seconds (secs * second)) = secs"
    using assms(3,4) by (simp add: lifetime_seconds_def uint_word_of_int)
  moreover have "byte_at (map_request i e l) 0 = 0" "byte_at (map_request i e l) 1 = opMapTCP" for l
    by (simp_all add: map_request_def byte_at_def)
  ultimately show ?thesis
    using assms(1,2)
    by (simp add: MapTCP_def roundTrip_def granting_gateway_def map_request_fields length_mapping_answer
        parse_mapping_answer valid_port_word)
qed

lemma mapping_roundtrip_witness:
  "MapTCP (granting_gateway ''10.0.0.1'' 7) \<lparr>pm_Gateway = ''10.0.0.1'', pm_Timeout = 0\<rparr> 2121 2121 (3600 * second) =
     Inr \<lparr>mp_InternalPort = 2121, mp_ExternalPort = 2121, mp_Lifetime = 3600 * second\<rparr>"
  using mapping_roundtrip[of 2121 2121 3600 "\<lparr>pm_Gateway = ''10.0.0.1'', pm_Timeout = 0\<rparr>" 7]
  by (simp add: valid_port_def)

text \<open>
  A lifetime above zero and below a second is sent as zero, which asks the gateway to delete the
  mapping.
\<close>

lemma short_lifetime_deletes:
  assumes "0 < lifetime" "lifetime < second"
  shows "MapTCP net c i e lifetime = MapTCP net c i e 0"
  using assms by (simp add: MapTCP_def map_request_def lifetime_seconds_def)

text \<open>A mapping is reported only for ports of the range and an answer of the gateway that says so.\<close>

lemma MapTCP_confirmed:
  assumes "MapTCP net c i e lifetime = Inr m"
  shows "valid_port i \<and> valid_port e \<and>
    (\<exists>resp. roundTrip net c (map_request i e lifetime) = Inr resp \<and> parse_mapping resp = Inr m)"
  using assms by (auto simp: MapTCP_def split: if_splits sum.splits)

lemma parse_mapping_external: "parse_mapping resp = Inr m \<Longrightarrow> 0 \<le> mp_ExternalPort m \<and> mp_ExternalPort m \<le> 65535"
  using uint_lt2p[of "Uint16 (bytes_at resp 10 12)"]
  by (auto simp: parse_mapping_def split: if_splits)

subsection \<open>A round of the loop\<close>

definition mapped_as_asked :: "exchange \<Rightarrow> pmp_client \<Rightarrow> duration \<Rightarrow> int \<Rightarrow> bool" where
  "mapped_as_asked net c lifetime port =
     (case MapTCP net c port port lifetime of Inl e \<Rightarrow> False | Inr m \<Rightarrow> mp_ExternalPort m = port)"

fun asked_ok :: "(nat \<Rightarrow> exchange) \<Rightarrow> nat \<Rightarrow> pmp_client \<Rightarrow> duration \<Rightarrow> int list \<Rightarrow> bool list" where
  "asked_ok net k c lifetime [] = []"
| "asked_ok net k c lifetime (port # ports) =
     mapped_as_asked (net k) c lifetime port # asked_ok net (Suc k) c lifetime ports"

lemma length_asked_ok [simp]: "length (asked_ok net k c lifetime ports) = length ports"
  by (induction ports arbitrary: k) auto

lemma all_asked_ok:
  "list_all id (asked_ok net k c lifetime ports) \<longleftrightarrow>
     (\<forall>i<length ports. mapped_as_asked (net (k + i)) c lifetime (ports ! i))"
  by (induction ports arbitrary: k) (auto simp: All_less_Suc2)

lemma map_ports_mapped:
  "rd_mapped (map_ports net k c lifetime ports rd) = rd_mapped rd + length (filter id (asked_ok net k c lifetime ports))"
  by (induction ports arbitrary: k rd) (auto simp: mapped_as_asked_def split: sum.splits)

lemma nth_asked_ok:
  "i < length ports \<Longrightarrow> asked_ok net k c lifetime ports ! i = mapped_as_asked (net (k + i)) c lifetime (ports ! i)"
  by (induction ports arbitrary: k i) (auto simp: nth_Cons split: nat.splits)

lemma map_ports_failed:
  "rd_failed (map_ports net k c lifetime ports rd) \<longleftrightarrow>
     rd_failed rd \<or> (\<exists>i<length ports. \<not> is_Inr (MapTCP (net (k + i)) c (ports ! i) (ports ! i) lifetime))"
  by (induction ports arbitrary: k rd) (auto simp: Ex_less_Suc2 split: sum.splits)

lemma map_ports_rest [simp]:
  "rd_external (map_ports net k c lifetime ports rd) = rd_external rd"
  "rd_next (map_ports net k c lifetime ports rd) = rd_next rd"
  by (induction ports arbitrary: k rd) (auto split: sum.splits)

lemma filter_id_all: "length (filter id bs) < length bs \<longleftrightarrow> \<not> list_all id bs"
  using length_filter_less[of _ bs id] by (induction bs) (auto simp: list_all_iff less_Suc_eq_le)

lemma maintain_round_next:
  "rd_next (maintain_round net c ports lifetime) =
     (if is_Inr (PublicAddress (net 0) c) \<and>
         (\<forall>i<length ports. mapped_as_asked (net (Suc i)) c lifetime (ports ! i))
      then max (lifetime div 2) (5 * minute) else 30 * second)"
proof -
  let ?A = "\<forall>i<length ports. mapped_as_asked (net (Suc i)) c lifetime (ports ! i)"
  have "(\<exists>i<length ports. \<not> is_Inr (MapTCP (net (Suc i)) c (ports ! i) (ports ! i) lifetime)) \<Longrightarrow> \<not> ?A"
    by (auto simp: mapped_as_asked_def split: sum.splits)
  moreover have "length (filter id (asked_ok net 1 c lifetime ports)) < length ports \<longleftrightarrow> \<not> ?A"
    using filter_id_all[of "asked_ok net 1 c lifetime ports"] all_asked_ok[of net 1 c lifetime ports] by simp
  ultimately show ?thesis
    by (auto simp: maintain_round_def Let_def map_ports_mapped map_ports_failed)
qed

text \<open>C29: A round of the loop that keeps the control port mapped tells the server the gateway's address,
  counts a port as mapped exactly when the gateway answered with the same external port, and waits for
  half the lifetime, five minutes at least, exactly when the address was found and every port mapped as
  asked; after anything else it tries again after thirty seconds.
\<close>

theorem maintain_round_exact:
  "rd_external (maintain_round net c ports lifetime) =
     (case PublicAddress (net 0) c of Inl _ \<Rightarrow> None | Inr ip \<Rightarrow> Some (IP_String ip)) \<and>
   rd_mapped (maintain_round net c ports lifetime) =
     card {i. i < length ports \<and> mapped_as_asked (net (Suc i)) c lifetime (ports ! i)} \<and>
   rd_next (maintain_round net c ports lifetime) =
     (if is_Inr (PublicAddress (net 0) c) \<and>
         (\<forall>i<length ports. mapped_as_asked (net (Suc i)) c lifetime (ports ! i))
      then max (lifetime div 2) (5 * minute) else 30 * second)"
proof (intro conjI)
  let ?r = "maintain_round net c ports lifetime"
  show "rd_external ?r = (case PublicAddress (net 0) c of Inl _ \<Rightarrow> None | Inr ip \<Rightarrow> Some (IP_String ip))"
    by (simp add: maintain_round_def Let_def)
  show "rd_mapped ?r = card {i. i < length ports \<and> mapped_as_asked (net (Suc i)) c lifetime (ports ! i)}"
    by (auto simp: maintain_round_def Let_def map_ports_mapped length_filter_conv_card nth_asked_ok
        intro!: arg_cong[where f = card])
  show "rd_next ?r = (if is_Inr (PublicAddress (net 0) c) \<and>
         (\<forall>i<length ports. mapped_as_asked (net (Suc i)) c lifetime (ports ! i))
      then max (lifetime div 2) (5 * minute) else 30 * second)"
    by (rule maintain_round_next)
qed

text \<open>The next round comes before the mapping ends, but for lifetimes of five minutes or less.\<close>

lemma renewed_in_time:
  "5 * minute < lifetime \<Longrightarrow> rd_next (maintain_round net c ports lifetime) < lifetime"
  "lifetime \<le> 5 * minute \<Longrightarrow> is_Inr (PublicAddress (net 0) c) \<Longrightarrow>
    (\<forall>i<length ports. mapped_as_asked (net (Suc i)) c lifetime (ports ! i)) \<Longrightarrow>
    lifetime \<le> rd_next (maintain_round net c ports lifetime)"
  using maintain_round_next[of net c ports lifetime] by (auto simp: max_def)

definition address_answer :: "16 word \<Rightarrow> 32 word \<Rightarrow> nat list \<Rightarrow> string" where
  "address_answer result epoch v4 =
     [CHR 0x00, char_of (128 + opAddress)] @ PutUint16 result @ PutUint32 epoch @ map char_of v4"

lemma PublicAddress_answer:
  assumes "roundTrip net c [CHR 0x00, char_of opAddress] = Inr (address_answer result epoch v4)"
    and "length v4 = 4" "\<forall>n \<in> set v4. n \<le> 255"
  shows "PublicAddress net c =
     (if result \<noteq> 0 then Inl (ErrMsg (''NAT-PMP public address result='' @ show_nat (unat result)))
      else Inr (v4_prefix @ v4))"
proof -
  let ?resp = "address_answer result epoch v4"
  have len: "length ?resp = 12" using assms(2) by (simp add: address_answer_def)
  have code: "byte_at ?resp 1 = 128" by (simp add: address_answer_def byte_at_def)
  have result: "Uint16 (bytes_at ?resp 2 4) = result"
    using Uint16_PutUint16[of result "[]"] by (simp add: address_answer_def bytes_at_def)
  have "map of_char (map (char_of :: nat \<Rightarrow> char) v4) = v4"
    using assms(3) by (induction v4) auto
  then have "map of_char (bytes_at ?resp 8 12) = v4"
    using assms(2) by (simp add: address_answer_def bytes_at_def)
  then show ?thesis unfolding PublicAddress_def assms(1) sum.case len code result by auto
qed

lemma maintain_round_exact_witness:
  "rd_next (maintain_round
     (\<lambda>k. if k = 0 then (\<lambda>_ _ _. Inr (address_answer 0 7 [203, 0, 113, 5])) else granting_gateway ''10.0.0.1'' 7)
     \<lparr>pm_Gateway = ''10.0.0.1'', pm_Timeout = 0\<rparr> [2121] hour) = 30 * minute"
proof -
  let ?net = "\<lambda>k::nat. if k = 0 then (\<lambda>_ _ _. Inr (address_answer 0 7 [203, 0, 113, 5]))
       else granting_gateway ''10.0.0.1'' 7"
  let ?c = "\<lparr>pm_Gateway = ''10.0.0.1'', pm_Timeout = 0\<rparr>"
  have "PublicAddress (?net 0) ?c = Inr (v4_prefix @ [203, 0, 113, 5])"
    by (subst PublicAddress_answer[of _ _ 0 7 "[203, 0, 113, 5]"])
       (simp_all add: roundTrip_def address_answer_def)
  moreover have "mapped_as_asked (?net (Suc 0)) ?c hour 2121"
    by (simp add: mapped_as_asked_def MapTCP_def valid_port_def roundTrip_def granting_gateway_def
        map_request_fields length_mapping_answer parse_mapping_answer)
       (simp add: map_request_def byte_at_def)
  ultimately show ?thesis
    using maintain_round_exact[of ?net ?c "[2121]" hour] by (simp add: max_def)
qed

end
