(* ===== verification/Upnp.thy ===== *)
theory Upnp
  imports GoIp GoMatch GoTime "HOL-Library.Multiset"
begin

text \<open>
  The UPnP client of \<open>internal/upnpigd/upnpigd.go\<close>: the search for the gateway, its description, and
  the SOAP calls that map ports. \<open>upnp_net\<close> is what lies outside: the sockets and the web as answers
  to what is sent, \<open>url.Parse\<close> and \<open>ResolveReference\<close> of \<open>net/url\<close>, \<open>xml.Unmarshal\<close> into the structs
  of the code, and the order in which a map is iterated. Deadlines are errors of the network.
\<close>

subsection \<open>Escaping text in XML\<close>

text \<open>The characters XML allows.\<close>

definition isInCharacterRange :: "nat \<Rightarrow> bool" where
  "isInCharacterRange r \<longleftrightarrow>
     r = 0x09 \<or> r = 0x0A \<or> r = 0x0D \<or> (0x20 \<le> r \<and> r \<le> 0xD7FF) \<or> (0xE000 \<le> r \<and> r \<le> 0xFFFD) \<or>
     (0x10000 \<le> r \<and> r \<le> 0x10FFFF)"

definition esc_fffd :: string where
  "esc_fffd = [CHR 0xEF, CHR 0xBF, CHR 0xBD]"

text \<open>\<open>xml.EscapeText\<close>, one rune: what is written and how many bytes it consumes.\<close>

definition escape_rune :: "string \<Rightarrow> string \<times> nat" where
  "escape_rune s =
     (case DecodeRune s of (r, width) \<Rightarrow>
        (if r = 0x22 then ''&#34;''
         else if r = 0x27 then ''&#39;''
         else if r = 0x26 then ''&amp;''
         else if r = 0x3C then ''&lt;''
         else if r = 0x3E then ''&gt;''
         else if r = 0x09 then ''&#x9;''
         else if r = 0x0A then ''&#xA;''
         else if r = 0x0D then ''&#xD;''
         else if \<not> isInCharacterRange r \<or> (r = 0xFFFD \<and> width = 1) then esc_fffd
         else take width s, width))"

function xmlEscape :: "string \<Rightarrow> string" where
  "xmlEscape [] = []"
| "xmlEscape (c # s) =
     (case escape_rune (c # s) of (t, width) \<Rightarrow> t @ xmlEscape (drop (width - 1) s))"
  by pat_completeness auto
termination by (relation "measure length") auto

subsection \<open>The gateway's description\<close>

record serviceDesc =
  sd_ServiceType :: string
  sd_ControlURL :: string

datatype deviceDesc = DeviceDesc "serviceDesc list" "deviceDesc list"

definition is_wan :: "serviceDesc \<Rightarrow> bool" where
  "is_wan svc \<longleftrightarrow>
     (let serviceType = ToLower (sd_ServiceType svc)
      in Contains serviceType ''wanipconnection'' \<or> Contains serviceType ''wanpppconnection'')"

fun findWANService :: "deviceDesc \<Rightarrow> serviceDesc option"
and findWANServices :: "deviceDesc list \<Rightarrow> serviceDesc option" where
  "findWANService (DeviceDesc services devices) =
     (case find is_wan services of Some svc \<Rightarrow> Some svc | None \<Rightarrow> findWANServices devices)"
| "findWANServices [] = None"
| "findWANServices (child # devices) =
     (case findWANService child of Some svc \<Rightarrow> Some svc | None \<Rightarrow> findWANServices devices)"

text \<open>The value of the first line of that name; lines end at a line feed, their blanks are cut.\<close>

fun header_lines :: "string list \<Rightarrow> string \<Rightarrow> string" where
  "header_lines [] key = []"
| "header_lines (line # lines) key =
     (case Cut line colon of (name, value, ok) \<Rightarrow>
        if ok \<and> ToLower (TrimSpace name) = key then TrimSpace value else header_lines lines key)"

definition headerValue :: "string \<Rightarrow> string \<Rightarrow> string" where
  "headerValue raw key = header_lines (Split raw (CHR 0x0A)) (ToLower key)"

subsection \<open>What lies outside\<close>

record soap_request =
  sr_URL :: string
  sr_ContentType :: string
  sr_SOAPAction :: string
  sr_Body :: string

text \<open>An answer: the status, the body as far as it arrives, and the error of reading on.\<close>

record http_answer =
  ha_StatusCode :: int
  ha_Status :: string
  ha_Body :: string
  ha_ReadErr :: "err option"

record upnp_net =
  un_search :: "string \<Rightarrow> string \<Rightarrow> err + string list \<times> err"
  un_get :: "string \<Rightarrow> err + http_answer"
  un_post :: "soap_request \<Rightarrow> err + http_answer"
  un_localIP :: "string \<Rightarrow> err + ip option"
  un_hostname :: "string \<Rightarrow> err + string"
  un_resolve :: "string \<Rightarrow> string \<Rightarrow> err + string"
  un_root :: "string \<Rightarrow> err + deviceDesc"
  un_external :: "string \<Rightarrow> err + string"
  un_order :: "(string \<times> string) list \<Rightarrow> (string \<times> string) list"

record upnp_client =
  uc_ControlURL :: string
  uc_ServiceType :: string
  uc_LocalIP :: "ip option"

record upnp_mapping =
  um_InternalPort :: int
  um_ExternalPort :: int
  um_Protocol :: string
  um_Lifetime :: duration

definition http_ok :: "http_answer \<Rightarrow> bool" where
  "http_ok resp \<longleftrightarrow> 200 \<le> ha_StatusCode resp \<and> ha_StatusCode resp \<le> 299"

subsection \<open>SOAP\<close>

definition dquote :: string where
  "dquote = [CHR 0x22]"

definition element :: "string \<times> string \<Rightarrow> string" where
  "element arg = ''<'' @ fst arg @ ''>'' @ xmlEscape (snd arg) @ ''</'' @ fst arg @ ''>''"

definition envelope :: "string \<Rightarrow> string \<Rightarrow> (string \<times> string) list \<Rightarrow> string" where
  "envelope serviceType action args =
     ''<?xml version='' @ dquote @ ''1.0'' @ dquote @ ''?>'' @
     ''<s:Envelope xmlns:s='' @ dquote @ ''http://schemas.xmlsoap.org/soap/envelope/'' @ dquote @
     '' s:encodingStyle='' @ dquote @ ''http://schemas.xmlsoap.org/soap/encoding/'' @ dquote @ ''>'' @
     ''<s:Body>'' @
     ''<u:'' @ action @ '' xmlns:u='' @ dquote @ xmlEscape serviceType @ dquote @ ''>'' @
     concat (map element args) @
     ''</u:'' @ action @ ''>'' @
     ''</s:Body></s:Envelope>''"

definition soap_message :: "upnp_client \<Rightarrow> string \<Rightarrow> (string \<times> string) list \<Rightarrow> soap_request" where
  "soap_message c action args =
     \<lparr>sr_URL = uc_ControlURL c,
      sr_ContentType = ''text/xml; charset='' @ dquote @ ''utf-8'' @ dquote,
      sr_SOAPAction = dquote @ uc_ServiceType c @ ''#'' @ action @ dquote,
      sr_Body = envelope (uc_ServiceType c) action args\<rparr>"

text \<open>The error of a URL that does not parse is one of \<open>un_post\<close>; at most a MiB of the body is read.\<close>

definition soap :: "upnp_net \<Rightarrow> upnp_client \<Rightarrow> string \<Rightarrow> (string \<times> string) list \<Rightarrow> err + string" where
  "soap net c action args =
     (case un_post net (soap_message c action (un_order net args)) of
        Inl e \<Rightarrow> Inl e
      | Inr resp \<Rightarrow>
          let body = take (2 ^ 20) (ha_Body resp)
          in if \<not> http_ok resp
             then Inl (ErrMsg (''UPnP '' @ action @ '' failed: '' @ ha_Status resp @ '': '' @ TrimSpace body))
             else Inr body)"

definition upnp_PublicAddress :: "upnp_net \<Rightarrow> upnp_client \<Rightarrow> err + ip" where
  "upnp_PublicAddress net c =
     (case soap net c ''GetExternalIPAddress'' [] of
        Inl e \<Rightarrow> Inl e
      | Inr body \<Rightarrow> (case un_external net body of
          Inl e \<Rightarrow> Inl e
        | Inr address \<Rightarrow> (case ParseIP (TrimSpace address) of
            None \<Rightarrow> Inl (ErrMsg ''bad UPnP external address response'')
          | Some ip \<Rightarrow> Inr ip)))"

definition tcp_port :: "int \<Rightarrow> bool" where
  "tcp_port p \<longleftrightarrow> 0 < p \<and> p \<le> 65535"

definition mapping_args :: "ip \<Rightarrow> int \<Rightarrow> int \<Rightarrow> duration \<Rightarrow> string \<Rightarrow> (string \<times> string) list" where
  "mapping_args localIP internalPort externalPort lifetime description =
     [(''NewRemoteHost'', ''''),
      (''NewExternalPort'', Itoa externalPort),
      (''NewProtocol'', ''TCP''),
      (''NewInternalPort'', Itoa internalPort),
      (''NewInternalClient'', IP_String localIP),
      (''NewEnabled'', ''1''),
      (''NewPortMappingDescription'', description),
      (''NewLeaseDuration'', Itoa (lifetime div second))]"

definition upnp_MapTCP ::
  "upnp_net \<Rightarrow> upnp_client \<Rightarrow> int \<Rightarrow> int \<Rightarrow> duration \<Rightarrow> string \<Rightarrow> err + upnp_mapping" where
  "upnp_MapTCP net c internalPort externalPort lifetime0 description0 =
     (if \<not> tcp_port internalPort \<or> \<not> tcp_port externalPort
      then Inl (ErrMsg (''invalid TCP mapping '' @ Itoa internalPort @ ''->'' @ Itoa externalPort))
      else case uc_LocalIP c of
        None \<Rightarrow> Inl (ErrMsg ''UPnP local IP is not set'')
      | Some localIP \<Rightarrow>
          let lifetime = (if lifetime0 \<le> 0 then hour else lifetime0);
              description = (if description0 = [] then ''macftpd'' else description0)
          in case soap net c ''AddPortMapping'' (mapping_args localIP internalPort externalPort lifetime description) of
               Inl e \<Rightarrow> Inl e
             | Inr _ \<Rightarrow> Inr \<lparr>um_InternalPort = internalPort, um_ExternalPort = externalPort,
                 um_Protocol = ''TCP'', um_Lifetime = lifetime\<rparr>)"

definition upnp_DeleteTCP :: "upnp_net \<Rightarrow> upnp_client \<Rightarrow> int \<Rightarrow> err option" where
  "upnp_DeleteTCP net c externalPort =
     (if \<not> tcp_port externalPort then Some (ErrMsg (''invalid TCP external port '' @ Itoa externalPort))
      else case soap net c ''DeletePortMapping''
             [(''NewRemoteHost'', ''''), (''NewExternalPort'', Itoa externalPort), (''NewProtocol'', ''TCP'')] of
             Inl e \<Rightarrow> Some e
           | Inr _ \<Rightarrow> None)"

subsection \<open>Finding the gateway\<close>

abbreviation (input) ssdpAddr :: string where "ssdpAddr \<equiv> ''239.255.255.250:1900''"

definition ssdp_search :: string where
  "ssdp_search =
     Join [''M-SEARCH * HTTP/1.1'', ''HOST: '' @ ssdpAddr,
       ''MAN: '' @ dquote @ ''ssdp:discover'' @ dquote, ''MX: 2'',
       ''ST: urn:schemas-upnp-org:device:InternetGatewayDevice:1'', '''', '''']
       [CHR 0x0D, CHR 0x0A]"

text \<open>Datagrams are read until one has a location; after the last the read fails.\<close>

fun read_locations :: "string list \<Rightarrow> err \<Rightarrow> err + string" where
  "read_locations [] e = Inl e"
| "read_locations (datagram # datagrams) e =
     (let location = headerValue (take 65536 datagram) ''location''
      in if location \<noteq> [] then Inr location else read_locations datagrams e)"

definition discoverLocation :: "upnp_net \<Rightarrow> err + string" where
  "discoverLocation net =
     (case un_search net ssdpAddr ssdp_search of
        Inl e \<Rightarrow> Inl e
      | Inr (datagrams, e) \<Rightarrow> read_locations datagrams e)"

definition parseRootDescription :: "upnp_net \<Rightarrow> string \<Rightarrow> err + string \<times> string" where
  "parseRootDescription net raw =
     (case un_root net raw of
        Inl e \<Rightarrow> Inl e
      | Inr device \<Rightarrow> (case findWANService device of
          Some svc \<Rightarrow> Inr (TrimSpace (sd_ControlURL svc), TrimSpace (sd_ServiceType svc))
        | None \<Rightarrow> Inl (ErrMsg ''UPnP WAN connection service not found'')))"

text \<open>The error of reading the body shows when it comes within the two MiB that are read.\<close>

definition fetchControlURL :: "upnp_net \<Rightarrow> string \<Rightarrow> err + string \<times> string" where
  "fetchControlURL net location =
     (case un_get net location of
        Inl e \<Rightarrow> Inl e
      | Inr resp \<Rightarrow>
          if \<not> http_ok resp then Inl (ErrMsg (''UPnP root description failed: '' @ ha_Status resp))
          else case (if length (ha_Body resp) < 2 ^ 21 then ha_ReadErr resp else None) of
            Some e \<Rightarrow> Inl e
          | None \<Rightarrow> (case parseRootDescription net (take (2 ^ 21) (ha_Body resp)) of
              Inl e \<Rightarrow> Inl e
            | Inr (control, serviceType) \<Rightarrow> (case un_resolve net location control of
                Inl e \<Rightarrow> Inl e
              | Inr controlURL \<Rightarrow> Inr (controlURL, serviceType))))"

definition localIPFor :: "upnp_net \<Rightarrow> string \<Rightarrow> err + ip" where
  "localIPFor net location =
     (case un_hostname net location of
        Inl e \<Rightarrow> Inl e
      | Inr host \<Rightarrow>
          if host = [] then Inl (ErrMsg ''UPnP location has no host'')
          else case un_localIP net (JoinHostPort host ''1900'') of
            Inl e \<Rightarrow> Inl e
          | Inr None \<Rightarrow> Inl (ErrMsg ''cannot determine local UPnP client IP'')
          | Inr (Some ip) \<Rightarrow> Inr ip)"

definition Discover :: "upnp_net \<Rightarrow> err + upnp_client" where
  "Discover net =
     (case discoverLocation net of
        Inl e \<Rightarrow> Inl e
      | Inr location \<Rightarrow> (case fetchControlURL net location of
          Inl e \<Rightarrow> Inl e
        | Inr (controlURL, serviceType) \<Rightarrow> (case localIPFor net location of
            Inl e \<Rightarrow> Inl e
          | Inr localIP \<Rightarrow> Inr \<lparr>uc_ControlURL = controlURL, uc_ServiceType = serviceType,
              uc_LocalIP = Some localIP\<rparr>)))"

subsection \<open>The service that is found\<close>

text \<open>The services of a device and of the devices in it, in the order of the document.\<close>

fun all_services :: "deviceDesc \<Rightarrow> serviceDesc list" where
  "all_services (DeviceDesc services devices) = services @ concat (map all_services devices)"

lemma find_append: "find P (xs @ ys) = (case find P xs of Some x \<Rightarrow> Some x | None \<Rightarrow> find P ys)"
  by (induction xs) auto

lemma findWANService_find:
  "findWANService device = find is_wan (all_services device)"
  "findWANServices devices = find is_wan (concat (map all_services devices))"
  by (induction device and devices rule: findWANService_findWANServices.induct)
     (simp_all add: find_append split: option.splits)

text \<open>C31: The search through the tree of devices finds the first service for a WAN connection in the
  order of the document, and fails exactly when no device of the tree has one.
\<close>

theorem first_wan_service:
  "findWANService device = find is_wan (all_services device) \<and>
   (findWANService device = None \<longleftrightarrow> \<not> list_ex is_wan (all_services device))"
  by (auto simp: findWANService_find(1) find_None_iff list_ex_iff)

subsection \<open>What is escaped stays text\<close>

text \<open>A rune is a byte of ASCII, an invalid byte, or a sequence of bytes above it.\<close>

definition long_rune :: "string \<Rightarrow> nat \<times> nat \<Rightarrow> bool" where
  "long_rune s d \<longleftrightarrow> 128 \<le> fst d \<and> 2 \<le> snd d \<and> snd d \<le> length s \<and>
     (\<forall>c \<in> set (take (snd d) s). 128 \<le> (of_char c :: nat))"

lemma mod_block: "k * m \<le> n \<Longrightarrow> n < Suc k * m \<Longrightarrow> n mod m = n - k * m" for n :: nat
proof -
  assume "k * m \<le> n" "n < Suc k * m"
  then obtain r where "n = k * m + r" "r < m" by (auto simp: dest!: le_Suc_ex)
  then show ?thesis by simp
qed

lemma byte_in_mod:
  "byte_in 0xC2 0xDF a \<Longrightarrow> 2 \<le> (of_char a :: nat) mod 32"
  "byte_in 0xE1 0xEF a \<Longrightarrow> 1 \<le> (of_char a :: nat) mod 16"
  "byte_in 0xF1 0xF4 a \<Longrightarrow> 1 \<le> (of_char a :: nat) mod 8"
  "byte_in 0xA0 0xBF b \<Longrightarrow> 32 \<le> low6 b"
  "byte_in 0x90 0xBF b \<Longrightarrow> 16 \<le> low6 b"
  using mod_block[of 6 32 "of_char a"] mod_block[of 14 16 "of_char a"] mod_block[of 30 8 "of_char a"]
    mod_block[of 2 64 "of_char b"]
  by (auto simp: byte_in_def low6_def)

lemma byte_in_high: "byte_in lo hi a \<Longrightarrow> 128 \<le> lo \<Longrightarrow> 128 \<le> (of_char a :: nat)"
  by (simp add: byte_in_def)

lemma DecodeRune_two:
  assumes "byte_in 0xC2 0xDF a"
  shows "DecodeRune (a # t) = (0xFFFD, 1) \<or> long_rune (a # t) (DecodeRune (a # t))"
proof (cases t)
  case (Cons b u)
  moreover have "\<not> byte_in 0 0x7F a" using assms by (simp add: byte_in_def)
  ultimately show ?thesis
    using assms byte_in_mod(1)[OF assms] byte_in_high[OF assms]
    by (auto simp: DecodeRune_def long_rune_def cont_byte_def dest: byte_in_high)
qed (use assms in \<open>simp add: DecodeRune_def byte_in_def\<close>)

lemma DecodeRune_three:
  assumes "byte_in 0xE0 0xEF a"
  shows "DecodeRune (a # t) = (0xFFFD, 1) \<or> long_rune (a # t) (DecodeRune (a # t))"
proof (cases "\<exists>b c u. t = b # c # u")
  case True
  then obtain b c u where t: "t = b # c # u" by blast
  have classes: "\<not> byte_in 0 0x7F a" "\<not> byte_in 0xC2 0xDF a" using assms by (simp_all add: byte_in_def)
  let ?ok = "if of_char a = (0xE0 :: nat) then byte_in 0xA0 0xBF b
             else if of_char a = (0xED :: nat) then byte_in 0x80 0x9F b else cont_byte b"
  show ?thesis
  proof (cases "?ok \<and> cont_byte c")
    case ok: True
    then have "128 \<le> (of_char b :: nat)" "128 \<le> (of_char c :: nat)"
      by (auto simp: cont_byte_def dest: byte_in_high split: if_splits)
    moreover have "2 \<le> low6 b \<or> 1 \<le> (of_char a :: nat) mod 16"
    proof (cases "of_char a = (0xE0 :: nat)")
      case True
      with ok show ?thesis using byte_in_mod(4)[of b] by auto
    next
      case False
      with assms have "byte_in 0xE1 0xEF a" by (simp add: byte_in_def)
      then show ?thesis using byte_in_mod(2) by blast
    qed
    ultimately show ?thesis
      using ok byte_in_high[OF assms]
      by (simp only: DecodeRune_def t list.case classes assms if_False if_True Let_def long_rune_def fst_conv snd_conv) auto
  next
    case False
    then show ?thesis
      by (simp only: DecodeRune_def t list.case classes assms if_False if_True Let_def simp_thms)
  qed
next
  case False
  with assms show ?thesis
    by (auto simp: DecodeRune_def byte_in_def Let_def split: list.splits)
qed

lemma DecodeRune_four:
  assumes "byte_in 0xF0 0xF4 a"
  shows "DecodeRune (a # t) = (0xFFFD, 1) \<or> long_rune (a # t) (DecodeRune (a # t))"
proof (cases "\<exists>b c d u. t = b # c # d # u")
  case True
  then obtain b c d u where t: "t = b # c # d # u" by blast
  have classes: "\<not> byte_in 0 0x7F a" "\<not> byte_in 0xC2 0xDF a" "\<not> byte_in 0xE0 0xEF a"
    using assms by (simp_all add: byte_in_def)
  let ?ok = "if of_char a = (0xF0 :: nat) then byte_in 0x90 0xBF b
             else if of_char a = (0xF4 :: nat) then byte_in 0x80 0x8F b else cont_byte b"
  show ?thesis
  proof (cases "?ok \<and> cont_byte c \<and> cont_byte d")
    case ok: True
    then have "128 \<le> (of_char b :: nat)" "128 \<le> (of_char c :: nat)" "128 \<le> (of_char d :: nat)"
      by (auto simp: cont_byte_def dest: byte_in_high split: if_splits)
    moreover have "1 \<le> low6 b \<or> 1 \<le> (of_char a :: nat) mod 8"
    proof (cases "of_char a = (0xF0 :: nat)")
      case True
      with ok show ?thesis using byte_in_mod(5)[of b] by auto
    next
      case False
      with assms have "byte_in 0xF1 0xF4 a" by (simp add: byte_in_def)
      then show ?thesis using byte_in_mod(3) by blast
    qed
    ultimately show ?thesis
      using ok byte_in_high[OF assms]
      by (simp only: DecodeRune_def t list.case classes assms if_False if_True Let_def long_rune_def fst_conv snd_conv) auto
  next
    case False
    then show ?thesis
      by (simp only: DecodeRune_def t list.case classes assms if_False if_True Let_def simp_thms)
  qed
next
  case False
  with assms show ?thesis
    by (auto simp: DecodeRune_def byte_in_def Let_def split: list.splits)
qed

lemma DecodeRune_cases:
  obtains "DecodeRune (a # t) = (of_char a, 1)" "of_char a < (128 :: nat)"
  | "DecodeRune (a # t) = (0xFFFD, 1)"
  | "long_rune (a # t) (DecodeRune (a # t))"
proof -
  consider "byte_in 0 0x7F a" | "byte_in 0xC2 0xDF a" | "byte_in 0xE0 0xEF a" | "byte_in 0xF0 0xF4 a"
    | "\<not> byte_in 0 0x7F a" "\<not> byte_in 0xC2 0xDF a" "\<not> byte_in 0xE0 0xEF a" "\<not> byte_in 0xF0 0xF4 a"
    by blast
  then show thesis
  proof cases
    case 1
    then show ?thesis using that(1) by (simp add: DecodeRune_def byte_in_def)
  next
    case 5
    then have "DecodeRune (a # t) = (0xFFFD, 1)" by (simp add: DecodeRune_def split: list.splits)
    then show ?thesis by (rule that(2))
  qed (use DecodeRune_two DecodeRune_three DecodeRune_four that in blast)+
qed

definition markup :: "char set" where
  "markup = {CHR 0x22, CHR 0x27, CHR ''<'', CHR ''>''}"

lemma high_no_markup: "128 \<le> (of_char c :: nat) \<Longrightarrow> c \<notin> markup \<and> c \<noteq> CHR ''&''"
  by (auto simp: markup_def)

text \<open>What one rune is written as: an entity, the replacement, or its own bytes without markup.\<close>

definition entities :: "(string \<times> string) list" where
  "entities =
     [(''&#34;'', [CHR 0x22]), (''&#39;'', [CHR 0x27]), (''&amp;'', ''&''), (''&lt;'', ''<''), (''&gt;'', ''>''),
      (''&#x9;'', [CHR 0x09]), (''&#xA;'', [CHR 0x0A]), (''&#xD;'', [CHR 0x0D])]"

definition valid_rune :: "string \<Rightarrow> bool" where
  "valid_rune s = (case DecodeRune s of (r, width) \<Rightarrow> isInCharacterRange r \<and> \<not> (r = 0xFFFD \<and> width = 1))"

lemma escape_rune_cases:
  obtains e v where "escape_rune (a # t) = (e, 1)" "(e, v) \<in> set entities" "v = [a]"
  | w where "escape_rune (a # t) = (esc_fffd, w)" "\<not> valid_rune (a # t)"
  | w where "escape_rune (a # t) = (take w (a # t), w)" "1 \<le> w" "w \<le> length (a # t)"
      "\<forall>c \<in> set (take w (a # t)). c \<notin> markup \<and> c \<noteq> CHR ''&''"
proof (cases rule: DecodeRune_cases[of a t])
  case 1
  let ?special = "{CHR 0x22, CHR 0x27, CHR ''&'', CHR ''<'', CHR ''>'', CHR 0x09, CHR 0x0A, CHR 0x0D}"
  show thesis
  proof (cases "a \<in> ?special")
    case True
    then obtain e where "escape_rune (a # t) = (e, 1)" "(e, [a]) \<in> set entities"
      using 1(1) by (auto simp: escape_rune_def entities_def)
    then show thesis using that(1) by blast
  next
    case False
    then have "of_char a \<notin> (of_char ` ?special :: nat set)"
      by (simp only: inj_image_mem_iff[OF inj_of_char] simp_thms)
    then have r: "of_char a \<notin> {0x22, 0x27, 0x26, 0x3C, 0x3E, 0x09, 0x0A, 0x0D :: nat}"
      by simp
    show thesis
    proof (cases "isInCharacterRange (of_char a)")
      case True
      with r 1 have "escape_rune (a # t) = (take 1 (a # t), 1)" by (simp add: escape_rune_def)
      then show thesis using that(3)[of 1] False by (auto simp: markup_def)
    next
      case out: False
      with r 1 have "escape_rune (a # t) = (esc_fffd, 1)" by (simp add: escape_rune_def)
      then show thesis using that(2) out 1 by (simp add: valid_rune_def)
    qed
  qed
next
  case 2
  then show thesis using that(2)[of 1] by (simp add: escape_rune_def valid_rune_def)
next
  case 3
  obtain r w where d: "DecodeRune (a # t) = (r, w)" by (rule prod.exhaust)
  with 3 have long: "128 \<le> r" "2 \<le> w" "w \<le> length (a # t)" "\<forall>c \<in> set (take w (a # t)). 128 \<le> (of_char c :: nat)"
    by (auto simp: long_rune_def)
  then have "escape_rune (a # t) = (if isInCharacterRange r then take w (a # t) else esc_fffd, w)"
    by (simp add: escape_rune_def d)
  then show thesis using that(2,3)[of w] long high_no_markup by (cases "isInCharacterRange r") (auto simp: valid_rune_def d)
qed

lemma xmlEscape_step: "xmlEscape (a # t) = fst (escape_rune (a # t)) @ xmlEscape (drop (snd (escape_rune (a # t)) - 1) t)"
  by (simp split: prod.splits)

lemma xmlEscape_no_markup: "c \<in> set (xmlEscape s) \<Longrightarrow> c \<notin> markup"
proof (induction s rule: xmlEscape.induct)
  case (2 a t)
  have "c \<in> set (fst (escape_rune (a # t))) \<Longrightarrow> c \<notin> markup"
  proof (cases rule: escape_rune_cases[of a t])
    case (1 e v)
    then show "c \<in> set (fst (escape_rune (a # t))) \<Longrightarrow> c \<notin> markup"
      by (auto simp: entities_def markup_def)
  qed (auto simp: esc_fffd_def markup_def)
  with 2 show ?case
    unfolding xmlEscape_step[of a t] by (cases "escape_rune (a # t)") auto
qed simp

text \<open>What an XML reader makes of the entities, and the texts of characters XML allows.\<close>

function xml_unescape :: "string \<Rightarrow> string" where
  "xml_unescape [] = []"
| "xml_unescape (c # s) =
     (case find (\<lambda>(e, v). HasPrefix (c # s) e) entities of
        Some (e, v) \<Rightarrow> v @ xml_unescape (drop (length e - 1) s)
      | None \<Rightarrow> c # xml_unescape s)"
  by pat_completeness auto
termination by (relation "measure length") auto

function xml_text :: "string \<Rightarrow> bool" where
  "xml_text [] = True"
| "xml_text (c # s) \<longleftrightarrow> valid_rune (c # s) \<and> xml_text (drop (snd (DecodeRune (c # s)) - 1) s)"
  by pat_completeness auto
termination by (relation "measure length") auto

lemma xml_unescape_plain: "CHR ''&'' \<notin> set t \<Longrightarrow> xml_unescape (t @ r) = t @ xml_unescape r"
proof (induction t)
  case (Cons c t)
  then have "find (\<lambda>(e, v). HasPrefix (c # t @ r) e) entities = None"
    by (auto simp: find_None_iff entities_def)
  with Cons show ?case by simp
qed simp

lemma xml_unescape_entity: "(e, v) \<in> set entities \<Longrightarrow> xml_unescape (e @ r) = v @ xml_unescape r"
  by (auto simp: entities_def)

lemma xml_unescape_xmlEscape: "xml_text s \<Longrightarrow> xml_unescape (xmlEscape s) = s"
proof (induction s rule: xmlEscape.induct)
  case (2 a t)
  have width: "snd (escape_rune (a # t)) = snd (DecodeRune (a # t))"
    by (simp add: escape_rune_def split: prod.splits)
  have IH: "xml_unescape (xmlEscape (drop (snd (escape_rune (a # t)) - 1) t)) = drop (snd (escape_rune (a # t)) - 1) t"
    using 2 width by (cases "escape_rune (a # t)") auto
  show ?case
  proof (cases rule: escape_rune_cases[of a t])
    case (1 e v)
    then show ?thesis unfolding xmlEscape_step using IH by (simp add: xml_unescape_entity)
  next
    case (2 w)
    with "2.prems" show ?thesis by simp
  next
    case (3 w)
    then have "xml_unescape (take w (a # t) @ xmlEscape (drop (w - 1) t)) = take w (a # t) @ xml_unescape (xmlEscape (drop (w - 1) t))"
      by (intro xml_unescape_plain) blast
    then show ?thesis unfolding xmlEscape_step using IH 3 by (cases w) auto
  qed
qed simp

subsection \<open>What a gateway reads in a message\<close>

text \<open>The tags of a document with the text after each, and the text after the first tag of a name.\<close>

definition xml_elements :: "string \<Rightarrow> (string \<times> string) list" where
  "xml_elements doc =
     map (\<lambda>s. case Cut s (CHR ''>'') of (tag, rest, _) \<Rightarrow> (tag, rest)) (tl (Split doc (CHR ''<'')))"

definition xml_value :: "string \<Rightarrow> string \<Rightarrow> string option" where
  "xml_value doc name = map_option xml_unescape (map_of (xml_elements doc) name)"

definition tagged :: "string \<times> string \<Rightarrow> string" where
  "tagged part = ''<'' @ fst part @ ''>'' @ snd part"

definition well_tagged :: "string \<times> string \<Rightarrow> bool" where
  "well_tagged part \<longleftrightarrow> CHR ''<'' \<notin> set (fst part) \<and> CHR ''>'' \<notin> set (fst part) \<and> CHR ''<'' \<notin> set (snd part)"

lemma Split_before_tag:
  "CHR ''<'' \<notin> set y \<Longrightarrow> doc = [] \<or> hd doc = CHR ''<'' \<Longrightarrow>
    Split (y @ doc) (CHR ''<'') = y # tl (Split doc (CHR ''<''))"
  by (cases doc) (auto simp: Split_fresh Split_append_sep)

lemma tagged_shape: "concat (map tagged parts) = [] \<or> hd (concat (map tagged parts)) = CHR ''<''"
  by (cases parts) (auto simp: tagged_def)

lemma xml_elements_tagged:
  "\<forall>part \<in> set parts. well_tagged part \<Longrightarrow> xml_elements (concat (map tagged parts)) = parts"
proof (induction parts)
  case (Cons part parts)
  obtain tag chars where part: "part = (tag, chars)" by (rule prod.exhaust)
  with Cons.prems have fresh: "CHR ''<'' \<notin> set (tag @ ''>'' @ chars)" "CHR ''>'' \<notin> set tag"
    by (auto simp: well_tagged_def)
  have "tl (Split (tagged part @ concat (map tagged parts)) (CHR ''<'')) =
      Split ((tag @ ''>'' @ chars) @ concat (map tagged parts)) (CHR ''<'')"
    by (simp add: tagged_def part)
  also have "\<dots> = (tag @ ''>'' @ chars) # tl (Split (concat (map tagged parts)) (CHR ''<''))"
    by (rule Split_before_tag[OF fresh(1) tagged_shape])
  finally have "tl (Split (concat (map tagged (part # parts))) (CHR ''<'')) =
      (tag @ CHR ''>'' # chars) # tl (Split (concat (map tagged parts)) (CHR ''<''))" by simp
  with Cons show ?case by (simp add: xml_elements_def Cut_found[OF fresh(2)] part)
qed (simp add: xml_elements_def)

definition envelope_head :: "string \<Rightarrow> string \<Rightarrow> (string \<times> string) list" where
  "envelope_head serviceType action =
     [(''?xml version='' @ dquote @ ''1.0'' @ dquote @ ''?'', []),
      (''s:Envelope xmlns:s='' @ dquote @ ''http://schemas.xmlsoap.org/soap/envelope/'' @ dquote @
       '' s:encodingStyle='' @ dquote @ ''http://schemas.xmlsoap.org/soap/encoding/'' @ dquote, []),
      (''s:Body'', []),
      (''u:'' @ action @ '' xmlns:u='' @ dquote @ xmlEscape serviceType @ dquote, [])]"

definition envelope_tail :: "string \<Rightarrow> (string \<times> string) list" where
  "envelope_tail action = [(''/u:'' @ action, []), (''/s:Body'', []), (''/s:Envelope'', [])]"

definition element_parts :: "string \<times> string \<Rightarrow> (string \<times> string) list" where
  "element_parts arg = [(fst arg, xmlEscape (snd arg)), (''/'' @ fst arg, [])]"

lemma element_tagged: "element arg = concat (map tagged (element_parts arg))"
  by (simp add: element_def element_parts_def tagged_def)

lemma elements_tagged: "concat (map element args) = concat (map tagged (concat (map element_parts args)))"
  by (induction args) (simp_all add: element_tagged)

lemma envelope_tagged:
  "envelope serviceType action args =
     concat (map tagged (envelope_head serviceType action @ concat (map element_parts args) @ envelope_tail action))"
  by (simp add: envelope_def envelope_head_def envelope_tail_def elements_tagged) (simp add: tagged_def)

definition tag_name :: "string \<Rightarrow> bool" where
  "tag_name n \<longleftrightarrow> list_all (\<lambda>c. is_lower c \<or> is_upper c \<or> is_digit c) n \<and> n \<noteq> []"

lemma tag_name_fresh: "tag_name n \<Longrightarrow> c \<in> {CHR ''<'', CHR ''>'', CHR ''/'', CHR '':'', CHR ''?''} \<Longrightarrow> c \<notin> set n"
  by (auto simp: tag_name_def list_all_iff is_lower_def is_upper_def is_digit_def)

lemma well_tagged_envelope:
  assumes "tag_name action" "\<forall>arg \<in> set args. tag_name (fst arg)"
    and "part \<in> set (envelope_head serviceType action @ concat (map element_parts args) @ envelope_tail action)"
  shows "well_tagged part"
proof -
  have esc: "CHR ''<'' \<notin> set (xmlEscape s)" "CHR ''>'' \<notin> set (xmlEscape s)" for s
    using xmlEscape_no_markup[of _ s] by (auto simp: markup_def)
  show ?thesis
    using assms esc tag_name_fresh[OF assms(1)]
    by (auto simp: envelope_head_def envelope_tail_def element_parts_def well_tagged_def dquote_def tag_name_fresh)
qed

lemma map_of_elements:
  assumes "\<forall>arg \<in> set args. tag_name (fst arg)" and "tag_name n"
  shows "map_of (concat (map element_parts args) @ rest) n =
    (case map_of args n of Some v \<Rightarrow> Some (xmlEscape v) | None \<Rightarrow> map_of rest n)"
  using assms(1)
proof (induction args)
  case (Cons arg args)
  have "''/'' @ fst arg \<noteq> n" using tag_name_fresh[OF assms(2), of "CHR ''/''"] by auto
  with Cons show ?case by (cases arg) (auto simp: element_parts_def)
qed simp

lemma xml_value_envelope:
  assumes "tag_name action" "\<forall>arg \<in> set args. tag_name (fst arg)" "tag_name n"
    and "map_of args n = Some v" "xml_text v"
  shows "xml_value (envelope serviceType action args) n = Some v"
proof -
  have "xml_elements (envelope serviceType action args) =
      envelope_head serviceType action @ concat (map element_parts args) @ envelope_tail action"
    unfolding envelope_tagged using well_tagged_envelope[OF assms(1,2)]
    by (intro xml_elements_tagged) blast
  moreover have "\<forall>part \<in> set (envelope_head serviceType action). CHR '':'' \<in> set (fst part) \<or> CHR ''?'' \<in> set (fst part)"
    by (simp add: envelope_head_def)
  then have "n \<notin> fst ` set (envelope_head serviceType action)"
    using tag_name_fresh[OF assms(3), of "CHR '':''"] tag_name_fresh[OF assms(3), of "CHR ''?''"] by blast
  then have "map_of (envelope_head serviceType action) n = None" by (simp add: map_of_eq_None_iff)
  then have "map_of (envelope_head serviceType action @ concat (map element_parts args) @ envelope_tail action) n =
      map_of (concat (map element_parts args) @ envelope_tail action) n"
    by (simp only: map_of_append map_add_def option.case_eq_if) (simp split: option.splits)
  ultimately show ?thesis
    by (simp only: xml_value_def map_of_elements[OF assms(2,3)] assms(4) option.case option.map
        xml_unescape_xmlEscape[OF assms(5)])
qed

text \<open>Texts of printable ASCII characters are texts of XML; so are numbers and addresses.\<close>

definition printable :: "char \<Rightarrow> bool" where
  "printable c \<longleftrightarrow> 32 \<le> (of_char c :: nat) \<and> of_char c < (127 :: nat)"

lemma xml_text_printable: "list_all printable s \<Longrightarrow> xml_text s"
proof (induction s)
  case (Cons c s)
  then have "DecodeRune (c # s) = (of_char c, 1)" "isInCharacterRange (of_char c)" "of_char c \<noteq> (0xFFFD :: nat)"
    by (auto simp: DecodeRune_def byte_in_def printable_def isInCharacterRange_def)
  with Cons show ?case by (simp add: valid_rune_def)
qed simp

lemma printable_digit: "is_digit c \<Longrightarrow> printable c"
  by (simp add: is_digit_def printable_def Let_def)

lemma printable_show_nat [simp]: "list_all printable (show_nat n)"
  using show_nat_digits[of n] by (auto simp: list_all_iff printable_digit)

lemma printable_Itoa [simp]: "list_all printable (Itoa i)"
  by (simp add: Itoa_def) (simp add: printable_def)

lemma printable_Join: "\<forall>x \<in> set xs. list_all printable x \<Longrightarrow> list_all printable sep \<Longrightarrow> list_all printable (Join xs sep)"
  using set_Join[of xs sep] by (fastforce simp: list_all_iff)

lemma printable_group: "list_all printable (show_group g)"
proof -
  have "printable (show_hex_digit n)" if "n < 16" for n
    using that by (auto simp: printable_def show_hex_digit_def)
  then have "\<forall>c \<in> set (map (\<lambda>d. show_hex_digit (g div d mod 16)) [4096, 256, 16, 1]). printable c" by simp
  then show ?thesis
    by (auto simp: show_group_def Let_def list_all_iff printable_def[of "CHR ''0''"] dest!: set_dropWhileD)
qed

lemma printable_groups: "list_all printable (join_groups gs)"
  unfolding join_groups_def by (rule printable_Join) (auto simp: printable_group, simp add: printable_def)

lemma printable_IP [simp]: "list_all printable (IP_String ip)"
proof -
  have "list_all printable (show_ip4 v4)" for v4
    unfolding show_ip4_def by (rule printable_Join) (auto, simp add: printable_def)
  moreover have "list_all printable (show_ip6 gs)" for gs
    by (auto simp: show_ip6_def printable_groups split: prod.splits) (simp_all add: printable_def)
  ultimately show ?thesis by (auto simp: IP_String_def split: option.splits)
qed

definition mapping_names :: "string list" where
  "mapping_names = [''NewRemoteHost'', ''NewExternalPort'', ''NewProtocol'', ''NewInternalPort'', ''NewInternalClient'',
     ''NewEnabled'', ''NewPortMappingDescription'', ''NewLeaseDuration'']"

lemma mapping_args_names: "map fst (mapping_args ip i e l d) = mapping_names"
  by (simp add: mapping_args_def mapping_names_def)

lemma mapping_names_tags: "distinct mapping_names" "\<forall>n \<in> set mapping_names. tag_name n"
  by (simp_all add: mapping_names_def tag_name_def is_lower_def is_upper_def is_digit_def Let_def)

text \<open>The arguments are read back whatever the order in which the map is iterated.\<close>

lemma mapping_value:
  assumes "mset args = mset (mapping_args ip i e l d)" and "(n, v) \<in> set (mapping_args ip i e l d)"
    and "xml_text d"
  shows "xml_value (envelope serviceType ''AddPortMapping'' args) n = Some v"
proof -
  have elems: "set args = set (mapping_args ip i e l d)" using assms(1) by (rule mset_eq_setD)
  have names: "mset (map fst args) = mset mapping_names"
    by (simp only: mset_map assms(1) flip: mapping_args_names[of ip i e l d])
  have keys: "distinct (map fst args)" "set (map fst args) = set mapping_names"
    using mset_eq_imp_distinct_iff[OF names] mapping_names_tags(1) mset_eq_setD[OF names] by blast+
  have "map_of args n = Some v" using assms(2) elems keys(1) by simp
  moreover have "\<forall>arg \<in> set args. tag_name (fst arg)" using keys(2) mapping_names_tags(2) by auto
  moreover have "n \<in> set (map fst args)" using assms(2) elems by force
  then have "tag_name n" using keys(2) mapping_names_tags(2) by blast
  moreover have "xml_text ''''" "xml_text ''TCP''" "xml_text ''1''"
    by (rule xml_text_printable, simp add: printable_def)+
  then have "xml_text v"
    using assms(2,3) by (auto simp: mapping_args_def xml_text_printable simp del: xml_text.simps)
  ultimately show ?thesis
    by (intro xml_value_envelope) (simp_all add: tag_name_def is_lower_def is_upper_def Let_def)
qed

lemma soap_Inr:
  "soap net c action args = Inr body \<longleftrightarrow>
     (\<exists>resp. un_post net (soap_message c action (un_order net args)) = Inr resp \<and> http_ok resp \<and>
        body = take (2 ^ 20) (ha_Body resp))"
  by (auto simp: soap_def Let_def split: sum.splits)

text \<open>C30: A mapping is reported for ports of the range only, and only after the gateway answered a request
  for it with a status of success. In the body of that request an XML reader finds, in whatever order
  the map of the arguments is iterated, the two ports, the client's address, the lease and the
  description exactly as they were given: escaping keeps every text a text.
\<close>

theorem upnp_mapping_asked:
  assumes "upnp_MapTCP net c i e l d = Inr m"
    and "\<forall>args. mset (un_order net args) = mset args"
    and "xml_text d" "d \<noteq> []" "0 < l"
  shows "tcp_port i \<and> tcp_port e \<and>
    m = \<lparr>um_InternalPort = i, um_ExternalPort = e, um_Protocol = ''TCP'', um_Lifetime = l\<rparr> \<and>
    (\<exists>req resp localIP. un_post net req = Inr resp \<and> http_ok resp \<and> uc_LocalIP c = Some localIP \<and>
       sr_URL req = uc_ControlURL c \<and>
       xml_value (sr_Body req) ''NewExternalPort'' = Some (Itoa e) \<and>
       xml_value (sr_Body req) ''NewInternalPort'' = Some (Itoa i) \<and>
       xml_value (sr_Body req) ''NewInternalClient'' = Some (IP_String localIP) \<and>
       xml_value (sr_Body req) ''NewLeaseDuration'' = Some (Itoa (l div second)) \<and>
       xml_value (sr_Body req) ''NewPortMappingDescription'' = Some d)"
proof -
  obtain localIP body where ports: "tcp_port i" "tcp_port e" and ip: "uc_LocalIP c = Some localIP"
    and soap: "soap net c ''AddPortMapping'' (mapping_args localIP i e l d) = Inr body"
    and m: "m = \<lparr>um_InternalPort = i, um_ExternalPort = e, um_Protocol = ''TCP'', um_Lifetime = l\<rparr>"
    using assms(1,4,5) by (auto simp: upnp_MapTCP_def Let_def split: if_splits option.splits sum.splits)
  let ?args = "mapping_args localIP i e l d"
  let ?req = "soap_message c ''AddPortMapping'' (un_order net ?args)"
  obtain resp where resp: "un_post net ?req = Inr resp" "http_ok resp" using soap by (auto simp: soap_Inr)
  have found: "(n, v) \<in> set ?args \<Longrightarrow> xml_value (sr_Body ?req) n = Some v" for n v
    using mapping_value[of "un_order net ?args"] assms(2,3) by (simp add: soap_message_def)
  have items: "(''NewExternalPort'', Itoa e) \<in> set ?args" "(''NewInternalPort'', Itoa i) \<in> set ?args"
    "(''NewInternalClient'', IP_String localIP) \<in> set ?args" "(''NewLeaseDuration'', Itoa (l div second)) \<in> set ?args"
    "(''NewPortMappingDescription'', d) \<in> set ?args"
    by (simp_all add: mapping_args_def)
  have "sr_URL ?req = uc_ControlURL c" by (simp add: soap_message_def)
  with ports ip resp m items[THEN found] show ?thesis by blast
qed

lemma upnp_mapping_asked_witness:
  "\<exists>req :: soap_request. xml_value (sr_Body req) ''NewInternalPort'' = Some (Itoa 2121) \<and>
     xml_value (sr_Body req) ''NewPortMappingDescription'' = Some ''a&b''"
proof -
  let ?net = "\<lparr>un_search = \<lambda>_ _. Inr ([], ErrMsg []), un_get = \<lambda>_. Inl (ErrMsg []),
      un_post = \<lambda>_. Inr \<lparr>ha_StatusCode = 200, ha_Status = ''200 OK'', ha_Body = [], ha_ReadErr = None\<rparr>,
      un_localIP = \<lambda>_. Inr None, un_hostname = Inr, un_resolve = \<lambda>_ r. Inr r,
      un_root = \<lambda>_. Inl (ErrMsg []), un_external = Inr, un_order = rev\<rparr>"
  let ?c = "\<lparr>uc_ControlURL = ''http://10.0.0.1/ctl'', uc_ServiceType = ''wan'', uc_LocalIP = Some [10, 0, 0, 2]\<rparr>"
  let ?m = "\<lparr>um_InternalPort = 2121, um_ExternalPort = 2121, um_Protocol = ''TCP'', um_Lifetime = hour\<rparr>"
  have ok: "upnp_MapTCP ?net ?c 2121 2121 hour ''a&b'' = Inr ?m"
    by (simp add: upnp_MapTCP_def tcp_port_def soap_def http_ok_def)
  have order: "\<forall>args. mset (un_order ?net args) = mset args" by simp
  have readable: "xml_text ''a&b''" by (rule xml_text_printable) (simp add: printable_def)
  have given: "''a&b'' \<noteq> []" "0 < hour" by simp_all
  show ?thesis
    using upnp_mapping_asked[OF ok order readable given]
    by (elim conjE exE) (rule exI, rule conjI, assumption, assumption)
qed

end
