(* ===== verification/FtpGateway.thy ===== *)
theory FtpGateway
  imports FtpData NatPmp Upnp
begin

text \<open>
  The FTP server and its gateway: what the clients of \<open>NatPmp\<close> and \<open>Upnp\<close> make of the network is the
  record \<open>gateway\<close> of answers that the commands of \<open>FtpSession\<close> read. With it the mapping of a passive
  port is a claim about the packets and messages exchanged. Also the part of \<open>ListenAndServe\<close> that
  listens, and the loop that keeps the control port mapped over UPnP.
\<close>

subsection \<open>The answers of the gateway\<close>

record gateway_env =
  ge_route :: "err + string"
  ge_pmp :: exchange
  ge_upnp :: upnp_net

definition mapping_lifetime :: "server \<Rightarrow> duration" where
  "mapping_lifetime sv = Std (fc_MappingLifetime (sv_cfg sv)) hour"

text \<open>The gateway \<open>natGatewayAddress\<close> gives: configured, known, or found.\<close>

definition gateway_address :: "gateway_env \<Rightarrow> server \<Rightarrow> err + string" where
  "gateway_address env sv =
     (if fc_NATGateway (sv_cfg sv) \<noteq> [] then Inr (fc_NATGateway (sv_cfg sv))
      else if sv_natGateway sv \<noteq> [] then Inr (sv_natGateway sv)
      else DiscoverGateway (ge_route env))"

definition natpmp_client :: "gateway_env \<Rightarrow> server \<Rightarrow> pmp_client" where
  "natpmp_client env sv =
     \<lparr>pm_Gateway = (case gateway_address env sv of Inl _ \<Rightarrow> [] | Inr gateway \<Rightarrow> gateway),
      pm_Timeout = 1200000000\<rparr>"

text \<open>The UPnP client: the one kept, else the one found.\<close>

definition igd_client :: "gateway_env \<Rightarrow> server \<Rightarrow> upnp_client \<Rightarrow> err + upnp_client" where
  "igd_client env sv client = (if sv_upnp sv then Inr client else Discover (ge_upnp env))"

definition the_igd :: "gateway_env \<Rightarrow> server \<Rightarrow> upnp_client \<Rightarrow> upnp_client" where
  "the_igd env sv client = (case igd_client env sv client of Inl _ \<Rightarrow> client | Inr c \<Rightarrow> c)"

definition gateway_of :: "gateway_env \<Rightarrow> server \<Rightarrow> upnp_client \<Rightarrow> gateway" where
  "gateway_of env sv client =
     (let pmp = natpmp_client env sv; igd = the_igd env sv client; lifetime = mapping_lifetime sv
      in \<lparr>gw_discover = DiscoverGateway (ge_route env),
          gw_pmp_public = (case PublicAddress (ge_pmp env) pmp of Inl _ \<Rightarrow> None | Inr ip \<Rightarrow> Some (IP_String ip)),
          gw_pmp_map = (\<lambda>port. case MapTCP (ge_pmp env) pmp port port lifetime of
             Inl e \<Rightarrow> Inl e | Inr m \<Rightarrow> Inr (mp_ExternalPort m)),
          gw_pmp_delete = (\<lambda>port. DeleteTCP (ge_pmp env) pmp port port),
          gw_upnp_discover = (case Discover (ge_upnp env) of Inl e \<Rightarrow> Some e | Inr _ \<Rightarrow> None),
          gw_upnp_public = (case upnp_PublicAddress (ge_upnp env) igd of
             Inl _ \<Rightarrow> None | Inr ip \<Rightarrow> Some (IP_String ip)),
          gw_upnp_map = (\<lambda>port. case upnp_MapTCP (ge_upnp env) igd port port lifetime ''macftpd'' of
             Inl e \<Rightarrow> Some e | Inr _ \<Rightarrow> None),
          gw_upnp_delete = (\<lambda>port. upnp_DeleteTCP (ge_upnp env) igd port)\<rparr>)"

subsection \<open>Who confirmed a mapping\<close>

definition pmp_confirms :: "gateway_env \<Rightarrow> server \<Rightarrow> int \<Rightarrow> bool" where
  "pmp_confirms env sv port \<longleftrightarrow>
     is_Inr (gateway_address env sv) \<and>
     mapped_as_asked (ge_pmp env) (natpmp_client env sv) (mapping_lifetime sv) port"

definition igd_confirms :: "gateway_env \<Rightarrow> server \<Rightarrow> upnp_client \<Rightarrow> int \<Rightarrow> bool" where
  "igd_confirms env sv client port \<longleftrightarrow>
     (case igd_client env sv client of
        Inl _ \<Rightarrow> False
      | Inr c \<Rightarrow> is_Inr (upnp_MapTCP (ge_upnp env) c port port (mapping_lifetime sv) ''macftpd''))"

definition loopback_listener :: "server \<Rightarrow> bool" where
  "loopback_listener sv = (case sv_listener sv of None \<Rightarrow> True | Some a \<Rightarrow> listenIsLoopback a)"

lemma run_isLoopbackListener: "run_state isLoopbackListener c = (loopback_listener (cx_sv c), c)"
  by (simp add: isLoopbackListener_def server_def loopback_listener_def)

text \<open>The steps of the mapping keep all of the server that the later steps read.\<close>

definition same_mapping :: "ctx \<Rightarrow> ctx \<Rightarrow> bool" where
  "same_mapping c d \<longleftrightarrow> cx_net d = cx_net c \<and> sv_cfg (cx_sv d) = sv_cfg (cx_sv c) \<and>
     sv_upnp (cx_sv d) = sv_upnp (cx_sv c) \<and> sv_listener (cx_sv d) = sv_listener (cx_sv c)"

lemma run_learn_external_ip:
  obtains d where "run_state (learn_external_ip a) c = ((), d)" "same_mapping c d"
proof -
  have "same_mapping c (snd (run_state (learn_external_ip a) c))"
    by (auto simp: learn_external_ip_def server_def set_server_def setMappedExternalIP_def same_mapping_def
        split: option.splits)
  then show thesis using that by (metis prod.exhaust_sel old.unit.exhaust)
qed

lemma run_natGatewayAddress:
  assumes "nt_gateway (cx_net c) = gateway_of env (cx_sv c) client"
  obtains d where "run_state natGatewayAddress c = (gateway_address env (cx_sv c), d)" "same_mapping c d"
proof -
  have "fst (run_state natGatewayAddress c) = gateway_address env (cx_sv c) \<and>
      same_mapping c (snd (run_state natGatewayAddress c))"
    using assms
    by (auto simp: natGatewayAddress_def server_def net_def set_server_def gateway_address_def same_mapping_def
        gateway_of_def Let_def split: sum.splits)
  then show thesis using that by (metis prod.exhaust_sel)
qed

lemma run_upnp:
  "fst (run_state upnp c) =
     (if sv_upnp (cx_sv c) then Inr ()
      else case gw_upnp_discover (nt_gateway (cx_net c)) of Some e \<Rightarrow> Inl e | None \<Rightarrow> Inr ())"
  "cx_net (snd (run_state upnp c)) = cx_net c"
  by (auto simp: upnp_def server_def net_def set_server_def split: option.splits)

lemma mapUPnPTCP_result:
  assumes "nt_gateway (cx_net c) = gateway_of env sv client" and "sv_upnp (cx_sv c) = sv_upnp sv"
  shows "fst (run_state (mapUPnPTCP port) c) = None \<longleftrightarrow> igd_confirms env sv client port"
proof -
  let ?g = "gateway_of env sv client"
  obtain r d where run: "run_state upnp c = (r, d)" by (rule prod.exhaust)
  then have r: "r = (if sv_upnp sv then Inr ()
      else case gw_upnp_discover ?g of Some e \<Rightarrow> Inl e | None \<Rightarrow> Inr ())" and d: "nt_gateway (cx_net d) = ?g"
    using run_upnp[of c] assms by auto
  obtain d' where "run_state (learn_external_ip (gw_upnp_public ?g)) d = ((), d')"
    by (rule run_learn_external_ip)
  then have "fst (run_state (mapUPnPTCP port) c) = (case r of Inl e \<Rightarrow> Some e | Inr _ \<Rightarrow> gw_upnp_map ?g port)"
    using d by (auto simp: mapUPnPTCP_def run net_def clearUPnP_def set_server_def split: sum.splits)
  then show ?thesis
    unfolding r igd_confirms_def
    by (auto simp: gateway_of_def Let_def igd_client_def the_igd_def split: sum.splits)
qed

lemma join_errors_None: "join_errors ok errs = None \<longleftrightarrow> ok \<or> errs = []"
  by (simp add: join_errors_def)

text \<open>C27: \<open>mapPassivePort\<close> reports success exactly when there is nothing to map, because automatic mapping
  is off or the server listens on a loopback address, or a gateway confirmed the mapping: the NAT-PMP
  gateway answered the request for this port with the same external port, or the UPnP gateway answered
  it with a status of success. The address, the clients and what they send are those of the server's
  state and configuration.
\<close>

theorem passive_port_confirmed:
  assumes "nt_gateway (cx_net c) = gateway_of env (cx_sv c) client"
  shows "fst (run_state (mapPassivePort port) c) = None \<longleftrightarrow>
    \<not> fc_AutoMap (sv_cfg (cx_sv c)) \<or> loopback_listener (cx_sv c) \<or>
    pmp_confirms env (cx_sv c) port \<or> igd_confirms env (cx_sv c) client port"
proof (cases "\<not> fc_AutoMap (sv_cfg (cx_sv c)) \<or> loopback_listener (cx_sv c)")
  case True
  then show ?thesis by (auto simp: mapPassivePort_def server_def run_isLoopbackListener)
next
  case False
  let ?sv = "cx_sv c" let ?g = "gateway_of env ?sv client"
  obtain d where gw: "run_state natGatewayAddress c = (gateway_address env ?sv, d)" "same_mapping c d"
    using run_natGatewayAddress[OF assms] .
  define pmp where "pmp = (case gateway_address env ?sv of Inl e \<Rightarrow> Some e | Inr _ \<Rightarrow>
     (case gw_pmp_map ?g port of Inl e \<Rightarrow> Some e
      | Inr external \<Rightarrow> if external \<noteq> port then Some (ErrMsg ''natpmp external port'') else None))"
  obtain d' where d': "run_state (case gateway_address env ?sv of
         Inl e \<Rightarrow> ret (Some e)
       | Inr _ \<Rightarrow> do {
           learn_external_ip (gw_pmp_public ?g);
           ret (case gw_pmp_map ?g port of
                  Inl e \<Rightarrow> Some e
                | Inr external \<Rightarrow> if external \<noteq> port then Some (ErrMsg ''natpmp external port'') else None)
         }) d = (pmp, d')" and same: "same_mapping c d'"
  proof (cases "gateway_address env ?sv")
    case (Inl e)
    then show ?thesis using that gw(2) by (simp add: pmp_def)
  next
    case (Inr x)
    obtain d' where "run_state (learn_external_ip (gw_pmp_public ?g)) d = ((), d')" "same_mapping d d'"
      by (rule run_learn_external_ip)
    then show ?thesis using that gw(2) Inr by (simp add: pmp_def same_mapping_def)
  qed
  have pmp: "pmp = None \<longleftrightarrow> pmp_confirms env ?sv port"
    by (auto simp: pmp_def pmp_confirms_def mapped_as_asked_def gateway_of_def Let_def split: sum.splits)
  obtain upn e where upn: "run_state (mapUPnPTCP port) d' = (upn, e)" by (rule prod.exhaust)
  have "upn = None \<longleftrightarrow> igd_confirms env ?sv client port"
    using mapUPnPTCP_result[of d' env ?sv client port] same assms upn by (simp add: same_mapping_def)
  moreover have "fst (run_state (mapPassivePort port) c) =
      join_errors (pmp = None \<or> upn = None) (map the (filter (\<lambda>e. e \<noteq> None) [pmp, upn]))"
    using False by (simp add: mapPassivePort_def server_def run_isLoopbackListener net_def assms gw(1) d' upn)
  ultimately show ?thesis using False pmp by (auto simp: join_errors_None)
qed

text \<open>What was confirmed is a port of the range.\<close>

lemma confirmed_port_valid:
  "pmp_confirms env sv port \<Longrightarrow> valid_port port" "igd_confirms env sv client port \<Longrightarrow> valid_port port"
  by (auto simp: pmp_confirms_def mapped_as_asked_def igd_confirms_def upnp_MapTCP_def tcp_port_def valid_port_def
      split: sum.splits if_splits option.splits dest: MapTCP_confirmed)

definition granting_env :: gateway_env where
  "granting_env = \<lparr>ge_route = Inl (ErrMsg ''no route''), ge_pmp = granting_gateway ''10.0.0.1'' 7,
     ge_upnp = \<lparr>un_search = \<lambda>_ _. Inl (ErrMsg ''timeout''), un_get = \<lambda>_. Inl (ErrMsg []),
       un_post = \<lambda>_. Inl (ErrMsg []), un_localIP = \<lambda>_. Inr None, un_hostname = Inr, un_resolve = \<lambda>_ r. Inr r,
       un_root = \<lambda>_. Inl (ErrMsg []), un_external = Inr, un_order = id\<rparr>\<rparr>"

definition mapped_server :: server where
  "mapped_server = (let sv = cx_sv (sample_ctx port_config) in
     sv\<lparr>sv_cfg := (sv_cfg sv)\<lparr>fc_AutoMap := True, fc_NATGateway := ''10.0.0.1'', fc_MappingLifetime := hour\<rparr>,
       sv_listener := Some \<lparr>ad_String = ''10.0.0.2:21'', ad_TCP_IP = Some (v4_prefix @ [10, 0, 0, 2])\<rparr>\<rparr>)"

lemma passive_port_confirmed_witness:
  "let client = \<lparr>uc_ControlURL = [], uc_ServiceType = [], uc_LocalIP = None\<rparr>;
       c = (sample_ctx port_config)\<lparr>cx_sv := mapped_server, cx_net := (sample_net [] True)
         \<lparr>nt_gateway := gateway_of granting_env mapped_server client\<rparr>\<rparr>
   in \<not> loopback_listener mapped_server \<and> fst (run_state (mapPassivePort 50000) c) = None"
proof -
  let ?client = "\<lparr>uc_ControlURL = [], uc_ServiceType = [], uc_LocalIP = None\<rparr>"
  let ?c = "(sample_ctx port_config)\<lparr>cx_sv := mapped_server, cx_net := (sample_net [] True)
         \<lparr>nt_gateway := gateway_of granting_env mapped_server ?client\<rparr>\<rparr>"
  have "pmp_confirms granting_env mapped_server 50000"
    by (simp add: pmp_confirms_def gateway_address_def mapped_server_def natpmp_client_def granting_env_def
        mapped_as_asked_def MapTCP_def valid_port_def roundTrip_def granting_gateway_def map_request_fields
        length_mapping_answer parse_mapping_answer mapping_lifetime_def Std_def Let_def)
       (simp add: map_request_def byte_at_def)
  moreover have "\<not> loopback_listener mapped_server"
    by (simp add: mapped_server_def loopback_listener_def listenIsLoopback_def IsLoopback_def To4_def v4_prefix_def Let_def)
  ultimately show ?thesis
    using passive_port_confirmed[of ?c granting_env ?client 50000] by (simp add: Let_def)
qed

subsection \<open>Keeping the control port mapped over UPnP\<close>

text \<open>
  What \<open>maintainUPnPTCP\<close> remembers of failures, and the lines it prints: a failure is printed when it
  differs from the last one or that was printed half an hour ago, and counted otherwise.
\<close>

record failure_log =
  fl_lastFailure :: string
  fl_lastFailureLog :: time
  fl_suppressed :: int
  fl_printed :: "string list"

definition note_failure :: "time \<Rightarrow> string \<Rightarrow> failure_log \<Rightarrow> failure_log" where
  "note_failure t msg l =
     (if msg \<noteq> fl_lastFailure l \<or> 30 * minute \<le> time_sub t (fl_lastFailureLog l)
      then l\<lparr>fl_lastFailure := msg, fl_lastFailureLog := t, fl_suppressed := 0,
        fl_printed := fl_printed l @
          [if 0 < fl_suppressed l
           then msg @ ''; suppressed '' @ Itoa (fl_suppressed l) @ '' repeated UPnP mapping failures'' else msg]\<rparr>
      else l\<lparr>fl_suppressed := fl_suppressed l + 1\<rparr>)"

text \<open>One pass over the ports: whether a mapping failed.\<close>

fun map_control_ports :: "int list \<Rightarrow> failure_log \<Rightarrow> (bool \<times> failure_log) ftp" where
  "map_control_ports [] l = ret (False, l)"
| "map_control_ports (port # ports) l = do {
     failure \<leftarrow> mapUPnPTCP port;
     case failure of
       None \<Rightarrow> map_control_ports ports l
     | Some e \<Rightarrow> do {
         error_text \<leftarrow> net nt_error_text;
         t \<leftarrow> now;
         rest \<leftarrow> map_control_ports ports
           (note_failure t (''upnp: map tcp '' @ Itoa port @ '' failed: '' @ error_text e) l);
         ret (True, snd rest)
       }
   }"

definition note_success :: "int list \<Rightarrow> failure_log \<Rightarrow> failure_log" where
  "note_success ports l =
     (if ports = [] then l
      else l\<lparr>fl_suppressed := 0, fl_printed := fl_printed l @
        (if 0 < fl_suppressed l
         then [''upnp: mapped '' @ Itoa (int (length ports)) @ '' tcp ports after suppressing '' @
               Itoa (fl_suppressed l) @ '' repeated failures''] else []) @
        [''upnp: mapped '' @ Itoa (int (length ports)) @ '' tcp ports'']\<rparr>)"

text \<open>A round of the loop: how long it then waits.\<close>

definition maintainUPnP_round :: "int list \<Rightarrow> failure_log \<Rightarrow> (duration \<times> failure_log) ftp" where
  "maintainUPnP_round ports l0 = do {
     sv \<leftarrow> server (\<lambda>s. s);
     let lifetime0 = mapping_lifetime sv;
     let lifetime = (if lifetime0 \<le> 0 then hour else lifetime0);
     pass \<leftarrow> map_control_ports ports l0;
     (case pass of (hadFailure, l) \<Rightarrow>
       ret (if hadFailure then (5 * minute, l) else (max (lifetime div 2) (5 * minute), note_success ports l)))
   }"

text \<open>The loop runs until the context is done, once for the answers of each round.\<close>

fun maintainUPnPTCP :: "int list \<Rightarrow> net list \<Rightarrow> failure_log \<Rightarrow> (duration list \<times> failure_log) ftp" where
  "maintainUPnPTCP ports [] l = ret ([], l)"
| "maintainUPnPTCP ports (answers # rounds) l = do {
     tell (\<lambda>c. c\<lparr>cx_net := answers\<rparr>);
     round \<leftarrow> maintainUPnP_round ports l;
     rest \<leftarrow> maintainUPnPTCP ports rounds (snd round);
     ret (fst round # fst rest, snd rest)
   }"

subsection \<open>Listening\<close>

text \<open>
  \<open>ListenAndServe\<close> up to its loop: the error of listening, or the ports that the two loops keep mapped,
  if they are started. \<open>port\<close> is the port of a TCP address.
\<close>

definition start_listening :: "err + addr \<times> int \<Rightarrow> (err + int list option) ftp" where
  "start_listening listening =
     (case listening of
        Inl e \<Rightarrow> ret (Inl e)
      | Inr (a, port) \<Rightarrow> do {
          set_server (\<lambda>s. s\<lparr>sv_listener := Some a\<rparr>);
          automap \<leftarrow> server (\<lambda>s. fc_AutoMap (sv_cfg s));
          ret (Inr (if automap \<and> \<not> listenIsLoopback a
                    then Some (if ad_TCP_IP a \<noteq> None \<and> 0 < port then [port] else []) else None))
        })"

text \<open>
  The loop over what \<open>Accept\<close> gives: a connection is handed to \<open>handle\<close>; an error ends the loop when
  the context is done or the listener closed, and is skipped otherwise. The connections handled.
\<close>

datatype 'c accepting = Accepted 'c | AcceptFailed bool

fun accept_connections :: "'c accepting list \<Rightarrow> 'c list" where
  "accept_connections [] = []"
| "accept_connections (Accepted conn # rest) = conn # accept_connections rest"
| "accept_connections (AcceptFailed stopping # rest) = (if stopping then [] else accept_connections rest)"

definition Addr :: "server \<Rightarrow> string" where
  "Addr sv = (case sv_listener sv of None \<Rightarrow> fc_Listen (sv_cfg sv) | Some a \<Rightarrow> ad_String a)"

text \<open>Every failure is printed or counted, and a count is printed with the next line.\<close>

lemma note_failure_accounts:
  "length (fl_printed (note_failure t msg l)) = length (fl_printed l) + 1 \<and> fl_suppressed (note_failure t msg l) = 0 \<or>
   fl_printed (note_failure t msg l) = fl_printed l \<and> fl_suppressed (note_failure t msg l) = fl_suppressed l + 1"
  by (simp add: note_failure_def)

lemma note_failure_prints:
  assumes "fl_lastFailure l \<noteq> msg \<or> 30 * minute \<le> time_sub t (fl_lastFailureLog l)"
  shows "HasPrefix (last (fl_printed (note_failure t msg l))) msg"
  using assms by (auto simp: note_failure_def HasPrefix_def)

text \<open>A listener on a loopback address is never mapped.\<close>

lemma loopback_not_mapped:
  "listenIsLoopback a \<Longrightarrow> fst (run_state (start_listening (Inr (a, port))) c) = Inr None"
  by (simp add: start_listening_def server_def set_server_def)

lemma start_listening_listener:
  "loopback_listener (cx_sv (snd (run_state (start_listening (Inr (a, port))) c))) = listenIsLoopback a"
  by (simp add: start_listening_def server_def set_server_def loopback_listener_def)

end
