(* ===== verification/HttpTemplates.thy ===== *)
theory HttpTemplates
  imports HttpText GoTime ShareStore
begin

text \<open>
  The functions the HTML templates call, \<open>internal/httpapi/templates.go\<close>: addresses of the
  administrator's pages, names, instants and classes. The templates themselves are files of the
  repository that \<open>html/template\<close> renders and are not modelled; \<open>zone\<close> is the local time of an instant,
  written as the instant in UTC that shows the same clock.
\<close>

text \<open>\<open>url.QueryEscape\<close>, and \<open>Values.Encode\<close> of values with one string each, in the order of their keys.\<close>

definition query_char :: "char \<Rightarrow> string" where
  "query_char c = (if c = CHR '' '' then ''+'' else url_escape [] [c])"

definition QueryEscape :: "string \<Rightarrow> string" where
  "QueryEscape s = concat (map query_char s)"

definition encode_values :: "(string \<times> string) list \<Rightarrow> string" where
  "encode_values vs = Join (map (\<lambda>(k, v). QueryEscape k @ ''='' @ QueryEscape v) vs) ''&''"

definition filesURL :: "string \<Rightarrow> string \<Rightarrow> string \<Rightarrow> string" where
  "filesURL urlPath p selected =
     path_string urlPath (encode_values ((''path'', p) # (if selected \<noteq> [] then [(''selected'', selected)] else [])))"

definition adminFilesURL :: "string \<Rightarrow> string \<Rightarrow> string" where
  "adminFilesURL p selected = filesURL ''/admin/'' p selected"

definition partialFilesURL :: "string \<Rightarrow> string \<Rightarrow> string" where
  "partialFilesURL p selected = filesURL ''/admin/partials/files'' p selected"

definition downloadURL :: "string \<Rightarrow> string" where
  "downloadURL p = ''/api/download?path='' @ QueryEscape p"

definition uiAssetVersion :: string where
  "uiAssetVersion = ''20260528-retention-scroll''"

definition uiAsset :: "string \<Rightarrow> string" where
  "uiAsset name = ''/assets/'' @ TrimPrefix name [slash] @ ''?v='' @ uiAssetVersion"

definition filepathBase :: "string \<Rightarrow> string" where
  "filepathBase p0 = (let p = TrimSuffix p0 [slash] in if p = [] then [slash] else Base_name p)"

definition linkURL :: "PublicLink \<Rightarrow> string" where
  "linkURL link = (if pl_URLPath link = [] then [] else pl_URLPath link)"

definition ifDirPath :: "string \<Rightarrow> bool \<Rightarrow> string \<Rightarrow> string" where
  "ifDirPath entryPath isDir currentPath = (if isDir then entryPath else currentPath)"

definition ifFilePath :: "string \<Rightarrow> bool \<Rightarrow> string" where
  "ifFilePath entryPath isDir = (if isDir then [] else entryPath)"

definition checked :: "bool \<Rightarrow> string" where
  "checked ok = (if ok then ''checked'' else [])"

definition shortID :: "string \<Rightarrow> string" where
  "shortID s = (if length s \<le> 10 then s else take 10 s)"

definition statusClass :: "string \<Rightarrow> string" where
  "statusClass outcome =
     (let o' = ToLower outcome
      in if o' \<in> {[], ''ok''} then ''badge-success''
         else if o' \<in> {''failed'', ''denied'', ''limited''} then ''badge-error''
         else ''badge-warning'')"

subsection \<open>Instants\<close>

text \<open>The layouts \<open>Jan 2, 2006 3:04 PM\<close> and \<open>3:04:05 PM\<close>.\<close>

definition twelve_hours :: "int \<Rightarrow> string" where
  "twelve_hours hh = show_nat (nat (if hh mod 12 = 0 then 12 else hh mod 12))"

definition meridiem :: "int \<Rightarrow> string" where
  "meridiem hh = (if hh < 12 then ''AM'' else ''PM'')"

definition format_day :: "time \<Rightarrow> string" where
  "format_day t =
     (case civil t of (y, m, d) \<Rightarrow> case clock_of t of (hh, mm, ss, ns) \<Rightarrow>
        month_names ! (m - 1) @ '' '' @ show_nat (nat d) @ '', '' @ pad 4 y @ '' '' @
        twelve_hours hh @ '':'' @ pad 2 mm @ '' '' @ meridiem hh)"

definition format_clock :: "time \<Rightarrow> string" where
  "format_clock t =
     (case clock_of t of (hh, mm, ss, ns) \<Rightarrow>
        twelve_hours hh @ '':'' @ pad 2 mm @ '':'' @ pad 2 ss @ '' '' @ meridiem hh)"

definition formatDate :: "(time \<Rightarrow> time) \<Rightarrow> time \<Rightarrow> string" where
  "formatDate zone t = (if is_zero_time t then [] else format_day (zone t))"

definition formatTime :: "(time \<Rightarrow> time) \<Rightarrow> time \<Rightarrow> string" where
  "formatTime zone t = (if is_zero_time t then [] else format_clock (zone t))"

definition notZero :: "time \<Rightarrow> bool" where
  "notZero t \<longleftrightarrow> \<not> is_zero_time t"

definition expiryText :: "(time \<Rightarrow> time) \<Rightarrow> PublicLink \<Rightarrow> string" where
  "expiryText zone link =
     (if pl_MaxDownloads link = 1 then ''1 download''
      else (case pl_ExpiresAt link of
          None \<Rightarrow> ''never''
        | Some t \<Rightarrow> if is_zero_time t then ''never'' else ''expires '' @ format_day (zone t)))"

subsection \<open>An address is read back as it was made\<close>

text \<open>\<open>url.QueryUnescape\<close> and \<open>url.ParseQuery\<close>, which read the query of a request.\<close>

definition unhex :: "char \<Rightarrow> nat option" where
  "unhex c =
     (let n = of_char c in
      if 48 \<le> n \<and> n \<le> 57 then Some (n - 48) else if 97 \<le> n \<and> n \<le> 102 then Some (n - 87)
      else if 65 \<le> n \<and> n \<le> 70 then Some (n - 55) else None)"

fun QueryUnescape :: "string \<Rightarrow> string option" where
  "QueryUnescape [] = Some []"
| "QueryUnescape (c # s) =
     (if c = CHR ''%'' then
        (case s of
           a # b # rest \<Rightarrow> (case (unhex a, unhex b) of
               (Some x, Some y) \<Rightarrow> map_option ((#) (char_of (16 * x + y))) (QueryUnescape rest)
             | _ \<Rightarrow> None)
         | _ \<Rightarrow> None)
      else map_option ((#) (if c = CHR ''+'' then CHR '' '' else c)) (QueryUnescape s))"

fun parse_pairs :: "string list \<Rightarrow> (string \<times> string) list option" where
  "parse_pairs [] = Some []"
| "parse_pairs (part # parts) =
     (if part = [] then parse_pairs parts
      else if CHR '';'' \<in> set part then None
      else (case Cut part (CHR ''='') of (k, v, _) \<Rightarrow>
        (case (QueryUnescape k, QueryUnescape v, parse_pairs parts) of
           (Some k', Some v', Some rest) \<Rightarrow> Some ((k', v') # rest)
         | _ \<Rightarrow> None)))"

definition ParseQuery :: "string \<Rightarrow> (string \<times> string) list option" where
  "ParseQuery q = parse_pairs (Split q (CHR ''&''))"

lemma unhex_hex_digit: "n < 16 \<Longrightarrow> unhex (hex_digit n) = Some n"
  by (simp add: unhex_def hex_digit_def Let_def)

lemma high_digit: "(of_char c :: nat) div 16 < 16"
  by (rule less_mult_imp_div_less) simp

lemma QueryUnescape_char: "QueryUnescape (query_char c @ s) = map_option ((#) c) (QueryUnescape s)"
proof (cases "c = CHR '' '' \<or> url_unreserved c")
  case True
  then show ?thesis
    by (auto simp: query_char_def url_escape_def url_unreserved_def is_lower_def is_upper_def is_digit_def)
next
  case False
  have "unhex (hex_digit (of_char c div 16)) = Some (of_char c div 16)"
    "unhex (hex_digit (of_char c mod 16)) = Some (of_char c mod 16)"
    using high_digit[of c] by (simp_all add: unhex_hex_digit)
  with False show ?thesis by (simp add: query_char_def url_escape_def)
qed

lemma QueryUnescape_Escape: "QueryUnescape (QueryEscape s) = Some s"
proof (induction s)
  case (Cons c s)
  have "QueryEscape (c # s) = query_char c @ QueryEscape s" by (simp add: QueryEscape_def)
  with Cons QueryUnescape_char show ?case by simp
qed (simp add: QueryEscape_def)

lemma hex_digit_plain: "n < 16 \<Longrightarrow> hex_digit n \<notin> {CHR ''&'', CHR ''='', CHR '';''}"
  using unhex_hex_digit[of n] by (auto simp: unhex_def)

lemma query_char_plain: "CHR ''&'' \<notin> set (query_char c)" "CHR ''='' \<notin> set (query_char c)" "CHR '';'' \<notin> set (query_char c)"
  using hex_digit_plain[OF high_digit[of c]] hex_digit_plain[of "of_char c mod 16"]
  by (auto simp: query_char_def url_escape_def url_unreserved_def is_lower_def is_upper_def is_digit_def)

lemma QueryEscape_plain:
  "CHR ''&'' \<notin> set (QueryEscape s)" "CHR ''='' \<notin> set (QueryEscape s)" "CHR '';'' \<notin> set (QueryEscape s)"
  by (simp_all add: QueryEscape_def query_char_plain)

lemma parse_pairs_encoded:
  "parse_pairs (map (\<lambda>(k, v). QueryEscape k @ ''='' @ QueryEscape v) vs) = Some vs"
proof (induction vs)
  case (Cons kv vs)
  obtain k v where kv: "kv = (k, v)" by fastforce
  show ?case using Cons by (simp add: kv Cut_found QueryUnescape_Escape QueryEscape_plain)
qed simp

lemma ParseQuery_encoded:
  assumes "vs \<noteq> []"
  shows "ParseQuery (encode_values vs) = Some vs"
proof -
  have "CHR ''&'' \<notin> set (case kv of (k, v) \<Rightarrow> QueryEscape k @ ''='' @ QueryEscape v)" for kv
    by (simp add: QueryEscape_plain split: prod.split)
  then have "Split (encode_values vs) (CHR ''&'') = map (\<lambda>(k, v). QueryEscape k @ ''='' @ QueryEscape v) vs"
    unfolding encode_values_def by (intro Split_Join) (use assms in auto)
  then show ?thesis by (simp only: ParseQuery_def parse_pairs_encoded)
qed

text \<open>
  What the page of the files links to is what its handlers read: the path and the selected entry of an
  address are the ones it was made of, with any bytes in them.
\<close>

theorem files_address_read_back:
  "\<exists>q. adminFilesURL p selected = ''/admin/'' @ CHR ''?'' # q \<and>
     ParseQuery q = Some ((''path'', p) # (if selected \<noteq> [] then [(''selected'', selected)] else []))"
  "\<exists>q. partialFilesURL p selected = ''/admin/partials/files'' @ CHR ''?'' # q \<and>
     ParseQuery q = Some ((''path'', p) # (if selected \<noteq> [] then [(''selected'', selected)] else []))"
  "\<exists>q. downloadURL p = ''/api/download'' @ CHR ''?'' # q \<and> ParseQuery q = Some [(''path'', p)]"
proof -
  let ?vs = "(''path'', p) # (if selected \<noteq> [] then [(''selected'', selected)] else [])"
  have key: "QueryEscape ''path'' = ''path''"
    by (simp add: QueryEscape_def query_char_def url_escape_def url_unreserved_def is_lower_def)
  have ne: "encode_values ?vs \<noteq> []" by (simp add: encode_values_def key)
  have path: "path_string u q = u @ CHR ''?'' # q" if "u \<in> {''/admin/'', ''/admin/partials/files''}" "q \<noteq> []" for u q
  proof -
    have "EscapedPath ''/admin/'' = ''/admin/''" "EscapedPath ''/admin/partials/files'' = ''/admin/partials/files''"
      by code_simp+
    with that show ?thesis by (auto simp: path_string_def Let_def)
  qed
  show "\<exists>q. adminFilesURL p selected = ''/admin/'' @ CHR ''?'' # q \<and> ParseQuery q = Some ?vs"
    unfolding adminFilesURL_def filesURL_def
    by (rule exI[of _ "encode_values ?vs"]) (use path[of "''/admin/''", OF _ ne] ParseQuery_encoded[of ?vs] in simp)
  show "\<exists>q. partialFilesURL p selected = ''/admin/partials/files'' @ CHR ''?'' # q \<and> ParseQuery q = Some ?vs"
    unfolding partialFilesURL_def filesURL_def
    by (rule exI[of _ "encode_values ?vs"])
       (use path[of "''/admin/partials/files''", OF _ ne] ParseQuery_encoded[of ?vs] in simp)
  show "\<exists>q. downloadURL p = ''/api/download'' @ CHR ''?'' # q \<and> ParseQuery q = Some [(''path'', p)]"
    by (rule exI[of _ "encode_values [(''path'', p)]"])
       (use ParseQuery_encoded[of "[(''path'', p)]"] in \<open>simp add: downloadURL_def encode_values_def key\<close>)
qed

text \<open>The download of a link is shown as one, before its expiry is.\<close>

lemma expiry_of_single_download: "pl_MaxDownloads link = 1 \<Longrightarrow> expiryText zone link = ''1 download''"
  by (simp add: expiryText_def)

lemma shortID_length: "length (shortID s) \<le> 10"
  by (simp add: shortID_def)

lemma format_day_example: "format_day (63 * minute + 13 * hour) = ''Jan 1, 0001 2:03 PM''"
  by (simp add: format_day_def) code_simp

end
