(* ===== verification/HttpSteady.thy ===== *)
theory HttpSteady
  imports HttpGuard
begin

text \<open>
  What every request leaves as it is, and how it may change the rest: the configuration, the storage
  root and the keys stay, and the accounts, the links and the activity log change only through the
  operations of their stores. So what those operations keep holds after any sequence of requests.
\<close>

definition steady :: "hctx \<Rightarrow> hctx \<Rightarrow> bool" where
  "steady c d \<longleftrightarrow> hx_env d = hx_env c \<and> hs_cfg (hx_sv d) = hs_cfg (hx_sv c) \<and> hs_root (hx_sv d) = hs_root (hx_sv c) \<and>
     hs_cloudflare (hx_sv d) = hs_cloudflare (hx_sv c) \<and> hs_sessionKey (hx_sv d) = hs_sessionKey (hx_sv c) \<and>
     hs_tracker (hx_sv d) = hs_tracker (hx_sv c) \<and> hs_startedAt (hx_sv d) = hs_startedAt (hx_sv c) \<and>
     hs_kdf (hx_sv d) = hs_kdf (hx_sv c) \<and> hs_codec (hx_sv d) = hs_codec (hx_sv c) \<and> hs_clone (hx_sv d) = hs_clone (hx_sv c) \<and>
     (auth_call (hs_kdf (hx_sv c)))\<^sup>*\<^sup>* (hs_auth (hx_sv c)) (hs_auth (hx_sv d)) \<and>
     (link_call (hs_kdf (hx_sv c)))\<^sup>*\<^sup>* (hs_links (hx_sv c)) (hs_links (hx_sv d)) \<and>
     log_call\<^sup>*\<^sup>* (hs_activity (hx_sv c)) (hs_activity (hx_sv d))"

interpretation st: http_transition steady
proof
  fix c d e
  assume a: "steady c d" and b: "steady d e"
  note fields = a[unfolded steady_def] b[unfolded steady_def]
  have kdf: "hs_kdf (hx_sv d) = hs_kdf (hx_sv c)" using fields(1) by blast
  have "(auth_call (hs_kdf (hx_sv c)))\<^sup>*\<^sup>* (hs_auth (hx_sv c)) (hs_auth (hx_sv e))"
    "(link_call (hs_kdf (hx_sv c)))\<^sup>*\<^sup>* (hs_links (hx_sv c)) (hs_links (hx_sv e))"
    "log_call\<^sup>*\<^sup>* (hs_activity (hx_sv c)) (hs_activity (hx_sv e))"
    using fields unfolding kdf by (meson rtranclp_trans)+
  then show "steady c e" using fields by (simp add: steady_def)
qed (simp add: steady_def)

named_theorems steady

lemma steady_steps [steady]:
  "within steady (respond f)" "within steady now" "within steady (disk op)" "within steady (login_limiter g)"
  "within steady (share_limiter h)" "within steady (cloudflare_call k)"
  "within steady (set_server (\<lambda>s. s\<lparr>hs_uploads := u s\<rparr>))"
  by (auto simp: within_def steady_def respond_def now_def disk_def login_limiter_def share_limiter_def
      cloudflare_call_def set_server_def split: prod.split)

lemma steady_auth_step:
  "(\<And>kdf s. auth_call kdf s (snd (f s))) \<Longrightarrow> within steady (auth_step f)"
  by (simp add: within_def steady_def auth_step_def split_def r_into_rtranclp)

lemma steady_links_step:
  "(\<And>kdf s. link_call kdf s (snd (f s))) \<Longrightarrow> within steady (links_step f)"
  by (simp add: within_def steady_def links_step_def split_def r_into_rtranclp)

lemma steady_logActivity [steady]: "within steady (logActivity e)"
  unfolding logActivity_def
  by (intro st.core steady) (simp add: within_def steady_def set_server_def log_callI r_into_rtranclp)

lemma steady_delete_user [steady]: "within steady (delete_user_of n)"
  unfolding delete_user_of_def
  by (intro st.core steady steady_auth_step auth_calls)

lemma steady_link_steps [steady]:
  "within steady (delete_link i)" "within steady (reserve_download i)" "within steady (finish_download i ok)"
  unfolding delete_link_def reserve_download_def finish_download_def
  by (intro st.core steady steady_links_step link_calls)+

lemma steady_uploads [steady]: "within steady (acquire_upload k)" "within steady (release_upload k)"
  unfolding acquire_upload_def release_upload_def by (intro st.core steady)+

text \<open>A step that uses what was read of the state before it.\<close>

lemma steady_known:
  assumes "\<And>c. steady c (snd (run_state (m c) c))" and "\<And>c x. within steady (g c x)"
  shows "within steady (ask (\<lambda>c. c) \<bind> (\<lambda>c. m c \<bind> g c))"
proof -
  have "steady c (snd (run_state (m c \<bind> g c) c))" for c
  proof -
    obtain x d where run: "run_state (m c) c = (x, d)" by (rule prod.exhaust)
    have "steady d (snd (run_state (g c x) d))" using assms(2) by (simp add: within_def)
    moreover have "steady c d" using assms(1)[of c] by (simp add: run)
    ultimately show ?thesis using st.trans by (simp add: run)
  qed
  then show ?thesis by (simp add: within_def)
qed

lemma steady_save_user [steady]: "within steady (save_user u pw)"
proof -
  have "save_user u pw = ask (\<lambda>c. c) \<bind> (\<lambda>c. auth_step (UpsertUser (hs_kdf (hx_sv c)) (he_salt (hx_env c))
      (he_save_auth (hx_env c)) u pw) \<bind> (\<lambda>failed. case failed of
       Some e \<Rightarrow> ret (Inl e)
     | None \<Rightarrow> do {
         saved \<leftarrow> server (\<lambda>s. permitted_user (hs_auth s) (u_Username u));
         _ \<leftarrow> disk (\<lambda>r. EnsureUserHome r saved);
         ret (Inr saved)
       }))"
    by (rule state.expand) (simp add: save_user_def fun_eq_iff)
  moreover have "steady c (snd (run_state (auth_step (UpsertUser (hs_kdf (hx_sv c)) salt e u pw)) c))" for c salt e
    by (simp add: steady_def auth_step_def split_def auth_calls r_into_rtranclp)
  ultimately show ?thesis
    by (simp only:) (intro steady_known st.core steady)
qed

lemma steady_create_link [steady]: "within steady (create_link rq p req realPath)"
proof -
  let ?rest = "\<lambda>result unsaved. case result of
            Inl e \<Rightarrow> ret (Some (Inl e))
          | Inr (link, token) \<Rightarrow> do {
              urlPath \<leftarrow> link_address realPath link token;
              _ \<leftarrow> links_step (SetURLPath unsaved (pl_ID link) urlPath);
              logActivity ((http_event rq ''admin_share'' (u_Username (fst p))
                  (''create '' @ kind_name (pl_Kind link)) ''created public link'')
                \<lparr>e_Path := cr_Path req\<rparr>);
              ret (Some (Inr (link\<lparr>pl_URLPath := urlPath\<rparr>, absoluteURL rq urlPath)))
            }"
  have "within steady (link_address r l t)" for r l t
    unfolding link_address_def by (intro st.core steady)
  moreover have "within steady (links_step (SetURLPath e i url))" for e i url
    by (rule steady_links_step link_calls)+
  ultimately have rest: "within steady (?rest result unsaved)" for result unsaved
    by (intro st.core steady)
  show ?thesis
    unfolding within_def
  proof
    fix c
    show "steady c (snd (run_state (create_link rq p req realPath) c))"
    proof (cases "Create (hs_kdf (hx_sv c)) (he_create (hx_env c)) req (hs_links (hx_sv c))")
      case None
      then show ?thesis by (simp add: create_link_def st.refl)
    next
      case (Some created)
      obtain result links where created: "created = (result, links)" by (rule prod.exhaust)
      let ?d = "c\<lparr>hx_sv := (hx_sv c)\<lparr>hs_links := links\<rparr>\<rparr>"
      have "run_state (create_link rq p req realPath) c = run_state (?rest result (he_save_links (hx_env c))) ?d"
        using Some created by (simp add: create_link_def links_step_def split del: sum.split)
      moreover have "steady ?d (snd (run_state (?rest result (he_save_links (hx_env c))) ?d))"
        by (rule rest[unfolded within_def, rule_format])
      moreover have "steady c ?d"
      using link_calls(1) Some created by (simp add: steady_def r_into_rtranclp)
      ultimately show ?thesis by (simp only:) (rule st.trans)
    qed
  qed
qed

lemma steady_cases [steady]:
  "(\<And>x m t. within steady (f x m t)) \<Longrightarrow> (\<And>m t. within steady (g m t)) \<Longrightarrow> within steady (case_node f g n)"
  "within steady a \<Longrightarrow> (\<And>e. within steady (b e)) \<Longrightarrow> (\<And>l. within steady (d l)) \<Longrightarrow>
    within steady (case_share_outcome a b d s)"
  "within steady p \<Longrightarrow> (\<And>e n. within steady (q e n)) \<Longrightarrow> (\<And>n. within steady (r n)) \<Longrightarrow>
    within steady (case_part_outcome p q r out)"
  "within steady u \<Longrightarrow> (\<And>x xs. within steady (v x xs)) \<Longrightarrow> within steady (case_list u v l)"
  "(\<And>h. within steady (w h)) \<Longrightarrow> (\<And>z. within steady (y z)) \<Longrightarrow> within steady k \<Longrightarrow>
    within steady (case_dispatch w y k j)"
  "(\<And>e. within steady (i e)) \<Longrightarrow> (\<And>e. within steady (ii e)) \<Longrightarrow> within steady (case_chunk_error i ii ce)"
  by (simp_all split: chunk_error.split node.split share_outcome.split part_outcome.split list.split dispatch.split)

lemma steady_writeJSON_writeHTML [steady]:
  "within steady (writeJSON a b)" "within steady (writeHTML c d)"
  unfolding writeJSON_def writeHTML_def
  by (intro st.core steady)+

lemma steady_failJSON [steady]: "within steady (failJSON a b)"
  unfolding failJSON_def by (intro st.core steady)

lemma steady_fail_with_render [steady]:
  "within steady (fail_with a b)" "within steady (httpError c d)" "within steady notFound"
  "within steady (render e f)"
  unfolding fail_with_def httpError_def notFound_def render_def
  by (intro st.core steady)+

lemma steady_html_page [steady]: "within steady (html_page a b)"
  unfolding html_page_def by (intro st.core steady)

lemma steady_add_cookie [steady]: "within steady (add_cookie a)"
  unfolding add_cookie_def by (intro st.core steady)

lemma steady_setSession_sign_in [steady]:
  "within steady (setSession a)" "within steady (setShareCookie b c d)"
  "within steady (verifyShareCookie e f g)" "within steady (sign_in h i j)"
  unfolding setSession_def setShareCookie_def verifyShareCookie_def sign_in_def
  by (intro st.core steady)+

lemma steady_authenticateRequest_unauthorized [steady]:
  "within steady (authenticateRequest a)" "within steady (unauthorized b)"
  unfolding authenticateRequest_def unauthorized_def
  by (intro st.core steady)+

lemma steady_requireAdmin [steady]: "(\<And>p. within steady (handler rq p)) \<Longrightarrow> within steady (requireAdmin handler rq)"
  unfolding requireAdmin_def by (intro st.core steady)

lemma steady_verifyTurnstile [steady]: "within steady (verifyTurnstile a)"
  unfolding verifyTurnstile_def by (intro st.core steady)

lemma steady_login_verifySharePassword [steady]:
  "within steady (login a)" "within steady (logout b)" "within steady (verifySharePassword c d e f)"
  unfolding login_def logout_def verifySharePassword_def
  by (intro st.core steady)+

lemma steady_purgePublicPath_send_counted [steady]:
  "within steady (purgePublicPath a b)" "within steady setPublicCacheHeaders"
  "within steady setShareDownloadHeaders" "within steady (send_counted c d)"
  unfolding purgePublicPath_def setPublicCacheHeaders_def setShareDownloadHeaders_def send_counted_def
  by (intro st.core steady)+

lemma steady_missing_file [steady]: "within steady (missing_file a b)"
  unfolding missing_file_def by (intro st.core steady)

lemma steady_serveStorageFile_http_Redirect [steady]:
  "within steady (serveStorageFile a b c)" "within steady (logDownloadActivity d e)"
  "within steady (file_info_page f g h i j)" "within steady (publicDirectory k l)"
  "within steady (http_Redirect m n p)"
  unfolding serveStorageFile_def logDownloadActivity_def file_info_page_def publicDirectory_def
    http_Redirect_def
  by (intro st.core steady)+

lemma steady_public [steady]: "within steady (public a)"
  unfolding public_def by (intro st.core steady)

lemma steady_publicInfo_version_existing [steady]:
  "within steady (publicInfo a)" "within steady (log_failure b c)" "within steady (version_existing d e f)"
  unfolding publicInfo_def log_failure_def version_existing_def
  by (intro st.core steady)+

lemma steady_files_delete_files_list [steady]:
  "within steady (files_delete a b c d)" "within steady (files_move e f g h)"
  "within steady (files_mkdir i j k l)" "within steady (files_list m n)"
  unfolding files_delete_def files_move_def files_mkdir_def files_list_def
  by (intro st.core steady)+

lemma steady_files_action_copy [steady]:
  "within steady (files a b)" "within steady (actionTarget c d e)" "within steady (action_move f g h i j)"
  "within steady (action_copy k l m n p)"
  unfolding files_def actionTarget_def action_move_def action_copy_def
  by (intro st.core steady)+

lemma steady_action_item [steady]: "within steady (action_item a b c d e)"
  unfolding action_item_def by (intro st.core steady)

lemma steady_action_items [steady]: "within steady (action_items rq p req d srcs items)"
proof (induction srcs arbitrary: items)
  case (Cons src srcs)
  then show ?case unfolding action_items.simps by (intro st.core steady)
qed (simp add: st.ret)

lemma steady_fileAction_download [steady]:
  "within steady (fileAction a b)" "within steady (download c d)"
  unfolding fileAction_def download_def
  by (intro st.core steady)+

lemma steady_createStagedUpload_replace_file [steady]:
  "within steady (createStagedUpload a)" "within steady (discard_staged b)" "within steady (close_file c)"
  "within steady (replace_file d e f g)"
  unfolding createStagedUpload_def discard_staged_def close_file_def replace_file_def
  by (intro st.core steady)+

lemma steady_upload_staged [steady]: "within steady (upload_staged a b c d e f g)"
  unfolding upload_staged_def by (intro st.core steady)

lemma steady_upload [steady]: "within steady (upload a b)"
  unfolding upload_def by (intro st.core steady)

lemma steady_lockUpload [steady]: "within steady m \<Longrightarrow> within steady (lockUpload k m)"
  unfolding lockUpload_def by (intro st.core steady)

lemma steady_with_part [steady]: "(\<And>part. within steady (body part)) \<Longrightarrow> within steady (with_part scope cf body)"
  unfolding with_part_def by (intro st.core steady)

lemma steady_receive_part [steady]: "within steady (receive_part a b)"
  unfolding receive_part_def by (intro st.core steady)

lemma steady_install_part [steady]:
  "within steady put \<Longrightarrow> within steady answer \<Longrightarrow> within steady (install_part a b put status answer)"
  unfolding install_part_def by (intro st.core steady)

lemma steady_uploadChunk_dropped [steady]:
  "within steady (uploadChunk a b)" "within steady (put_dropped c d e f)" "within steady (dropped g h i j)"
  unfolding uploadChunk_def put_dropped_def dropped_def
  by (intro st.core steady)+

lemma steady_dropChunk_fxp_staged [steady]:
  "within steady (dropChunk a b)" "within steady (fxp_staged c d e f g h)"
  unfolding dropChunk_def fxp_staged_def
  by (intro st.core steady)+

lemma steady_fxp [steady]: "within steady (fxp a b)"
  unfolding fxp_def by (intro st.core steady)

lemma steady_verify_link_setFileDisposition [steady]:
  "within steady (verify_link a b c)" "within steady (verify_authorized d e)"
  "within steady (password_page f)" "within steady (redirectSamePath g)"
  "within steady (setFileDisposition h i)"
  unfolding verify_link_def verify_authorized_def password_page_def redirectSamePath_def
    setFileDisposition_def
  by (intro st.core steady)+

lemma steady_share_access_share_file [steady]:
  "within steady (share_access a b c d e)" "within steady (share_file f g h i)"
  unfolding share_access_def share_file_def
  by (intro st.core steady)+

lemma steady_share_opened [steady]: "within steady (share_opened a b c)"
  unfolding share_opened_def by (intro st.core steady)

lemma steady_share_known [steady]: "within steady (share_known a b c d)"
  unfolding share_known_def by (intro st.core steady)

lemma steady_shareLink_http_error_with [steady]:
  "within steady (shareLink a)" "within steady (drop_page b c d e)" "within steady (drop_password f g h)"
  "within steady (http_error_with i j)"
  unfolding shareLink_def drop_page_def drop_password_def http_error_with_def
  by (intro st.core steady)+

lemma steady_drop_staged [steady]: "within steady (drop_staged a b c d e)"
  unfolding drop_staged_def by (intro st.core steady)

lemma steady_drop_upload [steady]: "within steady (drop_upload a b)"
  unfolding drop_upload_def by (intro st.core steady)

lemma steady_drop_post [steady]: "within steady (drop_post a b c d)"
  unfolding drop_post_def by (intro st.core steady)

lemma steady_dropLink [steady]: "within steady (dropLink a)"
  unfolding dropLink_def by (intro st.core steady)

lemma steady_writeOK_me [steady]:
  "within steady writeOK" "within steady not_allowed" "within steady (health a)" "within steady (me b c)"
  unfolding writeOK_def not_allowed_def health_def me_def
  by (intro st.core steady)+

lemma steady_users [steady]: "within steady (users a b)"
  unfolding users_def by (intro st.core steady)

lemma steady_user [steady]: "within steady (user a b)"
  unfolding user_def by (intro st.core steady)

lemma steady_groups [steady]: "within steady (groups rq p)"
  unfolding groups_def by (intro st.core steady steady_auth_step auth_calls)

lemma steady_users_page_users_partial_delete [steady]:
  "within steady (users_page a)" "within steady (users_partial_post b c d)"
  "within steady (users_partial_delete e f g)"
  unfolding users_page_def users_partial_post_def users_partial_delete_def
  by (intro st.core steady)+

lemma steady_adminUsersPartial_link_expiry [steady]:
  "within steady (adminUsersPartial a b)" "within steady (link_place c d)" "within steady (link_expiry e f)"
  unfolding adminUsersPartial_def link_place_def link_expiry_def
  by (intro st.core steady)+

lemma steady_shares_post [steady]: "within steady (shares_post a b c)"
  unfolding shares_post_def by (intro st.core steady)

lemma steady_sharesAPI_links_page [steady]:
  "within steady (sharesAPI a b)" "within steady (shareAPI c d)"
  "within steady (createPublicLinkFromForm e f)" "within steady (links_page g)"
  unfolding sharesAPI_def shareAPI_def createPublicLinkFromForm_def links_page_def
  by (intro st.core steady)+

lemma steady_links_partial_post_links_partial_delete [steady]:
  "within steady (links_partial_post a b c)" "within steady (links_partial_delete d e f)"
  unfolding links_partial_post_def links_partial_delete_def
  by (intro st.core steady)+

lemma steady_adminLinksPartial_list_retained [steady]:
  "within steady (adminLinksPartial a b)" "within steady (restore_retained c d e f)"
  "within steady (list_retained g)"
  unfolding adminLinksPartial_def restore_retained_def list_retained_def
  by (intro st.core steady)+

lemma steady_retentionAPI_retention_page [steady]:
  "within steady (retentionAPI a b)" "within steady (restoreAPI c d)" "within steady (retention_page e)"
  unfolding retentionAPI_def restoreAPI_def retention_page_def
  by (intro st.core steady)+

lemma steady_adminRetentionPartial_check_root [steady]:
  "within steady (adminRetentionPartial a b)" "within steady (activityFeed c d)"
  "within steady (adminActivityPartial e f)" "within steady (statusAPI g h)" "within steady (statsAPI i j)"
  "within steady check_root"
  unfolding adminRetentionPartial_def activityFeed_def adminActivityPartial_def statusAPI_def statsAPI_def
    check_root_def
  by (intro st.core steady)+

lemma steady_check_dirs [steady]: "within steady (check_dirs dirs)"
proof (induction dirs)
  case (Cons dir dirs)
  then show ?case unfolding check_dirs.simps by (intro st.core steady)
qed (simp add: st.ret)

lemma steady_doctorChecks [steady]: "within steady doctorChecks"
  unfolding doctorChecks_def by (intro st.core steady)

lemma steady_doctorAPI_selected_entry [steady]:
  "within steady (doctorAPI a b)" "within steady (adminStatusPartial c d)"
  "within steady (purgeCloudflare e f)" "within steady (admin g h)" "within steady (selected_entry i)"
  unfolding doctorAPI_def adminStatusPartial_def purgeCloudflare_def admin_def selected_entry_def
  by (intro st.core steady)+

lemma steady_files_page [steady]: "within steady (files_page a b c)"
  unfolding files_page_def by (intro st.core steady)

lemma steady_adminFilesPartial [steady]: "within steady (adminFilesPartial a b)"
  unfolding adminFilesPartial_def by (intro st.core steady)

lemma steady_staticAssets_set_security_headers [steady]:
  "within steady (staticAssets a)" "within steady (set_security_headers b)"
  unfolding staticAssets_def set_security_headers_def
  by (intro st.core steady)+

text \<open>So every request, whatever its route and whoever sends it.\<close>

lemma steady_routes: "(pattern, h) \<in> set routes \<Longrightarrow> within steady (h rq)"
  unfolding routes_def open_routes_def admin_routes_def
  by (simp, elim disjE conjE) (simp only: steady steady_requireAdmin)+

lemma steady_serve_request: "within steady (serve_request mux_status rq)"
proof -
  have "within steady (serve_mux mux_status rq)"
    unfolding serve_mux_def by (intro st.core steady steady_routes) (rule map_of_SomeD)
  then show ?thesis
    unfolding serve_request_def securityHeaders_def by (intro st.core steady)
qed

end
