(* ===== verification/Startup.thy ===== *)
theory Startup
  imports FtpData HttpServer Config
begin

text \<open>
  The command, \<open>cmd/macftpd/main.go\<close>: it loads the configuration, makes the directories, opens the
  stores in their order, makes the two servers over the same stores, and waits for the first of them
  to stop. \<open>startup_env\<close> is what lies outside: the flags, the files of the stores as what they decode
  to and the outcomes of writing them, random bytes, and the certificate.
\<close>

record startup_env =
  se_configPath :: string
  se_printConfig :: bool
  se_os :: os_env
  se_unmarshal :: "string \<Rightarrow> Config \<Rightarrow> err + Config"
  se_users :: "(err + Database) option"
  se_users_save :: "err option"
  se_random_pw :: "string option"
  se_random_salt :: "string option"
  se_bootstrap_save :: "err option"
  se_log_mkdir :: "err option"
  se_log :: "(err + Event option list \<times> err option) option"
  se_links :: "(err + Link list) option"
  se_links_save :: "err option"
  se_certificate :: "err option"
  se_kdf :: kdf
  se_codec :: codec
  se_clone :: bool
  se_now :: time

text \<open>The two servers; in the program they share the stores, here each has its view of them.\<close>

record program =
  pg_ftp :: FtpSession.server
  pg_http :: http_server

text \<open>\<open>Endless\<close> is a start that never ends: parsing the passive ports may not.\<close>

datatype outcome = Fatal string err | Printed Config | Started program | Endless

definition activity_path :: "Config \<Rightarrow> string" where
  "activity_path cfg = Join_paths [Dir_name (auc_UsersPath (cfg_Auth cfg)), ''activity.jsonl'']"

text \<open>\<open>SetPublicMutationHook\<close>, and what the hook of \<open>main\<close> sends and logs for a path.\<close>

definition SetPublicMutationHook :: "FtpSession.server \<Rightarrow> FtpSession.server" where
  "SetPublicMutationHook sv = sv\<lparr>sv_publicHook := True\<rparr>"

definition public_hook ::
  "(err \<Rightarrow> string) \<Rightarrow> cf_service \<Rightarrow> CloudflareConfig \<Rightarrow> string \<Rightarrow> string option \<times> cf_request list" where
  "public_hook error_text service cf p =
     (case PurgeTag service (Some cf) of (failed, sent) \<Rightarrow>
        (case failed of
           Some e \<Rightarrow> if e = ErrNotConfigured then None
             else Some (''cloudflare: purge public cache after FTP mutation '' @ p @ '': '' @ error_text e)
         | None \<Rightarrow> None, sent))"

text \<open>The stores and servers of a configuration, in the order of the code.\<close>

definition open_auth :: "startup_env \<Rightarrow> Config \<Rightarrow> string \<times> err + AuthStore" where
  "open_auth env cfg =
     (case Open_store (se_users env) (se_users_save env) of
        Inl e \<Rightarrow> Inl (''open auth store'', e)
      | Inr accounts \<Rightarrow>
          (case BootstrapAdmin (se_kdf env) (se_random_pw env) (se_random_salt env) (se_bootstrap_save env)
                  (auc_BootstrapAdminUser (cfg_Auth cfg)) (auc_BootstrapAdminPass (cfg_Auth cfg)) accounts of
             (Some e, _) \<Rightarrow> Inl (''bootstrap admin'', e)
           | (None, opened) \<Rightarrow> Inr opened))"

definition open_servers :: "startup_env \<Rightarrow> Config \<Rightarrow> AuthStore \<Rightarrow> Root \<Rightarrow> outcome" where
  "open_servers env cfg accounts root =
     (case NewFile 2000 (activity_path cfg) (se_log_mkdir env) (se_log env) of
        Inl e \<Rightarrow> Fatal ''open activity log'' e
      | Inr log \<Rightarrow> (case Open_links (se_links env) (se_links_save env) of
          Inl e \<Rightarrow> Fatal ''open share store'' e
        | Inr links \<Rightarrow>
            (case New_server (cfg_FTP cfg) accounts root (Some log) (Some New_tracker) (se_certificate env)
                    (se_kdf env) (se_codec env) (se_clone env) of
               None \<Rightarrow> Endless
             | Some (Inl e) \<Rightarrow> Fatal ''create ftp server'' e
             | Some (Inr ftp) \<Rightarrow> Started
                 \<lparr>pg_ftp = SetPublicMutationHook ftp,
                  pg_http = New_http (cfg_HTTP cfg) accounts root (Some (cfg_Cloudflare cfg)) (Some log) links
                    (Some New_tracker) (se_now env) (se_kdf env) (se_codec env) (se_clone env)\<rparr>)))"

definition main :: "startup_env \<Rightarrow> world \<Rightarrow> outcome \<times> world" where
  "main env w0 =
     (case Load (se_os env) (se_unmarshal env) (se_configPath env) w0 of
        (Inl e, w) \<Rightarrow> (Fatal ''load config'' e, w)
      | (Inr cfg, w) \<Rightarrow>
          if se_printConfig env then (Printed cfg, w)
          else (case EnsureDirs cfg w of
            (Inl e, w) \<Rightarrow> (Fatal ''prepare directories'' e, w)
          | (Inr _, w) \<Rightarrow> (case open_auth env cfg of
              Inl (stage, e) \<Rightarrow> (Fatal stage e, w)
            | Inr accounts \<Rightarrow>
                (case New_root (sc_Root (cfg_Storage cfg)) (sc_PublicDir (cfg_Storage cfg))
                        (sc_DropboxDir (cfg_Storage cfg)) (sc_Ignore (cfg_Storage cfg)) w of
                   (Inl e, w) \<Rightarrow> (Fatal ''open storage root'' e, w)
                 | (Inr root, w) \<Rightarrow> (open_servers env cfg accounts root, w)))))"

text \<open>The first server that stops ends the program: an error makes it fatal.\<close>

definition wait_servers :: "err option list \<Rightarrow> (string \<times> err) option" where
  "wait_servers stopped = (case stopped of Some e # _ \<Rightarrow> Some (''server stopped'', e) | _ \<Rightarrow> None)"

text \<open>Addresses and timeouts of the HTTP server.\<close>

record http_listener =
  hl_Addr :: string
  hl_ReadHeaderTimeout :: duration
  hl_ReadTimeout :: duration
  hl_WriteTimeout :: duration
  hl_IdleTimeout :: duration

definition newHTTPServer :: "HTTPConfig \<Rightarrow> http_listener" where
  "newHTTPServer cfg =
     \<lparr>hl_Addr = hc_Listen cfg, hl_ReadHeaderTimeout = Std (hc_ReadHeaderTimeout cfg) (10 * second),
      hl_ReadTimeout = hc_ReadTimeout cfg, hl_WriteTimeout = hc_WriteTimeout cfg,
      hl_IdleTimeout = Std (hc_IdleTimeout cfg) (60 * second)\<rparr>"

definition http_Addr :: "http_listener option \<Rightarrow> HTTPConfig \<Rightarrow> string" where
  "http_Addr listening cfg = (case listening of None \<Rightarrow> hc_Listen cfg | Some l \<Rightarrow> hl_Addr l)"



subsection \<open>What a program that starts has\<close>

definition bootstrap_name :: "Config \<Rightarrow> string" where
  "bootstrap_name cfg = (let n = NormalizeName (auc_BootstrapAdminUser (cfg_Auth cfg)) in if n = [] then ''admin'' else n)"

lemma BootstrapAdmin_done:
  assumes "BootstrapAdmin kdf rp rs e n pw s = (None, s')"
    and "k = (if NormalizeName n = [] then ''admin'' else NormalizeName n)"
  shows "map_of (db_Users (as_db s')) k \<noteq> None"
    and "map_of (db_Users (as_db s)) k = None \<Longrightarrow> k \<in> admins s'"
    and "store_inv s \<Longrightarrow> store_inv s'"
proof -
  define p where "p = (if pw = [] then randomBootstrapPassword rp else pw)"
  note run = assms(1)[unfolded BootstrapAdmin_eq[OF assms(2) p_def]]
  have known: "s' = s" if "map_of (db_Users (as_db s)) k \<noteq> None"
    using run that by (auto split: if_splits)
  have fresh: "\<exists>h. s' = snd (saveLocked e (set_group ''admins'' bootstrap_group (set_user k (bootstrap_entry k h) s)))"
    if "map_of (db_Users (as_db s)) k = None"
    using run that by (auto split: if_splits sum.splits) (metis snd_conv)
  show "map_of (db_Users (as_db s')) k \<noteq> None"
  proof (cases "map_of (db_Users (as_db s)) k = None")
    case True
    then obtain h where "s' = snd (saveLocked e (set_group ''admins'' bootstrap_group (set_user k (bootstrap_entry k h) s)))"
      using fresh by blast
    then show ?thesis by (simp add: map_of_update_iff)
  qed (use known in auto)
  show "k \<in> admins s'" if new: "map_of (db_Users (as_db s)) k = None"
  proof -
    obtain h where "s' = snd (saveLocked e (set_group ''admins'' bootstrap_group (set_user k (bootstrap_entry k h) s)))"
      using fresh[OF new] by blast
    then show ?thesis
      using admins_set_top_group[of "set_user k (bootstrap_entry k h) s" "''admins''"]
      by (auto simp: admins_set_user bootstrap_entry_admin)
  qed
  show "store_inv s \<Longrightarrow> store_inv s'"
    using dir_step_inv[of s kdf "OpBootstrap rp rs e n pw"] assms(1) by simp
qed

lemma main_Started:
  assumes "main env w0 = (Started pg, w)"
  obtains cfg accounts root w1 w2 w3 log links ftp where
    "Load (se_os env) (se_unmarshal env) (se_configPath env) w0 = (Inr cfg, w1)"
    "EnsureDirs cfg w1 = (Inr (), w2)" "open_auth env cfg = Inr accounts"
    "New_root (sc_Root (cfg_Storage cfg)) (sc_PublicDir (cfg_Storage cfg))
       (sc_DropboxDir (cfg_Storage cfg)) (sc_Ignore (cfg_Storage cfg)) w2 = (Inr root, w3)" "w = w3"
    "NewFile 2000 (activity_path cfg) (se_log_mkdir env) (se_log env) = Inr log"
    "Open_links (se_links env) (se_links_save env) = Inr links"
    "New_server (cfg_FTP cfg) accounts root (Some log) (Some New_tracker) (se_certificate env)
       (se_kdf env) (se_codec env) (se_clone env) = Some (Inr ftp)"
    "pg_ftp pg = SetPublicMutationHook ftp"
    "pg_http pg = New_http (cfg_HTTP cfg) accounts root (Some (cfg_Cloudflare cfg)) (Some log) links
       (Some New_tracker) (se_now env) (se_kdf env) (se_codec env) (se_clone env)"
  using assms
  by (auto simp: main_def open_servers_def split: prod.splits sum.splits option.splits if_splits)

lemma New_server_fields:
  assumes "New_server cfg auth root log tracker certificate kdf json clone = Some (Inr sv)"
  shows "sv_cfg sv = cfg" "sv_auth sv = auth" "sv_root sv = root" "sv_activity sv = log" "sv_tracker sv = tracker"
    "fc_RequireTLS cfg \<Longrightarrow> sv_tls sv" "sv_kdf sv = kdf" "sv_listener sv = None"
    "parsePorts (fc_PassivePorts cfg) = Some (Inr (sv_ports sv))" "sv_nextPort sv = 0"
  using assms by (auto simp: New_server_def Let_def split: sum.splits if_splits option.splits)

lemma Load_normalized:
  "Load env unmarshal p w = (Inr cfg, w') \<Longrightarrow> \<exists>c. Normalize env c = Inr cfg"
  by (auto simp: Load_def bindE_def liftE_def split: prod.splits sum.splits if_splits)

lemma Normalize_session_key: "Normalize env c = Inr c' \<Longrightarrow> env_ok env \<Longrightarrow> hc_SessionKey (cfg_HTTP c') \<noteq> []"
  by (auto simp: Normalize_def normalize_session_key_ok(1) split: sum.splits)

lemma open_auth_opened:
  assumes "open_auth env cfg = Inr accounts"
  obtains opened where "Open_store (se_users env) (se_users_save env) = Inr opened"
    "BootstrapAdmin (se_kdf env) (se_random_pw env) (se_random_salt env) (se_bootstrap_save env)
       (auc_BootstrapAdminUser (cfg_Auth cfg)) (auc_BootstrapAdminPass (cfg_Auth cfg)) opened = (None, accounts)"
  using assms by (auto simp: open_auth_def split: sum.splits prod.splits option.splits)

lemma Open_store_db:
  assumes "Open_store content save_error = Inr opened"
  shows "content = None \<Longrightarrow> as_db opened = empty_db" and "content = Some (Inr db) \<Longrightarrow> as_db opened = db"
    and "content \<noteq> Some (Inl e)"
  using assms by (auto simp: Open_store_def load_store_def saveLocked_def Let_def split: option.splits)

lemma store_inv_db: "as_db s = as_db t \<Longrightarrow> store_inv s \<longleftrightarrow> store_inv t"
  by (simp add: store_inv_def)

lemma open_auth_inv:
  assumes "open_auth env cfg = Inr accounts"
    and "\<forall>db. se_users env = Some (Inr db) \<longrightarrow> store_inv \<lparr>as_db = db, as_disk = Some db\<rparr>"
  shows "store_inv accounts"
proof -
  obtain opened where opened: "Open_store (se_users env) (se_users_save env) = Inr opened"
    "BootstrapAdmin (se_kdf env) (se_random_pw env) (se_random_salt env) (se_bootstrap_save env)
       (auc_BootstrapAdminUser (cfg_Auth cfg)) (auc_BootstrapAdminPass (cfg_Auth cfg)) opened = (None, accounts)"
    using assms(1) by (rule open_auth_opened)
  note db = Open_store_db[OF opened(1)]
  have "store_inv opened"
  proof (cases "se_users env")
    case None
    then show ?thesis using db(1) by (simp add: store_inv_def empty_db_def)
  next
    case (Some content)
    with db(3) obtain d where "content = Inr d" by (cases content) auto
    with Some assms(2) db(2) store_inv_db[of opened "\<lparr>as_db = d, as_disk = Some d\<rparr>"] show ?thesis by simp
  qed
  then show ?thesis using BootstrapAdmin_done(3)[OF opened(2) refl] by simp
qed

text \<open>What the running program relies on.\<close>

lemma main_program:
  assumes run: "main env w0 = (Started pg, w)"
    and db: "\<forall>db. se_users env = Some (Inr db) \<longrightarrow> store_inv \<lparr>as_db = db, as_disk = Some db\<rparr>"
  obtains p log where "NewFile 2000 p (se_log_mkdir env) (se_log env) = Inr log"
    "sv_auth (pg_ftp pg) = hs_auth (pg_http pg)" "sv_activity (pg_ftp pg) = Some log"
    "hs_activity (pg_http pg) = Some log" "sv_tracker (pg_ftp pg) = hs_tracker (pg_http pg)"
    "fc_RequireTLS (sv_cfg (pg_ftp pg)) \<longrightarrow> sv_tls (pg_ftp pg)" "store_inv (hs_auth (pg_http pg))"
proof -
  obtain cfg accounts root log links ftp where parts:
    "open_auth env cfg = Inr accounts" "NewFile 2000 (activity_path cfg) (se_log_mkdir env) (se_log env) = Inr log"
    "New_server (cfg_FTP cfg) accounts root (Some log) (Some New_tracker) (se_certificate env)
       (se_kdf env) (se_codec env) (se_clone env) = Some (Inr ftp)" "pg_ftp pg = SetPublicMutationHook ftp"
    "pg_http pg = New_http (cfg_HTTP cfg) accounts root (Some (cfg_Cloudflare cfg)) (Some log) links
       (Some New_tracker) (se_now env) (se_kdf env) (se_codec env) (se_clone env)"
    by (rule main_Started[OF run])
  note fields = New_server_fields[OF parts(3)]
  show thesis
    by (rule that[OF parts(2)])
       (use fields open_auth_inv[OF parts(1) db] in \<open>simp_all add: parts(4,5) SetPublicMutationHook_def New_http_def\<close>)
qed

text \<open>C2: A program that starts is in order. Both servers use the same accounts, storage root, activity log
  and table of sessions; the configuration was accepted by \<open>Normalize\<close>, the session key is not
  empty, and with \<open>require_tls\<close> the FTP server has its certificate. The account of the configured
  administrator exists, on a fresh installation it has administrative rights, and a user database
  that was well formed still is. FTP changes to public files purge the cache.
\<close>

theorem startup_ready:
  assumes "main env w0 = (Started pg, w)" and "env_ok (se_os env)"
  shows "\<exists>cfg c. Normalize (se_os env) c = Inr cfg \<and>
    sv_cfg (pg_ftp pg) = cfg_FTP cfg \<and> hs_cfg (pg_http pg) = cfg_HTTP cfg \<and>
    sv_auth (pg_ftp pg) = hs_auth (pg_http pg) \<and> sv_root (pg_ftp pg) = hs_root (pg_http pg) \<and>
    sv_activity (pg_ftp pg) = hs_activity (pg_http pg) \<and> sv_tracker (pg_ftp pg) = hs_tracker (pg_http pg) \<and>
    hs_sessionKey (pg_http pg) \<noteq> [] \<and> (fc_RequireTLS (cfg_FTP cfg) \<longrightarrow> sv_tls (pg_ftp pg)) \<and>
    map_of (db_Users (as_db (hs_auth (pg_http pg)))) (bootstrap_name cfg) \<noteq> None \<and>
    (se_users env = None \<longrightarrow> bootstrap_name cfg \<in> admins (hs_auth (pg_http pg))) \<and>
    (\<forall>db. se_users env = Some (Inr db) \<longrightarrow> store_inv \<lparr>as_db = db, as_disk = Some db\<rparr> \<longrightarrow>
       store_inv (hs_auth (pg_http pg))) \<and>
    sv_publicHook (pg_ftp pg)"
proof -
  obtain cfg accounts root w1 log links ftp where
    load: "Load (se_os env) (se_unmarshal env) (se_configPath env) w0 = (Inr cfg, w1)"
    and auth: "open_auth env cfg = Inr accounts"
    and new: "New_server (cfg_FTP cfg) accounts root (Some log) (Some New_tracker) (se_certificate env)
       (se_kdf env) (se_codec env) (se_clone env) = Some (Inr ftp)"
    and pg: "pg_ftp pg = SetPublicMutationHook ftp"
      "pg_http pg = New_http (cfg_HTTP cfg) accounts root (Some (cfg_Cloudflare cfg)) (Some log) links
       (Some New_tracker) (se_now env) (se_kdf env) (se_codec env) (se_clone env)"
    by (rule main_Started[OF assms(1)])
  obtain c where norm: "Normalize (se_os env) c = Inr cfg" using Load_normalized[OF load] by blast
  obtain opened where loaded: "Open_store (se_users env) (se_users_save env) = Inr opened"
    and boot: "BootstrapAdmin (se_kdf env) (se_random_pw env) (se_random_salt env) (se_bootstrap_save env)
       (auc_BootstrapAdminUser (cfg_Auth cfg)) (auc_BootstrapAdminPass (cfg_Auth cfg)) opened = (None, accounts)"
    using auth by (rule open_auth_opened)
  have name: "bootstrap_name cfg = (if NormalizeName (auc_BootstrapAdminUser (cfg_Auth cfg)) = [] then ''admin''
      else NormalizeName (auc_BootstrapAdminUser (cfg_Auth cfg)))"
    by (simp add: bootstrap_name_def Let_def)
  note boots = BootstrapAdmin_done[OF boot name]
  have "se_users env = None \<Longrightarrow> map_of (db_Users (as_db opened)) (bootstrap_name cfg) = None"
    using Open_store_db(1)[OF loaded] by (simp add: empty_db_def)
  then have "se_users env = None \<Longrightarrow> bootstrap_name cfg \<in> admins accounts" using boots(2) by blast
  moreover have "store_inv accounts"
    if "se_users env = Some (Inr db)" "store_inv \<lparr>as_db = db, as_disk = Some db\<rparr>" for db
    by (rule open_auth_inv[OF auth]) (use that in simp)
  moreover have "hc_SessionKey (cfg_HTTP cfg) \<noteq> []"
    using norm assms(2) by (rule Normalize_session_key)
  ultimately show ?thesis
    using norm boots(1) pg New_server_fields[OF new]
    by (intro exI[of _ cfg] exI[of _ c])
       (auto simp: SetPublicMutationHook_def New_http_def)
qed

definition first_start :: startup_env where
  "first_start =
     \<lparr>se_configPath = [], se_printConfig = False, se_os = sample_env, se_unmarshal = (\<lambda>_ c. Inr c), se_users = None,
      se_users_save = None, se_random_pw = Some (replicate 18 (CHR ''r'')), se_random_salt = Some (replicate 16 (CHR ''s'')),
      se_bootstrap_save = None, se_log_mkdir = None, se_log = None, se_links = None, se_links_save = None,
      se_certificate = None, se_kdf = toy_kdf, se_codec = sample_codec, se_clone = False, se_now = 0\<rparr>"

definition first_config :: Config where
  "first_config = projr (Normalize sample_env (applyEnv sample_env Default))"

lemma first_config_Inr: "Normalize sample_env (applyEnv sample_env Default) = Inr first_config"
proof -
  have "is_Inr (Normalize sample_env (applyEnv sample_env Default))" by code_simp
  then show ?thesis
    by (cases "Normalize sample_env (applyEnv sample_env Default)") (simp_all add: first_config_def)
qed

lemma first_config_fields:
  "auc_BootstrapAdminUser (cfg_Auth first_config) = ''admin''" "auc_BootstrapAdminPass (cfg_Auth first_config) = []"
  "fc_PassivePorts (cfg_FTP first_config) = ''50000-50100''" "fc_RequireTLS (cfg_FTP first_config) = False"
  "fc_TLSCertFile (cfg_FTP first_config) = []" "fc_TLSKeyFile (cfg_FTP first_config) = []"
  by code_simp+

lemma first_auth: "\<exists>accounts. open_auth first_start first_config = Inr accounts"
proof -
  let ?fresh = "\<lparr>as_db = empty_db, as_disk = Some empty_db\<rparr>"
  have valid: "ValidateName ''admin'' = None" by code_simp
  have "\<exists>accounts. BootstrapAdmin toy_kdf (Some (replicate 18 (CHR ''r''))) (Some (replicate 16 (CHR ''s''))) None
      ''admin'' [] ?fresh = (None, accounts)"
    unfolding BootstrapAdmin_eq[OF refl refl] valid_normal[OF valid]
    by (simp add: valid empty_db_def HashPassword_def saveLocked_def)
  then show ?thesis
    by (auto simp: open_auth_def Open_store_def load_store_def saveLocked_def first_start_def first_config_fields)
qed

lemma first_ports: "\<exists>ports. parsePorts (fc_PassivePorts (cfg_FTP first_config)) = Some (Inr ports)"
proof -
  have range: "show_range (50000, 50100) = ''50000-50100''"
    by (simp add: show_range_def show_nat.simps digit_char_def) code_simp
  have "TrimSpace ''50000-50100'' = ''50000-50100''" "Split ''50000-50100'' (CHR '','') = [''50000-50100'']"
    by code_simp+
  then show ?thesis
    using parse_parts_ranges[of "[(50000, 50100)]"] by (simp add: parsePorts_def first_config_fields range)
qed

lemma first_log: "is_Inr (NewFile 2000 p None None)"
  by (simp add: NewFile_def Let_def)

lemma first_dirs:
  "is_Inr (fst (EnsureDirs first_config (sample_world (\<lambda>_. NoFault))))"
  "is_Inr (fst (New_root (sc_Root (cfg_Storage first_config)) (sc_PublicDir (cfg_Storage first_config))
     (sc_DropboxDir (cfg_Storage first_config)) (sc_Ignore (cfg_Storage first_config))
     (snd (EnsureDirs first_config (sample_world (\<lambda>_. NoFault))))))"
  by code_simp+

lemma first_start_starts: "\<exists>pg w. main first_start (sample_world (\<lambda>_. NoFault)) = (Started pg, w)"
proof -
  have load: "Load sample_env (\<lambda>_ c. Inr c) [] w = (Inr first_config, w)" for w
    by (simp add: Load_def bindE_def returnE_def liftE_def first_config_Inr)
  obtain accounts where auth: "open_auth first_start first_config = Inr accounts" using first_auth by blast
  obtain w1 where dirs: "EnsureDirs first_config (sample_world (\<lambda>_. NoFault)) = (Inr (), w1)"
    using first_dirs(1) by (cases "EnsureDirs first_config (sample_world (\<lambda>_. NoFault))") (auto simp: is_Inr_iff)
  obtain root w2 where root: "New_root (sc_Root (cfg_Storage first_config)) (sc_PublicDir (cfg_Storage first_config))
      (sc_DropboxDir (cfg_Storage first_config)) (sc_Ignore (cfg_Storage first_config)) w1 = (Inr root, w2)"
    using first_dirs(2) dirs
    by (cases "New_root (sc_Root (cfg_Storage first_config)) (sc_PublicDir (cfg_Storage first_config))
      (sc_DropboxDir (cfg_Storage first_config)) (sc_Ignore (cfg_Storage first_config)) w1") (auto simp: is_Inr_iff)
  obtain log where log: "NewFile 2000 (activity_path first_config) None None = Inr log"
    using first_log by (auto simp: is_Inr_iff)
  obtain ports where ports: "parsePorts (fc_PassivePorts (cfg_FTP first_config)) = Some (Inr ports)"
    using first_ports by blast
  have "\<exists>links. Open_links None None = Inr links" by (simp add: Open_links_def load_links_def save_links_def Let_def)
  then obtain links where links: "Open_links None None = Inr links" ..
  show ?thesis
    using load auth dirs root log ports links
    by (simp add: main_def first_start_def open_servers_def New_server_def first_config_fields Let_def)
qed

theorem startup_ready_witness:
  "\<exists>pg w. main first_start (sample_world (\<lambda>_. NoFault)) = (Started pg, w) \<and> hs_sessionKey (pg_http pg) \<noteq> [] \<and>
     sv_auth (pg_ftp pg) = hs_auth (pg_http pg) \<and> admins (hs_auth (pg_http pg)) \<noteq> {}"
proof -
  obtain pg w where run: "main first_start (sample_world (\<lambda>_. NoFault)) = (Started pg, w)"
    using first_start_starts by blast
  have env: "env_ok (se_os first_start)" "se_users first_start = None"
    by (simp_all add: first_start_def env_ok_def sample_env_def absolute_def)
  show ?thesis using startup_ready[OF run env(1)] env(2) run by auto
qed

end
