(* ===== verification/Program.thy ===== *)
theory Program
  imports Startup HttpSteady FtpData
begin

text \<open>
  The running program: the two servers over the stores they share, as a state and the events that
  change it. An event is a connection that is accepted or ends, a line of a control connection with the
  answers of the network while it is handled, or a request to the HTTP server with the answers of
  everything outside. Events of any connections may follow each other in any order; one event is one
  step, which the locks of the stores make of each call but not of a whole handler. A panic of a command
  ends the program, a panic of a request ends the request, which \<open>net/http\<close> recovers.
\<close>

record system =
  sy_program :: program
  sy_sessions :: "nat \<Rightarrow> session option"
  sy_disk :: world
  sy_crashed :: bool

datatype event =
    Connected nat addr net
  | Line nat string net
  | Disconnected nat "read_error option" net
  | Request int request http_env

subsection \<open>Stores that are shared\<close>

definition share_ftp :: "program \<Rightarrow> program" where
  "share_ftp pg = (let sv = pg_ftp pg in
     pg\<lparr>pg_http := (pg_http pg)\<lparr>hs_auth := sv_auth sv, hs_activity := sv_activity sv, hs_tracker := sv_tracker sv\<rparr>\<rparr>)"

definition share_http :: "program \<Rightarrow> program" where
  "share_http pg = (let hs = pg_http pg in
     pg\<lparr>pg_ftp := (pg_ftp pg)\<lparr>sv_auth := hs_auth hs, sv_activity := hs_activity hs, sv_tracker := hs_tracker hs\<rparr>\<rparr>)"

subsection \<open>Steps\<close>

text \<open>What a computation of the FTP server for session \<open>k\<close> makes of the program.\<close>

definition ftp_ctx :: "session \<Rightarrow> net \<Rightarrow> system \<Rightarrow> ctx" where
  "ftp_ctx ss answers s =
     \<lparr>cx_ss = ss, cx_sv = pg_ftp (sy_program s), cx_disk = sy_disk s, cx_net = answers, cx_replies = [],
      cx_sent = [], cx_crashed = False\<rparr>"

definition after_ftp :: "nat \<Rightarrow> session option \<Rightarrow> ctx \<Rightarrow> system \<Rightarrow> system" where
  "after_ftp k ss c s =
     s\<lparr>sy_program := share_ftp ((sy_program s)\<lparr>pg_ftp := cx_sv c\<rparr>), sy_sessions := (sy_sessions s)(k := ss),
       sy_disk := cx_disk c, sy_crashed := cx_crashed c\<rparr>"

text \<open>The parts of \<open>handle\<close> before and after its loop.\<close>

definition greet :: "addr \<Rightarrow> unit ftp" where
  "greet remote = do {
     tracker \<leftarrow> FtpSession.server sv_tracker;
     statusID \<leftarrow> (case tracker of
       None \<Rightarrow> ret 0
     | Some t \<Rightarrow> do {
         t0 \<leftarrow> FtpSession.now;
         let added = Tracker_Add t0 ''ftp'' (ad_String remote) t;
         FtpSession.set_server (\<lambda>s. s\<lparr>sv_tracker := Some (snd added)\<rparr>);
         ret (fst added)
       });
     set_session (\<lambda>_. new_session remote statusID);
     welcome \<leftarrow> FtpSession.server (\<lambda>s. fc_Welcome (sv_cfg s));
     reply 220 welcome
   }"

definition leave :: "addr \<Rightarrow> bool \<Rightarrow> read_error option \<Rightarrow> read_log option ftp" where
  "leave remote reading failure = do {
     logged \<leftarrow> (if reading \<and> failure \<noteq> None then do {
         t1 \<leftarrow> FtpSession.now;
         noise \<leftarrow> FtpSession.server sv_readNoise;
         let out = logReadError t1 remote failure noise;
         FtpSession.set_server (\<lambda>s. s\<lparr>sv_readNoise := snd out\<rparr>);
         ret (fst out)
       } else ret None);
     close_session;
     ret logged
   }"

lemma handle_parts:
  "handle remote inputs failure = do { greet remote; reading \<leftarrow> serve inputs; leave remote reading failure }"
  unfolding handle_def greet_def leave_def by (rule state.expand) (simp add: fun_eq_iff split: option.split prod.split)

text \<open>
  A line of a connection: when the command ends the session or the connection is gone, the session is
  left; a panic leaves it as it is, for there is nobody to.
\<close>

definition take_line :: "string \<Rightarrow> bool ftp" where
  "take_line line = do {
     go_on \<leftarrow> handle_line line;
     crashed \<leftarrow> ask cx_crashed;
     connected \<leftarrow> session ss_open;
     remote \<leftarrow> session ss_remote;
     if crashed \<or> (go_on \<and> connected) then ret True
     else do { _ \<leftarrow> leave remote go_on None; ret False }
   }"

definition http_ctx :: "http_env \<Rightarrow> system \<Rightarrow> hctx" where
  "http_ctx env s =
     \<lparr>hx_sv = pg_http (sy_program s), hx_disk = sy_disk s, hx_env = env, hx_rs = empty_response, hx_purged = []\<rparr>"

fun sys_step :: "event \<Rightarrow> system \<Rightarrow> system" where
  "sys_step (Connected k remote answers) s =
     (case sy_sessions s k of
        Some _ \<Rightarrow> s
      | None \<Rightarrow> let c = snd (run_state (greet remote) (ftp_ctx (new_session remote 0) answers s))
                in after_ftp k (Some (cx_ss c)) c s)"
| "sys_step (Line k line answers) s =
     (case sy_sessions s k of
        None \<Rightarrow> s
      | Some ss \<Rightarrow> (case run_state (take_line line) (ftp_ctx ss answers s) of
          (stays, c) \<Rightarrow> after_ftp k (if stays then Some (cx_ss c) else None) c s))"
| "sys_step (Disconnected k failure answers) s =
     (case sy_sessions s k of
        None \<Rightarrow> s
      | Some ss \<Rightarrow> after_ftp k None
          (snd (run_state (leave (ss_remote ss) True failure) (ftp_ctx ss answers s))) s)"
| "sys_step (Request mux_status rq env) s =
     (let c = snd (run_state (serve_request mux_status rq) (http_ctx env s))
      in s\<lparr>sy_program := share_http ((sy_program s)\<lparr>pg_http := hx_sv c\<rparr>), sy_disk := hx_disk c\<rparr>)"

text \<open>A program that crashed makes no more steps.\<close>

fun sys_run :: "event list \<Rightarrow> system \<Rightarrow> system" where
  "sys_run [] s = s"
| "sys_run (ev # evs) s = (if sy_crashed s then s else sys_run evs (sys_step ev s))"

definition started :: "program \<Rightarrow> world \<Rightarrow> system" where
  "started pg w = \<lparr>sy_program = pg, sy_sessions = (\<lambda>_. None), sy_disk = w, sy_crashed = False\<rparr>"

subsection \<open>What every event keeps\<close>

definition kept :: "ctx \<Rightarrow> ctx \<Rightarrow> bool" where
  "kept c d \<longleftrightarrow> sv_cfg (cx_sv d) = sv_cfg (cx_sv c) \<and> sv_auth (cx_sv d) = sv_auth (cx_sv c) \<and>
     sv_root (cx_sv d) = sv_root (cx_sv c) \<and> sv_tls (cx_sv d) = sv_tls (cx_sv c) \<and>
     log_call\<^sup>*\<^sup>* (sv_activity (cx_sv c)) (sv_activity (cx_sv d))"

interpretation kp: ftp_transition kept
proof
  fix c d e assume a: "kept c d" "kept d e"
  then have "log_call\<^sup>*\<^sup>* (sv_activity (cx_sv c)) (sv_activity (cx_sv d))"
    "log_call\<^sup>*\<^sup>* (sv_activity (cx_sv d)) (sv_activity (cx_sv e))" by (simp_all add: kept_def)
  then have "log_call\<^sup>*\<^sup>* (sv_activity (cx_sv c)) (sv_activity (cx_sv e))" by (rule rtranclp_trans)
  with a show "kept c e" by (simp add: kept_def)
qed (simp add: kept_def)

lemma kept_calm: "within (calm lg act) m \<Longrightarrow> within kept m"
  by (simp add: within_def calm_def kept_def)

lemma kept_steps:
  "(\<And>s. sv_cfg (f s) = sv_cfg s \<and> sv_auth (f s) = sv_auth s \<and> sv_root (f s) = sv_root s \<and> sv_tls (f s) = sv_tls s \<and>
      sv_activity (f s) = sv_activity s) \<Longrightarrow> within kept (FtpSession.set_server f)"
  "within kept (set_session g)" "within kept (reply code msg)" "within kept FtpSession.now"
  by (simp_all add: within_def kept_def step_defs reply_def FtpSession.now_def)

lemma kept_parts:
  "within kept (greet remote)" "within kept (leave remote reading failure)" "within kept (handle_line line)"
  "within kept (take_line line)"
proof -
  show "within kept (greet remote)"
    unfolding greet_def by (intro kp.rules kept_steps) simp_all
  show leave: "within kept (leave remote reading failure)" for remote reading failure
    unfolding leave_def close_session_def
    by (intro kp.rules kept_steps kept_calm[OF calm_close(1)]) simp_all
  show line: "within kept (handle_line line)"
    unfolding handle_line_def Let_def by (intro kp.rules kept_calm[OF calm_dispatch])
  show "within kept (take_line line)"
    unfolding take_line_def by (intro kp.rules leave line)
qed

text \<open>A session that goes on has gone through \<open>handle_line\<close> alone.\<close>

lemma take_line_stays:
  "run_state (take_line line) c = (True, d) \<Longrightarrow> d = snd (run_state (handle_line line) c)"
  by (auto simp: take_line_def session_def split: prod.splits if_splits)

subsection \<open>The invariant of the program\<close>

definition sy_ftp :: "system \<Rightarrow> FtpSession.server" where
  "sy_ftp s = pg_ftp (sy_program s)"

definition sy_http :: "system \<Rightarrow> http_server" where
  "sy_http s = pg_http (sy_program s)"

definition stores_shared :: "system \<Rightarrow> bool" where
  "stores_shared s \<longleftrightarrow> sv_auth (sy_ftp s) = hs_auth (sy_http s) \<and> sv_activity (sy_ftp s) = hs_activity (sy_http s) \<and>
     sv_tracker (sy_ftp s) = hs_tracker (sy_http s)"

definition as_started :: "program \<Rightarrow> system \<Rightarrow> bool" where
  "as_started pg s \<longleftrightarrow> sv_cfg (sy_ftp s) = sv_cfg (pg_ftp pg) \<and> sv_tls (sy_ftp s) = sv_tls (pg_ftp pg) \<and>
     sv_root (sy_ftp s) = sv_root (pg_ftp pg) \<and> hs_cfg (sy_http s) = hs_cfg (pg_http pg) \<and>
     hs_root (sy_http s) = hs_root (pg_http pg) \<and> hs_sessionKey (sy_http s) = hs_sessionKey (pg_http pg) \<and>
     hs_cloudflare (sy_http s) = hs_cloudflare (pg_http pg)"

definition logins_encrypted :: "system \<Rightarrow> bool" where
  "logins_encrypted s \<longleftrightarrow> (fc_RequireTLS (sv_cfg (sy_ftp s)) \<longrightarrow>
     (\<forall>k ss. sy_sessions s k = Some ss \<longrightarrow> ss_authenticated ss \<longrightarrow> ss_secure ss))"

definition sys_inv :: "program \<Rightarrow> system \<Rightarrow> bool" where
  "sys_inv pg s \<longleftrightarrow> stores_shared s \<and> as_started pg s \<and> logins_encrypted s \<and> store_inv (hs_auth (sy_http s)) \<and>
     log_call\<^sup>*\<^sup>* (hs_activity (pg_http pg)) (hs_activity (sy_http s))"

lemma after_ftp_inv:
  assumes inv: "sys_inv pg s" and kept: "kept (ftp_ctx ss answers s) c"
    and enc: "\<And>ss'. fc_RequireTLS (sv_cfg (cx_sv c)) \<Longrightarrow> stays = Some ss' \<Longrightarrow> ss_authenticated ss' \<Longrightarrow> ss_secure ss'"
  shows "sys_inv pg (after_ftp k stays c s)"
proof -
  have "log_call\<^sup>*\<^sup>* (hs_activity (pg_http pg)) (hs_activity (sy_http s))"
    "log_call\<^sup>*\<^sup>* (hs_activity (sy_http s)) (sv_activity (cx_sv c))"
    using inv kept by (simp_all add: sys_inv_def stores_shared_def kept_def ftp_ctx_def sy_ftp_def sy_http_def)
  then have "log_call\<^sup>*\<^sup>* (hs_activity (pg_http pg)) (sv_activity (cx_sv c))" by (rule rtranclp_trans)
  with inv kept enc show ?thesis
    by (auto simp: sys_inv_def stores_shared_def as_started_def logins_encrypted_def kept_def ftp_ctx_def after_ftp_def
        share_ftp_def sy_ftp_def sy_http_def Let_def)
qed

lemma after_http_inv:
  assumes inv: "sys_inv pg s" and st: "steady (http_ctx env s) d"
  shows "sys_inv pg (s\<lparr>sy_program := share_http ((sy_program s)\<lparr>pg_http := hx_sv d\<rparr>), sy_disk := hx_disk d\<rparr>)"
proof -
  note fields = st[unfolded steady_def http_ctx_def hctx.simps, folded sy_http_def]
  note before = inv[unfolded sys_inv_def]
  have "store_inv (hs_auth (hx_sv d))"
    using fields before auth_calls_inv by blast
  moreover have "log_call\<^sup>*\<^sup>* (hs_activity (pg_http pg)) (hs_activity (hx_sv d))"
    by (rule rtranclp_trans[of _ _ "hs_activity (sy_http s)"]) (use fields before in blast)+
  ultimately show ?thesis
    using fields before
    by (simp add: sys_inv_def stores_shared_def as_started_def logins_encrypted_def share_http_def sy_ftp_def
        sy_http_def Let_def)
qed

lemma sys_step_inv:
  assumes inv: "sys_inv pg s" and tls: "fc_RequireTLS (sv_cfg (pg_ftp pg)) \<longrightarrow> sv_tls (pg_ftp pg)"
  shows "sys_inv pg (sys_step ev s)"
proof (cases ev)
  case (Connected k remote answers)
  let ?c = "ftp_ctx (new_session remote 0) answers s"
  let ?d = "snd (run_state (greet remote) ?c)"
  have "kept ?c ?d" using kept_parts(1) by (simp add: within_def)
  moreover have "\<not> ss_authenticated (cx_ss ?d)"
    by (auto simp: greet_def step_defs reply_def FtpSession.now_def new_session_def Let_def split: option.split)
  ultimately have "sys_inv pg (after_ftp k (Some (cx_ss ?d)) ?d s)" by (intro after_ftp_inv[OF inv]) auto
  with Connected inv show ?thesis by (simp add: Let_def split: option.split)
next
  case (Line k line answers)
  show ?thesis
  proof (cases "sy_sessions s k")
    case (Some ss)
    obtain stays c where run: "run_state (take_line line) (ftp_ctx ss answers s) = (stays, c)" by (rule prod.exhaust)
    have kept: "kept (ftp_ctx ss answers s) c" using withinD[OF kept_parts(4) run] .
    have "ss_secure (cx_ss c)"
      if "fc_RequireTLS (sv_cfg (cx_sv c))" "stays" "ss_authenticated (cx_ss c)"
    proof -
      have "tls_ok (ftp_ctx ss answers s)"
        using inv tls kept that(1) Some
        by (auto simp: tls_ok_def ftp_ctx_def kept_def sys_inv_def as_started_def logins_encrypted_def sy_ftp_def)
      moreover have "c = snd (run_state (handle_line line) (ftp_ctx ss answers s))"
        using run that(2) by (intro take_line_stays) simp
      ultimately have "tls_ok c" by (simp only: handle_line_tls)
      with that(3) show ?thesis by (simp add: tls_ok_def)
    qed
    then have "sys_inv pg (after_ftp k (if stays then Some (cx_ss c) else None) c s)"
      by (intro after_ftp_inv[OF inv kept]) (auto split: if_splits)
    with Line Some run show ?thesis by simp
  qed (use Line inv in simp)
next
  case (Disconnected k failure answers)
  show ?thesis
  proof (cases "sy_sessions s k")
    case (Some ss)
    let ?d = "snd (run_state (leave (ss_remote ss) True failure) (ftp_ctx ss answers s))"
    have "kept (ftp_ctx ss answers s) ?d" using kept_parts(2) by (simp add: within_def)
    then have "sys_inv pg (after_ftp k None ?d s)" by (intro after_ftp_inv[OF inv]) auto
    with Disconnected Some show ?thesis by simp
  qed (use Disconnected inv in simp)
next
  case (Request mux_status rq env)
  define d where "d = snd (run_state (serve_request mux_status rq) (http_ctx env s))"
  have "steady (http_ctx env s) d" unfolding d_def using steady_serve_request by (simp add: within_def)
  then show ?thesis using after_http_inv[OF inv] Request by (simp add: Let_def flip: d_def)
qed

lemma sys_run_inv:
  "sys_inv pg s \<Longrightarrow> fc_RequireTLS (sv_cfg (pg_ftp pg)) \<longrightarrow> sv_tls (pg_ftp pg) \<Longrightarrow> sys_inv pg (sys_run evs s)"
  by (induction evs s rule: sys_run.induct) (auto intro: sys_step_inv)

subsection \<open>From the start\<close>

lemma NewFile_bounded:
  assumes "NewFile limit p dir_error content = Inr log" and "0 < limit"
  shows "a_limit log = nat limit \<and> length (a_events log) \<le> a_limit log"
proof -
  have lines: "a_limit (fold load_line ls s) = a_limit s \<and> length (a_events (fold load_line ls s)) \<le> a_limit s"
    if "length (a_events s) \<le> a_limit s" for ls s
    using that
  proof (induction ls arbitrary: s)
    case (Cons x ls)
    have "a_limit (load_line x s) = a_limit s" "length (a_events (load_line x s)) \<le> a_limit (load_line x s)"
      using Cons.prems by (auto simp: load_line_def keep_last_eq split: option.split)
    with Cons.IH[of "load_line x s"] show ?case by simp
  qed simp
  let ?s = "(New_log limit)\<lparr>a_path := TrimSpace p\<rparr>"
  have "log = ?s \<or> (\<exists>ls. log = fold load_line ls (?s\<lparr>a_file := ls\<rparr>))"
    using assms(1) by (auto simp: NewFile_def load_log_def Let_def split: option.splits sum.splits prod.splits if_splits)
  then show ?thesis
  proof (elim disjE exE)
    fix ls assume log: "log = fold load_line ls (?s\<lparr>a_file := ls\<rparr>)"
    show ?thesis unfolding log using lines[of "?s\<lparr>a_file := ls\<rparr>" ls] assms(2) by (simp add: New_log_def)
  qed (use assms(2) in \<open>simp add: New_log_def\<close>)
qed

text \<open>C1: Nothing that happens to a running program breaks it. From a start that succeeded on a
  well-formed user database (or none), after any connections, control lines, disconnections and HTTP
  requests in any order, with any answers of the network, the disk and the clock, both servers see the
  same accounts, log and sessions; settings, session key, storage root and certificate are those of the
  start; the user database is well formed; where \<open>require_tls\<close> is set every logged-in FTP session is
  encrypted; and the activity log holds the last 2000 of all the events it was ever given.\<close>

theorem program_invariant:
  assumes "main env w0 = (Started pg, w)"
    and "\<forall>db. se_users env = Some (Inr db) \<longrightarrow> store_inv \<lparr>as_db = db, as_disk = Some db\<rparr>"
    and "s = sys_run evs (started pg w)"
  shows "stores_shared s \<and> as_started pg s \<and> logins_encrypted s \<and> store_inv (hs_auth (sy_http s)) \<and>
    (\<exists>l0 l added. hs_activity (pg_http pg) = Some l0 \<and> hs_activity (sy_http s) = Some l \<and>
       a_events l = take_last 2000 (a_events l0 @ added))"
proof -
  obtain p log where log: "NewFile 2000 p (se_log_mkdir env) (se_log env) = Inr log" "hs_activity (pg_http pg) = Some log"
    and shared: "sv_auth (pg_ftp pg) = hs_auth (pg_http pg)" "sv_activity (pg_ftp pg) = Some log"
      "sv_tracker (pg_ftp pg) = hs_tracker (pg_http pg)"
    and tls: "fc_RequireTLS (sv_cfg (pg_ftp pg)) \<longrightarrow> sv_tls (pg_ftp pg)" and accounts: "store_inv (hs_auth (pg_http pg))"
    by (rule main_program[OF assms(1,2)])
  have "sys_inv pg (started pg w)"
    using log(2) shared accounts
    by (simp add: sys_inv_def started_def stores_shared_def as_started_def logins_encrypted_def sy_ftp_def sy_http_def)
  then have "sys_inv pg s" unfolding assms(3) using tls by (rule sys_run_inv)
  then have calls: "log_call\<^sup>*\<^sup>* (Some log) (hs_activity (sy_http s))"
    and rest: "stores_shared s" "as_started pg s" "logins_encrypted s" "store_inv (hs_auth (sy_http s))"
    using log(2) by (auto simp: sys_inv_def)
  from NewFile_bounded[OF log(1)] log_calls_window[OF calls] rest log(2)
  show ?thesis by auto
qed

definition first_events :: "event list" where
  "first_events = [Connected 1 sample_peer (sample_net [] True), Line 1 ''USER admin'' (sample_net [] True),
     Request 404 (sample_request ''GET'' ''/healthz'') HttpGuard.sample_env, Line 1 ''PASS x'' (sample_net [] True),
     Disconnected 1 None (sample_net [] True)]"

theorem program_invariant_witness:
  "\<exists>pg w. main first_start (sample_world (\<lambda>_. NoFault)) = (Started pg, w) \<and>
     (let s = sys_run first_events (started pg w)
      in stores_shared s \<and> logins_encrypted s \<and> store_inv (hs_auth (sy_http s)))"
proof -
  obtain pg w where run: "main first_start (sample_world (\<lambda>_. NoFault)) = (Started pg, w)"
    using first_start_starts by blast
  have users: "\<forall>db. se_users first_start = Some (Inr db) \<longrightarrow> store_inv \<lparr>as_db = db, as_disk = Some db\<rparr>"
    by (simp add: first_start_def)
  have "let s = sys_run first_events (started pg w)
    in stores_shared s \<and> logins_encrypted s \<and> store_inv (hs_auth (sy_http s))"
    using program_invariant[OF run users refl, of first_events] by (simp add: Let_def)
  with run show ?thesis by blast
qed

end
