(* ===== verification/Spec2Isabelle.thy ===== *)
theory Spec2Isabelle
  imports RateLimit StatusTracker ActivityLog AuthStore ShareStore StoragePaths StorageProofs StorageCopy Config FtpTransfer HttpSessions UploadLocks HttpDrops NatPmp Upnp
    FtpGateway HttpTemplates HttpSteady Startup Program
begin

text \<open>
  A verification library for macftpd, a file server written in Go that shares one directory tree over
  FTP and over HTTP, with accounts, groups, public links and retained versions of what is deleted or
  replaced.

  The program and its model. \<open>cmd/macftpd\<close> reads a configuration, opens the stores and starts two
  servers, which share the account store, the storage root, the activity log and the tracker of live
  sessions. Every definition is a translation of the function of the same name, or, for a long
  function, of the part that its comment names; the manifest maps each to its lines. Handlers of the
  servers read and change a context: the server, its stores, the disk, the session or the response, and
  the answers of the outside.

  Ground. \<open>Prelude\<close> has instants and durations, 64-bit wrap-around, maps as association lists, errors,
  and the collections of facts. \<open>GoStrings\<close>, \<open>GoPath\<close>, \<open>GoMatch\<close>, \<open>GoTime\<close>, \<open>GoNet\<close>, \<open>GoHttp\<close>, \<open>GoBase64\<close> and
  \<open>GoSha256\<close> are what the code uses of the packages \<open>strings\<close>, \<open>strconv\<close>, \<open>path\<close>, \<open>filepath.Match\<close>, \<open>time\<close>,
  \<open>net\<close>, \<open>net/http\<close>, \<open>encoding/base64\<close> and \<open>crypto/sha256\<close>, on strings of bytes. \<open>FileSystem\<close> is the disk: a
  tree of files and directories, and system calls on it, each of which may fail, at any point where it
  can have had a part of its effect; \<open>only\<close> says which paths an effect may change. \<open>Effects\<close> is the
  state monad of the handlers: the locale \<open>transition\<close> proves a relation of a handler from its steps,
  and \<open>ensures\<close> is a triple of a handler.

  Stores. \<open>RateLimit\<close> (\<open>internal/ratelimit\<close>): failures and lockouts, exactly when a key is locked, and the
  contract \<open>rate_limiter\<close> of a guarded attempt, which the servers' logins rest on. \<open>AuthStore\<close>
  (\<open>internal/auth\<close>): accounts, groups, effective permissions as a join, password hashes, the last
  administrator, and the contract \<open>user_directory\<close>. \<open>ShareStore\<close> (\<open>internal/share\<close>): public links, their
  checks, and reservations of downloads, with the contract \<open>download_gate\<close> by which a quota holds under
  every interleaving. \<open>ActivityLog\<close> (\<open>internal/activity\<close>): the bounded log, polling, statistics, restart.
  \<open>StatusTracker\<close> (\<open>internal/status\<close>): live sessions. \<open>Config\<close> (\<open>internal/config\<close>): defaults, environment and
  checks; what a configuration that starts satisfies. Each method is atomic, by the mutex of its
  store.

  Storage (\<open>internal/storage\<close>). \<open>StoragePaths\<close>: virtual paths, mounts and ignored names, and that what
  is resolved stays below the base and inside what the user may reach. \<open>Storage\<close>: every operation on
  the disk. \<open>StorageProofs\<close>: replacing, installing and deleting are transactions, for every combination of
  failing calls. \<open>StorageCopy\<close>: copying a tree ends. \<open>OpenFiles\<close> and \<open>OpenFileProofs\<close>: calls on open
  files.

  FTP (\<open>internal/ftpserver\<close>). \<open>FtpText\<close>: command lines, listings, addresses and ports. \<open>FtpSession\<close>: a
  control connection with every command, data connections, and the loop that reads commands; the
  network's answers to a command are its arguments. \<open>FtpProofs\<close>: commands without their permission
  change nothing, no login without TLS where it is required, and every command is answered. \<open>FtpLogin\<close>:
  \<open>PASS\<close> refines a guarded attempt of the limiter. \<open>FtpData\<close>: ports in turn, the address of active data
  connections, and failing handshakes. \<open>FtpTransfer\<close>: what \<open>RETR\<close> sends.

  Port mapping (\<open>internal/natpmp\<close>, \<open>internal/upnpigd\<close>). \<open>NatPmp\<close>: the packets of NAT-PMP byte for byte, that
  they are read back as they were written, and the rounds of the loop that keeps a port mapped. \<open>Upnp\<close>:
  discovery, the tree of devices, SOAP messages and their escaping; what a message asks for is what an
  XML reader finds in it. \<open>GoIp\<close> prints addresses. \<open>FtpGateway\<close>: the answers of the gateway that the commands
  of \<open>FtpSession\<close> read are those of the two clients, so that a passive port counts as mapped exactly when a
  gateway confirmed it; listening, accepting connections, and the loop over UPnP.

  HTTP (\<open>internal/httpapi\<close>, \<open>internal/cloudflare\<close>). \<open>HttpText\<close>, \<open>HttpActivity\<close>: functions on requests and
  events. \<open>HttpServer\<close>: the server's state and what a handler does to a response. \<open>HttpAuth\<close>: sessions,
  cookies, signing in, and the guard of the administrator's routes. \<open>HttpFiles\<close>, \<open>HttpUploads\<close>,
  \<open>HttpShares\<close>, \<open>HttpAdmin\<close>: the handlers. \<open>HttpRoutes\<close>: the routes and the mux. \<open>Cloudflare\<close>: the client of
  the cache. \<open>HttpGuard\<close>: without an administrator's credentials a guarded route does nothing.
  \<open>HttpSessions\<close>: which cookies are accepted. \<open>HttpLinks\<close>: who gets through a public link, and what is
  counted. \<open>HttpChunks\<close>: a part file is what was received of its chunks. \<open>UploadLocks\<close>: the locks of part
  files under every interleaving. \<open>HttpDrops\<close>: uploads through a link that may not replace leave every
  file as it was. \<open>HttpTemplates\<close>: the functions that the templates call; the addresses of the
  administrator's pages are read back as they were made. \<open>HttpSteady\<close>: what no request changes, and
  through which calls the stores change.

  The program (\<open>cmd/macftpd\<close>). \<open>Startup\<close>: \<open>main\<close>, from the configuration to the two servers, with every
  failure on the way, and what a program that starts has. \<open>Program\<close>: both servers over their shared stores
  as one state, the events that change it (connections, lines, disconnections, requests), and the
  invariant of every run from the start.

  Bounds. The recursion of \<open>Copy\<close> gets as many levels as the tree is deep, and two; \<open>StorageCopy\<close> proves
  that it never needs more. The walk of retained files gets the depth of the tree. A staged upload tries
  ten names, as the code does, the parser of IPv6 addresses has the eight groups of the code, and
  \<open>Create\<close> draws identifiers from a list, and does not answer when all of them are taken. Integers are
  kept in the range of an \<open>int64\<close> where the code can leave it.

  Not modelled. Symbolic links: the storage code refuses to leave its root through \<open>os.Root\<close>, and
  the model's trees have none. The codecs of \<open>encoding/json\<close>, \<open>pbkdf2\<close>, \<open>url.Parse\<close>, \<open>time.ParseDuration\<close>,
  MIME types, HTTP preconditions and what the network, Cloudflare, Turnstile and a remote FTP server answer
  are parameters, as are the decoding of XML, the resolution of URLs and what a gateway answers to a packet
  or a message. HTML templates are named with their data and not rendered. Signals, the graceful shutdown
  of the HTTP server and the runtime figures of the status page are left out. Requests run one at a time,
  a line of a control connection too: \<open>Program\<close> interleaves them whole. \<open>RateLimit\<close>, \<open>ShareStore\<close>,
  \<open>StatusTracker\<close> and \<open>UploadLocks\<close> say what holds when the calls of handlers interleave.
\<close>

end
